(* ===== verification/Prelude.thy ===== *)
theory Prelude
  imports Main "HOL-Library.Multiset" "HOL-Library.Sublist"
begin

text \<open>
  Shared vocabulary of the development: Go strings as byte lists, the Go library routines
  the generator calls on them, errors as values, and the generic lemmas every component uses.

  A Go \<^verbatim>\<open>error\<close> is built by \<^verbatim>\<open>fmt.Errorf\<close>. The model keeps the format string and the
  rendered arguments, so each refusal of the source is a distinct value; \<open>Wrapf\<close> is
  the \<^verbatim>\<open>%w\<close> form. A function returning \<^verbatim>\<open>(T, error)\<close> returns \<open>error + T\<close>.

  Letter case: \<^verbatim>\<open>strings.ToLower\<close> and \<^verbatim>\<open>strings.EqualFold\<close> are modelled on the bytes of ASCII
  letters. Type names and function names in ClickHouse are ASCII; bytes from 128 on are left
  alone, so Unicode case folding of other letters is outside the model.
\<close>

named_theorems type_simps \<open>unfolding rules for the structural tests on ClickHouse types\<close>
named_theorems wrapper_simps \<open>rules about the transport wrappers of a type\<close>

section \<open>Errors as values\<close>

datatype error = Errorf string "string list" | Wrapf string "string list" error

type_synonym 'a result = "error + 'a"

definition bind_res :: "'e + 'a \<Rightarrow> ('a \<Rightarrow> 'e + 'b) \<Rightarrow> 'e + 'b" where
  "bind_res m f = (case m of Inl e \<Rightarrow> Inl e | Inr x \<Rightarrow> f x)"

lemma bind_res_simps [simp]:
  "bind_res (Inl e) f = Inl e"
  "bind_res (Inr x) f = f x"
  by (simp_all add: bind_res_def)

lemma bind_res_eq_Inr [simp]: "bind_res m f = Inr y \<longleftrightarrow> (\<exists>x. m = Inr x \<and> f x = Inr y)"
  by (cases m) auto

lemma bind_res_eq_Inl: "bind_res m f = Inl e \<longleftrightarrow> m = Inl e \<or> (\<exists>x. m = Inr x \<and> f x = Inl e)"
  by (cases m) auto

lemma bind_res_cong [fundef_cong]:
  assumes "m = m'" and "\<And>x. m' = Inr x \<Longrightarrow> f x = f' x"
  shows "bind_res m f = bind_res m' f'"
  using assms by (cases m') auto

text \<open>The Go idiom of wrapping the error of a call with \<^verbatim>\<open>%w\<close> and returning it.\<close>

definition wrap_error :: "string \<Rightarrow> string list \<Rightarrow> 'a result \<Rightarrow> 'a result" where
  "wrap_error fmt args m = (case m of Inl e \<Rightarrow> Inl (Wrapf fmt args e) | Inr x \<Rightarrow> Inr x)"

lemma wrap_error_eq_Inr [simp]: "wrap_error fmt args m = Inr y \<longleftrightarrow> m = Inr y"
  by (cases m) (auto simp: wrap_error_def)

definition is_ok :: "'e + 'a \<Rightarrow> bool" where
  "is_ok m = (case m of Inl _ \<Rightarrow> False | Inr _ \<Rightarrow> True)"

lemma is_ok_simps [simp]: "is_ok (Inl e) = False" "is_ok (Inr x) = True"
  by (simp_all add: is_ok_def)

lemma is_ok_iff: "is_ok m \<longleftrightarrow> (\<exists>x. m = Inr x)"
  by (cases m) auto

lemma is_ok_bind_res: "is_ok (bind_res m f) \<longleftrightarrow> (\<exists>x. m = Inr x \<and> is_ok (f x))"
  by (cases m) auto

lemma is_ok_wrap_error [simp]: "is_ok (wrap_error fmt args m) = is_ok m"
  by (cases m) (simp_all add: wrap_error_def)

lemma is_ok_case_option [simp]:
  "is_ok (case x of None \<Rightarrow> Inl e | Some y \<Rightarrow> Inr (f y)) \<longleftrightarrow> x \<noteq> None"
  by (cases x) simp_all

text \<open>A loop that computes one value per element and stops at the first error.\<close>

fun map_res :: "('a \<Rightarrow> 'e + 'b) \<Rightarrow> 'a list \<Rightarrow> 'e + 'b list" where
  "map_res f [] = Inr []"
| "map_res f (x # xs) = bind_res (f x) (\<lambda>y. bind_res (map_res f xs) (\<lambda>ys. Inr (y # ys)))"

lemma map_res_cong [fundef_cong]:
  assumes "xs = ys" and "\<And>x. x \<in> set ys \<Longrightarrow> f x = g x"
  shows "map_res f xs = map_res g ys"
proof -
  have "(\<And>x. x \<in> set ys \<Longrightarrow> f x = g x) \<Longrightarrow> map_res f ys = map_res g ys"
    by (induction ys) auto
  with assms show ?thesis by simp
qed

lemma map_res_Inr_list_all2: "map_res f xs = Inr ys \<longleftrightarrow> list_all2 (\<lambda>x y. f x = Inr y) xs ys"
  by (induction xs arbitrary: ys) (auto simp: list_all2_Cons1)

lemma map_res_length: "map_res f xs = Inr ys \<Longrightarrow> length ys = length xs"
  by (auto simp: map_res_Inr_list_all2 dest: list_all2_lengthD)

lemma map_res_nth: "map_res f xs = Inr ys \<Longrightarrow> i < length xs \<Longrightarrow> f (xs ! i) = Inr (ys ! i)"
  by (auto simp: map_res_Inr_list_all2 dest: list_all2_nthD)

lemma map_res_Inr_id: "(\<And>x. x \<in> set xs \<Longrightarrow> f x = Inr (g x)) \<Longrightarrow> map_res f xs = Inr (map g xs)"
  by (induction xs) auto

text \<open>A loop that threads an accumulator and stops at the first error.\<close>

fun fold_res :: "('a \<Rightarrow> 'b \<Rightarrow> 'e + 'b) \<Rightarrow> 'a list \<Rightarrow> 'b \<Rightarrow> 'e + 'b" where
  "fold_res f [] acc = Inr acc"
| "fold_res f (x # xs) acc = bind_res (f x acc) (fold_res f xs)"

lemma fold_res_invariant:
  assumes "fold_res f xs acc = Inr r" and "P acc"
    and "\<And>x a b. x \<in> set xs \<Longrightarrow> P a \<Longrightarrow> f x a = Inr b \<Longrightarrow> P b"
  shows "P r"
  using assms
proof (induction xs arbitrary: acc)
  case Nil
  then show ?case by simp
next
  case (Cons x xs)
  from Cons.prems(1) obtain b where "f x acc = Inr b" "fold_res f xs b = Inr r" by auto
  then show ?case using Cons.IH [of b] Cons.prems(2,3) by (metis list.set_intros)
qed

section \<open>Go strings\<close>

text \<open>The lower-case form of one byte: the letters \<open>A\<close> to \<open>Z\<close> (65 to 90) move up by 32.\<close>

definition lower_char :: "char \<Rightarrow> char" where
  "lower_char c = (if 65 \<le> (of_char c :: nat) \<and> (of_char c :: nat) \<le> 90
     then char_of ((of_char c :: nat) + 32) else c)"

lemma lower_char_Char [simp, code]:
  "lower_char (Char b0 b1 b2 b3 b4 b5 b6 b7) =
     (if \<not> b7 \<and> b6 \<and> \<not> b5 \<and> (b0 \<or> b1 \<or> b2 \<or> b3 \<or> b4) \<and> \<not> (b4 \<and> b3 \<and> (b2 \<or> b1 \<and> b0))
      then Char b0 b1 b2 b3 b4 True b6 b7 else Char b0 b1 b2 b3 b4 b5 b6 b7)"
  by (cases b0; cases b1; cases b2; cases b3; cases b4; cases b5; cases b6; cases b7)
     (simp_all add: lower_char_def char_of_def bit_0)

lemma lower_char_idem [simp]: "lower_char (lower_char c) = lower_char c"
  by (cases c) simp

definition to_lower :: "string \<Rightarrow> string" where
  "to_lower = map lower_char"

lemma to_lower_simps [simp]:
  "to_lower [] = []"
  "to_lower (c # cs) = lower_char c # to_lower cs"
  "to_lower (xs @ ys) = to_lower xs @ to_lower ys"
  by (simp_all add: to_lower_def)

lemma to_lower_idem [simp]: "to_lower (to_lower s) = to_lower s"
  by (induction s) auto

lemma length_to_lower [simp]: "length (to_lower s) = length s"
  by (simp add: to_lower_def)

definition equal_fold :: "string \<Rightarrow> string \<Rightarrow> bool" where
  "equal_fold s t \<longleftrightarrow> to_lower s = to_lower t"

lemma equal_fold_refl [simp]: "equal_fold s s"
  by (simp add: equal_fold_def)

lemma equal_fold_sym: "equal_fold s t \<longleftrightarrow> equal_fold t s"
  by (auto simp: equal_fold_def)

definition has_prefix :: "string \<Rightarrow> string \<Rightarrow> bool" where
  "has_prefix s p \<longleftrightarrow> take (length p) s = p"

definition has_suffix :: "string \<Rightarrow> string \<Rightarrow> bool" where
  "has_suffix s p \<longleftrightarrow> length p \<le> length s \<and> drop (length s - length p) s = p"

lemma has_prefix_append [simp]: "has_prefix (p @ s) p"
  by (simp add: has_prefix_def)

lemma has_prefix_length: "has_prefix s p \<Longrightarrow> length p \<le> length s"
  by (auto simp: has_prefix_def dest!: arg_cong [where f = length])

lemma has_prefix_decomp: "has_prefix s p \<Longrightarrow> s = p @ drop (length p) s"
  by (metis append_take_drop_id has_prefix_def)

definition is_space :: "char \<Rightarrow> bool" where
  "is_space c \<longleftrightarrow> c = CHR 0x20 \<or> c = CHR 0x09 \<or> c = CHR 0x0A \<or> c = CHR 0x0B \<or> c = CHR 0x0C \<or> c = CHR 0x0D"

definition trim_space :: "string \<Rightarrow> string" where
  "trim_space s = rev (dropWhile is_space (rev (dropWhile is_space s)))"

definition trim_suffix :: "string \<Rightarrow> string \<Rightarrow> string" where
  "trim_suffix s p = (if has_suffix s p then take (length s - length p) s else s)"

definition is_upper :: "char \<Rightarrow> bool" where "is_upper c \<longleftrightarrow> (let n = (of_char c :: nat) in 65 \<le> n \<and> n \<le> 90)"
definition is_lower :: "char \<Rightarrow> bool" where "is_lower c \<longleftrightarrow> (let n = (of_char c :: nat) in 97 \<le> n \<and> n \<le> 122)"

definition to_upper :: "string \<Rightarrow> string" where
  "to_upper s = map (\<lambda>c. if is_lower c then char_of ((of_char c :: nat) - 32) else c) s"

text \<open>\<^verbatim>\<open>strings.Fields\<close>: the maximal runs of non-space bytes.\<close>

fun fields_from :: "string \<Rightarrow> string \<Rightarrow> string list" where
  "fields_from acc [] = (if acc = [] then [] else [rev acc])"
| "fields_from acc (c # cs) =
     (if is_space c then (if acc = [] then fields_from [] cs else rev acc # fields_from [] cs)
      else fields_from (c # acc) cs)"

definition go_fields :: "string \<Rightarrow> string list" where
  "go_fields s = fields_from [] s"

fun join :: "string \<Rightarrow> string list \<Rightarrow> string" where
  "join sep [] = []"
| "join sep [x] = x"
| "join sep (x # y # ys) = x @ sep @ join sep (y # ys)"

section \<open>Decimal numerals\<close>

definition digit_char :: "nat \<Rightarrow> char" where
  "digit_char d = char_of (48 + d)"

definition digit_value :: "char \<Rightarrow> int option" where
  "digit_value c = (let n = (of_char c :: int) in if 48 \<le> n \<and> n \<le> 57 then Some (n - 48) else None)"

fun itoa_nat :: "nat \<Rightarrow> string" where
  "itoa_nat n = (if n < 10 then [digit_char n] else itoa_nat (n div 10) @ [digit_char (n mod 10)])"

declare itoa_nat.simps [simp del]

text \<open>\<^verbatim>\<open>strconv.Itoa\<close>.\<close>

definition itoa :: "int \<Rightarrow> string" where
  "itoa i = (if i < 0 then CHR ''-'' # itoa_nat (nat (- i)) else itoa_nat (nat i))"

fun digits_value :: "int \<Rightarrow> string \<Rightarrow> int option" where
  "digits_value acc [] = Some acc"
| "digits_value acc (c # cs) =
     (case digit_value c of None \<Rightarrow> None | Some d \<Rightarrow> digits_value (10 * acc + d) cs)"

text \<open>
  \<^verbatim>\<open>strconv.Atoi\<close>: an optional sign, at least one digit, and a value of the 64-bit signed
  range; every other string is an error (\<open>None\<close>).
\<close>

definition unsigned_digits :: "string \<Rightarrow> int option" where
  "unsigned_digits s = (if s = [] then None else digits_value 0 s)"

definition in_int64 :: "int \<Rightarrow> bool" where
  "in_int64 i \<longleftrightarrow> - (2 ^ 63) \<le> i \<and> i < 2 ^ 63"

definition atoi :: "string \<Rightarrow> int option" where
  "atoi s = (case (case s of
       [] \<Rightarrow> None
     | c # cs \<Rightarrow> (if c = CHR ''-'' then map_option uminus (unsigned_digits cs)
                 else if c = CHR ''+'' then unsigned_digits cs
                 else unsigned_digits s)) of
     None \<Rightarrow> None
   | Some i \<Rightarrow> (if in_int64 i then Some i else None))"

lemma digit_value_digit_char [simp]: "d < 10 \<Longrightarrow> digit_value (digit_char d) = Some (int d)"
proof -
  assume "d < 10"
  then have "(of_char (digit_char d) :: nat) = 48 + d" by (simp add: digit_char_def)
  then have "(of_char (digit_char d) :: int) = 48 + int d"
    by (metis of_nat_add of_nat_numeral of_nat_of_char)
  with \<open>d < 10\<close> show ?thesis by (simp add: digit_value_def)
qed

lemma digits_value_append:
  "digits_value acc (xs @ ys) = (case digits_value acc xs of None \<Rightarrow> None | Some a \<Rightarrow> digits_value a ys)"
  by (induction xs arbitrary: acc) (auto split: option.splits)

lemma div_mod_10_int: "10 * int (n div 10) + int (n mod 10) = int n"
  by (simp add: zdiv_int zmod_int)

lemma digits_value_itoa_nat: "digits_value 0 (itoa_nat n) = Some (int n)"
proof (induction n rule: itoa_nat.induct)
  case (1 n)
  then show ?case
    by (cases "n < 10") (simp_all add: itoa_nat.simps [of n] digits_value_append div_mod_10_int)
qed

lemma itoa_nat_nonempty [simp]: "itoa_nat n \<noteq> []"
  by (subst itoa_nat.simps) simp

lemma itoa_nat_digits: "c \<in> set (itoa_nat n) \<Longrightarrow> 48 \<le> (of_char c :: nat) \<and> (of_char c :: nat) \<le> 57"
proof (induction n rule: itoa_nat.induct)
  case (1 n)
  then show ?case
    by (cases "n < 10") (auto simp: itoa_nat.simps [of n] digit_char_def)
qed

lemma hd_itoa_nat_not_sign: "hd (itoa_nat n) \<noteq> CHR ''-''" "hd (itoa_nat n) \<noteq> CHR ''+''"
proof -
  have "48 \<le> (of_char (hd (itoa_nat n)) :: nat)"
    using itoa_nat_digits [of "hd (itoa_nat n)" n] by simp
  then show "hd (itoa_nat n) \<noteq> CHR ''-''" "hd (itoa_nat n) \<noteq> CHR ''+''" by auto
qed

text \<open>Printing a 64-bit integer and reading it back gives the integer.\<close>

lemma atoi_itoa [simp]: "in_int64 i \<Longrightarrow> atoi (itoa i) = Some i"
proof (cases "i < 0")
  case True
  assume "in_int64 i"
  with True show ?thesis
    by (simp add: atoi_def itoa_def unsigned_digits_def digits_value_itoa_nat)
next
  case False
  assume b: "in_int64 i"
  obtain c cs where s: "itoa_nat (nat i) = c # cs" by (meson itoa_nat_nonempty neq_Nil_conv)
  then have "c \<noteq> CHR ''-''" "c \<noteq> CHR ''+''" using hd_itoa_nat_not_sign [of "nat i"] by simp_all
  with s b False show ?thesis
    using digits_value_itoa_nat [of "nat i"]
    by (simp add: atoi_def itoa_def unsigned_digits_def)
qed

lemma itoa_inj: "in_int64 i \<Longrightarrow> in_int64 j \<Longrightarrow> itoa i = itoa j \<Longrightarrow> i = j"
  by (metis atoi_itoa option.inject)

lemma not_space_itoa_nat: "c \<in> set (itoa_nat n) \<Longrightarrow> \<not> is_space c"
  using itoa_nat_digits [of c n] by (auto simp: is_space_def)

lemma dropWhile_no_match: "(\<And>c. c \<in> set s \<Longrightarrow> \<not> P c) \<Longrightarrow> dropWhile P s = s"
  by (cases s) auto

lemma not_space_itoa: "c \<in> set (itoa i) \<Longrightarrow> \<not> is_space c"
  by (auto simp: itoa_def dest: not_space_itoa_nat split: if_splits) (simp add: is_space_def)

lemma trim_space_itoa [simp]: "trim_space (itoa i) = itoa i"
proof -
  have "dropWhile is_space (itoa i) = itoa i" "dropWhile is_space (rev (itoa i)) = rev (itoa i)"
    using not_space_itoa [of _ i] by (auto intro!: dropWhile_no_match)
  then show ?thesis by (simp add: trim_space_def)
qed

section \<open>Lists and sums\<close>

lemma those_map: "those (map f xs) = (if \<forall>x \<in> set xs. f x \<noteq> None then Some (map (the \<circ> f) xs) else None)"
  by (induction xs) (auto split: option.splits)

lemma foldl_max_eq: "foldl (\<lambda>m x. if f x > m then f x else m) (a::'b::linorder) xs = Max (insert a (f ` set xs))"
proof (induction xs arbitrary: a)
  case Nil
  then show ?case by simp
next
  case (Cons x xs)
  have "(if f x > a then f x else a) = max a (f x)" by (auto simp: max_def)
  then show ?case using Cons [of "max a (f x)"]
    by (cases "xs = []") (simp_all add: max.assoc)
qed

lemma sum_list_member_le: "x \<in> set xs \<Longrightarrow> f x \<le> (sum_list (map f xs) :: nat)"
  by (induction xs) auto

lemma list_of_length_one: "length xs = 1 \<longleftrightarrow> (\<exists>x. xs = [x])"
  by (cases xs) auto

lemma list_of_length_two: "length xs = 2 \<longleftrightarrow> (\<exists>x y. xs = [x, y])"
  by (cases xs; cases "tl xs") auto

text \<open>Two results agree when both fail, or both succeed with related values.\<close>

definition agree :: "('a \<Rightarrow> 'b \<Rightarrow> bool) \<Rightarrow> 'e + 'a \<Rightarrow> 'e + 'b \<Rightarrow> bool" where
  "agree R m n = (case m of
       Inl _ \<Rightarrow> (case n of Inl _ \<Rightarrow> True | Inr _ \<Rightarrow> False)
     | Inr x \<Rightarrow> (case n of Inl _ \<Rightarrow> False | Inr y \<Rightarrow> R x y))"

lemma agree_simps [simp]:
  "agree R (Inl e) (Inl f) = True"
  "agree R (Inl e) (Inr y) = False"
  "agree R (Inr x) (Inl f) = False"
  "agree R (Inr x) (Inr y) = R x y"
  by (simp_all add: agree_def)

lemma agree_is_ok: "agree R m n \<Longrightarrow> is_ok m = is_ok n"
  by (cases m; cases n) auto

lemma agree_bind:
  assumes "agree R m n" and "\<And>x y. m = Inr x \<Longrightarrow> n = Inr y \<Longrightarrow> R x y \<Longrightarrow> agree S (f x) (g y)"
  shows "agree S (bind_res m f) (bind_res n g)"
  using assms by (cases m; cases n) auto

lemma agree_map_res:
  assumes "list_all2 (\<lambda>x y. agree R (f x) (g y)) xs ys"
  shows "agree (list_all2 R) (map_res f xs) (map_res g ys)"
  using assms
proof (induction rule: list_all2_induct)
  case Nil
  then show ?case by simp
next
  case (Cons x xs y ys)
  then show ?case by (auto intro!: agree_bind [where R = R] agree_bind [where R = "list_all2 R"])
qed

end
