(* ===== verification/CHTypes.thy ===== *)
theory CHTypes
  imports Prelude
begin

text \<open>
  ClickHouse types as the generator holds them (\<^verbatim>\<open>CHType\<close> of
  \<^verbatim>\<open>internal/engine/schema.go\<close>), their rendering, and the name tables that canonicalise a
  declared type name. \<open>Name t\<close> compared through \<^verbatim>\<open>strings.EqualFold\<close> or \<^verbatim>\<open>strings.ToLower\<close>
  is \<open>named t s\<close>, with \<open>s\<close> the lower-case form of the literal.
\<close>

section \<open>The type tree\<close>

datatype chtype = CHType (Name: string) (Params: "chtype list") (LiteralParams: "string list")
  (ParamNames: "string list")

abbreviation ty0 :: "string \<Rightarrow> chtype" where
  "ty0 n \<equiv> CHType n [] [] []"

abbreviation ty1 :: "string \<Rightarrow> chtype list \<Rightarrow> chtype" where
  "ty1 n ps \<equiv> CHType n ps [] []"

abbreviation tyl :: "string \<Rightarrow> string list \<Rightarrow> chtype" where
  "tyl n ls \<equiv> CHType n [] ls []"

definition named :: "chtype \<Rightarrow> string \<Rightarrow> bool" where
  "named t s \<longleftrightarrow> to_lower (Name t) = s"

lemma named_CHType [simp]: "named (CHType n ps ls ns) s \<longleftrightarrow> to_lower n = s"
  by (simp add: named_def)

definition with_params :: "chtype \<Rightarrow> chtype list \<Rightarrow> chtype" where
  "with_params t ps = CHType (Name t) ps (LiteralParams t) (ParamNames t)"

lemma with_params_sel [simp]:
  "Name (with_params t ps) = Name t" "Params (with_params t ps) = ps"
  "LiteralParams (with_params t ps) = LiteralParams t" "ParamNames (with_params t ps) = ParamNames t"
  "named (with_params t ps) s = named t s"
  by (simp_all add: with_params_def named_def)

lemma with_params_same [simp]: "with_params t (Params t) = t"
  by (cases t) (simp add: with_params_def)

text \<open>The node count, the measure of every recursion over types.\<close>

primrec tsize :: "chtype \<Rightarrow> nat" where
  "tsize (CHType n ps ls ns) = Suc (sum_list (map tsize ps))"

lemma tsize_pos [simp]: "0 < tsize t"
  by (cases t) simp

lemma Suc_le_tsize [simp]: "Suc 0 \<le> tsize t"
  by (cases t) simp

lemma tsize_param: "p \<in> set (Params t) \<Longrightarrow> tsize p < tsize t"
  by (cases t) (auto simp: less_Suc_eq_le sum_list_member_le)

lemma tsize_hd_param: "Params t \<noteq> [] \<Longrightarrow> tsize (hd (Params t)) < tsize t"
  by (simp add: tsize_param)

lemma tsize_params_one: "Params t = [p] \<Longrightarrow> tsize t = Suc (tsize p)"
  by (cases t) simp

lemma tsize_nth_param: "i < length (Params t) \<Longrightarrow> tsize (Params t ! i) < tsize t"
  by (simp add: tsize_param)

lemma tsize_zip_params:
  "(a, b) \<in> set (zip (Params t) (Params u)) \<Longrightarrow> tsize a < tsize t \<and> tsize b < tsize u"
  by (meson in_set_zipE tsize_param)

text \<open>A predicate on every node of a type.\<close>

primrec all_nodes :: "(chtype \<Rightarrow> bool) \<Rightarrow> chtype \<Rightarrow> bool" where
  "all_nodes P (CHType n ps ls ns) \<longleftrightarrow> P (CHType n ps ls ns) \<and> list_all (all_nodes P) ps"

lemma all_nodes_root: "all_nodes P t \<Longrightarrow> P t"
  by (cases t) simp

lemma all_nodes_param: "all_nodes P t \<Longrightarrow> p \<in> set (Params t) \<Longrightarrow> all_nodes P p"
  by (cases t) (auto simp: list_all_iff)

lemma all_nodes_iff: "all_nodes P t \<longleftrightarrow> P t \<and> (\<forall>p \<in> set (Params t). all_nodes P p)"
  by (cases t) (auto simp: list_all_iff)

text \<open>\<^verbatim>\<open>CHType.String\<close>: literal parameters first, then the type parameters with their names.\<close>

definition param_label :: "string \<Rightarrow> string \<Rightarrow> string" where
  "param_label s nm = (if nm \<noteq> [] then nm @ '' '' @ s else s)"

fun to_string :: "chtype \<Rightarrow> string" where
  "to_string (CHType n ps ls ns) =
     (if ps = [] \<and> ls = [] then n
      else n @ ''('' @ join '', '' (ls @ map (\<lambda>(s, nm). param_label s nm)
             (zip (map to_string ps) (ns @ replicate (length ps) []))) @ '')'')"

section \<open>Canonical names\<close>

text \<open>\<^verbatim>\<open>strings.ToLower(strings.Join(strings.Fields(name), " "))\<close>.\<close>

definition normalize_spelling :: "string \<Rightarrow> string" where
  "normalize_spelling name = to_lower (join '' '' (go_fields name))"

definition type_aliases :: "(string \<times> string) list" where
  "type_aliases = [
    (''int'', ''Int32''), (''int signed'', ''Int32''), (''integer'', ''Int32''),
    (''integer signed'', ''Int32''), (''mediumint'', ''Int32''), (''mediumint signed'', ''Int32''),
    (''int unsigned'', ''UInt32''), (''integer unsigned'', ''UInt32''),
    (''mediumint unsigned'', ''UInt32''), (''bigint'', ''Int64''), (''bigint signed'', ''Int64''),
    (''signed'', ''Int64''), (''bigint unsigned'', ''UInt64''), (''unsigned'', ''UInt64''),
    (''bit'', ''UInt64''), (''smallint'', ''Int16''), (''smallint signed'', ''Int16''),
    (''smallint unsigned'', ''UInt16''), (''tinyint'', ''Int8''), (''tinyint signed'', ''Int8''),
    (''int1'', ''Int8''), (''int1 signed'', ''Int8''), (''byte'', ''Int8''),
    (''tinyint unsigned'', ''UInt8''), (''int1 unsigned'', ''UInt8''), (''float'', ''Float32''),
    (''real'', ''Float32''), (''single'', ''Float32''), (''double'', ''Float64''),
    (''double precision'', ''Float64''), (''year'', ''UInt16''), (''bool'', ''Bool''),
    (''boolean'', ''Bool''), (''dec'', ''Decimal''), (''fixed'', ''Decimal''),
    (''numeric'', ''Decimal'')]"

definition canonical_names :: "(string \<times> string) list" where
  "canonical_names = [
    (''array'', ''Array''), (''map'', ''Map''), (''nullable'', ''Nullable''),
    (''lowcardinality'', ''LowCardinality''), (''string'', ''String''),
    (''fixedstring'', ''FixedString''), (''bool'', ''Bool''), (''date'', ''Date''),
    (''date32'', ''Date32''), (''datetime'', ''DateTime''), (''datetime64'', ''DateTime64''),
    (''uuid'', ''UUID''), (''ipv4'', ''IPv4''), (''ipv6'', ''IPv6''), (''decimal'', ''Decimal''),
    (''decimal32'', ''Decimal32''), (''decimal64'', ''Decimal64''),
    (''decimal128'', ''Decimal128''), (''decimal256'', ''Decimal256''), (''enum'', ''Enum''),
    (''enum8'', ''Enum8''), (''enum16'', ''Enum16'')]"

definition canonicalCHTypeName :: "string \<Rightarrow> string" where
  "canonicalCHTypeName name =
     (let normalized = normalize_spelling name in
      case map_of type_aliases normalized of
        Some canonical \<Rightarrow> canonical
      | None \<Rightarrow> (case map_of canonical_names normalized of
                   Some canonical \<Rightarrow> canonical
                 | None \<Rightarrow> name))"

definition normalizedName :: "chtype \<Rightarrow> string" where
  "normalizedName t = to_lower (canonicalCHTypeName (Name t))"

definition measured_type_aliases :: "string list" where
  "measured_type_aliases = [
    ''int'', ''int signed'', ''integer'', ''integer signed'', ''mediumint'', ''mediumint signed'',
    ''int unsigned'', ''integer unsigned'', ''mediumint unsigned'', ''bigint'', ''bigint signed'',
    ''signed'', ''bigint unsigned'', ''unsigned'', ''bit'', ''smallint'', ''smallint signed'',
    ''smallint unsigned'', ''tinyint'', ''tinyint signed'', ''int1'', ''int1 signed'', ''byte'',
    ''tinyint unsigned'', ''int1 unsigned'', ''year'', ''float'', ''real'', ''single'', ''double'',
    ''double precision'', ''bool'', ''boolean'', ''dec'', ''fixed'', ''numeric'', ''decimal'',
    ''datetime'', ''datetime64'']"

definition isMeasuredCaseInsensitiveTypeAlias :: "string \<Rightarrow> bool" where
  "isMeasuredCaseInsensitiveTypeAlias name \<longleftrightarrow> name \<in> set measured_type_aliases"

definition family_spellings :: "(string \<times> string) list" where
  "family_spellings = [
    (''array'', ''Array''), (''map'', ''Map''), (''nullable'', ''Nullable''),
    (''lowcardinality'', ''LowCardinality''),
    (''simpleaggregatefunction'', ''SimpleAggregateFunction''),
    (''aggregatefunction'', ''AggregateFunction''), (''tuple'', ''Tuple''),
    (''nested'', ''Nested''), (''variant'', ''Variant''), (''dynamic'', ''Dynamic''),
    (''json'', ''JSON''), (''string'', ''String''), (''fixedstring'', ''FixedString''),
    (''date'', ''Date''), (''date32'', ''Date32''), (''uuid'', ''UUID''), (''ipv4'', ''IPv4''),
    (''ipv6'', ''IPv6''), (''int8'', ''Int8''), (''int16'', ''Int16''), (''int32'', ''Int32''),
    (''int64'', ''Int64''), (''int128'', ''Int128''), (''int256'', ''Int256''),
    (''uint8'', ''UInt8''), (''uint16'', ''UInt16''), (''uint32'', ''UInt32''),
    (''uint64'', ''UInt64''), (''uint128'', ''UInt128''), (''uint256'', ''UInt256''),
    (''float32'', ''Float32''), (''float64'', ''Float64''), (''decimal32'', ''Decimal32''),
    (''decimal64'', ''Decimal64''), (''decimal128'', ''Decimal128''),
    (''decimal256'', ''Decimal256''), (''enum'', ''Enum''), (''enum8'', ''Enum8''),
    (''enum16'', ''Enum16''), (''point'', ''Point''), (''ring'', ''Ring''),
    (''linestring'', ''LineString''), (''polygon'', ''Polygon''),
    (''multilinestring'', ''MultiLineString''), (''multipolygon'', ''MultiPolygon'')]"

definition validateTypeFamilySpelling :: "string \<Rightarrow> unit result" where
  "validateTypeFamilySpelling name =
     (let normalized = normalize_spelling name in
      if isMeasuredCaseInsensitiveTypeAlias normalized then Inr ()
      else case map_of family_spellings normalized of
             Some expected \<Rightarrow>
               (if name \<noteq> expected
                then Inl (Errorf ''ClickHouse type family %s is case-sensitive; use %s'' [name, expected])
                else Inr ())
           | None \<Rightarrow> Inr ())"

definition zero_argument_types :: "string list" where
  "zero_argument_types = [
    ''string'', ''bool'', ''date'', ''date32'', ''uuid'', ''ipv4'', ''ipv6'', ''int8'', ''int16'',
    ''int32'', ''int64'', ''uint8'', ''uint16'', ''uint32'', ''uint64'', ''float32'', ''float64'']"

definition isZeroArgumentSupportedType :: "string \<Rightarrow> bool" where
  "isZeroArgumentSupportedType name \<longleftrightarrow> to_lower name \<in> set zero_argument_types"

definition integer_aliases :: "string list" where
  "integer_aliases = [
    ''int'', ''int signed'', ''integer'', ''integer signed'', ''mediumint'', ''mediumint signed'',
    ''int unsigned'', ''integer unsigned'', ''mediumint unsigned'', ''bigint'', ''bigint signed'',
    ''signed'', ''bigint unsigned'', ''unsigned'', ''bit'', ''smallint'', ''smallint signed'',
    ''smallint unsigned'', ''tinyint'', ''tinyint signed'', ''int1'', ''int1 signed'', ''byte'',
    ''tinyint unsigned'', ''int1 unsigned'', ''year'']"

definition isIntegerTypeAlias :: "string \<Rightarrow> bool" where
  "isIntegerTypeAlias name \<longleftrightarrow> normalize_spelling name \<in> set integer_aliases"

definition floatAliasCanonicalName :: "string \<Rightarrow> string option" where
  "floatAliasCanonicalName name =
     (let n = normalize_spelling name in
      if n \<in> {''float'', ''real'', ''single''} then Some ''Float32''
      else if n \<in> {''double'', ''double precision''} then Some ''Float64''
      else None)"

definition isEnumTypeName :: "string \<Rightarrow> bool" where
  "isEnumTypeName name \<longleftrightarrow> to_lower name \<in> {''enum'', ''enum8'', ''enum16''}"

section \<open>Basic facts\<close>

lemma canonical_no_match:
  "map_of type_aliases (normalize_spelling n) = None \<Longrightarrow>
   map_of canonical_names (normalize_spelling n) = None \<Longrightarrow> canonicalCHTypeName n = n"
  by (simp add: canonicalCHTypeName_def Let_def)

lemma fields_from_no_space:
  "(\<And>c. c \<in> set s \<Longrightarrow> \<not> is_space c) \<Longrightarrow> acc @ s \<noteq> [] \<Longrightarrow> fields_from acc s = [rev acc @ s]"
  by (induction s arbitrary: acc) auto

lemma normalize_spelling_word:
  "(\<And>c. c \<in> set s \<Longrightarrow> \<not> is_space c) \<Longrightarrow> normalize_spelling s = to_lower s"
  by (cases s) (auto simp: normalize_spelling_def go_fields_def fields_from_no_space)

end
