(* ===== verification/Interfaces.thy ===== *)
theory Interfaces
  imports Prelude
begin

text \<open>
  The contracts the components share. A join of types keeps the values of both arguments
  (\<open>value_join\<close>), on a carrier it is the least type that does (\<open>least_join\<close>); a codec takes the
  wrappers of a type apart and puts them back (\<open>codec\<close>); the steps of a component keep its invariant
  (\<open>transition_system\<close>) and are steps of its specification (\<open>simulation\<close>).
  The lemmas are proved once here and
  reach the model through the interpretations in the component theories.
\<close>

section \<open>Joins\<close>

locale value_join =
  fixes join :: "'t \<Rightarrow> 't \<Rightarrow> 'e + 't"
    and holds :: "'t \<Rightarrow> 'v \<Rightarrow> bool"
    and carrier :: "'t \<Rightarrow> bool"
  assumes closed: "join a b = Inr c \<Longrightarrow> carrier a \<Longrightarrow> carrier b \<Longrightarrow> carrier c"
    and join_upper: "join a b = Inr c \<Longrightarrow> carrier a \<Longrightarrow> carrier b \<Longrightarrow> holds a v \<or> holds b v \<Longrightarrow> holds c v"
begin

lemma fold_upper:
  assumes "fold_res (\<lambda>t acc. join acc t) ts t0 = Inr r" and "\<forall>t \<in> set (t0 # ts). carrier t"
    and "t \<in> set (t0 # ts)" and "holds t v"
  shows "holds r v"
  using assms
proof (induction ts arbitrary: t0 t)
  case Nil
  then show ?case by simp
next
  case (Cons x ts)
  then obtain t1 where j: "join t0 x = Inr t1" and f: "fold_res (\<lambda>t acc. join acc t) ts t1 = Inr r"
    by auto
  have c: "carrier t0" "carrier x" "carrier t1" using Cons.prems(2) closed [OF j] by auto
  have IH: "t' = t1 \<or> t' \<in> set ts \<Longrightarrow> holds t' v \<Longrightarrow> holds r v" for t'
    using Cons.IH [OF f, of t'] Cons.prems(2) c(3) by simp
  show ?case
  proof (cases "t \<in> set ts")
    case True
    with IH [of t] Cons.prems(4) show ?thesis by simp
  next
    case False
    with Cons.prems(3,4) have "holds t0 v \<or> holds x v" by auto
    then have "holds t1 v" by (rule join_upper [OF j c(1,2)])
    then show ?thesis using IH [of t1] by simp
  qed
qed

lemma fold_carrier:
  "fold_res (\<lambda>t acc. join acc t) ts t0 = Inr r \<Longrightarrow> \<forall>t \<in> set (t0 # ts). carrier t \<Longrightarrow> carrier r"
  by (rule fold_res_invariant [where P = carrier]) (auto intro: closed)

end

locale least_join = value_join join holds carrier
  for join :: "'t \<Rightarrow> 't \<Rightarrow> 'e + 't" and holds :: "'t \<Rightarrow> 'v \<Rightarrow> bool" and carrier :: "'t \<Rightarrow> bool" +
  assumes join_least: "join a b = Inr c \<Longrightarrow> carrier a \<Longrightarrow> carrier b \<Longrightarrow> carrier u \<Longrightarrow>
      (\<And>v. holds a v \<or> holds b v \<Longrightarrow> holds u v) \<Longrightarrow> holds c v \<Longrightarrow> holds u v"
begin

lemma fold_least:
  assumes "fold_res (\<lambda>t acc. join acc t) ts t0 = Inr r"
    and "\<forall>t \<in> set (t0 # ts). carrier t" and "carrier u"
    and "\<And>t v. t \<in> set (t0 # ts) \<Longrightarrow> holds t v \<Longrightarrow> holds u v" and "holds r v"
  shows "holds u v"
  using assms
proof (induction ts arbitrary: t0)
  case Nil
  then show ?case by simp
next
  case (Cons x ts)
  then obtain t1 where j: "join t0 x = Inr t1" and f: "fold_res (\<lambda>t acc. join acc t) ts t1 = Inr r"
    by auto
  have c: "carrier t1" using closed [OF j] Cons.prems(2) by simp
  have up: "holds u w" if "holds t1 w" for w
    using that by (rule join_least [OF j, rotated -1]) (use Cons.prems in auto)
  show ?case
    using Cons.prems by (intro Cons.IH [OF f]) (auto simp: c up)
qed

end

section \<open>Codecs\<close>

locale codec =
  fixes split :: "'t \<Rightarrow> 'p" and build :: "'p \<Rightarrow> 't" and legal :: "'t \<Rightarrow> bool"
  assumes build_split: "legal t \<Longrightarrow> build (split t) = t"
begin

lemma split_inj: "legal t \<Longrightarrow> legal u \<Longrightarrow> split t = split u \<Longrightarrow> t = u"
  using build_split by metis

lemma inj_on_split: "inj_on split (Collect legal)"
  by (rule inj_onI) (auto dest: split_inj)

end

section \<open>State machines\<close>

locale transition_system =
  fixes step :: "'s \<Rightarrow> 's \<Rightarrow> bool" and inv :: "'s \<Rightarrow> bool"
  assumes step_inv: "inv s \<Longrightarrow> step s s' \<Longrightarrow> inv s'"
begin

lemma steps_inv: "step\<^sup>*\<^sup>* s s' \<Longrightarrow> inv s \<Longrightarrow> inv s'"
  by (induction rule: rtranclp_induct) (auto intro: step_inv)

end

locale simulation = transition_system step inv
  for step :: "'s \<Rightarrow> 's \<Rightarrow> bool" and inv :: "'s \<Rightarrow> bool" +
  fixes abs :: "'s \<Rightarrow> 'a" and spec :: "'a \<Rightarrow> 'a \<Rightarrow> bool"
  assumes simulates: "inv s \<Longrightarrow> step s s' \<Longrightarrow> spec\<^sup>*\<^sup>* (abs s) (abs s')"
begin

lemma steps_simulate: "step\<^sup>*\<^sup>* s s' \<Longrightarrow> inv s \<Longrightarrow> spec\<^sup>*\<^sup>* (abs s) (abs s')"
proof (induction rule: rtranclp_induct)
  case (step s1 s2)
  moreover from step.hyps(1) step.prems have "inv s1" by (rule steps_inv)
  ultimately show ?case using simulates by (meson rtranclp_trans)
qed simp

end

end
