(* ===== verification/Wrappers.thy ===== *)
theory Wrappers
  imports CHTypes Interfaces
begin

text \<open>
  The transport wrappers of a type, \<^verbatim>\<open>LowCardinality\<close>, \<^verbatim>\<open>Nullable\<close> and the
  \<^verbatim>\<open>SimpleAggregateFunction\<close> marker: the two constructors that put a wrapper on
  (\<^verbatim>\<open>wrapNullable\<close> and \<^verbatim>\<open>wrapLowCardinality\<close> of \<^verbatim>\<open>wrapper_transport.go\<close>), the split and
  the strips of \<^verbatim>\<open>arithmetic.go\<close> and \<^verbatim>\<open>supertype.go\<close>, and the well-formedness of wrapped types.
\<close>

section \<open>Putting wrappers on\<close>

definition canBeInsideNullable :: "chtype \<Rightarrow> bool" where
  "canBeInsideNullable base \<longleftrightarrow>
     to_lower (Name base) \<notin>
       {''array'', ''map'', ''tuple'', ''aggregatefunction'', ''dynamic'', ''variant'',
        ''point'', ''ring'', ''linestring'', ''polygon'', ''multilinestring'', ''multipolygon''}"

definition wrapNullable :: "chtype \<Rightarrow> chtype" where
  "wrapNullable value =
     (if named value ''nullable'' \<or> \<not> canBeInsideNullable value then value
      else ty1 ''Nullable'' [value])"

definition lowCardinalityRejectedResultNames :: "string set" where
  "lowCardinalityRejectedResultNames =
     {''decimal'', ''datetime64'', ''enum'', ''enum8'', ''enum16'', ''array'', ''tuple'', ''map''}"

definition resultRejectsLowCardinality :: "chtype \<Rightarrow> bool" where
  "resultRejectsLowCardinality base =
     (let value = (if named base ''nullable'' \<and> length (Params base) = 1 then hd (Params base) else base)
      in to_lower (Name value) \<in> lowCardinalityRejectedResultNames)"

definition wrapLowCardinality :: "chtype \<Rightarrow> chtype" where
  "wrapLowCardinality base =
     (if named base ''lowcardinality'' \<or> resultRejectsLowCardinality base then base
      else ty1 ''LowCardinality'' [base])"

definition applyCHWrappers :: "chtype \<Rightarrow> bool \<Rightarrow> bool \<Rightarrow> chtype" where
  "applyCHWrappers base nullable lowCardinality =
     (let r1 = (if nullable then wrapNullable base else base)
      in if lowCardinality then wrapLowCardinality r1 else r1)"

section \<open>Taking wrappers off\<close>

definition splitCHWrappers :: "chtype \<Rightarrow> chtype \<times> bool \<times> bool" where
  "splitCHWrappers value =
     (let lowCardinality = (named value ''lowcardinality'' \<and> length (Params value) = 1);
          b1 = (if lowCardinality then hd (Params value) else value);
          nullable = (named b1 ''nullable'' \<and> length (Params b1) = 1);
          b2 = (if nullable then hd (Params b1) else b1)
      in (b2, nullable, lowCardinality))"

definition base_of :: "chtype \<Rightarrow> chtype" where
  "base_of t = fst (splitCHWrappers t)"

definition nullable_of :: "chtype \<Rightarrow> bool" where
  "nullable_of t = fst (snd (splitCHWrappers t))"

function unwrapLowCardinality :: "chtype \<Rightarrow> chtype" where
  "unwrapLowCardinality value =
     (if named value ''lowcardinality'' \<and> length (Params value) = 1
      then unwrapLowCardinality (hd (Params value)) else value)"
  by pat_completeness auto
termination
  by (relation "measure tsize") (auto intro!: tsize_hd_param)

declare unwrapLowCardinality.simps [simp del]

lemma tsize_unwrapLowCardinality: "tsize (unwrapLowCardinality v) \<le> tsize v"
proof (induction v rule: unwrapLowCardinality.induct)
  case (1 v)
  show ?case
  proof (cases "named v ''lowcardinality'' \<and> length (Params v) = 1")
    case True
    then have "tsize (unwrapLowCardinality (hd (Params v))) \<le> tsize (hd (Params v))"
      by (intro "1.IH") auto
    also have "\<dots> < tsize v" using True by (intro tsize_hd_param) auto
    finally show ?thesis using True by (simp add: unwrapLowCardinality.simps [of v])
  next
    case False
    then show ?thesis by (subst unwrapLowCardinality.simps) auto
  qed
qed

function stripLowCardinalityDeep :: "chtype \<Rightarrow> chtype" where
  "stripLowCardinalityDeep value0 =
     (let value = unwrapLowCardinality value0 in
      if Params value = [] then value
      else with_params value (map stripLowCardinalityDeep (Params value)))"
  by pat_completeness auto
termination
  by (relation "measure tsize")
     (auto intro: less_le_trans [OF tsize_param tsize_unwrapLowCardinality])

declare stripLowCardinalityDeep.simps [simp del]

function stripNestedLowCardinality :: "chtype \<Rightarrow> chtype" where
  "stripNestedLowCardinality value =
     (if named value ''lowcardinality'' \<and> length (Params value) = 1
      then stripNestedLowCardinality (hd (Params value))
      else if Params value = [] then value
      else with_params value (map stripNestedLowCardinality (Params value)))"
  by pat_completeness auto
termination
  by (relation "measure tsize") (auto intro: tsize_hd_param tsize_param)

declare stripNestedLowCardinality.simps [simp del]

subsection \<open>The SimpleAggregateFunction marker\<close>

definition simpleAggregateWrapperInner :: "chtype \<Rightarrow> chtype option" where
  "simpleAggregateWrapperInner value =
     (if named value ''simpleaggregatefunction'' \<and> length (Params value) = 2
      then Some (Params value ! 1) else None)"

definition simpleAggregateInnerType :: "chtype \<Rightarrow> chtype" where
  "simpleAggregateInnerType value =
     (if named value ''simpleaggregatefunction'' \<and> length (Params value) = 2
      then Params value ! 1 else value)"

definition simpleAggregateMarkerSurvives :: "chtype \<Rightarrow> bool" where
  "simpleAggregateMarkerSurvives inner \<longleftrightarrow>
     \<not> (named inner ''nullable'' \<or> named inner ''lowcardinality'' \<or> named inner ''array''
        \<or> named inner ''map'' \<or> named inner ''tuple'')"

definition simpleAggregateMarkerSurvivesValuePreserving :: "chtype \<Rightarrow> bool" where
  "simpleAggregateMarkerSurvivesValuePreserving inner =
     simpleAggregateMarkerSurvives
       (if named inner ''nullable'' \<and> length (Params inner) = 1 then hd (Params inner) else inner)"

definition readSimpleAggregateValue :: "chtype \<Rightarrow> chtype" where
  "readSimpleAggregateValue value =
     (case simpleAggregateWrapperInner value of
        None \<Rightarrow> value
      | Some inner \<Rightarrow> (if simpleAggregateMarkerSurvives inner then value else inner))"

definition branchArgumentNullable :: "chtype \<Rightarrow> bool" where
  "branchArgumentNullable value =
     nullable_of (case simpleAggregateWrapperInner value of Some inner \<Rightarrow> inner | None \<Rightarrow> value)"

definition branchArgumentLowCardinality :: "chtype \<Rightarrow> bool" where
  "branchArgumentLowCardinality value =
     (if snd (snd (splitCHWrappers value)) then True
      else case simpleAggregateWrapperInner value of
             Some inner \<Rightarrow> snd (snd (splitCHWrappers inner))
           | None \<Rightarrow> False)"

text \<open>\<^verbatim>\<open>domainBaseType\<close> of \<^verbatim>\<open>argument_domain.go\<close>: every Nullable and LowCardinality on top.\<close>

function domainBaseType :: "chtype \<Rightarrow> chtype" where
  "domainBaseType current =
     (if normalizedName current \<in> {''nullable'', ''lowcardinality''} \<and> length (Params current) = 1
      then domainBaseType (hd (Params current)) else current)"
  by pat_completeness auto
termination
  by (relation "measure tsize") (auto intro!: tsize_hd_param)

declare domainBaseType.simps [simp del]

lemma simpleAggregateWrapperInner_size:
  "simpleAggregateWrapperInner t = Some i \<Longrightarrow> tsize i < tsize t"
  by (auto simp: simpleAggregateWrapperInner_def split: if_splits intro!: tsize_nth_param)

section \<open>Facts about the constructors\<close>

lemma wrapNullable_idem [simp, wrapper_simps]: "wrapNullable (wrapNullable t) = wrapNullable t"
  by (simp add: wrapNullable_def)

lemma wrapLowCardinality_idem [simp, wrapper_simps]:
  "wrapLowCardinality (wrapLowCardinality t) = wrapLowCardinality t"
  by (simp add: wrapLowCardinality_def)

lemma wrapNullable_refused: "\<not> canBeInsideNullable t \<Longrightarrow> wrapNullable t = t"
  by (simp add: wrapNullable_def)

lemma wrapNullable_Nullable: "named t ''nullable'' \<Longrightarrow> wrapNullable t = t"
  by (simp add: wrapNullable_def)

section \<open>The two strips agree and leave no LowCardinality\<close>

definition low_cardinality_node :: "chtype \<Rightarrow> bool" where
  "low_cardinality_node t \<longleftrightarrow> named t ''lowcardinality'' \<and> length (Params t) = 1"

definition no_low_cardinality :: "chtype \<Rightarrow> bool" where
  "no_low_cardinality = all_nodes (\<lambda>t. \<not> low_cardinality_node t)"

lemma unwrapLowCardinality_not_LC: "\<not> low_cardinality_node (unwrapLowCardinality v)"
proof (induction v rule: unwrapLowCardinality.induct)
  case (1 v)
  then show ?case
    by (subst unwrapLowCardinality.simps) (auto simp: low_cardinality_node_def)
qed

lemma unwrapLowCardinality_id: "\<not> low_cardinality_node v \<Longrightarrow> unwrapLowCardinality v = v"
  by (subst unwrapLowCardinality.simps) (auto simp: low_cardinality_node_def)

lemma low_cardinality_node_with_params_map [simp]:
  "low_cardinality_node (with_params v (map f (Params v))) = low_cardinality_node v"
  by (simp add: low_cardinality_node_def)

lemma stripLowCardinalityDeep_clean: "no_low_cardinality (stripLowCardinalityDeep v)"
proof (induction v rule: stripLowCardinalityDeep.induct)
  case (1 v)
  let ?u = "unwrapLowCardinality v"
  have u: "\<not> low_cardinality_node ?u" by (rule unwrapLowCardinality_not_LC)
  show ?case
  proof (cases "Params ?u = []")
    case True
    with u show ?thesis
      by (subst stripLowCardinalityDeep.simps) (simp add: no_low_cardinality_def all_nodes_iff [of _ ?u])
  next
    case False
    then have "\<forall>p \<in> set (Params ?u). no_low_cardinality (stripLowCardinalityDeep p)"
      using "1.IH" by auto
    with False u show ?thesis
      by (subst stripLowCardinalityDeep.simps) (auto simp: no_low_cardinality_def Let_def all_nodes_iff [of _ "with_params _ _"])
  qed
qed

lemma stripLowCardinalityDeep_id: "no_low_cardinality v \<Longrightarrow> stripLowCardinalityDeep v = v"
proof (induction v rule: stripLowCardinalityDeep.induct)
  case (1 v)
  then have u: "unwrapLowCardinality v = v"
    by (auto simp: no_low_cardinality_def dest: all_nodes_root intro: unwrapLowCardinality_id)
  have "p \<in> set (Params v) \<Longrightarrow> no_low_cardinality p" for p
    using "1.prems" by (auto simp: no_low_cardinality_def dest: all_nodes_param)
  then have "Params v \<noteq> [] \<Longrightarrow> map stripLowCardinalityDeep (Params v) = Params v"
    using "1.IH" u by (intro map_idI) auto
  with u show ?case by (subst stripLowCardinalityDeep.simps) (auto simp: Let_def)
qed

lemma stripLowCardinalityDeep_idem [simp]:
  "stripLowCardinalityDeep (stripLowCardinalityDeep v) = stripLowCardinalityDeep v"
  by (rule stripLowCardinalityDeep_id, rule stripLowCardinalityDeep_clean)

lemma stripLowCardinalityDeep_LC:
  "low_cardinality_node v \<Longrightarrow> stripLowCardinalityDeep v = stripLowCardinalityDeep (hd (Params v))"
  by (subst (1 2) stripLowCardinalityDeep.simps, subst unwrapLowCardinality.simps)
     (simp add: low_cardinality_node_def)

lemma strip_nested_eq_deep: "stripNestedLowCardinality v = stripLowCardinalityDeep v"
proof (induction v rule: stripNestedLowCardinality.induct)
  case (1 v)
  show ?case
  proof (cases "low_cardinality_node v")
    case True
    with "1.IH"(1) show ?thesis
      by (subst stripNestedLowCardinality.simps) (simp add: low_cardinality_node_def stripLowCardinalityDeep_LC)
  next
    case False
    then have u: "unwrapLowCardinality v = v" by (rule unwrapLowCardinality_id)
    have "Params v \<noteq> [] \<Longrightarrow>
        map stripNestedLowCardinality (Params v) = map stripLowCardinalityDeep (Params v)"
      using "1.IH"(2) False by (simp add: low_cardinality_node_def)
    with False u show ?thesis
      by (subst stripNestedLowCardinality.simps, subst stripLowCardinalityDeep.simps)
         (auto simp: low_cardinality_node_def Let_def cong: map_cong)
  qed
qed

lemma tsize_stripLowCardinalityDeep: "tsize (stripLowCardinalityDeep v) \<le> tsize v"
proof (induction v rule: stripLowCardinalityDeep.induct)
  case (1 v)
  let ?u = "unwrapLowCardinality v"
  have *: "tsize (with_params ?u (map stripLowCardinalityDeep (Params ?u))) \<le> tsize ?u"
    if "Params ?u \<noteq> []"
  proof -
    have "sum_list (map (\<lambda>p. tsize (stripLowCardinalityDeep p)) (Params ?u)) \<le> sum_list (map tsize (Params ?u))"
      using "1.IH" that by (intro sum_list_mono) auto
    then show ?thesis by (cases ?u) (simp add: with_params_def comp_def)
  qed
  have "tsize ?u \<le> tsize v" by (rule tsize_unwrapLowCardinality)
  with * show ?case by (subst stripLowCardinalityDeep.simps) (auto simp: Let_def intro: order_trans)
qed

section \<open>Well-formed wrapped types\<close>

text \<open>
  A node that carries a wrapper name is built by the constructors above: spelled canonically,
  one parameter, and over a base the server accepts in that position.
\<close>

definition nullable_ok :: "chtype \<Rightarrow> bool" where
  "nullable_ok t \<longleftrightarrow> (case t of
       CHType n [p] [] [] \<Rightarrow> n = ''Nullable'' \<and> canBeInsideNullable p \<and> \<not> named p ''nullable''
         \<and> \<not> named p ''lowcardinality''
     | _ \<Rightarrow> False)"

definition low_cardinality_ok :: "chtype \<Rightarrow> bool" where
  "low_cardinality_ok t \<longleftrightarrow> (case t of
       CHType n [p] [] [] \<Rightarrow> n = ''LowCardinality'' \<and> \<not> resultRejectsLowCardinality p
         \<and> \<not> named p ''lowcardinality''
     | _ \<Rightarrow> False)"

definition wrapper_node_ok :: "chtype \<Rightarrow> bool" where
  "wrapper_node_ok t \<longleftrightarrow>
     (named t ''nullable'' \<longrightarrow> nullable_ok t) \<and> (named t ''lowcardinality'' \<longrightarrow> low_cardinality_ok t)"

definition wrappers_ok :: "chtype \<Rightarrow> bool" where
  "wrappers_ok = all_nodes wrapper_node_ok"

lemma nullable_okE:
  assumes "nullable_ok t"
  obtains p where "t = ty1 ''Nullable'' [p]" "canBeInsideNullable p" "\<not> named p ''nullable''"
    "\<not> named p ''lowcardinality''"
  using assms by (auto simp: nullable_ok_def split: chtype.splits list.splits)

lemma low_cardinality_okE:
  assumes "low_cardinality_ok t"
  obtains p where "t = ty1 ''LowCardinality'' [p]" "\<not> resultRejectsLowCardinality p"
    "\<not> named p ''lowcardinality''"
  using assms by (auto simp: low_cardinality_ok_def split: chtype.splits list.splits)

lemma named_exclusive: "named t s \<Longrightarrow> s \<noteq> s' \<Longrightarrow> \<not> named t s'"
  by (simp add: named_def)

lemma wrapNullable_ok:
  assumes "wrapper_node_ok t" and "\<not> named t ''lowcardinality''"
  shows "wrapper_node_ok (wrapNullable t)"
  using assms by (auto simp: wrapNullable_def wrapper_node_ok_def nullable_ok_def)

lemma wrapLowCardinality_ok: "wrapper_node_ok t \<Longrightarrow> wrapper_node_ok (wrapLowCardinality t)"
  by (auto simp: wrapLowCardinality_def wrapper_node_ok_def low_cardinality_ok_def)

lemma apply_split_wrappers:
  assumes "wrapper_node_ok t" and "\<forall>p \<in> set (Params t). wrapper_node_ok p"
  shows "applyCHWrappers (fst (splitCHWrappers t)) (fst (snd (splitCHWrappers t)))
           (snd (snd (splitCHWrappers t))) = t"
proof -
  have null: "applyCHWrappers (base_of u) (nullable_of u) False = u"
    if "wrapper_node_ok u" "\<not> named u ''lowcardinality''" for u
    using that
    by (auto simp: wrapper_node_ok_def base_of_def nullable_of_def splitCHWrappers_def
        applyCHWrappers_def wrapNullable_def elim!: nullable_okE)
  show ?thesis
  proof (cases "named t ''lowcardinality''")
    case False
    with null [of t] assms show ?thesis
      by (simp add: base_of_def nullable_of_def splitCHWrappers_def Let_def)
  next
    case True
    with assms obtain p where p: "t = ty1 ''LowCardinality'' [p]" "\<not> resultRejectsLowCardinality p"
      "\<not> named p ''lowcardinality''"
      by (auto simp: wrapper_node_ok_def elim: low_cardinality_okE)
    with assms null [of p] show ?thesis
      by (auto simp: base_of_def nullable_of_def splitCHWrappers_def applyCHWrappers_def
          wrapLowCardinality_def Let_def)
  qed
qed

lemma wrappers_ok_root: "wrappers_ok t \<Longrightarrow> wrapper_node_ok t"
  by (auto simp: wrappers_ok_def dest: all_nodes_root)

lemma wrappers_ok_param: "wrappers_ok t \<Longrightarrow> p \<in> set (Params t) \<Longrightarrow> wrappers_ok p"
  by (auto simp: wrappers_ok_def dest: all_nodes_param)

text \<open>A type whose wrapper nodes are well formed survives being taken apart.\<close>

interpretation ch_wrappers: codec splitCHWrappers "\<lambda>(b, n, l). applyCHWrappers b n l" wrappers_ok
proof unfold_locales
  fix t assume "wrappers_ok t"
  then have "wrapper_node_ok t" "\<forall>p \<in> set (Params t). wrapper_node_ok p"
    unfolding wrappers_ok_def by (auto dest: all_nodes_root all_nodes_param)
  then show "(\<lambda>(b, n, l). applyCHWrappers b n l) (splitCHWrappers t) = t"
    using apply_split_wrappers [of t] by (simp add: case_prod_beta)
qed

end
