(* ===== verification/Numeric.thy ===== *)
theory Numeric
  imports Wrappers
begin

text \<open>
  Numeric types: their class and width (\<^verbatim>\<open>numericInfoForType\<close> of \<^verbatim>\<open>supertype.go\<close>), the
  Decimal precision rules (\<^verbatim>\<open>arithmetic.go\<close>, \<^verbatim>\<open>infer_function.go\<close>), the pairwise numeric
  supertype and the supertype of a whole list of integers of mixed sign. The integer part is
  justified against the values the types hold: the pairwise supertype is the least upper bound.
\<close>

section \<open>Class and width of a numeric type\<close>

datatype numeric_kind = Unsigned | Signed | Float

record numericInfo =
  kind :: numeric_kind
  bits :: nat

definition numeric_infos :: "(string \<times> numericInfo) list" where
  "numeric_infos = [
    (''uint8'', \<lparr>kind = Unsigned, bits = 8\<rparr>), (''uint16'', \<lparr>kind = Unsigned, bits = 16\<rparr>),
    (''uint32'', \<lparr>kind = Unsigned, bits = 32\<rparr>), (''uint64'', \<lparr>kind = Unsigned, bits = 64\<rparr>),
    (''int8'', \<lparr>kind = Signed, bits = 8\<rparr>), (''int16'', \<lparr>kind = Signed, bits = 16\<rparr>),
    (''int32'', \<lparr>kind = Signed, bits = 32\<rparr>), (''int64'', \<lparr>kind = Signed, bits = 64\<rparr>),
    (''int'', \<lparr>kind = Signed, bits = 64\<rparr>),
    (''uint128'', \<lparr>kind = Unsigned, bits = 128\<rparr>), (''uint256'', \<lparr>kind = Unsigned, bits = 256\<rparr>),
    (''int128'', \<lparr>kind = Signed, bits = 128\<rparr>), (''int256'', \<lparr>kind = Signed, bits = 256\<rparr>),
    (''float32'', \<lparr>kind = Float, bits = 32\<rparr>), (''float64'', \<lparr>kind = Float, bits = 64\<rparr>)]"

definition numericInfoForType :: "chtype \<Rightarrow> numericInfo option" where
  "numericInfoForType value = map_of numeric_infos (to_lower (Name value))"

definition numericTypeName :: "numeric_kind \<Rightarrow> nat \<Rightarrow> string" where
  "numericTypeName k b = (if k = Unsigned then ''UInt'' @ itoa (int b) else ''Int'' @ itoa (int b))"

definition numericCHType :: "chtype \<Rightarrow> bool" where
  "numericCHType value \<longleftrightarrow>
     to_lower (Name value) \<in>
       {''uint8'', ''uint16'', ''uint32'', ''uint64'', ''uint128'', ''uint256'',
        ''int8'', ''int16'', ''int32'', ''int64'', ''int'', ''int128'', ''int256'',
        ''float32'', ''float64'', ''decimal'', ''decimal32'', ''decimal64'', ''decimal128'', ''decimal256''}
     \<and> Params value = []"

definition wideIntegerCHType :: "chtype \<Rightarrow> bool" where
  "wideIntegerCHType value \<longleftrightarrow>
     to_lower (Name value) \<in> {''uint128'', ''uint256'', ''int128'', ''int256''} \<and> Params value = []"

definition isFloatCHTypeName :: "string \<Rightarrow> bool" where
  "isFloatCHTypeName name \<longleftrightarrow> to_lower name = ''float32'' \<or> to_lower name = ''float64''"

section \<open>Decimals\<close>

definition canonicalDecimalType :: "chtype \<Rightarrow> chtype" where
  "canonicalDecimalType value =
     (let n = to_lower (Name value) in
      case (if n = ''decimal32'' then Some ''9'' else if n = ''decimal64'' then Some ''18''
            else if n = ''decimal128'' then Some ''38'' else if n = ''decimal256'' then Some ''76''
            else None) of
        None \<Rightarrow> value
      | Some precision \<Rightarrow>
          (if length (LiteralParams value) \<noteq> 1 then value
           else tyl ''Decimal'' [precision, hd (LiteralParams value)]))"

definition decimalPrecisionScale :: "chtype \<Rightarrow> (int \<times> int) option" where
  "decimalPrecisionScale value0 =
     (let value = canonicalDecimalType value0 in
      if \<not> named value ''decimal'' \<or> length (LiteralParams value) \<noteq> 2 then None
      else case (atoi (trim_space (LiteralParams value ! 0)), atoi (trim_space (LiteralParams value ! 1))) of
             (Some precision, Some scale) \<Rightarrow> Some (precision, scale)
           | _ \<Rightarrow> None)"

definition isDecimalWithParams :: "chtype \<Rightarrow> bool" where
  "isDecimalWithParams value \<longleftrightarrow> decimalPrecisionScale value \<noteq> None"

definition decimalClassPrecision :: "int \<Rightarrow> int" where
  "decimalClassPrecision precision =
     (if precision \<le> 9 then 9 else if precision \<le> 18 then 18 else if precision \<le> 38 then 38 else 76)"

definition decimalDigitsForInteger :: "string \<Rightarrow> int option" where
  "decimalDigitsForInteger name =
     (let n = to_lower name in
      if n = ''bool'' then Some 1
      else if n \<in> {''uint8'', ''int8''} then Some 3
      else if n \<in> {''uint16'', ''int16''} then Some 5
      else if n \<in> {''uint32'', ''int32''} then Some 10
      else if n \<in> {''int64'', ''int''} then Some 19
      else if n = ''uint64'' then Some 20
      else None)"

definition maxInt :: "int \<Rightarrow> int \<Rightarrow> int" where
  "maxInt a b = (if a > b then a else b)"

lemma maxInt_max [simp]: "maxInt a b = max a b"
  by (simp add: maxInt_def)

text \<open>The \<^verbatim>\<open>classOf\<close> closure of \<^verbatim>\<open>commonDecimalSupertype\<close>.\<close>

definition decimal_class_of :: "chtype \<Rightarrow> (int \<times> int) option \<Rightarrow> int option" where
  "decimal_class_of value dec =
     (case dec of
        Some (precision, _) \<Rightarrow> Some (decimalClassPrecision precision)
      | None \<Rightarrow> (case decimalDigitsForInteger (Name value) of
            None \<Rightarrow> None
          | Some digits \<Rightarrow> (if Params value \<noteq> [] then None else Some (decimalClassPrecision digits))))"

definition decimal_scale_of :: "(int \<times> int) option \<Rightarrow> int" where
  "decimal_scale_of dec = (case dec of Some (_, scale) \<Rightarrow> scale | None \<Rightarrow> 0)"

definition commonDecimalSupertype :: "chtype \<Rightarrow> chtype \<Rightarrow> chtype option" where
  "commonDecimalSupertype left right =
     (let l = decimalPrecisionScale left; r = decimalPrecisionScale right in
      if l = None \<and> r = None then None
      else case (decimal_class_of left l, decimal_class_of right r) of
             (Some leftClass, Some rightClass) \<Rightarrow>
               Some (tyl ''Decimal'' [itoa (maxInt leftClass rightClass),
                                      itoa (maxInt (decimal_scale_of l) (decimal_scale_of r))])
           | _ \<Rightarrow> None)"

section \<open>The pairwise numeric supertype\<close>

definition no_common :: "chtype \<Rightarrow> chtype \<Rightarrow> error" where
  "no_common left right = Errorf ''no common ClickHouse type for %s and %s'' [to_string left, to_string right]"

definition signed_candidates :: "bool \<Rightarrow> nat list" where
  "signed_candidates wide = [8, 16, 32, 64] @ (if wide then [128, 256] else [])"

definition commonNumericCHType :: "chtype \<Rightarrow> chtype \<Rightarrow> chtype result" where
  "commonNumericCHType left right =
     (case (numericInfoForType left, numericInfoForType right) of
        (Some leftInfo, Some rightInfo) \<Rightarrow>
          if kind leftInfo = Float \<or> kind rightInfo = Float then
            (if kind leftInfo = Float \<and> kind rightInfo = Float then
               (if bits leftInfo = 32 \<and> bits rightInfo = 32 then Inr (ty0 ''Float32'') else Inr (ty0 ''Float64''))
             else
               let (float, integer) = (if kind rightInfo = Float then (rightInfo, leftInfo) else (leftInfo, rightInfo))
               in if bits integer \<le> 16 \<and> bits float = 32 then Inr (ty0 ''Float32'')
                  else if bits integer \<le> 32 then Inr (ty0 ''Float64'')
                  else Inl (no_common left right))
          else if kind leftInfo = kind rightInfo then
            Inr (ty0 (numericTypeName (kind leftInfo) (max (bits leftInfo) (bits rightInfo))))
          else
            let (unsigned, signed) = (if kind rightInfo = Unsigned then (rightInfo, leftInfo) else (leftInfo, rightInfo))
            in (case List.find (\<lambda>b. b \<ge> bits unsigned * 2 \<and> b \<ge> bits signed)
                       (signed_candidates (bits unsigned \<ge> 128 \<or> bits signed \<ge> 128)) of
                  Some b \<Rightarrow> Inr (ty0 (numericTypeName Signed b))
                | None \<Rightarrow> Inl (no_common left right))
      | _ \<Rightarrow> Inl (Errorf ''%s and %s are not numeric'' [to_string left, to_string right]))"

section \<open>The supertype of a list of integers of mixed sign\<close>

definition mixed_sign_info :: "chtype \<Rightarrow> numericInfo option" where
  "mixed_sign_info value =
     (let base = base_of (stripLowCardinalityDeep value);
          base' = (if named base ''bool'' \<and> Params base = [] then ty0 ''UInt8'' else base)
      in case numericInfoForType base' of
           None \<Rightarrow> None
         | Some info \<Rightarrow> (if kind info = Float then None else Some info))"

definition max_bits :: "numericInfo list \<Rightarrow> nat" where
  "max_bits infos = foldl (\<lambda>m info. if bits info > m then bits info else m) 0 infos"

text \<open>
  \<^verbatim>\<open>None\<close> is the \<^verbatim>\<open>handled = false\<close> outcome; otherwise the type or the refusal, and whether
  any branch was Nullable.
\<close>

definition mixedSignIntegerCHTypes :: "chtype list \<Rightarrow> (chtype result \<times> bool) option" where
  "mixedSignIntegerCHTypes types =
     (case those (map mixed_sign_info types) of
        None \<Rightarrow> None
      | Some infos \<Rightarrow>
          let signed = filter (\<lambda>i. kind i = Signed) infos;
              unsigned = filter (\<lambda>i. kind i \<noteq> Signed) infos;
              nullable = list_ex (\<lambda>t. nullable_of (stripLowCardinalityDeep t)) types;
              maxSignedBits = max_bits signed;
              maxUnsignedBits = max_bits unsigned
          in if signed = [] \<or> unsigned = [] then None
             else (case List.find (\<lambda>width. maxSignedBits \<le> width \<and> list_all (\<lambda>i. bits i * 2 \<le> width) unsigned)
                          (signed_candidates (maxSignedBits \<ge> 128 \<or> maxUnsignedBits \<ge> 128)) of
                     Some width \<Rightarrow> Some (Inr (ty0 (numericTypeName Signed width)), nullable)
                   | None \<Rightarrow> Some (Inl (Errorf ''no common ClickHouse type for mixed-sign integer branches'' []), nullable)))"

section \<open>The integers a numeric type holds\<close>

text \<open>
  The integers every one of which the type represents exactly: the two's complement range of an
  integer type, and \<open>\<plusminus>2^24\<close>, \<open>\<plusminus>2^53\<close> for the two binary floating-point formats.
\<close>

definition lowest :: "numericInfo \<Rightarrow> int" where
  "lowest info = (case kind info of Unsigned \<Rightarrow> 0 | Signed \<Rightarrow> - (2 ^ (bits info - 1))
     | Float \<Rightarrow> - (2 ^ (if bits info = 32 then 24 else 53)))"

definition highest :: "numericInfo \<Rightarrow> int" where
  "highest info = (case kind info of Unsigned \<Rightarrow> 2 ^ bits info - 1 | Signed \<Rightarrow> 2 ^ (bits info - 1) - 1
     | Float \<Rightarrow> 2 ^ (if bits info = 32 then 24 else 53))"

definition covers :: "numericInfo \<Rightarrow> numericInfo \<Rightarrow> bool" where
  "covers big small \<longleftrightarrow> lowest big \<le> lowest small \<and> highest small \<le> highest big"

definition holds_int :: "chtype \<Rightarrow> int \<Rightarrow> bool" where
  "holds_int t i \<longleftrightarrow> (case numericInfoForType t of None \<Rightarrow> False | Some info \<Rightarrow> lowest info \<le> i \<and> i \<le> highest info)"

lemma covers_holds:
  "numericInfoForType t = Some a \<Longrightarrow> numericInfoForType u = Some b \<Longrightarrow> covers b a \<Longrightarrow> holds_int t i \<Longrightarrow> holds_int u i"
  by (auto simp: holds_int_def covers_def)

lemma range_nonempty: "lowest a \<le> highest a"
  by (cases "kind a") (auto simp: lowest_def highest_def)

lemma holds_int_covers:
  assumes "numericInfoForType t = Some a" and "numericInfoForType u = Some b"
    and "\<And>i. holds_int t i \<Longrightarrow> holds_int u i"
  shows "covers b a"
  using assms(3)[of "lowest a"] assms(3)[of "highest a"] assms(1,2) range_nonempty[of a]
  by (auto simp: holds_int_def covers_def)

lemma covers_refl [simp]: "covers a a"
  by (simp add: covers_def)

lemma covers_trans: "covers c b \<Longrightarrow> covers b a \<Longrightarrow> covers c a"
  by (auto simp: covers_def)

text \<open>The inclusions of the two's complement ranges, in terms of class and width only.\<close>

lemma pow2_less: "a \<le> b \<Longrightarrow> (2::int) ^ a - 1 < 2 ^ b"
  by (rule less_le_trans [of _ "2 ^ a"]) auto

lemma covers_same_kind:
  assumes "kind a = kind b" and "bits a \<le> bits b" and "kind a \<noteq> Float"
  shows "covers b a"
  using assms by (cases "kind b") (auto simp: covers_def lowest_def highest_def intro!: pow2_less diff_le_mono)

lemma covers_signed_unsigned:
  assumes "kind a = Unsigned" and "kind b = Signed" and "bits a < bits b"
  shows "covers b a"
  using assms by (auto simp: covers_def lowest_def highest_def intro!: pow2_less)

lemma covers_float64:
  assumes "kind a \<noteq> Float" and "bits a \<le> 32" and "kind b = Float" and "bits b \<noteq> 32"
  shows "covers b a"
proof -
  have "(2::int) ^ bits a \<le> 2 ^ 53" "(2::int) ^ (bits a - 1) \<le> 2 ^ 53"
    using assms(2) by (intro power_increasing; simp)+
  with assms show ?thesis by (cases "kind a") (auto simp: covers_def lowest_def highest_def)
qed

lemma covers_float32:
  assumes "kind a \<noteq> Float" and "bits a \<le> 16" and "kind b = Float"
  shows "covers b a"
proof -
  have "(2::int) ^ bits a \<le> 2 ^ 24" "(2::int) ^ (bits a - 1) \<le> 2 ^ 24"
    "(2::int) ^ bits a \<le> 2 ^ 53" "(2::int) ^ (bits a - 1) \<le> 2 ^ 53"
    using assms(2) by (intro power_increasing; simp)+
  with assms show ?thesis by (cases "kind a") (auto simp: covers_def lowest_def highest_def)
qed

lemma covers_floats:
  assumes "kind a = Float" and "kind b = Float" and "bits a = 32 \<or> bits b \<noteq> 32"
  shows "covers b a"
  using assms by (auto simp: covers_def lowest_def highest_def)

section \<open>Classes, widths and names\<close>

definition integer_widths :: "nat set" where
  "integer_widths = {8, 16, 32, 64, 128, 256}"

lemma numericInfoForType_wf:
  "numericInfoForType t = Some info \<Longrightarrow>
     (kind info = Float \<and> bits info \<in> {32, 64}) \<or> (kind info \<noteq> Float \<and> bits info \<in> integer_widths)"
  unfolding numericInfoForType_def
  by (drule map_of_SomeD) (auto simp: numeric_infos_def integer_widths_def)

lemma numericInfoForType_ty0: "numericInfoForType (ty0 n) = map_of numeric_infos (to_lower n)"
  by (simp add: numericInfoForType_def)

lemma itoa_widths [simp]:
  "itoa 8 = ''8''" "itoa 16 = ''16''" "itoa 32 = ''32''" "itoa 64 = ''64''" "itoa 128 = ''128''"
  "itoa 256 = ''256''"
  by code_simp+

lemma info_of_integer_name:
  assumes "k \<noteq> Float" and "b \<in> integer_widths"
  shows "numericInfoForType (ty0 (numericTypeName k b)) = Some \<lparr>kind = k, bits = b\<rparr>"
  using assms by (cases k) (auto simp: integer_widths_def numericTypeName_def numericInfoForType_ty0 numeric_infos_def)

lemma info_of_float_name [simp]:
  "numericInfoForType (ty0 ''Float32'') = Some \<lparr>kind = Float, bits = 32\<rparr>"
  "numericInfoForType (ty0 ''Float64'') = Some \<lparr>kind = Float, bits = 64\<rparr>"
  by (simp_all add: numericInfoForType_ty0 numeric_infos_def)

section \<open>The pairwise supertype as a join\<close>

definition mixed_width :: "nat \<Rightarrow> nat \<Rightarrow> nat option" where
  "mixed_width unsigned signed =
     List.find (\<lambda>b. b \<ge> unsigned * 2 \<and> b \<ge> signed) (signed_candidates (unsigned \<ge> 128 \<or> signed \<ge> 128))"

text \<open>The result by class and width alone; \<open>None\<close> when there is no common type.\<close>

definition join_info :: "numericInfo \<Rightarrow> numericInfo \<Rightarrow> numericInfo option" where
  "join_info a b =
     (if kind a = Float \<and> kind b = Float then
        Some \<lparr>kind = Float, bits = (if bits a = 32 \<and> bits b = 32 then 32 else 64)\<rparr>
      else if kind a = Float \<or> kind b = Float then
        let i = (if kind a = Float then bits b else bits a); f = (if kind a = Float then bits a else bits b)
        in if i \<le> 16 \<and> f = 32 then Some \<lparr>kind = Float, bits = 32\<rparr>
           else if i \<le> 32 then Some \<lparr>kind = Float, bits = 64\<rparr> else None
      else if kind a = kind b then Some \<lparr>kind = kind a, bits = max (bits a) (bits b)\<rparr>
      else map_option (\<lambda>w. \<lparr>kind = Signed, bits = w\<rparr>)
             (if kind a = Unsigned then mixed_width (bits a) (bits b) else mixed_width (bits b) (bits a)))"

lemma mixed_width_table:
  assumes "u \<in> integer_widths" and "s \<in> integer_widths"
  shows "mixed_width u s =
    (if u = 256 then None
     else if u = 64 then (if s \<le> 64 then None else Some s)
     else if u = 128 then Some 256
     else Some (max (2 * u) s))"
proof -
  have "\<forall>u \<in> set [8, 16, 32, 64, 128, 256]. \<forall>s \<in> set [8, 16, 32, 64, 128, 256]. mixed_width u s =
    (if u = 256 then None
     else if u = 64 then (if s \<le> 64 then None else Some s)
     else if u = 128 then Some 256
     else Some (max (2 * u) s))"
    by code_simp
  moreover have "set [8, 16, 32, 64, 128, 256] = integer_widths" by (auto simp: integer_widths_def)
  ultimately show ?thesis using assms by metis
qed

lemma mixed_width_in_widths:
  "mixed_width u s = Some w \<Longrightarrow> w \<in> integer_widths"
proof -
  assume "mixed_width u s = Some w"
  then have "w \<in> set (signed_candidates (u \<ge> 128 \<or> s \<ge> 128))"
    by (auto simp: mixed_width_def find_Some_iff)
  then show ?thesis by (auto simp: signed_candidates_def integer_widths_def split: if_splits)
qed

lemma join_info_comm: "join_info a b = join_info b a"
  by (cases "kind a"; cases "kind b") (auto simp: join_info_def Let_def max_def)

definition wf_info :: "numericInfo \<Rightarrow> bool" where
  "wf_info a \<longleftrightarrow> (kind a = Float \<and> bits a \<in> {32, 64}) \<or> (kind a \<noteq> Float \<and> bits a \<in> integer_widths)"

lemma wf_info_of_type: "numericInfoForType t = Some a \<Longrightarrow> wf_info a"
  using numericInfoForType_wf [of t a] by (simp add: wf_info_def)

lemma join_info_wf: "join_info a b = Some c \<Longrightarrow> wf_info a \<Longrightarrow> wf_info b \<Longrightarrow> wf_info c"
  by (cases "kind a"; cases "kind b")
     (auto simp: join_info_def wf_info_def max_def Let_def dest: mixed_width_in_widths split: if_splits)

lemma commonNumeric_join:
  assumes "numericInfoForType l = Some a" and "numericInfoForType r = Some b"
  shows "commonNumericCHType l r =
    (case join_info a b of None \<Rightarrow> Inl (no_common l r)
     | Some c \<Rightarrow> Inr (ty0 (if kind c = Float then (if bits c = 32 then ''Float32'' else ''Float64'')
                          else numericTypeName (kind c) (bits c))))"
  using assms
  by (cases "kind a"; cases "kind b")
     (auto simp: commonNumericCHType_def join_info_def mixed_width_def Let_def split: option.splits if_splits)

text \<open>The type a class and width stand for; its class and width are the ones given.\<close>

definition type_of_info :: "numericInfo \<Rightarrow> chtype" where
  "type_of_info c = ty0 (if kind c = Float then (if bits c = 32 then ''Float32'' else ''Float64'')
                         else numericTypeName (kind c) (bits c))"

lemma info_of_type_of_info: "wf_info c \<Longrightarrow> numericInfoForType (type_of_info c) = Some c"
  by (cases c) (auto simp: type_of_info_def wf_info_def info_of_integer_name)

lemma commonNumeric_Inr:
  assumes "numericInfoForType l = Some a" and "numericInfoForType r = Some b"
    and "commonNumericCHType l r = Inr t"
  obtains c where "join_info a b = Some c" "t = type_of_info c" "numericInfoForType t = Some c"
proof -
  from assms obtain c where c: "join_info a b = Some c" "t = type_of_info c"
    by (auto simp: commonNumeric_join type_of_info_def split: option.splits)
  moreover from c(1) assms(1,2) have "wf_info c" by (blast intro: join_info_wf wf_info_of_type)
  ultimately show thesis using that by (simp add: info_of_type_of_info)
qed

lemma join_info_float:
  assumes "join_info a b = Some c" and "wf_info a" and "wf_info b" and "kind a = Float \<or> kind b = Float"
  shows "covers c a \<and> covers c b"
proof (cases "kind a = Float \<and> kind b = Float")
  case True
  with assms show ?thesis
    by (auto simp: join_info_def wf_info_def covers_def lowest_def highest_def)
next
  case False
  have one: "covers c i \<and> covers c f"
    if "join_info i f = Some c" "wf_info f" "kind i \<noteq> Float" "kind f = Float" for i f
    using that
    by (auto simp: join_info_def Let_def covers_float32 covers_float64 covers_floats split: if_splits)
  from False assms(4) consider "kind a \<noteq> Float" "kind b = Float" | "kind b \<noteq> Float" "kind a = Float" by blast
  then show ?thesis
    using assms(1-3) one [of a b] one [of b a] join_info_comm [of a b] by cases auto
qed

lemma mixed_width_bounds:
  assumes "mixed_width u s = Some w"
  shows "u * 2 \<le> w" and "s \<le> w"
  using assms by (auto simp: mixed_width_def find_Some_iff)

lemma join_info_integers:
  assumes j: "join_info a b = Some c" and wf: "wf_info a" "wf_info b"
    and ints: "kind a \<noteq> Float" "kind b \<noteq> Float"
  shows "covers c a \<and> covers c b"
proof (cases "kind a = kind b")
  case True
  with j ints show ?thesis by (auto simp: join_info_def intro!: covers_same_kind)
next
  case False
  have up: "covers \<lparr>kind = Signed, bits = w\<rparr> x \<and> covers \<lparr>kind = Signed, bits = w\<rparr> y"
    if "mixed_width (bits x) (bits y) = Some w" "kind x = Unsigned" "kind y = Signed" "0 < bits x" for x y w
  proof -
    have "bits x * 2 \<le> w" "bits y \<le> w" using that(1) by (rule mixed_width_bounds)+
    with that show ?thesis by (simp add: covers_same_kind covers_signed_unsigned)
  qed
  have pos: "0 < bits a" "0 < bits b" using wf by (auto simp: wf_info_def integer_widths_def)
  show ?thesis
  proof (cases "kind a = Unsigned")
    case True
    with False ints have "kind b = Signed" by (cases "kind b") auto
    with True j False up [of a b] pos show ?thesis by (auto simp: join_info_def)
  next
    case nu: False
    with False ints have "kind a = Signed" "kind b = Unsigned" by (cases "kind a"; cases "kind b"; auto)+
    with j up [of b a] pos show ?thesis by (auto simp: join_info_def)
  qed
qed

lemma join_info_upper:
  "join_info a b = Some c \<Longrightarrow> wf_info a \<Longrightarrow> wf_info b \<Longrightarrow> covers c a \<and> covers c b"
  using join_info_float join_info_integers by metis

section \<open>Properties of the pairwise supertype\<close>

definition integer_type :: "chtype \<Rightarrow> bool" where
  "integer_type t \<longleftrightarrow> (case numericInfoForType t of None \<Rightarrow> False | Some a \<Rightarrow> kind a \<noteq> Float)"

lemma commonNumeric_infos:
  assumes "commonNumericCHType l r = Inr t"
  obtains a b c where "numericInfoForType l = Some a" "numericInfoForType r = Some b"
    "join_info a b = Some c" "numericInfoForType t = Some c"
proof -
  obtain a where a: "numericInfoForType l = Some a"
    using assms by (cases "numericInfoForType l") (simp_all add: commonNumericCHType_def)
  obtain b where b: "numericInfoForType r = Some b"
    using assms a by (cases "numericInfoForType r") (simp_all add: commonNumericCHType_def)
  from a b assms obtain c where "join_info a b = Some c" "numericInfoForType t = Some c"
    by (rule commonNumeric_Inr)
  with a b show thesis by (rule that)
qed

lemma commonNumeric_upper:
  assumes "commonNumericCHType l r = Inr t" and "holds_int l i \<or> holds_int r i"
  shows "holds_int t i"
proof -
  from assms(1) obtain a b c where abc: "numericInfoForType l = Some a" "numericInfoForType r = Some b"
    "join_info a b = Some c" "numericInfoForType t = Some c" by (rule commonNumeric_infos)
  then have "covers c a \<and> covers c b" by (intro join_info_upper) (auto intro: wf_info_of_type)
  with abc assms(2) covers_holds show ?thesis by blast
qed

lemma covers_same_kind_bits:
  "covers u a \<Longrightarrow> kind u = kind a \<Longrightarrow> kind a \<noteq> Float \<Longrightarrow> 0 < bits u \<Longrightarrow> 0 < bits a \<Longrightarrow> bits a \<le> bits u"
proof (rule ccontr)
  assume c: "covers u a" "kind u = kind a" "kind a \<noteq> Float" "0 < bits u" "0 < bits a" "\<not> bits a \<le> bits u"
  then have "(2::int) ^ bits u < 2 ^ bits a" "(2::int) ^ (bits u - 1) < 2 ^ (bits a - 1)"
    by (intro power_strict_increasing; simp)+
  with c show False by (cases "kind a") (auto simp: covers_def lowest_def highest_def)
qed

lemma covers_unsigned_bits:
  assumes "covers u a" and "kind u = Signed" and "kind a = Unsigned"
    and "bits u \<in> integer_widths" and "bits a \<in> integer_widths"
  shows "2 * bits a \<le> bits u"
proof -
  have "bits a < bits u"
  proof (rule ccontr)
    assume "\<not> bits a < bits u"
    then have "bits u - 1 < bits a" using assms(4) by (auto simp: integer_widths_def)
    then have "(2::int) ^ (bits u - 1) < 2 ^ bits a" by (intro power_strict_increasing) auto
    moreover have "(2::int) ^ bits a - 1 < 2 ^ (bits u - 1)"
      using assms(1-3) by (simp add: covers_def highest_def)
    ultimately show False by linarith
  qed
  with assms(4,5) show ?thesis by (auto simp: integer_widths_def)
qed

lemma covers_signed_kind:
  assumes "covers u a" and "kind a = Signed" and "kind u \<noteq> Float"
  shows "kind u = Signed"
proof (cases "kind u")
  case Unsigned
  have "(0::int) < 2 ^ (bits a - 1)" by simp
  with Unsigned assms show ?thesis by (auto simp: covers_def lowest_def)
qed (use assms in auto)

lemma mixed_width_least:
  assumes "mixed_width u s = Some w" and "u \<in> integer_widths" "s \<in> integer_widths" "b \<in> integer_widths"
    and "2 * u \<le> b" and "s \<le> b"
  shows "w \<le> b"
proof -
  have "\<forall>u \<in> set [8, 16, 32, 64, 128, 256]. \<forall>s \<in> set [8, 16, 32, 64, 128, 256].
      \<forall>b \<in> set [8, 16, 32, 64, 128, 256]. 2 * u \<le> b \<longrightarrow> s \<le> b \<longrightarrow>
      (case mixed_width u s of None \<Rightarrow> True | Some w \<Rightarrow> w \<le> b)"
    by code_simp
  moreover have "set [8, 16, 32, 64, 128, 256] = integer_widths" by (auto simp: integer_widths_def)
  ultimately have "case mixed_width u s of None \<Rightarrow> True | Some w \<Rightarrow> w \<le> b" using assms by metis
  with assms(1) show ?thesis by simp
qed

lemma join_info_least:
  assumes j: "join_info a b = Some c" and wf: "wf_info a" "wf_info b" "wf_info u"
    and ints: "kind a \<noteq> Float" "kind b \<noteq> Float" "kind u \<noteq> Float"
    and up: "covers u a" "covers u b"
  shows "covers u c"
proof -
  have w: "bits a \<in> integer_widths" "bits b \<in> integer_widths" "bits u \<in> integer_widths"
    using wf ints by (auto simp: wf_info_def)
  then have pos: "0 < bits a" "0 < bits b" "0 < bits u" by (auto simp: integer_widths_def)
  have mixed: "covers u \<lparr>kind = Signed, bits = m\<rparr>"
    if m: "mixed_width (bits x) (bits y) = Some m" and k: "kind x = Unsigned" "kind y = Signed"
      and c: "covers u x" "covers u y" and b: "bits x \<in> integer_widths" "bits y \<in> integer_widths" for x y m
  proof -
    have s: "kind u = Signed" using covers_signed_kind [OF c(2) k(2) ints(3)] .
    have "2 * bits x \<le> bits u" using covers_unsigned_bits [OF c(1) s k(1) w(3) b(1)] .
    moreover have "bits y \<le> bits u"
      using covers_same_kind_bits [OF c(2)] s k b(2) w(3) by (auto simp: integer_widths_def)
    ultimately have "m \<le> bits u" using mixed_width_least [OF m b(1,2) w(3)] by simp
    with s show ?thesis by (intro covers_same_kind) auto
  qed
  show ?thesis
  proof (cases "kind a = kind b")
    case True
    then have "c = a \<or> c = b" using j ints by (cases a; cases b) (auto simp: join_info_def max_def)
    with up show ?thesis by auto
  next
    case False
    show ?thesis
    proof (cases "kind a = Unsigned")
      case True
      with False ints have "kind b = Signed" by (cases "kind b") auto
      with True j False mixed [of a b] up w show ?thesis by (auto simp: join_info_def)
    next
      case nu: False
      with False ints have "kind a = Signed" "kind b = Unsigned" by (cases "kind a"; cases "kind b"; auto)+
      with j mixed [of b a] up w show ?thesis by (auto simp: join_info_def)
    qed
  qed
qed

interpretation numeric_join: value_join commonNumericCHType holds_int "\<lambda>_. True"
  by unfold_locales (auto intro: commonNumeric_upper)

interpretation integer_join: least_join commonNumericCHType holds_int integer_type
proof unfold_locales
  fix a b c assume "commonNumericCHType a b = Inr c" "integer_type a" "integer_type b"
  then show "integer_type c"
    by (elim commonNumeric_infos) (auto simp: integer_type_def join_info_def split: if_splits)
next
  fix a b c v assume "commonNumericCHType a b = Inr c" "holds_int a v \<or> holds_int b v"
  then show "holds_int c v" by (rule commonNumeric_upper)
next
  fix a b c u v
  assume j: "commonNumericCHType a b = Inr c" and ints: "integer_type a" "integer_type b" "integer_type u"
    and up: "\<And>v. holds_int a v \<or> holds_int b v \<Longrightarrow> holds_int u v" and v: "holds_int c v"
  from j obtain ia ib ic where i: "numericInfoForType a = Some ia" "numericInfoForType b = Some ib"
    "join_info ia ib = Some ic" "numericInfoForType c = Some ic" by (rule commonNumeric_infos)
  from ints(3) obtain iu where u: "numericInfoForType u = Some iu" "kind iu \<noteq> Float"
    by (auto simp: integer_type_def split: option.splits)
  have "covers iu ia" "covers iu ib"
    using holds_int_covers [OF i(1) u(1)] holds_int_covers [OF i(2) u(1)] up by auto
  with i u ints have "covers iu ic"
    by (intro join_info_least [OF i(3)]) (auto simp: integer_type_def intro: wf_info_of_type)
  with covers_holds [OF i(4) u(1)] v show "holds_int u v" by blast
qed

lemma max_bits_eq: "max_bits infos = Max (insert 0 (bits ` set infos))"
  by (simp add: max_bits_def foldl_max_eq)

lemma max_bits_ge: "i \<in> set infos \<Longrightarrow> bits i \<le> max_bits infos"
  by (simp add: max_bits_eq)

lemma mixed_sign_integer: "mixed_sign_info t = Some a \<Longrightarrow> wf_info a \<and> kind a \<noteq> Float"
  by (auto simp: mixed_sign_info_def Let_def wf_info_of_type split: option.splits if_splits)

text \<open>The numeric type a branch counts as: unwrapped, and Bool read as UInt8.\<close>

definition mixed_base :: "chtype \<Rightarrow> chtype" where
  "mixed_base value =
     (let base = base_of (stripLowCardinalityDeep value)
      in if named base ''bool'' \<and> Params base = [] then ty0 ''UInt8'' else base)"

lemma mixed_sign_info_base:
  "mixed_sign_info t = (case numericInfoForType (mixed_base t) of None \<Rightarrow> None
     | Some info \<Rightarrow> if kind info = Float then None else Some info)"
  by (simp add: mixed_sign_info_def mixed_base_def Let_def)

lemma mixedSign_SomeE:
  assumes "mixedSignIntegerCHTypes ts = Some (Inr t, n)"
  obtains infos w where "infos = map (the \<circ> mixed_sign_info) ts" "\<forall>x \<in> set ts. mixed_sign_info x \<noteq> None"
    "t = ty0 (numericTypeName Signed w)" "w \<in> integer_widths"
    "\<forall>i \<in> set infos. (kind i = Signed \<longrightarrow> bits i \<le> w) \<and> (kind i \<noteq> Signed \<longrightarrow> bits i * 2 \<le> w)"
proof -
  let ?infos = "map (the \<circ> mixed_sign_info) ts"
  let ?s = "filter (\<lambda>i. kind i = Signed) ?infos" and ?u = "filter (\<lambda>i. kind i \<noteq> Signed) ?infos"
  let ?wide = "max_bits ?s \<ge> 128 \<or> max_bits ?u \<ge> 128"
  let ?P = "\<lambda>width. max_bits ?s \<le> width \<and> list_all (\<lambda>i. bits i * 2 \<le> width) ?u"
  from assms have all: "\<forall>x \<in> set ts. mixed_sign_info x \<noteq> None"
    by (auto simp: mixedSignIntegerCHTypes_def those_map split: if_splits)
  with assms obtain w where w: "List.find ?P (signed_candidates ?wide) = Some w"
    "t = ty0 (numericTypeName Signed w)"
    by (auto simp: mixedSignIntegerCHTypes_def those_map Let_def split: if_splits option.splits)
  then have P: "?P w" and m: "w \<in> set (signed_candidates ?wide)" by (auto simp: find_Some_iff)
  show thesis
  proof (rule that [OF refl all w(2)])
    from m show "w \<in> integer_widths" by (auto simp: signed_candidates_def integer_widths_def split: if_splits)
    from P show "\<forall>i \<in> set ?infos. (kind i = Signed \<longrightarrow> bits i \<le> w) \<and> (kind i \<noteq> Signed \<longrightarrow> bits i * 2 \<le> w)"
      using max_bits_ge [of _ ?s] by (force simp: list_all_iff)
  qed
qed

lemma mixed_sign_holds:
  assumes s: "mixedSignIntegerCHTypes ts = Some (Inr t, n)" and b: "branch \<in> set ts"
    and h: "holds_int (mixed_base branch) i"
  shows "holds_int t i"
proof -
  from s obtain infos w where iw: "infos = map (the \<circ> mixed_sign_info) ts"
    "\<forall>x \<in> set ts. mixed_sign_info x \<noteq> None" "t = ty0 (numericTypeName Signed w)" "w \<in> integer_widths"
    "\<forall>i \<in> set infos. (kind i = Signed \<longrightarrow> bits i \<le> w) \<and> (kind i \<noteq> Signed \<longrightarrow> bits i * 2 \<le> w)"
    by (rule mixedSign_SomeE)
  from iw(2) b obtain a where a: "mixed_sign_info branch = Some a" by auto
  then have wfa: "wf_info a" "kind a \<noteq> Float" using mixed_sign_integer by auto
  then have pos: "0 < bits a" by (auto simp: wf_info_def integer_widths_def)
  from iw(5) b a iw(1) have bd: "(kind a = Signed \<longrightarrow> bits a \<le> w) \<and> (kind a \<noteq> Signed \<longrightarrow> bits a * 2 \<le> w)" by force
  have "covers \<lparr>kind = Signed, bits = w\<rparr> a"
    using bd wfa(2) pos by (cases "kind a") (simp_all add: covers_same_kind covers_signed_unsigned)
  moreover have "numericInfoForType t = Some \<lparr>kind = Signed, bits = w\<rparr>"
    using iw(3,4) by (simp add: info_of_integer_name)
  moreover have "numericInfoForType (mixed_base branch) = Some a"
    using a by (simp add: mixed_sign_info_base split: option.splits if_splits)
  ultimately show "holds_int t i" using covers_holds h by blast
qed

text \<open>
  C4. The supertype of two integer types is their least upper bound: it holds every integer either
  of them holds, and every integer type that does so holds every integer of the result.
\<close>

theorem common_numeric_least_upper_bound:
  assumes "commonNumericCHType l r = Inr t" and "integer_type l" and "integer_type r"
  shows "(\<forall>i. holds_int l i \<or> holds_int r i \<longrightarrow> holds_int t i) \<and>
    (\<forall>u. integer_type u \<longrightarrow> (\<forall>i. holds_int l i \<or> holds_int r i \<longrightarrow> holds_int u i) \<longrightarrow>
       (\<forall>i. holds_int t i \<longrightarrow> holds_int u i))"
  using integer_join.join_upper [OF assms] integer_join.join_least [OF assms] by blast

theorem common_numeric_least_upper_bound_witness:
  "commonNumericCHType (ty0 ''UInt32'') (ty0 ''Int16'') = Inr (ty0 ''Int64'') \<and>
   holds_int (ty0 ''Int64'') 4294967295"
proof -
  have c: "commonNumericCHType (ty0 ''UInt32'') (ty0 ''Int16'') = Inr (ty0 ''Int64'')" by code_simp
  have i: "integer_type (ty0 ''UInt32'')" "integer_type (ty0 ''Int16'')" "holds_int (ty0 ''UInt32'') 4294967295"
    by code_simp+
  from common_numeric_least_upper_bound [OF c i(1,2)] i(3) c show ?thesis by blast
qed

text \<open>
  C29. Two integer types have no common type exactly when one is unsigned, the other signed, and no
  admissible signed width is twice the unsigned one: UInt64 with a signed type of at most 64 bits,
  or UInt256 with any signed type. The order of the two types changes nothing.
\<close>

theorem common_numeric_refused_iff:
  assumes "numericInfoForType l = Some a" and "numericInfoForType r = Some b"
    and "kind a \<noteq> Float" and "kind b \<noteq> Float"
  shows "(is_ok (commonNumericCHType l r) \<longleftrightarrow>
      \<not> (\<exists>u s. (u = a \<and> s = b \<or> u = b \<and> s = a) \<and> kind u = Unsigned \<and> kind s = Signed
          \<and> (bits u = 64 \<and> bits s \<le> 64 \<or> bits u = 256)))
    \<and> map_sum (\<lambda>_. ()) id (commonNumericCHType l r) = map_sum (\<lambda>_. ()) id (commonNumericCHType r l)"
proof (rule conjI)
  have w: "bits a \<in> integer_widths" "bits b \<in> integer_widths"
    using assms wf_info_of_type by (auto simp: wf_info_def)
  have n: "mixed_width u s = None \<longleftrightarrow> u = 64 \<and> s \<le> 64 \<or> u = 256"
    if "u \<in> integer_widths" "s \<in> integer_widths" for u s
    using that by (auto simp: mixed_width_table)
  show "is_ok (commonNumericCHType l r) \<longleftrightarrow>
      \<not> (\<exists>u s. (u = a \<and> s = b \<or> u = b \<and> s = a) \<and> kind u = Unsigned \<and> kind s = Signed
          \<and> (bits u = 64 \<and> bits s \<le> 64 \<or> bits u = 256))"
    using assms n [OF w] n [OF w(2,1)]
    by (cases "kind a"; cases "kind b") (auto simp: commonNumeric_join join_info_def)
  show "map_sum (\<lambda>_. ()) id (commonNumericCHType l r) = map_sum (\<lambda>_. ()) id (commonNumericCHType r l)"
    using assms join_info_comm [of a b] by (simp add: commonNumeric_join split: option.splits)
qed

theorem common_numeric_refused_iff_witness:
  "\<not> is_ok (commonNumericCHType (ty0 ''UInt64'') (ty0 ''Int8''))"
proof -
  have i: "numericInfoForType (ty0 ''UInt64'') = Some \<lparr>kind = Unsigned, bits = 64\<rparr>"
    "numericInfoForType (ty0 ''Int8'') = Some \<lparr>kind = Signed, bits = 8\<rparr>" by code_simp+
  from common_numeric_refused_iff [OF i] show ?thesis by force
qed

text \<open>
  C30. The rule for a whole list of integers of mixed sign depends on the set of branch types only
  (order and repetition are irrelevant), and the type it gives holds every integer of every branch.
\<close>

theorem mixed_sign_order_and_range:
  "(set ts = set us \<longrightarrow> mixedSignIntegerCHTypes ts = mixedSignIntegerCHTypes us) \<and>
   (\<forall>t n branch i. mixedSignIntegerCHTypes ts = Some (Inr t, n) \<longrightarrow> branch \<in> set ts \<longrightarrow>
     holds_int (mixed_base branch) i \<longrightarrow> holds_int t i)"
proof (intro conjI impI allI)
  assume e: "set ts = set us"
  let ?f = "the \<circ> mixed_sign_info"
  have m: "max_bits (filter P (map ?f ts)) = max_bits (filter P (map ?f us))" for P
    using e by (simp add: max_bits_eq)
  have l: "list_all P (filter Q (map ?f ts)) = list_all P (filter Q (map ?f us))" for P Q
    using e by (simp add: list_all_iff)
  have f: "(filter Q (map ?f ts) = []) = (filter Q (map ?f us) = [])" for Q
    using e by (simp add: filter_empty_conv)
  have x: "list_ex P ts = list_ex P us" for P using e by (simp add: list_ex_iff)
  show "mixedSignIntegerCHTypes ts = mixedSignIntegerCHTypes us"
    by (simp only: mixedSignIntegerCHTypes_def those_map m l f x e Let_def) (auto simp: m l f x)
qed (rule mixed_sign_holds)

theorem mixed_sign_order_and_range_witness:
  "mixedSignIntegerCHTypes [ty0 ''Int8'', ty0 ''UInt16'', ty0 ''Bool'']
     = mixedSignIntegerCHTypes [ty0 ''Bool'', ty0 ''UInt16'', ty0 ''Int8'', ty0 ''UInt16''] \<and>
   holds_int (ty0 ''Int32'') 65535"
proof -
  have m: "mixedSignIntegerCHTypes [ty0 ''Int8'', ty0 ''UInt16'', ty0 ''Bool''] = Some (Inr (ty0 ''Int32''), False)"
    by code_simp
  have h: "holds_int (mixed_base (ty0 ''UInt16'')) 65535" by code_simp
  show ?thesis
    using mixed_sign_order_and_range [of "[ty0 ''Int8'', ty0 ''UInt16'', ty0 ''Bool'']"
        "[ty0 ''Bool'', ty0 ''UInt16'', ty0 ''Int8'', ty0 ''UInt16'']"] m h by auto
qed

end
