(* ===== verification/Transport.thy ===== *)
theory Transport
  imports Numeric
begin

text \<open>
  How a function call moves the wrappers of its arguments into its result
  (\<^verbatim>\<open>wrapper_transport.go\<close> and the wrapper part of \<^verbatim>\<open>arithmetic.go\<close>): the stack of wrappers of
  a type, the transport record of a function, and the step that builds the result type. The
  generated function registry is the parameter \<open>registry\<close>: what one entry says about a name.
\<close>

section \<open>The wrapper stack\<close>

record simpleAggregateWrapper =
  sa_wrapper :: chtype
  innerNullable :: bool
  innerLowCardinality :: bool

record wrapperStack =
  st_lowCardinality :: bool
  st_nullable :: bool
  st_outerNullable :: bool
  st_simpleAggregate :: "simpleAggregateWrapper option"

definition splitWrapperStack :: "chtype \<Rightarrow> chtype \<times> wrapperStack" where
  "splitWrapperStack value =
     (let lc = (named value ''lowcardinality'' \<and> length (Params value) = 1);
          base1 = (if lc then hd (Params value) else value);
          nl = (named base1 ''nullable'' \<and> length (Params base1) = 1);
          base2 = (if nl then hd (Params base1) else base1)
      in if named base2 ''simpleaggregatefunction'' \<and> length (Params base2) = 2 then
           let inner0 = Params base2 ! 1;
               ilc = (named inner0 ''lowcardinality'' \<and> length (Params inner0) = 1);
               inner1 = (if ilc then hd (Params inner0) else inner0);
               inl = (named inner1 ''nullable'' \<and> length (Params inner1) = 1);
               inner2 = (if inl then hd (Params inner1) else inner1)
           in (inner2,
               \<lparr>st_lowCardinality = lc \<or> ilc, st_nullable = nl \<or> inl, st_outerNullable = nl,
                st_simpleAggregate = Some \<lparr>sa_wrapper = base2, innerNullable = inl, innerLowCardinality = ilc\<rparr>\<rparr>)
         else (base2, \<lparr>st_lowCardinality = lc, st_nullable = nl, st_outerNullable = nl, st_simpleAggregate = None\<rparr>))"

definition applyWrapperStack :: "chtype \<Rightarrow> wrapperStack \<Rightarrow> chtype" where
  "applyWrapperStack base stack =
     (case st_simpleAggregate stack of
        None \<Rightarrow>
          let r1 = (if st_nullable stack then wrapNullable base else base)
          in if st_lowCardinality stack then wrapLowCardinality r1 else r1
      | Some sa \<Rightarrow>
          let putN = (st_nullable stack \<and> innerNullable sa);
              inner1 = (if putN then wrapNullable base else base);
              null' = (if putN then st_outerNullable stack else st_nullable stack);
              putL = (st_lowCardinality stack \<and> innerLowCardinality sa);
              inner2 = (if putL then wrapLowCardinality inner1 else inner1);
              lc' = (if putL then False else st_lowCardinality stack);
              rebuilt = with_params (sa_wrapper sa) ((Params (sa_wrapper sa))[1 := inner2]);
              r1 = (if null' then wrapNullable rebuilt else rebuilt)
          in if lc' then wrapLowCardinality r1 else r1)"

section \<open>The transport of a function\<close>

datatype wrapperDisposition = wrapperDrop | wrapperKeep | wrapperConditional | wrapperAdd

record wrapperCall =
  call_base :: chtype
  call_stacks :: "wrapperStack list"
  call_argCount :: nat

type_synonym wrapperCondition = "wrapperCall \<Rightarrow> bool"

record wrapperTransport =
  tr_lowCardinality :: wrapperDisposition
  tr_lowCardinalityWhen :: "wrapperCondition option"
  tr_nullable :: wrapperDisposition
  tr_nullableWhen :: "wrapperCondition option"
  tr_simpleAggregate :: wrapperDisposition
  tr_simpleAggregateWhen :: "wrapperCondition option"
  tr_stripNested :: bool

text \<open>A Go composite literal leaves the fields it does not name at their zero value.\<close>

definition zero_transport :: wrapperTransport where
  "zero_transport = \<lparr>tr_lowCardinality = wrapperDrop, tr_lowCardinalityWhen = None,
     tr_nullable = wrapperDrop, tr_nullableWhen = None, tr_simpleAggregate = wrapperDrop,
     tr_simpleAggregateWhen = None, tr_stripNested = False\<rparr>"

definition zero_stack :: wrapperStack where
  "zero_stack = \<lparr>st_lowCardinality = False, st_nullable = False, st_outerNullable = False,
     st_simpleAggregate = None\<rparr>"

definition keeps :: "wrapperDisposition \<Rightarrow> wrapperCondition option \<Rightarrow> wrapperCall \<Rightarrow> bool" where
  "keeps disposition condition call = (case disposition of
       wrapperKeep \<Rightarrow> True
     | wrapperAdd \<Rightarrow> True
     | wrapperConditional \<Rightarrow> (case condition of None \<Rightarrow> False | Some c \<Rightarrow> c call)
     | wrapperDrop \<Rightarrow> False)"

definition combine_stack :: "wrapperStack \<Rightarrow> wrapperStack \<Rightarrow> wrapperStack" where
  "combine_stack combined stack =
     \<lparr>st_lowCardinality = st_lowCardinality combined \<or> st_lowCardinality stack,
      st_nullable = st_nullable combined \<or> st_nullable stack,
      st_outerNullable = st_outerNullable combined \<or> st_outerNullable stack,
      st_simpleAggregate = (if st_simpleAggregate combined = None then st_simpleAggregate stack
                            else st_simpleAggregate combined)\<rparr>"

definition markerCarriesInnerNullable :: "wrapperStack \<Rightarrow> bool" where
  "markerCarriesInnerNullable stack =
     (case st_simpleAggregate stack of None \<Rightarrow> False | Some sa \<Rightarrow> innerNullable sa)"

definition resultStack :: "wrapperTransport \<Rightarrow> wrapperCall \<Rightarrow> wrapperStack" where
  "resultStack transport call =
     (let combined = foldl combine_stack zero_stack (call_stacks call);
          keepsMarker = (st_simpleAggregate combined \<noteq> None \<and>
             keeps (tr_simpleAggregate transport) (tr_simpleAggregateWhen transport) call);
          lc = (st_lowCardinality combined \<and>
             keeps (tr_lowCardinality transport) (tr_lowCardinalityWhen transport) call);
          nl = ((st_nullable combined \<or> tr_nullable transport = wrapperAdd) \<and>
             keeps (tr_nullable transport) (tr_nullableWhen transport) call)
      in \<lparr>st_lowCardinality = lc,
          st_nullable = nl,
          st_outerNullable = (nl \<and> (st_outerNullable combined \<or>
             tr_nullable transport = wrapperAdd \<and> \<not> markerCarriesInnerNullable combined)),
          st_simpleAggregate = (if keepsMarker then st_simpleAggregate combined else None)\<rparr>)"

definition applyWrapperTransport :: "chtype \<Rightarrow> wrapperTransport \<Rightarrow> wrapperCall \<Rightarrow> chtype" where
  "applyWrapperTransport result transport call =
     (let stack = resultStack transport call;
          result' = (if tr_stripNested transport \<and> \<not> st_lowCardinality stack
                     then stripNestedLowCardinality result else result)
      in applyWrapperStack result' stack)"

definition withResolvedLowCardinality :: "wrapperTransport \<Rightarrow> bool \<Rightarrow> wrapperTransport" where
  "withResolvedLowCardinality transport keep =
     (if tr_lowCardinality transport \<noteq> wrapperConditional then transport
      else transport\<lparr>tr_lowCardinality := (if keep then wrapperKeep else wrapperDrop),
                     tr_lowCardinalityWhen := None\<rparr>)"

section \<open>Conditions\<close>

text \<open>The first marker among the stacks; one with other than two parameters gives no inner type.\<close>

fun first_marker :: "wrapperStack list \<Rightarrow> chtype option" where
  "first_marker [] = None"
| "first_marker (stack # stacks) = (case st_simpleAggregate stack of
      None \<Rightarrow> first_marker stacks
    | Some sa \<Rightarrow> (if length (Params (sa_wrapper sa)) \<noteq> 2 then None else Some (Params (sa_wrapper sa) ! 1)))"

definition callMarkerInner :: "wrapperCall \<Rightarrow> chtype option" where
  "callMarkerInner call = first_marker (call_stacks call)"

definition callMarkerInnerSatisfies :: "wrapperCall \<Rightarrow> (chtype \<Rightarrow> bool) \<Rightarrow> bool" where
  "callMarkerInnerSatisfies call survives =
     (case callMarkerInner call of None \<Rightarrow> False | Some inner \<Rightarrow> survives inner)"

definition callKeepsSimpleAggregateMarker :: "wrapperCall \<Rightarrow> bool" where
  "callKeepsSimpleAggregateMarker call = callMarkerInnerSatisfies call simpleAggregateMarkerSurvives"

definition callKeepsValuePreservingScalarMarker :: "wrapperCall \<Rightarrow> bool" where
  "callKeepsValuePreservingScalarMarker call =
     callMarkerInnerSatisfies call simpleAggregateMarkerSurvivesValuePreserving"

definition caseFoldingKeepsSimpleAggregateCondition :: "wrapperCall \<Rightarrow> bool" where
  "caseFoldingKeepsSimpleAggregateCondition call = callKeepsSimpleAggregateMarker call"

definition aggregateKeepsSimpleAggregateCondition :: "wrapperCall \<Rightarrow> bool" where
  "aggregateKeepsSimpleAggregateCondition call = callKeepsSimpleAggregateMarker call"

definition greatestLeastKeepsLowCardinality :: "nat \<Rightarrow> bool" where
  "greatestLeastKeepsLowCardinality argCount \<longleftrightarrow> argCount = 1"

definition greatestLeastKeepsLowCardinalityCondition :: "wrapperCall \<Rightarrow> bool" where
  "greatestLeastKeepsLowCardinalityCondition call = greatestLeastKeepsLowCardinality (call_argCount call)"

definition greatestLeastNumericInner :: "chtype \<Rightarrow> bool" where
  "greatestLeastNumericInner inner0 =
     (let inner = (if named inner0 ''nullable'' \<and> length (Params inner0) = 1 then hd (Params inner0) else inner0)
      in isDecimalWithParams inner \<or> numericCHType inner)"

definition greatestLeastKeepsSimpleAggregateCondition :: "wrapperCall \<Rightarrow> bool" where
  "greatestLeastKeepsSimpleAggregateCondition call =
     (if (case callMarkerInner call of None \<Rightarrow> False
          | Some marker \<Rightarrow> \<not> simpleAggregateMarkerSurvivesValuePreserving marker) then False
      else if call_argCount call < 2 then True
      else \<not> greatestLeastNumericInner (call_base call))"

section \<open>The transports\<close>

definition nullIfTransport :: wrapperTransport where
  "nullIfTransport = zero_transport\<lparr>tr_lowCardinality := wrapperConditional, tr_nullable := wrapperAdd,
     tr_simpleAggregate := wrapperConditional,
     tr_simpleAggregateWhen := Some callKeepsValuePreservingScalarMarker\<rparr>"

definition logicOperatorTransport :: wrapperTransport where
  "logicOperatorTransport = zero_transport\<lparr>tr_nullable := wrapperKeep\<rparr>"

definition caseFoldingTransport :: wrapperTransport where
  "caseFoldingTransport = zero_transport\<lparr>tr_lowCardinality := wrapperKeep, tr_nullable := wrapperKeep,
     tr_simpleAggregate := wrapperConditional,
     tr_simpleAggregateWhen := Some caseFoldingKeepsSimpleAggregateCondition\<rparr>"

definition windowValuePreservingTransport :: wrapperTransport where
  "windowValuePreservingTransport = zero_transport\<lparr>tr_nullable := wrapperKeep,
     tr_simpleAggregate := wrapperConditional,
     tr_simpleAggregateWhen := Some callKeepsValuePreservingScalarMarker, tr_stripNested := True\<rparr>"

definition greatestLeastTransport :: wrapperTransport where
  "greatestLeastTransport = zero_transport\<lparr>tr_lowCardinality := wrapperConditional,
     tr_lowCardinalityWhen := Some greatestLeastKeepsLowCardinalityCondition, tr_nullable := wrapperKeep,
     tr_simpleAggregate := wrapperConditional,
     tr_simpleAggregateWhen := Some greatestLeastKeepsSimpleAggregateCondition\<rparr>"

definition wrapperTransportOverrides :: "(string \<times> wrapperTransport) list" where
  "wrapperTransportOverrides = [
     (''fromunixtimestamp64milli'', zero_transport\<lparr>tr_nullable := wrapperKeep\<rparr>),
     (''greatest'', greatestLeastTransport), (''least'', greatestLeastTransport),
     (''and'', logicOperatorTransport), (''or'', logicOperatorTransport), (''xor'', logicOperatorTransport),
     (''lower'', caseFoldingTransport), (''upper'', caseFoldingTransport), (''reverse'', caseFoldingTransport),
     (''laginframe'', windowValuePreservingTransport), (''leadinframe'', windowValuePreservingTransport),
     (''lag'', windowValuePreservingTransport), (''lead'', windowValuePreservingTransport),
     (''nth_value'', windowValuePreservingTransport),
     (''first_value_respect_nulls'', windowValuePreservingTransport),
     (''firstvaluerespectnulls'', windowValuePreservingTransport),
     (''last_value_respect_nulls'', windowValuePreservingTransport),
     (''lastvaluerespectnulls'', windowValuePreservingTransport),
     (''nullif'', nullIfTransport),
     (''round'', caseFoldingTransport), (''roundbankers'', caseFoldingTransport),
     (''floor'', caseFoldingTransport), (''ceil'', caseFoldingTransport),
     (''trunc'', caseFoldingTransport), (''truncate'', caseFoldingTransport)]"

datatype functionWrapperClass = wrapperClassUnset | wrapperOpaque | wrapperTransparent | wrapperAggregate

text \<open>\<open>None\<close> is the panic on a class that no rule answers.\<close>

definition transportForClass :: "functionWrapperClass \<Rightarrow> wrapperTransport option" where
  "transportForClass class = (case class of
       wrapperClassUnset \<Rightarrow> None
     | wrapperOpaque \<Rightarrow> Some zero_transport
     | wrapperTransparent \<Rightarrow>
         Some (zero_transport\<lparr>tr_lowCardinality := wrapperConditional, tr_nullable := wrapperKeep\<rparr>)
     | wrapperAggregate \<Rightarrow>
         Some (zero_transport\<lparr>tr_nullable := wrapperKeep, tr_simpleAggregate := wrapperConditional,
           tr_simpleAggregateWhen := Some aggregateKeepsSimpleAggregateCondition, tr_stripNested := True\<rparr>))"

text \<open>What the generated registry and the rule tables say about one function name.\<close>

record registry_facts =
  spec_transport :: "wrapperTransport option"
  argument_constrained :: bool
  fixed_result_rule :: bool
  dynamic_forces_nullable :: bool

definition transportForFunction ::
    "(string \<Rightarrow> registry_facts) \<Rightarrow> string \<Rightarrow> functionWrapperClass \<Rightarrow> wrapperTransport option" where
  "transportForFunction registry name class =
     (case spec_transport (registry name) of
        Some transport \<Rightarrow> Some transport
      | None \<Rightarrow> (case map_of wrapperTransportOverrides name of
          Some transport \<Rightarrow> Some transport
        | None \<Rightarrow> transportForClass class))"

definition hasFunctionTransportOverride :: "(string \<Rightarrow> registry_facts) \<Rightarrow> string \<Rightarrow> bool" where
  "hasFunctionTransportOverride registry name \<longleftrightarrow>
     spec_transport (registry name) \<noteq> None \<or> map_of wrapperTransportOverrides name \<noteq> None"

section \<open>The wrappers of a call\<close>

definition isDynamicCHType :: "chtype \<Rightarrow> bool" where
  "isDynamicCHType value \<longleftrightarrow> named value ''dynamic''"

definition aggregateDataArgCount :: "string \<Rightarrow> nat \<Rightarrow> nat" where
  "aggregateDataArgCount name argCount =
     (if name \<in> {''uniqcombined'', ''uniqcombined64''} then argCount
      else if name = ''uniqcombinedif'' then (if argCount > 1 then argCount - 1 else argCount)
      else if name \<in> {''argmax'', ''argmin'', ''greatest'', ''least''} then argCount
      else if name \<in> {''argmaxif'', ''argminif''} then (if argCount > 2 then 2 else argCount)
      else if argCount > 1 then 1 else argCount)"

text \<open>
  The loop over the arguments of a transparent call: the flags and counters it keeps.
  \<open>consts ! i\<close> says whether the expression of argument \<open>i\<close> is a constant literal; an index past
  the expressions counts as not constant.
\<close>

record transparent_state =
  ts_nullable :: bool
  ts_count :: nat
  ts_othersConstant :: bool

definition transparent_step ::
    "bool \<Rightarrow> bool list \<Rightarrow> transparent_state \<Rightarrow> nat \<times> chtype \<Rightarrow> transparent_state" where
  "transparent_step dynamicWraps consts st ia =
     (let argType = snd ia;
          nullable = (ts_nullable st \<or> dynamicWraps \<and> isDynamicCHType argType \<or> branchArgumentNullable argType)
      in if branchArgumentLowCardinality argType
         then st\<lparr>ts_nullable := nullable, ts_count := Suc (ts_count st)\<rparr>
         else if fst ia \<ge> length consts \<or> \<not> consts ! fst ia
         then st\<lparr>ts_nullable := nullable, ts_othersConstant := False\<rparr>
         else st\<lparr>ts_nullable := nullable\<rparr>)"

definition transparentWrapperFlags ::
    "(string \<Rightarrow> registry_facts) \<Rightarrow> string \<Rightarrow> bool list \<Rightarrow> chtype list \<Rightarrow> bool \<times> bool" where
  "transparentWrapperFlags registry name consts argTypes =
     (let st = foldl (transparent_step (dynamic_forces_nullable (registry name)) consts)
                 \<lparr>ts_nullable = False, ts_count = 0, ts_othersConstant = True\<rparr>
                 (enumerate 0 argTypes)
      in (ts_nullable st, ts_count st = 1 \<and> ts_othersConstant st))"

definition functionWrapperFlags ::
    "(string \<Rightarrow> registry_facts) \<Rightarrow> functionWrapperClass \<Rightarrow> string \<Rightarrow> bool list \<Rightarrow> chtype list \<Rightarrow> bool \<times> bool" where
  "functionWrapperFlags registry class name consts argTypes =
     (if class = wrapperAggregate then
        let nullable = list_ex branchArgumentNullable
                         (take (aggregateDataArgCount name (length argTypes)) argTypes)
        in if argTypes = [] then (nullable, False)
           else (nullable, branchArgumentLowCardinality (hd argTypes))
      else transparentWrapperFlags registry name consts argTypes)"

definition firstArgTypeOrZero :: "chtype list \<Rightarrow> chtype" where
  "firstArgTypeOrZero argTypes = (if argTypes = [] then ty0 [] else hd argTypes)"

definition functionWrapperTransport ::
    "(string \<Rightarrow> registry_facts) \<Rightarrow> functionWrapperClass \<Rightarrow> string \<Rightarrow> bool list \<Rightarrow> chtype list \<Rightarrow>
     (wrapperTransport \<times> wrapperCall) option" where
  "functionWrapperTransport registry class name consts argTypes =
     (let (nullable, lowCardinality) = functionWrapperFlags registry class name consts argTypes;
          (base, firstStack) = splitWrapperStack (firstArgTypeOrZero argTypes);
          marker = (if \<not> hasFunctionTransportOverride registry name \<and>
                       (argument_constrained (registry name) \<or> fixed_result_rule (registry name))
                    then None else st_simpleAggregate firstStack);
          call = \<lparr>call_base = base,
                  call_stacks = [\<lparr>st_lowCardinality = lowCardinality, st_nullable = nullable,
                                  st_outerNullable = False, st_simpleAggregate = marker\<rparr>],
                  call_argCount = length argTypes\<rparr>
      in map_option (\<lambda>transport.
           (if class \<noteq> wrapperAggregate then withResolvedLowCardinality transport lowCardinality else transport, call))
         (transportForFunction registry name class))"

definition applyFunctionWrappers ::
    "(string \<Rightarrow> registry_facts) \<Rightarrow> chtype \<Rightarrow> functionWrapperClass \<Rightarrow> string \<Rightarrow> bool list \<Rightarrow> chtype list \<Rightarrow>
     chtype option" where
  "applyFunctionWrappers registry result class name consts argTypes =
     map_option (\<lambda>(transport, call). applyWrapperTransport result transport call)
       (functionWrapperTransport registry class name consts argTypes)"

end
