(* ===== verification/Supertype.thy ===== *)
theory Supertype
  imports Transport
begin

text \<open>
  The common type of several branches (\<^verbatim>\<open>supertype.go\<close>): the pairwise rule \<open>commonCHType\<close> with
  its steps, the rules that look at a whole list of branches (mixed-sign integers, DateTime
  timezones, the order of the fold), greatest/least, and the branch literal narrowing.
\<close>

section \<open>Tests on types\<close>

function compatibleNamedArgTypes :: "chtype \<Rightarrow> chtype \<Rightarrow> bool" where
  "compatibleNamedArgTypes left right =
     (if named left ''lowcardinality'' \<and> length (Params left) = 1
      then compatibleNamedArgTypes (hd (Params left)) right
      else if named right ''lowcardinality'' \<and> length (Params right) = 1
      then compatibleNamedArgTypes left (hd (Params right))
      else if equal_fold (Name left) (Name right)
           \<and> length (LiteralParams left) = length (LiteralParams right)
           \<and> length (Params left) = length (Params right)
      then LiteralParams left = LiteralParams right
           \<and> list_all (\<lambda>(l, r). compatibleNamedArgTypes l r) (zip (Params left) (Params right))
      else if named left ''nullable'' \<and> length (Params left) = 1
      then compatibleNamedArgTypes (hd (Params left)) right
      else if named right ''nullable'' \<and> length (Params right) = 1
      then compatibleNamedArgTypes left (hd (Params right))
      else False)"
  by pat_completeness auto
termination
  by (relation "measure (\<lambda>(l, r). tsize l + tsize r)")
     (auto intro: tsize_hd_param dest!: tsize_zip_params)

declare compatibleNamedArgTypes.simps [simp del]

definition isUntypedNullType :: "chtype \<Rightarrow> bool" where
  "isUntypedNullType value \<longleftrightarrow>
     named value ''nullable'' \<and> length (Params value) = 1 \<and>
     named (hd (Params value)) ''nothing'' \<and> Params (hd (Params value)) = []"

definition isStringSupertypeFamily :: "chtype \<Rightarrow> bool" where
  "isStringSupertypeFamily value \<longleftrightarrow> named value ''string'' \<or> named value ''fixedstring''"

definition isEnumCHType :: "chtype \<Rightarrow> bool" where
  "isEnumCHType value \<longleftrightarrow> isEnumTypeName (Name value) \<and> LiteralParams value \<noteq> []"

definition enumStorageInteger :: "chtype \<Rightarrow> chtype" where
  "enumStorageInteger value = (if named value ''enum16'' then ty0 ''Int16'' else ty0 ''Int8'')"

section \<open>The pairwise rule, step by step\<close>

text \<open>Both package variables that gate the rule are initialised to true and never assigned.\<close>

definition commonWithNullLiteral :: "chtype \<Rightarrow> chtype \<Rightarrow> chtype option" where
  "commonWithNullLiteral left right =
     (let leftNull = isUntypedNullType left; rightNull = isUntypedNullType right in
      if leftNull \<and> rightNull then Some left
      else if leftNull then (if \<not> canBeInsideNullable right then None else Some (wrapNullable right))
      else if rightNull then (if \<not> canBeInsideNullable left then None else Some (wrapNullable left))
      else None)"

definition peel_nullable :: "chtype \<Rightarrow> (chtype \<times> bool) result" where
  "peel_nullable t =
     (if named t ''nullable'' then
        (if length (Params t) \<noteq> 1 then Inl (Errorf ''Nullable expects one type argument'' [])
         else Inr (hd (Params t), True))
      else Inr (t, False))"

definition bool_as_uint8 :: "chtype \<Rightarrow> chtype" where
  "bool_as_uint8 t = (if named t ''bool'' \<and> Params t = [] then ty0 ''UInt8'' else t)"

datatype enum_outcome = EnumDone "chtype result" | EnumNext chtype chtype

definition enum_step :: "bool \<Rightarrow> chtype \<Rightarrow> chtype \<Rightarrow> enum_outcome" where
  "enum_step nullable left right =
     (let leftEnum = isEnumCHType left; rightEnum = isEnumCHType right in
      if (leftEnum \<or> rightEnum) \<and> \<not> compatibleNamedArgTypes left right then
        (if isStringSupertypeFamily left \<or> isStringSupertypeFamily right then
           EnumDone (Inr (if nullable then ty1 ''Nullable'' [ty0 ''String''] else ty0 ''String''))
         else
           let left' = (if leftEnum then enumStorageInteger left else left);
               right' = (if rightEnum then enumStorageInteger right else right)
           in if isDecimalWithParams left' \<or> isDecimalWithParams right'
              then EnumDone (Inl (no_common left' right'))
              else EnumNext left' right')
      else EnumNext left right)"

definition common_scalar :: "chtype \<Rightarrow> chtype \<Rightarrow> chtype result option" where
  "common_scalar left right =
     (if to_string left = to_string right then Some (Inr left)
      else case commonDecimalSupertype left right of
        Some t \<Rightarrow> Some (Inr t)
      | None \<Rightarrow>
          if isDecimalWithParams left \<or> isDecimalWithParams right then Some (Inl (no_common left right))
          else if numericCHType left \<and> numericCHType right then Some (commonNumericCHType left right)
          else if isStringSupertypeFamily left \<and> isStringSupertypeFamily right
          then Some (Inr (ty0 ''String''))
          else None)"

definition common_temporal :: "chtype \<Rightarrow> chtype \<Rightarrow> chtype result" where
  "common_temporal left right =
     (if named left ''datetime'' \<and> named right ''datetime64'' then Inr right
      else if named left ''datetime64'' \<and> named right ''datetime'' then Inr left
      else if named left ''date'' \<and> named right ''date32'' then Inr right
      else if named left ''date32'' \<and> named right ''date'' then Inr left
      else if named left ''date'' \<and> (named right ''datetime'' \<or> named right ''datetime64'') then Inr right
      else if (named left ''datetime'' \<or> named left ''datetime64'') \<and> named right ''date'' then Inr left
      else if named left ''date32'' \<and> named right ''datetime'' then Inr (tyl ''DateTime64'' [''0''])
      else if named left ''datetime'' \<and> named right ''date32'' then Inr (tyl ''DateTime64'' [''0''])
      else if named left ''date32'' \<and> named right ''datetime64'' then Inr right
      else if named left ''datetime64'' \<and> named right ''date32'' then Inr left
      else Inl (no_common left right))"

text \<open>The element names of a Tuple survive when both sides name every element alike.\<close>

definition tuple_result :: "chtype \<Rightarrow> chtype \<Rightarrow> chtype list \<Rightarrow> chtype" where
  "tuple_result left right elements =
     (if length (ParamNames left) = length (Params left) \<and> length (ParamNames right) = length (Params right)
         \<and> list_all (\<lambda>(l, r). l \<noteq> [] \<and> l = r) (zip (ParamNames left) (ParamNames right))
      then CHType ''Tuple'' elements [] (ParamNames left)
      else ty1 ''Tuple'' elements)"

definition finish_common :: "bool \<Rightarrow> bool \<Rightarrow> chtype \<Rightarrow> chtype" where
  "finish_common anyBool nullable result0 =
     (let result = (if anyBool \<and> named result0 ''uint8'' \<and> Params result0 = [] then ty0 ''Bool'' else result0)
      in if nullable then ty1 ''Nullable'' [result] else result)"

lemma peel_nullable_size: "peel_nullable t = Inr (u, b) \<Longrightarrow> tsize u \<le> tsize t"
  by (auto simp: peel_nullable_def split: if_splits intro!: less_imp_le tsize_hd_param)

lemma bool_as_uint8_size: "tsize (bool_as_uint8 t) \<le> tsize t"
  using tsize_pos [of t] by (auto simp: bool_as_uint8_def)

lemma enum_step_size:
  "enum_step n l r = EnumNext l' r' \<Longrightarrow> tsize l' \<le> tsize l \<and> tsize r' \<le> tsize r"
  using tsize_pos [of l] tsize_pos [of r]
  by (auto simp: enum_step_def enumStorageInteger_def Let_def split: if_splits)

section \<open>The pairwise rule\<close>

lemma common_chain_size:
  assumes "peel_nullable (stripLowCardinalityDeep l0) = Inr (l2, ln)"
    and "peel_nullable (stripLowCardinalityDeep r0) = Inr (r2, rn)"
    and "enum_step n (bool_as_uint8 l2) (bool_as_uint8 r2) = EnumNext l r"
  shows "tsize l \<le> tsize l0 \<and> tsize r \<le> tsize r0"
  using peel_nullable_size [OF assms(1)] peel_nullable_size [OF assms(2)] enum_step_size [OF assms(3)]
    bool_as_uint8_size [of l2] bool_as_uint8_size [of r2]
    tsize_stripLowCardinalityDeep [of l0] tsize_stripLowCardinalityDeep [of r0] by simp

lemma common_call_size:
  assumes "peel_nullable (stripLowCardinalityDeep l0) = Inr (l2, ln)"
    and "peel_nullable (stripLowCardinalityDeep r0) = Inr (r2, rn)"
    and "enum_step n (bool_as_uint8 l2) (bool_as_uint8 r2) = EnumNext l r"
    and "a \<in> set (Params l)" and "b \<in> set (Params r)"
  shows "tsize a + tsize b < tsize l0 + tsize r0"
  using common_chain_size [OF assms(1-3)] tsize_param [OF assms(4)] tsize_param [OF assms(5)] by simp

lemma common_call_size_hd:
  assumes "peel_nullable (stripLowCardinalityDeep l0) = Inr (l2, ln)"
    and "peel_nullable (stripLowCardinalityDeep r0) = Inr (r2, rn)"
    and "enum_step n (bool_as_uint8 l2) (bool_as_uint8 r2) = EnumNext l r"
    and "length (Params l) = Suc 0" and "length (Params r) = Suc 0"
  shows "tsize (hd (Params l)) + tsize (hd (Params r)) < tsize l0 + tsize r0"
  using assms(4,5) by (intro common_call_size [OF assms(1-3)] hd_in_set) auto

lemma common_call_size_nth:
  assumes "peel_nullable (stripLowCardinalityDeep l0) = Inr (l2, ln)"
    and "peel_nullable (stripLowCardinalityDeep r0) = Inr (r2, rn)"
    and "enum_step n (bool_as_uint8 l2) (bool_as_uint8 r2) = EnumNext l r"
    and "length (Params l) = 2" and "length (Params r) = 2"
  shows "tsize (Params l ! 0) + tsize (Params r ! 0) < tsize l0 + tsize r0"
    and "tsize (Params l ! Suc 0) + tsize (Params r ! Suc 0) < tsize l0 + tsize r0"
  using assms(4,5) by (intro common_call_size [OF assms(1-3)] nth_mem; simp)+

function commonCHType :: "chtype \<Rightarrow> chtype \<Rightarrow> chtype result"
  and commonSimpleAggregateCHType :: "chtype \<Rightarrow> chtype \<Rightarrow> chtype result option" where
  "commonCHType left0 right0 =
     (let left1 = stripLowCardinalityDeep left0; right1 = stripLowCardinalityDeep right0 in
      case commonWithNullLiteral left1 right1 of Some result \<Rightarrow> Inr result | None \<Rightarrow>
      (case commonSimpleAggregateCHType left1 right1 of Some outcome \<Rightarrow> outcome | None \<Rightarrow>
       bind_res (peel_nullable left1) (\<lambda>(left2, leftNullable).
       bind_res (peel_nullable right1) (\<lambda>(right2, rightNullable).
       let leftBool = named left2 ''bool''; rightBool = named right2 ''bool'' in
       case enum_step (leftNullable \<or> rightNullable) (bool_as_uint8 left2) (bool_as_uint8 right2) of
         EnumDone outcome \<Rightarrow> outcome
       | EnumNext left right \<Rightarrow>
         bind_res
          (case common_scalar left right of Some outcome \<Rightarrow> outcome | None \<Rightarrow>
           if named left ''array'' \<and> named right ''array'' \<and> length (Params left) = 1 \<and> length (Params right) = 1
           then bind_res (commonCHType (hd (Params left)) (hd (Params right)))
                  (\<lambda>inner. Inr (ty1 ''Array'' [inner]))
           else if named left ''map'' \<and> named right ''map'' \<and> length (Params left) = 2 \<and> length (Params right) = 2
           then bind_res (commonCHType (Params left ! 0) (Params right ! 0)) (\<lambda>key.
                bind_res (commonCHType (Params left ! 1) (Params right ! 1)) (\<lambda>value.
                  Inr (ty1 ''Map'' [key, value])))
           else if named left ''tuple'' \<and> named right ''tuple'' \<and>
                   length (Params left) = length (Params right) \<and> Params left \<noteq> []
           then bind_res (map_res (\<lambda>(l, r). commonCHType l r) (zip (Params left) (Params right)))
                  (\<lambda>elements. Inr (tuple_result left right elements))
           else common_temporal left right)
          (\<lambda>result. Inr (finish_common (leftBool \<or> rightBool) (leftNullable \<or> rightNullable) result))))))"
| "commonSimpleAggregateCHType left right =
     (case simpleAggregateWrapperInner left of
        None \<Rightarrow> (case simpleAggregateWrapperInner right of
            None \<Rightarrow> None
          | Some innerRight \<Rightarrow> Some (commonCHType left innerRight))
      | Some inner \<Rightarrow>
          let peer = (case simpleAggregateWrapperInner right of Some peerInner \<Rightarrow> peerInner | None \<Rightarrow> right)
          in if to_string inner = to_string peer then Some (Inr left)
             else if named peer ''nullable'' \<and> length (Params peer) = 1 \<and>
                     to_string inner = to_string (hd (Params peer))
             then Some (Inr (ty1 ''Nullable'' [left]))
             else Some (commonCHType inner right))"
  by pat_completeness auto

termination
proof (relation "measure (\<lambda>x. case x of Inl (l, r) \<Rightarrow> Suc (2 * (tsize l + tsize r))
                                       | Inr (l, r) \<Rightarrow> 2 * (tsize l + tsize r))", goal_cases)
  case 1
  then show ?case by simp
next
  case (2 l r l1 r1)
  then show ?case using tsize_stripLowCardinalityDeep [of l] tsize_stripLowCardinalityDeep [of r] by simp
next
  case 3
  then show ?case by (auto dest: common_call_size_hd)
next
  case 4
  then show ?case by (auto dest: common_call_size_nth)
next
  case 5
  then show ?case by (auto dest: common_call_size_nth)
next
  case 6
  then show ?case by (auto dest: common_call_size set_zip_leftD set_zip_rightD)
qed (auto dest: simpleAggregateWrapperInner_size)

declare commonCHType.simps [simp del]
declare commonSimpleAggregateCHType.simps [simp del]

section \<open>DateTime branches and their timezone\<close>

text \<open>Precision and timezone of one branch; \<open>None\<close> when the branch is no DateTime or DateTime64.\<close>

definition dateTimeBranch :: "chtype \<Rightarrow> (int \<times> string) option" where
  "dateTimeBranch base =
     (if named base ''datetime64'' then
        (if LiteralParams base = [] then None
         else case atoi (trim_space (LiteralParams base ! 0)) of
             None \<Rightarrow> None
           | Some precision \<Rightarrow>
               Some (precision, if length (LiteralParams base) \<ge> 2 then LiteralParams base ! 1 else []))
      else if named base ''datetime'' then
        Some (0, if length (LiteralParams base) \<ge> 1 then LiteralParams base ! 0 else [])
      else None)"

definition last_at :: "int \<Rightarrow> (int \<times> string) list \<Rightarrow> string" where
  "last_at m branches = foldl (\<lambda>tz b. if fst b = m then snd b else tz) [] branches"

definition dateTimeTimezoneCHTypes :: "chtype list \<Rightarrow> (chtype \<times> bool) option" where
  "dateTimeTimezoneCHTypes types =
     (let bases = map (\<lambda>v. splitCHWrappers (stripLowCardinalityDeep v)) types;
          nullable = list_ex (\<lambda>s. fst (snd s)) bases
      in case those (map (\<lambda>s. dateTimeBranch (fst s)) bases) of
           None \<Rightarrow> None
         | Some branches \<Rightarrow>
             let maxPrecision = foldl (\<lambda>m b. if fst b > m then fst b else m) (- 1) branches;
                 timezone = (if list_all (\<lambda>b. fst b = maxPrecision) branches then snd (hd branches)
                             else last_at maxPrecision branches)
             in Some (if maxPrecision = 0 then
                        (if timezone = [] then ty0 ''DateTime'' else tyl ''DateTime'' [timezone])
                      else tyl ''DateTime64''
                        (itoa maxPrecision # (if timezone \<noteq> [] then [timezone] else [])), nullable))"

section \<open>The common type of a list of branches\<close>

definition branch_priority :: "chtype \<Rightarrow> nat" where
  "branch_priority value =
     (let base = base_of value in
      if isDecimalWithParams base then 0 else if isFloatCHTypeName (Name base) then 1 else 2)"

definition order_branches :: "chtype list \<Rightarrow> chtype list" where
  "order_branches types = concat (map (\<lambda>rank. filter (\<lambda>v. branch_priority v = rank) types) [0, 1, 2])"

definition commonCHTypes :: "chtype list \<Rightarrow> chtype result" where
  "commonCHTypes types =
     (if types = [] then Inl (Errorf ''cannot infer common type from no expressions'' [])
      else case mixedSignIntegerCHTypes types of
        Some (Inl e, _) \<Rightarrow> Inl e
      | Some (Inr value, nullable) \<Rightarrow> Inr (applyCHWrappers value nullable False)
      | None \<Rightarrow> (case dateTimeTimezoneCHTypes types of
          Some (result, nullable) \<Rightarrow> Inr (applyCHWrappers result nullable False)
        | None \<Rightarrow>
            let ordered = order_branches types in
            if simpleAggregateWrapperInner (hd types) \<noteq> None then
              fold_res (\<lambda>t result. if to_string t = to_string (hd types) then Inr result
                                   else commonCHType result t) ordered (hd types)
            else fold_res (\<lambda>t result. commonCHType result t) (tl ordered)
                   (stripLowCardinalityDeep (hd ordered))))"

section \<open>greatest and least\<close>

definition isBareSignedInteger :: "chtype \<Rightarrow> bool" where
  "isBareSignedInteger value \<longleftrightarrow>
     Params value = [] \<and> to_lower (Name value) \<in> {''int8'', ''int16'', ''int32'', ''int64'', ''int''}"

definition isBareUnsignedCHType64 :: "chtype \<Rightarrow> bool" where
  "isBareUnsignedCHType64 value \<longleftrightarrow> named value ''uint64'' \<and> Params value = []"

definition greatestLeastSignedUInt64Pair :: "string \<Rightarrow> chtype \<Rightarrow> chtype \<Rightarrow> chtype option" where
  "greatestLeastSignedUInt64Pair name left right =
     (case (if isBareSignedInteger left \<and> isBareUnsignedCHType64 right then Some left
            else if isBareSignedInteger right \<and> isBareUnsignedCHType64 left then Some right
            else None) of
        None \<Rightarrow> None
      | Some signed \<Rightarrow>
          (if named signed ''int64'' \<or> named signed ''int''
           then Some (if name = ''least'' then ty0 ''Int64'' else ty0 ''UInt64'')
           else Some (ty0 ''Int128'')))"

definition greatestLeastCommonCHTypes :: "string \<Rightarrow> chtype list \<Rightarrow> chtype result" where
  "greatestLeastCommonCHTypes name0 types =
     (let name = to_lower name0 in
      case (if length types = 2 \<and> (name = ''greatest'' \<or> name = ''least'')
            then greatestLeastSignedUInt64Pair name (types ! 0) (types ! 1) else None) of
        Some result \<Rightarrow> Inr result
      | None \<Rightarrow> commonCHTypes types)"

section \<open>Narrowing of branch literals\<close>

text \<open>
  The shapes of a branch expression that the narrowing test reads, after the constructors of the
  parser; a nil pointer is \<open>None\<close>.
\<close>

datatype lit_expr =
    ColumnExpr lit_expr
  | ParamExprList "lit_expr list option"
  | NumberLiteral string
  | FunctionExpr string "lit_expr list option"
  | CaseExpr "lit_expr option list" "lit_expr option"
  | OtherExpr

definition narrowingPassThroughFunctions :: "(string \<times> nat) list" where
  "narrowingPassThroughFunctions = [(''nullif'', 0), (''ifnull'', 0), (''tonullable'', 0),
     (''assumenotnull'', 0), (''identity'', 0), (''materialize'', 0)]"

definition narrowingBranchFunctions :: "string list" where
  "narrowingBranchFunctions = [''if'', ''multiif'', ''coalesce'']"

text \<open>The arguments that are values of the branches; the empty list for a call of another shape.\<close>

definition branchValueArguments :: "string \<Rightarrow> 'a list \<Rightarrow> 'a list" where
  "branchValueArguments name arguments =
     (if name = ''if'' then (if length arguments \<noteq> 3 then [] else [arguments ! 1, arguments ! 2])
      else if name = ''multiif'' then
        (if length arguments < 3 \<or> even (length arguments) then []
         else map (\<lambda>i. arguments ! i) (filter odd [0..<length arguments]) @ [last arguments])
      else if name = ''coalesce'' then arguments
      else [])"

lemma branchValueArguments_subset: "set (branchValueArguments name args) \<subseteq> set args"
  by (cases "args = []") (auto simp: branchValueArguments_def)

definition narrowable_number :: "string \<Rightarrow> bool" where
  "narrowable_number literal =
     (if list_ex (\<lambda>c. c \<in> set ''.eE'') literal \<or> has_prefix literal ''-'' then False
      else case atoi literal of None \<Rightarrow> False | Some value \<Rightarrow> value > 4294967295)"

lemma size_list_member: "x \<in> set xs \<Longrightarrow> f x < Suc (size_list f xs)"
  by (induction xs) auto

lemma size_branch_argument:
  "x \<in> set (branchValueArguments name xs) \<Longrightarrow> f x < Suc (size_list f xs)"
  using branchValueArguments_subset [of name xs] size_list_member [of x xs f] by blast

function (sequential) isNarrowableUnsignedIntegerLiteral :: "lit_expr \<Rightarrow> bool"
  and isNarrowableThroughCase :: "lit_expr option list \<Rightarrow> lit_expr option \<Rightarrow> bool"
  and isNarrowableThroughFunction :: "string \<Rightarrow> lit_expr list option \<Rightarrow> bool" where
  "isNarrowableUnsignedIntegerLiteral (ColumnExpr e) = isNarrowableUnsignedIntegerLiteral e"
| "isNarrowableUnsignedIntegerLiteral (ParamExprList items) =
     (case items of Some [item] \<Rightarrow> isNarrowableUnsignedIntegerLiteral item | _ \<Rightarrow> False)"
| "isNarrowableUnsignedIntegerLiteral (NumberLiteral literal) = narrowable_number literal"
| "isNarrowableUnsignedIntegerLiteral (FunctionExpr name args) = isNarrowableThroughFunction name args"
| "isNarrowableUnsignedIntegerLiteral (CaseExpr whens els) = isNarrowableThroughCase whens els"
| "isNarrowableUnsignedIntegerLiteral OtherExpr = False"
| "isNarrowableThroughCase whens els \<longleftrightarrow>
     whens \<noteq> [] \<and>
     list_all (\<lambda>w. case w of None \<Rightarrow> False | Some e \<Rightarrow> isNarrowableUnsignedIntegerLiteral e) whens \<and>
     (case els of None \<Rightarrow> True | Some e \<Rightarrow> isNarrowableUnsignedIntegerLiteral e)"
| "isNarrowableThroughFunction name0 args =
     (case args of None \<Rightarrow> False
      | Some arguments \<Rightarrow>
        let name = to_lower name0 in
        case map_of narrowingPassThroughFunctions name of
          Some index \<Rightarrow>
            (if index < length arguments then isNarrowableUnsignedIntegerLiteral (arguments ! index) else False)
        | None \<Rightarrow>
            if name \<notin> set narrowingBranchFunctions then False
            else let branches = branchValueArguments name arguments in
                 branches \<noteq> [] \<and> list_all isNarrowableUnsignedIntegerLiteral branches)"
  by pat_completeness auto

termination
  by (relation "measure (\<lambda>x. case x of Inl e \<Rightarrow> 2 * size e
       | Inr (Inl (whens, els)) \<Rightarrow> Suc (2 * (size_list (size_option size) whens + size_option size els))
       | Inr (Inr (name, args)) \<Rightarrow> Suc (2 * (size_option (size_list size) args)))")
     (auto dest!: size_list_member [where f = "size_option size"] size_branch_argument [where f = size]
       dest: size_list_member [OF nth_mem, where f = size])



definition narrow_branch :: "chtype \<times> lit_expr \<Rightarrow> chtype option" where
  "narrow_branch te =
     (if \<not> isNarrowableUnsignedIntegerLiteral (snd te) then None
      else let (base, nullable, lowCardinality) = splitCHWrappers (fst te) in
           if has_prefix (to_lower (Name base)) ''uint'' \<and> Params base = []
           then Some (applyCHWrappers (ty0 ''Int64'') nullable lowCardinality) else None)"

text \<open>\<open>branchTypes\<close> and \<open>branchExprs\<close> run in step, as every caller builds them.\<close>

definition commonBranchCHType :: "chtype list \<Rightarrow> lit_expr list \<Rightarrow> chtype result" where
  "commonBranchCHType branchTypes branchExprs =
     (case commonCHTypes branchTypes of
        Inr result \<Rightarrow> Inr result
      | Inl err \<Rightarrow>
          let narrowed = map narrow_branch (zip branchTypes branchExprs);
              retryTypes = map (\<lambda>(t, n). case n of Some t' \<Rightarrow> t' | None \<Rightarrow> t)
                             (zip branchTypes (narrowed @ replicate (length branchTypes) None))
          in if list_all (\<lambda>n. n = None) narrowed then Inl err else commonCHTypes retryTypes)"

definition commonNullEliminatingCHType :: "chtype list \<Rightarrow> lit_expr list \<Rightarrow> chtype result" where
  "commonNullEliminatingCHType types expressions =
     (let kept = filter (\<lambda>te. \<not> isUntypedNullType (fst te)) (zip types expressions)
      in if kept = [] then commonBranchCHType types expressions
         else commonBranchCHType (map fst kept) (map snd kept))"

end
