(* ===== verification/TypeText.thy ===== *)
theory TypeText
  imports CHTypes
begin

text \<open>
  The text of a type (\<^verbatim>\<open>CHType.String\<close>) determines the type. The engine decides equality of types by
  comparing these texts, so this is what makes the comparison mean what it says.
\<close>

definition special :: "char \<Rightarrow> bool" where
  "special c \<longleftrightarrow> c \<in> {CHR ''('', CHR '')'', CHR '','', CHR '' ''}"

definition plain_word :: "string \<Rightarrow> bool" where
  "plain_word s \<longleftrightarrow> list_all (\<lambda>c. \<not> special c) s"

definition plain_literal :: "string \<Rightarrow> bool" where
  "plain_literal s \<longleftrightarrow> list_all (\<lambda>c. c \<noteq> CHR '')'' \<and> c \<noteq> CHR '','') s"

definition text_node :: "(string \<Rightarrow> bool) \<Rightarrow> chtype \<Rightarrow> bool" where
  "text_node L t \<longleftrightarrow>
     Name t \<noteq> [] \<and> plain_word (Name t) \<and>
     (LiteralParams t \<noteq> [] \<longrightarrow> Params t = [] \<and> L (Name t)) \<and> (Params t \<noteq> [] \<longrightarrow> \<not> L (Name t)) \<and>
     list_all plain_literal (LiteralParams t) \<and>
     (ParamNames t \<noteq> [] \<longrightarrow> length (ParamNames t) = length (Params t) \<and> list_ex (\<lambda>n. n \<noteq> []) (ParamNames t)) \<and>
     list_all plain_word (ParamNames t)"

abbreviation text_type :: "(string \<Rightarrow> bool) \<Rightarrow> chtype \<Rightarrow> bool" where
  "text_type L \<equiv> all_nodes (text_node L)"

definition stops :: "string \<Rightarrow> bool" where
  "stops r \<longleftrightarrow> r = [] \<or> hd r = CHR '','' \<or> hd r = CHR '')''"

lemma word_split:
  assumes "xs @ a = ys @ b" and "list_all P xs" and "list_all P ys"
    and "a = [] \<or> \<not> P (hd a)" and "b = [] \<or> \<not> P (hd b)"
  shows "xs = ys \<and> a = b"
proof -
  have t: "takeWhile P (zs @ c) = zs" if "list_all P zs" "c = [] \<or> \<not> P (hd c)" for zs c
    using that by (induction zs) (auto simp: takeWhile_eq_Nil_iff)
  have "xs = ys" using t [OF assms(2,4)] t [OF assms(3,5)] assms(1) by simp
  with assms(1) show ?thesis by simp
qed

lemma join_decode:
  assumes e: "\<And>x y a b. x \<in> set xs \<Longrightarrow> Q y \<Longrightarrow> stops a \<Longrightarrow> stops b \<Longrightarrow> e x @ a = e y @ b \<Longrightarrow> x = y \<and> a = b"
    and "list_all Q ys" and "xs \<noteq> []" and "ys \<noteq> []"
    and "join '', '' (map e xs) @ CHR '')'' # r = join '', '' (map e ys) @ CHR '')'' # s"
  shows "xs = ys \<and> r = s"
  using assms
proof (induction xs arbitrary: ys)
  case Nil
  then show ?case by simp
next
  case (Cons x xs)
  from Cons.prems(4) obtain y ys' where ys: "ys = y # ys'" by (cases ys) auto
  let ?tail = "\<lambda>zs r. if zs = [] then CHR '')'' # r else '', '' @ join '', '' (map e zs) @ CHR '')'' # r"
  have j: "join '', '' (map e (z # zs)) @ CHR '')'' # r = e z @ ?tail zs r" for z zs r
    by (cases zs) auto
  have st: "stops (?tail zs r)" for zs r by (auto simp: stops_def)
  from Cons.prems(5) ys j have "e x @ ?tail xs r = e y @ ?tail ys' s" by metis
  with Cons.prems(1) [of x y, OF _ _ st st] Cons.prems(2) ys
  have xy: "x = y" "?tail xs r = ?tail ys' s" by auto
  show ?case
  proof (cases "xs = [] \<or> ys' = []")
    case True
    with xy ys show ?thesis by (auto split: if_splits)
  next
    case False
    with xy(2) have "join '', '' (map e xs) @ CHR '')'' # r = join '', '' (map e ys') @ CHR '')'' # s" by simp
    with False Cons.prems(1,2) ys Cons.IH [of ys'] have "xs = ys' \<and> r = s" by auto
    with xy ys show ?thesis by simp
  qed
qed

definition labels :: "chtype \<Rightarrow> string list" where
  "labels t = (if ParamNames t = [] then replicate (length (Params t)) [] else ParamNames t)"

lemma labels_zip:
  assumes "text_node L t"
  shows "zip (map to_string (Params t)) (ParamNames t @ replicate (length (Params t)) [])
    = map (\<lambda>(p, n). (to_string p, n)) (zip (Params t) (labels t))"
proof (cases "ParamNames t = []")
  case True
  then show ?thesis by (simp add: labels_def zip_map1)
next
  case False
  with assms have "length (ParamNames t) = length (Params t)" by (simp add: text_node_def)
  with False show ?thesis by (simp add: labels_def zip_append2 zip_map1)
qed

lemma to_string_eq:
  assumes "text_node L t"
  shows "to_string t = Name t @
    (if Params t \<noteq> [] then ''('' @ join '', '' (map (\<lambda>(p, n). param_label (to_string p) n) (zip (Params t) (labels t))) @ '')''
     else if LiteralParams t \<noteq> [] then ''('' @ join '', '' (LiteralParams t) @ '')'' else [])"
proof (cases t)
  case (CHType n ps ls ns)
  have z: "zip (map to_string ps) (ns @ replicate (length ps) []) = map (\<lambda>(p, n). (to_string p, n)) (zip ps (labels t))"
    using labels_zip [OF assms] CHType by simp
  have "ps \<noteq> [] \<Longrightarrow> ls = []" using assms CHType by (auto simp: text_node_def)
  then show ?thesis
    by (auto simp: CHType z case_prod_unfold comp_def)
qed

lemma labels_inj:
  assumes "text_node L t" "text_node L u" "length (Params t) = length (Params u)" "labels t = labels u"
  shows "ParamNames t = ParamNames u"
proof -
  have n: "ns = []" if "replicate k [] = ns" "ns \<noteq> [] \<Longrightarrow> list_ex (\<lambda>n. n \<noteq> []) ns" for ns :: "string list" and k
    using that by (cases "ns = []") (auto simp: list_ex_iff)
  show ?thesis
    using assms n [of _ "ParamNames u"] n [of _ "ParamNames t"]
    by (cases "ParamNames t = []"; cases "ParamNames u = []") (auto simp: labels_def text_node_def)
qed

lemma length_labels: "text_node L t \<Longrightarrow> length (labels t) = length (Params t)"
  by (auto simp: labels_def text_node_def)

lemma labels_plain: "text_node L t \<Longrightarrow> list_all plain_word (labels t)"
  by (auto simp: labels_def text_node_def list_all_iff plain_word_def)

text \<open>What follows the name of a type in a rendering never continues the name.\<close>

lemma name_split:
  assumes "plain_word xs" "plain_word ys" "xs @ a = ys @ b"
    and "a = [] \<or> special (hd a)" and "b = [] \<or> special (hd b)"
  shows "xs = ys \<and> a = b"
  using word_split [OF assms(3), of "\<lambda>c. \<not> special c"] assms(1,2,4,5) by (auto simp: plain_word_def)

lemma stops_special: "stops r \<Longrightarrow> r = [] \<or> special (hd r)"
  by (auto simp: stops_def special_def)

definition type_tail :: "chtype \<Rightarrow> string" where
  "type_tail t = drop (length (Name t)) (to_string t)"

lemma to_string_tail:
  assumes "text_node L t"
  shows "to_string t = Name t @ type_tail t" and "type_tail t = [] \<or> hd (type_tail t) = CHR ''(''"
  using to_string_eq [OF assms] by (auto simp: type_tail_def)

lemma label_decode:
  assumes t: "text_node L t" and u: "text_node L u" and w: "plain_word n" "plain_word m"
    and st: "stops a" "stops b"
    and e: "param_label (to_string t) n @ a = param_label (to_string u) m @ b"
  shows "n = m \<and> to_string t @ a = to_string u @ b"
proof -
  have tl: "type_tail x @ r = [] \<or> special (hd (type_tail x @ r)) \<and> hd (type_tail x @ r) \<noteq> CHR '' ''"
    if "text_node L x" "stops r" for x r
    using to_string_tail(2) [OF that(1)] that(2)
    by (cases "type_tail x = []") (auto simp: stops_def special_def)
  have nm: "plain_word (Name t)" "plain_word (Name u)" using t u by (auto simp: text_node_def)
  have s: "CHR '' '' # r = [] \<or> special (hd (CHR '' '' # r))" for r by (simp add: special_def)
  show ?thesis
  proof (cases "n = []"; cases "m = []")
    assume "n = []" "m \<noteq> []"
    then have "Name t @ (type_tail t @ a) = m @ (CHR '' '' # to_string u @ b)"
      using e to_string_tail(1) [OF t] by (simp add: param_label_def)
    then have "type_tail t @ a = CHR '' '' # to_string u @ b"
      using name_split [OF nm(1) w(2)] tl [OF t st(1)] s by blast
    with tl [OF t st(1)] show ?thesis by simp
  next
    assume "n \<noteq> []" "m = []"
    then have "n @ (CHR '' '' # to_string t @ a) = Name u @ (type_tail u @ b)"
      using e to_string_tail(1) [OF u] by (simp add: param_label_def)
    then have "CHR '' '' # to_string t @ a = type_tail u @ b"
      using name_split [OF w(1) nm(2)] tl [OF u st(2)] s by blast
    with tl [OF u st(2)] show ?thesis by (metis list.distinct(1) list.sel(1))
  next
    assume "n \<noteq> []" "m \<noteq> []"
    then have "n @ (CHR '' '' # to_string t @ a) = m @ (CHR '' '' # to_string u @ b)"
      using e by (simp add: param_label_def)
    with name_split [OF w] s show ?thesis by blast
  qed (use e in \<open>simp add: param_label_def\<close>)
qed

lemma literal_decode:
  assumes "plain_literal x" "plain_literal y" "stops a" "stops b" "x @ a = y @ b"
  shows "x = y \<and> a = b"
  using word_split [OF assms(5), of "\<lambda>c. c \<noteq> CHR '')'' \<and> c \<noteq> CHR '',''"] assms
  by (auto simp: plain_literal_def stops_def)

lemma to_string_decode:
  assumes "text_type L t" "text_type L u" "stops a" "stops b" "to_string t @ a = to_string u @ b"
  shows "t = u \<and> a = b"
  using assms
proof (induction "tsize t" arbitrary: t u a b rule: less_induct)
  case less
  have nt: "text_node L t" and nu: "text_node L u" using less.prems(1,2) by (auto dest: all_nodes_root)
  have tt: "type_tail x @ r = [] \<or> special (hd (type_tail x @ r))" if "text_node L x" "stops r" for x r
    using to_string_tail(2) [OF that(1)] stops_special [OF that(2)]
    by (cases "type_tail x") (simp_all add: special_def)
  have "Name t @ (type_tail t @ a) = Name u @ (type_tail u @ b)"
    using less.prems(5) to_string_tail(1) [OF nt] to_string_tail(1) [OF nu] by simp
  then have n: "Name t = Name u" and tail: "type_tail t @ a = type_tail u @ b"
    using name_split [OF _ _ _ tt [OF nt less.prems(3)] tt [OF nu less.prems(4)]] nt nu
    by (auto simp: text_node_def)
  have leaf: "type_tail x = [] \<longleftrightarrow> Params x = [] \<and> LiteralParams x = []" if "text_node L x" for x
    using to_string_eq [OF that] by (auto simp: type_tail_def)
  have no: "\<not> (type_tail x = [] \<and> type_tail y \<noteq> [] \<and> type_tail x @ r = type_tail y @ s)"
    if "text_node L y" "stops r" for x y r s
    using to_string_tail(2) [OF that(1)] that(2) by (auto simp: stops_def)
  have nodes: "Name t = Name u \<Longrightarrow> Params t = Params u \<Longrightarrow> LiteralParams t = LiteralParams u \<Longrightarrow>
      ParamNames t = ParamNames u \<Longrightarrow> t = u" by (cases t; cases u) simp
  consider (leaf) "type_tail t = []" "type_tail u = []" | (node) "type_tail t \<noteq> []" "type_tail u \<noteq> []"
    using no [OF nu less.prems(3), of t b] no [OF nt less.prems(4), of u a] tail by metis
  then show ?case
  proof cases
    case leaf': leaf
    then have "Params t = []" "LiteralParams t = []" "Params u = []" "LiteralParams u = []"
      using leaf [OF nt] leaf [OF nu] by auto
    moreover from this have "ParamNames t = ParamNames u" using nt nu by (auto simp: text_node_def)
    ultimately show ?thesis using tail leaf' nodes n by simp
  next
    case node
    show ?thesis
    proof (cases "L (Name t)")
      case True
      then have p: "Params t = []" "Params u = []" using nt nu n by (auto simp: text_node_def)
      then have l: "LiteralParams t \<noteq> []" "LiteralParams u \<noteq> []"
        using node leaf [OF nt] leaf [OF nu] by auto
      have "join '', '' (map id (LiteralParams t)) @ CHR '')'' # a = join '', '' (map id (LiteralParams u)) @ CHR '')'' # b"
        using tail to_string_eq [OF nt] to_string_eq [OF nu] p l by (simp add: type_tail_def)
      moreover have "x = y \<and> c = d" if "x \<in> set (LiteralParams t)" "plain_literal y" "stops c" "stops d"
        "id x @ c = id y @ d" for x y c d
        using that nt by (intro literal_decode) (auto simp: text_node_def list_all_iff)
      ultimately have "LiteralParams t = LiteralParams u \<and> a = b"
        using nu l by (intro join_decode [where e = id and Q = plain_literal]) (auto simp: text_node_def)
      moreover have "ParamNames t = ParamNames u" using nt nu p by (auto simp: text_node_def)
      ultimately show ?thesis using nodes n p by simp
    next
      case False
      then have l: "LiteralParams t = []" "LiteralParams u = []" using nt nu n by (auto simp: text_node_def)
      then have p: "Params t \<noteq> []" "Params u \<noteq> []"
        using node leaf [OF nt] leaf [OF nu] by auto
      let ?e = "\<lambda>(p, n). param_label (to_string p) n"
      let ?Q = "\<lambda>(p, n). text_type L p \<and> plain_word n"
      have j: "join '', '' (map ?e (zip (Params t) (labels t))) @ CHR '')'' # a =
               join '', '' (map ?e (zip (Params u) (labels u))) @ CHR '')'' # b"
        using tail to_string_eq [OF nt] to_string_eq [OF nu] p l by (simp add: type_tail_def)
      have Q: "list_all ?Q (zip (Params x) (labels x))" if "text_type L x" for x
        using that labels_plain [OF all_nodes_root [OF that]]
        by (auto simp: list_all_iff dest: set_zip_leftD set_zip_rightD all_nodes_param)
      have ne: "zip (Params x) (labels x) \<noteq> []" if "text_node L x" "Params x \<noteq> []" for x
        using length_labels [OF that(1)] that(2) by (cases "Params x"; cases "labels x") auto
      have dec: "x = y \<and> c = d"
        if "x \<in> set (zip (Params t) (labels t))" "?Q y" "stops c" "stops d" "?e x @ c = ?e y @ d" for x y c d
      proof -
        obtain p n q m where xy: "x = (p, n)" "y = (q, m)" by (cases x; cases y) auto
        have pq: "p \<in> set (Params t)" "?Q (p, n)"
          using that(1) xy Q [OF less.prems(1)] by (auto simp: list_all_iff dest: set_zip_leftD)
        have "n = m \<and> to_string p @ c = to_string q @ d"
          using pq(2) that(2-5) xy by (intro label_decode) (auto dest: all_nodes_root)
        moreover have "tsize p < tsize t" using pq(1) by (rule tsize_param)
        ultimately show ?thesis using less.hyps [of p q c d] pq(2) that(2-4) xy by auto
      qed
      have z: "zip (Params t) (labels t) = zip (Params u) (labels u) \<and> a = b"
        by (rule join_decode [where e = ?e and Q = ?Q, OF dec Q [OF less.prems(2)] ne [OF nt p(1)] ne [OF nu p(2)] j])
      then have ps: "Params t = Params u" "labels t = labels u"
        using length_labels [OF nt] length_labels [OF nu] by (metis map_fst_zip map_snd_zip)+
      with z nodes n l labels_inj [OF nt nu] show ?thesis by simp
    qed
  qed
qed

text \<open>The families that carry literal parameters; every other family carries types.\<close>

definition literal_family :: "string \<Rightarrow> bool" where
  "literal_family n \<longleftrightarrow> to_lower n \<in>
     {''decimal'', ''decimal32'', ''decimal64'', ''decimal128'', ''decimal256'', ''datetime'',
      ''datetime64'', ''fixedstring'', ''enum'', ''enum8'', ''enum16''}"

text \<open>
  C27. The inference rules compare two types by the text of \<^verbatim>\<open>CHType.String\<close>. For types
  whose names and labels are plain words and whose literals hold no comma and no closing parenthesis,
  equal texts mean equal types.
\<close>

theorem to_string_inj:
  assumes "all_nodes (text_node literal_family) t" and "all_nodes (text_node literal_family) u"
    and "to_string t = to_string u"
  shows "t = u"
  using to_string_decode [OF assms(1,2), of "[]" "[]"] assms(3) by (simp add: stops_def)

theorem to_string_inj_witness:
  "to_string (CHType ''Tuple'' [ty0 ''Int8'', ty1 ''Array'' [tyl ''DateTime64'' [''3'', ''UTC'']]] [] [''a'', ''b''])
     \<noteq> to_string (CHType ''Tuple'' [ty0 ''Int8'', ty1 ''Array'' [tyl ''DateTime64'' [''3'', ''UTC'']]] [] [])"
  (is "to_string ?t \<noteq> to_string ?u")
proof
  assume e: "to_string ?t = to_string ?u"
  have "all_nodes (text_node literal_family) ?t" "all_nodes (text_node literal_family) ?u" by code_simp+
  from to_string_inj [OF this e] show False by simp
qed

end
