(* ===== verification/SupertypeFacts.thy ===== *)
theory SupertypeFacts
  imports Supertype TypeText
begin

text \<open>
  Facts about the pairwise rule of \<^verbatim>\<open>supertype.go\<close>: how a common type comes about, the
  induction over the sizes of the two arguments, and what every result satisfies.
\<close>


lemma hd_in_params: "length (Params t) = Suc 0 \<Longrightarrow> hd (Params t) \<in> set (Params t)"
  by (intro hd_in_set) auto

lemma map_res_member: "map_res f xs = Inr ys \<Longrightarrow> y \<in> set ys \<Longrightarrow> \<exists>x \<in> set xs. f x = Inr y"
  by (induction xs arbitrary: ys) auto

definition common_node :: "chtype \<Rightarrow> chtype \<Rightarrow> chtype result" where
  "common_node left right =
     (case common_scalar left right of Some outcome \<Rightarrow> outcome | None \<Rightarrow>
      if named left ''array'' \<and> named right ''array'' \<and> length (Params left) = 1 \<and> length (Params right) = 1
      then bind_res (commonCHType (hd (Params left)) (hd (Params right)))
             (\<lambda>inner. Inr (ty1 ''Array'' [inner]))
      else if named left ''map'' \<and> named right ''map'' \<and> length (Params left) = 2 \<and> length (Params right) = 2
      then bind_res (commonCHType (Params left ! 0) (Params right ! 0)) (\<lambda>key.
           bind_res (commonCHType (Params left ! 1) (Params right ! 1)) (\<lambda>value.
             Inr (ty1 ''Map'' [key, value])))
      else if named left ''tuple'' \<and> named right ''tuple'' \<and>
              length (Params left) = length (Params right) \<and> Params left \<noteq> []
      then bind_res (map_res (\<lambda>(l, r). commonCHType l r) (zip (Params left) (Params right)))
             (\<lambda>elements. Inr (tuple_result left right elements))
      else common_temporal left right)"

lemma commonCHType_unfold:
  "commonCHType l r =
    (let L = stripLowCardinalityDeep l; R = stripLowCardinalityDeep r in
     case commonWithNullLiteral L R of Some t \<Rightarrow> Inr t | None \<Rightarrow>
     case commonSimpleAggregateCHType L R of Some outcome \<Rightarrow> outcome | None \<Rightarrow>
     bind_res (peel_nullable L) (\<lambda>(l2, ln). bind_res (peel_nullable R) (\<lambda>(r2, rn).
       case enum_step (ln \<or> rn) (bool_as_uint8 l2) (bool_as_uint8 r2) of
         EnumDone outcome \<Rightarrow> outcome
       | EnumNext left right \<Rightarrow>
           bind_res (common_node left right)
             (\<lambda>t. Inr (finish_common (named l2 ''bool'' \<or> named r2 ''bool'') (ln \<or> rn) t)))))"
  by (subst commonCHType.simps) (simp only: common_node_def Let_def)

text \<open>The four ways a common type comes about.\<close>

lemma commonCHType_InrE:
  assumes "commonCHType l r = Inr t"
  obtains
    (null) "commonWithNullLiteral (stripLowCardinalityDeep l) (stripLowCardinalityDeep r) = Some t"
  | (marker) "commonWithNullLiteral (stripLowCardinalityDeep l) (stripLowCardinalityDeep r) = None"
      "commonSimpleAggregateCHType (stripLowCardinalityDeep l) (stripLowCardinalityDeep r) = Some (Inr t)"
  | (enum_string) l2 ln r2 rn where
      "commonWithNullLiteral (stripLowCardinalityDeep l) (stripLowCardinalityDeep r) = None"
      "commonSimpleAggregateCHType (stripLowCardinalityDeep l) (stripLowCardinalityDeep r) = None"
      "peel_nullable (stripLowCardinalityDeep l) = Inr (l2, ln)"
      "peel_nullable (stripLowCardinalityDeep r) = Inr (r2, rn)"
      "enum_step (ln \<or> rn) (bool_as_uint8 l2) (bool_as_uint8 r2) = EnumDone (Inr t)"
  | (node) l2 ln r2 rn left right res where
      "commonWithNullLiteral (stripLowCardinalityDeep l) (stripLowCardinalityDeep r) = None"
      "commonSimpleAggregateCHType (stripLowCardinalityDeep l) (stripLowCardinalityDeep r) = None"
      "peel_nullable (stripLowCardinalityDeep l) = Inr (l2, ln)"
      "peel_nullable (stripLowCardinalityDeep r) = Inr (r2, rn)"
      "enum_step (ln \<or> rn) (bool_as_uint8 l2) (bool_as_uint8 r2) = EnumNext left right"
      "common_node left right = Inr res"
      "t = finish_common (named l2 ''bool'' \<or> named r2 ''bool'') (ln \<or> rn) res"
proof (cases "commonWithNullLiteral (stripLowCardinalityDeep l) (stripLowCardinalityDeep r)")
  case None
  note n = this
  show thesis
  proof (cases "commonSimpleAggregateCHType (stripLowCardinalityDeep l) (stripLowCardinalityDeep r)")
    case (Some m)
    with n assms marker show thesis by (simp add: commonCHType_unfold Let_def)
  next
    case m: None
    from assms n m obtain l2 ln r2 rn where p: "peel_nullable (stripLowCardinalityDeep l) = Inr (l2, ln)"
      "peel_nullable (stripLowCardinalityDeep r) = Inr (r2, rn)"
      by (auto simp: commonCHType_unfold Let_def)
    show thesis
      using assms n m p enum_string [OF n m p] node [OF n m p]
      by (cases "enum_step (ln \<or> rn) (bool_as_uint8 l2) (bool_as_uint8 r2)")
         (auto simp: commonCHType_unfold Let_def)
  qed
qed (use assms null in \<open>simp add: commonCHType_unfold Let_def\<close>)

lemma common_node_InrE:
  assumes "common_node left right = Inr t"
  obtains
    (scalar) "common_scalar left right = Some (Inr t)"
  | (array) inner where "common_scalar left right = None" "named left ''array''" "named right ''array''"
      "length (Params left) = 1" "length (Params right) = 1"
      "commonCHType (hd (Params left)) (hd (Params right)) = Inr inner" "t = ty1 ''Array'' [inner]"
  | (map) key val where "common_scalar left right = None" "named left ''map''" "named right ''map''"
      "length (Params left) = 2" "length (Params right) = 2"
      "commonCHType (Params left ! 0) (Params right ! 0) = Inr key"
      "commonCHType (Params left ! 1) (Params right ! 1) = Inr val" "t = ty1 ''Map'' [key, val]"
  | (tuple) elements where "common_scalar left right = None" "named left ''tuple''" "named right ''tuple''"
      "length (Params left) = length (Params right)" "Params left \<noteq> []"
      "map_res (\<lambda>(l, r). commonCHType l r) (zip (Params left) (Params right)) = Inr elements"
      "t = tuple_result left right elements"
  | (temporal) "common_scalar left right = None" "common_temporal left right = Inr t"
  using assms unfolding common_node_def
  by (auto split: option.splits if_splits)

section \<open>No LowCardinality in a common type\<close>

lemma nlc_leaf: "Params t = [] \<Longrightarrow> no_low_cardinality t"
  by (cases t) (simp add: no_low_cardinality_def low_cardinality_node_def)

lemma nlc_param: "no_low_cardinality t \<Longrightarrow> p \<in> set (Params t) \<Longrightarrow> no_low_cardinality p"
  by (auto simp: no_low_cardinality_def dest: all_nodes_param)

lemma nlc_ty1: "to_lower n \<noteq> ''lowcardinality'' \<Longrightarrow> (\<And>p. p \<in> set ps \<Longrightarrow> no_low_cardinality p) \<Longrightarrow>
    no_low_cardinality (CHType n ps ls ns)"
  by (auto simp: no_low_cardinality_def low_cardinality_node_def list_all_iff)

lemma nlc_peel: "peel_nullable t = Inr (u, b) \<Longrightarrow> no_low_cardinality t \<Longrightarrow> no_low_cardinality u"
  by (auto simp: peel_nullable_def split: if_splits intro: nlc_param hd_in_params)

lemma nlc_wrapNullable: "no_low_cardinality t \<Longrightarrow> no_low_cardinality (wrapNullable t)"
  by (auto simp: wrapNullable_def intro!: nlc_ty1)

lemma nlc_bool: "no_low_cardinality t \<Longrightarrow> no_low_cardinality (bool_as_uint8 t)"
  by (simp add: bool_as_uint8_def nlc_leaf)

lemma nlc_enum:
  "enum_step n l r = EnumNext l' r' \<Longrightarrow> no_low_cardinality l \<Longrightarrow> no_low_cardinality r \<Longrightarrow>
   no_low_cardinality l' \<and> no_low_cardinality r'"
  by (auto simp: enum_step_def enumStorageInteger_def Let_def nlc_leaf split: if_splits)

lemma nlc_enum_done: "enum_step n l r = EnumDone (Inr t) \<Longrightarrow> no_low_cardinality t"
  by (auto simp: enum_step_def Let_def nlc_leaf split: if_splits intro!: nlc_ty1)

lemma nlc_finish: "no_low_cardinality t \<Longrightarrow> no_low_cardinality (finish_common a b t)"
  by (auto simp: finish_common_def Let_def nlc_leaf intro!: nlc_ty1)

lemma commonNumeric_leaf:
  assumes "commonNumericCHType l r = Inr t"
  shows "Params t = []"
  by (rule commonNumeric_infos [OF assms]) (use assms in \<open>auto simp: commonNumeric_join\<close>)

lemma commonDecimal_leaf: "commonDecimalSupertype l r = Some t \<Longrightarrow> Params t = []"
  by (auto simp: commonDecimalSupertype_def Let_def split: if_splits option.splits)

lemma common_scalar_shape:
  "common_scalar l r = Some (Inr t) \<Longrightarrow> t = l \<or> Params t = []"
  by (auto simp: common_scalar_def dest: commonNumeric_leaf commonDecimal_leaf split: if_splits option.splits)

lemma common_temporal_shape: "common_temporal l r = Inr t \<Longrightarrow> t = l \<or> t = r \<or> Params t = []"
  by (auto simp: common_temporal_def split: if_splits)

lemma nlc_tuple_result:
  "(\<And>p. p \<in> set es \<Longrightarrow> no_low_cardinality p) \<Longrightarrow> no_low_cardinality (tuple_result l r es)"
  by (auto simp: tuple_result_def intro!: nlc_ty1)

text \<open>
  Induction on the sizes of the two arguments: every call the rule makes is on smaller types,
  whether into a container, or through the marker.
\<close>

lemma pair_size_induct:
  assumes "\<And>l r. (\<And>l' r'. tsize l' + tsize r' < tsize l + tsize r \<Longrightarrow> P l' r') \<Longrightarrow> P l r"
  shows "P l r"
proof (induction "tsize l + tsize r" arbitrary: l r rule: less_induct)
  case less
  show ?case by (rule assms) (rule less, simp)
qed

lemma marker_size:
  assumes "commonSimpleAggregateCHType l r = Some (Inr t)"
  shows "t = l \<or> t = ty1 ''Nullable'' [l] \<or>
   (\<exists>l' r'. commonCHType l' r' = Inr t \<and> tsize l' + tsize r' < tsize l + tsize r)"
proof (cases "simpleAggregateWrapperInner l")
  case None
  with assms obtain i where "simpleAggregateWrapperInner r = Some i" "commonCHType l i = Inr t"
    by (cases "simpleAggregateWrapperInner r") (simp_all add: commonSimpleAggregateCHType.simps [of l r])
  moreover from this(1) have "tsize i < tsize r" by (rule simpleAggregateWrapperInner_size)
  ultimately show ?thesis by (meson nat_add_left_cancel_less)
next
  case (Some i)
  then have "tsize i < tsize l" by (rule simpleAggregateWrapperInner_size)
  then have "tsize i + tsize r < tsize l + tsize r" by simp
  moreover from Some assms have "t = l \<or> t = ty1 ''Nullable'' [l] \<or> commonCHType i r = Inr t"
    by (simp add: commonSimpleAggregateCHType.simps [of l r] Let_def split: if_splits)
  ultimately show ?thesis by blast
qed

lemma common_no_low_cardinality: "commonCHType l r = Inr t \<Longrightarrow> no_low_cardinality t"
proof (induction l r arbitrary: t rule: pair_size_induct)
  case (1 l r)
  let ?L = "stripLowCardinalityDeep l" and ?R = "stripLowCardinalityDeep r"
  have L: "no_low_cardinality ?L" and R: "no_low_cardinality ?R" by (rule stripLowCardinalityDeep_clean)+
  have sz: "tsize ?L + tsize ?R \<le> tsize l + tsize r"
    by (intro add_mono tsize_stripLowCardinalityDeep)
  from "1.prems" show ?case
  proof (cases rule: commonCHType_InrE)
    case null
    with L R show ?thesis by (auto simp: commonWithNullLiteral_def Let_def nlc_wrapNullable split: if_splits)
  next
    case marker
    from marker_size [OF marker(2)] show ?thesis
    proof (elim disjE exE conjE)
      fix l' r' assume "commonCHType l' r' = Inr t" "tsize l' + tsize r' < tsize ?L + tsize ?R"
      with sz show ?thesis by (intro "1.IH") auto
    qed (use L in \<open>auto intro!: nlc_ty1\<close>)
  next
    case enum_string
    then show ?thesis by (auto dest: nlc_enum_done)
  next
    case (node l2 ln r2 rn left right res)
    have lr: "no_low_cardinality left" "no_low_cardinality right"
      using nlc_enum [OF node(5)] nlc_bool nlc_peel [OF node(3) L] nlc_peel [OF node(4) R] by blast+
    have sub: "commonCHType a b = Inr u \<Longrightarrow> a \<in> set (Params left) \<Longrightarrow> b \<in> set (Params right) \<Longrightarrow>
        no_low_cardinality u" for a b u
      by (rule "1.IH" [OF common_call_size [OF node(3-5)]])
    from node(6) have "no_low_cardinality res"
    proof (cases rule: common_node_InrE)
      case scalar
      with lr show ?thesis by (auto dest!: common_scalar_shape intro: nlc_leaf)
    next
      case (array inner)
      then have "no_low_cardinality inner" by (intro sub [OF array(6)] hd_in_set) auto
      with array show ?thesis by (auto intro!: nlc_ty1)
    next
      case (map key val)
      then have "no_low_cardinality key" "no_low_cardinality val"
        using sub [OF map(6)] sub [OF map(7)] by auto
      with map show ?thesis by (auto intro!: nlc_ty1)
    next
      case (tuple elements)
      have "no_low_cardinality p" if "p \<in> set elements" for p
      proof -
        from map_res_member [OF tuple(6) that] obtain a b where
          ab: "(a, b) \<in> set (zip (Params left) (Params right))" "commonCHType a b = Inr p" by auto
        with sub [OF ab(2)] show ?thesis by (meson in_set_zipE)
      qed
      with tuple show ?thesis by (auto intro!: nlc_tuple_result)
    next
      case temporal
      with lr show ?thesis by (auto dest!: common_temporal_shape intro: nlc_leaf)
    qed
    with node show ?thesis by (simp add: nlc_finish)
  qed
qed
section \<open>The pairwise rule is symmetric\<close>

text \<open>
  The types the symmetry speaks about: text determines them, no SimpleAggregateFunction marker (the
  rule is meant to be asymmetric there), no LowCardinality, and the NULL literal in its one spelling.
\<close>

definition comm_node :: "chtype \<Rightarrow> bool" where
  "comm_node t \<longleftrightarrow> text_node literal_family t \<and> \<not> named t ''simpleaggregatefunction'' \<and>
     (isUntypedNullType t \<longrightarrow> t = ty1 ''Nullable'' [ty0 ''Nothing''])"

definition comm_type :: "chtype \<Rightarrow> bool" where
  "comm_type t \<longleftrightarrow> all_nodes comm_node t \<and> no_low_cardinality t"

lemma all_nodes_mono: "all_nodes P t \<Longrightarrow> (\<And>u. P u \<Longrightarrow> Q u) \<Longrightarrow> all_nodes Q t"
  by (induction t) (auto simp: list_all_iff)

lemma comm_type_text: "comm_type t \<Longrightarrow> all_nodes (text_node literal_family) t"
  unfolding comm_type_def by (auto intro: all_nodes_mono simp: comm_node_def)

lemma comm_type_root: "comm_type t \<Longrightarrow> comm_node t"
  by (auto simp: comm_type_def dest: all_nodes_root)

lemma comm_type_param: "comm_type t \<Longrightarrow> p \<in> set (Params t) \<Longrightarrow> comm_type p"
  by (auto simp: comm_type_def dest: all_nodes_param nlc_param)

lemma comm_type_strip: "comm_type t \<Longrightarrow> stripLowCardinalityDeep t = t"
  by (simp add: comm_type_def stripLowCardinalityDeep_id)

lemma comm_type_to_string: "comm_type l \<Longrightarrow> comm_type r \<Longrightarrow> to_string l = to_string r \<longleftrightarrow> l = r"
  using to_string_decode [of literal_family l r "[]" "[]"] by (auto simp: comm_type_text stops_def)

lemma comm_type_builtin: "comm_type (ty0 ''UInt8'')" "comm_type (ty0 ''Int8'')" "comm_type (ty0 ''Int16'')"
  by code_simp+

lemma compatible_sym:
  "comm_type l \<Longrightarrow> comm_type r \<Longrightarrow> compatibleNamedArgTypes l r \<Longrightarrow> compatibleNamedArgTypes r l"
proof (induction l r rule: pair_size_induct)
  case (1 l r)
  have lits: "length (LiteralParams l) = 0 \<or> Params l = []" "length (LiteralParams r) = 0 \<or> Params r = []"
    using comm_type_root [OF "1.prems"(1)] comm_type_root [OF "1.prems"(2)] by (auto simp: comm_node_def text_node_def)
  have nl: "\<not> (named t ''lowcardinality'' \<and> length (Params t) = Suc 0)" if "comm_type t" for t
    using that by (auto simp: comm_type_def no_low_cardinality_def low_cardinality_node_def dest: all_nodes_root)
  let ?same = "\<lambda>l r. equal_fold (Name l) (Name r) \<and> length (LiteralParams l) = length (LiteralParams r)
     \<and> length (Params l) = length (Params r)"
  have u: "compatibleNamedArgTypes a b \<longleftrightarrow>
      (if ?same a b then LiteralParams a = LiteralParams b \<and> list_all2 compatibleNamedArgTypes (Params a) (Params b)
       else if named a ''nullable'' \<and> length (Params a) = 1 then compatibleNamedArgTypes (hd (Params a)) b
       else if named b ''nullable'' \<and> length (Params b) = 1 then compatibleNamedArgTypes a (hd (Params b))
       else False)" if "comm_type a" "comm_type b" for a b
    using nl [OF that(1)] nl [OF that(2)]
    by (subst compatibleNamedArgTypes.simps) (auto simp: list_all2_iff list_all_iff)
  show ?case
  proof (cases "?same l r")
    case True
    have "list_all2 compatibleNamedArgTypes (Params r) (Params l)"
      if "list_all2 compatibleNamedArgTypes (Params l) (Params r)"
    proof (rule list_all2_all_nthI)
      show "length (Params r) = length (Params l)" using True by simp
      fix i assume i: "i < length (Params r)"
      with True have m: "Params l ! i \<in> set (Params l)" "Params r ! i \<in> set (Params r)" by auto
      with tsize_param have "tsize (Params l ! i) + tsize (Params r ! i) < tsize l + tsize r"
        by (meson add_strict_mono)
      moreover have "compatibleNamedArgTypes (Params l ! i) (Params r ! i)"
        using that i True by (simp add: list_all2_conv_all_nth)
      ultimately show "compatibleNamedArgTypes (Params r ! i) (Params l ! i)"
        using "1.IH" m "1.prems"(1,2) comm_type_param by blast
    qed
    with True "1.prems" u [OF "1.prems"(1,2)] u [OF "1.prems"(2,1)] show ?thesis
      by (auto simp: equal_fold_sym [of "Name r"])
  next
    case False
    then have F: "\<not> ?same r l" by (auto simp: equal_fold_sym [of "Name r"])
    have both: "\<not> (named l ''nullable'' \<and> length (Params l) = 1 \<and> named r ''nullable'' \<and> length (Params r) = 1)"
      using False lits by (auto simp: named_def equal_fold_def)
    consider "named l ''nullable''" "length (Params l) = 1" "compatibleNamedArgTypes (hd (Params l)) r"
      | "named r ''nullable''" "length (Params r) = 1" "compatibleNamedArgTypes l (hd (Params r))"
      using "1.prems"(3) u [OF "1.prems"(1,2)] False by (auto split: if_splits)
    then show ?thesis
    proof cases
      case 1
      then have m: "hd (Params l) \<in> set (Params l)" by (auto intro: hd_in_params)
      then have "compatibleNamedArgTypes r (hd (Params l))"
        using 1 tsize_param [OF m] comm_type_param [OF "1.prems"(1) m] "1.prems"(2) by (intro "1.IH" [of "hd (Params l)" r]) auto
      with 1 both F show ?thesis by (subst u [OF "1.prems"(2,1)]) (simp only: if_False, auto)
    next
      case 2
      then have m: "hd (Params r) \<in> set (Params r)" by (auto intro: hd_in_params)
      then have "compatibleNamedArgTypes (hd (Params r)) l"
        using 2 tsize_param [OF m] comm_type_param [OF "1.prems"(2) m] "1.prems"(1) by (intro "1.IH" [of l "hd (Params r)"]) auto
      with 2 both F show ?thesis by (subst u [OF "1.prems"(2,1)]) (simp only: if_False, auto)
    qed
  qed
qed

lemma compatible_comm: "comm_type l \<Longrightarrow> comm_type r \<Longrightarrow> compatibleNamedArgTypes l r = compatibleNamedArgTypes r l"
  using compatible_sym by blast

lemma commonDecimal_comm: "commonDecimalSupertype l r = commonDecimalSupertype r l"
proof -
  have g: "(case (a, b) of (Some x, Some y) \<Rightarrow> Some (f (maxInt x y)) | _ \<Rightarrow> None) =
      (case (b, a) of (Some x, Some y) \<Rightarrow> Some (f (maxInt x y)) | _ \<Rightarrow> None)"
    for a b and f :: "int \<Rightarrow> chtype"
    by (cases a; cases b) (simp_all add: max.commute)
  have s: "maxInt x y = maxInt y x" for x y by (simp add: max.commute)
  show ?thesis
    unfolding commonDecimalSupertype_def Let_def
    by (subst conj_commute, subst g, subst s [of "decimal_scale_of _"]) (rule refl)
qed

lemma commonNumeric_comm: "agree (=) (commonNumericCHType l r) (commonNumericCHType r l)"
proof (cases "numericInfoForType l"; cases "numericInfoForType r")
  fix a b assume "numericInfoForType l = Some a" "numericInfoForType r = Some b"
  then show ?thesis using join_info_comm [of a b] by (simp add: commonNumeric_join split: option.splits)
qed (simp_all add: commonNumericCHType_def)

definition agree_opt :: "chtype result option \<Rightarrow> chtype result option \<Rightarrow> bool" where
  "agree_opt x y \<longleftrightarrow> (case (x, y) of (None, None) \<Rightarrow> True | (Some m, Some n) \<Rightarrow> agree (=) m n | _ \<Rightarrow> False)"

lemma common_scalar_comm:
  assumes "comm_type l" "comm_type r"
  shows "agree_opt (common_scalar l r) (common_scalar r l)"
proof (cases "l = r")
  case False
  with comm_type_to_string [OF assms] comm_type_to_string [OF assms(2,1)] commonNumeric_comm [of l r]
  show ?thesis
    by (auto simp: common_scalar_def agree_opt_def commonDecimal_comm [of r l] split: option.splits)
qed (simp add: common_scalar_def agree_opt_def)

lemma common_temporal_comm: "agree (=) (common_temporal l r) (common_temporal r l)"
proof -
  let ?n = "to_lower (Name l)" and ?m = "to_lower (Name r)"
  have "?n = ''datetime'' \<or> ?n = ''datetime64'' \<or> ?n = ''date'' \<or> ?n = ''date32'' \<or>
      ?n \<notin> {''datetime'', ''datetime64'', ''date'', ''date32''}"
    "?m = ''datetime'' \<or> ?m = ''datetime64'' \<or> ?m = ''date'' \<or> ?m = ''date32'' \<or>
      ?m \<notin> {''datetime'', ''datetime64'', ''date'', ''date32''}" by blast+
  then show ?thesis by (elim disjE) (simp_all add: common_temporal_def named_def)
qed

lemma commonWithNullLiteral_comm:
  "comm_type l \<Longrightarrow> comm_type r \<Longrightarrow> commonWithNullLiteral l r = commonWithNullLiteral r l"
  by (auto simp: commonWithNullLiteral_def Let_def comm_node_def dest!: comm_type_root)

lemma comm_no_marker: "comm_type l \<Longrightarrow> comm_type r \<Longrightarrow> commonSimpleAggregateCHType l r = None"
  by (auto simp: commonSimpleAggregateCHType.simps [of l r] simpleAggregateWrapperInner_def comm_node_def
      dest!: comm_type_root)

lemma comm_peel: "comm_type t \<Longrightarrow> peel_nullable t = Inr (u, b) \<Longrightarrow> comm_type u"
  by (auto simp: peel_nullable_def split: if_splits intro: comm_type_param hd_in_params)

lemma comm_bool: "comm_type t \<Longrightarrow> comm_type (bool_as_uint8 t)"
  by (auto simp: bool_as_uint8_def comm_type_builtin)

lemma comm_storage: "comm_type (enumStorageInteger t)"
  by (auto simp: enumStorageInteger_def comm_type_builtin)

lemma comm_enum_next:
  "enum_step n l r = EnumNext l' r' \<Longrightarrow> comm_type l \<Longrightarrow> comm_type r \<Longrightarrow> comm_type l' \<and> comm_type r'"
  by (auto simp: enum_step_def Let_def comm_storage split: if_splits)

definition agree_enum :: "enum_outcome \<Rightarrow> enum_outcome \<Rightarrow> bool" where
  "agree_enum x y \<longleftrightarrow> (case (x, y) of (EnumDone m, EnumDone n) \<Rightarrow> agree (=) m n
     | (EnumNext a b, EnumNext c d) \<Rightarrow> a = d \<and> b = c | _ \<Rightarrow> False)"

lemma enum_step_comm:
  assumes "comm_type l" "comm_type r"
  shows "agree_enum (enum_step n l r) (enum_step n r l)"
  using compatible_comm [OF assms]
  by (simp add: enum_step_def agree_enum_def Let_def)

lemma tuple_result_comm:
  "length (Params l) = length (Params r) \<Longrightarrow> tuple_result l r es = tuple_result r l es"
proof -
  assume n: "length (Params l) = length (Params r)"
  have z: "list_all (\<lambda>(l, r). l \<noteq> [] \<and> l = r) (zip ls rs) \<longleftrightarrow> ls = rs \<and> list_all (\<lambda>n. n \<noteq> []) ls"
    if "length ls = length rs" for ls rs :: "string list"
    using that by (induction ls rs rule: list_induct2) auto
  show ?thesis
    using n z [of "ParamNames l" "ParamNames r"] z [of "ParamNames r" "ParamNames l"]
    by (auto simp: tuple_result_def)
qed

lemma common_node_comm:
  assumes ct: "comm_type l" "comm_type r"
    and IH: "\<And>a b. a \<in> set (Params l) \<Longrightarrow> b \<in> set (Params r) \<Longrightarrow> agree (=) (commonCHType a b) (commonCHType b a)"
  shows "agree (=) (common_node l r) (common_node r l)"
proof (cases "common_scalar l r")
  case (Some m)
  with common_scalar_comm [OF ct] show ?thesis
    by (auto simp: common_node_def agree_opt_def split: option.splits)
next
  case None
  then have N: "common_scalar r l = None"
    using common_scalar_comm [OF ct] by (auto simp: agree_opt_def split: option.splits)
  note d = common_node_def [of l r] common_node_def [of r l] None N
  consider (array) "named l ''array''" "named r ''array''" "length (Params l) = 1" "length (Params r) = 1"
    | (map) "named l ''map''" "named r ''map''" "length (Params l) = 2" "length (Params r) = 2"
    | (tuple) "named l ''tuple''" "named r ''tuple''" "length (Params l) = length (Params r)" "Params l \<noteq> []"
    | (other) "\<not> (named l ''array'' \<and> named r ''array'' \<and> length (Params l) = 1 \<and> length (Params r) = 1)"
        "\<not> (named l ''map'' \<and> named r ''map'' \<and> length (Params l) = 2 \<and> length (Params r) = 2)"
        "\<not> (named l ''tuple'' \<and> named r ''tuple'' \<and> length (Params l) = length (Params r) \<and> Params l \<noteq> [])"
    by blast
  then show ?thesis
  proof cases
    case array
    then have "agree (=) (commonCHType (hd (Params l)) (hd (Params r))) (commonCHType (hd (Params r)) (hd (Params l)))"
      by (intro IH hd_in_params) auto
    with array show ?thesis by (auto simp: d intro!: agree_bind)
  next
    case map
    then have "agree (=) (commonCHType (Params l ! i) (Params r ! i)) (commonCHType (Params r ! i) (Params l ! i))"
      if "i < 2" for i using that by (intro IH nth_mem) auto
    from this [of 0] this [of 1] map show ?thesis
      by (simp add: d named_def) (auto intro!: agree_bind)
  next
    case tuple
    let ?z = "\<lambda>l r. zip (Params l) (Params r)" and ?f = "\<lambda>(l, r). commonCHType l r"
    have "list_all2 (\<lambda>x y. agree (=) (?f x) (?f y)) (?z l r) (?z r l)"
      using tuple(3) by (auto intro!: list_all2_all_nthI IH)
    then have "agree (list_all2 (=)) (map_res ?f (?z l r)) (map_res ?f (?z r l))" by (rule agree_map_res)
    with tuple show ?thesis
      by (simp add: d named_def list.rel_eq) (auto intro!: agree_bind simp: tuple_result_comm)
  next
    case other
    then have "common_node l r = common_temporal l r" "common_node r l = common_temporal r l"
      by (auto simp: d)
    then show ?thesis by (simp add: common_temporal_comm)
  qed
qed

lemma commonCHType_comm:
  "comm_type (stripLowCardinalityDeep l) \<Longrightarrow> comm_type (stripLowCardinalityDeep r) \<Longrightarrow>
   agree (=) (commonCHType l r) (commonCHType r l)"
proof (induction l r rule: pair_size_induct)
  case (1 l r)
  let ?L = "stripLowCardinalityDeep l" and ?R = "stripLowCardinalityDeep r"
  note ct = "1.prems"
  show ?case
  proof (cases "commonWithNullLiteral ?L ?R")
    case (Some t)
    with commonWithNullLiteral_comm [OF ct] have "commonWithNullLiteral ?R ?L = Some t" by simp
    with Some show ?thesis by (simp add: commonCHType_unfold [of l r] commonCHType_unfold [of r l] Let_def)
  next
    case None
    with commonWithNullLiteral_comm [OF ct] have N: "commonWithNullLiteral ?R ?L = None" by simp
    note u = commonCHType_unfold [of l r] commonCHType_unfold [of r l] None N
      comm_no_marker [OF ct] comm_no_marker [OF ct(2,1)]
    show ?thesis
    proof (cases "peel_nullable ?L"; cases "peel_nullable ?R")
      fix p q assume pq: "peel_nullable ?L = Inr p" "peel_nullable ?R = Inr q"
      obtain l2 ln r2 rn where s: "p = (l2, ln)" "q = (r2, rn)" by (cases p; cases q) auto
      have c: "comm_type (bool_as_uint8 l2)" "comm_type (bool_as_uint8 r2)"
        using pq s ct comm_peel comm_bool by blast+
      let ?e = "enum_step (ln \<or> rn) (bool_as_uint8 l2) (bool_as_uint8 r2)"
      have e: "agree_enum ?e (enum_step (rn \<or> ln) (bool_as_uint8 r2) (bool_as_uint8 l2))"
        using enum_step_comm [OF c, of "ln \<or> rn"] by (simp add: disj_commute)
      show ?thesis
      proof (cases ?e)
        case (EnumDone m)
        with e show ?thesis by (auto simp: u pq s agree_enum_def split: enum_outcome.splits)
      next
        case (EnumNext a b)
        then have ab: "comm_type a" "comm_type b" using comm_enum_next c by blast+
        have "agree (=) (common_node a b) (common_node b a)"
        proof (rule common_node_comm [OF ab])
          fix x y assume xy: "x \<in> set (Params a)" "y \<in> set (Params b)"
          then have "tsize x + tsize y < tsize l + tsize r"
            using common_call_size pq s EnumNext by blast
          with xy ab show "agree (=) (commonCHType x y) (commonCHType y x)"
            by (intro "1.IH") (auto dest: comm_type_param simp: comm_type_strip)
        qed
        with e EnumNext show ?thesis
          by (auto simp: u pq s agree_enum_def disj_commute intro!: agree_bind split: enum_outcome.splits)
      qed
    qed (simp_all add: u)
  qed
qed

section \<open>Identity laws\<close>

lemma compatible_left_LC:
  "low_cardinality_node l \<Longrightarrow> compatibleNamedArgTypes l r = compatibleNamedArgTypes (hd (Params l)) r"
  by (subst compatibleNamedArgTypes.simps) (simp add: low_cardinality_node_def)

lemma compatible_right_LC:
  "low_cardinality_node r \<Longrightarrow> compatibleNamedArgTypes l r = compatibleNamedArgTypes l (hd (Params r))"
proof (induction "tsize l" arbitrary: l rule: less_induct)
  case less
  show ?case
  proof (cases "low_cardinality_node l")
    case True
    then have "tsize (hd (Params l)) < tsize l" by (auto simp: low_cardinality_node_def intro!: tsize_hd_param)
    with less show ?thesis by (simp add: compatible_left_LC [OF True])
  next
    case False
    with less.prems show ?thesis
      by (subst compatibleNamedArgTypes.simps) (auto simp: low_cardinality_node_def)
  qed
qed

lemma compatible_refl: "compatibleNamedArgTypes t t"
proof (induction "tsize t" arbitrary: t rule: less_induct)
  case less
  show ?case
  proof (cases "low_cardinality_node t")
    case True
    then obtain p where p: "Params t = [p]" by (auto simp: low_cardinality_node_def length_Suc_conv)
    with True less [of p] show ?thesis
      by (simp add: compatible_left_LC [OF True] compatible_right_LC [OF True] tsize_params_one)
  next
    case False
    have "list_all (\<lambda>(l, r). compatibleNamedArgTypes l r) (zip (Params t) (Params t))"
      by (auto simp: list_all_iff set_zip intro!: less tsize_nth_param)
    with False show ?thesis
      by (subst compatibleNamedArgTypes.simps) (auto simp: low_cardinality_node_def)
  qed
qed

text \<open>The spelling the type parser leaves: canonical wrappers, and Bool.\<close>

definition spelled_node :: "chtype \<Rightarrow> bool" where
  "spelled_node t \<longleftrightarrow> wrapper_node_ok t \<and> (named t ''bool'' \<longrightarrow> t = ty0 ''Bool'')"

lemma finish_self:
  assumes "spelled_node t"
  shows "finish_common (named t ''bool'') n (bool_as_uint8 t) = (if n then ty1 ''Nullable'' [t] else t)"
  using assms
  by (cases "named t ''bool''") (auto simp: finish_common_def bool_as_uint8_def spelled_node_def Let_def)

lemma common_self:
  assumes "all_nodes spelled_node (stripLowCardinalityDeep t)"
  shows "commonCHType t t = Inr (stripLowCardinalityDeep t)"
proof -
  let ?s = "stripLowCardinalityDeep t"
  have s: "spelled_node ?s" "\<And>p. p \<in> set (Params ?s) \<Longrightarrow> spelled_node p"
    using assms by (auto dest: all_nodes_root all_nodes_param)
  obtain u n where p: "peel_nullable ?s = Inr (u, n)" "spelled_node u" "?s = (if n then ty1 ''Nullable'' [u] else u)"
  proof (cases "named ?s ''nullable''")
    case True
    with s obtain q where q: "?s = ty1 ''Nullable'' [q]"
      by (auto simp: spelled_node_def wrapper_node_ok_def elim: nullable_okE)
    with s(2) [of q] that [of q True] show thesis by (simp add: peel_nullable_def)
  next
    case False
    with s(1) that [of ?s False] show thesis by (simp add: peel_nullable_def)
  qed
  have e: "enum_step n (bool_as_uint8 u) (bool_as_uint8 u) = EnumNext (bool_as_uint8 u) (bool_as_uint8 u)"
    by (simp add: enum_step_def compatible_refl)
  have c: "common_node (bool_as_uint8 u) (bool_as_uint8 u) = Inr (bool_as_uint8 u)"
    by (simp add: common_node_def common_scalar_def)
  have null: "commonWithNullLiteral ?s ?s \<in> {None, Some ?s}"
    by (auto simp: commonWithNullLiteral_def Let_def)
  have marker: "commonSimpleAggregateCHType ?s ?s \<in> {None, Some (Inr ?s)}"
    by (auto simp: commonSimpleAggregateCHType.simps [of ?s ?s] split: option.splits)
  have "commonCHType t t = Inr ?s \<or>
      commonCHType t t = Inr (finish_common (named u ''bool'') n (bool_as_uint8 u))"
    using null marker by (auto simp: commonCHType_unfold Let_def p(1) e c)
  with finish_self [OF p(2)] p(3) show ?thesis by auto
qed

abbreviation null_literal_type :: chtype where
  "null_literal_type \<equiv> ty1 ''Nullable'' [ty0 ''Nothing'']"

lemma strip_null_literal [simp]: "stripLowCardinalityDeep null_literal_type = null_literal_type"
  by code_simp

lemma common_with_null:
  assumes "canBeInsideNullable (stripLowCardinalityDeep t)" and "\<not> isUntypedNullType (stripLowCardinalityDeep t)"
  shows "commonCHType null_literal_type t = Inr (wrapNullable (stripLowCardinalityDeep t))"
    and "commonCHType t null_literal_type = Inr (wrapNullable (stripLowCardinalityDeep t))"
proof -
  have "isUntypedNullType null_literal_type" by code_simp
  with assms show "commonCHType null_literal_type t = Inr (wrapNullable (stripLowCardinalityDeep t))"
    "commonCHType t null_literal_type = Inr (wrapNullable (stripLowCardinalityDeep t))"
    by (simp_all add: commonCHType_unfold commonWithNullLiteral_def Let_def)
qed

section \<open>Properties\<close>

text \<open>
  C31. The common type of two branches carries no LowCardinality at any depth, whatever the branches
  are: the wrapper is a storage detail that the branch rule takes off everywhere.
\<close>

theorem common_type_has_no_low_cardinality:
  assumes "commonCHType l r = Inr t"
  shows "no_low_cardinality t"
  using assms by (rule common_no_low_cardinality)

theorem common_type_has_no_low_cardinality_witness:
  "\<exists>t. commonCHType (ty1 ''Array'' [ty1 ''LowCardinality'' [ty0 ''String'']]) (ty1 ''Array'' [tyl ''FixedString'' [''3'']])
     = Inr t \<and> no_low_cardinality t"
proof -
  have c: "commonCHType (ty1 ''Array'' [ty1 ''LowCardinality'' [ty0 ''String'']]) (ty1 ''Array'' [tyl ''FixedString'' [''3'']])
     = Inr (ty1 ''Array'' [ty0 ''String''])" by code_simp
  with common_type_has_no_low_cardinality [OF c] show ?thesis by blast
qed



text \<open>
  C33. A type joined with itself gives the type without its LowCardinality wrappers, and an untyped
  NULL joined with a type, on either side, only adds Nullable.
\<close>

theorem common_type_identity_laws:
  assumes "all_nodes spelled_node (stripLowCardinalityDeep t)"
  shows "commonCHType t t = Inr (stripLowCardinalityDeep t) \<and>
    (canBeInsideNullable (stripLowCardinalityDeep t) \<and> \<not> isUntypedNullType (stripLowCardinalityDeep t) \<longrightarrow>
       commonCHType null_literal_type t = Inr (wrapNullable (stripLowCardinalityDeep t)) \<and>
       commonCHType t null_literal_type = Inr (wrapNullable (stripLowCardinalityDeep t)))"
  using common_self [OF assms] common_with_null by blast

theorem common_type_identity_laws_witness:
  "commonCHType (ty1 ''LowCardinality'' [ty0 ''String'']) (ty1 ''LowCardinality'' [ty0 ''String'']) = Inr (ty0 ''String'') \<and>
   commonCHType null_literal_type (ty1 ''LowCardinality'' [ty0 ''String'']) = Inr (ty1 ''Nullable'' [ty0 ''String''])"
proof -
  have s: "stripLowCardinalityDeep (ty1 ''LowCardinality'' [ty0 ''String'']) = ty0 ''String''" by code_simp
  have ok: "all_nodes spelled_node (stripLowCardinalityDeep (ty1 ''LowCardinality'' [ty0 ''String'']))" by code_simp
  have n: "canBeInsideNullable (ty0 ''String'')" "\<not> isUntypedNullType (ty0 ''String'')"
    "wrapNullable (ty0 ''String'') = ty1 ''Nullable'' [ty0 ''String'']" by code_simp+
  from common_type_identity_laws [OF ok] n show ?thesis by (simp add: s)
qed

end
