(* ===== verification/Values.thy ===== *)
theory Values
  imports SupertypeFacts
begin

text \<open>
  What a common type is for: every value of every branch is a value of the result. A value is NULL,
  a stored integer (Bool is stored as UInt8), a text, an array, a map or a tuple. The fragment
  (\<open>value_type\<close>) leaves out Decimals, whose measured supertype keeps precision classes and
  not values, and the SimpleAggregateFunction marker; Enum and temporal types are in, with no values
  of these shapes.
\<close>

section \<open>Values of a type\<close>

datatype val = VNull | VInt int | VText string | VList "val list" | VMap "(val \<times> val) list" | VTuple "val list"

definition leaf_value :: "chtype \<Rightarrow> val \<Rightarrow> bool" where
  "leaf_value t v \<longleftrightarrow> (case v of
       VInt i \<Rightarrow> holds_int t i \<or> named t ''bool'' \<and> 0 \<le> i \<and> i \<le> 255
     | VText s \<Rightarrow> named t ''string'' \<or>
         named t ''fixedstring'' \<and> LiteralParams t \<noteq> [] \<and> atoi (trim_space (hd (LiteralParams t))) = Some (int (length s))
     | _ \<Rightarrow> False)"

function has_value :: "chtype \<Rightarrow> val \<Rightarrow> bool" where
  "has_value t v \<longleftrightarrow>
     (if named t ''lowcardinality'' \<and> length (Params t) = 1 then has_value (hd (Params t)) v
      else if named t ''nullable'' \<and> length (Params t) = 1 then v = VNull \<or> has_value (hd (Params t)) v
      else if named t ''array'' \<and> length (Params t) = 1 then
        (case v of VList vs \<Rightarrow> list_all (\<lambda>x. has_value (hd (Params t)) x) vs | _ \<Rightarrow> False)
      else if named t ''map'' \<and> length (Params t) = 2 then
        (case v of VMap kvs \<Rightarrow> list_all (\<lambda>kv. has_value (Params t ! 0) (fst kv) \<and> has_value (Params t ! 1) (snd kv)) kvs
         | _ \<Rightarrow> False)
      else if named t ''tuple'' \<and> Params t \<noteq> [] then
        (case v of VTuple vs \<Rightarrow> length vs = length (Params t) \<and> list_all (\<lambda>(p, x). has_value p x) (zip (Params t) vs)
         | _ \<Rightarrow> False)
      else Params t = [] \<and> leaf_value t v)"
  by pat_completeness auto
termination
  by (relation "measure (\<lambda>(t, v). tsize t)")
     (auto intro!: tsize_param hd_in_params intro: nth_mem dest: set_zip_leftD)

declare has_value.simps [simp del]

lemma has_value_leaf: "Params t = [] \<Longrightarrow> has_value t v = leaf_value t v"
  by (subst has_value.simps) simp

lemma has_value_LC: "low_cardinality_node t \<Longrightarrow> has_value t v = has_value (hd (Params t)) v"
  by (subst has_value.simps) (simp add: low_cardinality_node_def)

lemma has_value_Nullable: "named t ''nullable'' \<Longrightarrow> length (Params t) = Suc 0 \<Longrightarrow>
    has_value t v \<longleftrightarrow> v = VNull \<or> has_value (hd (Params t)) v"
  by (subst has_value.simps) (simp add: named_def)

lemma has_value_Array: "named t ''array'' \<Longrightarrow> length (Params t) = Suc 0 \<Longrightarrow>
    has_value t v \<longleftrightarrow> (\<exists>vs. v = VList vs \<and> (\<forall>x \<in> set vs. has_value (hd (Params t)) x))"
  by (subst has_value.simps) (auto simp: named_def list_all_iff split: val.splits)

lemma has_value_Map: "named t ''map'' \<Longrightarrow> length (Params t) = 2 \<Longrightarrow>
    has_value t v \<longleftrightarrow> (\<exists>kvs. v = VMap kvs \<and> (\<forall>kv \<in> set kvs. has_value (Params t ! 0) (fst kv) \<and> has_value (Params t ! 1) (snd kv)))"
  by (subst has_value.simps) (auto simp: named_def list_all_iff split: val.splits)

lemma has_value_Tuple: "named t ''tuple'' \<Longrightarrow> Params t \<noteq> [] \<Longrightarrow>
    has_value t v \<longleftrightarrow> (\<exists>vs. v = VTuple vs \<and> list_all2 has_value (Params t) vs)"
  by (subst has_value.simps) (auto simp: named_def list_all_iff list_all2_iff split: val.splits)

lemma has_value_other:
  "Params t \<noteq> [] \<Longrightarrow> \<not> low_cardinality_node t \<Longrightarrow> \<not> (named t ''nullable'' \<and> length (Params t) = 1) \<Longrightarrow>
   \<not> (named t ''array'' \<and> length (Params t) = 1) \<Longrightarrow> \<not> (named t ''map'' \<and> length (Params t) = 2) \<Longrightarrow>
   \<not> named t ''tuple'' \<Longrightarrow> \<not> has_value t v"
  by (subst has_value.simps) (auto simp: low_cardinality_node_def)

lemma has_value_map_params:
  assumes "\<And>p v. p \<in> set (Params t) \<Longrightarrow> has_value (f p) v = has_value p v"
    and "\<not> low_cardinality_node t"
  shows "has_value (with_params t (map f (Params t))) v = has_value t v"
proof (cases "Params t = []")
  case False
  let ?t = "with_params t (map f (Params t))"
  have hd: "hd (Params ?t) = f (hd (Params t))" using False by (cases "Params t") auto
  have m: "hd (Params t) \<in> set (Params t)" using False by simp
  show ?thesis
  proof (cases "named t ''tuple''")
    case True
    with False have "list_all2 has_value (map f (Params t)) vs = list_all2 has_value (Params t) vs" for vs
      by (auto simp: list_all2_map1 list_all2_conv_all_nth assms(1))
    with True False has_value_Tuple [of t] has_value_Tuple [of ?t] show ?thesis by simp
  next
    case nt: False
    consider "named t ''nullable''" "length (Params t) = Suc 0" | "named t ''array''" "length (Params t) = Suc 0"
      | "named t ''map''" "length (Params t) = 2"
      | "\<not> (named t ''nullable'' \<and> length (Params t) = 1)" "\<not> (named t ''array'' \<and> length (Params t) = 1)"
        "\<not> (named t ''map'' \<and> length (Params t) = 2)" by fastforce
    then show ?thesis
      using False nt hd m assms
      by cases (simp_all add: has_value_Nullable has_value_Array has_value_Map has_value_other)
  qed
qed (cases t, simp add: with_params_def)

lemma has_value_strip: "has_value (stripLowCardinalityDeep t) v = has_value t v"
proof (induction "tsize t" arbitrary: t v rule: less_induct)
  case less
  show ?case
  proof (cases "low_cardinality_node t")
    case True
    then have "tsize (hd (Params t)) < tsize t" by (auto simp: low_cardinality_node_def intro!: tsize_hd_param)
    with less True show ?thesis by (simp add: stripLowCardinalityDeep_LC has_value_LC)
  next
    case False
    then have u: "unwrapLowCardinality t = t" by (rule unwrapLowCardinality_id)
    have "has_value (with_params t (map stripLowCardinalityDeep (Params t))) v = has_value t v"
      by (rule has_value_map_params) (auto simp: False less tsize_param)
    then show ?thesis by (subst stripLowCardinalityDeep.simps) (auto simp: u Let_def)
  qed
qed

section \<open>The fragment\<close>

definition value_node :: "chtype \<Rightarrow> bool" where
  "value_node t \<longleftrightarrow> comm_node t \<and> spelled_node t \<and> \<not> isDecimalWithParams t \<and>
     (named t ''nothing'' \<longrightarrow> t = ty0 ''Nothing'')"

definition value_type :: "chtype \<Rightarrow> bool" where
  "value_type t \<longleftrightarrow> all_nodes value_node t \<and> no_low_cardinality t"

lemma value_type_comm: "value_type t \<Longrightarrow> comm_type t"
  by (auto simp: value_type_def comm_type_def value_node_def intro: all_nodes_mono)

lemma value_type_root: "value_type t \<Longrightarrow> value_node t"
  by (auto simp: value_type_def dest: all_nodes_root)

lemma value_type_param: "value_type t \<Longrightarrow> p \<in> set (Params t) \<Longrightarrow> value_type p"
  by (auto simp: value_type_def dest: all_nodes_param nlc_param)

lemma value_type_iff: "value_type t \<longleftrightarrow> value_node t \<and> \<not> low_cardinality_node t \<and> (\<forall>p \<in> set (Params t). value_type p)"
  by (auto simp: value_type_def no_low_cardinality_def all_nodes_iff [of _ t])

lemma value_type_strip: "value_type t \<Longrightarrow> stripLowCardinalityDeep t = t"
  by (simp add: value_type_comm comm_type_strip)

lemma value_type_builtin:
  "value_type (ty0 ''UInt8'')" "value_type (ty0 ''Int8'')" "value_type (ty0 ''Int16'')"
  "value_type (ty0 ''String'')" "value_type (ty0 ''Bool'')"
  by code_simp+

lemma value_peel:
  assumes "value_type t" and "peel_nullable t = Inr (u, b)"
  shows "value_type u \<and> (has_value t v \<longleftrightarrow> b \<and> v = VNull \<or> has_value u v)
    \<and> (b \<longrightarrow> canBeInsideNullable u) \<and> \<not> named u ''nullable''"
proof (cases "named t ''nullable''")
  case True
  with value_type_root [OF assms(1)] obtain p where "t = ty1 ''Nullable'' [p]" "canBeInsideNullable p" "\<not> named p ''nullable''"
    by (auto simp: value_node_def spelled_node_def wrapper_node_ok_def elim: nullable_okE)
  with assms show ?thesis
    by (auto simp: peel_nullable_def has_value_Nullable dest: value_type_param)
qed (use assms in \<open>auto simp: peel_nullable_def\<close>)

lemma value_bool: "value_type t \<Longrightarrow> value_type (bool_as_uint8 t)"
  by (auto simp: bool_as_uint8_def value_type_builtin)

lemma leaf_UInt8: "leaf_value (ty0 ''UInt8'') v \<longleftrightarrow> (\<exists>i. v = VInt i \<and> 0 \<le> i \<and> i \<le> 255)"
  by (cases v) (auto simp: leaf_value_def holds_int_def numericInfoForType_def numeric_infos_def lowest_def highest_def)

lemma leaf_named_UInt8: "named t ''uint8'' \<Longrightarrow> leaf_value t v = leaf_value (ty0 ''UInt8'') v"
  by (cases v) (auto simp: leaf_value_def named_def holds_int_def numericInfoForType_def)

lemma leaf_named_bool: "named t ''bool'' \<Longrightarrow> leaf_value t v = leaf_value (ty0 ''UInt8'') v"
  unfolding leaf_UInt8
  by (cases v) (auto simp: leaf_value_def named_def holds_int_def numericInfoForType_def numeric_infos_def)

lemma has_value_bool: "has_value (bool_as_uint8 t) v = has_value t v"
  by (auto simp: bool_as_uint8_def has_value_leaf leaf_named_bool)

lemma enum_no_value:
  "isEnumCHType t \<Longrightarrow> value_type t \<Longrightarrow> \<not> has_value t v"
  by (cases v) (auto simp: isEnumCHType_def isEnumTypeName_def value_node_def comm_node_def text_node_def has_value_leaf
      leaf_value_def named_def holds_int_def numericInfoForType_def numeric_infos_def dest!: value_type_root)

lemma value_enum_next:
  assumes "enum_step n l r = EnumNext l' r'" "value_type l" "value_type r"
  shows "value_type l' \<and> value_type r' \<and> (has_value l v \<longrightarrow> has_value l' v) \<and> (has_value r v \<longrightarrow> has_value r' v)"
  using assms enum_no_value
  by (auto simp: enum_step_def Let_def enumStorageInteger_def value_type_builtin split: if_splits)

lemma enum_next_nullable:
  "enum_step n l r = EnumNext l' r' \<Longrightarrow> (canBeInsideNullable l \<longrightarrow> canBeInsideNullable l') \<and>
     (canBeInsideNullable r \<longrightarrow> canBeInsideNullable r') \<and>
     (\<not> named l ''nullable'' \<longrightarrow> \<not> named l' ''nullable'') \<and> (\<not> named r ''nullable'' \<longrightarrow> \<not> named r' ''nullable'')"
  by (auto simp: enum_step_def Let_def enumStorageInteger_def canBeInsideNullable_def split: if_splits)

lemma string_family_value:
  "isStringSupertypeFamily t \<Longrightarrow> value_type t \<Longrightarrow> has_value t v \<Longrightarrow> has_value (ty0 ''String'') v"
proof -
  assume t: "isStringSupertypeFamily t" "value_type t" "has_value t v"
  then have "Params t = []"
    using has_value_other [of t v] by (cases "Params t = []")
      (auto simp: isStringSupertypeFamily_def named_def low_cardinality_node_def)
  with t show ?thesis
    by (cases v) (auto simp: has_value_leaf leaf_value_def isStringSupertypeFamily_def named_def holds_int_def
        numericInfoForType_def numeric_infos_def)
qed

lemma numeric_value:
  assumes "numericCHType t" "value_type t" "has_value t v"
  obtains i where "v = VInt i" "holds_int t i"
proof -
  from assms(1) have p: "Params t = []" and n: "\<not> named t ''string''" "\<not> named t ''fixedstring''" "\<not> named t ''bool''"
    by (auto simp: numericCHType_def named_def)
  with assms(3) show thesis using that by (cases v) (auto simp: has_value_leaf leaf_value_def)
qed

lemma no_decimal_join:
  "\<not> isDecimalWithParams l \<Longrightarrow> \<not> isDecimalWithParams r \<Longrightarrow> commonDecimalSupertype l r = None"
  unfolding commonDecimalSupertype_def isDecimalWithParams_def by (simp only: Let_def) simp

lemma value_no_decimal: "value_type t \<Longrightarrow> \<not> isDecimalWithParams t"
  by (auto simp: value_node_def dest: value_type_root)

lemma numeric_name_plain:
  "k \<noteq> Float \<Longrightarrow> b \<in> integer_widths \<Longrightarrow> value_type (ty0 (numericTypeName k b))"
proof -
  have "\<forall>k \<in> {Unsigned, Signed}. \<forall>b \<in> set [8, 16, 32, 64, 128, 256]. value_type (ty0 (numericTypeName k b))"
    by code_simp
  moreover have "set [8, 16, 32, 64, 128, 256] = integer_widths" by (auto simp: integer_widths_def)
  ultimately have *: "\<forall>k \<in> {Unsigned, Signed}. \<forall>b \<in> integer_widths. value_type (ty0 (numericTypeName k b))" by metis
  assume "k \<noteq> Float" "b \<in> integer_widths"
  with * show ?thesis by (cases k) auto
qed

lemma value_type_of_info: "wf_info c \<Longrightarrow> value_type (type_of_info c)"
proof -
  have f: "value_type (ty0 ''Float32'')" "value_type (ty0 ''Float64'')" by code_simp+
  assume "wf_info c"
  then show ?thesis by (auto simp: type_of_info_def wf_info_def f numeric_name_plain)
qed

text \<open>What the pairwise rule owes at one node: a type of the fragment that keeps the values.\<close>

definition keeps_values :: "chtype \<Rightarrow> chtype \<Rightarrow> chtype \<Rightarrow> bool" where
  "keeps_values l r t \<longleftrightarrow> value_type t \<and> (\<forall>v. has_value l v \<or> has_value r v \<longrightarrow> has_value t v)"

lemma keeps_valuesI [intro?]:
  "value_type t \<Longrightarrow> (\<And>v. has_value l v \<or> has_value r v \<Longrightarrow> has_value t v) \<Longrightarrow> keeps_values l r t"
  by (simp add: keeps_values_def)

definition nullable_safe :: "chtype \<Rightarrow> bool" where
  "nullable_safe t \<longleftrightarrow> canBeInsideNullable t \<and> \<not> named t ''nullable''"

lemma leaf_nullable_safe:
  "nullable_safe (type_of_info c)" "nullable_safe (ty0 ''String'')" "nullable_safe (tyl ''DateTime64'' [''0''])"
  "nullable_safe (ty0 ''Bool'')"
proof -
  have "to_lower (''UInt'' @ s) \<notin> {''nullable'', ''array'', ''map'', ''tuple'', ''aggregatefunction'', ''dynamic'',
     ''variant'', ''point'', ''ring'', ''linestring'', ''polygon'', ''multilinestring'', ''multipolygon''}"
     "to_lower (''Int'' @ s) \<notin> {''nullable'', ''array'', ''map'', ''tuple'', ''aggregatefunction'', ''dynamic'',
     ''variant'', ''point'', ''ring'', ''linestring'', ''polygon'', ''multilinestring'', ''multipolygon''}" for s
    by auto
  then show "nullable_safe (type_of_info c)"
    by (auto simp: nullable_safe_def type_of_info_def numericTypeName_def canBeInsideNullable_def)
qed (simp_all add: nullable_safe_def canBeInsideNullable_def)

lemma common_scalar_value:
  assumes s: "common_scalar l r = Some (Inr t)" and v: "value_type l" "value_type r"
  shows "keeps_values l r t \<and> (nullable_safe l \<longrightarrow> nullable_safe t)"
proof -
  have d: "commonDecimalSupertype l r = None" "\<not> isDecimalWithParams l" "\<not> isDecimalWithParams r"
    using v by (auto simp: value_no_decimal no_decimal_join)
  consider (same) "t = l" "l = r" | (num) "numericCHType l" "numericCHType r" "commonNumericCHType l r = Inr t"
    | (str) "isStringSupertypeFamily l" "isStringSupertypeFamily r" "t = ty0 ''String''"
    using s d v comm_type_to_string [OF value_type_comm value_type_comm, of l r]
    by (auto simp: common_scalar_def split: if_splits)
  then show ?thesis
  proof cases
    case num
    from num(3) obtain a b c where i: "numericInfoForType l = Some a" "numericInfoForType r = Some b"
      "join_info a b = Some c" by (rule commonNumeric_infos)
    with num(3) have t: "t = type_of_info c" by (simp add: commonNumeric_join type_of_info_def)
    have "wf_info c" using join_info_wf [OF i(3)] i wf_info_of_type by blast
    then have "value_type t" using t value_type_of_info by simp
    moreover have "Params t = []" using t by (simp add: type_of_info_def)
    ultimately show ?thesis
      using num v commonNumeric_upper [OF num(3)] leaf_nullable_safe(1) [of c] t
      by (auto simp: keeps_values_def has_value_leaf leaf_value_def elim: numeric_value)
  next
    case str
    then show ?thesis
      using v string_family_value leaf_nullable_safe by (auto simp: keeps_values_def value_type_builtin)
  qed (use v in \<open>auto simp: keeps_values_def\<close>)
qed

lemma temporal_no_value:
  assumes "common_temporal l r = Inr t" and v: "value_type l" "value_type r"
  shows "keeps_values l r t \<and> (nullable_safe l \<longrightarrow> nullable_safe t)"
proof -
  have t: "to_lower (Name l) \<in> {''date'', ''date32'', ''datetime'', ''datetime64''}"
    "to_lower (Name r) \<in> {''date'', ''date32'', ''datetime'', ''datetime64''}"
    "t = l \<or> t = r \<or> t = tyl ''DateTime64'' [''0'']"
    using assms(1) by (auto simp: common_temporal_def named_def split: if_splits)
  have no: "\<not> has_value u x" if "to_lower (Name u) \<in> {''date'', ''date32'', ''datetime'', ''datetime64''}" for u x
    using that has_value_other [of u x]
    by (cases "Params u = []"; cases x)
       (auto simp: has_value_leaf leaf_value_def named_def low_cardinality_node_def holds_int_def
         numericInfoForType_def numeric_infos_def)
  have d: "value_type (tyl ''DateTime64'' [''0''])" by code_simp
  have ns: "nullable_safe u" if "to_lower (Name u) \<in> {''date'', ''date32'', ''datetime'', ''datetime64''}" for u
    using that by (auto simp: nullable_safe_def canBeInsideNullable_def named_def)
  show ?thesis
    using t v d no [OF t(1)] no [OF t(2)] ns [OF t(1)] ns [OF t(2)] leaf_nullable_safe(3)
    by (auto simp: keeps_values_def)
qed

lemma value_type_Array: "value_type p \<Longrightarrow> value_type (ty1 ''Array'' [p])"
  by (simp add: value_type_iff [of "ty1 ''Array'' [p]"] value_node_def comm_node_def text_node_def spelled_node_def
      wrapper_node_ok_def isUntypedNullType_def low_cardinality_node_def isDecimalWithParams_def decimalPrecisionScale_def
      canonicalDecimalType_def plain_word_def special_def literal_family_def Let_def)

lemma value_type_Map: "value_type p \<Longrightarrow> value_type q \<Longrightarrow> value_type (ty1 ''Map'' [p, q])"
  by (simp add: value_type_iff [of "ty1 ''Map'' [p, q]"] value_node_def comm_node_def text_node_def spelled_node_def
      wrapper_node_ok_def isUntypedNullType_def low_cardinality_node_def isDecimalWithParams_def decimalPrecisionScale_def
      canonicalDecimalType_def plain_word_def special_def literal_family_def Let_def)

lemma value_type_Tuple:
  assumes "\<And>p. p \<in> set ps \<Longrightarrow> value_type p" and "list_all plain_word ns"
    and "ns \<noteq> [] \<Longrightarrow> length ns = length ps \<and> list_ex (\<lambda>n. n \<noteq> []) ns"
  shows "value_type (CHType ''Tuple'' ps [] ns)"
  using assms
  by (simp add: value_type_iff [of "CHType ''Tuple'' ps [] ns"] value_node_def comm_node_def text_node_def spelled_node_def
      wrapper_node_ok_def isUntypedNullType_def low_cardinality_node_def isDecimalWithParams_def decimalPrecisionScale_def
      canonicalDecimalType_def plain_word_def special_def literal_family_def Let_def)

lemma value_type_not_LC: "value_type p \<Longrightarrow> \<not> named p ''lowcardinality''"
  using value_type_root [of p] value_type_iff [of p]
  by (auto simp: value_node_def spelled_node_def wrapper_node_ok_def low_cardinality_node_def elim: low_cardinality_okE)

lemma value_type_Nullable:
  assumes "value_type p" "nullable_safe p"
  shows "value_type (ty1 ''Nullable'' [p])"
proof -
  let ?t = "ty1 ''Nullable'' [p]"
  have "text_node literal_family ?t" "\<not> named ?t ''simpleaggregatefunction''" "\<not> isDecimalWithParams ?t"
    "\<not> named ?t ''nothing''" "\<not> named ?t ''bool''" "\<not> low_cardinality_node ?t"
    by (simp_all add: text_node_def plain_word_def special_def literal_family_def low_cardinality_node_def
        isDecimalWithParams_def decimalPrecisionScale_def canonicalDecimalType_def Let_def)
  moreover have "isUntypedNullType ?t \<longrightarrow> p = ty0 ''Nothing''"
    using value_type_root [OF assms(1)] by (auto simp: isUntypedNullType_def value_node_def)
  moreover have "nullable_ok ?t"
    using assms value_type_not_LC by (simp add: nullable_ok_def nullable_safe_def)
  ultimately show ?thesis
    using assms(1) by (simp add: value_type_iff [of ?t] value_node_def comm_node_def spelled_node_def wrapper_node_ok_def)
qed

section \<open>The pairwise rule keeps the values\<close>

lemma zip_same_length_member:
  "length xs = length ys \<Longrightarrow> x \<in> set xs \<Longrightarrow> \<exists>y. (x, y) \<in> set (zip xs ys)"
  "length xs = length ys \<Longrightarrow> y \<in> set ys \<Longrightarrow> \<exists>x. (x, y) \<in> set (zip xs ys)"
  by (auto simp: set_zip in_set_conv_nth)

lemma tuple_result_shape:
  assumes "value_type l" "length (Params l) = length es" "es \<noteq> []" "\<And>e. e \<in> set es \<Longrightarrow> value_type e"
    "length (Params l) = length (Params r)"
  shows "value_type (tuple_result l r es) \<and> named (tuple_result l r es) ''tuple'' \<and> Params (tuple_result l r es) = es"
proof -
  have "text_node literal_family l" using assms(1) by (auto simp: value_node_def comm_node_def dest: value_type_root)
  then show ?thesis
    using assms(2-5) by (auto simp: tuple_result_def text_node_def intro!: value_type_Tuple)
qed

lemma common_node_value:
  assumes c: "common_node l r = Inr t" and v: "value_type l" "value_type r"
    and IH: "\<And>a b u. a \<in> set (Params l) \<Longrightarrow> b \<in> set (Params r) \<Longrightarrow> commonCHType a b = Inr u \<Longrightarrow> keeps_values a b u"
  shows "keeps_values l r t \<and> (nullable_safe l \<longrightarrow> nullable_safe t)"
  using c
proof (cases rule: common_node_InrE)
  case scalar
  with v show ?thesis by (blast dest: common_scalar_value)
next
  case (array inner)
  then have "keeps_values (hd (Params l)) (hd (Params r)) inner" by (intro IH hd_in_params) auto
  with array show ?thesis
    by (auto simp: keeps_values_def has_value_Array value_type_Array nullable_safe_def canBeInsideNullable_def named_def)
next
  case (map key val)
  then have "keeps_values (Params l ! 0) (Params r ! 0) key" "keeps_values (Params l ! 1) (Params r ! 1) val"
    using IH by auto
  with map show ?thesis
    by (auto simp: keeps_values_def has_value_Map value_type_Map nullable_safe_def canBeInsideNullable_def named_def)
next
  case (tuple es)
  have z: "list_all2 (\<lambda>x y. (\<lambda>(a, b). commonCHType a b) x = Inr y) (zip (Params l) (Params r)) es"
    using tuple(6) by (simp add: map_res_Inr_list_all2)
  then have len: "length es = length (Params l)" using tuple(4) by (auto dest: list_all2_lengthD)
  have k: "keeps_values (Params l ! i) (Params r ! i) (es ! i)" if "i < length es" for i
  proof (rule IH)
    show "commonCHType (Params l ! i) (Params r ! i) = Inr (es ! i)"
      using list_all2_nthD2 [OF z that] that len tuple(4) by simp
  qed (use that len tuple(4) in auto)
  have sh: "value_type t \<and> named t ''tuple'' \<and> Params t = es"
    unfolding tuple(7)
    by (rule tuple_result_shape) (use v len tuple k in \<open>auto simp: keeps_values_def in_set_conv_nth\<close>)
  have "has_value t w" if "has_value l w \<or> has_value r w" for w
  proof -
    have "Params r \<noteq> []" "es \<noteq> []" using tuple(4,5) len by auto
    with that tuple sh k len show ?thesis
      by (auto simp: has_value_Tuple keeps_values_def list_all2_conv_all_nth)
  qed
  with sh tuple show ?thesis
    by (auto simp: keeps_values_def nullable_safe_def canBeInsideNullable_def named_def)
next
  case temporal
  with v show ?thesis by (blast dest: temporal_no_value)
qed

lemma finish_value:
  assumes "value_type t" "n \<Longrightarrow> nullable_safe t"
  shows "value_type (finish_common b n t) \<and> (\<forall>v. has_value t v \<or> n \<and> v = VNull \<longrightarrow> has_value (finish_common b n t) v)"
proof -
  define u where "u = (if b \<and> named t ''uint8'' \<and> Params t = [] then ty0 ''Bool'' else t)"
  have b: "named (ty0 ''Bool'') ''bool''" by simp
  have t: "value_type u" "n \<Longrightarrow> nullable_safe u" "\<And>v. has_value u v = has_value t v"
    using assms leaf_nullable_safe(4)
    by (auto simp: u_def value_type_builtin has_value_leaf leaf_named_bool [OF b] leaf_named_UInt8 [of t])
  have "finish_common b n t = (if n then ty1 ''Nullable'' [u] else u)"
    by (simp add: finish_common_def u_def)
  with t show ?thesis by (cases n) (simp_all add: has_value_Nullable value_type_Nullable)
qed

lemma nullable_safe_node:
  "value_type t \<Longrightarrow> canBeInsideNullable t \<Longrightarrow> \<not> named t ''nullable'' \<Longrightarrow> nullable_safe (bool_as_uint8 t)"
  by (auto simp: bool_as_uint8_def nullable_safe_def canBeInsideNullable_def)

lemma common_node_value_sym:
  assumes "common_node l r = Inr t" and "value_type l" "value_type r"
    and "\<And>a b u. a \<in> set (Params l) \<Longrightarrow> b \<in> set (Params r) \<Longrightarrow> commonCHType a b = Inr u \<Longrightarrow> keeps_values a b u"
  shows "keeps_values l r t \<and> (nullable_safe l \<or> nullable_safe r \<longrightarrow> nullable_safe t)"
proof -
  have "agree (=) (common_node l r) (common_node r l)"
    using assms(2,3) by (intro common_node_comm commonCHType_comm)
      (auto simp: value_type_comm value_type_strip dest: value_type_param)
  then have r: "common_node r l = Inr t" using assms(1) by (cases "common_node r l") auto
  have "keeps_values b a u" if "a \<in> set (Params l)" "b \<in> set (Params r)" "commonCHType b a = Inr u" for a b u
  proof -
    have "agree (=) (commonCHType b a) (commonCHType a b)"
      using that assms(2,3) by (intro commonCHType_comm) (auto simp: value_type_comm value_type_strip dest: value_type_param)
    then have "commonCHType a b = Inr u" using that(3) by (cases "commonCHType a b") auto
    with assms(4) [OF that(1,2)] show ?thesis by (auto simp: keeps_values_def)
  qed
  with common_node_value [OF r assms(3,2)] common_node_value [OF assms(1-3)] assms(4) show ?thesis by blast
qed

lemma null_literal_value:
  assumes "commonWithNullLiteral l r = Some t" "value_type l" "value_type r"
  shows "keeps_values l r t"
proof -
  have nv: "has_value u v \<longleftrightarrow> v = VNull" if "isUntypedNullType u" "value_type u" for u v
  proof -
    have "u = null_literal_type" using that by (auto simp: value_node_def comm_node_def dest: value_type_root)
    then show ?thesis
      by (cases v) (auto simp: has_value_Nullable has_value_leaf leaf_value_def holds_int_def numericInfoForType_def numeric_infos_def)
  qed
  have w: "value_type (wrapNullable u) \<and> (\<forall>v. v = VNull \<or> has_value u v \<longrightarrow> has_value (wrapNullable u) v)"
    if "canBeInsideNullable u" "value_type u" for u
  proof (cases "named u ''nullable''")
    case True
    with value_type_root [OF that(2)] obtain p where "u = ty1 ''Nullable'' [p]"
      by (auto simp: value_node_def spelled_node_def wrapper_node_ok_def elim: nullable_okE)
    with that True show ?thesis by (simp add: wrapNullable_def has_value_Nullable)
  next
    case False
    with that show ?thesis
      by (auto simp: wrapNullable_def has_value_Nullable nullable_safe_def intro: value_type_Nullable)
  qed
  show ?thesis
    using assms w nv by (auto simp: commonWithNullLiteral_def Let_def keeps_values_def split: if_splits)
qed

lemma enum_done_value:
  assumes "enum_step n l r = EnumDone (Inr t)" and v: "value_type l" "value_type r"
  shows "value_type t \<and> (\<forall>v. has_value l v \<or> has_value r v \<or> n \<and> v = VNull \<longrightarrow> has_value t v)"
proof -
  have t: "t = (if n then ty1 ''Nullable'' [ty0 ''String''] else ty0 ''String'')"
    "isEnumCHType l \<and> isStringSupertypeFamily r \<or> isEnumCHType r \<and> isStringSupertypeFamily l
      \<or> isEnumCHType l \<and> isStringSupertypeFamily l \<or> isEnumCHType r \<and> isStringSupertypeFamily r"
    using assms(1) by (auto simp: enum_step_def Let_def split: if_splits)
  have no: "\<not> (isEnumCHType u \<and> isStringSupertypeFamily u)" for u
    by (auto simp: isEnumCHType_def isEnumTypeName_def isStringSupertypeFamily_def named_def)
  have "value_type (ty1 ''Nullable'' [ty0 ''String''])" by code_simp
  moreover have "has_value l v \<or> has_value r v \<Longrightarrow> has_value (ty0 ''String'') v" for v
    using t(2) no enum_no_value string_family_value v by blast
  ultimately show ?thesis using t(1) by (auto simp: value_type_builtin has_value_Nullable)
qed

lemma commonCHType_value:
  "commonCHType l r = Inr t \<Longrightarrow> value_type (stripLowCardinalityDeep l) \<Longrightarrow> value_type (stripLowCardinalityDeep r) \<Longrightarrow>
   keeps_values l r t"
proof (induction l r arbitrary: t rule: pair_size_induct)
  case (1 l r)
  let ?L = "stripLowCardinalityDeep l" and ?R = "stripLowCardinalityDeep r"
  note v = "1.prems"(2,3)
  have lr: "keeps_values l r t \<longleftrightarrow> keeps_values ?L ?R t"
    by (simp add: keeps_values_def has_value_strip)
  from "1.prems"(1) have "keeps_values ?L ?R t"
  proof (cases rule: commonCHType_InrE)
    case null
    with v show ?thesis by (rule null_literal_value [rotated])
  next
    case marker
    with comm_no_marker [OF v [THEN value_type_comm]] show ?thesis by simp
  next
    case (enum_string l2 ln r2 rn)
    from value_peel [OF v(1) enum_string(3)] value_peel [OF v(2) enum_string(4)]
      enum_done_value [OF enum_string(5)]
    show ?thesis by (auto simp: keeps_values_def value_bool has_value_bool)
  next
    case (node l2 ln r2 rn left right res)
    have p: "value_type l2" "value_type r2" using value_peel [OF v(1) node(3)] value_peel [OF v(2) node(4)] by auto
    have e: "value_type left \<and> value_type right \<and> (has_value l2 v \<longrightarrow> has_value left v) \<and> (has_value r2 v \<longrightarrow> has_value right v)" for v
      using value_enum_next [OF node(5) value_bool [OF p(1)] value_bool [OF p(2)], of v] by (simp add: has_value_bool)
    have safe: "(ln \<longrightarrow> nullable_safe left) \<and> (rn \<longrightarrow> nullable_safe right)"
      using value_peel [OF v(1) node(3)] value_peel [OF v(2) node(4)] enum_next_nullable [OF node(5)]
        nullable_safe_node [of l2] nullable_safe_node [of r2] by (auto simp: nullable_safe_def)
    have c: "keeps_values left right res \<and> (nullable_safe left \<or> nullable_safe right \<longrightarrow> nullable_safe res)"
    proof (rule common_node_value_sym [OF node(6)])
      fix a b u assume ab: "a \<in> set (Params left)" "b \<in> set (Params right)" "commonCHType a b = Inr u"
      from e have "value_type left" "value_type right" by blast+
      then have "value_type a" "value_type b" using ab by (auto dest: value_type_param)
      then show "keeps_values a b u"
        using common_call_size [OF node(3-5) ab(1,2)] ab(3) by (intro "1.IH") (auto simp: value_type_strip)
    qed (use e in auto)
    then have "ln \<or> rn \<Longrightarrow> nullable_safe res" using safe by blast
    with finish_value [of res "ln \<or> rn" "named l2 ''bool'' \<or> named r2 ''bool''"] c node(7)
      value_peel [OF v(1) node(3)] value_peel [OF v(2) node(4)] e
    show ?thesis by (auto simp: keeps_values_def)
  qed
  with lr show ?case by simp
qed

section \<open>The join of many branches\<close>

definition branch_carrier :: "chtype \<Rightarrow> bool" where
  "branch_carrier t = value_type (stripLowCardinalityDeep t)"

interpretation branch_join: value_join commonCHType has_value branch_carrier
proof unfold_locales
  fix a b c assume "commonCHType a b = Inr c" "branch_carrier a" "branch_carrier b"
  then have "keeps_values a b c" by (simp add: branch_carrier_def commonCHType_value)
  then show "branch_carrier c" by (simp add: keeps_values_def branch_carrier_def value_type_strip)
next
  fix a b c v assume "commonCHType a b = Inr c" "branch_carrier a" "branch_carrier b" "has_value a v \<or> has_value b v"
  then show "has_value c v" using commonCHType_value [of a b c] by (auto simp: branch_carrier_def keeps_values_def)
qed

lemma set_order_branches: "set (order_branches ts) = set ts"
  by (auto simp: order_branches_def branch_priority_def Let_def)

lemma split_value:
  assumes "value_type t"
  shows "has_value t v \<longleftrightarrow> nullable_of t \<and> v = VNull \<or> has_value (base_of t) v"
    and "value_type (base_of t)" and "\<not> named (base_of t) ''nullable''"
proof -
  have s: "peel_nullable t = Inr (base_of t, nullable_of t)"
  proof (cases "named t ''nullable''")
    case True
    with value_type_root [OF assms] obtain p where "t = ty1 ''Nullable'' [p]"
      by (auto simp: value_node_def spelled_node_def wrapper_node_ok_def elim: nullable_okE)
    then show ?thesis by (simp add: peel_nullable_def base_of_def nullable_of_def splitCHWrappers_def)
  next
    case False
    with value_type_not_LC [OF assms] show ?thesis
      by (simp add: peel_nullable_def base_of_def nullable_of_def splitCHWrappers_def)
  qed
  show "has_value t v \<longleftrightarrow> nullable_of t \<and> v = VNull \<or> has_value (base_of t) v"
    "value_type (base_of t)" "\<not> named (base_of t) ''nullable''"
    using value_peel [OF assms s, of v] by auto
qed

lemma marker_free:
  assumes "\<forall>b \<in> set ts. branch_carrier b" and "ts \<noteq> []"
  shows "simpleAggregateWrapperInner (hd ts) = None"
proof (rule ccontr)
  assume "simpleAggregateWrapperInner (hd ts) \<noteq> None"
  then have m: "named (hd ts) ''simpleaggregatefunction''" by (auto simp: simpleAggregateWrapperInner_def split: if_splits)
  then have "unwrapLowCardinality (hd ts) = hd ts"
    by (intro unwrapLowCardinality_id) (simp add: low_cardinality_node_def named_def)
  then have "named (stripLowCardinalityDeep (hd ts)) ''simpleaggregatefunction''"
    using m by (subst stripLowCardinalityDeep.simps) (simp add: Let_def)
  moreover have "value_type (stripLowCardinalityDeep (hd ts))" using assms by (simp add: branch_carrier_def)
  ultimately show False by (auto simp: value_node_def comm_node_def dest: value_type_root)
qed

lemma integer_value:
  assumes "mixed_sign_info t = Some a" and "value_type (stripLowCardinalityDeep t)"
    and "has_value (base_of (stripLowCardinalityDeep t)) v"
  shows "\<exists>i. v = VInt i \<and> holds_int (mixed_base t) i"
proof -
  let ?b = "base_of (stripLowCardinalityDeep t)"
  have v: "value_type ?b" "\<not> named ?b ''nullable''" using split_value [OF assms(2)] by auto
  have i: "numericInfoForType (mixed_base t) \<noteq> None" using assms(1) by (auto simp: mixed_sign_info_base split: option.splits)
  have m: "bool_as_uint8 ?b = mixed_base t" by (simp add: mixed_base_def bool_as_uint8_def Let_def)
  have h: "has_value (mixed_base t) v" using assms(3) has_value_bool [of ?b v] m by simp
  have n: "to_lower (Name (mixed_base t)) \<in> fst ` set numeric_infos"
    using i unfolding numericInfoForType_def by (metis map_of_eq_None_iff)
  have p: "Params (mixed_base t) = []"
    using h n has_value_other [of "mixed_base t" v] by (cases "Params (mixed_base t) = []")
      (auto simp: numeric_infos_def named_def low_cardinality_node_def)
  show ?thesis using h n p by (cases v) (auto simp: has_value_leaf leaf_value_def named_def numeric_infos_def)
qed

lemma mixed_sign_value:
  assumes m: "mixedSignIntegerCHTypes ts = Some (Inr t, n)" and c: "\<forall>b \<in> set ts. branch_carrier b"
    and b: "b \<in> set ts" and h: "has_value b v"
  shows "has_value (applyCHWrappers t n False) v"
proof -
  let ?s = "stripLowCardinalityDeep b"
  from m obtain w where t: "t = ty0 (numericTypeName Signed w)" "w \<in> integer_widths" "mixed_sign_info b \<noteq> None"
    using b by (elim mixedSign_SomeE) auto
  have n: "n = list_ex (\<lambda>t. nullable_of (stripLowCardinalityDeep t)) ts"
    using m by (auto simp: mixedSignIntegerCHTypes_def Let_def split: option.splits if_splits)
  have "value_type ?s" using c b by (simp add: branch_carrier_def)
  then have "nullable_of ?s \<and> v = VNull \<or> has_value (base_of ?s) v"
    using h split_value(1) [of ?s v] by (simp add: has_value_strip)
  then have "n \<and> v = VNull \<or> has_value t v"
  proof
    assume "has_value (base_of ?s) v"
    with t(3) \<open>value_type ?s\<close> obtain i where "v = VInt i" "holds_int (mixed_base b) i"
      using integer_value by blast
    with mixed_sign_holds [OF m b] t(1) show ?thesis by (simp add: has_value_leaf leaf_value_def)
  qed (use n b in \<open>auto simp: list_ex_iff\<close>)
  moreover have "wrapNullable t = ty1 ''Nullable'' [t]"
  proof -
    have "nullable_safe (type_of_info \<lparr>kind = Signed, bits = w\<rparr>)" by (rule leaf_nullable_safe)
    then show ?thesis by (simp add: t(1) type_of_info_def nullable_safe_def wrapNullable_def)
  qed
  ultimately show ?thesis by (auto simp: applyCHWrappers_def Let_def has_value_Nullable)
qed

lemma datetime_value:
  assumes m: "dateTimeTimezoneCHTypes ts = Some (t, n)" and c: "\<forall>b \<in> set ts. branch_carrier b"
    and b: "b \<in> set ts" and h: "has_value b v"
  shows "has_value (applyCHWrappers t n False) v"
proof -
  let ?s = "stripLowCardinalityDeep b"
  have vt: "value_type ?s" using c b by (simp add: branch_carrier_def)
  have "dateTimeBranch (base_of ?s) \<noteq> None"
    using m b by (auto simp: dateTimeTimezoneCHTypes_def Let_def those_map base_of_def split: if_splits)
  then have "to_lower (Name (base_of ?s)) \<in> {''datetime'', ''datetime64''}"
    by (auto simp: dateTimeBranch_def named_def split: if_splits)
  then have "\<not> has_value (base_of ?s) v"
    using has_value_other [of "base_of ?s" v]
    by (cases "Params (base_of ?s) = []"; cases v)
       (auto simp: has_value_leaf leaf_value_def named_def low_cardinality_node_def holds_int_def
         numericInfoForType_def numeric_infos_def)
  with h split_value(1) [OF vt, of v] have nv: "nullable_of ?s" "v = VNull" by (auto simp: has_value_strip)
  have n: "n = list_ex (\<lambda>s. fst (snd s)) (map (\<lambda>v. splitCHWrappers (stripLowCardinalityDeep v)) ts)"
    using m unfolding dateTimeTimezoneCHTypes_def Let_def by (auto split: option.splits)
  with nv b have "n" by (auto simp: list_ex_iff nullable_of_def)
  moreover have "nullable_safe t"
    using m unfolding dateTimeTimezoneCHTypes_def Let_def
    by (auto simp: nullable_safe_def canBeInsideNullable_def split: option.splits if_splits)
  ultimately show ?thesis
    using nv by (simp add: applyCHWrappers_def wrapNullable_def nullable_safe_def has_value_Nullable)
qed

lemma branches_keep_values:
  assumes "commonCHTypes ts = Inr t" and "\<forall>b \<in> set ts. branch_carrier b"
    and "b \<in> set ts" and "has_value b v"
  shows "has_value t v"
proof (cases "mixedSignIntegerCHTypes ts")
  case (Some x)
  with assms mixed_sign_value show ?thesis
    by (cases x; cases "fst x") (auto simp: commonCHTypes_def split: if_splits)
next
  case m: None
  show ?thesis
  proof (cases "dateTimeTimezoneCHTypes ts")
    case (Some x)
    with m assms datetime_value show ?thesis by (cases x) (auto simp: commonCHTypes_def split: if_splits)
  next
    case None
    obtain h tl where o: "order_branches ts = h # tl" "set (h # tl) = set ts"
      using assms(3) set_order_branches [of ts] by (cases "order_branches ts") auto
    have ne: "ts \<noteq> []" using assms(3) by auto
    have f: "fold_res (\<lambda>t result. commonCHType result t) tl (stripLowCardinalityDeep h) = Inr t"
      using assms(1) m None ne o marker_free [OF assms(2) ne] by (simp add: commonCHTypes_def Let_def)
    have c: "\<forall>u \<in> set (stripLowCardinalityDeep h # tl). branch_carrier u"
      using assms(2) o by (auto simp: branch_carrier_def)
    from assms(3,4) o(2) obtain u where "u \<in> set (stripLowCardinalityDeep h # tl)" "has_value u v"
      by (metis has_value_strip list.set_intros(1) list.set_intros(2) set_ConsD)
    with branch_join.fold_upper [OF f c] show ?thesis by blast
  qed
qed



end
