(* ===== verification/Temporal.thy ===== *)
theory Temporal
  imports Wrappers
begin

text \<open>
  Dates and times (\<^verbatim>\<open>temporal.go\<close>): the kind of a column, the walk plan from a Go value to the
  \<^verbatim>\<open>time.Time\<close> values inside it, the guard and scan-check statements generated from the plan, and
  the result type of INTERVAL arithmetic. A Go pointer is an option; dereferencing nil is the
  outcome \<open>None\<close> of the two statement generators.
\<close>

section \<open>Range constants\<close>

definition chgenDateMinUnix :: int where "chgenDateMinUnix = 0"
definition chgenDateMaxUnix :: int where "chgenDateMaxUnix = 5662310400 - 1"
definition chgenDate32MinUnix :: int where "chgenDate32MinUnix = -2208988800"
definition chgenDate32MaxUnix :: int where "chgenDate32MaxUnix = 10413792000 - 1"
definition chgenDateTimeMinUnix :: int where "chgenDateTimeMinUnix = 0"
definition chgenDateTimeMaxUnix :: int where "chgenDateTimeMaxUnix = 4294967295"
definition chgenDateTime64MinUnix :: int where "chgenDateTime64MinUnix = -2208988800"
definition chgenDateTime64MaxUnix :: int where "chgenDateTime64MaxUnix = 9223372036"
definition chgenDateTime64MaxNanosecond :: int where "chgenDateTime64MaxNanosecond = 854775807"
definition chgenDateTime64ColumnMaxUnix :: int where "chgenDateTime64ColumnMaxUnix = 10413792000 - 1"
definition chgenDateTime64NanoMinUnix :: int where "chgenDateTime64NanoMinUnix = -2208988800"
definition chgenDateTime64NanoMaxUnix :: int where "chgenDateTime64NanoMaxUnix = 9223372036"
definition chgenDateTime64NanoMaxNanosecond :: int where "chgenDateTime64NanoMaxNanosecond = 854775807"

section \<open>Kinds\<close>

datatype temporalKind = temporalNone | temporalDate | temporalDate32 | temporalDateTime
  | temporalDateTime64 | temporalDateTime64Nano

definition guardFunc :: "temporalKind \<Rightarrow> string" where
  "guardFunc k = (case k of
       temporalDate \<Rightarrow> ''chgenGuardDate''
     | temporalDate32 \<Rightarrow> ''chgenGuardDate32''
     | temporalDateTime \<Rightarrow> ''chgenGuardDateTime''
     | temporalDateTime64 \<Rightarrow> ''chgenGuardDateTime64''
     | temporalDateTime64Nano \<Rightarrow> ''chgenGuardDateTime64Nano''
     | temporalNone \<Rightarrow> [])"

definition dateTime64Precision :: "chtype \<Rightarrow> int" where
  "dateTime64Precision columnType =
     (if LiteralParams columnType = [] then 3
      else case atoi (trim_space (LiteralParams columnType ! 0)) of None \<Rightarrow> 3 | Some precision \<Rightarrow> precision)"

definition temporalKindOf :: "chtype \<Rightarrow> temporalKind" where
  "temporalKindOf columnType =
     (let n = normalizedName columnType in
      if n = ''date'' then temporalDate
      else if n = ''date32'' then temporalDate32
      else if n = ''datetime'' then temporalDateTime
      else if n = ''datetime64''
      then (if dateTime64Precision columnType \<ge> 9 then temporalDateTime64Nano else temporalDateTime64)
      else temporalNone)"

section \<open>The walk plan\<close>

datatype temporalShape = Shape (shKind: temporalKind) (shNullable: bool) (shArray: bool)
  (shMapKey: "temporalShape option") (shMapValue: "temporalShape option") (shElem: "temporalShape option")

definition set_nullable :: "bool \<Rightarrow> temporalShape \<Rightarrow> temporalShape" where
  "set_nullable b s = Shape (shKind s) b (shArray s) (shMapKey s) (shMapValue s) (shElem s)"

function temporalShapeOf :: "chtype \<Rightarrow> temporalShape option" where
  "temporalShapeOf columnType =
     (let n = normalizedName columnType; ps = Params columnType in
      if n = ''lowcardinality'' then (if length ps = 1 then temporalShapeOf (hd ps) else None)
      else if n = ''aggregatefunction'' then (if length ps \<ge> 2 then temporalShapeOf (ps ! 1) else None)
      else if n = ''nullable'' then
        (if length ps \<noteq> 1 then None
         else case temporalShapeOf (hd ps) of None \<Rightarrow> None | Some inner \<Rightarrow> Some (set_nullable True inner))
      else if n = ''array'' then
        (if length ps \<noteq> 1 then None
         else case temporalShapeOf (hd ps) of
             None \<Rightarrow> None
           | Some elem \<Rightarrow> Some (Shape temporalNone False True None None (Some elem)))
      else if n = ''map'' then
        (if length ps \<noteq> 2 then None
         else let key = temporalShapeOf (ps ! 0); val = temporalShapeOf (ps ! 1)
              in if key = None \<and> val = None then None
                 else Some (Shape temporalNone False False key val None))
      else let kind = temporalKindOf columnType in
           if kind = temporalNone then None else Some (Shape kind False False None None None))"
  by pat_completeness auto
termination
  by (relation "measure tsize") (auto intro!: tsize_param intro: hd_in_set)

declare temporalShapeOf.simps [simp del]

definition isMap :: "temporalShape \<Rightarrow> bool" where
  "isMap s \<longleftrightarrow> shMapKey s \<noteq> None \<or> shMapValue s \<noteq> None"

section \<open>The generated statements\<close>

text \<open>
  \<^verbatim>\<open>strconv.Quote\<close> on ASCII: a backslash escape for the quote, the backslash and the named control
  bytes, a hexadecimal escape for the other control bytes.
\<close>

definition hex_digit :: "nat \<Rightarrow> char" where
  "hex_digit d = (if d < 10 then char_of (48 + d) else char_of (87 + d))"

definition quote_char :: "char \<Rightarrow> string" where
  "quote_char c =
     (let n = (of_char c :: nat) in
      if n = 34 then [char_of (92 :: nat), c]
      else if n = 92 then [c, c]
      else if n = 7 then [char_of (92 :: nat), CHR ''a'']
      else if n = 8 then [char_of (92 :: nat), CHR ''b'']
      else if n = 12 then [char_of (92 :: nat), CHR ''f'']
      else if n = 10 then [char_of (92 :: nat), CHR ''n'']
      else if n = 13 then [char_of (92 :: nat), CHR ''r'']
      else if n = 9 then [char_of (92 :: nat), CHR ''t'']
      else if n = 11 then [char_of (92 :: nat), CHR ''v'']
      else if n < 32 \<or> n = 127 then [char_of (92 :: nat), CHR ''x'', hex_digit (n div 16), hex_digit (n mod 16)]
      else [c])"

definition go_quote :: "string \<Rightarrow> string" where
  "go_quote s = [char_of (34 :: nat)] @ concat (map quote_char s) @ [char_of (34 :: nat)]"

definition tab :: string where "tab = [char_of (9 :: nat)]"

definition loop_var :: "string \<Rightarrow> nat \<Rightarrow> string" where
  "loop_var stem depth = stem @ itoa (int depth)"

abbreviation bind_lines :: "string list option \<Rightarrow> (string list \<Rightarrow> string list option) \<Rightarrow> string list option" where
  "bind_lines \<equiv> Option.bind"

lemma option_size_lt [simp]: "x = Some y \<Longrightarrow> size y < size_option size x"
  by auto

lemma shape_sizes:
  "shElem s = Some e \<Longrightarrow> size e < size s"
  "shMapKey s = Some e \<Longrightarrow> size e < size s"
  "shMapValue s = Some e \<Longrightarrow> size e < size s"
  by (cases s; auto)+

definition shape_weight :: "temporalShape \<Rightarrow> nat" where
  "shape_weight s = 2 * size s + (if shNullable s then 1 else 0)"

lemma weight_nullable: "shNullable s \<Longrightarrow> shape_weight (set_nullable False s) < shape_weight s"
  by (cases s) (simp add: shape_weight_def set_nullable_def)

lemma weight_child:
  "size e < size s \<Longrightarrow> shape_weight e < shape_weight s"
  by (simp add: shape_weight_def)

text \<open>The three lines of the leaf: call, return of the error, end of the block.\<close>

definition leaf_lines :: "string \<Rightarrow> string \<Rightarrow> (string \<Rightarrow> string) \<Rightarrow> string list" where
  "leaf_lines indent call errReturn =
     [indent @ ''if err := '' @ call @ ''; err != nil {'', indent @ tab @ errReturn ''err'', indent @ ''}'']"

function chgenGuardStatements ::
    "temporalShape \<Rightarrow> string \<Rightarrow> string \<Rightarrow> nat \<Rightarrow> string \<Rightarrow> (string \<Rightarrow> string) \<Rightarrow> string list option" where
  "chgenGuardStatements shape expr label depth indent errReturn =
     (if shNullable shape then
        bind_lines (chgenGuardStatements (set_nullable False shape) (''(*'' @ expr @ '')'') label depth (indent @ tab) errReturn)
          (\<lambda>nested. Some ([indent @ ''if '' @ expr @ '' != nil {''] @ nested @ [indent @ ''}'']))
      else if shArray shape then
        (case shElem shape of
           None \<Rightarrow> None
         | Some elem \<Rightarrow>
             let loopVar = loop_var ''chgenV'' depth in
             bind_lines (chgenGuardStatements elem loopVar label (depth + 1) (indent @ tab) errReturn)
               (\<lambda>nested. Some ([indent @ ''for _, '' @ loopVar @ '' := range '' @ expr @ '' {''] @ nested @ [indent @ ''}''])))
      else if isMap shape then
        (let keyVar = loop_var ''chgenK'' depth; valueVar = loop_var ''chgenV'' depth in
         case shMapValue shape of
           Some value \<Rightarrow>
             bind_lines (case shMapKey shape of
                 Some key \<Rightarrow> chgenGuardStatements key keyVar label (depth + 1) (indent @ tab) errReturn
               | None \<Rightarrow> Some [indent @ tab @ ''_ = '' @ keyVar])
               (\<lambda>keyLines. bind_lines (chgenGuardStatements value valueVar label (depth + 1) (indent @ tab) errReturn)
                 (\<lambda>valueLines. Some ([indent @ ''for '' @ keyVar @ '', '' @ valueVar @ '' := range '' @ expr @ '' {'']
                    @ keyLines @ valueLines @ [indent @ ''}''])))
         | None \<Rightarrow>
             (case shMapKey shape of
                None \<Rightarrow> None
              | Some key \<Rightarrow>
                  bind_lines (chgenGuardStatements key keyVar label (depth + 1) (indent @ tab) errReturn)
                    (\<lambda>nested. Some ([indent @ ''for '' @ keyVar @ '' := range '' @ expr @ '' {''] @ nested @ [indent @ ''}'']))))
      else Some (leaf_lines indent (guardFunc (shKind shape) @ ''('' @ expr @ '', '' @ go_quote label @ '')'') errReturn))"
  by pat_completeness auto
termination
  by (relation "measure (\<lambda>(s, _). shape_weight s)") (auto intro: weight_nullable weight_child shape_sizes)

declare chgenGuardStatements.simps [simp del]

function shapeNeedsScanCheck :: "temporalShape \<Rightarrow> bool" where
  "shapeNeedsScanCheck shape =
     (if shArray shape then (case shElem shape of None \<Rightarrow> False | Some elem \<Rightarrow> shapeNeedsScanCheck elem)
      else if isMap shape then
        (if (case shMapKey shape of None \<Rightarrow> False | Some key \<Rightarrow> shapeNeedsScanCheck key) then True
         else case shMapValue shape of None \<Rightarrow> False | Some value \<Rightarrow> shapeNeedsScanCheck value)
      else shKind shape = temporalDateTime64 \<or> shKind shape = temporalDateTime64Nano)"
  by pat_completeness auto
termination
  by (relation "measure shape_weight") (auto intro: weight_child shape_sizes)

declare shapeNeedsScanCheck.simps [simp del]

function chgenScanCheckStatements ::
    "temporalShape \<Rightarrow> string \<Rightarrow> string \<Rightarrow> nat \<Rightarrow> string \<Rightarrow> (string \<Rightarrow> string) \<Rightarrow> string list option" where
  "chgenScanCheckStatements shape expr label depth indent errReturn =
     (if \<not> shapeNeedsScanCheck shape then Some []
      else if shNullable shape then
        bind_lines (chgenScanCheckStatements (set_nullable False shape) (''(*'' @ expr @ '')'') label depth (indent @ tab) errReturn)
          (\<lambda>nested. Some ([indent @ ''if '' @ expr @ '' != nil {''] @ nested @ [indent @ ''}'']))
      else if shArray shape then
        (case shElem shape of
           None \<Rightarrow> None
         | Some elem \<Rightarrow>
             let loopVar = loop_var ''chgenV'' depth in
             bind_lines (chgenScanCheckStatements elem loopVar label (depth + 1) (indent @ tab) errReturn)
               (\<lambda>nested. Some ([indent @ ''for _, '' @ loopVar @ '' := range '' @ expr @ '' {''] @ nested @ [indent @ ''}''])))
      else if isMap shape then
        (let keyVar = loop_var ''chgenK'' depth; valueVar = loop_var ''chgenV'' depth in
         case shMapValue shape of
           Some value \<Rightarrow>
             (if shapeNeedsScanCheck value then
                bind_lines (case shMapKey shape of
                    Some key \<Rightarrow>
                      (if shapeNeedsScanCheck key
                       then chgenScanCheckStatements key keyVar label (depth + 1) (indent @ tab) errReturn
                       else Some [indent @ tab @ ''_ = '' @ keyVar])
                  | None \<Rightarrow> Some [indent @ tab @ ''_ = '' @ keyVar])
                  (\<lambda>keyLines. bind_lines (chgenScanCheckStatements value valueVar label (depth + 1) (indent @ tab) errReturn)
                    (\<lambda>valueLines. Some ([indent @ ''for '' @ keyVar @ '', '' @ valueVar @ '' := range '' @ expr @ '' {'']
                       @ keyLines @ valueLines @ [indent @ ''}''])))
              else case shMapKey shape of
                  None \<Rightarrow> Some []
                | Some key \<Rightarrow>
                    bind_lines (chgenScanCheckStatements key keyVar label (depth + 1) (indent @ tab) errReturn)
                      (\<lambda>nested. Some ([indent @ ''for '' @ keyVar @ '' := range '' @ expr @ '' {''] @ nested @ [indent @ ''}''])))
         | None \<Rightarrow>
             (case shMapKey shape of
                None \<Rightarrow> Some []
              | Some key \<Rightarrow>
                  bind_lines (chgenScanCheckStatements key keyVar label (depth + 1) (indent @ tab) errReturn)
                    (\<lambda>nested. Some ([indent @ ''for '' @ keyVar @ '' := range '' @ expr @ '' {''] @ nested @ [indent @ ''}'']))))
      else Some (leaf_lines indent (''chgenCheckDateTime64ScanRange('' @ expr @ '', '' @ go_quote label @ '')'') errReturn))"
  by pat_completeness auto
termination
  by (relation "measure (\<lambda>(s, _). shape_weight s)") (auto intro: weight_nullable weight_child shape_sizes)

declare chgenScanCheckStatements.simps [simp del]

section \<open>INTERVAL arithmetic\<close>

text \<open>Fraction digits of the unit and whether it is below a day; \<open>None\<close> for an unknown unit.\<close>

definition intervalUnitPrecision :: "string \<Rightarrow> (int \<times> bool) option" where
  "intervalUnitPrecision unit =
     (let u = to_lower (trim_suffix (to_lower (trim_space unit)) ''s'') in
      if u = ''nanosecond'' then Some (9, True)
      else if u = ''microsecond'' then Some (6, True)
      else if u = ''millisecond'' then Some (3, True)
      else if u \<in> {''second'', ''minute'', ''hour''} then Some (0, True)
      else if u \<in> {''day'', ''week'', ''month'', ''quarter'', ''year''} then Some (0, False)
      else None)"

definition dateTimeTimezoneParams :: "chtype \<Rightarrow> string list" where
  "dateTimeTimezoneParams base =
     (if normalizedName base = ''datetime'' then
        (if length (LiteralParams base) \<ge> 1 then [LiteralParams base ! 0] else [])
      else if normalizedName base = ''datetime64'' then
        (if length (LiteralParams base) \<ge> 2 then [LiteralParams base ! 1] else [])
      else [])"

definition intervalArithmeticResultType :: "chtype \<Rightarrow> string \<Rightarrow> chtype option" where
  "intervalArithmeticResultType operand unit =
     (case intervalUnitPrecision unit of
        None \<Rightarrow> None
      | Some (unitPrecision, subDay) \<Rightarrow>
          let (base, nullable, lowCardinality) = splitCHWrappers operand;
              n = normalizedName base;
              result =
                (if n = ''date'' then
                   (if unitPrecision > 0 then None
                    else if subDay then Some (ty0 ''DateTime'') else Some (ty0 ''Date''))
                 else if n = ''date32'' then
                   (if unitPrecision > 0 then None
                    else if subDay then Some (tyl ''DateTime64'' [''3'']) else Some (ty0 ''Date32''))
                 else if n = ''datetime'' then
                   (if unitPrecision > 0
                    then Some (tyl ''DateTime64'' (itoa unitPrecision # dateTimeTimezoneParams base))
                    else Some base)
                 else if n = ''datetime64'' then
                   (let precision = (if unitPrecision > dateTime64Precision base then unitPrecision
                                     else dateTime64Precision base)
                    in Some (tyl ''DateTime64'' (itoa precision # dateTimeTimezoneParams base)))
                 else None)
          in map_option (\<lambda>r. applyCHWrappers r nullable lowCardinality) result)"

end
