(* ===== verification/Arithmetic.thy ===== *)
theory Arithmetic
  imports Numeric Temporal
begin

text \<open>
  The result type of the binary operators (\<^verbatim>\<open>arithmetic.go\<close>): integer classes and their promotion, the
  date, decimal, float and integer rules in the order the code tries them, and the array rule.
\<close>

section \<open>Classes of operands\<close>

record arithmeticIntegerClass =
  signed :: bool
  size_bytes :: int

definition arithmetic_classes :: "(string \<times> arithmeticIntegerClass) list" where
  "arithmetic_classes = [
     (''uint8'', \<lparr>signed = False, size_bytes = 1\<rparr>), (''bool'', \<lparr>signed = False, size_bytes = 1\<rparr>),
     (''uint16'', \<lparr>signed = False, size_bytes = 2\<rparr>), (''uint32'', \<lparr>signed = False, size_bytes = 4\<rparr>),
     (''uint64'', \<lparr>signed = False, size_bytes = 8\<rparr>),
     (''int8'', \<lparr>signed = True, size_bytes = 1\<rparr>), (''int16'', \<lparr>signed = True, size_bytes = 2\<rparr>),
     (''int32'', \<lparr>signed = True, size_bytes = 4\<rparr>), (''int64'', \<lparr>signed = True, size_bytes = 8\<rparr>),
     (''int'', \<lparr>signed = True, size_bytes = 8\<rparr>),
     (''uint128'', \<lparr>signed = False, size_bytes = 16\<rparr>), (''uint256'', \<lparr>signed = False, size_bytes = 32\<rparr>),
     (''int128'', \<lparr>signed = True, size_bytes = 16\<rparr>), (''int256'', \<lparr>signed = True, size_bytes = 32\<rparr>)]"

definition arithmeticIntegerClassOf :: "chtype \<Rightarrow> arithmeticIntegerClass option" where
  "arithmeticIntegerClassOf operand =
     (if Params operand \<noteq> [] \<or> LiteralParams operand \<noteq> [] then None
      else map_of arithmetic_classes (normalizedName operand))"

definition arithmeticIntegerTypeNames :: "(arithmeticIntegerClass \<times> string) list" where
  "arithmeticIntegerTypeNames = [
     (\<lparr>signed = False, size_bytes = 1\<rparr>, ''UInt8''), (\<lparr>signed = False, size_bytes = 2\<rparr>, ''UInt16''),
     (\<lparr>signed = False, size_bytes = 4\<rparr>, ''UInt32''), (\<lparr>signed = False, size_bytes = 8\<rparr>, ''UInt64''),
     (\<lparr>signed = True, size_bytes = 1\<rparr>, ''Int8''), (\<lparr>signed = True, size_bytes = 2\<rparr>, ''Int16''),
     (\<lparr>signed = True, size_bytes = 4\<rparr>, ''Int32''), (\<lparr>signed = True, size_bytes = 8\<rparr>, ''Int64''),
     (\<lparr>signed = False, size_bytes = 16\<rparr>, ''UInt128''), (\<lparr>signed = False, size_bytes = 32\<rparr>, ''UInt256''),
     (\<lparr>signed = True, size_bytes = 16\<rparr>, ''Int128''), (\<lparr>signed = True, size_bytes = 32\<rparr>, ''Int256'')]"

definition promotedArithmeticSize :: "int \<Rightarrow> int" where
  "promotedArithmeticSize n = (if n \<ge> 8 then n else n * 2)"

definition arithmeticFloatType :: "chtype \<Rightarrow> bool" where
  "arithmeticFloatType operand \<longleftrightarrow> normalizedName operand = ''float32'' \<or> normalizedName operand = ''float64''"

definition arithmeticDecimalType :: "chtype \<Rightarrow> bool" where
  "arithmeticDecimalType operand \<longleftrightarrow>
     normalizedName operand \<in> {''decimal'', ''decimal32'', ''decimal64'', ''decimal128'', ''decimal256''}"

definition arithmeticDateType :: "chtype \<Rightarrow> bool" where
  "arithmeticDateType operand \<longleftrightarrow> normalizedName operand \<in> {''date'', ''date32'', ''datetime'', ''datetime64''}"

definition difference_scale :: "chtype \<Rightarrow> int option" where
  "difference_scale operand =
     (if normalizedName operand = ''datetime64'' then Some (dateTime64Precision operand)
      else if normalizedName operand = ''datetime'' then Some 0 else None)"

definition dateTime64DifferenceType :: "chtype \<Rightarrow> chtype \<Rightarrow> chtype option" where
  "dateTime64DifferenceType left right =
     (case (difference_scale left, difference_scale right) of
        (Some leftScale, Some rightScale) \<Rightarrow>
          (if \<not> equal_fold (normalizedName left) ''datetime64'' \<and> \<not> equal_fold (normalizedName right) ''datetime64''
           then None
           else Some (tyl ''Decimal'' [''18'', itoa (maxInt leftScale rightScale)]))
      | _ \<Rightarrow> None)"

section \<open>The rules\<close>

text \<open>A rule answers \<open>Some\<close> with the type before Nullable, or refuses with \<open>None\<close>.\<close>

definition narrowOffset :: "chtype \<Rightarrow> bool \<Rightarrow> bool" where
  "narrowOffset operand isInteger = (if isInteger then \<not> wideIntegerCHType operand else arithmeticFloatType operand)"

definition arithmetic_date_rule :: "string \<Rightarrow> chtype \<Rightarrow> chtype \<Rightarrow> bool \<Rightarrow> bool \<Rightarrow> chtype option" where
  "arithmetic_date_rule operator left right leftIsInteger rightIsInteger =
     (let leftIsDate = arithmeticDateType left; rightIsDate = arithmeticDateType right in
      if operator = ''+'' \<or> operator = ''-'' then
        (if leftIsDate \<and> rightIsDate then
           (case (if operator = ''-'' then dateTime64DifferenceType left right else None) of
              Some result \<Rightarrow> Some result
            | None \<Rightarrow>
                (if operator = ''-'' \<and> normalizedName left = normalizedName right \<and> normalizedName left \<noteq> ''date32''
                 then Some (ty0 ''Int32'') else None))
         else if leftIsDate \<and> narrowOffset right rightIsInteger then Some left
         else if operator = ''+'' \<and> rightIsDate \<and> narrowOffset left leftIsInteger then Some right
         else None)
      else if operator = ''%'' then
        (if leftIsDate \<and> \<not> rightIsDate \<and> (normalizedName left = ''date'' \<or> normalizedName left = ''datetime'') then
           (if rightIsInteger \<and> \<not> wideIntegerCHType right then Some right
            else if arithmeticFloatType right then Some (ty0 ''Float64'')
            else None)
         else None)
      else None)"

definition arithmetic_decimal_rule :: "string \<Rightarrow> chtype \<Rightarrow> chtype \<Rightarrow> bool \<Rightarrow> bool \<Rightarrow> chtype option" where
  "arithmetic_decimal_rule operator left right leftIsInteger rightIsInteger =
     (let l = decimalPrecisionScale left; r = decimalPrecisionScale right;
          leftIsFloat = arithmeticFloatType left; rightIsFloat = arithmeticFloatType right in
      case (l, r) of
        (Some (leftPrecision, leftScale), Some (rightPrecision, rightScale)) \<Rightarrow>
          let precision = decimalClassPrecision (maxInt leftPrecision rightPrecision);
              scale = (if operator = ''+'' \<or> operator = ''-'' then Some (maxInt leftScale rightScale)
                       else if operator = ''*'' then Some (leftScale + rightScale)
                       else if operator = ''/'' \<or> operator = ''%'' then Some leftScale
                       else None)
          in map_option (\<lambda>s. tyl ''Decimal'' [itoa precision, itoa s]) scale
      | _ \<Rightarrow>
          (if l \<noteq> None \<and> rightIsInteger then Some (canonicalDecimalType left)
           else if r \<noteq> None \<and> leftIsInteger then Some (canonicalDecimalType right)
           else if (l \<noteq> None \<and> rightIsFloat) \<or> (r \<noteq> None \<and> leftIsFloat) then Some (ty0 ''Float64'')
           else None))"

definition arithmetic_float_rule :: "string \<Rightarrow> chtype \<Rightarrow> chtype \<Rightarrow> bool \<Rightarrow> bool \<Rightarrow> chtype option" where
  "arithmetic_float_rule operator left right leftIsInteger rightIsInteger =
     (let leftIsFloat = arithmeticFloatType left; rightIsFloat = arithmeticFloatType right in
      if (leftIsFloat \<or> leftIsInteger) \<and> (rightIsFloat \<or> rightIsInteger) then
        (if (operator = ''+'' \<or> operator = ''-'' \<or> operator = ''*'')
            \<and> (wideIntegerCHType left \<or> wideIntegerCHType right) then None
         else Some (ty0 ''Float64''))
      else None)"

definition arithmetic_integer_class ::
    "string \<Rightarrow> arithmeticIntegerClass \<Rightarrow> arithmeticIntegerClass \<Rightarrow> arithmeticIntegerClass option" where
  "arithmetic_integer_class operator l r =
     (if operator = ''+'' \<or> operator = ''*'' then
        Some \<lparr>signed = (signed l \<or> signed r), size_bytes = promotedArithmeticSize (maxInt (size_bytes l) (size_bytes r))\<rparr>
      else if operator = ''-'' then
        Some \<lparr>signed = True, size_bytes = promotedArithmeticSize (maxInt (size_bytes l) (size_bytes r))\<rparr>
      else if operator = ''%'' then
        (if signed l then Some \<lparr>signed = True, size_bytes = promotedArithmeticSize (size_bytes r)\<rparr>
         else Some \<lparr>signed = False, size_bytes = size_bytes r\<rparr>)
      else None)"

text \<open>A map lookup of a missing class would give the empty name.\<close>

definition class_name :: "arithmeticIntegerClass \<Rightarrow> string" where
  "class_name c = (case map_of arithmeticIntegerTypeNames c of Some n \<Rightarrow> n | None \<Rightarrow> [])"

definition arithmetic_integer_rule :: "string \<Rightarrow> arithmeticIntegerClass \<Rightarrow> arithmeticIntegerClass \<Rightarrow> chtype option" where
  "arithmetic_integer_rule operator l r =
     (if operator = ''/'' then Some (ty0 ''Float64'')
      else map_option (\<lambda>c. ty0 (class_name c)) (arithmetic_integer_class operator l r))"

text \<open>The scalar rules in the order of the code.\<close>

definition arithmetic_scalar_rule :: "string \<Rightarrow> chtype \<Rightarrow> chtype \<Rightarrow> chtype option" where
  "arithmetic_scalar_rule operator left right =
     (let l = arithmeticIntegerClassOf left; r = arithmeticIntegerClassOf right in
      if arithmeticDateType left \<or> arithmeticDateType right
      then arithmetic_date_rule operator left right (l \<noteq> None) (r \<noteq> None)
      else if arithmeticDecimalType left \<or> arithmeticDecimalType right
      then arithmetic_decimal_rule operator left right (l \<noteq> None) (r \<noteq> None)
      else if arithmeticFloatType left \<or> arithmeticFloatType right
      then arithmetic_float_rule operator left right (l \<noteq> None) (r \<noteq> None)
      else case (l, r) of (Some a, Some b) \<Rightarrow> arithmetic_integer_rule operator a b | _ \<Rightarrow> None)"

definition is_array :: "chtype \<Rightarrow> bool" where
  "is_array t \<longleftrightarrow> named t ''array'' \<and> length (Params t) = 1"

text \<open>The element operands of an array operation; \<open>None\<close> is a refusal of the operator.\<close>

definition array_operands :: "string \<Rightarrow> chtype \<Rightarrow> chtype \<Rightarrow> (chtype \<times> chtype) option" where
  "array_operands operator left right =
     (if is_array left \<and> is_array right then
        (if operator \<noteq> ''+'' \<and> operator \<noteq> ''-'' then None else Some (hd (Params left), hd (Params right)))
      else if operator \<noteq> ''*'' \<and> operator \<noteq> ''/'' \<and> operator \<noteq> ''%'' then None
      else if is_array left then Some (hd (Params left), right)
      else Some (left, hd (Params right)))"

definition unwrap_operand :: "chtype \<Rightarrow> chtype \<times> bool" where
  "unwrap_operand operand =
     (let inner = simpleAggregateInnerType operand in
      if named inner ''nullable'' \<and> length (Params inner) = 1 then (hd (Params inner), True) else (inner, False))"

lemma unwrap_operand_size: "tsize (fst (unwrap_operand t)) \<le> tsize t"
proof -
  have "tsize (simpleAggregateInnerType t) \<le> tsize t"
    by (auto simp: simpleAggregateInnerType_def intro!: less_imp_le tsize_nth_param)
  moreover have "tsize (fst (unwrap_operand t)) \<le> tsize (simpleAggregateInnerType t)"
    by (auto simp: unwrap_operand_def Let_def intro!: less_imp_le tsize_hd_param)
  ultimately show ?thesis by simp
qed

definition cannot_infer :: "string \<Rightarrow> chtype \<Rightarrow> chtype \<Rightarrow> error" where
  "cannot_infer operator left right =
     Errorf ''cannot infer result type for %s %s %s'' [to_string left, operator, to_string right]"

lemma array_operands_size:
  assumes "array_operands operator l r = Some (a, b)" and "is_array l \<or> is_array r"
  shows "tsize a + tsize b < tsize l + tsize r"
proof -
  have h: "tsize (hd (Params t)) < tsize t" if "is_array t" for t
    using that by (intro tsize_hd_param) (auto simp: is_array_def)
  show ?thesis
    using assms h [of l] h [of r] by (auto simp: array_operands_def split: if_splits)
qed

function inferArithmeticResultType :: "string \<Rightarrow> chtype \<Rightarrow> chtype \<Rightarrow> chtype result" where
  "inferArithmeticResultType operator left0 right0 =
     (let (left, leftNullable) = unwrap_operand left0; (right, rightNullable) = unwrap_operand right0;
          nullable = (leftNullable \<or> rightNullable); refused = Inl (cannot_infer operator left right) in
      if is_array left \<or> is_array right then
        (if nullable then refused
         else case array_operands operator left right of
             None \<Rightarrow> refused
           | Some (elementLeft, elementRight) \<Rightarrow>
               if named elementLeft ''nullable'' \<or> named elementRight ''nullable'' then refused
               else case inferArithmeticResultType operator elementLeft elementRight of
                   Inl _ \<Rightarrow> refused
                 | Inr element \<Rightarrow> Inr (ty1 ''Array'' [element]))
      else case arithmetic_scalar_rule operator left right of
          None \<Rightarrow> refused
        | Some result \<Rightarrow> Inr (if nullable then wrapNullable result else result))"
  by pat_completeness auto

termination
proof (relation "measure (\<lambda>(_, l, r). tsize l + tsize r)", goal_cases)
  case (2 operator left0 right0 p left leftNullable q right rightNullable)
  have "tsize left \<le> tsize left0" "tsize right \<le> tsize right0"
    using unwrap_operand_size [of left0] unwrap_operand_size [of right0] 2(1,2,3,4) by (metis fst_conv)+
  with 2 array_operands_size show ?case by fastforce
qed simp

declare inferArithmeticResultType.simps [simp del]

section \<open>Aggregate states under an operator\<close>

function aggregateStateOperand :: "chtype \<Rightarrow> bool" where
  "aggregateStateOperand value =
     (if named value ''array'' \<and> length (Params value) = 1 then aggregateStateOperand (hd (Params value))
      else named value ''aggregatefunction'')"
  by pat_completeness auto
termination
  by (relation "measure tsize") (auto intro!: tsize_hd_param)

declare aggregateStateOperand.simps [simp del]

text \<open>\<open>leftConst\<close> and \<open>rightConst\<close> are \<^verbatim>\<open>isConstLiteralExpr\<close> of the two operand expressions.\<close>

definition aggregateStateReplicationResultType :: "chtype \<Rightarrow> chtype \<Rightarrow> bool \<Rightarrow> bool \<Rightarrow> chtype option" where
  "aggregateStateReplicationResultType left right leftConst rightConst =
     (let leftIsState = aggregateStateOperand left; rightIsState = aggregateStateOperand right in
      if leftIsState = rightIsState then None
      else let (state, count, const) = (if rightIsState then (right, left, leftConst) else (left, right, rightConst)) in
           if \<not> const then None
           else case arithmeticIntegerClassOf count of
               None \<Rightarrow> None
             | Some c \<Rightarrow> (if signed c \<or> size_bytes c > 8 then None else Some state))"

end
