(* ===== verification/ArithmeticFacts.thy ===== *)
theory ArithmeticFacts
  imports Arithmetic
begin

text \<open>
  What the inferred operator types promise: the exact integer result fits, and Nullable is carried
  exactly. The values of an integer class are those of its width in bytes.
\<close>

section \<open>Canonical names\<close>

lemma is_space_lower: "is_space (lower_char c) = is_space c"
  by (cases c) (auto simp: is_space_def)

lemma normalizedName_named:
  assumes "named t s" and "\<forall>c \<in> set s. \<not> is_space c"
  shows "normalizedName t = to_lower (case map_of type_aliases s of Some c \<Rightarrow> c
     | None \<Rightarrow> (case map_of canonical_names s of Some c \<Rightarrow> c | None \<Rightarrow> s))"
proof -
  have l: "to_lower (Name t) = s" using assms(1) by (simp add: named_def)
  then have "\<not> is_space c" if "c \<in> set (Name t)" for c
    using that assms(2) by (metis imageI is_space_lower list.set_map to_lower_def)
  then have "normalize_spelling (Name t) = s" using l by (simp add: normalize_spelling_word)
  moreover have "to_lower s = s" using l by auto
  ultimately show ?thesis
    using l by (auto simp: normalizedName_def canonicalCHTypeName_def Let_def split: option.splits)
qed

definition refused_in_nullable :: "string set" where
  "refused_in_nullable = {''array'', ''map'', ''tuple'', ''aggregatefunction'', ''dynamic'', ''variant'', ''point'', ''ring'',
     ''linestring'', ''polygon'', ''multilinestring'', ''multipolygon'', ''nullable''}"

lemma normalizedName_wrapper:
  assumes "named t s" and "s \<in> refused_in_nullable"
  shows "normalizedName t = s"
proof -
  have "\<forall>s \<in> set [''array'', ''map'', ''tuple'', ''aggregatefunction'', ''dynamic'', ''variant'', ''point'', ''ring'',
     ''linestring'', ''polygon'', ''multilinestring'', ''multipolygon'', ''nullable''].
     list_all (\<lambda>c. \<not> is_space c) s \<and> to_lower (case map_of type_aliases s of Some c \<Rightarrow> c
     | None \<Rightarrow> (case map_of canonical_names s of Some c \<Rightarrow> c | None \<Rightarrow> s)) = s"
    by code_simp
  moreover have "s \<in> set [''array'', ''map'', ''tuple'', ''aggregatefunction'', ''dynamic'', ''variant'', ''point'', ''ring'',
     ''linestring'', ''polygon'', ''multilinestring'', ''multipolygon'', ''nullable'']"
    using assms(2) by (simp add: refused_in_nullable_def)
  ultimately have "list_all (\<lambda>c. \<not> is_space c) s" and
    e: "to_lower (case map_of type_aliases s of Some c \<Rightarrow> c
     | None \<Rightarrow> (case map_of canonical_names s of Some c \<Rightarrow> c | None \<Rightarrow> s)) = s" by blast+
  then have "normalizedName t = to_lower (case map_of type_aliases s of Some c \<Rightarrow> c
     | None \<Rightarrow> (case map_of canonical_names s of Some c \<Rightarrow> c | None \<Rightarrow> s))"
    by (intro normalizedName_named [OF assms(1)]) (simp add: list_all_iff)
  with e show ?thesis by simp
qed

text \<open>A scalar result: Nullable goes around it, and it carries no Nullable yet.\<close>

definition scalar_result :: "chtype \<Rightarrow> bool" where
  "scalar_result t \<longleftrightarrow> canBeInsideNullable t \<and> \<not> named t ''nullable''"

lemma scalar_result_name:
  assumes "normalizedName t \<notin> refused_in_nullable"
  shows "scalar_result t"
proof -
  have n: "\<not> named t s" if "s \<in> refused_in_nullable" for s
    using normalizedName_wrapper [of t s] that assms by auto
  have "canBeInsideNullable t"
    using n unfolding canBeInsideNullable_def named_def refused_in_nullable_def by auto
  moreover have "\<not> named t ''nullable''" by (rule n) (simp add: refused_in_nullable_def)
  ultimately show ?thesis by (simp add: scalar_result_def)
qed

lemma scalar_builtin:
  "scalar_result (ty0 ''Int32'')" "scalar_result (ty0 ''Float64'')" "scalar_result (tyl ''Decimal'' ls)"
  by (simp_all add: scalar_result_def canBeInsideNullable_def)

lemma scalar_date: "arithmeticDateType t \<Longrightarrow> scalar_result t"
  by (rule scalar_result_name) (auto simp: arithmeticDateType_def refused_in_nullable_def)

lemma scalar_integer: "arithmeticIntegerClassOf t \<noteq> None \<Longrightarrow> scalar_result t"
proof (rule scalar_result_name)
  assume "arithmeticIntegerClassOf t \<noteq> None"
  then have "normalizedName t \<in> fst ` set arithmetic_classes"
    unfolding arithmeticIntegerClassOf_def by (metis map_of_eq_None_iff)
  then show "normalizedName t \<notin> refused_in_nullable" by (auto simp: arithmetic_classes_def refused_in_nullable_def)
qed

lemma scalar_decimal: "decimalPrecisionScale t \<noteq> None \<Longrightarrow> scalar_result (canonicalDecimalType t)"
  by (auto simp: decimalPrecisionScale_def Let_def scalar_result_def canBeInsideNullable_def named_def split: if_splits)

lemma scalar_difference: "dateTime64DifferenceType l r = Some t \<Longrightarrow> scalar_result t"
  by (auto simp: dateTime64DifferenceType_def scalar_builtin split: option.splits if_splits)

lemma scalar_class_name: "scalar_result (ty0 (class_name c))"
proof -
  have "\<forall>n \<in> set ([] # map snd arithmeticIntegerTypeNames). scalar_result (ty0 n)" by code_simp
  moreover have "class_name c \<in> set ([] # map snd arithmeticIntegerTypeNames)"
    unfolding class_name_def by (auto split: option.splits dest!: map_of_SomeD intro: rev_image_eqI)
  ultimately show ?thesis by blast
qed

lemma arithmetic_scalar_rule_result: "arithmetic_scalar_rule op l r = Some t \<Longrightarrow> scalar_result t"
proof -
  have d: "arithmetic_date_rule op l r li ri = Some t \<Longrightarrow>
      (li \<longrightarrow> arithmeticIntegerClassOf l \<noteq> None) \<Longrightarrow> (ri \<longrightarrow> arithmeticIntegerClassOf r \<noteq> None) \<Longrightarrow> scalar_result t" for li ri
    unfolding arithmetic_date_rule_def Let_def
    by (simp split: if_splits option.splits)
       (auto simp: scalar_date scalar_builtin scalar_integer scalar_difference)
  have dec: "arithmetic_decimal_rule op l r li ri = Some t \<Longrightarrow> scalar_result t" for li ri
    unfolding arithmetic_decimal_rule_def Let_def
    by (simp split: if_splits option.splits prod.splits)
       (auto simp: scalar_builtin scalar_decimal)
  have f: "arithmetic_float_rule op l r li ri = Some t \<Longrightarrow> scalar_result t" for li ri
    by (auto simp: arithmetic_float_rule_def Let_def scalar_builtin split: if_splits)
  have i: "arithmetic_integer_rule op a b = Some t \<Longrightarrow> scalar_result t" for a b
    by (auto simp: arithmetic_integer_rule_def scalar_builtin scalar_class_name split: if_splits)
  assume "arithmetic_scalar_rule op l r = Some t"
  then show ?thesis
    unfolding arithmetic_scalar_rule_def Let_def
    by (simp split: if_splits option.splits) (auto dest: d dec f i)
qed


section \<open>The values of an integer class\<close>

definition in_class :: "arithmeticIntegerClass \<Rightarrow> int \<Rightarrow> bool" where
  "in_class c x \<longleftrightarrow>
     (if signed c then - (2 ^ nat (8 * size_bytes c - 1)) \<le> x \<and> x < 2 ^ nat (8 * size_bytes c - 1)
      else 0 \<le> x \<and> x < 2 ^ nat (8 * size_bytes c))"

lemma in_class_widen:
  assumes "in_class c x" and "size_bytes c \<le> m"
  shows "in_class \<lparr>signed = signed c, size_bytes = m\<rparr> x"
proof -
  have p: "(2::int) ^ nat (8 * size_bytes c) \<le> 2 ^ nat (8 * m)"
    "(2::int) ^ nat (8 * size_bytes c - 1) \<le> 2 ^ nat (8 * m - 1)"
    using assms(2) by (intro power_increasing; simp)+
  show ?thesis
  proof (cases "signed c")
    case True
    with assms(1) have "- (2 ^ nat (8 * size_bytes c - 1)) \<le> x" "x < 2 ^ nat (8 * size_bytes c - 1)"
      by (simp_all add: in_class_def)
    with p(2) have "- (2 ^ nat (8 * m - 1)) \<le> x" "x < 2 ^ nat (8 * m - 1)" by linarith+
    with True show ?thesis by (simp add: in_class_def)
  next
    case False
    with assms(1) have "0 \<le> x" "x < 2 ^ nat (8 * size_bytes c)" by (simp_all add: in_class_def)
    with p(1) have "0 \<le> x" "x < 2 ^ nat (8 * m)" by linarith+
    with False show ?thesis by (simp add: in_class_def)
  qed
qed

lemma product_bound:
  assumes "\<bar>x\<bar> \<le> a" and "\<bar>y\<bar> \<le> (b::int)"
  shows "\<bar>x * y\<bar> \<le> a * b"
  unfolding abs_mult using assms by (intro mult_mono) auto

lemma class_product:
  assumes m: "m = 1 \<or> m = 2 \<or> m = (4::int)"
    and x: "in_class \<lparr>signed = s, size_bytes = m\<rparr> x" and y: "in_class \<lparr>signed = t, size_bytes = m\<rparr> y"
  shows "in_class \<lparr>signed = (s \<or> t), size_bytes = m * 2\<rparr> (x * y)"
proof -
  have b: "\<bar>z\<bar> \<le> (if u then 2 ^ nat (8 * m - 1) else 2 ^ nat (8 * m) - 1) \<and> (\<not> u \<longrightarrow> 0 \<le> z)"
    if "in_class \<lparr>signed = u, size_bytes = m\<rparr> z" for u z
    using that by (cases u) (auto simp: in_class_def)
  from b [OF x] b [OF y] have p: "\<bar>x * y\<bar> \<le>
      (if s then 2 ^ nat (8 * m - 1) else 2 ^ nat (8 * m) - 1) * (if t then 2 ^ nat (8 * m - 1) else 2 ^ nat (8 * m) - 1)"
    by (intro product_bound) auto
  have "\<not> s \<Longrightarrow> \<not> t \<Longrightarrow> 0 \<le> x * y" using b [OF x] b [OF y] by simp
  with p m show ?thesis
    by (cases s; cases t) (auto simp: in_class_def abs_le_iff)
qed

lemma class_sum:
  assumes m: "m = 1 \<or> m = 2 \<or> m = (4::int)"
    and x: "in_class \<lparr>signed = s, size_bytes = m\<rparr> x" and y: "in_class \<lparr>signed = t, size_bytes = m\<rparr> y"
  shows "in_class \<lparr>signed = (s \<or> t), size_bytes = m * 2\<rparr> (x + y)"
    and "in_class \<lparr>signed = True, size_bytes = m * 2\<rparr> (x - y)"
  using m x y by (cases s; cases t; auto simp: in_class_def)+

text \<open>The remainder of ClickHouse and Go: the sign of the dividend.\<close>

definition trunc_rem :: "int \<Rightarrow> int \<Rightarrow> int" where
  "trunc_rem x y = (if x < 0 then - (\<bar>x\<bar> mod \<bar>y\<bar>) else \<bar>x\<bar> mod \<bar>y\<bar>)"

definition apply_operator :: "string \<Rightarrow> int \<Rightarrow> int \<Rightarrow> int" where
  "apply_operator op x y =
     (if op = ''+'' then x + y else if op = ''-'' then x - y else if op = ''*'' then x * y else trunc_rem x y)"

definition narrow_class :: "arithmeticIntegerClass \<Rightarrow> bool" where
  "narrow_class c \<longleftrightarrow> size_bytes c = 1 \<or> size_bytes c = 2 \<or> size_bytes c = 4"

lemma integer_class_sound:
  assumes c: "arithmetic_integer_class op a b = Some c" and op: "op \<in> {''+'', ''-'', ''*''}"
    and n: "narrow_class a" "narrow_class b" and x: "in_class a x" and y: "in_class b y"
  shows "in_class c (apply_operator op x y)"
proof -
  let ?m = "max (size_bytes a) (size_bytes b)"
  have m: "?m = 1 \<or> ?m = 2 \<or> ?m = 4" using n by (auto simp: narrow_class_def max_def)
  then have p: "promotedArithmeticSize ?m = ?m * 2" by (auto simp: promotedArithmeticSize_def)
  have w: "in_class \<lparr>signed = signed a, size_bytes = ?m\<rparr> x" "in_class \<lparr>signed = signed b, size_bytes = ?m\<rparr> y"
    using in_class_widen [OF x] in_class_widen [OF y] by simp_all
  from op c p have "c = \<lparr>signed = (if op = ''-'' then True else signed a \<or> signed b), size_bytes = ?m * 2\<rparr>"
    by (auto simp: arithmetic_integer_class_def)
  with op class_product [OF m w] class_sum [OF m w] show ?thesis by (auto simp: apply_operator_def)
qed

lemma rem_bounds:
  assumes "y \<noteq> 0"
  shows "\<bar>trunc_rem x y\<bar> < \<bar>y\<bar>" and "\<bar>trunc_rem x y\<bar> \<le> \<bar>x\<bar>" and "0 \<le> x \<Longrightarrow> 0 \<le> trunc_rem x y"
    and "x < 0 \<Longrightarrow> trunc_rem x y \<le> 0"
  using assms by (auto simp: trunc_rem_def abs_mod_less zmod_le_nonneg_dividend)


lemma remainder_class_sound:
  assumes c: "arithmetic_integer_class ''%'' a b = Some c"
    and n: "1 \<le> size_bytes a" "1 \<le> size_bytes b" and x: "in_class a x" and y: "in_class b y" and y0: "y \<noteq> 0"
    and ok: "signed a \<longrightarrow> size_bytes b < 8 \<or> signed b \<or> size_bytes a \<le> size_bytes b"
  shows "in_class c (trunc_rem x y)"
proof -
  have half: "(2::int) ^ nat (8 * n - 1) * 2 = 2 ^ nat (8 * n)" if "1 \<le> n" for n :: int
  proof -
    have "nat (8 * n) = Suc (nat (8 * n - 1))" using that by simp
    then show ?thesis by simp
  qed
  have yb: "\<bar>y\<bar> \<le> (if signed b then 2 ^ nat (8 * size_bytes b - 1) else 2 ^ nat (8 * size_bytes b) - 1)"
    using y by (auto simp: in_class_def split: if_splits)
  have pos: "(0::int) < 2 ^ nat (8 * size_bytes b - 1)" by simp
  show ?thesis
  proof (cases "signed a")
    case False
    then have "0 \<le> x" using x by (simp add: in_class_def)
    then have "0 \<le> trunc_rem x y" "trunc_rem x y < 2 ^ nat (8 * size_bytes b)"
      using rem_bounds [OF y0, of x] yb half [OF n(2)] pos by (auto split: if_splits)
    with False c show ?thesis by (auto simp: arithmetic_integer_class_def in_class_def)
  next
    case True
    then have c': "c = \<lparr>signed = True, size_bytes = promotedArithmeticSize (size_bytes b)\<rparr>"
      using c by (simp add: arithmetic_integer_class_def)
    show ?thesis
    proof (cases "size_bytes b < 8")
      case small: True
      have "(2::int) ^ nat (8 * size_bytes b) \<le> 2 ^ nat (8 * (size_bytes b * 2) - 1)"
        using n(2) by (intro power_increasing) auto
      moreover have "\<bar>y\<bar> \<le> 2 ^ nat (8 * size_bytes b)"
        using yb half [OF n(2)] pos by (auto split: if_splits)
      ultimately have "\<bar>trunc_rem x y\<bar> < 2 ^ nat (8 * (size_bytes b * 2) - 1)"
        using rem_bounds(1) [OF y0, of x] by linarith
      with small show ?thesis by (auto simp: c' in_class_def promotedArithmeticSize_def abs_less_iff)
    next
      case False
      then have p: "promotedArithmeticSize (size_bytes b) = size_bytes b" by (simp add: promotedArithmeticSize_def)
      show ?thesis
      proof (cases "signed b")
        case True
        then show ?thesis
          using rem_bounds(1) [OF y0, of x] yb by (auto simp: c' p in_class_def)
      next
        case ub: False
        with ok True False have "size_bytes a \<le> size_bytes b" by simp
        with in_class_widen [OF x] True have "in_class \<lparr>signed = True, size_bytes = size_bytes b\<rparr> x" by simp
        then show ?thesis
          using rem_bounds(2-4) [OF y0, of x] by (cases "x < 0") (auto simp: c' p in_class_def)
      qed
    qed
  qed
qed

section \<open>From classes to types\<close>

lemma class_of_name:
  "size_bytes c \<in> {1, 2, 4, 8, 16, 32} \<Longrightarrow> arithmeticIntegerClassOf (ty0 (class_name c)) = Some c"
proof -
  have "\<forall>c \<in> set (map fst arithmeticIntegerTypeNames). arithmeticIntegerClassOf (ty0 (class_name c)) = Some c" by code_simp
  moreover assume "size_bytes c \<in> {1, 2, 4, 8, 16, 32}"
  then have "c \<in> set (map fst arithmeticIntegerTypeNames)"
    by (cases c; cases "signed c") (auto simp: arithmeticIntegerTypeNames_def)
  ultimately show ?thesis by blast
qed

lemma class_of_wf:
  assumes "arithmeticIntegerClassOf t = Some c"
  shows "size_bytes c \<in> {1, 2, 4, 8, 16, 32}" and "Params t = []" and "\<not> arithmeticDateType t"
    and "\<not> arithmeticDecimalType t" and "\<not> arithmeticFloatType t" and "unwrap_operand t = (t, False)" and "\<not> is_array t"
proof -
  from assms have m: "map_of arithmetic_classes (normalizedName t) = Some c" and p: "Params t = []"
    by (auto simp: arithmeticIntegerClassOf_def split: if_splits)
  from m have mem: "(normalizedName t, c) \<in> set arithmetic_classes" by (rule map_of_SomeD)
  then show "size_bytes c \<in> {1, 2, 4, 8, 16, 32}" by (auto simp: arithmetic_classes_def)
  from mem show "\<not> arithmeticDateType t" "\<not> arithmeticDecimalType t" "\<not> arithmeticFloatType t"
    by (auto simp: arithmetic_classes_def arithmeticDateType_def arithmeticDecimalType_def arithmeticFloatType_def)
  from p show "Params t = []" "unwrap_operand t = (t, False)" "\<not> is_array t"
    by (auto simp: unwrap_operand_def simpleAggregateInnerType_def is_array_def)
qed

lemma infer_integers:
  assumes "arithmeticIntegerClassOf l = Some a" and "arithmeticIntegerClassOf r = Some b"
  shows "inferArithmeticResultType op l r =
    (case arithmetic_integer_rule op a b of None \<Rightarrow> Inl (cannot_infer op l r) | Some t \<Rightarrow> Inr t)"
  using assms class_of_wf [OF assms(1)] class_of_wf [OF assms(2)]
  by (subst inferArithmeticResultType.simps) (simp add: arithmetic_scalar_rule_def split: option.splits)

lemma integer_class_size:
  "arithmetic_integer_class op a b = Some c \<Longrightarrow> size_bytes a \<in> {1, 2, 4, 8, 16, 32} \<Longrightarrow>
   size_bytes b \<in> {1, 2, 4, 8, 16, 32} \<Longrightarrow> size_bytes c \<in> {1, 2, 4, 8, 16, 32}"
  by (auto simp: arithmetic_integer_class_def promotedArithmeticSize_def max_def split: if_splits)

section \<open>Properties\<close>

text \<open>
  C7. For integer operands of at most four bytes the inferred type of a sum, difference or product holds
  the exact result for all operand values: the promotion is wide enough, and no wrap-around occurs.
\<close>

theorem arithmetic_type_holds_exact_result:
  assumes "inferArithmeticResultType op l r = Inr t" and "op \<in> {''+'', ''-'', ''*''}"
    and "arithmeticIntegerClassOf l = Some a" and "arithmeticIntegerClassOf r = Some b"
    and "narrow_class a" and "narrow_class b" and "in_class a x" and "in_class b y"
  shows "\<exists>c. arithmeticIntegerClassOf t = Some c \<and> in_class c (apply_operator op x y)"
proof -
  from assms(2) have "op \<noteq> ''/''" by auto
  with assms(1) obtain c where c: "arithmetic_integer_class op a b = Some c" "t = ty0 (class_name c)"
    by (auto simp: infer_integers [OF assms(3,4)] arithmetic_integer_rule_def split: option.splits)
  have "size_bytes c \<in> {1, 2, 4, 8, 16, 32}"
    using integer_class_size [OF c(1) class_of_wf(1) [OF assms(3)] class_of_wf(1) [OF assms(4)]] .
  with c class_of_name integer_class_sound [OF c(1) assms(2,5-8)] show ?thesis by blast
qed

theorem arithmetic_type_holds_exact_result_witness:
  "\<exists>c. arithmeticIntegerClassOf (ty0 ''Int64'') = Some c \<and> in_class c (4294967295 * (-2147483648))"
proof -
  have i: "inferArithmeticResultType ''*'' (ty0 ''UInt32'') (ty0 ''Int32'') = Inr (ty0 ''Int64'')" by code_simp
  have c: "arithmeticIntegerClassOf (ty0 ''UInt32'') = Some \<lparr>signed = False, size_bytes = 4\<rparr>"
    "arithmeticIntegerClassOf (ty0 ''Int32'') = Some \<lparr>signed = True, size_bytes = 4\<rparr>" by code_simp+
  from arithmetic_type_holds_exact_result [OF i _ c, of 4294967295 "- 2147483648"] show ?thesis
    by (simp add: narrow_class_def in_class_def apply_operator_def)
qed



text \<open>
  Nullability of an operator: a result that is no array is Nullable exactly when one of the operands
  is (through a SimpleAggregateFunction marker too), and an array operation with a Nullable operand is
  refused.
\<close>

definition operand_nullable :: "chtype \<Rightarrow> bool" where
  "operand_nullable t = snd (unwrap_operand t)"

theorem arithmetic_nullable_iff_operand:
  assumes "inferArithmeticResultType op l r = Inr t"
  shows "if is_array (fst (unwrap_operand l)) \<or> is_array (fst (unwrap_operand r))
    then \<not> operand_nullable l \<and> \<not> operand_nullable r \<and> is_array t
    else named t ''nullable'' \<longleftrightarrow> operand_nullable l \<or> operand_nullable r"
proof -
  obtain l' ln r' rn where u: "unwrap_operand l = (l', ln)" "unwrap_operand r = (r', rn)"
    by (cases "unwrap_operand l"; cases "unwrap_operand r")
  show ?thesis
  proof (cases "is_array l' \<or> is_array r'")
    case True
    with assms u show ?thesis
      by (subst (asm) inferArithmeticResultType.simps)
         (auto simp: operand_nullable_def is_array_def Let_def split: if_splits option.splits sum.splits)
  next
    case False
    with assms u obtain s where s: "arithmetic_scalar_rule op l' r' = Some s"
      "t = (if ln \<or> rn then wrapNullable s else s)"
      by (subst (asm) inferArithmeticResultType.simps) (auto split: option.splits)
    then have "scalar_result s" using arithmetic_scalar_rule_result by blast
    with s False u show ?thesis
      by (auto simp: operand_nullable_def scalar_result_def wrapNullable_def)
  qed
qed

theorem arithmetic_nullable_iff_operand_witness:
  "inferArithmeticResultType ''+'' (ty1 ''Nullable'' [ty0 ''Date'']) (ty0 ''UInt8'') = Inr (ty1 ''Nullable'' [ty0 ''Date'']) \<and>
   operand_nullable (ty1 ''Nullable'' [ty0 ''Date''])"
proof -
  have i: "inferArithmeticResultType ''+'' (ty1 ''Nullable'' [ty0 ''Date'']) (ty0 ''UInt8'') = Inr (ty1 ''Nullable'' [ty0 ''Date''])"
    by code_simp
  have a: "\<not> is_array (fst (unwrap_operand (ty1 ''Nullable'' [ty0 ''Date''])))" "\<not> is_array (fst (unwrap_operand (ty0 ''UInt8'')))"
    "\<not> operand_nullable (ty0 ''UInt8'')" by code_simp+
  from arithmetic_nullable_iff_operand [OF i] i a show ?thesis by simp
qed

end
