(* ===== verification/TransportFacts.thy ===== *)
theory TransportFacts
  imports Transport
begin

text \<open>
  What a call does to the wrappers of its arguments: the stack of a type goes back on unchanged
  (\<open>codec\<close>), no transport invents a wrapper, a transparent function acts as the three-argument
  rule of the documentation says, and an aggregate gives no LowCardinality back.
\<close>

section \<open>Taking the stack off and putting it back\<close>

definition marker_inner_low_cardinality :: "chtype \<Rightarrow> bool" where
  "marker_inner_low_cardinality t \<longleftrightarrow>
     (case st_simpleAggregate (snd (splitWrapperStack t)) of None \<Rightarrow> False | Some sa \<Rightarrow> innerLowCardinality sa)"

definition stack_legal :: "chtype \<Rightarrow> bool" where
  "stack_legal t \<longleftrightarrow> wrappers_ok t \<and> \<not> (named t ''lowcardinality'' \<and> marker_inner_low_cardinality t)"

text \<open>A type as its two outer wrappers around a base.\<close>

definition outer_ok :: "chtype \<Rightarrow> chtype \<Rightarrow> bool \<Rightarrow> bool \<Rightarrow> bool" where
  "outer_ok t b n l \<longleftrightarrow>
     \<not> named b ''lowcardinality'' \<and> \<not> named b ''nullable'' \<and> wrappers_ok b \<and> (n \<longrightarrow> canBeInsideNullable b) \<and>
     (let u = (if n then ty1 ''Nullable'' [b] else b) in
      (l \<longrightarrow> \<not> resultRejectsLowCardinality u) \<and> t = (if l then ty1 ''LowCardinality'' [u] else u))"

lemma outer_ok_apply: "outer_ok t b n l \<Longrightarrow> t = applyCHWrappers b n l"
  by (cases n; cases l)
     (simp_all add: outer_ok_def applyCHWrappers_def wrapNullable_def wrapLowCardinality_def Let_def)

lemma nullable_part:
  assumes "wrappers_ok u" "\<not> named u ''lowcardinality''"
  obtains b n where "u = (if n then ty1 ''Nullable'' [b] else b)" "\<not> named b ''lowcardinality''" "\<not> named b ''nullable''"
    "wrappers_ok b" "n \<longrightarrow> canBeInsideNullable b"
proof (cases "named u ''nullable''")
  case True
  with wrappers_ok_root [OF assms(1)] obtain p where "u = ty1 ''Nullable'' [p]" "canBeInsideNullable p"
      "\<not> named p ''nullable''" "\<not> named p ''lowcardinality''"
    by (auto simp: wrapper_node_ok_def elim: nullable_okE)
  with assms(1) that [of True p] show thesis by (auto dest: wrappers_ok_param)
next
  case False
  with assms that [of False u] show thesis by simp
qed

lemma outer_wrappers:
  assumes "wrappers_ok t"
  obtains b n l where "outer_ok t b n l"
proof (cases "named t ''lowcardinality''")
  case True
  with wrappers_ok_root [OF assms] obtain p where p: "t = ty1 ''LowCardinality'' [p]" "\<not> resultRejectsLowCardinality p"
      "\<not> named p ''lowcardinality''"
    by (auto simp: wrapper_node_ok_def elim: low_cardinality_okE)
  then have "wrappers_ok p" using assms by (auto dest: wrappers_ok_param)
  from nullable_part [OF this p(3)] obtain b n where bn: "p = (if n then ty1 ''Nullable'' [b] else b)"
    "\<not> named b ''lowcardinality''" "\<not> named b ''nullable''" "wrappers_ok b" "n \<longrightarrow> canBeInsideNullable b" .
  have "outer_ok t b n True" unfolding outer_ok_def Let_def bn(1) [symmetric] using bn(2-5) p(1,2) by simp
  then show thesis by (rule that)
next
  case False
  from nullable_part [OF assms False] obtain b n where bn: "t = (if n then ty1 ''Nullable'' [b] else b)"
    "\<not> named b ''lowcardinality''" "\<not> named b ''nullable''" "wrappers_ok b" "n \<longrightarrow> canBeInsideNullable b" .
  have "outer_ok t b n False" unfolding outer_ok_def Let_def bn(1) [symmetric] using bn(2-5) by simp
  then show thesis by (rule that)
qed

lemma splitWrapperStack_eq:
  "splitWrapperStack t =
    (let (b, n, l) = splitCHWrappers t in
     if named b ''simpleaggregatefunction'' \<and> length (Params b) = 2 then
       let (inner, inl, ilc) = splitCHWrappers (Params b ! 1) in
       (inner, \<lparr>st_lowCardinality = l \<or> ilc, st_nullable = n \<or> inl, st_outerNullable = n,
          st_simpleAggregate = Some \<lparr>sa_wrapper = b, innerNullable = inl, innerLowCardinality = ilc\<rparr>\<rparr>)
     else (b, \<lparr>st_lowCardinality = l, st_nullable = n, st_outerNullable = n, st_simpleAggregate = None\<rparr>))"
  by (simp add: splitWrapperStack_def splitCHWrappers_def Let_def)

lemma split_outer: "outer_ok t b n l \<Longrightarrow> splitCHWrappers t = (b, n, l)"
  by (cases n; cases l) (simp_all add: outer_ok_def splitCHWrappers_def Let_def)

lemma split_plain:
  assumes "outer_ok t b n l" and "\<not> (named b ''simpleaggregatefunction'' \<and> length (Params b) = 2)"
  shows "splitWrapperStack t =
    (b, \<lparr>st_lowCardinality = l, st_nullable = n, st_outerNullable = n, st_simpleAggregate = None\<rparr>)"
  using assms by (auto simp: splitWrapperStack_eq split_outer)

lemma split_marker:
  assumes "outer_ok t b n l" and "named b ''simpleaggregatefunction'' \<and> length (Params b) = 2"
    and "splitCHWrappers (Params b ! 1) = (inner, inl, ilc)"
  shows "splitWrapperStack t =
     (inner, \<lparr>st_lowCardinality = l \<or> ilc, st_nullable = n \<or> inl, st_outerNullable = n,
        st_simpleAggregate = Some \<lparr>sa_wrapper = b, innerNullable = inl, innerLowCardinality = ilc\<rparr>\<rparr>)"
  using assms by (simp add: splitWrapperStack_eq split_outer)

lemma build_split_stack:
  assumes "stack_legal t"
  shows "applyWrapperStack (fst (splitWrapperStack t)) (snd (splitWrapperStack t)) = t"
proof -
  from assms obtain b n l where o: "outer_ok t b n l" by (auto simp: stack_legal_def elim: outer_wrappers)
  then have t: "t = applyCHWrappers b n l" and wb: "wrappers_ok b"
    by (rule outer_ok_apply) (use o in \<open>simp add: outer_ok_def\<close>)
  show ?thesis
  proof (cases "named b ''simpleaggregatefunction'' \<and> length (Params b) = 2")
    case False
    then have "applyWrapperStack (fst (splitWrapperStack t)) (snd (splitWrapperStack t)) = applyCHWrappers b n l"
      by (simp add: split_plain [OF o False] applyWrapperStack_def applyCHWrappers_def Let_def)
    with t show ?thesis by simp
  next
    case True
    obtain inner inl ilc where s: "splitCHWrappers (Params b ! 1) = (inner, inl, ilc)" by (cases "splitCHWrappers (Params b ! 1)")
    have "wrappers_ok (Params b ! 1)" using wb True by (auto intro: wrappers_ok_param)
    then have r: "applyCHWrappers inner inl ilc = Params b ! 1" using ch_wrappers.build_split s by fastforce
    have "l \<Longrightarrow> named t ''lowcardinality''" using o by (simp add: outer_ok_def Let_def)
    then have "\<not> (l \<and> ilc)"
      using assms by (auto simp: stack_legal_def marker_inner_low_cardinality_def split_marker [OF o True s])
    moreover have "with_params b ((Params b)[1 := applyCHWrappers inner inl ilc]) = b" using r by simp
    ultimately have "applyWrapperStack (fst (splitWrapperStack t)) (snd (splitWrapperStack t)) = applyCHWrappers b n l"
      by (cases l; cases ilc; cases n; cases inl)
        (simp_all add: split_marker [OF o True s] applyWrapperStack_def applyCHWrappers_def Let_def)
    with t show ?thesis by simp
  qed
qed

interpretation stack_codec: codec splitWrapperStack "\<lambda>(b, s). applyWrapperStack b s" stack_legal
  by unfold_locales (simp add: case_prod_beta build_split_stack)

text \<open>
  C14. Taking the wrapper stack off a well-formed type and putting it back gives the type, with the
  Nullable and LowCardinality of a SimpleAggregateFunction marker back inside the marker.
\<close>

theorem wrapper_stack_round_trip:
  assumes "stack_legal t"
  shows "applyWrapperStack (fst (splitWrapperStack t)) (snd (splitWrapperStack t)) = t"
  using stack_codec.build_split [OF assms] by (simp add: case_prod_beta)

theorem wrapper_stack_round_trip_witness:
  "applyWrapperStack (ty0 ''Int64'') (snd (splitWrapperStack
      (ty1 ''Nullable'' [ty1 ''SimpleAggregateFunction'' [ty0 ''max'', ty1 ''Nullable'' [ty0 ''Int64'']]])))
   = ty1 ''Nullable'' [ty1 ''SimpleAggregateFunction'' [ty0 ''max'', ty1 ''Nullable'' [ty0 ''Int64'']]]"
proof -
  let ?t = "ty1 ''Nullable'' [ty1 ''SimpleAggregateFunction'' [ty0 ''max'', ty1 ''Nullable'' [ty0 ''Int64'']]]"
  have l: "stack_legal ?t" and f: "fst (splitWrapperStack ?t) = ty0 ''Int64''" by code_simp+
  from wrapper_stack_round_trip [OF l] f show ?thesis by simp
qed

section \<open>Combining the stacks of the arguments\<close>

lemma find_SomeD: "List.find P xs = Some x \<Longrightarrow> P x \<and> x \<in> set xs"
  by (auto simp: find_Some_iff)

lemma foldl_combine:
  "foldl combine_stack z ss =
     \<lparr>st_lowCardinality = st_lowCardinality z \<or> (\<exists>s \<in> set ss. st_lowCardinality s),
      st_nullable = st_nullable z \<or> (\<exists>s \<in> set ss. st_nullable s),
      st_outerNullable = st_outerNullable z \<or> (\<exists>s \<in> set ss. st_outerNullable s),
      st_simpleAggregate = (if st_simpleAggregate z \<noteq> None then st_simpleAggregate z
        else map_option (\<lambda>s. the (st_simpleAggregate s)) (List.find (\<lambda>s. st_simpleAggregate s \<noteq> None) ss))\<rparr>"
  by (induction ss arbitrary: z) (auto simp: combine_stack_def)

lemma combined_one: "foldl combine_stack zero_stack [s] = s"
  by (cases s) (simp add: combine_stack_def zero_stack_def)



section \<open>Transparent functions\<close>

definition has_low_cardinality :: "chtype \<Rightarrow> bool" where
  "has_low_cardinality t = branchArgumentLowCardinality t"

lemma transparent_fold:
  "foldl (transparent_step d consts) st (enumerate k ts) =
     \<lparr>ts_nullable = ts_nullable st \<or> (\<exists>t \<in> set ts. branchArgumentNullable t \<or> d \<and> isDynamicCHType t),
      ts_count = ts_count st + length (filter branchArgumentLowCardinality ts),
      ts_othersConstant = (ts_othersConstant st \<and>
        (\<forall>i < length ts. branchArgumentLowCardinality (ts ! i) \<or> (k + i < length consts \<and> consts ! (k + i))))\<rparr>"
proof (induction ts arbitrary: st k)
  case Nil
  then show ?case by simp
next
  case (Cons t ts)
  have split: "(\<forall>i < Suc n. P i) \<longleftrightarrow> P 0 \<and> (\<forall>i < n. P (Suc i))" for P n
    by (auto simp: less_Suc_eq_0_disj)
  show ?case
    unfolding enumerate_simps(2) foldl_Cons Cons
    by (auto simp: transparent_step_def Let_def split)
qed

lemma transparentWrapperFlags_eq:
  "transparentWrapperFlags registry name consts ts =
     ((\<exists>t \<in> set ts. branchArgumentNullable t \<or> dynamic_forces_nullable (registry name) \<and> isDynamicCHType t),
      length (filter branchArgumentLowCardinality ts) = 1 \<and>
      (\<forall>i < length ts. branchArgumentLowCardinality (ts ! i) \<or> (i < length consts \<and> consts ! i)))"
  by (simp add: transparentWrapperFlags_def transparent_fold Let_def)



section \<open>Aggregates\<close>

lemma nlc_wrapNullable': "no_low_cardinality t \<Longrightarrow> no_low_cardinality (wrapNullable t)"
  by (simp add: wrapNullable_def no_low_cardinality_def low_cardinality_node_def)

lemma nlc_marker:
  assumes "named w ''simpleaggregatefunction''" "length (Params w) = 2" "no_low_cardinality (Params w ! 0)" "no_low_cardinality i"
  shows "no_low_cardinality (with_params w ((Params w)[Suc 0 := i]))"
proof -
  obtain a b where p: "Params w = [a, b]" using assms(2) by (auto simp: list_of_length_two)
  then show ?thesis
    using assms by (simp add: no_low_cardinality_def all_nodes_iff [of _ "with_params _ _"] low_cardinality_node_def named_def)
qed

lemma split_marker_shape:
  assumes "st_simpleAggregate (snd (splitWrapperStack t)) = Some sa"
  shows "named (sa_wrapper sa) ''simpleaggregatefunction'' \<and> length (Params (sa_wrapper sa)) = 2 \<and>
    innerLowCardinality sa = (named (Params (sa_wrapper sa) ! 1) ''lowcardinality'' \<and> length (Params (Params (sa_wrapper sa) ! 1)) = 1)"
  using assms by (auto simp: splitWrapperStack_def Let_def split: if_splits)

text \<open>
  C36. An aggregate without a transport of its own never gives back LowCardinality, at any depth: neither
  from the type of its rule nor from the first argument's SimpleAggregateFunction marker.
\<close>

theorem aggregate_result_has_no_low_cardinality:
  assumes "\<not> hasFunctionTransportOverride registry name"
    and "applyFunctionWrappers registry result wrapperAggregate name consts argTypes = Some t"
    and "\<forall>sa. st_simpleAggregate (snd (splitWrapperStack (firstArgTypeOrZero argTypes))) = Some sa \<longrightarrow>
           no_low_cardinality (Params (sa_wrapper sa) ! 0)"
  shows "no_low_cardinality t"
proof -
  let ?tr = "zero_transport\<lparr>tr_nullable := wrapperKeep, tr_simpleAggregate := wrapperConditional,
     tr_simpleAggregateWhen := Some aggregateKeepsSimpleAggregateCondition, tr_stripNested := True\<rparr>"
  have tr: "transportForFunction registry name wrapperAggregate = Some ?tr"
    using assms(1) by (auto simp: hasFunctionTransportOverride_def transportForFunction_def transportForClass_def)
  obtain n l where f: "functionWrapperFlags registry wrapperAggregate name consts argTypes = (n, l)" by fastforce
  obtain base st where s: "splitWrapperStack (firstArgTypeOrZero argTypes) = (base, st)" by fastforce
  define m where "m = (if \<not> hasFunctionTransportOverride registry name \<and>
      (argument_constrained (registry name) \<or> fixed_result_rule (registry name)) then None else st_simpleAggregate st)"
  have t: "t = applyWrapperTransport result ?tr
      \<lparr>call_base = base, call_stacks = [\<lparr>st_lowCardinality = l, st_nullable = n, st_outerNullable = False,
         st_simpleAggregate = m\<rparr>], call_argCount = length argTypes\<rparr>"
    using assms(2) by (simp add: applyFunctionWrappers_def functionWrapperTransport_def tr f s m_def)
  have clean: "no_low_cardinality (stripNestedLowCardinality result)"
    by (simp add: strip_nested_eq_deep stripLowCardinalityDeep_clean)
  have mk: "named (sa_wrapper sa) ''simpleaggregatefunction''" "length (Params (sa_wrapper sa)) = 2"
    "no_low_cardinality (Params (sa_wrapper sa) ! 0)" if "m = Some sa" for sa
    using that split_marker_shape [of "firstArgTypeOrZero argTypes" sa] assms(3) s by (auto simp: m_def split: if_splits)
  show ?thesis
    unfolding t
    using clean mk
    by (cases m)
       (auto simp: applyWrapperTransport_def resultStack_def combine_stack_def zero_stack_def
        zero_transport_def keeps_def applyWrapperStack_def Let_def nlc_wrapNullable' nlc_marker)
qed

theorem aggregate_result_has_no_low_cardinality_witness:
  "\<exists>t. applyFunctionWrappers (\<lambda>_. \<lparr>spec_transport = None, argument_constrained = False, fixed_result_rule = False,
       dynamic_forces_nullable = False\<rparr>) (ty1 ''Array'' [ty1 ''LowCardinality'' [ty0 ''String'']]) wrapperAggregate
       ''argmin'' [] [ty1 ''Array'' [ty1 ''LowCardinality'' [ty0 ''String'']], ty1 ''Nullable'' [ty0 ''Int32'']] = Some t
     \<and> no_low_cardinality t"
proof -
  let ?reg = "\<lambda>_ :: string. \<lparr>spec_transport = None, argument_constrained = False, fixed_result_rule = False,
       dynamic_forces_nullable = False\<rparr>"
  let ?args = "[ty1 ''Array'' [ty1 ''LowCardinality'' [ty0 ''String'']], ty1 ''Nullable'' [ty0 ''Int32'']]"
  have n: "\<not> hasFunctionTransportOverride ?reg ''argmin''"
    by (simp add: hasFunctionTransportOverride_def wrapperTransportOverrides_def)
  obtain t where t: "applyFunctionWrappers ?reg (ty1 ''Array'' [ty1 ''LowCardinality'' [ty0 ''String'']]) wrapperAggregate
       ''argmin'' [] ?args = Some t"
    using n by (auto simp: applyFunctionWrappers_def functionWrapperTransport_def transportForFunction_def
        hasFunctionTransportOverride_def transportForClass_def case_prod_beta Let_def)
  have s: "st_simpleAggregate (snd (splitWrapperStack (firstArgTypeOrZero ?args))) = None" by code_simp
  from aggregate_result_has_no_low_cardinality [OF n t] s t show ?thesis by auto
qed

end
