(* ===== verification/GoTypes.thy ===== *)
theory GoTypes
  imports Temporal
begin

text \<open>
  The Go type of a ClickHouse type (\<^verbatim>\<open>gotype.go\<close>), with every refusal as an error value, and
  the exported Go identifier of a name.
\<close>

definition wide_integer_names :: "string set" where
  "wide_integer_names = {''int128'', ''uint128'', ''int256'', ''uint256''}"

fun containsWideInteger :: "chtype \<Rightarrow> bool" where
  "containsWideInteger (CHType n ps ls ns) \<longleftrightarrow>
     normalizedName (CHType n ps ls ns) \<in> wide_integer_names \<or> list_ex containsWideInteger ps"

text \<open>The names answered with one fixed Go type.\<close>

definition scalar_go_types :: "(string \<times> string) list" where
  "scalar_go_types = [
    (''string'', ''string''), (''fixedstring'', ''string''), (''enum8'', ''string''), (''enum16'', ''string''),
    (''uuid'', ''uuid.UUID''), (''ipv4'', ''net.IP''), (''ipv6'', ''net.IP''), (''bool'', ''bool''),
    (''uint8'', ''uint8''), (''uint16'', ''uint16''), (''uint32'', ''uint32''), (''uint64'', ''uint64''),
    (''int8'', ''int8''), (''int16'', ''int16''), (''int32'', ''int32''), (''int64'', ''int64''),
    (''float32'', ''float32''), (''float64'', ''float64''),
    (''decimal'', ''decimal.Decimal''), (''decimal32'', ''decimal.Decimal''), (''decimal64'', ''decimal.Decimal''),
    (''decimal128'', ''decimal.Decimal''), (''decimal256'', ''decimal.Decimal''),
    (''date'', ''time.Time''), (''date32'', ''time.Time''), (''datetime'', ''time.Time''),
    (''datetime64'', ''time.Time'')]"

text \<open>The names refused outright, with the format of the refusal.\<close>

definition refused_go_types :: "(string \<times> string) list" where
  "refused_go_types =
    [(''aggregatefunction'', ''ClickHouse type %s has no Go mapping: clickhouse-go cannot decode an AggregateFunction column; read it with a -Merge combinator or finalizeAggregation''),
     (''tuple'', ''ClickHouse type %s has no Go mapping; this measured refusal keeps named and unnamed Tuple shapes separate, and a Tuple with a wide integer can return nil without an error''),
     (''variant'', ''ClickHouse type %s has a measured refusal: the driver value keeps a runtime alternative that the current generated type model cannot declare''),
     (''dynamic'', ''ClickHouse type %s has a measured refusal: the driver value keeps a runtime type that the current generated type model cannot declare''),
     (''json'', ''ClickHouse type %s has a measured refusal: the driver JSON representation depends on connection settings that generated code does not control''),
     (''enum'', ''ClickHouse type %s has a measured refusal: the Enum alias can resolve to Enum8 or Enum16 from its value set'')]
    @ map (\<lambda>n. (n, ''ClickHouse type %s has a measured refusal: clickhouse-go v2.47.0 can change nil to zero, wrap an out-of-range value, or misformat a text-path Array without an error''))
        [''int128'', ''uint128'', ''int256'', ''uint256'']
    @ map (\<lambda>n. (n, ''ClickHouse type %s has a measured refusal: direct columns use orb values, but ClickHouse removes the Geo alias from expression results''))
        [''point'', ''ring'', ''linestring'', ''polygon'', ''multipolygon'', ''multilinestring'']"

definition star :: string where "star = ''*''"

function goType :: "chtype \<Rightarrow> string result" where
  "goType columnType =
     (let name = normalizedName columnType; ps = Params columnType in
      if name = ''lowcardinality'' then
        (if length ps \<noteq> 1 then Inl (Errorf ''LowCardinality expects one type argument'' []) else goType (hd ps))
      else if name = ''nullable'' then
        (if length ps \<noteq> 1 then Inl (Errorf ''Nullable expects one type argument'' [])
         else bind_res (goType (hd ps)) (\<lambda>inner. Inr (if has_prefix inner star then inner else star @ inner)))
      else if name = ''simpleaggregatefunction'' then
        (if length ps \<noteq> 2
         then Inl (Errorf ''SimpleAggregateFunction expects a function name and a type argument'' [])
         else goType (ps ! 1))
      else if name = ''array'' then
        (if length ps \<noteq> 1 then Inl (Errorf ''Array expects one type argument'' [])
         else bind_res (goType (hd ps)) (\<lambda>inner. Inr (''[]'' @ inner)))
      else if name = ''map'' then
        (if length ps \<noteq> 2 then Inl (Errorf ''Map expects two type arguments'' [])
         else if containsWideInteger (ps ! 0) \<or> containsWideInteger (ps ! 1)
         then Inl (Errorf ''ClickHouse type %s has no Go mapping: clickhouse-go v2.47.0 can panic while it decodes a Map that contains a wide integer'' [to_string columnType])
         else bind_res (goType (ps ! 0)) (\<lambda>key.
              if has_prefix key star then Inl (Errorf ''Map key cannot be Nullable: %s'' [to_string columnType])
              else if key = ''net.IP''
              then Inl (Errorf ''Map key %s has no Go mapping: clickhouse-go cannot decode a Map with an IP key: %s''
                          [to_string (ps ! 0), to_string columnType])
              else bind_res (goType (ps ! 1)) (\<lambda>value. Inr (''map['' @ key @ '']'' @ value))))
      else case map_of scalar_go_types name of
          Some g \<Rightarrow> Inr g
        | None \<Rightarrow> (case map_of refused_go_types name of
              Some format \<Rightarrow> Inl (Errorf format [to_string columnType])
            | None \<Rightarrow> Inl (Errorf ''ClickHouse type %s has no Go mapping'' [to_string columnType])))"
  by pat_completeness auto
termination
  by (relation "measure tsize") (auto intro!: tsize_param intro: hd_in_set nth_mem)

declare goType.simps [simp del]

text \<open>
  \<^verbatim>\<open>exportedIdentifier\<close>: the runs between underscore, dash, space and dot, each with an
  upper-case first letter; \<^verbatim>\<open>id\<close> becomes \<^verbatim>\<open>ID\<close>. ASCII letters, as everywhere.
\<close>

definition upper_char :: "char \<Rightarrow> char" where
  "upper_char c = (let n = (of_char c :: nat) in if 97 \<le> n \<and> n \<le> 122 then char_of (n - 32) else c)"

definition identifier_separator :: "char \<Rightarrow> bool" where
  "identifier_separator c \<longleftrightarrow> c = CHR ''_'' \<or> c = CHR ''-'' \<or> c = CHR '' '' \<or> c = CHR ''.''"

fun fields_func :: "(char \<Rightarrow> bool) \<Rightarrow> string \<Rightarrow> string \<Rightarrow> string list" where
  "fields_func sep acc [] = (if acc = [] then [] else [rev acc])"
| "fields_func sep acc (c # cs) =
     (if sep c then (if acc = [] then fields_func sep [] cs else rev acc # fields_func sep [] cs)
      else fields_func sep (c # acc) cs)"

definition exported_part :: "string \<Rightarrow> string" where
  "exported_part part =
     (if equal_fold part ''id'' then ''ID''
      else case part of [] \<Rightarrow> [] | c # cs \<Rightarrow> upper_char c # cs)"

definition exportedIdentifier :: "string \<Rightarrow> string" where
  "exportedIdentifier name =
     (let result = concat (map exported_part (fields_func identifier_separator [] name))
      in if result = [] then ''Result'' else result)"

end
