(* ===== verification/TemporalFacts.thy ===== *)
theory TemporalFacts
  imports GoTypes
begin

text \<open>
  The generated range guards and scan checks as programs: their statements as a datatype, the
  text of a program, its run on a Go value, and the proofs that the text the generators of
  \<^verbatim>\<open>temporal.go\<close> emit is that of a program that visits every time of the value. The second part
  relates the Go type of \<^verbatim>\<open>gotype.go\<close> to the walk.
\<close>


section \<open>The generated statements as a program\<close>

datatype gexpr = EVar string | EDeref gexpr

datatype gstmt = SIfNotNil gexpr "gstmt list" | SRange string gexpr "gstmt list"
  | SRangeMap string string gexpr "gstmt list" | SRangeKey string gexpr "gstmt list"
  | SDiscard string | SCheck string gexpr

primrec render_expr :: "gexpr \<Rightarrow> string" where
  "render_expr (EVar x) = x"
| "render_expr (EDeref e) = ''(*'' @ render_expr e @ '')''"

text \<open>The text of a statement; \<open>label\<close> and \<open>errReturn\<close> are those of the generator.\<close>

fun render :: "string \<Rightarrow> (string \<Rightarrow> string) \<Rightarrow> string \<Rightarrow> gstmt \<Rightarrow> string list" where
  "render label er ind (SIfNotNil e body) =
     [ind @ ''if '' @ render_expr e @ '' != nil {''] @ concat (map (render label er (ind @ tab)) body) @ [ind @ ''}'']"
| "render label er ind (SRange v e body) =
     [ind @ ''for _, '' @ v @ '' := range '' @ render_expr e @ '' {''] @ concat (map (render label er (ind @ tab)) body) @ [ind @ ''}'']"
| "render label er ind (SRangeMap k v e body) =
     [ind @ ''for '' @ k @ '', '' @ v @ '' := range '' @ render_expr e @ '' {''] @ concat (map (render label er (ind @ tab)) body) @ [ind @ ''}'']"
| "render label er ind (SRangeKey k e body) =
     [ind @ ''for '' @ k @ '' := range '' @ render_expr e @ '' {''] @ concat (map (render label er (ind @ tab)) body) @ [ind @ ''}'']"
| "render label er ind (SDiscard v) = [ind @ ''_ = '' @ v]"
| "render label er ind (SCheck f e) = leaf_lines ind (f @ ''('' @ render_expr e @ '', '' @ go_quote label @ '')'') er"

text \<open>Go values as the checks see them, and the run of a program: the checks it calls, in order.
  \<open>None\<close> is a nil dereference or an operation on a value of another shape.\<close>

datatype gval = GNil | GPtr gval | GTime int | GSlice "gval list" | GMap "(gval \<times> gval) list"

primrec eval :: "(string \<Rightarrow> gval) \<Rightarrow> gexpr \<Rightarrow> gval option" where
  "eval env (EVar x) = Some (env x)"
| "eval env (EDeref e) = (case eval env e of Some (GPtr v) \<Rightarrow> Some v | _ \<Rightarrow> None)"

fun concat_opt :: "'a list option list \<Rightarrow> 'a list option" where
  "concat_opt [] = Some []"
| "concat_opt (None # _) = None"
| "concat_opt (Some xs # rest) = map_option (\<lambda>ys. xs @ ys) (concat_opt rest)"

lemma concat_opt_Some: "(\<And>x. x \<in> set xs \<Longrightarrow> f x = Some (g x)) \<Longrightarrow> concat_opt (map f xs) = Some (concat (map g xs))"
  by (induction xs) auto

fun exec :: "(string \<Rightarrow> gval) \<Rightarrow> gstmt \<Rightarrow> (string \<times> gval) list option" where
  "exec env (SIfNotNil e body) = (case eval env e of
       Some GNil \<Rightarrow> Some []
     | Some (GPtr _) \<Rightarrow> concat_opt (map (exec env) body)
     | _ \<Rightarrow> None)"
| "exec env (SRange v e body) = (case eval env e of
       Some (GSlice xs) \<Rightarrow> concat_opt (map (\<lambda>x. concat_opt (map (exec (env(v := x))) body)) xs)
     | _ \<Rightarrow> None)"
| "exec env (SRangeMap k v e body) = (case eval env e of
       Some (GMap kvs) \<Rightarrow> concat_opt (map (\<lambda>kv. concat_opt (map (exec (env(k := fst kv, v := snd kv))) body)) kvs)
     | _ \<Rightarrow> None)"
| "exec env (SRangeKey k e body) = (case eval env e of
       Some (GMap kvs) \<Rightarrow> concat_opt (map (\<lambda>kv. concat_opt (map (exec (env(k := fst kv))) body)) kvs)
     | _ \<Rightarrow> None)"
| "exec env (SDiscard v) = Some []"
| "exec env (SCheck f e) = (case eval env e of Some (GTime i) \<Rightarrow> Some [(f, GTime i)] | _ \<Rightarrow> None)"

section \<open>Shapes\<close>

text \<open>What \<open>temporalShapeOf\<close> builds: an array has its element, a map a key or a value, a leaf a kind.\<close>

function shape_ok :: "temporalShape \<Rightarrow> bool" where
  "shape_ok s \<longleftrightarrow>
     (if shArray s then (case shElem s of None \<Rightarrow> False | Some e \<Rightarrow> shape_ok e)
      else if isMap s then
        (case shMapKey s of None \<Rightarrow> True | Some k \<Rightarrow> shape_ok k) \<and> (case shMapValue s of None \<Rightarrow> True | Some v \<Rightarrow> shape_ok v)
      else shKind s \<noteq> temporalNone)"
  by pat_completeness auto
termination
  by (relation "measure shape_weight") (auto intro: weight_child shape_sizes)

declare shape_ok.simps [simp del]

lemma shape_ok_set_nullable [simp]: "shape_ok (set_nullable b s) = shape_ok s"
  unfolding shape_ok.simps [of s] shape_ok.simps [of "set_nullable b s"] by (simp add: set_nullable_def isMap_def)

lemma shape_ok_leaf [simp]: "shape_ok (Shape k b False None None None) \<longleftrightarrow> k \<noteq> temporalNone"
  by (simp add: shape_ok.simps isMap_def)

lemma shape_ok_array [simp]: "shape_ok (Shape k b True x y (Some e)) \<longleftrightarrow> shape_ok e"
  by (simp add: shape_ok.simps [of "Shape k b True x y (Some e)"])

lemma shape_ok_map [simp]:
  "k \<noteq> None \<or> v \<noteq> None \<Longrightarrow> shape_ok (Shape x b False k v z) \<longleftrightarrow>
     (\<forall>s. k = Some s \<longrightarrow> shape_ok s) \<and> (\<forall>s. v = Some s \<longrightarrow> shape_ok s)"
  by (auto simp: shape_ok.simps [of "Shape x b False k v z"] isMap_def split: option.splits)

lemma temporalShapeOf_ok: "temporalShapeOf t = Some s \<Longrightarrow> shape_ok s"
proof (induction t arbitrary: s rule: temporalShapeOf.induct)
  case (1 t)
  note prems = "1.prems" [unfolded temporalShapeOf.simps [of t] Let_def]
  let ?n = "normalizedName t"
  consider "?n = ''lowcardinality''" | "?n = ''aggregatefunction''" | "?n = ''nullable''"
    | "?n = ''array''" | "?n = ''map''"
    | "?n \<notin> {''lowcardinality'', ''aggregatefunction'', ''nullable'', ''array'', ''map''}"
    by blast
  then show ?case
  proof cases
    case 1 with prems "1.IH"(1) [OF refl refl] show ?thesis by (simp split: if_split_asm)
  next
    case 2 with prems "1.IH"(2) [OF refl refl] show ?thesis by (simp split: if_split_asm)
  next
    case 3 with prems "1.IH"(3) [OF refl refl] show ?thesis by (auto split: if_split_asm option.split_asm)
  next
    case 4 with prems "1.IH"(4) [OF refl refl] show ?thesis by (auto split: if_split_asm option.split_asm)
  next
    case 5
    with prems have len: "length (Params t) = 2"
      and s: "s = Shape temporalNone False False (temporalShapeOf (Params t ! 0)) (temporalShapeOf (Params t ! 1)) None"
      and some: "temporalShapeOf (Params t ! 0) \<noteq> None \<or> temporalShapeOf (Params t ! 1) \<noteq> None"
      by (simp_all split: if_split_asm)
    have "shape_ok x" if "temporalShapeOf (Params t ! 0) = Some x" for x
      using "1.IH"(5) [OF refl refl _ _ _ _ _ _ that] 5 len by simp
    moreover have "shape_ok x" if "temporalShapeOf (Params t ! 1) = Some x" for x
      using "1.IH"(6) [OF refl refl _ _ _ _ _ _ refl that] 5 len by simp
    ultimately show ?thesis unfolding s using shape_ok_map [OF some] by blast
  next
    case 6 with prems show ?thesis by (auto split: if_split_asm)
  qed
qed

text \<open>The Go values of a shape, and the times inside one with the kind of their column.\<close>

function conforms :: "temporalShape \<Rightarrow> gval \<Rightarrow> bool" where
  "conforms s v \<longleftrightarrow>
     (if shNullable s then (case v of GNil \<Rightarrow> True | GPtr w \<Rightarrow> conforms (set_nullable False s) w | _ \<Rightarrow> False)
      else if shArray s then
        (case v of GSlice xs \<Rightarrow> (case shElem s of None \<Rightarrow> False | Some e \<Rightarrow> list_all (conforms e) xs) | _ \<Rightarrow> False)
      else if isMap s then
        (case v of GMap kvs \<Rightarrow> list_all (\<lambda>kv.
             (case shMapKey s of None \<Rightarrow> True | Some k \<Rightarrow> conforms k (fst kv)) \<and>
             (case shMapValue s of None \<Rightarrow> True | Some e \<Rightarrow> conforms e (snd kv))) kvs
         | _ \<Rightarrow> False)
      else (case v of GTime _ \<Rightarrow> True | _ \<Rightarrow> False))"
  by pat_completeness auto
termination
  by (relation "measure (\<lambda>(s, v). shape_weight s)") (auto intro: weight_nullable weight_child shape_sizes)

declare conforms.simps [simp del]

function times_of :: "temporalShape \<Rightarrow> gval \<Rightarrow> (temporalKind \<times> gval) list" where
  "times_of s v =
     (if shNullable s then (case v of GPtr w \<Rightarrow> times_of (set_nullable False s) w | _ \<Rightarrow> [])
      else if shArray s then
        (case v of GSlice xs \<Rightarrow> (case shElem s of None \<Rightarrow> [] | Some e \<Rightarrow> concat (map (times_of e) xs)) | _ \<Rightarrow> [])
      else if isMap s then
        (case v of GMap kvs \<Rightarrow> concat (map (\<lambda>kv.
             (case shMapKey s of None \<Rightarrow> [] | Some k \<Rightarrow> times_of k (fst kv)) @
             (case shMapValue s of None \<Rightarrow> [] | Some e \<Rightarrow> times_of e (snd kv))) kvs)
         | _ \<Rightarrow> [])
      else [(shKind s, v)])"
  by pat_completeness auto
termination
  by (relation "measure (\<lambda>(s, v). shape_weight s)") (auto intro: weight_nullable weight_child shape_sizes)

declare times_of.simps [simp del]

section \<open>The guard program\<close>

function guard_program :: "temporalShape \<Rightarrow> gexpr \<Rightarrow> nat \<Rightarrow> gstmt list" where
  "guard_program s e depth =
     (let kv = loop_var ''chgenK'' depth; vv = loop_var ''chgenV'' depth in
      if shNullable s then [SIfNotNil e (guard_program (set_nullable False s) (EDeref e) depth)]
      else if shArray s then
        (case shElem s of None \<Rightarrow> [] | Some el \<Rightarrow> [SRange vv e (guard_program el (EVar vv) (depth + 1))])
      else if isMap s then
        (case shMapValue s of
           Some val \<Rightarrow> [SRangeMap kv vv e
             ((case shMapKey s of Some key \<Rightarrow> guard_program key (EVar kv) (depth + 1) | None \<Rightarrow> [SDiscard kv])
              @ guard_program val (EVar vv) (depth + 1))]
         | None \<Rightarrow> (case shMapKey s of None \<Rightarrow> [] | Some key \<Rightarrow> [SRangeKey kv e (guard_program key (EVar kv) (depth + 1))]))
      else [SCheck (guardFunc (shKind s)) e])"
  by pat_completeness auto
termination
  by (relation "measure (\<lambda>(s, _). shape_weight s)") (auto intro: weight_nullable weight_child shape_sizes)

declare guard_program.simps [simp del]

lemma loop_vars_distinct: "loop_var ''chgenK'' d \<noteq> loop_var ''chgenV'' d'"
  by (simp add: loop_var_def)

text \<open>The text the generator emits is the text of this program.\<close>

lemma guard_text:
  assumes "shape_ok s"
  shows "chgenGuardStatements s (render_expr e) label depth ind er
    = Some (concat (map (render label er ind) (guard_program s e depth)))"
  using assms
proof (induction "shape_weight s" arbitrary: s e depth ind rule: less_induct)
  case less
  have IH: "shape_weight c < shape_weight s \<Longrightarrow> shape_ok c \<Longrightarrow>
      chgenGuardStatements c x label d i er = Some (concat (map (render label er i) (guard_program c ex d)))"
    if "x = render_expr ex" for c ex x d i
    using less(1) that by blast
  show ?case
  proof (cases "shNullable s")
    case True
    with less.prems IH [of "''(*'' @ render_expr e @ '')''" "EDeref e" "set_nullable False s" depth "ind @ tab"] weight_nullable [OF True]
    show ?thesis by (subst chgenGuardStatements.simps, subst guard_program.simps) simp
  next
    case nn: False
    show ?thesis
    proof (cases "shArray s")
      case True
      then obtain el where el: "shElem s = Some el" "shape_ok el"
        using less.prems by (subst (asm) shape_ok.simps) (auto split: option.splits)
      with IH [of _ "EVar _" el] weight_child [OF shape_sizes(1) [OF el(1)]] nn True
      show ?thesis by (subst chgenGuardStatements.simps, subst guard_program.simps) (simp add: Let_def)
    next
      case na: False
      show ?thesis
      proof (cases "isMap s")
        case True
        have k: "shape_ok key \<and> shape_weight key < shape_weight s" if "shMapKey s = Some key" for key
          using that less.prems True na weight_child [OF shape_sizes(2) [OF that]]
          by (subst (asm) (1) shape_ok.simps) auto
        have v: "shape_ok val \<and> shape_weight val < shape_weight s" if "shMapValue s = Some val" for val
          using that less.prems True na weight_child [OF shape_sizes(3) [OF that]]
          by (subst (asm) (1) shape_ok.simps) auto
        show ?thesis
          using True na nn k v IH [of _ "EVar _"]
          by (subst chgenGuardStatements.simps, subst guard_program.simps)
             (auto simp: Let_def isMap_def split: option.splits)
      next
        case False
        with na nn show ?thesis
          by (subst chgenGuardStatements.simps, subst guard_program.simps) (simp add: Let_def)
      qed
    qed
  qed
qed


text \<open>Run on a value of the shape, the program calls the guard of each time's kind on each time, in order.\<close>

lemma concat_opt_single [simp]: "concat_opt [x] = x"
  by (cases x) (auto simp: option.map_ident)

lemma concat_opt_append: "concat_opt (xs @ ys) =
    (case concat_opt xs of None \<Rightarrow> None | Some x \<Rightarrow> map_option (\<lambda>y. x @ y) (concat_opt ys))"
  by (cases "concat_opt ys"; induction xs rule: concat_opt.induct) (auto split: option.splits)

abbreviation guard_calls :: "(temporalKind \<times> gval) list \<Rightarrow> (string \<times> gval) list" where
  "guard_calls \<equiv> map (\<lambda>(k, v). (guardFunc k, v))"

lemma guard_run:
  assumes "shape_ok s" "conforms s v" "eval env e = Some v"
  shows "concat_opt (map (exec env) (guard_program s e depth)) = Some (guard_calls (times_of s v))"
  using assms
proof (induction "shape_weight s" arbitrary: s v e env depth rule: less_induct)
  case less
  show ?case
  proof (cases "shNullable s")
    case True
    with less.prems(2) consider "v = GNil" | w where "v = GPtr w" "conforms (set_nullable False s) w"
      by (subst (asm) conforms.simps) (auto split: gval.splits)
    then show ?thesis
    proof cases
      case 1 with True less.prems(3) show ?thesis
        by (subst guard_program.simps, subst times_of.simps) simp
    next
      case 2
      have "concat_opt (map (exec env) (guard_program (set_nullable False s) (EDeref e) depth))
          = Some (guard_calls (times_of (set_nullable False s) w))"
        by (rule less.hyps) (use 2 less.prems weight_nullable [OF True] in auto)
      with 2 True less.prems(3) show ?thesis
        by (subst guard_program.simps, subst times_of.simps) simp
    qed
  next
    case nn: False
    show ?thesis
    proof (cases "shArray s")
      case True
      with nn less.prems obtain el xs where el: "shElem s = Some el" "shape_ok el" and v: "v = GSlice xs" "list_all (conforms el) xs"
        by (auto simp: shape_ok.simps [of s] conforms.simps [of s] split: option.splits gval.splits)
      let ?vv = "loop_var ''chgenV'' depth"
      have step: "concat_opt (map (exec (env(?vv := x))) (guard_program el (EVar ?vv) (depth + 1)))
          = Some (guard_calls (times_of el x))" if "x \<in> set xs" for x
        by (rule less.hyps) (use that v el weight_child [OF shape_sizes(1) [OF el(1)]] in \<open>auto simp: list_all_iff\<close>)
      then have "concat_opt (map (\<lambda>x. concat_opt (map (exec (env(?vv := x))) (guard_program el (EVar ?vv) (depth + 1)))) xs)
          = Some (concat (map (\<lambda>x. guard_calls (times_of el x)) xs))"
        by (rule concat_opt_Some)
      with v el nn True less.prems(3) show ?thesis
        by (subst guard_program.simps, subst times_of.simps) (simp add: Let_def map_concat o_def)
    next
      case na: False
      show ?thesis
      proof (cases "isMap s")
        case True
        let ?kv = "loop_var ''chgenK'' depth" and ?vv = "loop_var ''chgenV'' depth"
        from nn na True less.prems(2) obtain kvs where v: "v = GMap kvs"
          and all: "list_all (\<lambda>kv. (case shMapKey s of None \<Rightarrow> True | Some k \<Rightarrow> conforms k (fst kv)) \<and>
             (case shMapValue s of None \<Rightarrow> True | Some e \<Rightarrow> conforms e (snd kv))) kvs"
          by (simp add: conforms.simps [of s v] split: gval.splits)
        have ck: "conforms k (fst kv)" if "kv \<in> set kvs" "shMapKey s = Some k" for kv k
          using all that by (auto simp: list_all_iff)
        have cv: "conforms x (snd kv)" if "kv \<in> set kvs" "shMapValue s = Some x" for kv x
          using all that by (auto simp: list_all_iff)
        have ok: "shMapKey s = Some k \<Longrightarrow> shape_ok k" "shMapValue s = Some x \<Longrightarrow> shape_ok x" for k x
          using True na less.prems(1) by (auto simp: shape_ok.simps [of s])
        have keys: "concat_opt (map (exec env') (guard_program k (EVar ?kv) d)) = Some (guard_calls (times_of k (fst kv)))"
          if "shMapKey s = Some k" "kv \<in> set kvs" "env' ?kv = fst kv" for k kv env' d
          by (rule less.hyps) (use that ok ck weight_child [OF shape_sizes(2)] in auto)
        have vals: "concat_opt (map (exec env') (guard_program x (EVar ?vv) d)) = Some (guard_calls (times_of x (snd kv)))"
          if "shMapValue s = Some x" "kv \<in> set kvs" "env' ?vv = snd kv" for x kv env' d
          by (rule less.hyps) (use that ok cv weight_child [OF shape_sizes(3)] in auto)
        let ?calls = "\<lambda>kv. guard_calls ((case shMapKey s of None \<Rightarrow> [] | Some k \<Rightarrow> times_of k (fst kv)) @
             (case shMapValue s of None \<Rightarrow> [] | Some e \<Rightarrow> times_of e (snd kv)))"
        have res: "guard_calls (times_of s v) = concat (map ?calls kvs)"
          using nn na True v by (subst times_of.simps) (simp add: map_concat o_def)
        show ?thesis
        proof (cases "shMapValue s")
          case None
          with True obtain k where k: "shMapKey s = Some k" by (auto simp: isMap_def)
          have "concat_opt (map (\<lambda>kv. concat_opt (map (exec (env(?kv := fst kv))) (guard_program k (EVar ?kv) (depth + 1)))) kvs)
             = Some (concat (map ?calls kvs))"
            by (rule concat_opt_Some) (simp add: keys [OF k] None k)
          with None k nn na True v res less.prems(3) show ?thesis
            by (subst guard_program.simps) (simp add: Let_def)
        next
          case (Some x)
          have "concat_opt (map (\<lambda>kv. concat_opt (map (exec (env(?kv := fst kv, ?vv := snd kv)))
              ((case shMapKey s of Some key \<Rightarrow> guard_program key (EVar ?kv) (depth + 1) | None \<Rightarrow> [SDiscard ?kv])
              @ guard_program x (EVar ?vv) (depth + 1)))) kvs)
             = Some (concat (map ?calls kvs))"
            by (rule concat_opt_Some)
               (simp add: keys vals [OF Some] Some concat_opt_append loop_vars_distinct split: option.splits)
          with Some nn na True v res less.prems(3) show ?thesis
            by (subst guard_program.simps) (simp add: Let_def)
        qed
      next
        case False
        with nn na less.prems show ?thesis
          by (subst guard_program.simps, subst times_of.simps)
             (auto simp: conforms.simps [of s] split: gval.splits)
      qed
    qed
  qed
qed




section \<open>The scan-check program\<close>

definition is_datetime64 :: "temporalKind \<Rightarrow> bool" where
  "is_datetime64 k \<longleftrightarrow> k = temporalDateTime64 \<or> k = temporalDateTime64Nano"

definition scan_needed :: "temporalShape option \<Rightarrow> bool" where
  "scan_needed o' = (case o' of None \<Rightarrow> False | Some s \<Rightarrow> shapeNeedsScanCheck s)"

lemma scan_needed_simps [simp]: "scan_needed None = False" "scan_needed (Some s) = shapeNeedsScanCheck s"
  by (simp_all add: scan_needed_def)

function scan_program :: "temporalShape \<Rightarrow> gexpr \<Rightarrow> nat \<Rightarrow> gstmt list" where
  "scan_program s e depth =
     (let kv = loop_var ''chgenK'' depth; vv = loop_var ''chgenV'' depth in
      if \<not> shapeNeedsScanCheck s then []
      else if shNullable s then [SIfNotNil e (scan_program (set_nullable False s) (EDeref e) depth)]
      else if shArray s then
        (case shElem s of None \<Rightarrow> [] | Some el \<Rightarrow> [SRange vv e (scan_program el (EVar vv) (depth + 1))])
      else if isMap s then
        (if scan_needed (shMapValue s) then [SRangeMap kv vv e
             ((case shMapKey s of
                 Some key \<Rightarrow> if shapeNeedsScanCheck key then scan_program key (EVar kv) (depth + 1) else [SDiscard kv]
               | None \<Rightarrow> [SDiscard kv])
              @ (case shMapValue s of None \<Rightarrow> [] | Some val \<Rightarrow> scan_program val (EVar vv) (depth + 1)))]
         else (case shMapKey s of None \<Rightarrow> [] | Some key \<Rightarrow> [SRangeKey kv e (scan_program key (EVar kv) (depth + 1))]))
      else [SCheck ''chgenCheckDateTime64ScanRange'' e])"
  by pat_completeness auto
termination
  by (relation "measure (\<lambda>(s, _). shape_weight s)") (auto intro: weight_nullable weight_child shape_sizes)

declare scan_program.simps [simp del]

lemma shapeNeedsScanCheck_set_nullable [simp]: "shapeNeedsScanCheck (set_nullable b s) = shapeNeedsScanCheck s"
  unfolding shapeNeedsScanCheck.simps [of s] shapeNeedsScanCheck.simps [of "set_nullable b s"]
  by (simp add: set_nullable_def isMap_def)

lemma needs_array: "shArray s \<Longrightarrow> shapeNeedsScanCheck s = scan_needed (shElem s)"
  by (subst shapeNeedsScanCheck.simps) (simp add: scan_needed_def)

lemma needs_map: "\<not> shArray s \<Longrightarrow> isMap s \<Longrightarrow> shapeNeedsScanCheck s \<longleftrightarrow> scan_needed (shMapKey s) \<or> scan_needed (shMapValue s)"
  by (subst shapeNeedsScanCheck.simps) (simp add: scan_needed_def)

lemma needs_leaf: "\<not> shArray s \<Longrightarrow> \<not> isMap s \<Longrightarrow> shapeNeedsScanCheck s = is_datetime64 (shKind s)"
  by (subst shapeNeedsScanCheck.simps) (simp add: is_datetime64_def)

lemmas needs_cases = needs_array needs_map needs_leaf

lemma scan_text:
  assumes "shape_ok s"
  shows "chgenScanCheckStatements s (render_expr e) label depth ind er
    = Some (concat (map (render label er ind) (scan_program s e depth)))"
  using assms
proof (induction "shape_weight s" arbitrary: s e depth ind rule: less_induct)
  case less
  have IH: "shape_weight c < shape_weight s \<Longrightarrow> shape_ok c \<Longrightarrow>
      chgenScanCheckStatements c x label d i er = Some (concat (map (render label er i) (scan_program c ex d)))"
    if "x = render_expr ex" for c ex x d i
    using less(1) that by blast
  show ?case
  proof (cases "shapeNeedsScanCheck s")
    case False
    then show ?thesis by (subst chgenScanCheckStatements.simps, subst scan_program.simps) simp
  next
    case need: True
    show ?thesis
    proof (cases "shNullable s")
      case True
      with need less.prems IH [of "''(*'' @ render_expr e @ '')''" "EDeref e" "set_nullable False s" depth "ind @ tab"] weight_nullable [OF True]
      show ?thesis by (subst chgenScanCheckStatements.simps, subst scan_program.simps) simp
    next
      case nn: False
      show ?thesis
      proof (cases "shArray s")
        case True
        then obtain el where el: "shElem s = Some el" "shape_ok el"
          using less.prems by (subst (asm) shape_ok.simps) (auto split: option.splits)
        with IH [of _ "EVar _" el] weight_child [OF shape_sizes(1) [OF el(1)]] nn need True
        show ?thesis by (subst chgenScanCheckStatements.simps, subst scan_program.simps) (simp add: Let_def)
      next
        case na: False
        show ?thesis
        proof (cases "isMap s")
          case True
          have k: "shape_ok key \<and> shape_weight key < shape_weight s" if "shMapKey s = Some key" for key
            using that less.prems True na weight_child [OF shape_sizes(2) [OF that]]
            by (subst (asm) (1) shape_ok.simps) auto
          have v: "shape_ok val \<and> shape_weight val < shape_weight s" if "shMapValue s = Some val" for val
            using that less.prems True na weight_child [OF shape_sizes(3) [OF that]]
            by (subst (asm) (1) shape_ok.simps) auto
          show ?thesis
            using True na nn need k v IH [of _ "EVar _"]
            by (subst chgenScanCheckStatements.simps, subst scan_program.simps)
               (auto simp: Let_def needs_map split: option.splits)
        next
          case False
          with na nn need show ?thesis
            by (subst chgenScanCheckStatements.simps, subst scan_program.simps) (simp add: Let_def)
        qed
      qed
    qed
  qed
qed

abbreviation times64 :: "temporalShape \<Rightarrow> gval \<Rightarrow> (temporalKind \<times> gval) list" where
  "times64 s v \<equiv> filter (\<lambda>(k, _). is_datetime64 k) (times_of s v)"

lemma filter_concat_Nil: "(\<And>x. x \<in> set xs \<Longrightarrow> filter P (f x) = []) \<Longrightarrow> filter P (concat (map f xs)) = []"
  by (induction xs) auto

lemma filter_concat_map: "filter P (concat (map f xs)) = concat (map (\<lambda>x. filter P (f x)) xs)"
  by (induction xs) auto

lemma times64_Nil: "\<not> shapeNeedsScanCheck s \<Longrightarrow> times64 s v = []"
proof (induction "shape_weight s" arbitrary: s v rule: less_induct)
  case less
  show ?case
  proof (cases "shNullable s")
    case True
    have "times64 (set_nullable False s) w = []" for w
      by (rule less.hyps) (use less.prems weight_nullable [OF True] in auto)
    with True show ?thesis by (subst times_of.simps) (simp split: gval.split)
  next
    case nn: False
    have IH: "times64 c w = []" if "size c < size s" "\<not> shapeNeedsScanCheck c" for c w
      using less.hyps [OF weight_child [OF that(1)] that(2)] .
    show ?thesis
    proof (cases "shArray s")
      case True
      with less.prems nn show ?thesis
        by (subst times_of.simps) (auto simp: needs_array shape_sizes intro!: filter_concat_Nil IH split: gval.split option.split)
    next
      case na: False
      show ?thesis
      proof (cases "isMap s")
        case True
        with less.prems nn na show ?thesis
          by (subst times_of.simps)
             (auto simp: needs_map shape_sizes intro!: filter_concat_Nil IH split: gval.split option.split)
      next
        case False with less.prems nn na show ?thesis
          by (subst times_of.simps) (simp add: needs_leaf)
      qed
    qed
  qed
qed

abbreviation scan_calls :: "(temporalKind \<times> gval) list \<Rightarrow> (string \<times> gval) list" where
  "scan_calls \<equiv> map (\<lambda>(_, v). (''chgenCheckDateTime64ScanRange'', v))"

lemma scan_run:
  assumes "shape_ok s" "conforms s v" "eval env e = Some v"
  shows "concat_opt (map (exec env) (scan_program s e depth)) = Some (scan_calls (times64 s v))"
  using assms
proof (induction "shape_weight s" arbitrary: s v e env depth rule: less_induct)
  case less
  show ?case
  proof (cases "shapeNeedsScanCheck s")
    case False
    then show ?thesis by (subst scan_program.simps) (simp add: times64_Nil)
  next
    case need: True
    show ?thesis
    proof (cases "shNullable s")
      case True
      with less.prems(2) consider "v = GNil" | w where "v = GPtr w" "conforms (set_nullable False s) w"
        by (subst (asm) conforms.simps) (auto split: gval.splits)
      then show ?thesis
      proof cases
        case 1 with True need less.prems(3) show ?thesis
          by (subst scan_program.simps, subst times_of.simps) simp
      next
        case 2
        have "concat_opt (map (exec env) (scan_program (set_nullable False s) (EDeref e) depth))
            = Some (scan_calls (times64 (set_nullable False s) w))"
          by (rule less.hyps) (use 2 less.prems weight_nullable [OF True] in auto)
        with 2 True need less.prems(3) show ?thesis
          by (subst scan_program.simps, subst times_of.simps) simp
      qed
    next
      case nn: False
      show ?thesis
      proof (cases "shArray s")
        case True
        with nn less.prems obtain el xs where el: "shElem s = Some el" "shape_ok el" and v: "v = GSlice xs" "list_all (conforms el) xs"
          by (auto simp: shape_ok.simps [of s] conforms.simps [of s] split: option.splits gval.splits)
        let ?vv = "loop_var ''chgenV'' depth"
        have step: "concat_opt (map (exec (env(?vv := x))) (scan_program el (EVar ?vv) (depth + 1)))
            = Some (scan_calls (times64 el x))" if "x \<in> set xs" for x
          by (rule less.hyps) (use that v el weight_child [OF shape_sizes(1) [OF el(1)]] in \<open>auto simp: list_all_iff\<close>)
        then have "concat_opt (map (\<lambda>x. concat_opt (map (exec (env(?vv := x))) (scan_program el (EVar ?vv) (depth + 1)))) xs)
            = Some (concat (map (\<lambda>x. scan_calls (times64 el x)) xs))"
          by (rule concat_opt_Some)
        with v el nn True need less.prems(3) show ?thesis
          by (subst scan_program.simps, subst times_of.simps) (simp add: Let_def map_concat filter_concat_map o_def)
      next
        case na: False
        show ?thesis
        proof (cases "isMap s")
          case True
          let ?kv = "loop_var ''chgenK'' depth" and ?vv = "loop_var ''chgenV'' depth"
          from nn na True less.prems(2) obtain kvs where v: "v = GMap kvs"
            and all: "list_all (\<lambda>kv. (case shMapKey s of None \<Rightarrow> True | Some k \<Rightarrow> conforms k (fst kv)) \<and>
               (case shMapValue s of None \<Rightarrow> True | Some e \<Rightarrow> conforms e (snd kv))) kvs"
            by (simp add: conforms.simps [of s v] split: gval.splits)
          have ck: "conforms k (fst kv)" if "kv \<in> set kvs" "shMapKey s = Some k" for kv k
            using all that by (auto simp: list_all_iff)
          have cv: "conforms x (snd kv)" if "kv \<in> set kvs" "shMapValue s = Some x" for kv x
            using all that by (auto simp: list_all_iff)
          have ok: "shMapKey s = Some k \<Longrightarrow> shape_ok k" "shMapValue s = Some x \<Longrightarrow> shape_ok x" for k x
            using True na less.prems(1) by (auto simp: shape_ok.simps [of s])
          have keys: "concat_opt (map (exec env') (scan_program k (EVar ?kv) d)) = Some (scan_calls (times64 k (fst kv)))"
            if "shMapKey s = Some k" "kv \<in> set kvs" "env' ?kv = fst kv" for k kv env' d
            by (rule less.hyps) (use that ok ck weight_child [OF shape_sizes(2)] in auto)
          have vals: "concat_opt (map (exec env') (scan_program x (EVar ?vv) d)) = Some (scan_calls (times64 x (snd kv)))"
            if "shMapValue s = Some x" "kv \<in> set kvs" "env' ?vv = snd kv" for x kv env' d
            by (rule less.hyps) (use that ok cv weight_child [OF shape_sizes(3)] in auto)
          let ?calls = "\<lambda>kv. scan_calls ((case shMapKey s of None \<Rightarrow> [] | Some k \<Rightarrow> times64 k (fst kv)) @
               (case shMapValue s of None \<Rightarrow> [] | Some e \<Rightarrow> times64 e (snd kv)))"
          have res: "scan_calls (times64 s v) = concat (map ?calls kvs)"
            using nn na True v
            by (subst times_of.simps, cases "shMapKey s"; cases "shMapValue s") (simp_all add: map_concat filter_concat_map o_def)
          show ?thesis
          proof (cases "scan_needed (shMapValue s)")
            case False
            with True need na obtain k where k: "shMapKey s = Some k" by (auto simp: needs_map scan_needed_def split: option.splits)
            have "concat_opt (map (\<lambda>kv. concat_opt (map (exec (env(?kv := fst kv))) (scan_program k (EVar ?kv) (depth + 1)))) kvs)
               = Some (concat (map ?calls kvs))"
              by (rule concat_opt_Some) (use False in \<open>auto simp: keys [OF k] k times64_Nil split: option.split\<close>)
            with False k nn na True v res need less.prems(3) show ?thesis
              by (subst scan_program.simps) (simp add: Let_def)
          next
            case n: True
            then obtain x where Some: "shMapValue s = Some x" by (cases "shMapValue s") auto
            have "concat_opt (map (\<lambda>kv. concat_opt (map (exec (env(?kv := fst kv, ?vv := snd kv)))
                ((case shMapKey s of
                   Some key \<Rightarrow> if shapeNeedsScanCheck key then scan_program key (EVar ?kv) (depth + 1) else [SDiscard ?kv]
                 | None \<Rightarrow> [SDiscard ?kv])
                @ scan_program x (EVar ?vv) (depth + 1)))) kvs)
               = Some (concat (map ?calls kvs))"
              by (rule concat_opt_Some)
                 (simp add: keys vals [OF Some] Some concat_opt_append loop_vars_distinct times64_Nil split: option.splits)
            with n Some nn na True v res need less.prems(3) show ?thesis
              by (subst scan_program.simps) (simp add: Let_def)
          qed
        next
          case False
          with nn na need less.prems show ?thesis
            by (subst scan_program.simps, subst times_of.simps)
               (auto simp: conforms.simps [of s] needs_leaf split: gval.splits)
        qed
      qed
    qed
  qed
qed


section \<open>The Go type as a tree\<close>

datatype goast = GoNamed string | GoPointer goast | GoSlice goast | GoMap goast goast

primrec print_go :: "goast \<Rightarrow> string" where
  "print_go (GoNamed n) = n"
| "print_go (GoPointer a) = star @ print_go a"
| "print_go (GoSlice a) = ''[]'' @ print_go a"
| "print_go (GoMap k v) = ''map['' @ print_go k @ '']'' @ print_go v"

definition is_pointer :: "goast \<Rightarrow> bool" where
  "is_pointer a \<longleftrightarrow> (case a of GoPointer _ \<Rightarrow> True | _ \<Rightarrow> False)"

lemma is_pointer_simps [simp]: "is_pointer (GoPointer a)" "\<not> is_pointer (GoNamed n)" "\<not> is_pointer (GoSlice a)"
  "\<not> is_pointer (GoMap a b)"
  by (simp_all add: is_pointer_def)

text \<open>A named leaf is one of the table, no pointer points to a pointer, no map key is a pointer or an IP.\<close>

fun go_ok :: "goast \<Rightarrow> bool" where
  "go_ok (GoNamed n) \<longleftrightarrow> n \<in> snd ` set scalar_go_types"
| "go_ok (GoPointer a) \<longleftrightarrow> \<not> is_pointer a \<and> go_ok a"
| "go_ok (GoSlice a) \<longleftrightarrow> go_ok a"
| "go_ok (GoMap k v) \<longleftrightarrow> \<not> is_pointer k \<and> k \<noteq> GoNamed ''net.IP'' \<and> go_ok k \<and> go_ok v"

fun has_time :: "goast \<Rightarrow> bool" where
  "has_time (GoNamed n) \<longleftrightarrow> n = ''time.Time''"
| "has_time (GoPointer a) \<longleftrightarrow> has_time a"
| "has_time (GoSlice a) \<longleftrightarrow> has_time a"
| "has_time (GoMap k v) \<longleftrightarrow> has_time k \<or> has_time v"

text \<open>The walk plan has the structure of the Go type; without a plan the type holds no time.\<close>

function fits :: "goast \<Rightarrow> temporalShape option \<Rightarrow> bool" where
  "fits a None \<longleftrightarrow> \<not> has_time a"
| "fits (GoNamed n) (Some s) \<longleftrightarrow> n = ''time.Time'' \<and> \<not> shNullable s \<and> \<not> shArray s \<and> \<not> isMap s"
| "fits (GoPointer a) (Some s) \<longleftrightarrow> shNullable s \<and> fits a (Some (set_nullable False s))"
| "fits (GoSlice a) (Some s) \<longleftrightarrow> \<not> shNullable s \<and> shArray s \<and> shElem s \<noteq> None \<and> fits a (shElem s)"
| "fits (GoMap k v) (Some s) \<longleftrightarrow> \<not> shNullable s \<and> \<not> shArray s \<and> isMap s \<and> fits k (shMapKey s) \<and> fits v (shMapValue s)"
  by pat_completeness auto
termination
  by (relation "measure (\<lambda>(a, _). size a)") auto

lemma print_go_star: "go_ok a \<Longrightarrow> has_prefix (print_go a) star \<longleftrightarrow> is_pointer a"
  by (cases a) (auto simp: star_def has_prefix_def scalar_go_types_def)

lemma print_go_ip: "go_ok a \<Longrightarrow> print_go a = ''net.IP'' \<longleftrightarrow> a = GoNamed ''net.IP''"
  by (cases a) (auto simp: star_def)

text \<open>
  The types on which the two walks agree: no SimpleAggregateFunction marker.
\<close>

definition no_marker :: "chtype \<Rightarrow> bool" where
  "no_marker t \<longleftrightarrow> all_nodes (\<lambda>u. normalizedName u \<noteq> ''simpleaggregatefunction'') t"

lemma no_marker_param: "no_marker t \<Longrightarrow> p \<in> set (Params t) \<Longrightarrow> no_marker p"
  unfolding no_marker_def by (rule all_nodes_param)

lemma no_marker_root: "no_marker t \<Longrightarrow> normalizedName t \<noteq> ''simpleaggregatefunction''"
  unfolding no_marker_def by (rule all_nodes_root)

lemma scalar_time:
  "map_of scalar_go_types n = Some g \<Longrightarrow> g = ''time.Time'' \<longleftrightarrow> n \<in> {''date'', ''date32'', ''datetime'', ''datetime64''}"
  by (auto simp: scalar_go_types_def split: if_split_asm)

lemma temporalKindOf_none: "temporalKindOf t = temporalNone \<longleftrightarrow> normalizedName t \<notin> {''date'', ''date32'', ''datetime'', ''datetime64''}"
  by (auto simp: temporalKindOf_def Let_def)

lemma fits_set_nullable: "fits a (Some s) \<Longrightarrow> \<not> is_pointer a \<Longrightarrow> \<not> shNullable s \<and> set_nullable False (set_nullable True s) = s"
  by (cases a; cases s) (auto simp: set_nullable_def)

lemma goType_tree:
  "goType t = Inr g \<Longrightarrow> \<exists>a. g = print_go a \<and> go_ok a \<and> (no_marker t \<longrightarrow> fits a (temporalShapeOf t))"
proof (induction t arbitrary: g rule: goType.induct)
  case (1 t)
  let ?n = "normalizedName t"
  note prems = "1.prems" [unfolded goType.simps [of t] Let_def]
  note shape = temporalShapeOf.simps [of t, unfolded Let_def]
  consider "?n = ''lowcardinality''" | "?n = ''nullable''" | "?n = ''simpleaggregatefunction''"
    | "?n = ''array''" | "?n = ''map''"
    | "?n \<notin> {''lowcardinality'', ''nullable'', ''simpleaggregatefunction'', ''array'', ''map''}"
    by blast
  then show ?case
  proof cases
    case c: 1
    with prems have p: "length (Params t) = 1" "goType (hd (Params t)) = Inr g" by (simp_all split: if_split_asm)
    have "hd (Params t) \<in> set (Params t)" using p by (intro hd_in_set) auto
    with "1.IH"(1) [OF refl refl c _ p(2)] p c show ?thesis by (auto simp: shape dest: no_marker_param)
  next
    case c: 2
    with prems have p1: "length (Params t) = 1"
      and r: "bind_res (goType (hd (Params t))) (\<lambda>i. Inr (if has_prefix i star then i else star @ i)) = Inr g"
      by (simp_all del: bind_res_eq_Inr split: if_split_asm)
    from r obtain g' where p: "length (Params t) = 1" "goType (hd (Params t)) = Inr g'"
      and g: "(if has_prefix g' star then g' else star @ g') = g"
      unfolding bind_res_eq_Inr sum.inject using p1 by blast
    obtain a where a: "g' = print_go a" "go_ok a" "no_marker (hd (Params t)) \<longrightarrow> fits a (temporalShapeOf (hd (Params t)))"
      using "1.IH"(2) [OF refl refl _ c _ p(2)] c p by auto
    have h: "hd (Params t) \<in> set (Params t)" using p by (intro hd_in_set) auto
    let ?b = "if is_pointer a then a else GoPointer a"
    have "g = print_go ?b" "go_ok ?b" using a g print_go_star [of a] by auto
    moreover have "fits ?b (temporalShapeOf t)" if "no_marker t"
    proof (cases "temporalShapeOf (hd (Params t))")
      case None with a that h c p show ?thesis by (auto simp: shape dest: no_marker_param)
    next
      case (Some s)
      with a that h have f: "fits a (Some s)" by (auto dest: no_marker_param)
      from Some c p have "temporalShapeOf t = Some (set_nullable True s)" by (simp add: shape)
      with f fits_set_nullable [OF f] show ?thesis
        by (cases a; cases s) (auto simp: set_nullable_def)
    qed
    ultimately show ?thesis by blast
  next
    case c: 3
    with prems have p: "length (Params t) = 2" "goType (Params t ! 1) = Inr g" by (simp_all split: if_split_asm)
    with "1.IH"(3) [OF refl refl _ _ c _ p(2)] c no_marker_root [of t] show ?thesis by auto
  next
    case c: 4
    with prems obtain g' where p: "length (Params t) = 1" "goType (hd (Params t)) = Inr g'"
      and g: "g = ''[]'' @ g'"
      by (auto split: if_split_asm)
    obtain a where a: "g' = print_go a" "go_ok a" "no_marker (hd (Params t)) \<longrightarrow> fits a (temporalShapeOf (hd (Params t)))"
      using "1.IH"(4) [OF refl refl _ _ _ c _ p(2)] c p by auto
    have h: "hd (Params t) \<in> set (Params t)" using p by (intro hd_in_set) auto
    have "g = print_go (GoSlice a)" "go_ok (GoSlice a)" using a g by auto
    moreover have "fits (GoSlice a) (temporalShapeOf t)" if "no_marker t"
      using a(3) no_marker_param [OF that h] c p by (cases "temporalShapeOf (hd (Params t))") (auto simp: shape)
    ultimately show ?thesis by blast
  next
    case c: 5
    with prems obtain k v where p: "length (Params t) = 2" "goType (Params t ! 0) = Inr k" "goType (Params t ! 1) = Inr v"
      and g: "g = ''map['' @ k @ '']'' @ v" and key: "\<not> has_prefix k star" "k \<noteq> ''net.IP''"
      and wide: "\<not> (containsWideInteger (Params t ! 0) \<or> containsWideInteger (Params t ! 1))"
      by (auto split: if_split_asm)
    obtain a where a: "k = print_go a" "go_ok a" "no_marker (Params t ! 0) \<longrightarrow> fits a (temporalShapeOf (Params t ! 0))"
      using "1.IH"(5) [OF refl refl _ _ _ _ c _ wide p(2)] c p by auto
    obtain b where b: "v = print_go b" "go_ok b" "no_marker (Params t ! 1) \<longrightarrow> fits b (temporalShapeOf (Params t ! 1))"
      using "1.IH"(6) [OF refl refl _ _ _ _ c _ wide p(2) key p(3)] c p key by auto
    have h: "Params t ! 0 \<in> set (Params t)" "Params t ! 1 \<in> set (Params t)" using p by (auto intro!: nth_mem)
    have "g = print_go (GoMap a b)" "go_ok (GoMap a b)"
      using a b g key print_go_star [of a] print_go_ip [of a] by auto
    moreover have "fits (GoMap a b) (temporalShapeOf t)" if "no_marker t"
      using a(3) b(3) no_marker_param [OF that h(1)] no_marker_param [OF that h(2)] c p
      by (cases "temporalShapeOf (Params t ! 0)"; cases "temporalShapeOf (Params t ! 1)") (auto simp: shape isMap_def)
    ultimately show ?thesis by blast
  next
    case c: 6
    with prems have g: "map_of scalar_go_types ?n = Some g" by (auto split: option.split_asm)
    have na: "?n \<noteq> ''aggregatefunction''"
      using g by (auto simp: scalar_go_types_def)
    have "g = print_go (GoNamed g)" by simp
    moreover have "go_ok (GoNamed g)" using map_of_SomeD [OF g] by force
    moreover have "fits (GoNamed g) (temporalShapeOf t)"
      using c na scalar_time [OF g] temporalKindOf_none [of t] by (auto simp: shape isMap_def)
    ultimately show ?thesis by blast
  qed
qed


section \<open>Properties\<close>


definition sample_times :: gval where
  "sample_times = GMap [(GTime 5, GSlice [GPtr (GTime 7), GNil]), (GTime 6, GSlice [])]"

definition sample_time_column :: chtype where
  "sample_time_column = ty1 ''Map'' [ty0 ''Date'', ty1 ''Array'' [ty1 ''Nullable'' [tyl ''DateTime64'' [''3'']]]]"

definition sample_time_shape :: temporalShape where
  "sample_time_shape = Shape temporalNone False False (Some (Shape temporalDate False False None None None))
     (Some (Shape temporalNone False True None None (Some (Shape temporalDateTime64 True False None None None)))) None"

lemma sample_time_shape_of: "temporalShapeOf sample_time_column = Some sample_time_shape"
  by code_simp

lemma sample_time_conforms: "conforms sample_time_shape sample_times"
  by code_simp


text \<open>
  C19. The scan checks that \<^verbatim>\<open>chgenScanCheckStatements\<close> emits are the text of a program
  that calls \<^verbatim>\<open>chgenCheckDateTime64ScanRange\<close> on exactly the DateTime64 values inside the scanned
  value, once each and in order, whatever part of the walk \<^verbatim>\<open>shapeNeedsScanCheck\<close> prunes.
\<close>
theorem scan_checks_visit_every_datetime64:
  assumes "temporalShapeOf t = Some s" "conforms s (env x)"
  shows "chgenScanCheckStatements s x label depth ind er
      = Some (concat (map (render label er ind) (scan_program s (EVar x) depth)))
    \<and> concat_opt (map (exec env) (scan_program s (EVar x) depth)) = Some (scan_calls (times64 s (env x)))"
  using scan_text [OF temporalShapeOf_ok [OF assms(1)], of "EVar x"]
    scan_run [OF temporalShapeOf_ok [OF assms(1)] assms(2), of env "EVar x"] by simp

lemma scan_checks_visit_every_datetime64_witness:
  "concat_opt (map (exec (\<lambda>_. sample_times)) (scan_program sample_time_shape (EVar ''v'') 0))
    = Some [(''chgenCheckDateTime64ScanRange'', GTime 7)]"
proof -
  have "scan_calls (times64 sample_time_shape sample_times) = [(''chgenCheckDateTime64ScanRange'', GTime 7)]"
    by code_simp
  with scan_checks_visit_every_datetime64 [OF sample_time_shape_of, of "\<lambda>_. sample_times" "''v''" "[]" 0 "[]" id] sample_time_conforms
  show ?thesis by simp
qed



text \<open>
  For a column of type SimpleAggregateFunction over a date or time, \<^verbatim>\<open>goType\<close> answers the Go
  type of the inner type but \<^verbatim>\<open>temporalShapeOf\<close> answers no walk plan, so neither range guards nor
  scan checks are generated for it.
\<close>
theorem marker_column_has_no_time_walk:
  assumes "length ps = 2"
  shows "goType (ty1 ''SimpleAggregateFunction'' ps) = goType (ps ! 1)
    \<and> temporalShapeOf (ty1 ''SimpleAggregateFunction'' ps) = None"
proof -
  have n: "normalizedName (ty1 ''SimpleAggregateFunction'' ps) = ''simpleaggregatefunction''"
    by (simp add: normalizedName_def, code_simp)
  have p: "Params (ty1 ''SimpleAggregateFunction'' ps) = ps" by simp
  show ?thesis
    unfolding goType.simps [of "ty1 ''SimpleAggregateFunction'' ps"]
      temporalShapeOf.simps [of "ty1 ''SimpleAggregateFunction'' ps"] Let_def n p
    using assms by (simp add: temporalKindOf_def n)
qed

lemma marker_column_has_no_time_walk_witness:
  "goType (ty1 ''SimpleAggregateFunction'' [ty0 ''max'', tyl ''DateTime64'' [''3'']]) = Inr ''time.Time''
    \<and> temporalShapeOf (ty1 ''SimpleAggregateFunction'' [ty0 ''max'', tyl ''DateTime64'' [''3'']]) = None"
proof -
  have "goType (tyl ''DateTime64'' [''3'']) = Inr ''time.Time''" by code_simp
  with marker_column_has_no_time_walk [of "[ty0 ''max'', tyl ''DateTime64'' [''3'']]"] show ?thesis by simp
qed

text \<open>An Array key passes the map-key checks, and a Go slice is no map key.\<close>

lemma array_map_key_accepted:
  "goType (ty1 ''Map'' [ty1 ''Array'' [ty0 ''String''], ty0 ''UInt8'']) = Inr ''map[[]string]uint8''"
  by code_simp

end
