(* ===== verification/Verdicts.thy ===== *)
theory Verdicts
  imports Wrappers
begin

text \<open>
  The measured verdicts about type parameters (\<^verbatim>\<open>parameter_verdict.go\<close>): the family of a
  parametric type, the curated table of one verdict per rule and family, and the gate that every
  generic function result passes. The generated function registry is a parameter.
\<close>

section \<open>Families and verdicts\<close>

datatype parameterVerdict = verdictUnstated | verdictKeep | verdictDrop | verdictRefuse

definition verdict_string :: "parameterVerdict \<Rightarrow> string" where
  "verdict_string v = (case v of
       verdictKeep \<Rightarrow> ''KEEP'' | verdictDrop \<Rightarrow> ''DROP'' | verdictRefuse \<Rightarrow> ''REFUSE''
     | verdictUnstated \<Rightarrow> ''UNSTATED'')"

datatype parameterResultPolicy = parameterResultUnknown | parameterResultCurated | parameterResultLattice

datatype parameterFamily =
    familyDateTimeTimezone | familyDateTime64Params | familyDecimalPrecisionScale
  | familyFixedStringLength | familyEnumTags | familyArrayElement | familyMapKeyValue
  | familyTupleElements | familyAggregateFunctionInner | familyLowCardinalityInner
  | familyNullableInner | unnamedFamily string

definition family_string :: "parameterFamily \<Rightarrow> string" where
  "family_string f = (case f of
       familyDateTimeTimezone \<Rightarrow> ''DateTime.timezone''
     | familyDateTime64Params \<Rightarrow> ''DateTime64.precision+timezone''
     | familyDecimalPrecisionScale \<Rightarrow> ''Decimal.precision+scale''
     | familyFixedStringLength \<Rightarrow> ''FixedString.length''
     | familyEnumTags \<Rightarrow> ''Enum.tags''
     | familyArrayElement \<Rightarrow> ''Array.element''
     | familyMapKeyValue \<Rightarrow> ''Map.key+value''
     | familyTupleElements \<Rightarrow> ''Tuple.elements''
     | familyAggregateFunctionInner \<Rightarrow> ''AggregateFunction.inner''
     | familyLowCardinalityInner \<Rightarrow> ''LowCardinality.inner''
     | familyNullableInner \<Rightarrow> ''Nullable.inner''
     | unnamedFamily n \<Rightarrow> ''unnamed:'' @ n)"

definition parameterFamilyOf :: "chtype \<Rightarrow> parameterFamily option" where
  "parameterFamilyOf value =
     (if Params value = [] \<and> LiteralParams value = [] then None
      else let n = to_lower (Name value) in
        Some (if n = ''datetime'' then familyDateTimeTimezone
         else if n = ''datetime64'' then familyDateTime64Params
         else if n \<in> {''decimal'', ''decimal32'', ''decimal64'', ''decimal128'', ''decimal256''}
           then familyDecimalPrecisionScale
         else if n = ''fixedstring'' then familyFixedStringLength
         else if n \<in> {''enum'', ''enum8'', ''enum16''} then familyEnumTags
         else if n = ''array'' then familyArrayElement
         else if n = ''map'' then familyMapKeyValue
         else if n = ''tuple'' then familyTupleElements
         else if n \<in> {''aggregatefunction'', ''simpleaggregatefunction''} then familyAggregateFunctionInner
         else if n = ''lowcardinality'' then familyLowCardinalityInner
         else if n = ''nullable'' then familyNullableInner
         else unnamedFamily n))"

section \<open>The curated table\<close>

definition valuePreservingKeepFamilies :: "parameterFamily list" where
  "valuePreservingKeepFamilies = [familyDateTimeTimezone, familyDateTime64Params,
     familyDecimalPrecisionScale, familyFixedStringLength, familyEnumTags, familyArrayElement,
     familyMapKeyValue, familyTupleElements, familyAggregateFunctionInner]"

definition valuePreservingRuleNames :: "string list" where
  "valuePreservingRuleNames = [
     ''argmax'', ''argmin'', ''max'', ''min'', ''any'', ''anylast'',
     ''maxif'', ''minif'', ''argmaxif'', ''argminif'', ''arraysort'', ''arrayslice'', ''arrayresize'',
     ''first_value'', ''last_value'', ''laginframe'', ''leadinframe'', ''lag'', ''lead'', ''nth_value'',
     ''first_value_respect_nulls'', ''firstvaluerespectnulls'', ''last_value_respect_nulls'',
     ''lastvaluerespectnulls'']"

definition unwrapKeepRuleNames :: "string list" where
  "unwrapKeepRuleNames = [''assumenotnull'', ''nullif'', ''arrayelement'', ''mapkeys'', ''mapvalues'',
     ''arraydistinct'', ''tuple'']"

definition aggregateStateKeepRuleNames :: "string list" where
  "aggregateStateKeepRuleNames = [''quantilestate'', ''quantilestateif'']"

definition quantileMedianKeepRuleNames :: "string list" where
  "quantileMedianKeepRuleNames = [''quantile'', ''quantileif'', ''median'', ''medianif'']"

definition sumKeepRuleNames :: "string list" where
  "sumKeepRuleNames = [''sum'', ''sumif'']"

definition absNegateKeepRuleNames :: "string list" where
  "absNegateKeepRuleNames = [''abs'', ''negate'']"

type_synonym verdict_row = "(string \<times> parameterFamily) \<times> parameterVerdict"

definition rows_of :: "string list \<Rightarrow> parameterFamily list \<Rightarrow> parameterVerdict \<Rightarrow> verdict_row list" where
  "rows_of names families verdict = concat (map (\<lambda>n. map (\<lambda>f. ((n, f), verdict)) families) names)"

text \<open>The assignments to the table in the order they run; a later one wins.\<close>

definition buildParameterVerdicts :: "verdict_row list" where
  "buildParameterVerdicts =
     rows_of valuePreservingRuleNames valuePreservingKeepFamilies verdictKeep
     @ rows_of unwrapKeepRuleNames valuePreservingKeepFamilies verdictKeep
     @ rows_of aggregateStateKeepRuleNames [familyAggregateFunctionInner] verdictKeep
     @ rows_of quantileMedianKeepRuleNames
         [familyDecimalPrecisionScale, familyDateTime64Params, familyDateTimeTimezone] verdictKeep
     @ rows_of sumKeepRuleNames [familyDecimalPrecisionScale] verdictKeep
     @ rows_of absNegateKeepRuleNames [familyDecimalPrecisionScale] verdictKeep
     @ rows_of [''lower'', ''upper''] [familyFixedStringLength] verdictKeep
     @ rows_of [''round'', ''roundbankers'', ''floor'', ''ceil'', ''trunc'', ''sumwithoverflow'']
         [familyDecimalPrecisionScale] verdictKeep
     @ rows_of [''reverse''] [familyFixedStringLength, familyArrayElement, familyTupleElements] verdictKeep
     @ [((''assumenotnull'', familyLowCardinalityInner), verdictKeep),
        ((''tuple'', familyLowCardinalityInner), verdictKeep),
        ((''mapkeys'', familyLowCardinalityInner), verdictDrop),
        ((''mapvalues'', familyLowCardinalityInner), verdictDrop),
        ((''arrayelement'', familyNullableInner), verdictKeep)]
     @ rows_of [''grouparray'', ''grouparrayif'', ''grouparraysorted'', ''grouparraysorteddistinct'',
         ''grouparraysorteddistinctif''] [familyArrayElement] verdictKeep
     @ concat (map (\<lambda>name.
         [((name, familyArrayElement), verdictKeep), ((name, familyDateTimeTimezone), verdictDrop),
          ((name, familyDateTime64Params), verdictKeep), ((name, familyDecimalPrecisionScale), verdictKeep),
          ((name, familyEnumTags), verdictKeep), ((name, familyFixedStringLength), verdictKeep),
          ((name, familyAggregateFunctionInner), verdictKeep), ((name, familyMapKeyValue), verdictKeep),
          ((name, familyTupleElements), verdictKeep)]) [''groupuniqarray'', ''groupuniqarrayif''])"

definition parameterVerdictFor :: "string \<Rightarrow> parameterFamily \<Rightarrow> parameterVerdict" where
  "parameterVerdictFor rule family =
     (case map_of (rev buildParameterVerdicts) (to_lower rule, family) of
        None \<Rightarrow> verdictUnstated | Some v \<Rightarrow> v)"

definition ruleHasAnyVerdict :: "string \<Rightarrow> bool" where
  "ruleHasAnyVerdict rule \<longleftrightarrow> list_ex (\<lambda>row. fst (fst row) = to_lower rule) buildParameterVerdicts"

section \<open>The gate\<close>

definition pinTypeHint :: string where
  "pinTypeHint = ''use a supported expression or add a measured type rule; -- result: changes Go mapping, not ClickHouse type inference''"

definition applyParameterVerdictStrict :: "string \<Rightarrow> chtype \<Rightarrow> chtype result" where
  "applyParameterVerdictStrict rule result =
     (case parameterFamilyOf result of
        None \<Rightarrow> Inr result
      | Some family \<Rightarrow> (case parameterVerdictFor rule family of
            verdictKeep \<Rightarrow> Inr result
          | verdictDrop \<Rightarrow> Inr (ty0 (Name result))
          | _ \<Rightarrow> Inl (Errorf ''function %s gives a %s result, and no measured verdict says what happens to its %s parameter; %s''
                    [rule, Name result, family_string family, pinTypeHint])))"

text \<open>\<open>policy\<close> is the parameter policy of a name in the function registry, \<open>None\<close> for no entry.\<close>

definition applyParameterVerdict ::
    "(string \<Rightarrow> parameterResultPolicy option) \<Rightarrow> string \<Rightarrow> chtype \<Rightarrow> chtype result" where
  "applyParameterVerdict policy rule result =
     (if parameterFamilyOf result = None then Inr result
      else if ruleHasAnyVerdict rule then applyParameterVerdictStrict rule result
      else if policy (to_lower rule) = Some parameterResultLattice then Inr result
      else Inl (Errorf ''function %s gives a parametric result, but its parameter policy is unknown; %s''
             [rule, pinTypeHint]))"

section \<open>Which cells of the table a rule can reach\<close>

definition allParameterFamilies :: "parameterFamily list" where
  "allParameterFamilies = [familyDateTimeTimezone, familyDateTime64Params, familyDecimalPrecisionScale,
     familyFixedStringLength, familyEnumTags, familyArrayElement, familyMapKeyValue, familyTupleElements,
     familyAggregateFunctionInner, familyLowCardinalityInner]"

text \<open>The cells with no verdict, in no particular order (the code sorts their texts).\<close>

definition unverifiedParameterCells :: "(string \<times> parameterFamily) list" where
  "unverifiedParameterCells =
     concat (map (\<lambda>rule. map (\<lambda>f. (rule, f)) (filter (\<lambda>f. parameterVerdictFor rule f = verdictUnstated) allParameterFamilies))
       (remdups (map (\<lambda>row. fst (fst row)) buildParameterVerdicts)))"

definition familyProbeArguments :: "(parameterFamily \<times> chtype) list" where
  "familyProbeArguments = [
     (familyDateTimeTimezone, tyl ''DateTime'' [[char_of (39 :: nat)] @ ''UTC'' @ [char_of (39 :: nat)]]),
     (familyDateTime64Params, tyl ''DateTime64'' [''3'', [char_of (39 :: nat)] @ ''UTC'' @ [char_of (39 :: nat)]]),
     (familyDecimalPrecisionScale, tyl ''Decimal'' [''18'', ''4'']),
     (familyFixedStringLength, tyl ''FixedString'' [''8'']),
     (familyEnumTags, tyl ''Enum8'' [[char_of (39 :: nat)] @ ''a'' @ [char_of (39 :: nat)] @ '' = 1'',
        [char_of (39 :: nat)] @ ''b'' @ [char_of (39 :: nat)] @ '' = 2'']),
     (familyArrayElement, ty1 ''Array'' [ty0 ''Int32'']),
     (familyMapKeyValue, ty1 ''Map'' [ty0 ''String'', ty0 ''Int32'']),
     (familyTupleElements, ty1 ''Tuple'' [ty0 ''Int32'', ty0 ''String'']),
     (familyAggregateFunctionInner, ty1 ''AggregateFunction'' [ty0 ''uniq'', ty0 ''UInt64'']),
     (familyLowCardinalityInner, ty1 ''LowCardinality'' [ty0 ''String''])]"

definition probeDomainInput :: "chtype \<Rightarrow> chtype" where
  "probeDomainInput probe =
     (if named probe ''lowcardinality'' \<and> length (Params probe) = 1 then hd (Params probe)
      else if named probe ''nullable'' \<and> length (Params probe) = 1 then hd (Params probe)
      else probe)"

text \<open>The fields of a registry entry that the probe reads; a nil rule or domain is \<open>None\<close>.\<close>

record rule_spec =
  spec_rule :: "(chtype list \<Rightarrow> chtype result) option"
  spec_domain :: "(chtype \<Rightarrow> bool) option"
  spec_aggregate :: bool

definition ruleCanReachFamily :: "(string \<Rightarrow> rule_spec option) \<Rightarrow> string \<Rightarrow> parameterFamily \<Rightarrow> bool" where
  "ruleCanReachFamily registry rule family =
     (case registry (to_lower rule) of
        None \<Rightarrow> False
      | Some spec \<Rightarrow> (case spec_rule spec of
          None \<Rightarrow> False
        | Some f \<Rightarrow> (case map_of familyProbeArguments family of
            None \<Rightarrow> False
          | Some probe \<Rightarrow>
              (if (case spec_domain spec of None \<Rightarrow> False | Some accepts \<Rightarrow> \<not> accepts (probeDomainInput probe)) then False
               else if family = familyLowCardinalityInner \<and> spec_aggregate spec then False
               else case f [probe] of
                   Inl _ \<Rightarrow> False
                 | Inr result \<Rightarrow> parameterFamilyOf result = Some family))))"

definition reachableUnverifiedParameterCells :: "(string \<Rightarrow> rule_spec option) \<Rightarrow> (string \<times> parameterFamily) list" where
  "reachableUnverifiedParameterCells registry =
     filter (\<lambda>(rule, family). ruleCanReachFamily registry rule family) unverifiedParameterCells"

end
