(* ===== verification/Containers.thy ===== *)
theory Containers
  imports Supertype Verdicts
begin

text \<open>
  The container constructors and readers of \<^verbatim>\<open>supertype.go\<close>: the member type of an array or a
  map, with the LowCardinality wrappers that every member carries put back at each depth, the result
  types of array, map, tuple, groupArray, groupUniqArray, arrayElement, mapKeys and mapValues, and
  the dispatch between the three supertype entry points.
\<close>

section \<open>The member type\<close>

text \<open>
  The parameters of the members at one position of a result with the given name and arity; the
  empty list when a member has another shape.
\<close>

definition member_position :: "string \<Rightarrow> nat \<Rightarrow> nat \<Rightarrow> chtype list \<Rightarrow> chtype list" where
  "member_position name arity index members =
     (if list_all (\<lambda>m. equal_fold (Name (unwrapLowCardinality m)) name
                     \<and> length (Params (unwrapLowCardinality m)) = arity) members
      then map (\<lambda>m. Params (unwrapLowCardinality m) ! index) members
      else [])"

definition all_low_cardinality :: "chtype list \<Rightarrow> bool" where
  "all_low_cardinality members = list_all (\<lambda>m. named m ''lowcardinality'' \<and> length (Params m) = 1) members"

function restoreContainerMemberLowCardinality :: "chtype \<Rightarrow> chtype list \<Rightarrow> chtype" where
  "restoreContainerMemberLowCardinality result members =
     (if Params result = [] then result
      else with_params result (map (\<lambda>index.
        let position = member_position (Name result) (length (Params result)) index members in
        if position = [] then Params result ! index
        else let nested = restoreContainerMemberLowCardinality (Params result ! index)
                            (map unwrapLowCardinality position)
             in if all_low_cardinality position then wrapLowCardinality nested else nested)
        [0..<length (Params result)]))"
  by pat_completeness auto
termination
  by (relation "measure (\<lambda>(t, _). tsize t)") (auto intro!: tsize_param)

declare restoreContainerMemberLowCardinality.simps [simp del]

definition commonContainerMemberCHType :: "chtype list \<Rightarrow> chtype result" where
  "commonContainerMemberCHType members =
     (if members = [] then Inl (Errorf ''cannot infer the member type from no expressions'' [])
      else let inner = map unwrapLowCardinality members in
        bind_res (commonCHTypes inner) (\<lambda>result0.
          let result = restoreContainerMemberLowCardinality result0 inner in
          Inr (if all_low_cardinality members then wrapLowCardinality result else result)))"

section \<open>Constructors\<close>

definition arrayFunctionResult :: "chtype list \<Rightarrow> chtype result" where
  "arrayFunctionResult args =
     (if args = [] then Inl (Errorf ''array function has no arguments'' [])
      else case commonContainerMemberCHType args of
        Inl err \<Rightarrow> Inl (Wrapf ''array constructor: %w'' [] err)
      | Inr element \<Rightarrow> Inr (ty1 ''Array'' [element]))"

definition at_parity :: "bool \<Rightarrow> 'a list \<Rightarrow> 'a list" where
  "at_parity odds xs = map (\<lambda>i. xs ! i) (filter (\<lambda>i. odd i = odds) [0..<length xs])"

definition mapFunctionResult :: "chtype list \<Rightarrow> chtype result" where
  "mapFunctionResult args =
     (if args = [] then Inl (Errorf ''map constructor with no arguments has the element type Nothing, which chgen cannot map to a Go type'' [])
      else if odd (length args)
      then Inl (Errorf ''map constructor requires an even number of arguments, but %d were given'' [itoa (int (length args))])
      else case commonContainerMemberCHType (at_parity False args) of
        Inl err \<Rightarrow> Inl (Wrapf ''map constructor key: %w'' [] err)
      | Inr key \<Rightarrow>
          (if named (unwrapLowCardinality key) ''nullable''
           then Inl (Errorf ''map cannot have a key of type %s'' [to_string key])
           else case commonContainerMemberCHType (at_parity True args) of
               Inl err \<Rightarrow> Inl (Wrapf ''map constructor value: %w'' [] err)
             | Inr value \<Rightarrow> Inr (ty1 ''Map'' [key, value])))"

definition tupleFunctionResult :: "chtype list \<Rightarrow> chtype result" where
  "tupleFunctionResult args =
     (if args = [] then Inl (Errorf ''tuple function has no arguments'' []) else Inr (ty1 ''Tuple'' args))"

definition groupArrayElementType :: "chtype list \<Rightarrow> chtype result" where
  "groupArrayElementType args =
     (if args = [] then Inl (Errorf ''array function has no arguments'' [])
      else Inr (stripNestedLowCardinality (base_of (readSimpleAggregateValue (hd args)))))"

definition groupArrayFunctionResult :: "chtype list \<Rightarrow> chtype result" where
  "groupArrayFunctionResult args =
     bind_res (groupArrayElementType args) (\<lambda>element. Inr (ty1 ''Array'' [element]))"

definition groupUniqArrayFunctionResult :: "chtype list \<Rightarrow> chtype result" where
  "groupUniqArrayFunctionResult args =
     bind_res (groupArrayElementType args) (\<lambda>element.
     bind_res (applyParameterVerdictStrict ''groupuniqarray'' element) (\<lambda>element'. Inr (ty1 ''Array'' [element'])))"

section \<open>Readers\<close>

definition arrayElementFunctionResult :: "chtype list \<Rightarrow> chtype result" where
  "arrayElementFunctionResult args =
     (if args = [] then Inl (Errorf ''arrayElement has no arguments'' [])
      else if named (hd args) ''array'' \<and> length (Params (hd args)) = 1 then
        (let result = stripNestedLowCardinality (hd (Params (hd args))) in
         if length args > 1 \<and> nullable_of (args ! 1) then
           (if \<not> canBeInsideNullable result
            then Inl (Errorf ''arrayElement cannot put %s inside Nullable for a nullable index'' [to_string result])
            else Inr (wrapNullable result))
         else Inr result)
      else Inl (Errorf ''arrayElement expects an Array argument'' []))"

definition mapKeysFunctionResult :: "chtype list \<Rightarrow> chtype result" where
  "mapKeysFunctionResult args =
     (if args = [] then Inl (Errorf ''mapKeys has no arguments'' [])
      else if named (hd args) ''map'' \<and> length (Params (hd args)) = 2
      then Inr (ty1 ''Array'' [Params (hd args) ! 0])
      else Inl (Errorf ''mapKeys expects a Map argument'' []))"

definition mapValuesFunctionResult :: "chtype list \<Rightarrow> chtype result" where
  "mapValuesFunctionResult args =
     (if args = [] then Inl (Errorf ''mapValues has no arguments'' [])
      else if named (hd args) ''map'' \<and> length (Params (hd args)) = 2
      then Inr (ty1 ''Array'' [Params (hd args) ! 1])
      else Inl (Errorf ''mapValues expects a Map argument'' []))"

section \<open>The dispatch between the lattices\<close>

text \<open>\<open>unnamedLattice\<close> stands for every value outside the enum; the dispatcher panics on it.\<close>

datatype supertypeLattice = branchLattice | containerMemberLattice | greatestLeastLattice | unnamedLattice int

definition lattice_string :: "supertypeLattice \<Rightarrow> string" where
  "lattice_string lattice = (case lattice of
       branchLattice \<Rightarrow> ''branchLattice'' | containerMemberLattice \<Rightarrow> ''containerMemberLattice''
     | greatestLeastLattice \<Rightarrow> ''greatestLeastLattice''
     | unnamedLattice i \<Rightarrow> ''supertypeLattice('' @ itoa i @ '')'')"

definition resolveSupertypeLattice :: "supertypeLattice \<Rightarrow> string \<Rightarrow> chtype list \<Rightarrow> chtype result option" where
  "resolveSupertypeLattice lattice functionName types = (case lattice of
       branchLattice \<Rightarrow> Some (commonCHTypes types)
     | containerMemberLattice \<Rightarrow> Some (commonContainerMemberCHType types)
     | greatestLeastLattice \<Rightarrow> Some (greatestLeastCommonCHTypes functionName types)
     | unnamedLattice _ \<Rightarrow> None)"

section \<open>CASE and BETWEEN\<close>

text \<open>
  The result of inferring one sub-expression: its type, the error of an untyped query parameter
  (which a condition ignores), or another error.
\<close>

datatype inferred = Typed chtype | PlaceholderError error | OtherError error

definition inferred_result :: "inferred \<Rightarrow> chtype result" where
  "inferred_result r = (case r of Typed t \<Rightarrow> Inr t | PlaceholderError e \<Rightarrow> Inl e | OtherError e \<Rightarrow> Inl e)"

definition checked_condition :: "string \<Rightarrow> inferred option \<Rightarrow> unit result" where
  "checked_condition label condition = (case condition of
       Some (OtherError err) \<Rightarrow> Inl (Wrapf label [] err)
     | _ \<Rightarrow> Inr ())"

text \<open>
  A CASE expression as its parts with their inferred types: the operand, the WHEN and THEN of each
  branch (nil is \<open>None\<close>), the ELSE. THEN and ELSE also give the literal that narrowing reads.
\<close>

type_synonym case_branch = "inferred option \<times> (inferred \<times> lit_expr) option"

definition case_branch_type :: "case_branch \<Rightarrow> (chtype \<times> lit_expr) result" where
  "case_branch_type branch = (case snd branch of
       None \<Rightarrow> Inl (Errorf ''CASE branch has no THEN value'' [])
     | Some (thenType, thenExpr) \<Rightarrow>
         bind_res (checked_condition ''CASE WHEN condition: %w'' (fst branch)) (\<lambda>_.
           case inferred_result thenType of
             Inl err \<Rightarrow> Inl (Wrapf ''CASE THEN branch: %w'' [] err)
           | Inr t \<Rightarrow> Inr (t, thenExpr)))"

definition inferCaseExprType ::
    "inferred option \<Rightarrow> case_branch list \<Rightarrow> (inferred \<times> lit_expr) option \<Rightarrow> chtype result" where
  "inferCaseExprType operand whens els =
     (if whens = [] then Inl (Errorf ''CASE expression has no WHEN branch'' [])
      else bind_res (checked_condition ''CASE operand: %w'' operand) (\<lambda>_.
        bind_res (map_res case_branch_type whens) (\<lambda>branches.
        bind_res (case els of
            None \<Rightarrow> Inr branches
          | Some (elseType, elseExpr) \<Rightarrow> (case inferred_result elseType of
                Inl err \<Rightarrow> Inl (Wrapf ''CASE ELSE branch: %w'' [] err)
              | Inr t \<Rightarrow> Inr (branches @ [(t, elseExpr)]))) (\<lambda>all.
        bind_res (commonBranchCHType (map fst all) (map snd all)) (\<lambda>result.
          Inr (applyCHWrappers (base_of result) (nullable_of result \<or> els = None) False))))))"

definition inferBetweenType :: "inferred option list \<Rightarrow> chtype result" where
  "inferBetweenType operands =
     bind_res (fold_res (\<lambda>operand nullable. case operand of
         None \<Rightarrow> Inl (Errorf ''BETWEEN is missing an operand'' [])
       | Some r \<Rightarrow> (case inferred_result r of
             Inl err \<Rightarrow> Inl (Wrapf ''BETWEEN operand: %w'' [] err)
           | Inr t \<Rightarrow> Inr (nullable \<or> nullable_of t))) operands False)
       (\<lambda>nullable. Inr (applyCHWrappers (ty0 ''UInt8'') nullable False))"

end
