(* ===== verification/ContainerFacts.thy ===== *)
theory ContainerFacts
  imports Containers Values
begin

text \<open>
  What the container constructors promise: the constructor rule only adds LowCardinality to the
  branch type, a constructed array or map holds its members, reading an element back gives the
  branch type, and members of one type keep it.
\<close>

section \<open>The constructor rule only adds LowCardinality\<close>

lemma strip_with_params:
  assumes "length ps = length (Params r)"
    and "\<And>i. i < length ps \<Longrightarrow> stripLowCardinalityDeep (ps ! i) = stripLowCardinalityDeep (Params r ! i)"
  shows "stripLowCardinalityDeep (with_params r ps) = stripLowCardinalityDeep r"
proof (cases "low_cardinality_node r")
  case True
  with assms have l: "low_cardinality_node (with_params r ps)" by (simp add: low_cardinality_node_def)
  from True assms have "stripLowCardinalityDeep (hd ps) = stripLowCardinalityDeep (hd (Params r))"
    by (cases ps; cases "Params r") (auto simp: low_cardinality_node_def dest: assms(2) [of 0])
  with True l show ?thesis by (simp add: stripLowCardinalityDeep_LC)
next
  case False
  with assms have "\<not> low_cardinality_node (with_params r ps)" by (simp add: low_cardinality_node_def)
  with False have u: "unwrapLowCardinality r = r" "unwrapLowCardinality (with_params r ps) = with_params r ps"
    by (simp_all add: unwrapLowCardinality_id)
  have "map stripLowCardinalityDeep ps = map stripLowCardinalityDeep (Params r)"
    using assms by (intro nth_equalityI) auto
  with u assms(1) show ?thesis
    by (subst (1 2) stripLowCardinalityDeep.simps) (cases r, auto simp: Let_def with_params_def)
qed

lemma strip_wrapLowCardinality [simp]:
  "stripLowCardinalityDeep (wrapLowCardinality t) = stripLowCardinalityDeep t"
  by (simp add: wrapLowCardinality_def stripLowCardinalityDeep_LC low_cardinality_node_def named_def)

lemma strip_restore: "stripLowCardinalityDeep (restoreContainerMemberLowCardinality r ms) = stripLowCardinalityDeep r"
proof (induction r ms rule: restoreContainerMemberLowCardinality.induct)
  case (1 r ms)
  show ?case
  proof (cases "Params r = []")
    case True
    then show ?thesis by (subst restoreContainerMemberLowCardinality.simps) simp
  next
    case False
    show ?thesis
      by (subst restoreContainerMemberLowCardinality.simps, simp only: False if_False, rule strip_with_params)
         (auto simp: Let_def False intro!: "1.IH" [OF _ _ refl])
  qed
qed

lemma low_cardinality_restore [simp]:
  "low_cardinality_node (restoreContainerMemberLowCardinality r ms) = low_cardinality_node r"
  by (subst restoreContainerMemberLowCardinality.simps) (simp add: low_cardinality_node_def)

lemma container_memberE:
  assumes "commonContainerMemberCHType ms = Inr r"
  obtains c where "ms \<noteq> []" "commonCHTypes (map unwrapLowCardinality ms) = Inr c"
    "stripLowCardinalityDeep r = stripLowCardinalityDeep c"
    "r = (if all_low_cardinality ms
          then wrapLowCardinality (restoreContainerMemberLowCardinality c (map unwrapLowCardinality ms))
          else restoreContainerMemberLowCardinality c (map unwrapLowCardinality ms))"
  using assms that unfolding commonContainerMemberCHType_def
  by (auto simp: Let_def strip_restore split: if_splits)

lemma strip_unwrap [simp]: "stripLowCardinalityDeep (unwrapLowCardinality t) = stripLowCardinalityDeep t"
  by (subst (1 2) stripLowCardinalityDeep.simps) (simp add: unwrapLowCardinality_id unwrapLowCardinality_not_LC)

lemma branch_carrier_unwrap [simp]: "branch_carrier (unwrapLowCardinality t) = branch_carrier t"
  by (simp add: branch_carrier_def)

lemma has_value_unwrap: "has_value (unwrapLowCardinality t) v = has_value t v"
  by (metis has_value_strip strip_unwrap)

text \<open>Every value of every member is a value of the member type.\<close>

lemma container_member_value:
  assumes "commonContainerMemberCHType ms = Inr r" "\<forall>m \<in> set ms. branch_carrier m" "m \<in> set ms" "has_value m v"
  shows "has_value r v"
proof -
  from assms(1) obtain c where c: "commonCHTypes (map unwrapLowCardinality ms) = Inr c"
    "stripLowCardinalityDeep r = stripLowCardinalityDeep c" by (elim container_memberE)
  have "has_value c v"
    by (rule branches_keep_values [OF c(1), of "unwrapLowCardinality m"])
       (use assms in \<open>auto simp: has_value_unwrap\<close>)
  with c(2) show ?thesis by (metis has_value_strip)
qed


section \<open>Members of one type\<close>

lemma commonCHType_strip:
  "commonCHType (stripLowCardinalityDeep l) r = commonCHType l r" "commonCHType l (stripLowCardinalityDeep r) = commonCHType l r"
  by (simp_all add: commonCHType_unfold [of "stripLowCardinalityDeep l"] commonCHType_unfold [of l]
      commonCHType_unfold [of l "stripLowCardinalityDeep r"])

lemma filter_replicate: "filter P (replicate n x) = (if P x then replicate n x else [])"
  by (induction n) auto

lemma order_replicate: "order_branches (replicate n t) = replicate n t"
  by (auto simp: order_branches_def filter_replicate branch_priority_def Let_def)

lemma those_replicate: "those (replicate n x) = (case x of None \<Rightarrow> if n = 0 then Some [] else None | Some y \<Rightarrow> Some (replicate n y))"
  by (induction n) (auto split: option.splits)

lemma mixed_replicate: "mixedSignIntegerCHTypes (replicate n t) = None"
  by (cases "n = 0") (auto simp: mixedSignIntegerCHTypes_def those_replicate filter_replicate Let_def split: option.splits)

lemma fold_common_replicate:
  assumes "all_nodes spelled_node (stripLowCardinalityDeep t)"
  shows "fold_res (\<lambda>x result. commonCHType result x) (replicate n t) (stripLowCardinalityDeep t)
    = Inr (stripLowCardinalityDeep t)"
proof (induction n)
  case (Suc n)
  have "commonCHType (stripLowCardinalityDeep t) t = Inr (stripLowCardinalityDeep t)"
    using common_self [OF assms] by (simp add: commonCHType_strip)
  with Suc show ?case by simp
qed simp

text \<open>A type that is no date with a time and no marker, spelled as the type parser leaves it.\<close>

definition plain_member :: "chtype \<Rightarrow> bool" where
  "plain_member t \<longleftrightarrow> wrappers_ok t \<and> all_nodes spelled_node (stripLowCardinalityDeep t)
     \<and> dateTimeBranch (base_of (stripLowCardinalityDeep t)) = None
     \<and> simpleAggregateWrapperInner (unwrapLowCardinality t) = None"

lemma common_replicate:
  assumes "plain_member t"
  shows "commonCHTypes (replicate (Suc n) (unwrapLowCardinality t)) = Inr (stripLowCardinalityDeep t)"
proof -
  let ?u = "unwrapLowCardinality t"
  have d: "dateTimeTimezoneCHTypes (replicate (Suc n) ?u) = None"
    using assms by (simp add: dateTimeTimezoneCHTypes_def plain_member_def base_of_def Let_def)
  have "fold_res (\<lambda>x result. commonCHType result x) (replicate n ?u) (stripLowCardinalityDeep ?u)
    = Inr (stripLowCardinalityDeep ?u)"
    using assms by (intro fold_common_replicate) (simp add: plain_member_def)
  with assms d mixed_replicate [of "Suc n" ?u] order_replicate [of "Suc n" ?u] show ?thesis
    by (simp add: commonCHTypes_def plain_member_def)
qed

lemma all_low_cardinality_replicate: "all_low_cardinality (replicate (Suc n) t) = low_cardinality_node t"
  by (auto simp: all_low_cardinality_def low_cardinality_node_def list_all_iff)

lemma wrapped_nodeE:
  assumes "wrappers_ok t" "low_cardinality_node t"
  obtains p where "t = ty1 ''LowCardinality'' [p]" "\<not> resultRejectsLowCardinality p" "\<not> named p ''lowcardinality''"
    "unwrapLowCardinality t = p"
proof -
  have "wrapper_node_ok t" using assms(1) unfolding wrappers_ok_def by (rule all_nodes_root)
  with assms(2) have "low_cardinality_ok t" by (simp add: wrapper_node_ok_def low_cardinality_node_def)
  then obtain p where p: "t = ty1 ''LowCardinality'' [p]" "\<not> resultRejectsLowCardinality p" "\<not> named p ''lowcardinality''"
    by (rule low_cardinality_okE)
  have "unwrapLowCardinality t = p"
    using p unwrapLowCardinality_id [of p] by (subst unwrapLowCardinality.simps) (simp add: low_cardinality_node_def named_def)
  with p that show thesis by blast
qed

lemma wrap_unwrap:
  assumes "wrappers_ok t"
  shows "(if low_cardinality_node t then wrapLowCardinality (unwrapLowCardinality t) else unwrapLowCardinality t) = t"
  using assms by (cases "low_cardinality_node t")
    (auto simp: unwrapLowCardinality_id wrapLowCardinality_def elim: wrapped_nodeE)

lemma wrappers_ok_unwrap: "wrappers_ok t \<Longrightarrow> wrappers_ok (unwrapLowCardinality t)"
proof (cases "low_cardinality_node t")
  case True
  assume ok: "wrappers_ok t"
  from ok True obtain p where "t = ty1 ''LowCardinality'' [p]" "unwrapLowCardinality t = p" by (rule wrapped_nodeE)
  with wrappers_ok_param [OF ok, of p] show ?thesis by simp
qed (simp add: unwrapLowCardinality_id)

lemma restore_replicate:
  "wrappers_ok t \<Longrightarrow> \<not> low_cardinality_node t \<Longrightarrow>
   restoreContainerMemberLowCardinality (stripLowCardinalityDeep t) (replicate (Suc n) t) = t"
proof (induction "tsize t" arbitrary: t rule: less_induct)
  case less
  have u: "unwrapLowCardinality t = t" using less.prems by (simp add: unwrapLowCardinality_id)
  have s: "stripLowCardinalityDeep t = with_params t (map stripLowCardinalityDeep (Params t))"
    using u by (subst stripLowCardinalityDeep.simps) (auto simp: Let_def with_params_def intro: chtype.expand)
  show ?case
  proof (cases "Params t = []")
    case True
    with s show ?thesis by (subst restoreContainerMemberLowCardinality.simps) (simp add: with_params_def, cases t, simp)
  next
    case False
    let ?r = "stripLowCardinalityDeep t"
    have len: "length (Params ?r) = length (Params t)" and name: "Name ?r = Name t" using s by simp_all
    have pos: "member_position (Name ?r) (length (Params ?r)) i (replicate (Suc n) t) = replicate (Suc n) (Params t ! i)" for i
      by (simp add: member_position_def u len name list_all_iff equal_fold_def)
    have elem: "(let position = member_position (Name ?r) (length (Params ?r)) i (replicate (Suc n) t) in
        if position = [] then Params ?r ! i
        else let nested = restoreContainerMemberLowCardinality (Params ?r ! i) (map unwrapLowCardinality position)
             in if all_low_cardinality position then wrapLowCardinality nested else nested) = Params t ! i"
      if "i < length (Params t)" for i
    proof -
      let ?p = "Params t ! i"
      have mem: "?p \<in> set (Params t)" using that by simp
      have ok: "wrappers_ok ?p" using less.prems(1) mem by (rule wrappers_ok_param)
      have "tsize (unwrapLowCardinality ?p) < tsize t"
        by (rule le_less_trans [OF tsize_unwrapLowCardinality tsize_param]) (rule mem)
      then have "restoreContainerMemberLowCardinality (stripLowCardinalityDeep (unwrapLowCardinality ?p))
          (replicate (Suc n) (unwrapLowCardinality ?p)) = unwrapLowCardinality ?p"
        by (intro less.hyps wrappers_ok_unwrap ok) (simp_all add: unwrapLowCardinality_not_LC)
      moreover have "Params ?r ! i = stripLowCardinalityDeep ?p" using s that by simp
      ultimately show ?thesis
        using wrap_unwrap [OF ok] all_low_cardinality_replicate [of n ?p] unfolding pos Let_def
        by (simp add: map_replicate_const del: replicate_Suc split: if_splits)
    qed
    have "map (\<lambda>i. let position = member_position (Name ?r) (length (Params ?r)) i (replicate (Suc n) t) in
        if position = [] then Params ?r ! i
        else let nested = restoreContainerMemberLowCardinality (Params ?r ! i) (map unwrapLowCardinality position)
             in if all_low_cardinality position then wrapLowCardinality nested else nested) [0..<length (Params ?r)]
       = map (\<lambda>i. Params t ! i) [0..<length (Params t)]"
      by (rule map_cong) (simp only: len, rule elem, simp only: len set_upt atLeastLessThan_iff)
    then have "restoreContainerMemberLowCardinality ?r (replicate (Suc n) t) = with_params ?r (Params t)"
      using False len by (subst restoreContainerMemberLowCardinality.simps) (auto simp add: map_nth simp del: replicate_Suc)
    then show ?thesis by (simp add: s with_params_def del: replicate_Suc) 
  qed
qed

section \<open>Properties\<close>

lemma commonCHTypes_no_wrapper:
  assumes "commonCHTypes ts = Inr c" "\<forall>b \<in> set ts. branch_carrier b"
  shows "no_low_cardinality c"
proof -
  have ne: "ts \<noteq> []" using assms(1) by (auto simp: commonCHTypes_def)
  have wr: "no_low_cardinality (applyCHWrappers x n False)" if "Params x = []" "\<not> named x ''nullable''" for x n
    using that by (auto simp: no_low_cardinality_def applyCHWrappers_def wrapNullable_def all_nodes_iff [of _ x]
        low_cardinality_node_def named_def)
  consider x n where "mixedSignIntegerCHTypes ts = Some (x, n)"
    | x n where "mixedSignIntegerCHTypes ts = None" "dateTimeTimezoneCHTypes ts = Some (x, n)"
    | "mixedSignIntegerCHTypes ts = None" "dateTimeTimezoneCHTypes ts = None"
    by (cases "mixedSignIntegerCHTypes ts"; cases "dateTimeTimezoneCHTypes ts") auto
  then show ?thesis
  proof cases
    case (1 x n)
    then obtain y where y: "x = Inr y" "c = applyCHWrappers y n False"
      using assms(1) ne by (cases x) (auto simp: commonCHTypes_def)
    from 1 y have m: "mixedSignIntegerCHTypes ts = Some (Inr y, n)" by simp
    from m obtain w where "y = ty0 (numericTypeName Signed w)" by (elim mixedSign_SomeE) auto
    with y wr [of y n] show ?thesis by (simp add: numericTypeName_def named_def)
  next
    case (2 x n)
    then have "Params x = []" "\<not> named x ''nullable''"
      unfolding dateTimeTimezoneCHTypes_def Let_def by (auto simp: named_def split: option.splits if_splits)
    with wr [of x n] 2 assms(1) ne show ?thesis by (simp add: commonCHTypes_def)
  next
    case 3
    obtain h tl where o: "order_branches ts = h # tl"
      using ne set_order_branches [of ts] by (cases "order_branches ts") auto
    have f: "fold_res (\<lambda>t result. commonCHType result t) tl (stripLowCardinalityDeep h) = Inr c"
      using assms 3 ne o marker_free [OF assms(2) ne] by (simp add: commonCHTypes_def Let_def)
    show ?thesis
      by (rule fold_res_invariant [OF f, where P = no_low_cardinality])
         (auto simp: stripLowCardinalityDeep_clean dest: common_no_low_cardinality)
  qed
qed



text \<open>
  The map constructor types a map that holds its entries: keys from the even argument
  positions, values from the odd ones.
\<close>
theorem map_constructor_holds_its_entries:
  assumes "mapFunctionResult args = Inr t" "\<forall>b \<in> set args. branch_carrier b" "list_all2 has_value args xs"
  shows "has_value t (VMap (zip (at_parity False xs) (at_parity True xs)))"
proof -
  from assms(1) obtain k e where k: "commonContainerMemberCHType (at_parity False args) = Inr k"
    and e: "commonContainerMemberCHType (at_parity True args) = Inr e" and t: "t = ty1 ''Map'' [k, e]"
    by (auto simp: mapFunctionResult_def split: if_splits sum.splits)
  have len: "length args = length xs" using assms(3) by (rule list_all2_lengthD)
  have member: "\<exists>m \<in> set (at_parity p args). has_value m x" if "x \<in> set (at_parity p xs)" for p x
  proof -
    from that obtain i where i: "i < length xs" "odd i = p" "x = xs ! i" by (auto simp: at_parity_def)
    then have "args ! i \<in> set (at_parity p args)" using len by (auto simp: at_parity_def)
    moreover have "has_value (args ! i) x" using assms(3) i len by (simp add: list_all2_conv_all_nth)
    ultimately show ?thesis by blast
  qed
  have sub: "\<forall>m \<in> set (at_parity p args). branch_carrier m" for p
    using assms(2) by (auto simp: at_parity_def)
  have "has_value k (fst kv) \<and> has_value e (snd kv)"
    if "kv \<in> set (zip (at_parity False xs) (at_parity True xs))" for kv
    using that member container_member_value [OF k sub] container_member_value [OF e sub]
    by (metis prod.collapse set_zip_leftD set_zip_rightD)
  then show ?thesis by (simp add: t has_value_Map named_def)
qed

lemma map_constructor_holds_its_entries_witness:
  "\<exists>t. mapFunctionResult [ty0 ''String'', ty0 ''UInt8'', ty1 ''LowCardinality'' [ty0 ''String''], ty0 ''Int16''] = Inr t
     \<and> has_value t (VMap [(VText ''a'', VInt 255), (VText ''b'', VInt (-7))])"
proof -
  let ?a = "[ty0 ''String'', ty0 ''UInt8'', ty1 ''LowCardinality'' [ty0 ''String''], ty0 ''Int16'']"
  have c: "mapFunctionResult ?a = Inr (ty1 ''Map'' [ty0 ''String'', ty0 ''Int16''])" by code_simp
  have ok: "\<forall>b \<in> set ?a. branch_carrier b" by code_simp
  have v: "list_all2 has_value ?a [VText ''a'', VInt 255, VText ''b'', VInt (-7)]" by code_simp
  have z: "zip (at_parity False [VText ''a'', VInt 255, VText ''b'', VInt (-7)])
      (at_parity True [VText ''a'', VInt 255, VText ''b'', VInt (-7)])
    = [(VText ''a'', VInt 255), (VText ''b'', VInt (-7))]" by code_simp
  from map_constructor_holds_its_entries [OF c ok v] c z show ?thesis by simp
qed

text \<open>
  Reading an element back out of a constructed array, with an index that is not nullable, gives
  the common branch type of the arguments: \<^verbatim>\<open>arrayElement\<close> takes off exactly the LowCardinality
  wrappers that the constructor put back.
\<close>
theorem array_element_of_constructed_array:
  assumes "arrayFunctionResult args = Inr t" "\<forall>b \<in> set args. branch_carrier b"
    and "nullable_of index = False"
  shows "arrayElementFunctionResult [t, index] = commonCHTypes (map unwrapLowCardinality args)"
proof -
  from assms(1) obtain e where e: "commonContainerMemberCHType args = Inr e" "t = ty1 ''Array'' [e]"
    by (auto simp: arrayFunctionResult_def split: if_splits sum.splits)
  from e(1) obtain c where c: "commonCHTypes (map unwrapLowCardinality args) = Inr c"
    "stripLowCardinalityDeep e = stripLowCardinalityDeep c" by (elim container_memberE)
  have "stripLowCardinalityDeep c = c"
    using commonCHTypes_no_wrapper [OF c(1)] assms(2) by (intro stripLowCardinalityDeep_id) simp
  with e c assms(3) show ?thesis by (simp add: arrayElementFunctionResult_def strip_nested_eq_deep named_def)
qed

lemma array_element_of_constructed_array_witness:
  "arrayElementFunctionResult [ty1 ''Array'' [ty1 ''LowCardinality'' [ty0 ''String'']], ty0 ''UInt8''] =
     commonCHTypes [ty0 ''String'', ty0 ''String'']"
proof -
  let ?a = "[ty1 ''LowCardinality'' [ty0 ''String''], ty1 ''LowCardinality'' [ty0 ''String'']]"
  have c: "arrayFunctionResult ?a = Inr (ty1 ''Array'' [ty1 ''LowCardinality'' [ty0 ''String'']])" by code_simp
  have ok: "\<forall>b \<in> set ?a. branch_carrier b" by code_simp
  have i: "nullable_of (ty0 ''UInt8'') = False" by code_simp
  have m: "map unwrapLowCardinality ?a = [ty0 ''String'', ty0 ''String'']" by code_simp
  from array_element_of_constructed_array [OF c ok i] m show ?thesis by simp
qed

text \<open>
  An array of members of one well-formed type (no date with a time, no SimpleAggregateFunction
  marker on top) is an array of that very type: the LowCardinality wrappers that the branch rule
  takes off at every depth are all put back.
\<close>
theorem array_of_one_type_keeps_it:
  assumes "plain_member t"
  shows "arrayFunctionResult (replicate (Suc n) t) = Inr (ty1 ''Array'' [t])"
proof -
  have w: "wrappers_ok t" using assms by (simp add: plain_member_def)
  have r: "restoreContainerMemberLowCardinality (stripLowCardinalityDeep t)
      (replicate (Suc n) (unwrapLowCardinality t)) = unwrapLowCardinality t"
    using restore_replicate [OF wrappers_ok_unwrap [OF w] unwrapLowCardinality_not_LC, of n] by simp
  have "commonContainerMemberCHType (replicate (Suc n) t) = Inr t"
    using common_replicate [OF assms, of n] r wrap_unwrap [OF w] all_low_cardinality_replicate [of n t]
    unfolding commonContainerMemberCHType_def Let_def map_replicate
    by (simp del: replicate_Suc split: if_splits)
  then show ?thesis by (simp add: arrayFunctionResult_def)
qed

lemma array_of_one_type_keeps_it_witness:
  "arrayFunctionResult [ty1 ''Tuple'' [ty0 ''Int32'', ty1 ''LowCardinality'' [ty0 ''String'']],
      ty1 ''Tuple'' [ty0 ''Int32'', ty1 ''LowCardinality'' [ty0 ''String'']]]
   = Inr (ty1 ''Array'' [ty1 ''Tuple'' [ty0 ''Int32'', ty1 ''LowCardinality'' [ty0 ''String'']]])"
proof -
  have "plain_member (ty1 ''Tuple'' [ty0 ''Int32'', ty1 ''LowCardinality'' [ty0 ''String'']])" by code_simp
  from array_of_one_type_keeps_it [OF this, of 1] show ?thesis by simp
qed

end
