(* ===== verification/VerdictFacts.thy ===== *)
theory VerdictFacts
  imports Containers
begin

text \<open>
  What the verdict gate of \<^verbatim>\<open>parameter_verdict.go\<close> promises, by way of one description of the
  table: every row keeps, but for four measured cells that drop.
\<close>

section \<open>The table as a set of rows\<close>

lemma set_rows_of: "set (rows_of ns fs v) = {((n, f), v) | n f. n \<in> set ns \<and> f \<in> set fs}"
  by (auto simp: rows_of_def)

definition dropped_cells :: "(string \<times> parameterFamily) list" where
  "dropped_cells = [(''mapkeys'', familyLowCardinalityInner), (''mapvalues'', familyLowCardinalityInner),
     (''groupuniqarray'', familyDateTimeTimezone), (''groupuniqarrayif'', familyDateTimeTimezone)]"

text \<open>Every row keeps, but for the four measured cells, whose rows all drop.\<close>

lemma rows_verdict:
  "row \<in> set buildParameterVerdicts \<Longrightarrow>
     snd row = (if fst row \<in> set dropped_cells then verdictDrop else verdictKeep)"
proof -
  have "list_all (\<lambda>row. snd row = (if fst row \<in> set dropped_cells then verdictDrop else verdictKeep)) buildParameterVerdicts"
    by code_simp
  then show "row \<in> set buildParameterVerdicts \<Longrightarrow> ?thesis" by (auto simp: list_all_iff)
qed

lemma verdict_of_cell:
  "parameterVerdictFor rule family =
     (if (to_lower rule, family) \<in> fst ` set buildParameterVerdicts
      then if (to_lower rule, family) \<in> set dropped_cells then verdictDrop else verdictKeep
      else verdictUnstated)"
proof (cases "map_of (rev buildParameterVerdicts) (to_lower rule, family)")
  case None
  then have "(to_lower rule, family) \<notin> fst ` set buildParameterVerdicts" by (simp add: map_of_eq_None_iff)
  with None show ?thesis by (simp add: parameterVerdictFor_def)
next
  case (Some v)
  then have "((to_lower rule, family), v) \<in> set buildParameterVerdicts" by (auto dest: map_of_SomeD)
  with rows_verdict [OF this] Some show ?thesis by (force simp: parameterVerdictFor_def)
qed

lemma ruleHasAnyVerdict_iff: "ruleHasAnyVerdict rule \<longleftrightarrow> (\<exists>f. (to_lower rule, f) \<in> fst ` set buildParameterVerdicts)"
  by (force simp: ruleHasAnyVerdict_def list_ex_iff)

lemma keep_cell:
  assumes "n \<in> set valuePreservingRuleNames \<union> set unwrapKeepRuleNames" "f \<in> set valuePreservingKeepFamilies"
  shows "(n, f) \<in> fst ` set buildParameterVerdicts"
proof -
  have "((n, f), verdictKeep) \<in> set buildParameterVerdicts"
    using assms by (auto simp: buildParameterVerdicts_def set_rows_of)
  then show ?thesis by force
qed

section \<open>Properties\<close>

text \<open>
  A function that gives its argument back (max, any, argMin, arraySort, lag, nullIf, tuple and
  the others of the two measured lists) passes every type of the nine leaf families through the
  gate unchanged, with all its parameters, whatever the registry says.
\<close>
theorem value_preserving_rules_keep_parameters:
  assumes "to_lower rule \<in> set valuePreservingRuleNames \<union> set unwrapKeepRuleNames"
    and "parameterFamilyOf t = Some f" "f \<in> set valuePreservingKeepFamilies"
  shows "applyParameterVerdict policy rule t = Inr t"
proof -
  have cell: "(to_lower rule, f) \<in> fst ` set buildParameterVerdicts" by (rule keep_cell) (use assms in auto)
  have "(to_lower rule, f) \<notin> set dropped_cells"
    using assms(1,3) by (auto simp: dropped_cells_def valuePreservingKeepFamilies_def valuePreservingRuleNames_def unwrapKeepRuleNames_def)
  with cell have "parameterVerdictFor rule f = verdictKeep" by (simp add: verdict_of_cell)
  moreover have "ruleHasAnyVerdict rule" using cell by (auto simp: ruleHasAnyVerdict_iff)
  ultimately show ?thesis
    using assms(2) by (simp add: applyParameterVerdict_def applyParameterVerdictStrict_def)
qed

lemma value_preserving_rules_keep_parameters_witness:
  "applyParameterVerdict (\<lambda>_. None) ''argMax'' (tyl ''Decimal'' [''18'', ''4'']) = Inr (tyl ''Decimal'' [''18'', ''4''])"
proof (rule value_preserving_rules_keep_parameters)
  show "to_lower ''argMax'' \<in> set valuePreservingRuleNames \<union> set unwrapKeepRuleNames" by code_simp
  show "parameterFamilyOf (tyl ''Decimal'' [''18'', ''4'']) = Some familyDecimalPrecisionScale" by code_simp
  show "familyDecimalPrecisionScale \<in> set valuePreservingKeepFamilies" by code_simp
qed

text \<open>
  C18. The gate answers a parametric type only on a measurement: the type it answers is the rule's
  own result under a KEEP verdict or a registered lattice policy, or the result without its
  parameters in one of the four measured cells, the timezone of groupUniqArray and the
  LowCardinality of mapKeys and mapValues. Everything else is refused.
\<close>
theorem gate_answers_on_measurement_only:
  assumes "applyParameterVerdict policy rule result = Inr t" "parameterFamilyOf result = Some f"
  shows "t = result \<and> (parameterVerdictFor rule f = verdictKeep
            \<or> \<not> ruleHasAnyVerdict rule \<and> policy (to_lower rule) = Some parameterResultLattice)
       \<or> t = ty0 (Name result) \<and> (to_lower rule, f) \<in> set dropped_cells"
  using assms verdict_of_cell [of rule f]
  by (auto simp: applyParameterVerdict_def applyParameterVerdictStrict_def split: if_splits parameterVerdict.splits)

lemma gate_answers_on_measurement_only_witness:
  "applyParameterVerdict (\<lambda>_. None) ''groupUniqArray'' (tyl ''DateTime'' [''UTC'']) = Inr (ty0 ''DateTime'')
    \<and> (to_lower ''groupUniqArray'', familyDateTimeTimezone) \<in> set dropped_cells"
proof -
  have g: "applyParameterVerdict (\<lambda>_. None) ''groupUniqArray'' (tyl ''DateTime'' [''UTC'']) = Inr (ty0 ''DateTime'')"
    and f: "parameterFamilyOf (tyl ''DateTime'' [''UTC'']) = Some familyDateTimeTimezone" by code_simp+
  from gate_answers_on_measurement_only [OF g f] g show ?thesis by simp
qed

text \<open>
  The table says that mapKeys and mapValues drop the LowCardinality of the element, but the gate
  asks about the family of the result, which is an Array: an Array of LowCardinality passes
  unchanged, so the inferred type of \<^verbatim>\<open>mapKeys\<close> over a map with LowCardinality keys keeps the
  wrapper that the measurement beside the row says the server drops.
\<close>
theorem map_keys_row_is_never_asked:
  assumes "mapKeysFunctionResult [ty1 ''Map'' [ty1 ''LowCardinality'' [k], v]] = Inr t"
  shows "t = ty1 ''Array'' [ty1 ''LowCardinality'' [k]] \<and> applyParameterVerdict policy ''mapKeys'' t = Inr t
    \<and> parameterVerdictFor ''mapKeys'' familyLowCardinalityInner = verdictDrop"
proof -
  have t: "t = ty1 ''Array'' [ty1 ''LowCardinality'' [k]]" using assms by (simp add: mapKeysFunctionResult_def named_def)
  have v: "parameterVerdictFor ''mapKeys'' familyArrayElement = verdictKeep"
    "parameterVerdictFor ''mapKeys'' familyLowCardinalityInner = verdictDrop" "ruleHasAnyVerdict ''mapKeys''" by code_simp+
  have f: "parameterFamilyOf t = Some familyArrayElement" by (simp add: t parameterFamilyOf_def)
  show ?thesis using v by (simp add: f t [symmetric] applyParameterVerdict_def applyParameterVerdictStrict_def)
qed

lemma map_keys_row_is_never_asked_witness:
  "applyParameterVerdict (\<lambda>_. None) ''mapKeys'' (ty1 ''Array'' [ty1 ''LowCardinality'' [ty0 ''String'']])
    = Inr (ty1 ''Array'' [ty1 ''LowCardinality'' [ty0 ''String'']])"
proof -
  have "mapKeysFunctionResult [ty1 ''Map'' [ty1 ''LowCardinality'' [ty0 ''String''], ty0 ''UInt8'']]
    = Inr (ty1 ''Array'' [ty1 ''LowCardinality'' [ty0 ''String'']])" by code_simp
  from map_keys_row_is_never_asked [OF this, of "\<lambda>_. None"] show ?thesis by blast
qed

end
