(* ===== verification/TypeParser.thy ===== *)
theory TypeParser
  imports Numeric
begin

text \<open>
  The type of a column declaration (\<^verbatim>\<open>schema.go\<close>): from the syntax tree of the SQL parser to a
  \<open>chtype\<close>, with every refusal. The tree of the third-party parser is the datatype \<open>col_type\<close>; a
  parameter that the code formats back to SQL is that text.
\<close>

section \<open>The syntax tree of a type\<close>

datatype col_type =
    ScalarType string
  | TypeWithParams string "string list"
  | EnumType string "(string option \<times> string option) list"
  | JSONType string
  | PropertyType string
  | ComplexType string "col_type list"
  | NestedType string "nested_element list"
  | OtherType string
and nested_element =
    ElementDef "string option" "col_type option"
  | ElementType col_type
  | ElementOther string

section \<open>Quoted strings, timezones, DateTime\<close>

definition quote_mark :: char where "quote_mark = char_of (39 :: nat)"

definition quoted :: "string \<Rightarrow> string" where
  "quoted s = [quote_mark] @ s @ [quote_mark]"

definition isQuotedTypeString :: "string \<Rightarrow> bool" where
  "isQuotedTypeString value \<longleftrightarrow> length value \<ge> 2 \<and> hd value = quote_mark \<and> last value = quote_mark"

definition measured_timezones :: "string list" where
  "measured_timezones = map quoted [''UTC'', ''Asia/Tokyo'', ''Europe/Berlin'', ''Europe/Moscow'']"

definition validateMeasuredTimezone :: "string \<Rightarrow> unit result" where
  "validateMeasuredTimezone value =
     (if value \<in> set measured_timezones then Inr ()
      else Inl (Errorf ''timezone %s has no pinned ClickHouse constructor evidence'' [value]))"

text \<open>The second parameter: dropped when it is no string, checked when it is.\<close>

definition keep_timezone :: "string list \<Rightarrow> string list result" where
  "keep_timezone params =
     (if length params = 2 then
        (if \<not> isQuotedTypeString (params ! 1) then Inr (take 1 params)
         else bind_res (validateMeasuredTimezone (params ! 1)) (\<lambda>_. Inr params))
      else Inr params)"

definition canonicalParameterizedDateTime :: "string \<Rightarrow> string list \<Rightarrow> chtype result" where
  "canonicalParameterizedDateTime name params =
     (let isDateTime64 = equal_fold name ''DateTime64'';
          scaleError = Inl (Errorf ''%s scale must be from 0 through 9'' [name]) in
      if params = [] then Inr (if isDateTime64 then tyl ''DateTime64'' [''3''] else ty0 ''DateTime'')
      else case atoi (hd params) of
        None \<Rightarrow>
          (if \<not> isDateTime64 \<and> isQuotedTypeString (hd params)
           then bind_res (validateMeasuredTimezone (hd params)) (\<lambda>_. Inr (tyl ''DateTime'' (take 1 params)))
           else scaleError)
      | Some scale \<Rightarrow>
          (if length params > 2 then Inl (Errorf ''%s accepts at most scale and timezone'' [name])
           else if scale < 0 \<or> scale > 9 then scaleError
           else bind_res (keep_timezone params) (\<lambda>kept.
             if isDateTime64 then Inr (tyl ''DateTime64'' kept)
             else if scale = 0 then
               Inr (if length kept = 2 then tyl ''DateTime'' (drop 1 kept) else ty0 ''DateTime'')
             else Inr (tyl ''DateTime64'' kept))))"

section \<open>Enum\<close>

definition equals_sign :: string where "equals_sign = '' = ''"

text \<open>\<^verbatim>\<open>strings.LastIndex\<close>.\<close>

definition last_index :: "string \<Rightarrow> string \<Rightarrow> nat option" where
  "last_index s pat = List.find (\<lambda>i. has_prefix (drop i s) pat) (rev [0..<Suc (length s)])"

fun check_enum_numbers :: "string \<Rightarrow> int \<Rightarrow> int \<Rightarrow> int list \<Rightarrow> string list \<Rightarrow> unit result" where
  "check_enum_numbers name minimum maximum seen [] = Inr ()"
| "check_enum_numbers name minimum maximum seen (param # params) =
     (case last_index param equals_sign of
        None \<Rightarrow> Inl (Errorf ''%s element has no number'' [name])
      | Some separator \<Rightarrow> (case atoi (trim_space (drop (separator + 3) param)) of
            None \<Rightarrow> Inl (Errorf ''%s element number must be from %d through %d'' [name, itoa minimum, itoa maximum])
          | Some number \<Rightarrow>
              (if number < minimum \<or> number > maximum
               then Inl (Errorf ''%s element number must be from %d through %d'' [name, itoa minimum, itoa maximum])
               else if number \<in> set seen then Inl (Errorf ''%s has a duplicate element number'' [name])
               else check_enum_numbers name minimum maximum (number # seen) params)))"

definition validateEnumNumbers :: "string \<Rightarrow> string list \<Rightarrow> unit result" where
  "validateEnumNumbers name params =
     (let (minimum, maximum) = (if equal_fold name ''Enum16'' then (-32768, 32767) else (-128, 127))
      in check_enum_numbers name minimum maximum [] params)"

text \<open>The loop over the declared elements: position, names seen, the literals so far.\<close>

fun enum_literals ::
    "string \<Rightarrow> nat \<Rightarrow> string list \<Rightarrow> (string option \<times> string option) list \<Rightarrow> string list result" where
  "enum_literals typeName index seen [] = Inr []"
| "enum_literals typeName index seen ((name, number) # values) =
     (case name of
        None \<Rightarrow> Inl (Errorf ''Enum element %d has no name'' [itoa (int index)])
      | Some n \<Rightarrow>
          (if n \<in> set seen then Inl (Errorf ''%s has a duplicate element name'' [typeName])
           else bind_res (enum_literals typeName (Suc index) (n # seen) values) (\<lambda>rest.
             Inr ((n @ equals_sign @ (case number of None \<Rightarrow> itoa (int index + 1) | Some v \<Rightarrow> v)) # rest))))"

definition parseEnumCHType :: "string \<Rightarrow> (string option \<times> string option) list \<Rightarrow> chtype result" where
  "parseEnumCHType name values =
     (if equal_fold name ''Enum'' then Inl (Errorf ''Enum has width-dependent semantics; use Enum8 or Enum16'' [])
      else if values = [] then Inl (Errorf ''%s expects at least one element'' [name])
      else bind_res (enum_literals name 0 [] values) (\<lambda>literalParams.
        bind_res (validateEnumNumbers name literalParams) (\<lambda>_.
          Inr (tyl (canonicalCHTypeName name) literalParams))))"

text \<open>The branch for an Enum that the parser reads as a plain parameter list.\<close>

definition parse_plain_enum :: "string \<Rightarrow> string list \<Rightarrow> chtype result" where
  "parse_plain_enum name literalParams =
     (if literalParams = [] then Inl (Errorf ''%s expects at least one element'' [name])
      else bind_res (enum_literals name 0 [] (map (\<lambda>p. (Some p, None)) literalParams)) (\<lambda>numbered.
        bind_res (validateEnumNumbers name numbered) (\<lambda>_.
          Inr (tyl (canonicalCHTypeName name) numbered))))"

section \<open>Scalar types and types with literal parameters\<close>

definition parse_scalar :: "string \<Rightarrow> chtype result" where
  "parse_scalar typeName =
     bind_res (validateTypeFamilySpelling typeName) (\<lambda>_.
       let name = canonicalCHTypeName typeName in
       if name = ''Decimal'' then Inr (tyl name [''10'', ''0''])
       else if equal_fold name ''DateTime64'' then Inr (tyl ''DateTime64'' [''3''])
       else Inr (ty0 name))"

definition parse_decimal :: "string list \<Rightarrow> chtype result" where
  "parse_decimal literalParams =
     (if length literalParams \<noteq> 1 \<and> length literalParams \<noteq> 2
      then Inl (Errorf ''Decimal expects one or two arguments'' [])
      else let params = (if length literalParams = 1 then literalParams @ [''0''] else literalParams);
               precisionError = Inl (Errorf ''Decimal precision must be from 1 through 76'' []);
               scaleError = Inl (Errorf ''Decimal scale must be from 0 through its precision'' []) in
        case atoi (params ! 0) of
          None \<Rightarrow> precisionError
        | Some precision \<Rightarrow>
            (if precision < 1 \<or> precision > 76 then precisionError
             else case atoi (params ! 1) of
                 None \<Rightarrow> scaleError
               | Some scale \<Rightarrow>
                   (if scale < 0 \<or> scale > precision then scaleError else Inr (tyl ''Decimal'' params))))"

definition parse_fixed_string :: "string list \<Rightarrow> chtype result" where
  "parse_fixed_string literalParams =
     (let lengthError = Inl (Errorf ''FixedString length must be from 1 through 16777215'' []) in
      if length literalParams \<noteq> 1 then Inl (Errorf ''FixedString expects one length argument'' [])
      else case atoi (hd literalParams) of
          None \<Rightarrow> lengthError
        | Some n \<Rightarrow> (if n < 1 \<or> n > 16777215 then lengthError else Inr (tyl ''FixedString'' literalParams)))"

definition parse_with_params :: "string \<Rightarrow> string list \<Rightarrow> chtype result" where
  "parse_with_params name literalParams =
     bind_res (validateTypeFamilySpelling name) (\<lambda>_.
       let canonicalName = canonicalCHTypeName name in
       if equal_fold name ''Enum'' then Inl (Errorf ''Enum has width-dependent semantics; use Enum8 or Enum16'' [])
       else if isEnumTypeName name then parse_plain_enum name literalParams
       else if equal_fold name ''DateTime'' \<or> equal_fold name ''DateTime64''
       then canonicalParameterizedDateTime name literalParams
       else case floatAliasCanonicalName name of
         Some canonical \<Rightarrow>
           (if length literalParams > 2 then Inl (Errorf ''%s accepts at most two ignored arguments'' [name])
            else Inr (ty0 canonical))
       | None \<Rightarrow>
           if canonicalName = ''Decimal'' then parse_decimal literalParams
           else if canonicalName = ''Bool'' then
             (if literalParams = [] then Inr (ty0 canonicalName)
              else Inl (Errorf ''Bool does not accept type arguments'' []))
           else if canonicalName = ''FixedString'' then parse_fixed_string literalParams
           else if isIntegerTypeAlias name then
             (if length literalParams \<noteq> 1 then Inl (Errorf ''integer display width expects one argument'' [])
              else Inr (ty0 canonicalName))
           else if isZeroArgumentSupportedType canonicalName
           then Inl (Errorf ''%s does not accept type arguments'' [canonicalName])
           else Inr (tyl canonicalName literalParams))"

section \<open>SimpleAggregateFunction\<close>

definition validateSimpleAggregateFunction :: "chtype \<Rightarrow> unit result" where
  "validateSimpleAggregateFunction value =
     (if length (Params value) \<noteq> 2 then Inl (Errorf ''SimpleAggregateFunction expects a function and a type'' [])
      else let function = Name (Params value ! 0); inner = Params value ! 1 in
        if function = ''any'' \<or> function = ''anyLast'' \<or> equal_fold function ''min'' \<or> equal_fold function ''max''
        then Inr ()
        else if equal_fold function ''sum'' then
          (let base = (if normalizedName inner = ''nullable'' \<and> length (Params inner) = 1 then hd (Params inner) else inner);
               name = normalizedName base in
           if name \<in> {''int64'', ''uint64'', ''int128'', ''uint128'', ''int256'', ''uint256'', ''float64''} then Inr ()
           else if name = ''decimal'' \<and> length (LiteralParams base) = 2 \<and> hd (LiteralParams base) = ''38'' then Inr ()
           else Inl (Errorf ''SimpleAggregateFunction(sum, T) requires a T that sum does not widen'' []))
        else if function = ''groupArrayArray'' then
          (if normalizedName inner = ''array'' \<and> length (Params inner) = 1
              \<and> normalizedName (hd (Params inner)) \<noteq> ''nullable'' \<and> normalizedName (hd (Params inner)) \<noteq> ''lowcardinality''
           then Inr ()
           else Inl (Errorf ''SimpleAggregateFunction(groupArrayArray, T) requires an Array T that the aggregate does not change'' []))
        else Inl (Errorf ''SimpleAggregateFunction function %s has no measured constructor rule'' [to_string (Params value ! 0)]))"

definition finish_params :: "string \<Rightarrow> chtype list \<Rightarrow> chtype result" where
  "finish_params name params =
     (let result = ty1 (canonicalCHTypeName name) params in
      if equal_fold (Name result) ''SimpleAggregateFunction''
      then bind_res (validateSimpleAggregateFunction result) (\<lambda>_. Inr result)
      else Inr result)"

text \<open>The Tuple of the parsed elements, each with its declared name or the empty one.\<close>

definition finish_tuple :: "string \<Rightarrow> (chtype \<times> string option) list \<Rightarrow> chtype result" where
  "finish_tuple name elements =
     (if elements = [] then Inl (Errorf ''Tuple has no elements'' [])
      else Inr (CHType name (map fst elements) []
        (if list_ex (\<lambda>e. snd e \<noteq> None) elements
         then map (\<lambda>e. case snd e of None \<Rightarrow> [] | Some n \<Rightarrow> n) elements else [])))"

section \<open>The parser\<close>

fun parseCHType :: "col_type \<Rightarrow> chtype result"
  and parse_element :: "nested_element \<Rightarrow> (chtype \<times> string option) result" where
  "parseCHType (ScalarType name) = parse_scalar name"
| "parseCHType (TypeWithParams name params) = parse_with_params name params"
| "parseCHType (EnumType name values) =
     bind_res (validateTypeFamilySpelling name) (\<lambda>_. parseEnumCHType name values)"
| "parseCHType (JSONType name) =
     bind_res (validateTypeFamilySpelling name) (\<lambda>_. Inr (ty0 (canonicalCHTypeName name)))"
| "parseCHType (PropertyType name) =
     bind_res (validateTypeFamilySpelling name) (\<lambda>_. Inr (ty0 (canonicalCHTypeName name)))"
| "parseCHType (ComplexType name params) =
     bind_res (validateTypeFamilySpelling name) (\<lambda>_.
       bind_res (map_res parseCHType params) (finish_params name))"
| "parseCHType (NestedType name elements) =
     bind_res (validateTypeFamilySpelling name) (\<lambda>_.
       bind_res (map_res parse_element elements) (\<lambda>parsed.
         bind_res (finish_tuple name parsed) (\<lambda>element.
           Inr (if \<not> equal_fold name ''Nested'' then element
                else ty1 ''Array'' [CHType ''Tuple'' (Params element) (LiteralParams element) (ParamNames element)]))))"
| "parseCHType (OtherType k) = Inl (Errorf ''unsupported ClickHouse type AST %T'' [k])"
| "parse_element (ElementDef name typ) =
     (case (name, typ) of
        (Some n, Some t) \<Rightarrow> bind_res (parseCHType t) (\<lambda>p. Inr (p, Some n))
      | _ \<Rightarrow> Inl (Errorf ''Tuple element has no name or no type'' []))"
| "parse_element (ElementType t) = bind_res (parseCHType t) (\<lambda>p. Inr (p, None))"
| "parse_element (ElementOther k) = Inl (Errorf ''unsupported Tuple element AST %T'' [k])"

text \<open>
  The loops of \<^verbatim>\<open>parseCHTypeParams\<close> and \<^verbatim>\<open>parseTupleType\<close> as the code writes them, over the
  parser above.
\<close>

definition parseCHTypeParams :: "string \<Rightarrow> col_type list \<Rightarrow> chtype result" where
  "parseCHTypeParams name params = bind_res (map_res parseCHType params) (finish_params name)"

definition parseTupleType :: "string \<Rightarrow> nested_element list \<Rightarrow> chtype result" where
  "parseTupleType name elements = bind_res (map_res parse_element elements) (finish_tuple name)"

end
