(* ===== verification/TypeParserFacts.thy ===== *)
theory TypeParserFacts
  imports TypeParser
begin

text \<open>
  What the type parser of \<^verbatim>\<open>schema.go\<close> promises: the parameters of a parsed type are in the
  ranges of the constructors at every node, and a column declared again with the type as it prints
  has the same type.
\<close>

section \<open>Numerals\<close>

lemma digit_not_space: "digit_value c = Some d \<Longrightarrow> \<not> is_space c"
  by (auto simp: digit_value_def is_space_def Let_def split: if_splits)

lemma digits_no_space: "digits_value a s = Some i \<Longrightarrow> c \<in> set s \<Longrightarrow> \<not> is_space c"
  by (induction s arbitrary: a) (auto split: option.splits dest: digit_not_space)

lemma atoi_no_space:
  assumes "atoi s = Some i" "c \<in> set s"
  shows "\<not> is_space c"
proof (cases s)
  case Nil with assms show ?thesis by simp
next
  case (Cons d ds)
  have sign: "\<not> is_space (CHR ''-'')" "\<not> is_space (CHR ''+'')" by (simp_all add: is_space_def)
  from assms(1) Cons consider "d = CHR ''-'' \<or> d = CHR ''+''" "\<exists>j. unsigned_digits ds = Some j" | "\<exists>j. unsigned_digits s = Some j"
    unfolding atoi_def by (auto split: option.splits if_splits)
  then show ?thesis
  proof cases
    case 1
    with assms(2) Cons sign show ?thesis
      by (auto simp: unsigned_digits_def split: if_splits dest: digits_no_space)
  next
    case 2
    with assms(2) show ?thesis by (auto simp: unsigned_digits_def split: if_splits dest: digits_no_space)
  qed
qed

lemma dropWhile_none: "(\<And>c. c \<in> set s \<Longrightarrow> \<not> P c) \<Longrightarrow> dropWhile P s = s"
  by (cases s) auto

lemma trim_numeral: "atoi s = Some i \<Longrightarrow> trim_space s = s"
  using atoi_no_space [of s i] dropWhile_none [of s is_space] dropWhile_none [of "rev s" is_space]
  by (simp add: trim_space_def)

section \<open>The names of parsed types\<close>

text \<open>What the code relies on of the SQL parser: which node carries which type family.\<close>

definition literal_names :: "string set" where
  "literal_names = {''Decimal'', ''FixedString'', ''DateTime64'', ''Enum8'', ''Enum16''}"

fun tree_ok :: "col_type \<Rightarrow> bool" and element_ok :: "nested_element \<Rightarrow> bool" where
  "tree_ok (ScalarType name) = True"
| "tree_ok (TypeWithParams name params) \<longleftrightarrow> normalize_spelling name = to_lower name"
| "tree_ok (EnumType name numbers) \<longleftrightarrow> name \<in> {''Enum'', ''Enum8'', ''Enum16''}
     \<and> list_all (\<lambda>(_, v). case v of None \<Rightarrow> True | Some n \<Rightarrow> CHR ''='' \<notin> set n) numbers"
| "tree_ok (JSONType name) \<longleftrightarrow> canonicalCHTypeName name \<notin> literal_names"
| "tree_ok (PropertyType name) \<longleftrightarrow> canonicalCHTypeName name \<notin> literal_names"
| "tree_ok (ComplexType name params) \<longleftrightarrow> canonicalCHTypeName name \<notin> literal_names \<and> list_all tree_ok params"
| "tree_ok (NestedType name elements) \<longleftrightarrow> name \<in> {''Tuple'', ''Nested''} \<and> list_all element_ok elements"
| "tree_ok (OtherType k) = True"
| "element_ok (ElementDef name typ) \<longleftrightarrow> name \<noteq> Some [] \<and> (case typ of None \<Rightarrow> True | Some t \<Rightarrow> tree_ok t)"
| "element_ok (ElementType t) = tree_ok t"
| "element_ok (ElementOther k) = True"

text \<open>The parameters the constructor rules promise at one node.\<close>

definition declared_node :: "chtype \<Rightarrow> bool" where
  "declared_node t \<longleftrightarrow>
     (Name t = ''Decimal'' \<longrightarrow> (\<exists>p s. decimalPrecisionScale t = Some (p, s) \<and> 1 \<le> p \<and> p \<le> 76 \<and> 0 \<le> s \<and> s \<le> p)) \<and>
     (Name t = ''FixedString'' \<and> LiteralParams t \<noteq> [] \<longrightarrow>
        (\<exists>n. length (LiteralParams t) = 1 \<and> atoi (hd (LiteralParams t)) = Some n \<and> 1 \<le> n \<and> n < 2 ^ 24)) \<and>
     (Name t = ''DateTime64'' \<longrightarrow> (\<exists>n. LiteralParams t \<noteq> [] \<and> atoi (hd (LiteralParams t)) = Some n \<and> 0 \<le> n \<and> n \<le> 9)) \<and>
     (Name t \<in> {''Enum8'', ''Enum16''} \<and> LiteralParams t \<noteq> [] \<longrightarrow> validateEnumNumbers (Name t) (LiteralParams t) = Inr ()) \<and>
     (equal_fold (Name t) ''SimpleAggregateFunction'' \<and> Params t \<noteq> [] \<longrightarrow> validateSimpleAggregateFunction t = Inr ()) \<and>
     (ParamNames t \<noteq> [] \<longrightarrow> length (ParamNames t) = length (Params t))"

lemma declared_plain:
  "n \<notin> literal_names \<Longrightarrow> declared_node (tyl n ls)"
  "n \<notin> {''Decimal'', ''DateTime64''} \<Longrightarrow> declared_node (ty0 n)"
  by (auto simp: declared_node_def literal_names_def)

lemma alias_values: "map_of type_aliases k = Some c \<Longrightarrow> c \<notin> {''DateTime64'', ''FixedString'', ''Enum8'', ''Enum16''}"
  by (auto simp: type_aliases_def split: if_splits)

lemma canonical_values:
  "map_of canonical_names k = Some c \<Longrightarrow> k = to_lower c"
  by (auto simp: canonical_names_def split: if_splits)

text \<open>A type is canonically named DateTime64 or Enum only when it is spelled so.\<close>

lemma canonical_word:
  assumes "canonicalCHTypeName name = c" "c \<in> {''DateTime64'', ''Enum8'', ''Enum16'', ''FixedString''}"
    and "normalize_spelling name = to_lower name"
  shows "to_lower name = to_lower c"
  using assms alias_values [of "to_lower name"] canonical_values [of "to_lower name"]
  by (auto simp: canonicalCHTypeName_def Let_def split: option.splits)

section \<open>Literal parameters\<close>

lemma parse_decimal_declared:
  assumes "parse_decimal ls = Inr t"
  shows "declared_node t \<and> Params t = []"
proof -
  let ?ps = "if length ls = 1 then ls @ [''0''] else ls"
  from assms have l: "length ls = 1 \<or> length ls = 2" by (auto simp: parse_decimal_def split: if_splits)
  with assms obtain p s where a: "atoi (?ps ! 0) = Some p" "1 \<le> p" "p \<le> 76" "atoi (?ps ! 1) = Some s" "0 \<le> s" "s \<le> p"
    and t: "t = tyl ''Decimal'' ?ps"
    unfolding parse_decimal_def Let_def by (auto split: option.splits if_split_asm)
  have "length ?ps = 2" using l by auto
  then have "decimalPrecisionScale t = Some (p, s)"
    using a trim_numeral by (simp add: t decimalPrecisionScale_def canonicalDecimalType_def named_def)
  with a t show ?thesis by (auto simp: declared_node_def)
qed

lemma parse_fixed_string_declared:
  "parse_fixed_string ls = Inr t \<Longrightarrow> declared_node t \<and> Params t = []"
  by (auto simp: parse_fixed_string_def declared_node_def Let_def split: option.splits if_splits)

lemma keep_timezone_hd: "keep_timezone params = Inr kept \<Longrightarrow> params \<noteq> [] \<Longrightarrow> kept \<noteq> [] \<and> hd kept = hd params"
  by (cases params) (auto simp: keep_timezone_def split: if_splits)

lemma parse_date_time_declared:
  assumes "canonicalParameterizedDateTime name params = Inr t"
  shows "declared_node t \<and> Params t = [] \<and> Name t \<in> {''DateTime'', ''DateTime64''}"
proof (cases "params = []")
  case True
  moreover have "atoi ''3'' = Some 3" by code_simp
  ultimately show ?thesis using assms
    by (auto simp: canonicalParameterizedDateTime_def declared_node_def equal_fold_def split: if_splits)
next
  case False
  show ?thesis
  proof (cases "atoi (hd params)")
    case None
    with False assms show ?thesis
      by (auto simp: canonicalParameterizedDateTime_def declared_node_def equal_fold_def Let_def split: if_splits)
  next
    case (Some scale)
    with False assms obtain kept where k: "keep_timezone params = Inr kept" "0 \<le> scale" "scale \<le> 9"
      "t = tyl ''DateTime64'' kept \<or> t = tyl ''DateTime'' (drop 1 kept) \<or> t = ty0 ''DateTime''"
      by (auto simp: canonicalParameterizedDateTime_def Let_def split: if_splits)
    with keep_timezone_hd [OF k(1) False] Some show ?thesis by (auto simp: declared_node_def equal_fold_def)
  qed
qed

lemma enum_name: "isEnumTypeName name \<Longrightarrow> validateTypeFamilySpelling name = Inr () \<Longrightarrow>
    normalize_spelling name = to_lower name \<Longrightarrow> name \<in> {''Enum'', ''Enum8'', ''Enum16''}"
  by (auto simp: isEnumTypeName_def validateTypeFamilySpelling_def Let_def isMeasuredCaseInsensitiveTypeAlias_def
      measured_type_aliases_def family_spellings_def split: if_splits)

lemma canonical_enum [simp]: "canonicalCHTypeName ''Enum8'' = ''Enum8''" "canonicalCHTypeName ''Enum16'' = ''Enum16''"
  by code_simp+

lemma enum_declared:
  "name \<in> {''Enum8'', ''Enum16''} \<Longrightarrow> validateEnumNumbers name ls = Inr () \<Longrightarrow> declared_node (tyl (canonicalCHTypeName name) ls)"
  by (auto simp: declared_node_def equal_fold_def)

lemma parse_plain_enum_declared:
  assumes "parse_plain_enum name ls = Inr t" "name \<in> {''Enum8'', ''Enum16''}"
  shows "declared_node t \<and> Params t = []"
  using assms enum_declared [OF assms(2)] by (auto simp: parse_plain_enum_def split: if_splits)

lemma parse_enum_declared:
  assumes "parseEnumCHType name values = Inr t" "name \<in> {''Enum'', ''Enum8'', ''Enum16''}"
  shows "declared_node t \<and> Params t = []"
proof -
  from assms have n: "name \<in> {''Enum8'', ''Enum16''}" by (auto simp: parseEnumCHType_def)
  with assms enum_declared [OF n] show ?thesis by (auto simp: parseEnumCHType_def split: if_splits)
qed

lemma parse_scalar_declared: "parse_scalar name = Inr t \<Longrightarrow> declared_node t \<and> Params t = []"
proof -
  have a: "decimalPrecisionScale (tyl ''Decimal'' [''10'', ''0'']) = Some (10, 0)" "atoi ''3'' = Some 3" by code_simp+
  assume "parse_scalar name = Inr t"
  with a show ?thesis
    by (auto simp: parse_scalar_def Let_def declared_node_def equal_fold_def split: if_splits)
qed

lemma parse_with_params_declared:
  assumes "parse_with_params name ls = Inr t" "normalize_spelling name = to_lower name"
  shows "declared_node t \<and> Params t = []"
proof -
  let ?c = "canonicalCHTypeName name"
  from assms(1) have v: "validateTypeFamilySpelling name = Inr ()" by (auto simp: parse_with_params_def)
  note prems = assms(1) [unfolded parse_with_params_def Let_def v bind_res_simps]
  have no64: "?c \<noteq> ''DateTime64''" if "to_lower name \<noteq> ''datetime64''"
    using canonical_word [of name "''DateTime64''"] assms(2) that by auto
  show ?thesis
  proof (cases "isEnumTypeName name")
    case e: True
    then have "name \<in> {''Enum'', ''Enum8'', ''Enum16''}" by (rule enum_name) (fact v, fact assms(2))
    with prems e have "name \<in> {''Enum8'', ''Enum16''}" "parse_plain_enum name ls = Inr t"
      by (auto simp: equal_fold_def split: if_split_asm)
    then show ?thesis using parse_plain_enum_declared by blast
  next
    case e: False
    then have ne: "\<not> equal_fold name ''Enum''" by (simp add: isEnumTypeName_def equal_fold_def)
    show ?thesis
    proof (cases "equal_fold name ''DateTime'' \<or> equal_fold name ''DateTime64''")
      case True
      with prems e ne have "canonicalParameterizedDateTime name ls = Inr t" by simp
      then show ?thesis using parse_date_time_declared by blast
    next
      case d: False
      then have c64: "?c \<noteq> ''DateTime64''" by (intro no64) (simp add: equal_fold_def)
      note prems = prems [unfolded if_not_P [OF e] if_not_P [OF ne] if_not_P [OF d]]
      show ?thesis
      proof (cases "floatAliasCanonicalName name")
        case (Some c)
        with prems have "t = ty0 c" by (simp split: if_split_asm)
        with Some show ?thesis
          by (auto simp: floatAliasCanonicalName_def Let_def declared_node_def equal_fold_def split: if_splits)
      next
        case None
        note prems = prems [unfolded None option.case]
        consider "?c = ''Decimal''" | "?c = ''FixedString''" | "?c \<noteq> ''Decimal''" "?c \<noteq> ''FixedString''" "t = ty0 ?c"
          | "?c \<noteq> ''Decimal''" "?c \<noteq> ''FixedString''" "t = tyl ?c ls"
          using prems by (simp split: if_split_asm)
        then show ?thesis
        proof cases
          case 1 with prems show ?thesis using parse_decimal_declared by simp
        next
          case 2 with prems show ?thesis using parse_fixed_string_declared by simp
        next
          case 3 with c64 declared_plain(2) [of ?c] show ?thesis by simp
        next
          case 4
          have "?c \<notin> literal_names"
            using 4 c64 e canonical_word [OF refl _ assms(2)]
            by (auto simp: literal_names_def isEnumTypeName_def equal_fold_def)
          with 4 declared_plain(1) [of ?c ls] show ?thesis by simp
        qed
      qed
    qed
  qed
qed

section \<open>The whole tree\<close>

lemma finish_params_declared:
  assumes "finish_params name ps = Inr t" "canonicalCHTypeName name \<notin> literal_names" "list_all (all_nodes declared_node) ps"
  shows "all_nodes declared_node t"
proof -
  have t: "t = ty1 (canonicalCHTypeName name) ps" using assms(1) by (auto simp: finish_params_def Let_def split: if_splits)
  have "declared_node t"
    using assms(1,2) t by (auto simp: finish_params_def Let_def declared_node_def literal_names_def split: if_splits)
  with assms(3) t show ?thesis by simp
qed

lemma finish_tuple_declared:
  assumes "finish_tuple name es = Inr t" "name \<in> {''Tuple'', ''Nested''}" "list_all (\<lambda>e. all_nodes declared_node (fst e)) es"
  shows "all_nodes declared_node (CHType ''Tuple'' (Params t) (LiteralParams t) (ParamNames t))
    \<and> (name = ''Tuple'' \<longrightarrow> t = CHType ''Tuple'' (Params t) (LiteralParams t) (ParamNames t))"
  using assms by (auto simp: finish_tuple_def declared_node_def equal_fold_def list_all_iff split: if_splits)

lemma map_res_all:
  assumes "map_res f xs = Inr ys" "\<And>x y. x \<in> set xs \<Longrightarrow> f x = Inr y \<Longrightarrow> P y"
  shows "list_all P ys"
proof -
  have "P (ys ! i)" if "i < length ys" for i
    using assms(2) [of "xs ! i" "ys ! i"] assms(1) that by (simp add: map_res_Inr_list_all2 list_all2_conv_all_nth)
  then show ?thesis by (simp add: list_all_length)
qed

lemma parse_declared:
  "parseCHType a = Inr t \<Longrightarrow> tree_ok a \<Longrightarrow> all_nodes declared_node t"
  "parse_element e = Inr pn \<Longrightarrow> element_ok e \<Longrightarrow> all_nodes declared_node (fst pn)"
proof (induction a and e arbitrary: t and pn rule: parseCHType_parse_element.induct)
  case (1 name)
  then show ?case using parse_scalar_declared [of name t] by (simp add: all_nodes_iff [of _ t])
next
  case (2 name params)
  then show ?case using parse_with_params_declared [of name params t] by (simp add: all_nodes_iff [of _ t])
next
  case (3 name vs)
  then show ?case using parse_enum_declared [of name vs t] by (auto simp: all_nodes_iff [of _ t])
next
  case (6 name params)
  then obtain ps where ps: "map_res parseCHType params = Inr ps" "finish_params name ps = Inr t" by auto
  have "list_all (all_nodes declared_node) ps"
    by (rule map_res_all [OF ps(1)]) (use 6 in \<open>auto simp: list_all_iff\<close>)
  with ps 6 finish_params_declared show ?case by auto
next
  case (7 name elements)
  then obtain es u where es: "map_res parse_element elements = Inr es" "finish_tuple name es = Inr u"
    "t = (if \<not> equal_fold name ''Nested'' then u else ty1 ''Array'' [CHType ''Tuple'' (Params u) (LiteralParams u) (ParamNames u)])"
    by auto
  have "list_all (\<lambda>e. all_nodes declared_node (fst e)) es"
    by (rule map_res_all [OF es(1)]) (use 7 in \<open>auto simp: list_all_iff\<close>)
  with 7 finish_tuple_declared [OF es(2)] have
    d: "all_nodes declared_node (CHType ''Tuple'' (Params u) (LiteralParams u) (ParamNames u))"
    and n: "name = ''Tuple'' \<longrightarrow> u = CHType ''Tuple'' (Params u) (LiteralParams u) (ParamNames u)"
    and c: "name = ''Tuple'' \<or> name = ''Nested''" by auto
  have a: "declared_node (ty1 ''Array'' ps)" for ps by (simp add: declared_node_def equal_fold_def)
  from c show ?case
  proof
    assume "name = ''Tuple''"
    with d n es(3) show ?thesis by (simp add: equal_fold_def)
  next
    assume "name = ''Nested''"
    with d es(3) a show ?thesis by (simp add: equal_fold_def)
  qed
qed (auto simp: declared_node_def literal_names_def split: option.splits)

end
