(* ===== verification/TypeRoundTrip.thy ===== *)
theory TypeRoundTrip
  imports TypeParserFacts
begin

text \<open>
  Printing a parsed type and declaring a column with that text gives the type again. \<open>settled_node\<close>
  is what the parser leaves at every node of its result: a canonical name with parameters that the
  parser reads back unchanged.
\<close>

section \<open>Declaring the printed type again\<close>

definition split_enum :: "string \<Rightarrow> string option \<times> string option" where
  "split_enum l = (case last_index l equals_sign of None \<Rightarrow> (None, None) | Some i \<Rightarrow> (Some (take i l), Some (drop (i + 3) l)))"

text \<open>The syntax tree of a type as it prints.\<close>

fun tree_of :: "chtype \<Rightarrow> col_type" where
  "tree_of (CHType n ps ls ns) =
     (if ps \<noteq> [] then
        (if n = ''Tuple'' then NestedType n
           (map (\<lambda>(p, l). if l = [] then ElementType p else ElementDef (Some l) (Some p))
             (zip (map tree_of ps) (ns @ replicate (length ps) [])))
         else ComplexType n (map tree_of ps))
      else if ls = [] then ScalarType n
      else if isEnumTypeName n then EnumType n (map split_enum ls)
      else TypeWithParams n ls)"

definition settled_name :: "string \<Rightarrow> bool" where
  "settled_name n \<longleftrightarrow> validateTypeFamilySpelling n = Inr () \<and> canonicalCHTypeName n = n"

definition settled_node :: "chtype \<Rightarrow> bool" where
  "settled_node t \<longleftrightarrow>
     (if Params t \<noteq> [] then
        LiteralParams t = [] \<and>
        (if Name t = ''Tuple''
         then ParamNames t = [] \<or> length (ParamNames t) = length (Params t) \<and> list_ex (\<lambda>l. l \<noteq> []) (ParamNames t)
         else ParamNames t = [] \<and> settled_name (Name t)
           \<and> (equal_fold (Name t) ''SimpleAggregateFunction'' \<longrightarrow> validateSimpleAggregateFunction t = Inr ()))
      else ParamNames t = [] \<and> settled_name (Name t) \<and>
        (if LiteralParams t = [] then parse_scalar (Name t) = Inr t
         else if isEnumTypeName (Name t) then parseEnumCHType (Name t) (map split_enum (LiteralParams t)) = Inr t
         else parse_with_params (Name t) (LiteralParams t) = Inr t))"

lemma settled_builtin [simp]: "settled_name ''Tuple''" "settled_name ''Array''" "settled_name ''Nested''"
  by code_simp+

lemma map_res_map: "map_res f (map g xs) = map_res (f \<circ> g) xs"
  by (induction xs) auto

lemma reparse: "all_nodes settled_node t \<Longrightarrow> parseCHType (tree_of t) = Inr t"
proof (induction t)
  case (CHType n ps ls ns)
  then have IH: "parseCHType (tree_of p) = Inr p" if "p \<in> set ps" for p
    using that by (auto simp: list_all_iff)
  have node: "settled_node (CHType n ps ls ns)" using CHType.prems by simp
  show ?case
  proof (cases "ps = []")
    case True
    with node show ?thesis by (auto simp: settled_node_def settled_name_def)
  next
    case ne: False
    show ?thesis
    proof (cases "n = ''Tuple''")
      case tuple: True
      have v: "validateTypeFamilySpelling ''Tuple'' = Inr ()" using settled_builtin(1) by (simp add: settled_name_def)
      let ?ls = "ns @ replicate (length ps) []"
      let ?el = "\<lambda>(p, l). if l = [] then ElementType p else ElementDef (Some l) (Some p)"
      let ?out = "\<lambda>(p, l). (p, if l = [] then None else Some l)"
      have m: "map_res parse_element (map ?el (zip (map tree_of ps) ls)) = Inr (map ?out (zip ps ls))" for ls
        using IH by (induction ps arbitrary: ls; case_tac ls) auto
      have z: "zip ps ?ls = (if ns = [] then map (\<lambda>p. (p, [])) ps else zip ps ns)"
        using node tuple ne by (auto simp: settled_node_def zip_replicate2 zip_append2)
      have len: "length ns = length ps \<or> ns = []" using node tuple ne by (auto simp: settled_node_def)
      have named: "list_ex (\<lambda>e. snd e \<noteq> None) (map ?out (zip ps ?ls)) \<longleftrightarrow> ns \<noteq> []"
        unfolding z using node tuple ne len
        by (auto simp: settled_node_def list_ex_iff set_zip in_set_conv_nth) (metis nth_mem)
      have names: "ns \<noteq> [] \<Longrightarrow> map (\<lambda>e. case snd e of None \<Rightarrow> [] | Some n \<Rightarrow> n) (map ?out (zip ps ?ls)) = ns"
        unfolding z using len by (auto intro!: nth_equalityI)
      have "map fst (map ?out (zip ps ?ls)) = ps" "map ?out (zip ps ?ls) \<noteq> []"
        unfolding z using len ne by (auto intro!: nth_equalityI)
      with m [of ?ls] named names tuple ne node v show ?thesis
        by (simp add: finish_tuple_def settled_node_def equal_fold_def)
    next
      case False
      have "map_res parseCHType (map tree_of ps) = Inr ps"
        unfolding map_res_map using map_res_Inr_id [of ps "parseCHType \<circ> tree_of" id] IH by simp
      with False ne node show ?thesis
        by (auto simp: settled_node_def settled_name_def finish_params_def Let_def)
    qed
  qed
qed


section \<open>Settled names\<close>

lemma alias_keys_measured: "map_of type_aliases k = Some c \<Longrightarrow> k \<in> set measured_type_aliases"
proof -
  have "list_all (\<lambda>(k, _). k \<in> set measured_type_aliases) type_aliases" by code_simp
  then show "map_of type_aliases k = Some c \<Longrightarrow> ?thesis" by (auto simp: list_all_iff dest: map_of_SomeD)
qed

lemma canonical_keys_measured:
  "map_of canonical_names k = Some c \<Longrightarrow> k \<in> set measured_type_aliases \<or> map_of family_spellings k = Some c"
proof -
  have "list_all (\<lambda>(k, c). k \<in> set measured_type_aliases \<or> map_of family_spellings k = Some c) canonical_names" by code_simp
  then show "map_of canonical_names k = Some c \<Longrightarrow> ?thesis" by (auto simp: list_all_iff dest: map_of_SomeD)
qed

lemma alias_values_settled: "map_of type_aliases k = Some c \<Longrightarrow> settled_name c"
proof -
  have "list_all (\<lambda>(_, c). settled_name c) type_aliases" by code_simp
  then show "map_of type_aliases k = Some c \<Longrightarrow> ?thesis" by (auto simp: list_all_iff dest: map_of_SomeD)
qed

lemma canonical_values_settled: "map_of canonical_names k = Some c \<Longrightarrow> settled_name c"
proof -
  have "list_all (\<lambda>(_, c). settled_name c) canonical_names" by code_simp
  then show "map_of canonical_names k = Some c \<Longrightarrow> ?thesis" by (auto simp: list_all_iff dest: map_of_SomeD)
qed

lemma settled_canonical: "validateTypeFamilySpelling n = Inr () \<Longrightarrow> settled_name (canonicalCHTypeName n)"
  using alias_values_settled canonical_values_settled
  by (auto simp: canonicalCHTypeName_def settled_name_def Let_def split: option.splits)

text \<open>A name that passes the spelling check is canonical unless it is one of the measured aliases.\<close>

lemma canonical_fixed:
  assumes "validateTypeFamilySpelling n = Inr ()" "normalize_spelling n \<notin> set measured_type_aliases"
  shows "canonicalCHTypeName n = n"
proof (cases "map_of canonical_names (normalize_spelling n)")
  case (Some c)
  with assms canonical_keys_measured [OF Some] show ?thesis
    using alias_keys_measured [of "normalize_spelling n"]
    by (auto simp: canonicalCHTypeName_def Let_def validateTypeFamilySpelling_def isMeasuredCaseInsensitiveTypeAlias_def
        split: option.splits if_splits)
next
  case None
  with assms(2) alias_keys_measured [of "normalize_spelling n"] show ?thesis
    by (auto simp: canonicalCHTypeName_def Let_def split: option.splits)
qed

section \<open>Enum literals\<close>

lemma find_rev_first: "n < length xs \<Longrightarrow> P (xs ! n) \<Longrightarrow> (\<And>i. n < i \<Longrightarrow> i < length xs \<Longrightarrow> \<not> P (xs ! i))
    \<Longrightarrow> List.find P (rev xs) = Some (xs ! n)"
proof (induction xs rule: rev_induct)
  case (snoc x xs)
  show ?case
  proof (cases "n = length xs")
    case True with snoc.prems show ?thesis by simp
  next
    case False
    with snoc.prems(1) have n: "n < length xs" by simp
    have "\<not> P x" using snoc.prems(3) [of "length xs"] n by simp
    moreover have "\<not> P (xs ! i)" if "n < i" "i < length xs" for i
      using snoc.prems(3) [of i] that by (simp add: nth_append)
    then have "List.find P (rev xs) = Some (xs ! n)"
      using snoc.prems(2) n by (intro snoc.IH) (auto simp: nth_append)
    ultimately show ?thesis using n by (simp add: nth_append)
  qed
qed simp

lemma has_equals_sign: "has_prefix s equals_sign \<Longrightarrow> Suc 0 < length s \<and> s ! Suc 0 = CHR ''=''"
  by (auto simp: has_prefix_def equals_sign_def dest!: arg_cong [where f = "\<lambda>x. (length x, x ! Suc 0)"])

lemma equals_sign_at: "has_prefix (drop i s) equals_sign \<Longrightarrow> Suc i < length s \<and> s ! Suc i = CHR ''=''"
  by (drule has_equals_sign) auto

lemma last_index_numeral:
  assumes "CHR ''='' \<notin> set v"
  shows "last_index (n @ equals_sign @ v) equals_sign = Some (length n)"
proof -
  let ?s = "n @ equals_sign @ v"
  have no: "\<not> has_prefix (drop i ?s) equals_sign" if "length n < i" "i < Suc (length ?s)" for i
  proof
    assume "has_prefix (drop i ?s) equals_sign"
    then have "?s ! Suc i = CHR ''=''" and i: "Suc i < length ?s" using equals_sign_at by blast+
    moreover have "?s ! Suc i = (equals_sign @ v) ! (Suc i - length n)" using that by (simp add: nth_append)
    moreover have "(equals_sign @ v) ! (Suc i - length n) \<noteq> CHR ''=''"
    proof (cases "Suc i - length n < 3")
      case True
      with that have "Suc i - length n = 2" by simp
      then show ?thesis by (simp add: equals_sign_def)
    next
      case False
      then have "(equals_sign @ v) ! (Suc i - length n) = v ! (Suc i - length n - 3)"
        by (simp add: equals_sign_def nth_append)
      moreover have "Suc i - length n - 3 < length v" using i False by (simp add: equals_sign_def)
      ultimately show ?thesis using assms by (metis nth_mem)
    qed
    ultimately show False by simp
  qed
  have "has_prefix (drop (length n) ?s) equals_sign" by simp
  then show ?thesis
    unfolding last_index_def
    using find_rev_first [of "length n" "[0..<Suc (length ?s)]" "\<lambda>i. has_prefix (drop i ?s) equals_sign"] no
    by (simp del: upt_Suc)
qed

lemma digit_char_not_eq: "d < 10 \<Longrightarrow> digit_char d \<noteq> CHR ''=''"
proof -
  assume "d < 10"
  moreover have "\<forall>d \<in> set [0..<10]. digit_char d \<noteq> CHR ''=''" by code_simp
  ultimately show ?thesis by simp
qed

lemma itoa_nat_not_eq: "CHR ''='' \<notin> set (itoa_nat n)"
proof (induction n rule: itoa_nat.induct)
  case (1 n)
  then show ?case using digit_char_not_eq by (subst itoa_nat.simps) (auto simp: eq_commute)
qed

lemma itoa_not_eq: "CHR ''='' \<notin> set (itoa i)"
  using itoa_nat_not_eq by (auto simp: itoa_def)

lemma enum_literals_settled:
  assumes "enum_literals name k seen vs = Inr ls"
    and "list_all (\<lambda>(_, v). case v of None \<Rightarrow> True | Some n \<Rightarrow> CHR ''='' \<notin> set n) vs"
  shows "enum_literals name' k' seen (map split_enum ls) = Inr ls"
  using assms
proof (induction name k seen vs arbitrary: ls k' rule: enum_literals.induct)
  case (2 name k seen n v vs)
  then obtain w rest where n: "n = Some w" "w \<notin> set seen" "enum_literals name (Suc k) (w # seen) vs = Inr rest"
    and ls: "ls = (w @ equals_sign @ (case v of None \<Rightarrow> itoa (int k + 1) | Some x \<Rightarrow> x)) # rest"
    by (auto split: option.splits if_splits)
  let ?v = "case v of None \<Rightarrow> itoa (int k + 1) | Some x \<Rightarrow> x"
  have "CHR ''='' \<notin> set ?v" using "2.prems"(2) itoa_not_eq by (auto split: option.splits)
  then have "split_enum (w @ equals_sign @ ?v) = (Some w, Some ?v)"
    by (simp add: split_enum_def last_index_numeral) (simp add: equals_sign_def)
  moreover have "enum_literals name' (Suc k') (w # seen) (map split_enum rest) = Inr rest"
    using n "2.prems"(2) by (intro "2.IH") auto
  ultimately show ?case using n(2) ls by simp
qed simp

lemma enum_settled:
  assumes "enum_literals name 0 [] vs = Inr ls" "validateEnumNumbers name ls = Inr ()" "name \<in> {''Enum8'', ''Enum16''}"
    and "vs \<noteq> []" "list_all (\<lambda>(_, v). case v of None \<Rightarrow> True | Some n \<Rightarrow> CHR ''='' \<notin> set n) vs"
  shows "settled_node (tyl name ls)"
proof -
  have ne: "ls \<noteq> []" using assms(1,4) by (cases "(name, 0 :: nat, [] :: string list, vs)" rule: enum_literals.cases)
      (auto split: option.splits if_splits)
  have s: "settled_name ''Enum8''" "settled_name ''Enum16''" by code_simp+
  have p: "parseEnumCHType name (map split_enum ls) = Inr (tyl name ls)"
    using assms(2,3) ne enum_literals_settled [OF assms(1,5)]
    by (auto simp: parseEnumCHType_def equal_fold_def)
  from assms(3) s p ne show ?thesis by (auto simp: settled_node_def isEnumTypeName_def)
qed

section \<open>Every parsed type prints to a declaration of itself\<close>

lemma spelled_no_space: "to_lower n = w \<Longrightarrow> \<forall>c \<in> set w. \<not> is_space c \<Longrightarrow> normalize_spelling n = w"
proof -
  assume w: "to_lower n = w" and sp: "\<forall>c \<in> set w. \<not> is_space c"
  have "is_space (lower_char c) = is_space c" for c by (cases c) (auto simp: is_space_def)
  with w sp have "\<not> is_space c" if "c \<in> set n" for c using that by (auto simp: to_lower_def)
  with w show "normalize_spelling n = w" by (simp add: normalize_spelling_word)
qed

lemma settled_datetime64: "settled_name c \<Longrightarrow> equal_fold c ''DateTime64'' \<Longrightarrow> c = ''DateTime64''"
proof -
  assume c: "settled_name c" and "equal_fold c ''DateTime64''"
  then have "normalize_spelling c = ''datetime64''"
    by (intro spelled_no_space) (simp_all add: equal_fold_def is_space_def)
  moreover have "map_of type_aliases ''datetime64'' = None" "map_of canonical_names ''datetime64'' = Some ''DateTime64''" by code_simp+
  ultimately show ?thesis using c by (simp add: settled_name_def canonicalCHTypeName_def)
qed

lemma settled_ty0: "settled_name c \<Longrightarrow> c \<noteq> ''Decimal'' \<Longrightarrow> c \<noteq> ''DateTime64'' \<Longrightarrow> settled_node (ty0 c)"
  using settled_datetime64 [of c] by (auto simp: settled_node_def settled_name_def parse_scalar_def Let_def)

lemma settled_scalar: "parse_scalar name = Inr t \<Longrightarrow> settled_node t \<and> Params t = []"
proof -
  assume a: "parse_scalar name = Inr t"
  then have v: "validateTypeFamilySpelling name = Inr ()" by (auto simp: parse_scalar_def)
  have c: "settled_node (tyl ''Decimal'' [''10'', ''0''])" "settled_node (tyl ''DateTime64'' [''3''])" by code_simp+
  have n64: "to_lower n \<noteq> ''datetime64'' \<Longrightarrow> n \<noteq> ''DateTime64''" for n by auto
  show ?thesis
    using a v c settled_ty0 [OF settled_canonical [OF v]] n64
    by (auto simp: parse_scalar_def Let_def equal_fold_def split: if_splits)
qed

lemma settled_literal:
  assumes "settled_name c" "ls \<noteq> []" "\<not> isEnumTypeName c" "parse_with_params c ls = Inr (tyl c ls)"
  shows "settled_node (tyl c ls)"
  using assms by (simp add: settled_node_def)

lemma timezone_settled:
  assumes "validateMeasuredTimezone z = Inr ()"
  shows "settled_node (tyl ''DateTime'' [z])"
proof -
  have "list_all (\<lambda>z. settled_node (tyl ''DateTime'' [z])) measured_timezones" by code_simp
  with assms show ?thesis by (auto simp: validateMeasuredTimezone_def list_all_iff split: if_splits)
qed

lemma keep_timezone_again:
  "keep_timezone ps = Inr kept \<Longrightarrow> keep_timezone kept = Inr kept \<and> kept = take (length kept) ps
     \<and> (length kept = 2 \<longrightarrow> validateMeasuredTimezone (kept ! 1) = Inr ())"
  by (auto simp: keep_timezone_def split: if_splits)

lemma datetime64_settled:
  assumes "keep_timezone ps = Inr kept" "atoi (hd ps) = Some n" "0 \<le> n" "n \<le> 9" "ps \<noteq> []" "length ps \<le> 2"
  shows "settled_node (tyl ''DateTime64'' kept)"
proof -
  have k: "kept \<noteq> []" "hd kept = hd ps" using keep_timezone_hd [OF assms(1)] assms(5) by auto
  moreover have "length kept \<le> 2" using keep_timezone_again [OF assms(1)] assms(6) by (metis length_take min.cobounded1 order_trans)
  moreover have "settled_name ''DateTime64''" by code_simp
  ultimately show ?thesis
    using assms keep_timezone_again [OF assms(1)]
    by (intro settled_literal)
      (auto simp: isEnumTypeName_def parse_with_params_def settled_name_def equal_fold_def canonicalParameterizedDateTime_def)
qed

lemma date_time_settled:
  assumes "canonicalParameterizedDateTime name ps = Inr t"
  shows "settled_node t \<and> Params t = []"
proof (cases "ps = []")
  case True
  have "settled_node (tyl ''DateTime64'' [''3''])" "settled_node (ty0 ''DateTime'')" by code_simp+
  with True assms show ?thesis by (auto simp: canonicalParameterizedDateTime_def split: if_splits)
next
  case False
  have d: "settled_node (ty0 ''DateTime'')" by code_simp
  show ?thesis
  proof (cases "atoi (hd ps)")
    case None
    with False assms have "validateMeasuredTimezone (hd ps) = Inr ()" "t = tyl ''DateTime'' [hd ps]"
      by (auto simp: canonicalParameterizedDateTime_def Let_def take_Suc split: if_splits)
    with timezone_settled show ?thesis by simp
  next
    case (Some n)
    with False assms obtain kept where k: "keep_timezone ps = Inr kept" "0 \<le> n" "n \<le> 9" "length ps \<le> 2"
      "t = tyl ''DateTime64'' kept \<or> length kept = 2 \<and> t = tyl ''DateTime'' (drop 1 kept) \<or> t = ty0 ''DateTime''"
      by (auto simp: canonicalParameterizedDateTime_def Let_def split: if_splits)
    moreover have "settled_node (tyl ''DateTime'' (drop 1 kept))" if "length kept = 2"
    proof -
      from that obtain a z where az: "kept = [a, z]" by (auto simp: list_of_length_two)
      then have "validateMeasuredTimezone z = Inr ()" using keep_timezone_again [OF k(1)] by simp
      then show ?thesis unfolding az by (simp add: timezone_settled)
    qed
    ultimately show ?thesis using d datetime64_settled [OF k(1) Some _ _ False] by auto
  qed
qed

lemma fallthrough_name:
  assumes "validateTypeFamilySpelling name = Inr ()" "normalize_spelling name = to_lower name"
    and "\<not> equal_fold name ''DateTime''" "\<not> equal_fold name ''DateTime64''" "floatAliasCanonicalName name = None"
    and "canonicalCHTypeName name \<noteq> ''Decimal''" "canonicalCHTypeName name \<noteq> ''Bool''" "\<not> isIntegerTypeAlias name"
  shows "canonicalCHTypeName name = name"
proof (rule canonical_fixed [OF assms(1)])
  have cells: "\<forall>k \<in> set measured_type_aliases. k = ''datetime'' \<or> k = ''datetime64''
      \<or> k \<in> {''float'', ''real'', ''single''} \<or> k \<in> {''double'', ''double precision''}
      \<or> map_of type_aliases k = Some ''Decimal'' \<or> map_of type_aliases k = None \<and> map_of canonical_names k = Some ''Decimal''
      \<or> map_of type_aliases k = Some ''Bool'' \<or> k \<in> set integer_aliases"
    by code_simp
  let ?k = "normalize_spelling name"
  have "?k \<noteq> ''datetime''" "?k \<noteq> ''datetime64''" using assms(2-4) by (auto simp: equal_fold_def)
  moreover have "?k \<notin> {''float'', ''real'', ''single''}" "?k \<notin> {''double'', ''double precision''}"
    using assms(5) by (auto simp only: floatAliasCanonicalName_def Let_def split: if_split_asm)
  moreover have "map_of type_aliases ?k \<noteq> Some ''Decimal''" "map_of type_aliases ?k \<noteq> Some ''Bool''"
    "\<not> (map_of type_aliases ?k = None \<and> map_of canonical_names ?k = Some ''Decimal'')"
    using assms(6,7) by (auto simp only: canonicalCHTypeName_def Let_def option.case)
  moreover have "?k \<notin> set integer_aliases" using assms(8) by (simp only: isIntegerTypeAlias_def simp_thms)
  ultimately show "?k \<notin> set measured_type_aliases" using cells by blast
qed

lemma plain_enum_settled:
  assumes "parse_plain_enum name ls = Inr t" "name \<in> {''Enum8'', ''Enum16''}"
  shows "settled_node t \<and> Params t = []"
proof -
  have "list_all (\<lambda>(_, v). case v of None \<Rightarrow> True | Some n \<Rightarrow> CHR ''='' \<notin> set n) (map (\<lambda>p. (Some p, None)) ls)"
    by (simp add: list_all_iff)
  with assms show ?thesis using enum_settled [of name "map (\<lambda>p. (Some p, None)) ls"]
    by (auto simp: parse_plain_enum_def split: if_splits)
qed

lemma parsed_enum_settled:
  assumes "parseEnumCHType name vs = Inr t" "name \<in> {''Enum'', ''Enum8'', ''Enum16''}"
    and "list_all (\<lambda>(_, v). case v of None \<Rightarrow> True | Some n \<Rightarrow> CHR ''='' \<notin> set n) vs"
  shows "settled_node t \<and> Params t = []"
proof -
  from assms(1,2) have "name \<in> {''Enum8'', ''Enum16''}" by (auto simp: parseEnumCHType_def)
  with assms show ?thesis using enum_settled [of name vs] by (auto simp: parseEnumCHType_def split: if_splits)
qed

lemma decimal_settled: "parse_decimal ls = Inr t \<Longrightarrow> settled_node t \<and> Params t = []"
proof -
  assume a: "parse_decimal ls = Inr t"
  then obtain ps where t: "t = tyl ''Decimal'' ps" "length ps = 2" and p: "parse_decimal ps = Inr t"
    by (auto simp: parse_decimal_def Let_def split: if_splits option.splits)
  have c: "canonicalCHTypeName ''Decimal'' = ''Decimal''" "validateTypeFamilySpelling ''Decimal'' = Inr ()"
    "floatAliasCanonicalName ''Decimal'' = None" by code_simp+
  from t(2) have "ps \<noteq> []" by auto
  with p c t(1) show ?thesis
    using settled_literal [of "''Decimal''" ps] by (auto simp: settled_name_def isEnumTypeName_def parse_with_params_def equal_fold_def)
qed

lemma fixed_string_settled: "parse_fixed_string ls = Inr t \<Longrightarrow> settled_node t \<and> Params t = []"
proof -
  assume a: "parse_fixed_string ls = Inr t"
  then have t: "t = tyl ''FixedString'' ls" "length ls = 1"
    by (auto simp: parse_fixed_string_def Let_def split: if_splits option.splits)
  have c: "canonicalCHTypeName ''FixedString'' = ''FixedString''" "validateTypeFamilySpelling ''FixedString'' = Inr ()"
    "floatAliasCanonicalName ''FixedString'' = None" by code_simp+
  from t(2) have "ls \<noteq> []" by auto
  with a c t(1) show ?thesis
    using settled_literal [of "''FixedString''" ls] by (auto simp: settled_name_def isEnumTypeName_def parse_with_params_def equal_fold_def)
qed

lemma with_params_settled:
  assumes a: "parse_with_params name ls = Inr t" and sp: "normalize_spelling name = to_lower name"
  shows "settled_node t \<and> Params t = []"
proof -
  let ?c = "canonicalCHTypeName name"
  from a have v: "validateTypeFamilySpelling name = Inr ()" by (auto simp: parse_with_params_def)
  note prems = a [unfolded parse_with_params_def Let_def v bind_res_simps]
  show ?thesis
  proof (cases "isEnumTypeName name")
    case e: True
    then have "name \<in> {''Enum'', ''Enum8'', ''Enum16''}" by (rule enum_name) (fact v, fact sp)
    with prems e have "name \<in> {''Enum8'', ''Enum16''}" "parse_plain_enum name ls = Inr t"
      by (auto simp: equal_fold_def split: if_split_asm)
    then show ?thesis using plain_enum_settled by blast
  next
    case e: False
    then have ne: "\<not> equal_fold name ''Enum''" by (simp add: isEnumTypeName_def equal_fold_def)
    show ?thesis
    proof (cases "equal_fold name ''DateTime'' \<or> equal_fold name ''DateTime64''")
      case True
      with prems e ne have "canonicalParameterizedDateTime name ls = Inr t" by simp
      then show ?thesis using date_time_settled by blast
    next
      case d: False
      note prems = prems [unfolded if_not_P [OF e] if_not_P [OF ne] if_not_P [OF d]]
      show ?thesis
      proof (cases "floatAliasCanonicalName name")
        case (Some c)
        have "settled_node (ty0 ''Float32'')" "settled_node (ty0 ''Float64'')" by code_simp+
        moreover have "t = ty0 c" using prems Some by (simp split: if_split_asm)
        ultimately show ?thesis using Some by (auto simp: floatAliasCanonicalName_def Let_def split: if_splits)
      next
        case None
        note prems = prems [unfolded None option.case]
        have c64: "?c \<noteq> ''DateTime64''"
          using canonical_word [of name "''DateTime64''"] sp d by (auto simp: equal_fold_def)
        consider "?c = ''Decimal''" | "?c = ''FixedString''" | "?c \<noteq> ''Decimal''" "t = ty0 ?c"
          | "?c \<noteq> ''Decimal''" "?c \<noteq> ''Bool''" "\<not> isIntegerTypeAlias name" "t = tyl ?c ls"
          using prems by (simp split: if_split_asm)
        then show ?thesis
        proof cases
          case 1 with prems show ?thesis using decimal_settled by simp
        next
          case 2 with prems show ?thesis using fixed_string_settled by simp
        next
          case 3 with c64 settled_ty0 [OF settled_canonical [OF v]] show ?thesis by simp
        next
          case 4
          show ?thesis
          proof (cases "ls = []")
            case True with 4 c64 settled_ty0 [OF settled_canonical [OF v]] show ?thesis by simp
          next
            case False
            have n: "?c = name" using 4 d None v sp by (intro fallthrough_name) auto
            with a 4 False e settled_canonical [OF v] settled_literal [of name ls] show ?thesis by simp
          qed
        qed
      qed
    qed
  qed
qed

lemma tuple_not_nested: "to_lower ''Tuple'' \<noteq> to_lower ''Nested''" by simp

lemma parse_settled:
  "parseCHType a = Inr t \<Longrightarrow> tree_ok a \<Longrightarrow> all_nodes settled_node t"
  "parse_element e = Inr pn \<Longrightarrow> element_ok e \<Longrightarrow> all_nodes settled_node (fst pn) \<and> snd pn \<noteq> Some []"
proof (induction a and e arbitrary: t and pn rule: parseCHType_parse_element.induct)
  case (1 name)
  then show ?case using settled_scalar [of name t] by (simp add: all_nodes_iff [of _ t])
next
  case (2 name params)
  then show ?case using with_params_settled [of name params t] by (simp add: all_nodes_iff [of _ t])
next
  case (3 name vs)
  then show ?case using parsed_enum_settled [of name vs t] by (auto simp: all_nodes_iff [of _ t])
next
  case (4 name)
  then show ?case using settled_ty0 [OF settled_canonical [of name]] by (auto simp: literal_names_def)
next
  case (5 name)
  then show ?case using settled_ty0 [OF settled_canonical [of name]] by (auto simp: literal_names_def)
next
  case (6 name params)
  then obtain ps where ps: "map_res parseCHType params = Inr ps" "finish_params name ps = Inr t"
    and v: "validateTypeFamilySpelling name = Inr ()" by auto
  have l: "list_all (all_nodes settled_node) ps"
    by (rule map_res_all [OF ps(1)]) (use 6 in \<open>auto simp: list_all_iff\<close>)
  have t: "t = ty1 (canonicalCHTypeName name) ps" using ps(2) by (auto simp: finish_params_def Let_def split: if_splits)
  have "settled_node t"
  proof (cases "ps = []")
    case True
    with t 6 settled_ty0 [OF settled_canonical [OF v]] show ?thesis by (auto simp: literal_names_def)
  next
    case False
    with t ps(2) settled_canonical [OF v] show ?thesis
      by (auto simp: settled_node_def finish_params_def Let_def split: if_splits)
  qed
  with l t show ?case by simp
next
  case (7 name elements)
  then obtain es u where es: "map_res parse_element elements = Inr es" "finish_tuple name es = Inr u"
    "t = (if \<not> equal_fold name ''Nested'' then u else ty1 ''Array'' [CHType ''Tuple'' (Params u) (LiteralParams u) (ParamNames u)])"
    by auto
  have l: "list_all (\<lambda>e. all_nodes settled_node (fst e) \<and> snd e \<noteq> Some []) es"
    by (rule map_res_all [OF es(1)]) (use 7 in \<open>auto simp: list_all_iff\<close>)
  have ex: "list_ex (\<lambda>l. l \<noteq> []) (map (\<lambda>e. case snd e of None \<Rightarrow> [] | Some n \<Rightarrow> n) es)" if "list_ex (\<lambda>e. snd e \<noteq> None) es"
    using that l by (induction es) (auto split: option.splits)
  have u: "u = CHType name (Params u) (LiteralParams u) (ParamNames u)"
    and d: "all_nodes settled_node (CHType ''Tuple'' (Params u) (LiteralParams u) (ParamNames u))"
    using es(2) l ex by (auto simp: finish_tuple_def settled_node_def list_all_iff split: if_splits)
  have a: "settled_node (ty1 ''Array'' [p])" for p using settled_builtin by (simp add: settled_node_def equal_fold_def)
  from 7 have c: "name = ''Tuple'' \<or> name = ''Nested''" by simp
  then show ?case
  proof
    assume "name = ''Tuple''"
    with d u es(3) show ?thesis by (metis equal_fold_def tuple_not_nested)
  next
    assume "name = ''Nested''"
    with d es(3) a show ?thesis by (simp add: equal_fold_def)
  qed
qed (auto split: option.splits)

section \<open>The text of a declaration\<close>

fun print_tree :: "col_type \<Rightarrow> string" and print_element :: "nested_element \<Rightarrow> string" where
  "print_tree (ScalarType n) = n"
| "print_tree (TypeWithParams n ls) = n @ ''('' @ join '', '' ls @ '')''"
| "print_tree (EnumType n vs) = n @ ''('' @ join '', '' (map (\<lambda>(w, v). case_option [] id w @ (case v of None \<Rightarrow> [] | Some x \<Rightarrow> equals_sign @ x)) vs) @ '')''"
| "print_tree (JSONType n) = n"
| "print_tree (PropertyType n) = n"
| "print_tree (ComplexType n ps) = n @ ''('' @ join '', '' (map print_tree ps) @ '')''"
| "print_tree (NestedType n es) = n @ ''('' @ join '', '' (map print_element es) @ '')''"
| "print_tree (OtherType k) = []"
| "print_element (ElementDef n t) = case_option [] id n @ '' '' @ case_option [] print_tree t"
| "print_element (ElementType t) = print_tree t"
| "print_element (ElementOther k) = []"

lemma last_index_SomeD: "last_index l pat = Some i \<Longrightarrow> has_prefix (drop i l) pat"
  unfolding last_index_def by (auto simp only: find_Some_iff)

lemma print_enum_literal:
  assumes "check_enum_numbers name lo hi seen ls = Inr ()" "l \<in> set ls"
  shows "(\<lambda>(w, v). case_option [] id w @ (case v of None \<Rightarrow> [] | Some x \<Rightarrow> equals_sign @ x)) (split_enum l) = l"
proof -
  have "\<exists>i. last_index l equals_sign = Some i"
    using assms by (induction ls arbitrary: seen) (auto split: option.splits if_splits)
  then obtain i where i: "last_index l equals_sign = Some i" by blast
  then have "take 3 (drop i l) = equals_sign"
    using last_index_SomeD [OF i] by (simp add: has_prefix_def equals_sign_def numeral_3_eq_3)
  then have "drop i l = equals_sign @ drop (i + 3) l" by (metis append_take_drop_id add.commute drop_drop)
  then have "take i l @ equals_sign @ drop (i + 3) l = l" by (metis append_take_drop_id)
  with i show ?thesis by (simp add: split_enum_def)
qed

lemma settled_enum_numbers:
  assumes "settled_node t" "Params t = []" "LiteralParams t \<noteq> []" "isEnumTypeName (Name t)"
  shows "map (\<lambda>l. (\<lambda>(w, v). case_option [] id w @ (case v of None \<Rightarrow> [] | Some x \<Rightarrow> equals_sign @ x)) (split_enum l)) (LiteralParams t)
    = LiteralParams t"
proof -
  from assms have "parseEnumCHType (Name t) (map split_enum (LiteralParams t)) = Inr t" by (simp add: settled_node_def)
  then have "validateEnumNumbers (Name t) (LiteralParams t) = Inr ()"
    by (auto simp: parseEnumCHType_def split: if_splits dest!: arg_cong [where f = LiteralParams])
  then show ?thesis using print_enum_literal
    by (intro map_idI) (auto simp: validateEnumNumbers_def split: if_splits)
qed

lemma print_tree_of: "all_nodes settled_node t \<Longrightarrow> print_tree (tree_of t) = to_string t"
proof (induction t)
  case (CHType n ps ls ns)
  then have IH: "print_tree (tree_of p) = to_string p" if "p \<in> set ps" for p
    using that by (auto simp: list_all_iff)
  have node: "settled_node (CHType n ps ls ns)" using CHType.prems by simp
  show ?case
  proof (cases "ps = []")
    case True
    with node settled_enum_numbers [OF node] show ?thesis by (auto simp: comp_def)
  next
    case ne: False
    let ?ls = "ns @ replicate (length ps) []"
    have e: "map print_element (map (\<lambda>(p, l). if l = [] then ElementType p else ElementDef (Some l) (Some p)) (zip (map tree_of ps) ms))
        = map (\<lambda>(s, nm). param_label s nm) (zip (map to_string ps) ms)" for ms
      using IH by (induction ps arbitrary: ms; case_tac ms) (auto simp: param_label_def)
    have l: "ls = []" "n \<noteq> ''Tuple'' \<Longrightarrow> ns = []" using node ne by (auto simp: settled_node_def)
    have m: "map (\<lambda>(s, nm). param_label s nm) (zip (map to_string ps) (replicate (length ps) [])) = map print_tree (map tree_of ps)"
      using IH by (auto intro!: nth_equalityI simp: param_label_def)
    show ?thesis using ne l m e [of ?ls] by (simp del: map_map)
  qed
qed

definition sample_declaration :: col_type where
  "sample_declaration = NestedType ''Nested''
     [ElementDef (Some ''k'') (Some (EnumType ''Enum8'' [(Some (quoted ''a''), Some ''-3''), (Some (quoted ''b''), None)])),
      ElementDef (Some ''v'') (Some (ComplexType ''Array'' [TypeWithParams ''NUMERIC'' [''20'', ''4'']])),
      ElementDef (Some ''t'') (Some (TypeWithParams ''DateTime'' [''6'', quoted ''UTC'']))]"



text \<open>
  C11. Printing and parsing again: the text of a parsed type (\<^verbatim>\<open>CHType.String\<close>) is the text of a
  declaration that parses to the same type. Aliases, omitted parameters, plain Enum lists and Nested
  are settled by the first parse, and no information is lost by printing.
\<close>
theorem parsed_type_declares_itself:
  assumes "parseCHType a = Inr t" "tree_ok a"
  shows "print_tree (tree_of t) = to_string t \<and> parseCHType (tree_of t) = Inr t"
  using parse_settled(1) [OF assms] by (simp add: reparse print_tree_of)

theorem parsed_type_declares_itself_witness:
  "\<exists>t. parseCHType sample_declaration = Inr t \<and> print_tree (tree_of t) = to_string t \<and> parseCHType (tree_of t) = Inr t"
proof -
  have "is_ok (parseCHType sample_declaration)" "tree_ok sample_declaration" by code_simp+
  then have "\<exists>t. parseCHType sample_declaration = Inr t" "tree_ok sample_declaration" by (simp_all add: is_ok_iff)
  then show ?thesis using parsed_type_declares_itself [of sample_declaration] by blast
qed

end
