(* ===== verification/Catalog.thy ===== *)
theory Catalog
  imports TypeParser
begin

text \<open>
  The schema catalog (\<^verbatim>\<open>schema.go\<close>, \<^verbatim>\<open>catalog.go\<close>, \<^verbatim>\<open>catalog_exchange.go\<close>): physical and external
  tables as maps from names, the DDL statements that change them, and the refusals. Statements are
  what the code reads of the SQL parser's syntax trees; an expression that the code formats back to
  SQL is its text. A state is a value: the code copies a table where two names could share it, and an
  error discards the whole load.
\<close>

section \<open>State\<close>

record column =
  column_name :: string
  column_type :: chtype
  insertable :: bool
  default_expr :: string
  materialized_expr :: string
  alias_expr :: string
  codec_text :: string
  comment_text :: string
  ttl_text :: string

text \<open>The nil and the empty settings map are one map here: the code reads them alike.\<close>

record table_engine =
  engine_name :: string
  engine_params :: "string list"
  order_by :: "string list"
  partition_by :: string
  primary_key :: string
  sample_by :: string
  engine_ttl :: string
  engine_settings :: "string \<rightharpoonup> string"

record table =
  table_name :: string
  table_file :: string
  table_line :: nat
  columns :: "string \<rightharpoonup> column"
  column_order :: "string list"
  table_engine :: "table_engine option"

record schema_catalogs =
  physical :: "string \<rightharpoonup> table"
  external :: "string \<rightharpoonup> table"

definition migrationsTableName :: string where "migrationsTableName = ''schema_migrations''"

section \<open>What the code reads of a statement\<close>

record table_identifier =
  ident_database :: "string option"
  ident_table :: "string option"

record column_def =
  def_name :: "(string \<times> string option) option"
  def_type :: "col_type option"
  def_default :: "string option"
  def_materialized :: "string option"
  def_alias :: "string option"
  def_codec :: "string option"
  def_comment :: "string option"
  def_ttl :: "string option"

text \<open>An expression of the engine clause; \<open>EText\<close> and the text of \<open>EOrder\<close> are formatted SQL.\<close>

datatype engine_expr =
    ENil
  | EIdent string
  | EOrder engine_expr string
  | EColumn engine_expr
  | EParams "engine_expr list option"
  | EList "engine_expr list"
  | EText string

record engine_clause =
  clause_name :: string
  clause_params :: "engine_expr list option"
  clause_order_by :: "engine_expr list option"
  clause_partition_by :: "string option"
  clause_primary_key :: "string option"
  clause_sample_by :: "string option"
  clause_ttl :: "string option"
  clause_settings :: "(string \<times> string) list option"

text \<open>The elements of a column list; \<open>None\<close> is an index, a constraint or a projection.\<close>

record table_schema =
  schema_alias :: "string option"
  schema_function :: bool
  schema_columns :: "column_def option list"

record create_table =
  create_pos :: nat
  create_name :: "string option"
  create_schema :: "table_schema option"
  create_engine :: "engine_clause option"
  if_not_exists :: bool

datatype alter_clause =
    AddColumn (add_def: "column_def option") (add_if_not_exists: bool) (add_after: "string option")
  | ModifyColumn (modify_def: "column_def option") (modify_if_exists: bool)
  | DropColumn (drop_column: "string option") (drop_if_exists: bool)
  | RemoveTTL
  | ModifySetting "(string \<times> string) list"
  | ResetSetting "string list"
  | OtherAlter string

datatype drop_target = DropTable | DropView | DropOther

record drop_stmt =
  drop_pos :: nat
  drop_name :: "string option"
  drop_target :: drop_target
  drop_type_text :: string
  if_exists :: bool

record rename_pair =
  pair_pos :: nat
  pair_old :: "table_identifier option"
  pair_new :: "table_identifier option"

record rename_stmt =
  rename_pos :: nat
  rename_is_table :: bool
  rename_type_text :: string
  rename_pairs :: "rename_pair option list"

section \<open>The engine clause\<close>

definition trim_prefix :: "string \<Rightarrow> string \<Rightarrow> string" where
  "trim_prefix s pre = (if has_prefix s pre then drop (length pre) s else s)"

definition catalog_text :: "string option \<Rightarrow> string" where
  "catalog_text expression = (case expression of None \<Rightarrow> [] | Some sql \<Rightarrow> sql)"

fun engineExprText :: "engine_expr \<Rightarrow> string" where
  "engineExprText ENil = []"
| "engineExprText (EIdent name) = name"
| "engineExprText (EColumn e) = engineExprText e"
| "engineExprText (EParams None) = []"
| "engineExprText (EParams (Some items)) = join '', '' (map engineExprText items)"
| "engineExprText (EList items) = join '', '' (map engineExprText items)"
| "engineExprText (EOrder e sql) = sql"
| "engineExprText (EText sql) = sql"

fun engineSortKeyTerms :: "engine_expr \<Rightarrow> string list" where
  "engineSortKeyTerms ENil = []"
| "engineSortKeyTerms (EOrder e sql) = engineSortKeyTerms e"
| "engineSortKeyTerms (EColumn e) = engineSortKeyTerms e"
| "engineSortKeyTerms (EParams None) = []"
| "engineSortKeyTerms (EParams (Some items)) = concat (map engineSortKeyTerms items)"
| "engineSortKeyTerms (EList items) = concat (map engineSortKeyTerms items)"
| "engineSortKeyTerms (EIdent name) = [engineExprText (EIdent name)]"
| "engineSortKeyTerms (EText sql) = [engineExprText (EText sql)]"

definition ttl_of :: "string option \<Rightarrow> string" where
  "ttl_of ttl = (case ttl of None \<Rightarrow> [] | Some sql \<Rightarrow> trim_prefix sql ''TTL '')"

definition set_settings :: "(string \<times> string) list \<Rightarrow> (string \<rightharpoonup> string) \<Rightarrow> (string \<rightharpoonup> string)" where
  "set_settings items settings = fold (\<lambda>(name, value) m. m(name \<mapsto> value)) items settings"

definition parseTableEngine :: "engine_clause \<Rightarrow> table_engine" where
  "parseTableEngine engine = \<lparr>
     engine_name = clause_name engine,
     engine_params = (case clause_params engine of None \<Rightarrow> [] | Some items \<Rightarrow> map engineExprText items),
     order_by = (case clause_order_by engine of None \<Rightarrow> [] | Some items \<Rightarrow> concat (map engineSortKeyTerms items)),
     partition_by = catalog_text (clause_partition_by engine),
     primary_key = catalog_text (clause_primary_key engine),
     sample_by = catalog_text (clause_sample_by engine),
     engine_ttl = ttl_of (clause_ttl engine),
     engine_settings = (case clause_settings engine of None \<Rightarrow> Map.empty | Some items \<Rightarrow> set_settings items Map.empty)\<rparr>"

section \<open>Column definitions and CREATE TABLE\<close>

definition parseColumnDefWithType :: "(col_type \<Rightarrow> chtype result) \<Rightarrow> string \<Rightarrow> column_def \<Rightarrow> column result" where
  "parseColumnDefWithType parseType tableName columnDef = (case def_name columnDef of
       None \<Rightarrow> Inl (Errorf ''table %s contains a column without a name'' [tableName])
     | Some (ident, dot) \<Rightarrow> (case def_type columnDef of
         None \<Rightarrow> Inl (Errorf ''column %s.%s has no type'' [tableName, ident])
       | Some typeAST \<Rightarrow>
           let columnName = (case dot of None \<Rightarrow> ident | Some d \<Rightarrow> ident @ ''.'' @ d) in
           case parseType typeAST of
             Inl err \<Rightarrow> Inl (Wrapf ''column %s.%s: %w'' [tableName, columnName] err)
           | Inr columnType \<Rightarrow> Inr \<lparr>
               column_name = columnName, column_type = columnType,
               insertable = (def_materialized columnDef = None \<and> def_alias columnDef = None),
               default_expr = catalog_text (def_default columnDef),
               materialized_expr = catalog_text (def_materialized columnDef),
               alias_expr = catalog_text (def_alias columnDef),
               codec_text = catalog_text (def_codec columnDef),
               comment_text = catalog_text (def_comment columnDef),
               ttl_text = ttl_of (def_ttl columnDef)\<rparr>))"

definition parseColumnDef :: "string \<Rightarrow> column_def \<Rightarrow> column result" where
  "parseColumnDef = parseColumnDefWithType parseCHType"

text \<open>One element of the column list, and the whole list.\<close>

definition add_definition ::
    "(col_type \<Rightarrow> chtype result) \<Rightarrow> string \<Rightarrow> column_def option
     \<Rightarrow> (string \<rightharpoonup> column) \<times> string list \<Rightarrow> ((string \<rightharpoonup> column) \<times> string list) result" where
  "add_definition parseType tableName expression cols = (case expression of
       None \<Rightarrow> Inr cols
     | Some columnDef \<Rightarrow> bind_res (parseColumnDefWithType parseType tableName columnDef) (\<lambda>column.
         if fst cols (column_name column) \<noteq> None
         then Inl (Errorf ''duplicate column %s.%s'' [tableName, column_name column])
         else Inr ((fst cols)(column_name column \<mapsto> column), snd cols @ [column_name column])))"

definition parseCreateTableWithType :: "(col_type \<Rightarrow> chtype result) \<Rightarrow> create_table \<Rightarrow> table result" where
  "parseCreateTableWithType parseType createTable = (case create_name createTable of
       None \<Rightarrow> Inl (Errorf ''CREATE TABLE has no table name'' [])
     | Some tableName \<Rightarrow> (case create_schema createTable of
         None \<Rightarrow> Inl (Errorf ''CREATE TABLE %s has no column list'' [tableName])
       | Some schema \<Rightarrow>
           if schema_alias schema \<noteq> None \<or> schema_function schema
           then Inl (Errorf ''CREATE TABLE %s requires catalog resolution of its source'' [tableName])
           else bind_res (fold_res (add_definition parseType tableName) (schema_columns schema) (Map.empty, [])) (\<lambda>cols.
             Inr \<lparr>table_name = tableName, table_file = [], table_line = 0, columns = fst cols, column_order = snd cols,
                  table_engine = map_option parseTableEngine (create_engine createTable)\<rparr>)))"

definition parseCreateTable :: "create_table \<Rightarrow> table result" where
  "parseCreateTable = parseCreateTableWithType parseCHType"

section \<open>References to other databases\<close>

text \<open>The table identifiers in the order of the walk; the first forbidden one decides.\<close>

definition checkQueryQualifiedReferences :: "table_identifier list \<Rightarrow> bool \<Rightarrow> unit result" where
  "checkQueryQualifiedReferences identifiers allowSystem =
     (case List.find (\<lambda>i. ident_database i \<noteq> None \<and> ident_table i \<noteq> None \<and> \<not> (ident_database i = Some ''system'' \<and> allowSystem))
        identifiers of
       None \<Rightarrow> Inr ()
     | Some i \<Rightarrow>
         let database = catalog_text (ident_database i); name = catalog_text (ident_table i) in
         Inl (if database = ''system''
              then Errorf ''system tables are read-only; qualified reference system.%s is not allowed in this operation'' [name]
              else if database = ''__DATABASE__''
              then Errorf ''__DATABASE__ was removed; the database comes from the connection (clickhouse Auth.Database); use the unqualified name %s'' [name]
              else Errorf ''qualified reference %s.%s is not allowed; the database comes from the connection; use the unqualified name %s''
                     [database, name, name]))"

definition checkQualifiedReferences :: "table_identifier list \<Rightarrow> unit result" where
  "checkQualifiedReferences identifiers = checkQueryQualifiedReferences identifiers False"

section \<open>CREATE TABLE in the catalogs\<close>

definition at_line :: "string \<Rightarrow> nat \<Rightarrow> string list" where
  "at_line path line = [path, itoa (int line)]"

definition located :: "string \<Rightarrow> nat \<Rightarrow> 'a result \<Rightarrow> 'a result" where
  "located path line r = (case r of Inl err \<Rightarrow> Inl (Wrapf ''%s:%d: %w'' (at_line path line) err) | Inr x \<Rightarrow> Inr x)"

definition applyExternalCreate :: "schema_catalogs \<Rightarrow> string \<Rightarrow> nat \<Rightarrow> create_table \<Rightarrow> schema_catalogs result" where
  "applyExternalCreate catalogs path line statement =
     (if (case create_schema statement of None \<Rightarrow> False | Some schema \<Rightarrow> schema_alias schema \<noteq> None)
      then Inl (Errorf ''%s:%d: external schema must declare an explicit column list; CREATE TABLE AS is not supported'' (at_line path line))
      else bind_res (located path line (parseCreateTable statement)) (\<lambda>table.
        if create_engine statement \<noteq> None
        then Inl (Errorf ''%s:%d: external schema %q must not declare ENGINE/ORDER BY/PARTITION BY/TTL; an external schema is a column list only''
                    (at_line path line @ [table_name table]))
        else case physical catalogs (table_name table) of
          Some other \<Rightarrow> Inl (Errorf ''%s:%d: external schema %q collides with physical table %q declared at %s:%d; rename one of them''
                          (at_line path line @ [table_name table, table_name other] @ at_line (table_file other) (table_line other)))
        | None \<Rightarrow> (case external catalogs (table_name table) of
            Some previous \<Rightarrow> Inl (Errorf ''%s:%d: duplicate CREATE TABLE %q; first declared at %s:%d''
                          (at_line path line @ [table_name table] @ at_line (table_file previous) (table_line previous)))
          | None \<Rightarrow> Inr (catalogs\<lparr>external := (external catalogs)
                (table_name table \<mapsto> table\<lparr>table_file := path, table_line := line\<rparr>)\<rparr>))))"

text \<open>CREATE TABLE AS copies the source; a MergeTree engine clause keeps the source's keys it omits.\<close>

definition inherit_engine :: "table_engine option \<Rightarrow> engine_clause \<Rightarrow> table_engine" where
  "inherit_engine source clause =
     (let engine = parseTableEngine clause in
      case source of
        None \<Rightarrow> engine
      | Some old \<Rightarrow>
          if has_suffix (engine_name engine) ''MergeTree'' then
            engine\<lparr>order_by := (if clause_order_by clause = None then order_by old else order_by engine),
                   partition_by := (if clause_partition_by clause = None then partition_by old else partition_by engine),
                   primary_key := (if clause_primary_key clause = None then primary_key old else primary_key engine),
                   sample_by := (if clause_sample_by clause = None then sample_by old else sample_by engine)\<rparr>
          else engine)"

definition copy_table :: "schema_catalogs \<Rightarrow> string \<Rightarrow> nat \<Rightarrow> string \<Rightarrow> string \<Rightarrow> create_table \<Rightarrow> table result" where
  "copy_table catalogs path line name sourceName statement = (case physical catalogs sourceName of
       None \<Rightarrow> Inl (Errorf ''%s:%d: CREATE TABLE %s AS targets unknown source table %q'' (at_line path line @ [name, sourceName]))
     | Some source \<Rightarrow> Inr (source\<lparr>table_name := name,
           table_engine := (case create_engine statement of
               None \<Rightarrow> table_engine source
             | Some clause \<Rightarrow> Some (inherit_engine (table_engine source) clause))\<rparr>))"

text \<open>\<open>references\<close> are the table identifiers that the walk over the statement meets.\<close>

definition applyPhysicalCreate ::
    "schema_catalogs \<Rightarrow> string \<Rightarrow> nat \<Rightarrow> table_identifier list \<Rightarrow> create_table \<Rightarrow> schema_catalogs result" where
  "applyPhysicalCreate catalogs path line references statement = (case create_name statement of
       None \<Rightarrow> Inl (Errorf ''%s:%d: CREATE TABLE has no table name'' (at_line path line))
     | Some name \<Rightarrow>
         if name = migrationsTableName then Inr catalogs
         else bind_res (located path line (checkQualifiedReferences references)) (\<lambda>_.
           case external catalogs name of
             Some ext \<Rightarrow> Inl (Errorf ''%s:%d: external schema %q collides with physical table %q declared at %s:%d; rename one of them''
                           (at_line (table_file ext) (table_line ext) @ [table_name ext, name] @ at_line path line))
           | None \<Rightarrow> (case physical catalogs name of
               Some previous \<Rightarrow>
                 if if_not_exists statement then Inr catalogs
                 else Inl (Errorf ''%s:%d: duplicate CREATE TABLE %q; first declared at %s:%d''
                             (at_line path line @ [name] @ at_line (table_file previous) (table_line previous)))
             | None \<Rightarrow>
                 bind_res (case create_schema statement of
                     Some schema \<Rightarrow> (case schema_alias schema of
                         Some sourceName \<Rightarrow> copy_table catalogs path line name sourceName statement
                       | None \<Rightarrow> located path line (parseCreateTable statement))
                   | None \<Rightarrow> located path line (parseCreateTable statement))
                 (\<lambda>table. Inr (catalogs\<lparr>physical := (physical catalogs)
                     (table_name table \<mapsto> table\<lparr>table_file := path, table_line := line\<rparr>)\<rparr>)))))"

section \<open>DROP and RENAME\<close>

text \<open>\<^verbatim>\<open>lineOfOffset\<close>: the line that a byte offset is on, counted from one.\<close>

definition lineOfOffset :: "string \<Rightarrow> nat \<Rightarrow> nat" where
  "lineOfOffset content offset = 1 + length (filter (\<lambda>c. c = char_of (10 :: nat)) (take offset content))"

definition applyCatalogDrop :: "schema_catalogs \<Rightarrow> string \<Rightarrow> nat \<Rightarrow> drop_stmt \<Rightarrow> schema_catalogs result" where
  "applyCatalogDrop catalogs path line statement = (case drop_name statement of
       None \<Rightarrow> Inl (Errorf ''%s:%d: %s has no object name'' (at_line path line @ [drop_type_text statement]))
     | Some tableName \<Rightarrow> (case drop_target statement of
         DropView \<Rightarrow> Inr catalogs
       | DropOther \<Rightarrow> Inl (Errorf ''%s:%d: %s is not supported; supported DROP operations: DROP TABLE, DROP VIEW''
                        (at_line path line @ [drop_type_text statement]))
       | DropTable \<Rightarrow>
           if tableName = migrationsTableName then Inr catalogs
           else if external catalogs tableName \<noteq> None
           then Inl (Errorf ''%s:%d: DROP TABLE %q targets an external schema; remove or edit its CREATE TABLE instead''
                       (at_line path line @ [tableName]))
           else if physical catalogs tableName = None then
             (if if_exists statement then Inr catalogs
              else Inl (Errorf ''%s:%d: DROP TABLE %q targets an unknown table; add IF EXISTS if the table may be absent''
                          (at_line path line @ [tableName])))
           else Inr (catalogs\<lparr>physical := (physical catalogs)(tableName := None)\<rparr>)))"

text \<open>A pair with both names, or \<open>None\<close>: the guard on nil parts of a pair.\<close>

definition complete_pair :: "rename_pair option \<Rightarrow> (rename_pair \<times> table_identifier \<times> string \<times> table_identifier \<times> string) option" where
  "complete_pair pair = (case pair of None \<Rightarrow> None | Some p \<Rightarrow> (case (pair_old p, pair_new p) of
       (Some old, Some new) \<Rightarrow> (case (ident_table old, ident_table new) of
           (Some oldName, Some newName) \<Rightarrow> Some (p, old, oldName, new, newName)
         | _ \<Rightarrow> None)
     | _ \<Rightarrow> None))"

definition check_not_external :: "schema_catalogs \<Rightarrow> (string \<Rightarrow> error) \<Rightarrow> string \<Rightarrow> unit \<Rightarrow> unit result" where
  "check_not_external catalogs refusal name _ = (if external catalogs name \<noteq> None then Inl (refusal name) else Inr ())"

definition rename_one ::
    "schema_catalogs \<Rightarrow> string \<Rightarrow> string \<Rightarrow> nat \<Rightarrow> rename_pair option \<Rightarrow> (string \<rightharpoonup> table) \<Rightarrow> (string \<rightharpoonup> table) result" where
  "rename_one catalogs path content line pair tables = (case complete_pair pair of
       None \<Rightarrow> Inl (Errorf ''%s:%d: RENAME TABLE has an incomplete name pair'' (at_line path line))
     | Some (p, old, oldName, new, newName) \<Rightarrow>
         let pairLine = lineOfOffset content (pair_pos p) in
         if ident_database old \<noteq> None \<or> ident_database new \<noteq> None
         then Inl (Errorf ''%s:%d: RENAME TABLE requires unqualified names; cross-database renames are not modeled'' (at_line path pairLine))
         else if oldName = migrationsTableName \<or> newName = migrationsTableName
         then Inl (Errorf ''%s:%d: RENAME TABLE cannot rename to or from excluded table %q'' (at_line path pairLine @ [migrationsTableName]))
         else bind_res (fold_res (check_not_external catalogs
                (\<lambda>name. Errorf ''%s:%d: RENAME TABLE %q targets an external schema; edit its CREATE TABLE instead'' (at_line path pairLine @ [name])))
                [oldName, newName] ()) (\<lambda>_.
           case tables oldName of
             None \<Rightarrow> Inl (Errorf ''%s:%d: RENAME TABLE source %q is an unknown table'' (at_line path pairLine @ [oldName]))
           | Some table \<Rightarrow>
               if tables newName \<noteq> None
               then Inl (Errorf ''%s:%d: RENAME TABLE target %q already exists'' (at_line path pairLine @ [newName]))
               else Inr ((tables(oldName := None))(newName \<mapsto> table\<lparr>table_name := newName\<rparr>))))"

definition applyCatalogRename :: "schema_catalogs \<Rightarrow> string \<Rightarrow> string \<Rightarrow> rename_stmt \<Rightarrow> schema_catalogs result" where
  "applyCatalogRename catalogs path content statement =
     (let line = lineOfOffset content (rename_pos statement) in
      if \<not> rename_is_table statement
      then Inl (Errorf ''%s:%d: %s is not supported; supported RENAME operation: RENAME TABLE'' (at_line path line @ [rename_type_text statement]))
      else if rename_pairs statement = [] then Inl (Errorf ''%s:%d: RENAME TABLE has no name pairs'' (at_line path line))
      else bind_res (fold_res (rename_one catalogs path content line) (rename_pairs statement) (physical catalogs)) (\<lambda>tables.
        Inr (catalogs\<lparr>physical := tables\<rparr>)))"

section \<open>EXCHANGE TABLES\<close>

definition check_exchange_name :: "schema_catalogs \<Rightarrow> string \<Rightarrow> nat \<Rightarrow> string \<Rightarrow> unit \<Rightarrow> unit result" where
  "check_exchange_name catalogs path line name _ =
     (if name = migrationsTableName
      then Inl (Errorf ''%s:%d: EXCHANGE TABLES cannot target excluded table %q'' (at_line path line @ [name]))
      else if external catalogs name \<noteq> None
      then Inl (Errorf ''%s:%d: EXCHANGE TABLES %q targets an external schema; edit its CREATE TABLE instead'' (at_line path line @ [name]))
      else if physical catalogs name = None
      then Inl (Errorf ''%s:%d: EXCHANGE TABLES %q is an unknown table'' (at_line path line @ [name]))
      else Inr ())"

text \<open>\<open>None\<close> is the nil dereference of a pair that is not complete.\<close>

definition applyCatalogExchange :: "schema_catalogs \<Rightarrow> string \<Rightarrow> nat \<Rightarrow> rename_stmt \<Rightarrow> schema_catalogs result option" where
  "applyCatalogExchange catalogs path line statement =
     (if length (rename_pairs statement) \<noteq> 1
      then Some (Inl (Errorf ''%s:%d: EXCHANGE TABLES requires exactly two names'' (at_line path line)))
      else case complete_pair (hd (rename_pairs statement)) of
        None \<Rightarrow> None
      | Some (p, old, a, new, b) \<Rightarrow> Some (
          if ident_database old \<noteq> None \<or> ident_database new \<noteq> None
          then Inl (Errorf ''%s:%d: EXCHANGE TABLES requires unqualified names'' (at_line path line))
          else if a = b then Inl (Errorf ''%s:%d: EXCHANGE TABLES requires distinct names, got %q twice'' (at_line path line @ [a]))
          else bind_res (fold_res (check_exchange_name catalogs path line) [a, b] ()) (\<lambda>_.
            case (physical catalogs a, physical catalogs b) of
              (Some left, Some right) \<Rightarrow> Inr (catalogs\<lparr>physical :=
                  (physical catalogs)(a \<mapsto> right\<lparr>table_name := a\<rparr>, b \<mapsto> left\<lparr>table_name := b\<rparr>)\<rparr>)
            | _ \<Rightarrow> Inr catalogs)))"

section \<open>ALTER TABLE\<close>

datatype catalogAlterAction = catalogAlterReject | catalogAlterApply | catalogAlterIgnore

text \<open>The clauses by the name of their Go type.\<close>

definition ignored_alter_clauses :: "string list" where
  "ignored_alter_clauses = map (\<lambda>s. ''*parser.AlterTable'' @ s)
     [''AddProjection'', ''MaterializeProjection'', ''DropProjection'', ''ClearProjection'',
      ''AddIndex'', ''MaterializeIndex'', ''DropIndex'', ''ClearIndex'']"

definition classifyCatalogAlter :: "alter_clause \<Rightarrow> catalogAlterAction" where
  "classifyCatalogAlter clause = (case clause of
       OtherAlter goType \<Rightarrow> if goType \<in> set ignored_alter_clauses then catalogAlterIgnore else catalogAlterReject
     | _ \<Rightarrow> catalogAlterApply)"

definition alter_go_type :: "alter_clause \<Rightarrow> string" where
  "alter_go_type clause = (case clause of
       AddColumn _ _ _ \<Rightarrow> ''*parser.AlterTableAddColumn'' | ModifyColumn _ _ \<Rightarrow> ''*parser.AlterTableModifyColumn''
     | DropColumn _ _ \<Rightarrow> ''*parser.AlterTableDropColumn'' | RemoveTTL \<Rightarrow> ''*parser.AlterTableRemoveTTL''
     | ModifySetting _ \<Rightarrow> ''*parser.AlterTableModifySetting'' | ResetSetting _ \<Rightarrow> ''*parser.AlterTableResetSetting''
     | OtherAlter goType \<Rightarrow> goType)"

text \<open>The words of a CamelCase name: a word ends before an upper-case letter that follows a lower-case one.\<close>

fun camel_words :: "string \<Rightarrow> string \<Rightarrow> string list" where
  "camel_words acc [] = []"
| "camel_words acc [c] = [to_upper (rev (c # acc))]"
| "camel_words acc (c # d # cs) =
     (if is_upper d \<and> is_lower c then to_upper (rev (c # acc)) # camel_words [] (d # cs)
      else camel_words (c # acc) (d # cs))"

definition alterClauseKeyword :: "alter_clause \<Rightarrow> string" where
  "alterClauseKeyword clause = join '' '' (camel_words [] (trim_prefix (alter_go_type clause) ''*parser.AlterTable''))"

definition supportedAlterOperations :: string where
  "supportedAlterOperations = ''supported ALTER TABLE operations: ADD COLUMN, MODIFY COLUMN, DROP COLUMN, REMOVE TTL, MODIFY SETTING, RESET SETTING; projection operations ADD PROJECTION, MATERIALIZE PROJECTION, DROP PROJECTION, CLEAR PROJECTION and index operations ADD INDEX, MATERIALIZE INDEX, DROP INDEX, CLEAR INDEX are ignored''"

text \<open>The name put after the first occurrence of another.\<close>

fun insert_after :: "string \<Rightarrow> string \<Rightarrow> string list \<Rightarrow> string list option" where
  "insert_after afterName name [] = None"
| "insert_after afterName name (n # ns) =
     (if n = afterName then Some (n # name # ns) else map_option ((#) n) (insert_after afterName name ns))"

definition alter_add :: "string \<Rightarrow> column_def option \<Rightarrow> bool \<Rightarrow> string option \<Rightarrow> table \<Rightarrow> table result" where
  "alter_add tableName definition ifNotExists after table = (case definition of
       None \<Rightarrow> Inl (Errorf ''ALTER TABLE %s ADD COLUMN has no definition'' [tableName])
     | Some columnDef \<Rightarrow> bind_res (parseColumnDef tableName columnDef) (\<lambda>column.
         let name = column_name column; added = table\<lparr>columns := (columns table)(name \<mapsto> column)\<rparr> in
         if columns table name \<noteq> None then
           (if ifNotExists then Inr table else Inl (Errorf ''duplicate column %s.%s'' [tableName, name]))
         else case after of
           None \<Rightarrow> Inr (added\<lparr>column_order := column_order table @ [name]\<rparr>)
         | Some afterName \<Rightarrow> (case insert_after afterName name (column_order table) of
             None \<Rightarrow> Inl (Errorf ''ALTER TABLE %s ADD COLUMN %s AFTER unknown column %s'' [tableName, name, afterName])
           | Some order \<Rightarrow> Inr (added\<lparr>column_order := order\<rparr>))))"

text \<open>MODIFY COLUMN keeps the modifiers that it does not state.\<close>

definition keep_modifiers :: "column_def \<Rightarrow> column \<Rightarrow> column \<Rightarrow> column" where
  "keep_modifiers definition previous column0 =
     (let column1 = (if def_default definition = None \<and> def_materialized definition = None \<and> def_alias definition = None
                     then column0\<lparr>default_expr := default_expr previous, materialized_expr := materialized_expr previous,
                                  alias_expr := alias_expr previous, insertable := insertable previous\<rparr>
                     else column0);
          column2 = (if def_codec definition = None then column1\<lparr>codec_text := codec_text previous\<rparr> else column1);
          column3 = (if def_comment definition = None then column2\<lparr>comment_text := comment_text previous\<rparr> else column2)
      in if def_ttl definition = None then column3\<lparr>ttl_text := ttl_text previous\<rparr> else column3)"

definition alter_modify :: "string \<Rightarrow> column_def option \<Rightarrow> bool \<Rightarrow> table \<Rightarrow> table result" where
  "alter_modify tableName definition ifExists table = (case definition of
       None \<Rightarrow> Inl (Errorf ''ALTER TABLE %s MODIFY COLUMN has no definition'' [tableName])
     | Some columnDef \<Rightarrow> bind_res (parseColumnDef tableName columnDef) (\<lambda>column.
         case columns table (column_name column) of
           None \<Rightarrow>
             (if ifExists then Inr table
              else Inl (Errorf ''ALTER TABLE %s MODIFY COLUMN targets unknown column %s'' [tableName, column_name column]))
         | Some previous \<Rightarrow>
             Inr (table\<lparr>columns := (columns table)(column_name column \<mapsto> keep_modifiers columnDef previous column)\<rparr>)))"

definition alter_drop :: "string \<Rightarrow> string option \<Rightarrow> bool \<Rightarrow> table \<Rightarrow> table result" where
  "alter_drop tableName name ifExists table = (case name of
       None \<Rightarrow> Inl (Errorf ''ALTER TABLE %s DROP COLUMN has no column name'' [tableName])
     | Some columnName \<Rightarrow>
         if columns table columnName = None then
           (if ifExists then Inr table
            else Inl (Errorf ''ALTER TABLE %s DROP COLUMN targets unknown column %s'' [tableName, columnName]))
         else Inr (table\<lparr>columns := (columns table)(columnName := None), column_order := remove1 columnName (column_order table)\<rparr>))"

definition change_engine :: "(table_engine \<Rightarrow> table_engine) \<Rightarrow> table \<Rightarrow> table" where
  "change_engine f table = table\<lparr>table_engine := map_option f (table_engine table)\<rparr>"

definition apply_clause :: "string \<Rightarrow> alter_clause \<Rightarrow> table \<Rightarrow> table result" where
  "apply_clause tableName clause table = (case clause of
       RemoveTTL \<Rightarrow> Inr (change_engine (engine_ttl_update (\<lambda>_. [])) table)
     | ModifySetting items \<Rightarrow> Inr (change_engine (engine_settings_update (set_settings items)) table)
     | ResetSetting names \<Rightarrow> Inr (change_engine (engine_settings_update (fold (\<lambda>name m. m(name := None)) names)) table)
     | AddColumn definition ifNotExists after \<Rightarrow> alter_add tableName definition ifNotExists after table
     | ModifyColumn definition ifExists \<Rightarrow> alter_modify tableName definition ifExists table
     | DropColumn name ifExists \<Rightarrow> alter_drop tableName name ifExists table
     | OtherAlter goType \<Rightarrow>
         if classifyCatalogAlter clause = catalogAlterIgnore then Inr table
         else Inl (Errorf ''unsupported ALTER TABLE %s clause %T'' [tableName, goType]))"

definition applyAlterTable :: "(string \<rightharpoonup> table) \<Rightarrow> string option \<Rightarrow> alter_clause list \<Rightarrow> (string \<rightharpoonup> table) result" where
  "applyAlterTable tables name clauses = (case name of
       None \<Rightarrow> Inl (Errorf ''ALTER TABLE has no table name'' [])
     | Some tableName \<Rightarrow> (case tables tableName of
         None \<Rightarrow> Inl (Errorf ''ALTER TABLE %s targets an unknown table'' [tableName])
       | Some table \<Rightarrow> bind_res (fold_res (apply_clause tableName) clauses table) (\<lambda>altered.
           Inr (tables(tableName \<mapsto> altered)))))"

record alter_table =
  alter_pos :: nat
  alter_name :: "string option"
  alter_clauses :: "(nat \<times> alter_clause) list"

definition applyCatalogAlter :: "schema_catalogs \<Rightarrow> string \<Rightarrow> string \<Rightarrow> nat \<Rightarrow> alter_table \<Rightarrow> schema_catalogs result" where
  "applyCatalogAlter catalogs path content line statement = (case alter_name statement of
       None \<Rightarrow> Inl (Errorf ''%s:%d: ALTER TABLE has no table name'' (at_line path line))
     | Some tableName \<Rightarrow>
         if tableName = migrationsTableName then Inr catalogs
         else if external catalogs tableName \<noteq> None
         then Inl (Errorf ''%s:%d: ALTER TABLE %q targets an external schema; edit its CREATE TABLE instead'' (at_line path line @ [tableName]))
         else case List.find (\<lambda>(pos, clause). classifyCatalogAlter clause = catalogAlterReject) (alter_clauses statement) of
             Some (pos, clause) \<Rightarrow> Inl (Errorf ''%s:%d: %s is not supported; %s''
                 (at_line path (lineOfOffset content pos) @ [alterClauseKeyword clause, supportedAlterOperations]))
           | None \<Rightarrow> bind_res (located path line (applyAlterTable (physical catalogs) (Some tableName) (map snd (alter_clauses statement))))
               (\<lambda>tables. Inr (catalogs\<lparr>physical := tables\<rparr>)))"

end
