(* ===== verification/SqlScan.thy ===== *)
theory SqlScan
  imports Catalog
begin

text \<open>
  The byte scanners that run over schema files before the SQL parser: comments, quoted tokens and
  identifiers (\<^verbatim>\<open>annotations.go\<close>), the removal of an unsupported TTL tail (\<^verbatim>\<open>schema.go\<close>), the rewriting
  of EXCHANGE statements (\<^verbatim>\<open>catalog_exchange.go\<close>), the blanking of SYSTEM WAIT VIEW
  (\<^verbatim>\<open>catalog_wait_view.go\<close>) and the external-table markers (\<^verbatim>\<open>catalog.go\<close>). Offsets are byte offsets into
  the text, as in the code.
\<close>

section \<open>Comments, quotes, identifiers\<close>

abbreviation newline :: char where "newline \<equiv> char_of (10 :: nat)"
abbreviation single_quote :: char where "single_quote \<equiv> char_of (39 :: nat)"
abbreviation double_quote :: char where "double_quote \<equiv> char_of (34 :: nat)"
abbreviation back_quote :: char where "back_quote \<equiv> char_of (96 :: nat)"
abbreviation backslash :: char where "backslash \<equiv> char_of (92 :: nat)"

definition first_index :: "string \<Rightarrow> string \<Rightarrow> nat option" where
  "first_index s pat = List.find (\<lambda>i. has_prefix (drop i s) pat) [0..<Suc (length s)]"

definition isSQLIdentifierByte :: "char \<Rightarrow> bool" where
  "isSQLIdentifierByte c \<longleftrightarrow> c = CHR ''_'' \<or> is_lower c \<or> is_upper c \<or> (let n = (of_char c :: nat) in 48 \<le> n \<and> n \<le> 57)"

definition skipSQLLineComment :: "string \<Rightarrow> nat \<Rightarrow> nat" where
  "skipSQLLineComment sql start =
     (let k = length (takeWhile (\<lambda>c. c \<noteq> newline) (drop start sql))
      in if k < length (drop start sql) then start + k + 1 else length sql)"

definition skipSQLBlockComment :: "string \<Rightarrow> nat \<Rightarrow> nat" where
  "skipSQLBlockComment sql start = (case first_index (drop (start + 2) sql) ''*/'' of
       Some k \<Rightarrow> start + 2 + k + 2 | None \<Rightarrow> length sql)"

text \<open>The end of a quoted token, and whether the quote closes: a backslash and a doubled quote escape.\<close>

function quoted_close :: "string \<Rightarrow> char \<Rightarrow> nat \<Rightarrow> nat \<times> bool" where
  "quoted_close sql quote i =
     (if i \<ge> length sql then (length sql, False)
      else if sql ! i = backslash then quoted_close sql quote (i + 2)
      else if sql ! i \<noteq> quote then quoted_close sql quote (i + 1)
      else if i + 1 < length sql \<and> sql ! (i + 1) = quote then quoted_close sql quote (i + 2)
      else (i + 1, True))"
  by pat_completeness auto
termination
  by (relation "measure (\<lambda>(sql, _, i). length sql - i)") auto

declare quoted_close.simps [simp del]

definition skipSQLQuoted :: "string \<Rightarrow> nat \<Rightarrow> char \<Rightarrow> nat" where
  "skipSQLQuoted sql start quote = fst (quoted_close sql quote (start + 1))"

definition schemaQuotedEnd :: "string \<Rightarrow> nat \<Rightarrow> nat \<times> bool" where
  "schemaQuotedEnd sql start = quoted_close sql (sql ! start) (start + 1)"

function block_close :: "string \<Rightarrow> nat \<Rightarrow> nat \<Rightarrow> nat \<times> bool" where
  "block_close sql depth i =
     (if i \<ge> length sql then (length sql, False)
      else if has_prefix (drop i sql) ''/*'' then block_close sql (depth + 1) (i + 2)
      else if has_prefix (drop i sql) ''*/'' then
        (if depth \<le> 1 then (i + 2, True) else block_close sql (depth - 1) (i + 2))
      else block_close sql depth (i + 1))"
  by pat_completeness auto
termination
  by (relation "measure (\<lambda>(sql, _, i). length sql - i)") auto

declare block_close.simps [simp del]

definition schemaBlockCommentEnd :: "string \<Rightarrow> nat \<Rightarrow> nat \<times> bool" where
  "schemaBlockCommentEnd sql start = block_close sql 1 (start + 2)"

definition identifier_end :: "string \<Rightarrow> nat \<Rightarrow> nat" where
  "identifier_end sql start = start + length (takeWhile isSQLIdentifierByte (drop start sql))"

section \<open>Tokens of a statement\<close>

type_synonym token = "nat \<times> nat"

definition token_text :: "string \<Rightarrow> token \<Rightarrow> string" where
  "token_text sql t = take (snd t - fst t) (drop (fst t) sql)"

definition token_is :: "string \<Rightarrow> token list \<Rightarrow> nat \<Rightarrow> string \<Rightarrow> bool" where
  "token_is sql tokens i want \<longleftrightarrow> i < length tokens \<and> equal_fold (token_text sql (tokens ! i)) want"

text \<open>
  The bytes of a token overwritten by a text and blanks; \<^verbatim>\<open>strings.Repeat\<close> panics when the token is
  shorter than the text, which the lemmas exclude.
\<close>

definition overwrite :: "token \<Rightarrow> string \<Rightarrow> string \<Rightarrow> string" where
  "overwrite t text out = take (fst t) out @ text @ replicate (snd t - fst t - length text) CHR '' '' @ drop (snd t) out"

section \<open>EXCHANGE\<close>

definition flush_exchange :: "string \<Rightarrow> token list \<Rightarrow> string \<times> nat list \<Rightarrow> (string \<times> nat list) result" where
  "flush_exchange sql tokens st =
     (if \<not> token_is sql tokens 0 ''EXCHANGE'' then Inr st
      else let line = itoa (int (lineOfOffset sql (fst (hd tokens)))) in
        if token_is sql tokens 1 ''DICTIONARIES''
        then Inl (Errorf ''%d: EXCHANGE DICTIONARIES is not supported; supported EXCHANGE operation: EXCHANGE TABLES'' [line])
        else if \<not> token_is sql tokens 1 ''TABLES'' \<or> \<not> token_is sql tokens 3 ''AND''
          \<or> \<not> (length tokens = 5 \<or> length tokens = 8 \<and> token_is sql tokens 5 ''ON'' \<and> token_is sql tokens 6 ''CLUSTER'')
        then Inl (Errorf ''%d: expected EXCHANGE TABLES name AND name [ON CLUSTER cluster] with unqualified names'' [line])
        else Inr (overwrite (tokens ! 3) ''TO'' (overwrite (tokens ! 1) ''TABLE'' (overwrite (tokens ! 0) ''RENAME'' (fst st))),
                  snd st @ [fst (hd tokens)]))"

definition exchange_blanks :: "char list" where
  "exchange_blanks = map (char_of :: nat \<Rightarrow> char) [32, 9, 13, 10, 12]"

definition quote_bytes :: "char list" where
  "quote_bytes = [single_quote, double_quote, back_quote]"

lemma skipSQLLineComment_bounds: "i < length sql \<Longrightarrow> i < skipSQLLineComment sql i \<and> skipSQLLineComment sql i \<le> length sql"
  by (auto simp: skipSQLLineComment_def Let_def)

lemma first_index_bound: "first_index s pat = Some k \<Longrightarrow> has_prefix (drop k s) pat \<and> k + length pat \<le> length s"
  unfolding first_index_def using has_prefix_length by (fastforce simp: find_Some_iff simp del: upt_Suc)

lemma skipSQLBlockComment_bounds: "i < length sql \<Longrightarrow> i < skipSQLBlockComment sql i \<and> skipSQLBlockComment sql i \<le> length sql"
  by (auto simp: skipSQLBlockComment_def dest!: first_index_bound split: option.splits)

lemma quoted_close_bounds: "i \<le> length sql \<Longrightarrow> i \<le> fst (quoted_close sql q i) \<and> fst (quoted_close sql q i) \<le> length sql"
proof (induction sql q i rule: quoted_close.induct)
  case (1 sql q i)
  show ?case
  proof (cases "i + 2 \<le> length sql")
    case True with 1 show ?thesis by (subst (1 2) quoted_close.simps) auto
  next
    case False
    then have "quoted_close sql q (i + 2) = (length sql, False)" by (simp add: quoted_close.simps)
    with 1 show ?thesis by (subst (1 2) quoted_close.simps) auto
  qed
qed

lemma skipSQLQuoted_bounds: "i < length sql \<Longrightarrow> i < skipSQLQuoted sql i q \<and> skipSQLQuoted sql i q \<le> length sql"
  using quoted_close_bounds [of "i + 1" sql q] by (simp add: skipSQLQuoted_def)

lemma schemaQuotedEnd_bounds: "i < length sql \<Longrightarrow> i < fst (schemaQuotedEnd sql i) \<and> fst (schemaQuotedEnd sql i) \<le> length sql"
  using quoted_close_bounds [of "i + 1" sql] by (simp add: schemaQuotedEnd_def Suc_le_eq)

lemma block_close_bounds: "i \<le> length sql \<Longrightarrow> i \<le> fst (block_close sql d i) \<and> fst (block_close sql d i) \<le> length sql"
proof (induction sql d i rule: block_close.induct)
  case (1 sql d i)
  have "has_prefix (drop i sql) ''/*'' \<or> has_prefix (drop i sql) ''*/'' \<Longrightarrow> i + 2 \<le> length sql"
    using has_prefix_length [of "drop i sql"] by fastforce
  with 1 show ?case by (subst (1 2) block_close.simps) (auto simp: le_Suc_eq)
qed

lemma schemaBlockCommentEnd_bounds:
  "has_prefix (drop i sql) ''/*'' \<Longrightarrow> i < fst (schemaBlockCommentEnd sql i) \<and> fst (schemaBlockCommentEnd sql i) \<le> length sql"
proof -
  assume "has_prefix (drop i sql) ''/*''"
  then have "i + 2 \<le> length sql" using has_prefix_length [of "drop i sql" "''/*''"] by simp
  with block_close_bounds [of "i + 2" sql 1] show ?thesis by (simp add: schemaBlockCommentEnd_def)
qed

lemma identifier_end_bounds:
  assumes "i < length sql" "isSQLIdentifierByte (sql ! i)"
  shows "i < identifier_end sql i \<and> identifier_end sql i \<le> length sql"
proof -
  have "drop i sql = sql ! i # drop (Suc i) sql" using assms(1) by (rule Cons_nth_drop_Suc [symmetric])
  then have "0 < length (takeWhile isSQLIdentifierByte (drop i sql))" using assms(2) by simp
  moreover have "length (takeWhile isSQLIdentifierByte (drop i sql)) \<le> length (drop i sql)" by (rule length_takeWhile_le)
  ultimately show ?thesis using assms(1) by (simp add: identifier_end_def)
qed

text \<open>The next token and its end, where the scanners agree: an identifier, or one byte.\<close>

definition word_end :: "string \<Rightarrow> nat \<Rightarrow> nat" where
  "word_end sql i = (if isSQLIdentifierByte (sql ! i) then identifier_end sql i else i + 1)"

lemma word_end_bounds: "i < length sql \<Longrightarrow> i < word_end sql i \<and> word_end sql i \<le> length sql"
  using identifier_end_bounds [of i sql] by (simp add: word_end_def)

function scan_exchanges :: "string \<Rightarrow> nat \<Rightarrow> token list \<Rightarrow> string \<times> nat list \<Rightarrow> (string \<times> nat list) result" where
  "scan_exchanges sql i tokens st =
     (if i \<ge> length sql then flush_exchange sql tokens st
      else if sql ! i \<in> set exchange_blanks then scan_exchanges sql (i + 1) tokens st
      else if has_prefix (drop i sql) ''--'' then scan_exchanges sql (skipSQLLineComment sql i) tokens st
      else if has_prefix (drop i sql) ''/*'' then scan_exchanges sql (skipSQLBlockComment sql i) tokens st
      else if sql ! i = CHR '';'' then bind_res (flush_exchange sql tokens st) (\<lambda>st'. scan_exchanges sql (i + 1) [] st')
      else if sql ! i \<in> set quote_bytes then
        scan_exchanges sql (skipSQLQuoted sql i (sql ! i)) (tokens @ [(i, skipSQLQuoted sql i (sql ! i))]) st
      else scan_exchanges sql (word_end sql i) (tokens @ [(i, word_end sql i)]) st)"
  by pat_completeness auto
termination
proof (relation "measure (\<lambda>(sql, i, _, _). length sql - i)", goal_cases)
  case (3 sql i) then show ?case using skipSQLLineComment_bounds [of i sql] by auto
next
  case (4 sql i) then show ?case using skipSQLBlockComment_bounds [of i sql] by auto
next
  case (6 sql i) then show ?case using skipSQLQuoted_bounds [of i sql "sql ! i"] by auto
next
  case (7 sql i) then show ?case using word_end_bounds [of i sql] by auto
qed auto

declare scan_exchanges.simps [simp del]

definition normalizeSchemaExchanges :: "string \<Rightarrow> (string \<times> nat list) result" where
  "normalizeSchemaExchanges sql = scan_exchanges sql 0 [] (sql, [])"

section \<open>SYSTEM WAIT VIEW\<close>

text \<open>Only called on a token that is not empty.\<close>

definition schemaWaitViewIdentifier :: "string \<Rightarrow> bool" where
  "schemaWaitViewIdentifier raw =
     (if hd raw = back_quote \<or> hd raw = double_quote then length raw > 2
      else if (let n = (of_char (hd raw) :: nat) in 48 \<le> n \<and> n \<le> 57) then False
      else list_all isSQLIdentifierByte raw)"

definition blank_byte :: "char \<Rightarrow> char" where
  "blank_byte c = (if c \<noteq> newline \<and> c \<noteq> char_of (13 :: nat) then CHR '' '' else c)"

definition blank_token :: "token \<Rightarrow> string \<Rightarrow> string" where
  "blank_token t out = take (fst t) out @ map blank_byte (take (snd t - fst t) (drop (fst t) out)) @ drop (snd t) out"

definition bad_wait_name :: "string \<Rightarrow> token \<Rightarrow> bool" where
  "bad_wait_name sql t \<longleftrightarrow> \<not> schemaWaitViewIdentifier (token_text sql t)"

text \<open>The names are the fourth token and, when there is one, the sixth.\<close>

definition wait_names :: "token list \<Rightarrow> token list" where
  "wait_names tokens = (if length tokens = 6 then [tokens ! 3, tokens ! 5] else [tokens ! 3])"

definition flush_wait :: "string \<Rightarrow> token list \<Rightarrow> token list \<Rightarrow> string \<Rightarrow> string result" where
  "flush_wait sql tokens comments out =
     (if \<not> token_is sql tokens 0 ''SYSTEM'' \<or> \<not> token_is sql tokens 1 ''WAIT'' then Inr out
      else if \<not> token_is sql tokens 2 ''VIEW'' \<or> \<not> (length tokens = 4 \<or> length tokens = 6 \<and> token_is sql tokens 4 ''.'')
      then Inl (Errorf ''%d: expected SYSTEM WAIT VIEW [database.]view_name'' [itoa (int (lineOfOffset sql (fst (hd tokens))))])
      else case List.find (bad_wait_name sql) (wait_names tokens) of
          Some t \<Rightarrow> Inl (Errorf ''%d: SYSTEM WAIT VIEW expects an identifier, got %q''
                      [itoa (int (lineOfOffset sql (fst t))), token_text sql t])
        | None \<Rightarrow> Inr (fold blank_token (tokens @ comments) out))"

definition wait_blanks :: "char list" where
  "wait_blanks = exchange_blanks @ [char_of (11 :: nat)]"

function scan_waits :: "string \<Rightarrow> nat \<Rightarrow> token list \<Rightarrow> token list \<Rightarrow> string \<Rightarrow> string result" where
  "scan_waits sql i tokens comments out =
     (if i \<ge> length sql then flush_wait sql tokens comments out
      else if sql ! i \<in> set wait_blanks then scan_waits sql (i + 1) tokens comments out
      else if has_prefix (drop i sql) ''--'' then scan_waits sql (skipSQLLineComment sql i) tokens comments out
      else if has_prefix (drop i sql) ''/*'' then
        (if \<not> snd (schemaBlockCommentEnd sql i)
         then Inl (Errorf ''%d: unterminated block comment'' [itoa (int (lineOfOffset sql i))])
         else scan_waits sql (fst (schemaBlockCommentEnd sql i)) tokens (comments @ [(i, fst (schemaBlockCommentEnd sql i))]) out)
      else if sql ! i = CHR '';'' then bind_res (flush_wait sql tokens comments out) (\<lambda>out'. scan_waits sql (i + 1) [] [] out')
      else if sql ! i \<in> set quote_bytes then
        (if \<not> snd (schemaQuotedEnd sql i)
         then Inl (Errorf ''%d: unterminated quoted token'' [itoa (int (lineOfOffset sql i))])
         else scan_waits sql (fst (schemaQuotedEnd sql i)) (tokens @ [(i, fst (schemaQuotedEnd sql i))]) comments out)
      else scan_waits sql (word_end sql i) (tokens @ [(i, word_end sql i)]) comments out)"
  by pat_completeness auto
termination
proof (relation "measure (\<lambda>(sql, i, _, _, _). length sql - i)", goal_cases)
  case (3 sql i) then show ?case using skipSQLLineComment_bounds [of i sql] by auto
next
  case (4 sql i) then show ?case using schemaBlockCommentEnd_bounds [of i sql] by auto
next
  case (6 sql i) then show ?case using schemaQuotedEnd_bounds [of i sql] by auto
next
  case (7 sql i) then show ?case using word_end_bounds [of i sql] by auto
qed auto

declare scan_waits.simps [simp del]

definition normalizeSchemaWaitViews :: "string \<Rightarrow> string result" where
  "normalizeSchemaWaitViews sql = scan_waits sql 0 [] [] sql"

section \<open>The tail of an unsupported TTL\<close>

text \<open>\<^verbatim>\<open>strings.Split(input, "\n")\<close> and \<^verbatim>\<open>strings.Join(lines, "\n")\<close>.\<close>

fun split_lines :: "string \<Rightarrow> string list" where
  "split_lines [] = [[]]"
| "split_lines (c # cs) =
     (if c = newline then [] # split_lines cs
      else case split_lines cs of [] \<Rightarrow> [[c]] | l # ls \<Rightarrow> (c # l) # ls)"

definition strip_line :: "string \<Rightarrow> string" where
  "strip_line line =
     (if \<not> has_prefix (trim_space line) ''TTL '' then line
      else case first_index line '' GROUP BY '' of
        None \<Rightarrow> line
      | Some idx \<Rightarrow> take idx line @ replicate (length line - idx) CHR '' '')"

definition stripUnsupportedTTLRollup :: "string \<Rightarrow> string" where
  "stripUnsupportedTTLRollup input = join [newline] (map strip_line (split_lines input))"

section \<open>Markers of external tables\<close>

definition externalMarker :: string where "externalMarker = ''-- chgen:external''"

function nextContentOffset :: "string \<Rightarrow> nat \<Rightarrow> nat option" where
  "nextContentOffset content i =
     (if i \<ge> length content then None
      else if content ! i \<in> set (map (char_of :: nat \<Rightarrow> char) [32, 9, 13, 10]) then nextContentOffset content (i + 1)
      else if has_prefix (drop i content) ''--'' then nextContentOffset content (skipSQLLineComment content i)
      else Some i)"
  by pat_completeness auto
termination
proof (relation "measure (\<lambda>(content, i). length content - i)", goal_cases)
  case (3 content i) then show ?case using skipSQLLineComment_bounds [of i content] by auto
qed auto

declare nextContentOffset.simps [simp del]

text \<open>A marker's line and the offset of the statement it marks.\<close>

type_synonym externalMarkerRef = "nat \<times> nat"

fun marker_lines :: "string \<Rightarrow> string \<Rightarrow> nat \<Rightarrow> nat \<Rightarrow> string list \<Rightarrow> externalMarkerRef list result" where
  "marker_lines path content line offset [] = Inr []"
| "marker_lines path content line offset (text # rest) =
     (let next_offset = offset + length text + 1 in
      if trim_space text = externalMarker then
        (case nextContentOffset content next_offset of
           None \<Rightarrow> Inl (Errorf ''%s:%d: %s marker is not followed by CREATE TABLE'' (at_line path line @ [externalMarker]))
         | Some target \<Rightarrow> bind_res (marker_lines path content (line + 1) next_offset rest) (\<lambda>markers. Inr ((line, target) # markers)))
      else marker_lines path content (line + 1) next_offset rest)"

definition externalMarkerTargets :: "string \<Rightarrow> string \<Rightarrow> externalMarkerRef list result" where
  "externalMarkerTargets path content = marker_lines path content 1 0 (split_lines content)"

end
