(* ===== verification/CatalogLoad.thy ===== *)
theory CatalogLoad
  imports SqlScan
begin

text \<open>
  Loading schema files (\<^verbatim>\<open>catalog.go\<close>): the scanners, the SQL parser, the markers and the statements
  in order. The SQL parser and the file system are parameters.
\<close>

datatype statement_body =
    CreateTableStmt create_table
  | AlterTableStmt alter_table
  | DropTableStmt drop_stmt
  | RenameTableStmt rename_stmt
  | ViewOrInsertStmt
  | OtherStmt

text \<open>A parsed statement, its byte position and the table identifiers in it.\<close>

record parsed_statement =
  stmt_pos :: nat
  stmt_references :: "table_identifier list"
  stmt_body :: statement_body

definition system_reference :: "parsed_statement \<Rightarrow> bool" where
  "system_reference statement \<longleftrightarrow> list_ex (\<lambda>i. ident_database i = Some ''system'') (stmt_references statement)"

text \<open>One statement; \<open>None\<close> where the code would dereference nil.\<close>

definition apply_statement ::
    "string \<Rightarrow> string \<Rightarrow> nat list \<Rightarrow> nat list \<Rightarrow> schema_catalogs \<Rightarrow> parsed_statement \<Rightarrow> schema_catalogs result option" where
  "apply_statement path content exchanges marked catalogs statement =
     (if system_reference statement
      then Some (Inl (Errorf ''%s:%d: system tables are read-only and cannot be used in schema migrations''
                        (at_line path (lineOfOffset content (stmt_pos statement)))))
      else case stmt_body statement of
        CreateTableStmt create \<Rightarrow>
          let line = lineOfOffset content (create_pos create) in
          Some (if create_pos create \<in> set marked then applyExternalCreate catalogs path line create
                else applyPhysicalCreate catalogs path line (stmt_references statement) create)
      | AlterTableStmt alter \<Rightarrow> Some (applyCatalogAlter catalogs path content (lineOfOffset content (alter_pos alter)) alter)
      | DropTableStmt dropped \<Rightarrow> Some (applyCatalogDrop catalogs path (lineOfOffset content (drop_pos dropped)) dropped)
      | RenameTableStmt rename \<Rightarrow>
          (if rename_pos rename \<in> set exchanges
           then applyCatalogExchange catalogs path (lineOfOffset content (rename_pos rename)) rename
           else Some (applyCatalogRename catalogs path content rename))
      | ViewOrInsertStmt \<Rightarrow> Some (Inr catalogs)
      | OtherStmt \<Rightarrow>
          Some (Inl (Errorf ''%s:%d: statement is not CREATE TABLE, DROP TABLE/VIEW, RENAME TABLE, EXCHANGE TABLES, or a supported ALTER TABLE; chgen does not model this schema operation''
                      (at_line path (lineOfOffset content (stmt_pos statement))))))"

fun apply_statements ::
    "(schema_catalogs \<Rightarrow> parsed_statement \<Rightarrow> schema_catalogs result option) \<Rightarrow> schema_catalogs \<Rightarrow> parsed_statement list
     \<Rightarrow> schema_catalogs result option" where
  "apply_statements apply1 catalogs [] = Some (Inr catalogs)"
| "apply_statements apply1 catalogs (statement # rest) = (case apply1 catalogs statement of
       None \<Rightarrow> None
     | Some (Inl err) \<Rightarrow> Some (Inl err)
     | Some (Inr next) \<Rightarrow> apply_statements apply1 next rest)"

definition create_positions :: "parsed_statement list \<Rightarrow> nat list" where
  "create_positions statements =
     List.map_filter (\<lambda>s. case stmt_body s of CreateTableStmt create \<Rightarrow> Some (create_pos create) | _ \<Rightarrow> None) statements"

definition applySchemaSource ::
    "(string \<Rightarrow> parsed_statement list result) \<Rightarrow> schema_catalogs \<Rightarrow> string \<Rightarrow> string \<Rightarrow> schema_catalogs result option" where
  "applySchemaSource parse catalogs path raw =
     (let content = stripUnsupportedTTLRollup raw in
      case normalizeSchemaExchanges content of
        Inl err \<Rightarrow> Some (Inl (Wrapf ''%s:%w'' [path] err))
      | Inr (exchanged, exchanges) \<Rightarrow> (case normalizeSchemaWaitViews exchanged of
          Inl err \<Rightarrow> Some (Inl (Wrapf ''%s:%w'' [path] err))
        | Inr parserContent \<Rightarrow> (case parse (parserContent @ [newline] @ '';'') of
            Inl err \<Rightarrow> Some (Inl (Wrapf ''%s: parse schema SQL: %w'' [path] err))
          | Inr statements \<Rightarrow> (case externalMarkerTargets path content of
              Inl err \<Rightarrow> Some (Inl err)
            | Inr markers \<Rightarrow> (case List.find (\<lambda>m. snd m \<notin> set (create_positions statements)) markers of
                Some (line, target) \<Rightarrow> Some (Inl (Errorf ''%s:%d: %s marker is not followed by CREATE TABLE''
                    (at_line path line @ [externalMarker])))
              | None \<Rightarrow> apply_statements (apply_statement path content exchanges (map snd markers)) catalogs statements)))))"

definition empty_catalogs :: schema_catalogs where
  "empty_catalogs = \<lparr>physical = Map.empty, external = Map.empty\<rparr>"

fun load_files ::
    "(string \<Rightarrow> parsed_statement list result) \<Rightarrow> (string \<Rightarrow> string result) \<Rightarrow> schema_catalogs \<Rightarrow> string list
     \<Rightarrow> schema_catalogs result option" where
  "load_files parse read catalogs [] = Some (Inr catalogs)"
| "load_files parse read catalogs (path # paths) = (case read path of
       Inl err \<Rightarrow> Some (Inl (Wrapf ''read schema file %q: %w'' [path] err))
     | Inr raw \<Rightarrow> (case applySchemaSource parse catalogs path raw of
         None \<Rightarrow> None
       | Some (Inl err) \<Rightarrow> Some (Inl err)
       | Some (Inr next) \<Rightarrow> load_files parse read next paths))"

definition ParseSchemaCatalogs ::
    "(string \<Rightarrow> parsed_statement list result) \<Rightarrow> (string \<Rightarrow> string result) \<Rightarrow> string list \<Rightarrow> schema_catalogs result option" where
  "ParseSchemaCatalogs parse read paths = load_files parse read empty_catalogs paths"

end
