(* ===== verification/CatalogFacts.thy ===== *)
theory CatalogFacts
  imports CatalogLoad Interfaces
begin

text \<open>
  What the schema catalog promises: every load keeps the catalogs well formed and is a run of an
  abstract map from table names to ordered column lists; ALTER on the two structures of a table is
  an operation on one list; RENAME and EXCHANGE agree.
\<close>

section \<open>Well-formed catalogs\<close>

definition table_ok :: "table \<Rightarrow> bool" where
  "table_ok t \<longleftrightarrow> distinct (column_order t) \<and> set (column_order t) = dom (columns t)
     \<and> (\<forall>n c. columns t n = Some c \<longrightarrow> column_name c = n)"

text \<open>A physical table under its name, apart from the external ones and from the excluded table.\<close>

definition physical_ok :: "(string \<rightharpoonup> table) \<Rightarrow> (string \<rightharpoonup> table) \<Rightarrow> bool" where
  "physical_ok ext tables \<longleftrightarrow> (\<forall>n t. tables n = Some t \<longrightarrow>
     table_name t = n \<and> table_ok t \<and> ext n = None \<and> n \<noteq> migrationsTableName)"

definition catalogs_ok :: "schema_catalogs \<Rightarrow> bool" where
  "catalogs_ok cs \<longleftrightarrow> physical_ok (external cs) (physical cs)
     \<and> (\<forall>n t. external cs n = Some t \<longrightarrow> table_name t = n \<and> table_ok t \<and> table_engine t = None)"

lemma physical_ok_insert:
  "physical_ok ext tables \<Longrightarrow> table_name t = n \<Longrightarrow> table_ok t \<Longrightarrow> ext n = None \<Longrightarrow> n \<noteq> migrationsTableName
    \<Longrightarrow> physical_ok ext (tables(n \<mapsto> t))"
  by (auto simp: physical_ok_def)

lemma physical_ok_remove: "physical_ok ext tables \<Longrightarrow> physical_ok ext (tables(n := None))"
  by (auto simp: physical_ok_def)

lemma physical_okD:
  "physical_ok ext tables \<Longrightarrow> tables n = Some t \<Longrightarrow> table_name t = n \<and> table_ok t \<and> ext n = None \<and> n \<noteq> migrationsTableName"
  by (auto simp: physical_ok_def)

lemma catalogs_ok_physical: "catalogs_ok cs \<Longrightarrow> catalogs_ok (cs\<lparr>physical := tables\<rparr>) \<longleftrightarrow> physical_ok (external cs) tables"
  by (simp add: catalogs_ok_def)

lemma catalogs_okD: "catalogs_ok cs \<Longrightarrow> physical_ok (external cs) (physical cs)"
  by (simp add: catalogs_ok_def)

lemma table_okD:
  "table_ok t \<Longrightarrow> distinct (column_order t)" "table_ok t \<Longrightarrow> n \<in> set (column_order t) \<longleftrightarrow> columns t n \<noteq> None"
  "table_ok t \<Longrightarrow> columns t n = Some c \<Longrightarrow> column_name c = n"
  by (auto simp: table_ok_def)

lemma table_ok_fields [simp]:
  "table_ok (t\<lparr>table_file := f\<rparr>) = table_ok t" "table_ok (t\<lparr>table_line := l\<rparr>) = table_ok t"
  "table_ok (t\<lparr>table_name := n\<rparr>) = table_ok t" "table_ok (t\<lparr>table_engine := e\<rparr>) = table_ok t"
  by (auto simp: table_ok_def)

lemma located_Inr [simp]: "located path line r = Inr x \<longleftrightarrow> r = Inr x"
  by (auto simp: located_def split: sum.splits)

section \<open>CREATE TABLE\<close>

lemma parse_create_ok:
  assumes "parseCreateTableWithType parse s = Inr t"
  shows "table_ok t \<and> create_name s = Some (table_name t) \<and> table_engine t = map_option parseTableEngine (create_engine s)"
proof -
  let ?P = "\<lambda>(m, order). distinct order \<and> set order = dom m \<and> (\<forall>n c. m n = Some c \<longrightarrow> column_name c = n)"
  from assms obtain name where n: "create_name s = Some name"
    by (auto simp: parseCreateTableWithType_def split: option.splits)
  with assms obtain schema where sc: "create_schema s = Some schema" "\<not> (schema_alias schema \<noteq> None \<or> schema_function schema)"
    by (auto simp: parseCreateTableWithType_def split: option.splits if_splits)
  note c = assms [unfolded parseCreateTableWithType_def n sc(1) option.case if_not_P [OF sc(2)]]
  obtain m order where f: "fold_res (add_definition parse name) (schema_columns schema) (Map.empty, []) = Inr (m, order)"
    and t: "t = \<lparr>table_name = name, table_file = [], table_line = 0, columns = m, column_order = order,
                  table_engine = map_option parseTableEngine (create_engine s)\<rparr>"
    using c by auto
  have "?P (m, order)"
    by (rule fold_res_invariant [OF f]) (auto simp: add_definition_def split: option.splits if_splits)
  with n t show ?thesis by (auto simp: table_ok_def case_prod_beta)
qed

lemma external_create_ok:
  assumes "applyExternalCreate cs path line s = Inr cs'" "catalogs_ok cs"
  shows "catalogs_ok cs' \<and> physical cs' = physical cs"
proof -
  from assms(1) obtain t where t: "parseCreateTable s = Inr t" "create_engine s = None"
    "physical cs (table_name t) = None" "external cs (table_name t) = None"
    "cs' = cs\<lparr>external := (external cs)(table_name t \<mapsto> t\<lparr>table_file := path, table_line := line\<rparr>)\<rparr>"
    by (auto simp: applyExternalCreate_def split: if_splits option.splits)
  with parse_create_ok [OF t(1) [unfolded parseCreateTable_def]] assms(2) show ?thesis
    by (auto simp: catalogs_ok_def physical_ok_def)
qed

lemma copy_table_ok:
  assumes "copy_table cs path line n sourceName s = Inr t" "physical_ok ext (physical cs)"
  shows "table_name t = n \<and> table_ok t"
proof (cases "physical cs sourceName")
  case (Some source)
  with assms show ?thesis by (auto simp: copy_table_def dest!: physical_okD)
qed (use assms in \<open>simp add: copy_table_def\<close>)

lemma physical_createE:
  assumes "applyPhysicalCreate cs path line refs s = Inr cs'" "catalogs_ok cs"
  obtains "cs' = cs"
  | n t where "n \<noteq> migrationsTableName" "external cs n = None" "physical cs n = None" "table_name t = n" "table_ok t"
      "cs' = cs\<lparr>physical := (physical cs)(n \<mapsto> t)\<rparr>"
proof -
  consider "cs' = cs"
    | n t where "create_name s = Some n" "n \<noteq> migrationsTableName" "external cs n = None" "physical cs n = None"
      "table_name t = n \<and> table_ok t" "cs' = cs\<lparr>physical := (physical cs)(table_name t \<mapsto> t\<lparr>table_file := path, table_line := line\<rparr>)\<rparr>"
  proof -
    note c = assms(1) [unfolded applyPhysicalCreate_def]
    from c obtain n where n: "create_name s = Some n" by (auto split: option.splits)
    note c = c [unfolded n option.case]
    show thesis
    proof (cases "n = migrationsTableName")
      case True with c that(1) show thesis by simp
    next
      case False
      note c = c [unfolded if_not_P [OF False]]
      from c have ext: "external cs n = None" by (auto split: option.splits)
      show thesis
      proof (cases "physical cs n")
        case (Some p) with c ext that(1) show thesis by (auto split: if_splits)
      next
        case None
        with c ext obtain t where t: "cs' = cs\<lparr>physical := (physical cs)(table_name t \<mapsto> t\<lparr>table_file := path, table_line := line\<rparr>)\<rparr>"
          and src: "(\<exists>sourceName. copy_table cs path line n sourceName s = Inr t) \<or> parseCreateTable s = Inr t"
          by (auto split: option.splits)
        have "table_name t = n \<and> table_ok t"
          using src copy_table_ok [OF _ catalogs_okD [OF assms(2)]] parse_create_ok [of parseCHType s t] n
          by (auto simp: parseCreateTable_def)
        with that(2) [OF n False ext None] t show thesis by blast
      qed
    qed
  qed
  then show thesis
  proof cases
    case 1 then show thesis by (rule that(1))
  next
    case (2 n t)
    then have n: "table_name t = n" "table_ok t" by auto
    show thesis
      by (rule that(2) [of n "t\<lparr>table_file := path, table_line := line\<rparr>"])
        (simp_all only: 2(2-4) 2(6) n table_ok_fields table.simps, simp_all add: n)
  qed
qed

section \<open>DROP, RENAME, EXCHANGE\<close>

lemma dropE:
  assumes "applyCatalogDrop cs path line s = Inr cs'"
  obtains "cs' = cs" | n t where "physical cs n = Some t" "cs' = cs\<lparr>physical := (physical cs)(n := None)\<rparr>"
proof -
  from assms obtain n where n: "drop_name s = Some n" by (auto simp: applyCatalogDrop_def split: option.splits)
  note d = assms [unfolded applyCatalogDrop_def n option.case]
  show thesis
  proof (cases "drop_target s")
    case DropTable
    note d = d [unfolded DropTable drop_target.case]
    show thesis
    proof (cases "physical cs n")
      case None with d that(1) show thesis by (simp split: if_split_asm)
    next
      case (Some t)
      from d Some have "cs' = cs \<or> cs' = cs\<lparr>physical := (physical cs)(n := None)\<rparr>" by (simp split: if_split_asm)
      then show thesis using that(1) that(2) [OF Some] by blast
    qed
  next
    case DropView with d that(1) show thesis by simp
  next
    case DropOther with d show thesis by simp
  qed
qed

text \<open>One pair of a RENAME on the tables so far.\<close>

inductive renamed :: "string \<Rightarrow> string \<Rightarrow> (string \<rightharpoonup> table) \<Rightarrow> (string \<rightharpoonup> table) \<Rightarrow> bool" where
  "tables a = Some t \<Longrightarrow> tables b = None \<Longrightarrow> renamed a b tables ((tables(a := None))(b \<mapsto> t\<lparr>table_name := b\<rparr>))"

inductive_cases renamedE: "renamed a b tables tables'"

lemma rename_oneE:
  assumes "rename_one cs path content line pair tables = Inr tables'"
  obtains a b where "renamed a b tables tables'" "b \<noteq> migrationsTableName" "external cs b = None"
proof -
  from assms obtain p old a new b where c: "complete_pair pair = Some (p, old, a, new, b)"
    by (cases "complete_pair pair") (auto simp: rename_one_def)
  from assms [unfolded rename_one_def c option.case prod.case Let_def]
  obtain t where t: "tables a = Some t" "tables b = None" "b \<noteq> migrationsTableName" "external cs b = None"
    "tables' = (tables(a := None))(b \<mapsto> t\<lparr>table_name := b\<rparr>)"
    by (auto simp: check_not_external_def split: option.splits if_splits)
  show thesis by (rule that [of a b]) (use t in \<open>auto intro: renamed.intros\<close>)
qed

lemma renamed_ok:
  assumes "renamed a b tables tables'" "b \<noteq> migrationsTableName" "ext b = None" "physical_ok ext tables"
  shows "physical_ok ext tables'"
  using assms by (auto elim!: renamedE dest: physical_okD intro!: physical_ok_insert physical_ok_remove)

lemma rename_physical:
  assumes "applyCatalogRename cs path content s = Inr cs'"
  obtains tables where "cs' = cs\<lparr>physical := tables\<rparr>"
    "fold_res (rename_one cs path content (lineOfOffset content (rename_pos s))) (rename_pairs s) (physical cs) = Inr tables"
  using assms by (auto simp: applyCatalogRename_def Let_def split: if_splits)

lemma rename_ok:
  assumes "applyCatalogRename cs path content s = Inr cs'" "catalogs_ok cs"
  shows "catalogs_ok cs'"
  using assms(1)
proof (rule rename_physical)
  fix tables
  assume cs': "cs' = cs\<lparr>physical := tables\<rparr>"
    and f: "fold_res (rename_one cs path content (lineOfOffset content (rename_pos s))) (rename_pairs s) (physical cs) = Inr tables"
  have "physical_ok (external cs) tables"
    by (rule fold_res_invariant [OF f]) (use assms(2) in \<open>auto simp: catalogs_ok_def elim!: rename_oneE intro: renamed_ok\<close>)
  with cs' assms(2) show ?thesis by (simp add: catalogs_ok_physical)
qed

lemma exchangeE:
  assumes "applyCatalogExchange cs path line s = Some (Inr cs')"
  obtains a b l r where "a \<noteq> b" "physical cs a = Some l" "physical cs b = Some r"
    "cs' = cs\<lparr>physical := (physical cs)(a \<mapsto> r\<lparr>table_name := a\<rparr>, b \<mapsto> l\<lparr>table_name := b\<rparr>)\<rparr>"
proof -
  from assms obtain p old a new b where c: "complete_pair (hd (rename_pairs s)) = Some (p, old, a, new, b)"
    by (cases "complete_pair (hd (rename_pairs s))") (auto simp: applyCatalogExchange_def split: if_splits)
  from assms [unfolded applyCatalogExchange_def c option.case prod.case]
  obtain l r where "a \<noteq> b" "physical cs a = Some l" "physical cs b = Some r"
    "cs' = cs\<lparr>physical := (physical cs)(a \<mapsto> r\<lparr>table_name := a\<rparr>, b \<mapsto> l\<lparr>table_name := b\<rparr>)\<rparr>"
    by (auto simp: check_exchange_name_def split: if_split_asm)
  then show thesis by (rule that)
qed

lemma exchange_ok:
  assumes "applyCatalogExchange cs path line s = Some (Inr cs')" "catalogs_ok cs"
  shows "catalogs_ok cs'"
  using assms(1)
proof (rule exchangeE)
  fix a b l r
  assume e: "a \<noteq> b" "physical cs a = Some l" "physical cs b = Some r"
    "cs' = cs\<lparr>physical := (physical cs)(a \<mapsto> r\<lparr>table_name := a\<rparr>, b \<mapsto> l\<lparr>table_name := b\<rparr>)\<rparr>"
  have p: "physical_ok (external cs) (physical cs)" using assms(2) by (rule catalogs_okD)
  have "physical_ok (external cs) ((physical cs)(a \<mapsto> r\<lparr>table_name := a\<rparr>, b \<mapsto> l\<lparr>table_name := b\<rparr>))"
    using physical_okD [OF p e(2)] physical_okD [OF p e(3)] p by (intro physical_ok_insert) auto
  with e(4) assms(2) show ?thesis by (simp add: catalogs_ok_physical)
qed

section \<open>ALTER TABLE refines operations on an ordered list of columns\<close>

text \<open>A table's columns in their order.\<close>

definition ordered_columns :: "table \<Rightarrow> (string \<times> column) list" where
  "ordered_columns t = map (\<lambda>n. (n, the (columns t n))) (column_order t)"

definition list_add :: "string \<Rightarrow> column \<Rightarrow> string option \<Rightarrow> (string \<times> column) list \<Rightarrow> (string \<times> column) list" where
  "list_add n c after cols = (case after of
       None \<Rightarrow> cols @ [(n, c)]
     | Some a \<Rightarrow> concat (map (\<lambda>p. if fst p = a then [p, (n, c)] else [p]) cols))"

text \<open>What a clause does to the list; \<open>None\<close> is a refusal.\<close>

definition list_clause :: "string \<Rightarrow> alter_clause \<Rightarrow> (string \<times> column) list \<Rightarrow> (string \<times> column) list option" where
  "list_clause tableName clause cols = (case clause of
       AddColumn (Some d) ifNotExists after \<Rightarrow> (case parseColumnDef tableName d of
           Inl _ \<Rightarrow> None
         | Inr c \<Rightarrow>
             if column_name c \<in> fst ` set cols then (if ifNotExists then Some cols else None)
             else if \<exists>a. after = Some a \<and> a \<notin> fst ` set cols then None
             else Some (list_add (column_name c) c after cols))
     | ModifyColumn (Some d) ifExists \<Rightarrow> (case parseColumnDef tableName d of
           Inl _ \<Rightarrow> None
         | Inr c \<Rightarrow>
             if column_name c \<in> fst ` set cols
             then Some (map (\<lambda>p. if fst p = column_name c then (fst p, keep_modifiers d (snd p) c) else p) cols)
             else if ifExists then Some cols else None)
     | DropColumn (Some n) ifExists \<Rightarrow>
         if n \<in> fst ` set cols then Some (filter (\<lambda>p. fst p \<noteq> n) cols)
         else if ifExists then Some cols else None
     | AddColumn None _ _ \<Rightarrow> None | ModifyColumn None _ \<Rightarrow> None | DropColumn None _ \<Rightarrow> None
     | RemoveTTL \<Rightarrow> Some cols | ModifySetting _ \<Rightarrow> Some cols | ResetSetting _ \<Rightarrow> Some cols
     | OtherAlter g \<Rightarrow> if g \<in> set ignored_alter_clauses then Some cols else None)"

lemma map_columns_cong:
  "(\<And>n. n \<in> set ns \<Longrightarrow> m n = m' n) \<Longrightarrow> map (\<lambda>n. (n, the (m n))) ns = map (\<lambda>n. (n, the (m' n))) ns"
  by auto

lemma fst_ordered [simp]: "map fst (ordered_columns t) = column_order t" "fst ` set (ordered_columns t) = set (column_order t)"
  by (auto simp: ordered_columns_def comp_def image_image)

lemma insert_after_split:
  "distinct ns \<Longrightarrow> case insert_after a n ns of None \<Rightarrow> a \<notin> set ns
     | Some order \<Rightarrow> a \<in> set ns \<and> order = concat (map (\<lambda>m. if m = a then [m, n] else [m]) ns)"
proof (induction ns)
  case (Cons m ns)
  have r: "a \<notin> set ns \<Longrightarrow> concat (map (\<lambda>k. if k = a then [k, n] else [k]) ns) = ns"
    by (induction ns) auto
  from Cons show ?case by (auto simp: r split: option.splits)
qed simp

lemma keep_modifiers_name [simp]: "column_name (keep_modifiers d p c) = column_name c"
  by (simp add: keep_modifiers_def Let_def)

lemma remove1_filter: "distinct xs \<Longrightarrow> remove1 x xs = filter (\<lambda>y. y \<noteq> x) xs"
  by (simp add: distinct_remove1_removeAll removeAll_filter_not_eq eq_commute)

lemma distinct_inserted:
  "distinct ns \<Longrightarrow> n \<notin> set ns \<Longrightarrow> distinct (concat (map (\<lambda>m. if m = a then [m, n] else [m]) ns))"
  "set (concat (map (\<lambda>m. if m = a then [m, n] else [m]) ns)) = set ns \<union> (if a \<in> set ns then {n} else {})"
  by (induction ns) (auto split: if_splits)

lemma alter_add_refines:
  assumes "table_ok t"
  shows "case alter_add tableName d ifNotExists after t of
      Inl _ \<Rightarrow> list_clause tableName (AddColumn d ifNotExists after) (ordered_columns t) = None
    | Inr u \<Rightarrow> table_ok u \<and> list_clause tableName (AddColumn d ifNotExists after) (ordered_columns t) = Some (ordered_columns u)"
proof (cases d)
  case None then show ?thesis by (simp add: alter_add_def list_clause_def)
next
  case (Some def)
  show ?thesis
  proof (cases "parseColumnDef tableName def")
    case Inl with Some show ?thesis by (simp add: alter_add_def list_clause_def)
  next
    case (Inr c)
    let ?n = "column_name c"
    show ?thesis
    proof (cases "columns t ?n = None")
      case False
      with assms have "?n \<in> set (column_order t)" by (simp add: table_okD)
      with False Some Inr assms show ?thesis by (simp add: alter_add_def list_clause_def Let_def)
    next
      case True
      with assms have new: "?n \<notin> set (column_order t)" by (simp add: table_okD)
      have m: "map (\<lambda>n. (n, the (((columns t)(?n \<mapsto> c)) n))) (column_order t) = ordered_columns t"
        unfolding ordered_columns_def using new by (intro map_columns_cong) auto
      show ?thesis
      proof (cases after)
        case None
        have "table_ok (t\<lparr>columns := (columns t)(?n \<mapsto> c), column_order := column_order t @ [?n]\<rparr>)"
          using assms new by (auto simp: table_ok_def)
        moreover have "ordered_columns (t\<lparr>columns := (columns t)(?n \<mapsto> c), column_order := column_order t @ [?n]\<rparr>)
            = ordered_columns t @ [(?n, c)]"
          using m by (simp add: ordered_columns_def)
        ultimately show ?thesis using True None Some Inr new
          by (simp add: alter_add_def list_clause_def list_add_def Let_def)
      next
        case (Some a)
        note ins = insert_after_split [OF table_okD(1) [OF assms], of a ?n]
        show ?thesis
        proof (cases "insert_after a ?n (column_order t)")
          case None
          with ins \<open>d = Some def\<close> Inr True Some new show ?thesis by (simp add: alter_add_def list_clause_def Let_def)
        next
          case order: (Some order)
          let ?u = "t\<lparr>columns := (columns t)(?n \<mapsto> c), column_order := order\<rparr>"
          have o: "a \<in> set (column_order t)" "order = concat (map (\<lambda>m. if m = a then [m, ?n] else [m]) (column_order t))"
            using ins order by auto
          have "table_ok ?u"
            using assms new o distinct_inserted [where ns = "column_order t" and n = ?n and a = a] by (auto simp: table_ok_def)
          moreover have "ordered_columns ?u = list_add ?n c (Some a) (ordered_columns t)"
            using new unfolding ordered_columns_def list_add_def o(2)
            by (induction "column_order t") (auto simp: map_concat comp_def intro!: arg_cong [where f = concat])
          ultimately show ?thesis using True \<open>d = Some def\<close> Some Inr new o(1) order
            by (simp add: alter_add_def list_clause_def Let_def)
        qed
      qed
    qed
  qed
qed

lemma alter_modify_refines:
  assumes "table_ok t"
  shows "case alter_modify tableName d ifExists t of
      Inl _ \<Rightarrow> list_clause tableName (ModifyColumn d ifExists) (ordered_columns t) = None
    | Inr u \<Rightarrow> table_ok u \<and> list_clause tableName (ModifyColumn d ifExists) (ordered_columns t) = Some (ordered_columns u)"
proof (cases d)
  case None then show ?thesis by (simp add: alter_modify_def list_clause_def)
next
  case (Some def)
  show ?thesis
  proof (cases "parseColumnDef tableName def")
    case Inl with Some show ?thesis by (simp add: alter_modify_def list_clause_def)
  next
    case (Inr c)
    show ?thesis
    proof (cases "columns t (column_name c)")
      case None
      with Some Inr assms show ?thesis by (auto simp: alter_modify_def list_clause_def table_okD)
    next
      case p: (Some p)
      let ?u = "t\<lparr>columns := (columns t)(column_name c \<mapsto> keep_modifiers def p c)\<rparr>"
      have i: "column_name c \<in> set (column_order t)" using assms p by (simp add: table_okD)
      have "table_ok ?u" using assms p by (auto simp: table_ok_def)
      moreover have "ordered_columns ?u
          = map (\<lambda>q. if fst q = column_name c then (fst q, keep_modifiers def (snd q) c) else q) (ordered_columns t)"
        using p by (auto simp: ordered_columns_def)
      ultimately show ?thesis using Some Inr p i by (simp add: alter_modify_def list_clause_def)
    qed
  qed
qed

lemma alter_drop_refines:
  assumes "table_ok t"
  shows "case alter_drop tableName n ifExists t of
      Inl _ \<Rightarrow> list_clause tableName (DropColumn n ifExists) (ordered_columns t) = None
    | Inr u \<Rightarrow> table_ok u \<and> list_clause tableName (DropColumn n ifExists) (ordered_columns t) = Some (ordered_columns u)"
proof (cases n)
  case None then show ?thesis by (simp add: alter_drop_def list_clause_def)
next
  case (Some m)
  show ?thesis
  proof (cases "columns t m = None")
    case True with Some assms show ?thesis by (simp add: alter_drop_def list_clause_def table_okD)
  next
    case False
    let ?u = "t\<lparr>columns := (columns t)(m := None), column_order := remove1 m (column_order t)\<rparr>"
    have f: "remove1 m (column_order t) = filter (\<lambda>k. k \<noteq> m) (column_order t)"
      using assms by (simp add: remove1_filter table_okD)
    have "table_ok ?u" using assms unfolding table_ok_def by (auto simp: remove1_filter)
    moreover have "ordered_columns ?u = filter (\<lambda>p. fst p \<noteq> m) (ordered_columns t)"
      by (auto simp: ordered_columns_def f filter_map comp_def)
    ultimately show ?thesis using Some False assms by (simp add: alter_drop_def list_clause_def table_okD)
  qed
qed

lemma change_engine_columns [simp]:
  "table_ok (change_engine f t) = table_ok t" "ordered_columns (change_engine f t) = ordered_columns t"
  "table_name (change_engine f t) = table_name t"
  by (auto simp: change_engine_def ordered_columns_def)

lemma clause_refines:
  assumes "table_ok t"
  shows "case apply_clause tableName clause t of
      Inl _ \<Rightarrow> list_clause tableName clause (ordered_columns t) = None
    | Inr u \<Rightarrow> table_ok u \<and> list_clause tableName clause (ordered_columns t) = Some (ordered_columns u)"
proof (cases clause)
  case (AddColumn d e a) show ?thesis unfolding AddColumn using alter_add_refines [OF assms] by (simp add: apply_clause_def)
next
  case (ModifyColumn d e) show ?thesis unfolding ModifyColumn using alter_modify_refines [OF assms] by (simp add: apply_clause_def)
next
  case (DropColumn n e) show ?thesis unfolding DropColumn using alter_drop_refines [OF assms] by (simp add: apply_clause_def)
qed (use assms in \<open>auto simp: apply_clause_def list_clause_def classifyCatalogAlter_def\<close>)

fun list_clauses :: "string \<Rightarrow> alter_clause list \<Rightarrow> (string \<times> column) list \<Rightarrow> (string \<times> column) list option" where
  "list_clauses tableName [] cols = Some cols"
| "list_clauses tableName (clause # clauses) cols = (case list_clause tableName clause cols of
       None \<Rightarrow> None | Some next \<Rightarrow> list_clauses tableName clauses next)"

lemma clauses_refine:
  "table_ok t \<Longrightarrow> case fold_res (apply_clause tableName) clauses t of
      Inl _ \<Rightarrow> list_clauses tableName clauses (ordered_columns t) = None
    | Inr u \<Rightarrow> table_ok u \<and> list_clauses tableName clauses (ordered_columns t) = Some (ordered_columns u)"
proof (induction clauses arbitrary: t)
  case (Cons clause clauses)
  show ?case
  proof (cases "apply_clause tableName clause t")
    case Inl with clause_refines [OF Cons.prems, of tableName clause] show ?thesis by simp
  next
    case (Inr u)
    with clause_refines [OF Cons.prems, of tableName clause] Cons.IH [of u] show ?thesis
      by (simp split: sum.splits)
  qed
qed simp

lemma alter_add_name: "alter_add tableName d e after t = Inr u \<Longrightarrow> table_name u = table_name t"
proof -
  assume a: "alter_add tableName d e after t = Inr u"
  then obtain def where d: "d = Some def" by (auto simp: alter_add_def split: option.splits)
  with a obtain c where c: "parseColumnDef tableName def = Inr c" by (auto simp: alter_add_def)
  show ?thesis
  proof (cases after)
    case None
    with a d c show ?thesis by (auto simp: alter_add_def Let_def split: if_splits)
  next
    case (Some m)
    with a d c show ?thesis
      by (cases "insert_after m (column_name c) (column_order t)") (auto simp: alter_add_def Let_def split: if_splits)
  qed
qed

lemma apply_clause_name:
  assumes "apply_clause tableName clause t = Inr u"
  shows "table_name u = table_name t"
proof (cases clause)
  case (AddColumn d e a) with assms alter_add_name show ?thesis by (simp add: apply_clause_def)
next
  case (ModifyColumn d e)
  with assms have "alter_modify tableName d e t = Inr u" by (simp add: apply_clause_def)
  then show ?thesis by (auto simp: alter_modify_def split: option.splits if_splits)
next
  case (DropColumn n e)
  with assms have "alter_drop tableName n e t = Inr u" by (simp add: apply_clause_def)
  then show ?thesis by (auto simp: alter_drop_def split: option.splits if_splits)
qed (use assms in \<open>auto simp: apply_clause_def split: if_splits\<close>)

lemma clauses_name: "fold_res (apply_clause tableName) clauses t = Inr u \<Longrightarrow> table_name u = table_name t"
  by (erule fold_res_invariant [where P = "\<lambda>u. table_name u = table_name t"]) (auto dest: apply_clause_name)

lemma alterE:
  assumes "applyCatalogAlter cs path content line s = Inr cs'"
  obtains "cs' = cs"
  | n t u where "physical cs n = Some t" "fold_res (apply_clause n) (map snd (alter_clauses s)) t = Inr u"
      "cs' = cs\<lparr>physical := (physical cs)(n \<mapsto> u)\<rparr>"
proof -
  from assms obtain n where n: "alter_name s = Some n" by (auto simp: applyCatalogAlter_def split: option.splits)
  note a = assms [unfolded applyCatalogAlter_def n option.case]
  show thesis
  proof (cases "n = migrationsTableName")
    case True with a that(1) show thesis by simp
  next
    case False
    with a have "\<not> external cs n \<noteq> None" by (auto split: if_splits)
    note a = a [unfolded if_not_P [OF False] if_not_P [OF this]]
    from a obtain tables where t: "applyAlterTable (physical cs) (Some n) (map snd (alter_clauses s)) = Inr tables"
      "cs' = cs\<lparr>physical := tables\<rparr>"
      by (auto split: option.splits)
    then obtain t u where "physical cs n = Some t" "fold_res (apply_clause n) (map snd (alter_clauses s)) t = Inr u"
      "tables = (physical cs)(n \<mapsto> u)"
      by (auto simp: applyAlterTable_def split: option.splits)
    with t(2) that(2) show thesis by blast
  qed
qed

section \<open>The specification: tables as ordered lists of columns\<close>

type_synonym table_view = "string \<rightharpoonup> (string \<times> column) list"

definition view :: "schema_catalogs \<Rightarrow> table_view" where
  "view cs = (\<lambda>n. map_option ordered_columns (physical cs n))"

inductive spec_step :: "table_view \<Rightarrow> table_view \<Rightarrow> bool" where
  created: "v n = None \<Longrightarrow> distinct (map fst cols) \<Longrightarrow> \<forall>p \<in> set cols. column_name (snd p) = fst p
    \<Longrightarrow> spec_step v (v(n \<mapsto> cols))"
| dropped: "v n = Some cols \<Longrightarrow> spec_step v (v(n := None))"
| moved: "v a = Some cols \<Longrightarrow> v b = None \<Longrightarrow> spec_step v ((v(a := None))(b \<mapsto> cols))"
| swapped: "v a = Some x \<Longrightarrow> v b = Some y \<Longrightarrow> a \<noteq> b \<Longrightarrow> spec_step v (v(a \<mapsto> y, b \<mapsto> x))"
| altered: "v n = Some cols \<Longrightarrow> list_clauses n clauses cols = Some cols' \<Longrightarrow> spec_step v (v(n \<mapsto> cols'))"

text \<open>A step of the catalogs is an accepted statement.\<close>

inductive catalog_step :: "schema_catalogs \<Rightarrow> schema_catalogs \<Rightarrow> bool" where
  "apply_statement path content exchanges marked cs statement = Some (Inr cs') \<Longrightarrow> catalog_step cs cs'"

inductive_cases catalog_stepE: "catalog_step cs cs'"

lemma ordered_columns_fields [simp]:
  "ordered_columns (t\<lparr>table_file := f\<rparr>) = ordered_columns t" "ordered_columns (t\<lparr>table_line := l\<rparr>) = ordered_columns t"
  "ordered_columns (t\<lparr>table_name := n\<rparr>) = ordered_columns t" "ordered_columns (t\<lparr>table_engine := e\<rparr>) = ordered_columns t"
  by (simp_all add: ordered_columns_def)

lemma ordered_columns_ok:
  "table_ok t \<Longrightarrow> distinct (map fst (ordered_columns t)) \<and> (\<forall>p \<in> set (ordered_columns t). column_name (snd p) = fst p)"
  by (auto simp: table_ok_def ordered_columns_def comp_def)

lemma view_insert: "view (cs\<lparr>physical := (physical cs)(n \<mapsto> t)\<rparr>) = (view cs)(n \<mapsto> ordered_columns t)"
  by (auto simp: view_def)

lemma renamed_spec:
  "renamed a b tables tables' \<Longrightarrow> spec_step (\<lambda>n. map_option ordered_columns (tables n)) (\<lambda>n. map_option ordered_columns (tables' n))"
proof (erule renamedE)
  fix t assume t: "tables a = Some t" "tables b = None" "tables' = (tables(a := None))(b \<mapsto> t\<lparr>table_name := b\<rparr>)"
  let ?v = "\<lambda>n. map_option ordered_columns (tables n)"
  have "(\<lambda>n. map_option ordered_columns (tables' n)) = (?v(a := None))(b \<mapsto> ordered_columns t)" using t(3) by auto
  with t(1,2) show ?thesis using moved [of ?v a "ordered_columns t" b] by simp
qed

lemma rename_spec:
  assumes "applyCatalogRename cs path content s = Inr cs'"
  shows "spec_step\<^sup>*\<^sup>* (view cs) (view cs')"
  using assms
proof (rule rename_physical)
  fix tables
  let ?v = "\<lambda>tables n. map_option ordered_columns (tables n)"
  assume cs': "cs' = cs\<lparr>physical := tables\<rparr>"
    and f: "fold_res (rename_one cs path content (lineOfOffset content (rename_pos s))) (rename_pairs s) (physical cs) = Inr tables"
  have "spec_step\<^sup>*\<^sup>* (?v (physical cs)) (?v tables)"
    by (rule fold_res_invariant [OF f, where P = "\<lambda>ts. spec_step\<^sup>*\<^sup>* (?v (physical cs)) (?v ts)"])
      (auto elim!: rename_oneE dest: renamed_spec)
  with cs' show ?thesis by (simp add: view_def)
qed

lemma statement_effect:
  assumes "apply_statement path content exchanges marked cs statement = Some (Inr cs')" "catalogs_ok cs"
  shows "catalogs_ok cs' \<and> spec_step\<^sup>*\<^sup>* (view cs) (view cs')"
proof -
  have ok: "physical_ok (external cs) (physical cs)" using assms(2) by (rule catalogs_okD)
  from assms(1) have sys: "\<not> system_reference statement" by (auto simp: apply_statement_def split: if_splits)
  note a = assms(1) [unfolded apply_statement_def if_not_P [OF sys] Let_def]
  show ?thesis
  proof (cases "stmt_body statement")
    case (CreateTableStmt create)
    note a = a [unfolded CreateTableStmt statement_body.case]
    show ?thesis
    proof (cases "create_pos create \<in> set marked")
      case True
      with a have "applyExternalCreate cs path (lineOfOffset content (create_pos create)) create = Inr cs'" by simp
      from external_create_ok [OF this assms(2)] show ?thesis by (simp add: view_def)
    next
      case False
      with a have "applyPhysicalCreate cs path (lineOfOffset content (create_pos create)) (stmt_references statement) create = Inr cs'"
        by simp
      then show ?thesis using assms(2)
      proof (rule physical_createE)
        assume "cs' = cs" with assms(2) show ?thesis by simp
      next
        fix n t
        assume t: "n \<noteq> migrationsTableName" "external cs n = None" "physical cs n = None" "table_name t = n" "table_ok t"
          "cs' = cs\<lparr>physical := (physical cs)(n \<mapsto> t)\<rparr>"
        have "spec_step (view cs) ((view cs)(n \<mapsto> ordered_columns t))"
          using t(3) ordered_columns_ok [OF t(5)] by (intro created) (auto simp: view_def)
        moreover have "catalogs_ok cs'"
          using t(6) assms(2) physical_ok_insert [OF ok t(4,5,2,1)] by (simp add: catalogs_ok_physical)
        ultimately show ?thesis using t(6) by (simp add: view_insert)
      qed
    qed
  next
    case (AlterTableStmt alter)
    with a have "applyCatalogAlter cs path content (lineOfOffset content (alter_pos alter)) alter = Inr cs'" by simp
    then show ?thesis
    proof (rule alterE)
      assume "cs' = cs" with assms(2) show ?thesis by simp
    next
      fix n t u
      assume t: "physical cs n = Some t" "fold_res (apply_clause n) (map snd (alter_clauses alter)) t = Inr u"
        "cs' = cs\<lparr>physical := (physical cs)(n \<mapsto> u)\<rparr>"
      note n = physical_okD [OF ok t(1)]
      have u: "table_ok u" "list_clauses n (map snd (alter_clauses alter)) (ordered_columns t) = Some (ordered_columns u)"
        using clauses_refine [of t n "map snd (alter_clauses alter)"] n t(2) by simp_all
      have "catalogs_ok cs'"
        using t(3) assms(2) n u(1) clauses_name [OF t(2)] physical_ok_insert [OF ok, of u n] by (simp add: catalogs_ok_physical)
      moreover have "spec_step (view cs) ((view cs)(n \<mapsto> ordered_columns u))"
        by (rule altered [OF _ u(2)]) (simp add: view_def t(1))
      ultimately show ?thesis using t(3) by (simp add: view_insert)
    qed
  next
    case (DropTableStmt d)
    with a have "applyCatalogDrop cs path (lineOfOffset content (drop_pos d)) d = Inr cs'" by simp
    then show ?thesis
    proof (rule dropE)
      assume "cs' = cs" with assms(2) show ?thesis by simp
    next
      fix n t
      assume t: "physical cs n = Some t" "cs' = cs\<lparr>physical := (physical cs)(n := None)\<rparr>"
      have "view cs' = (view cs)(n := None)" using t(2) by (auto simp: view_def)
      moreover have "spec_step (view cs) ((view cs)(n := None))"
        by (rule dropped [of _ _ "ordered_columns t"]) (simp add: view_def t(1))
      ultimately show ?thesis using t(2) assms(2) physical_ok_remove [OF ok] by (simp add: catalogs_ok_physical)
    qed
  next
    case (RenameTableStmt r)
    show ?thesis
    proof (cases "rename_pos r \<in> set exchanges")
      case True
      with a RenameTableStmt have x: "applyCatalogExchange cs path (lineOfOffset content (rename_pos r)) r = Some (Inr cs')" by simp
      have "spec_step (view cs) (view cs')"
        using x
      proof (rule exchangeE)
        fix a b l r'
        assume e: "a \<noteq> b" "physical cs a = Some l" "physical cs b = Some r'"
          "cs' = cs\<lparr>physical := (physical cs)(a \<mapsto> r'\<lparr>table_name := a\<rparr>, b \<mapsto> l\<lparr>table_name := b\<rparr>)\<rparr>"
        have "view cs' = (view cs)(a \<mapsto> ordered_columns r', b \<mapsto> ordered_columns l)" using e(4) by (auto simp: view_def)
        then show ?thesis using swapped [of "view cs" a "ordered_columns l" b "ordered_columns r'"] e(1-3) by (simp add: view_def)
      qed
      with exchange_ok [OF x assms(2)] show ?thesis by blast
    next
      case False
      with a RenameTableStmt have x: "applyCatalogRename cs path content r = Inr cs'" by simp
      from rename_ok [OF x assms(2)] rename_spec [OF x] show ?thesis by blast
    qed
  next
    case ViewOrInsertStmt with a assms(2) show ?thesis by simp
  next
    case OtherStmt with a show ?thesis by simp
  qed
qed

text \<open>The catalogs are a state machine that implements the specification.\<close>

interpretation catalog: simulation catalog_step catalogs_ok view spec_step
  by unfold_locales (auto elim!: catalog_stepE dest: statement_effect)

section \<open>Loading\<close>

lemma statements_steps:
  "apply_statements (apply_statement path content exchanges marked) cs statements = Some (Inr cs') \<Longrightarrow> catalog_step\<^sup>*\<^sup>* cs cs'"
  by (induction statements arbitrary: cs)
    (auto split: option.splits sum.splits intro: catalog_step.intros converse_rtranclp_into_rtranclp)

lemma source_steps:
  assumes "applySchemaSource parse cs path raw = Some (Inr cs')"
  shows "catalog_step\<^sup>*\<^sup>* cs cs'"
  using assms by (auto simp: applySchemaSource_def Let_def split: sum.splits prod.splits option.splits intro: statements_steps)

lemma load_steps: "load_files parse read cs paths = Some (Inr cs') \<Longrightarrow> catalog_step\<^sup>*\<^sup>* cs cs'"
  by (induction paths arbitrary: cs)
    (auto split: option.splits sum.splits dest!: source_steps intro: rtranclp_trans)

lemma empty_ok: "catalogs_ok empty_catalogs" "view empty_catalogs = Map.empty"
  by (auto simp: catalogs_ok_def physical_ok_def empty_catalogs_def view_def)

section \<open>Properties\<close>

definition plain_name :: "string \<Rightarrow> table_identifier" where
  "plain_name n = \<lparr>ident_database = None, ident_table = Some n\<rparr>"

definition name_pair :: "string \<Rightarrow> string \<Rightarrow> rename_pair option" where
  "name_pair a b = Some \<lparr>pair_pos = 0, pair_old = Some (plain_name a), pair_new = Some (plain_name b)\<rparr>"

definition rename_of :: "(string \<times> string) list \<Rightarrow> rename_stmt" where
  "rename_of pairs = \<lparr>rename_pos = 0, rename_is_table = True, rename_type_text = ''RENAME TABLE'',
     rename_pairs = map (\<lambda>(a, b). name_pair a b) pairs\<rparr>"

lemma complete_name_pair [simp]:
  "\<exists>p. complete_pair (name_pair a b) = Some (p, plain_name a, a, plain_name b, b)"
  "ident_database (plain_name a) = None"
  by (simp_all add: complete_pair_def name_pair_def plain_name_def)

lemma rename_name_pair:
  assumes "a \<noteq> migrationsTableName" "b \<noteq> migrationsTableName" "external cs a = None" "external cs b = None"
    and "tables a = Some t" "tables b = None"
  shows "rename_one cs path content line (name_pair a b) tables = Inr ((tables(a := None))(b \<mapsto> t\<lparr>table_name := b\<rparr>))"
  using assms by (simp add: rename_one_def complete_pair_def name_pair_def plain_name_def check_not_external_def Let_def)

lemma exchange_pair:
  assumes "a \<noteq> b" "a \<noteq> migrationsTableName" "b \<noteq> migrationsTableName" "external cs a = None" "external cs b = None"
    and "physical cs a = Some l" "physical cs b = Some r"
  shows "applyCatalogExchange cs path line (rename_of [(a, b)]) =
    Some (Inr (cs\<lparr>physical := (physical cs)(a \<mapsto> r\<lparr>table_name := a\<rparr>, b \<mapsto> l\<lparr>table_name := b\<rparr>)\<rparr>))"
  using assms
  by (simp add: applyCatalogExchange_def rename_of_def complete_pair_def name_pair_def plain_name_def check_exchange_name_def)

text \<open>
  C12. Whatever files are loaded, the catalogs that come out are well formed: a table is stored under
  its own name, no name is both physical and external, the excluded migrations table never enters,
  external tables have no engine, and the column order of a table lists each of its columns once.
\<close>
theorem loaded_catalogs_well_formed:
  assumes "ParseSchemaCatalogs parse read paths = Some (Inr cs)"
  shows "catalogs_ok cs"
  using catalog.steps_inv [OF load_steps [OF assms [unfolded ParseSchemaCatalogs_def]] empty_ok(1)] .

definition sample_column :: "string \<Rightarrow> col_type \<Rightarrow> column_def" where
  "sample_column n t = \<lparr>def_name = Some (n, None), def_type = Some t, def_default = None, def_materialized = None,
     def_alias = None, def_codec = None, def_comment = None, def_ttl = None\<rparr>"

definition sample_create :: "string \<Rightarrow> parsed_statement" where
  "sample_create n = \<lparr>stmt_pos = 0, stmt_references = [plain_name n], stmt_body = CreateTableStmt
     \<lparr>create_pos = 0, create_name = Some n,
      create_schema = Some \<lparr>schema_alias = None, schema_function = False,
        schema_columns = [Some (sample_column ''id'' (ScalarType ''UInt64'')), Some (sample_column ''at'' (ScalarType ''DateTime''))]\<rparr>,
      create_engine = None, if_not_exists = False\<rparr>\<rparr>"

definition sample_statements :: "parsed_statement list" where
  "sample_statements = [sample_create ''events'',
     \<lparr>stmt_pos = 0, stmt_references = [], stmt_body = AlterTableStmt \<lparr>alter_pos = 0, alter_name = Some ''events'',
        alter_clauses = [(0, AddColumn (Some (sample_column ''name'' (ScalarType ''String''))) False (Some ''id'')),
          (0, DropColumn (Some ''at'') False)]\<rparr>\<rparr>,
     \<lparr>stmt_pos = 0, stmt_references = [], stmt_body = RenameTableStmt (rename_of [(''events'', ''log'')])\<rparr>]"

definition returns :: "'a result option \<Rightarrow> bool" where
  "returns r = (case r of Some (Inr _) \<Rightarrow> True | _ \<Rightarrow> False)"

lemma returns_iff: "returns r \<longleftrightarrow> (\<exists>x. r = Some (Inr x))"
  by (auto simp: returns_def split: option.splits sum.splits)

lemma sample_load: "\<exists>cs. ParseSchemaCatalogs (\<lambda>_. Inr sample_statements) (\<lambda>_. Inr []) [''schema.sql''] = Some (Inr cs)"
proof -
  have "returns (ParseSchemaCatalogs (\<lambda>_. Inr sample_statements) (\<lambda>_. Inr []) [''schema.sql''])" by code_simp
  then show ?thesis by (simp add: returns_iff)
qed

theorem loaded_catalogs_well_formed_witness:
  "\<exists>cs. ParseSchemaCatalogs (\<lambda>_. Inr sample_statements) (\<lambda>_. Inr []) [''schema.sql''] = Some (Inr cs) \<and> catalogs_ok cs"
  using sample_load loaded_catalogs_well_formed by blast



text \<open>
  C13. The clauses of an ALTER TABLE do to the column map and the order list of a table what they do
  to one ordered list of columns, refusals included: ADD inserts after a named column or at the end,
  MODIFY retypes in place and keeps the modifiers it does not state, DROP removes, the others leave
  the columns alone.
\<close>
theorem alter_refines_ordered_columns:
  assumes "table_ok t"
  shows "case fold_res (apply_clause tableName) clauses t of
      Inl _ \<Rightarrow> list_clauses tableName clauses (ordered_columns t) = None
    | Inr u \<Rightarrow> table_ok u \<and> list_clauses tableName clauses (ordered_columns t) = Some (ordered_columns u)"
  by (rule clauses_refine [OF assms])

definition sample_table :: table where
  "sample_table = \<lparr>table_name = ''t'', table_file = [], table_line = 1,
     columns = [''a'' \<mapsto> \<lparr>column_name = ''a'', column_type = ty0 ''Int32'', insertable = True, default_expr = [], materialized_expr = [],
        alias_expr = [], codec_text = [], comment_text = [], ttl_text = []\<rparr>],
     column_order = [''a''], table_engine = None\<rparr>"

theorem alter_refines_ordered_columns_witness:
  "case fold_res (apply_clause ''t'') [AddColumn (Some (sample_column ''b'' (ScalarType ''String''))) False (Some ''a'')] sample_table of
      Inl _ \<Rightarrow> list_clauses ''t'' [AddColumn (Some (sample_column ''b'' (ScalarType ''String''))) False (Some ''a'')] (ordered_columns sample_table) = None
    | Inr u \<Rightarrow> table_ok u \<and> list_clauses ''t'' [AddColumn (Some (sample_column ''b'' (ScalarType ''String''))) False (Some ''a'')]
        (ordered_columns sample_table) = Some (ordered_columns u)"
  by (rule alter_refines_ordered_columns) (simp add: table_ok_def sample_table_def)

text \<open>
  C37. EXCHANGE TABLES a AND b is the RENAME a TO c, b TO a, c TO b through a free third name, on
  every well-formed catalog; and the same EXCHANGE again restores the catalog.
\<close>
theorem exchange_is_rename_through_third_name:
  assumes "catalogs_ok cs" "physical cs a = Some l" "physical cs b = Some r" "a \<noteq> b"
    and "physical cs c = None" "external cs c = None" "c \<noteq> migrationsTableName"
  shows "applyCatalogExchange cs path line (rename_of [(a, b)]) = Some (applyCatalogRename cs path content (rename_of [(a, c), (b, a), (c, b)]))
    \<and> (\<forall>cs'. applyCatalogExchange cs path line (rename_of [(a, b)]) = Some (Inr cs') \<longrightarrow>
        applyCatalogExchange cs' path line (rename_of [(a, b)]) = Some (Inr cs))"
proof -
  note p = physical_okD [OF catalogs_okD [OF assms(1)]]
  note a = p [OF assms(2)] note b = p [OF assms(3)]
  have c: "c \<noteq> a" "c \<noteq> b" using assms(2,3,5) by auto
  note x = exchange_pair [OF assms(4) _ _ _ _ assms(2,3), of path line]
  have "applyCatalogRename cs path content (rename_of [(a, c), (b, a), (c, b)])
    = Inr (cs\<lparr>physical := (physical cs)(a \<mapsto> r\<lparr>table_name := a\<rparr>, b \<mapsto> l\<lparr>table_name := b\<rparr>)\<rparr>)"
    using assms a b c by (simp add: applyCatalogRename_def rename_of_def rename_name_pair Let_def fun_upd_def) (auto simp: fun_eq_iff)
  moreover have "(physical cs)(a \<mapsto> l\<lparr>table_name := a\<rparr>, b \<mapsto> r\<lparr>table_name := b\<rparr>) = physical cs"
    using a b assms(2,3) by (auto simp: fun_eq_iff)
  ultimately show ?thesis using x a b assms(2-4)
    by (simp add: exchange_pair)
qed

definition sample_catalogs :: schema_catalogs where
  "sample_catalogs = \<lparr>physical = [''t'' \<mapsto> sample_table, ''u'' \<mapsto> sample_table\<lparr>table_name := ''u''\<rparr>], external = Map.empty\<rparr>"

theorem exchange_is_rename_through_third_name_witness:
  "applyCatalogExchange sample_catalogs ''f.sql'' 1 (rename_of [(''t'', ''u'')])
    = Some (applyCatalogRename sample_catalogs ''f.sql'' [] (rename_of [(''t'', ''c''), (''u'', ''t''), (''c'', ''u'')]))"
proof -
  have "catalogs_ok sample_catalogs"
    by (auto simp: catalogs_ok_def physical_ok_def sample_catalogs_def sample_table_def table_ok_def migrationsTableName_def)
  moreover have "''c'' \<noteq> migrationsTableName" by (simp add: migrationsTableName_def)
  ultimately show ?thesis
    using exchange_is_rename_through_third_name
      [of sample_catalogs "''t''" sample_table "''u''" "sample_table\<lparr>table_name := ''u''\<rparr>" "''c''" "''f.sql''" 1 "[]"]
    by (simp add: sample_catalogs_def)
qed

end
