(* ===== verification/SqlScanFacts.thy ===== *)
theory SqlScanFacts
  imports CatalogLoad
begin

text \<open>
  The scanners over a schema file keep its byte offsets and line breaks, so the positions of the SQL
  parser are positions of the file.
\<close>

section \<open>Texts with the same line breaks\<close>

lemma newline_char: "newline = CHR 0x0A"
  by code_simp

definition same_lines :: "string \<Rightarrow> string \<Rightarrow> bool" where
  "same_lines s t \<longleftrightarrow> map (\<lambda>c. c = newline) s = map (\<lambda>c. c = newline) t"

lemma same_lines_refl [simp]: "same_lines s s"
  by (simp add: same_lines_def)

lemma same_lines_trans: "same_lines s t \<Longrightarrow> same_lines t u \<Longrightarrow> same_lines s u"
  by (simp add: same_lines_def)

lemma same_lines_length: "same_lines s t \<Longrightarrow> length s = length t"
  unfolding same_lines_def by (rule map_eq_imp_length_eq)

lemma same_lines_append: "same_lines s t \<Longrightarrow> same_lines s' t' \<Longrightarrow> same_lines (s @ s') (t @ t')"
  by (simp add: same_lines_def)

lemma same_lines_no_newline: "length s = length t \<Longrightarrow> newline \<notin> set s \<Longrightarrow> newline \<notin> set t \<Longrightarrow> same_lines s t"
  unfolding same_lines_def by (induction s t rule: list_induct2) auto

lemma same_lines_mem: "same_lines s t \<Longrightarrow> newline \<in> set s \<longleftrightarrow> newline \<in> set t"
proof -
  assume "same_lines s t"
  then have "True \<in> set (map (\<lambda>c. c = newline) s) \<longleftrightarrow> True \<in> set (map (\<lambda>c. c = newline) t)" by (simp add: same_lines_def)
  then show ?thesis by auto
qed

lemma same_lines_take: "same_lines s t \<Longrightarrow> same_lines (take k s) (take k t)"
  by (simp add: same_lines_def flip: take_map)

lemma same_lines_drop: "same_lines s t \<Longrightarrow> same_lines (drop k s) (drop k t)"
  by (simp add: same_lines_def flip: drop_map)

lemma same_lines_line: "same_lines s t \<Longrightarrow> lineOfOffset s k = lineOfOffset t k"
proof -
  have f: "length (filter (\<lambda>c. c = newline) s) = length (filter id (map (\<lambda>c. c = newline) s))" for s
    by (simp add: filter_map comp_def)
  assume "same_lines s t"
  then have "same_lines (take k s) (take k t)" by (rule same_lines_take)
  then show ?thesis unfolding lineOfOffset_def same_lines_def f [of "take k s"] f [of "take k t"] by (simp only:)
qed

section \<open>The TTL tail\<close>

lemma join_split: "join [newline] (split_lines s) = s"
proof (induction s)
  case (Cons c cs)
  have "split_lines cs \<noteq> []" by (cases cs) (auto split: list.splits)
  with Cons show ?case by (cases "split_lines cs"; cases "tl (split_lines cs)") auto
qed simp

lemma split_no_newline: "l \<in> set (split_lines s) \<Longrightarrow> newline \<notin> set l"
  by (induction s arbitrary: l) (fastforce split: list.splits if_splits)+

lemma same_lines_join: "list_all2 same_lines ls ms \<Longrightarrow> same_lines (join [newline] ls) (join [newline] ms)"
proof (induction rule: list_all2_induct)
  case (Cons l ls m ms)
  then show ?case
    by (cases ls; cases ms) (auto intro!: same_lines_append simp: same_lines_def)
qed simp

lemma strip_line_lines: "newline \<notin> set l \<Longrightarrow> same_lines (strip_line l) l"
proof -
  assume n: "newline \<notin> set l"
  have "same_lines (take i l @ replicate (length l - i) CHR '' '') l" if "i \<le> length l" for i
    using n that in_set_takeD [of newline i l] by (intro same_lines_no_newline) (auto simp: newline_char)
  then show ?thesis by (auto simp: strip_line_def dest!: first_index_bound split: option.splits)
qed

lemma strip_lines: "same_lines (stripUnsupportedTTLRollup s) s"
proof -
  have "list_all2 same_lines (map strip_line (split_lines s)) (split_lines s)"
    using split_no_newline [of _ s] by (auto simp: list_all2_conv_all_nth intro!: strip_line_lines)
  then show ?thesis
    using same_lines_join [of "map strip_line (split_lines s)" "split_lines s"]
    by (simp add: stripUnsupportedTTLRollup_def join_split)
qed

section \<open>Rewriting tokens\<close>

definition token_ok :: "string \<Rightarrow> token \<Rightarrow> bool" where
  "token_ok sql t \<longleftrightarrow> fst t \<le> snd t \<and> snd t \<le> length sql"

lemma token_text_length: "token_ok sql t \<Longrightarrow> length (token_text sql t) = snd t - fst t"
  by (auto simp: token_ok_def token_text_def)

lemma split_at_token:
  assumes "token_ok out t"
  shows "out = take (fst t) out @ token_text out t @ drop (snd t) out"
proof -
  have "drop (fst t) out = token_text out t @ drop (snd t) out"
    using assms append_take_drop_id [of "snd t - fst t" "drop (fst t) out"] by (simp add: token_ok_def token_text_def)
  then show ?thesis by (metis append_take_drop_id)
qed

lemma overwrite_lines:
  assumes "token_ok out t" "newline \<notin> set (token_text out t)" "newline \<notin> set text" "length text \<le> snd t - fst t"
  shows "same_lines (overwrite t text out) out"
proof -
  have "same_lines (text @ replicate (snd t - fst t - length text) CHR '' '') (token_text out t)"
    using assms by (intro same_lines_no_newline) (auto simp: token_text_length newline_char)
  then have "same_lines (take (fst t) out @ (text @ replicate (snd t - fst t - length text) CHR '' '') @ drop (snd t) out)
      (take (fst t) out @ token_text out t @ drop (snd t) out)"
    by (intro same_lines_append) simp_all
  with split_at_token [OF assms(1)] show ?thesis by (simp add: overwrite_def)
qed

lemma to_lower_newline: "newline \<in> set s \<Longrightarrow> newline \<in> set (to_lower s)"
proof -
  assume "newline \<in> set s"
  moreover have "lower_char newline = newline" by (simp add: lower_char_def)
  ultimately show ?thesis by (force simp: to_lower_def)
qed

lemma equal_fold_no_newline: "equal_fold s w \<Longrightarrow> newline \<notin> set (to_lower w) \<Longrightarrow> newline \<notin> set s"
  using to_lower_newline [of s] by (auto simp: equal_fold_def)

lemma equal_fold_length: "equal_fold s w \<Longrightarrow> length s = length w"
  by (simp add: equal_fold_def) (metis length_to_lower)

text \<open>A keyword token of the text is as long as the keyword and holds no line break, in every rewriting of the text.\<close>

lemma keyword_token:
  assumes "token_is sql tokens i w" "list_all (token_ok sql) tokens" "same_lines out sql" "newline \<notin> set (to_lower w)"
  shows "token_ok out (tokens ! i) \<and> newline \<notin> set (token_text out (tokens ! i)) \<and> snd (tokens ! i) - fst (tokens ! i) = length w"
proof -
  from assms(1) have i: "i < length tokens" "equal_fold (token_text sql (tokens ! i)) w" by (auto simp: token_is_def)
  then have ok: "token_ok sql (tokens ! i)" using assms(2) by (simp add: list_all_length)
  have "same_lines (token_text out (tokens ! i)) (token_text sql (tokens ! i))"
    unfolding token_text_def using assms(3) by (intro same_lines_take same_lines_drop)
  with equal_fold_no_newline [OF i(2) assms(4)] equal_fold_length [OF i(2)] ok token_text_length [OF ok] same_lines_length [OF assms(3)]
  show ?thesis by (auto simp: same_lines_mem token_ok_def)
qed

lemma flush_exchange_lines:
  assumes "flush_exchange sql tokens st = Inr st'" "list_all (token_ok sql) tokens" "same_lines (fst st) sql"
  shows "same_lines (fst st') sql"
proof (cases "token_is sql tokens 0 ''EXCHANGE''")
  case False with assms show ?thesis by (simp add: flush_exchange_def)
next
  case e: True
  with assms(1) have t: "token_is sql tokens 1 ''TABLES''" "token_is sql tokens 3 ''AND''"
    and st': "fst st' = overwrite (tokens ! 3) ''TO'' (overwrite (tokens ! 1) ''TABLE'' (overwrite (tokens ! 0) ''RENAME'' (fst st)))"
    by (auto simp: flush_exchange_def Let_def split: if_splits)
  let ?o1 = "overwrite (tokens ! 0) ''RENAME'' (fst st)" and ?o2 = "overwrite (tokens ! 1) ''TABLE'' (overwrite (tokens ! 0) ''RENAME'' (fst st))"
  have l: "same_lines ?o1 sql"
    using keyword_token [OF e assms(2,3)] by (intro same_lines_trans [OF overwrite_lines assms(3)]) (auto simp: newline_char)
  have l2: "same_lines ?o2 sql"
    using keyword_token [OF t(1) assms(2) l] by (intro same_lines_trans [OF overwrite_lines l]) (auto simp: newline_char)
  show ?thesis unfolding st'
    using keyword_token [OF t(2) assms(2) l2] by (intro same_lines_trans [OF overwrite_lines l2]) (auto simp: newline_char)
qed

lemma scan_exchanges_lines:
  "scan_exchanges sql i tokens st = Inr st' \<Longrightarrow> list_all (token_ok sql) tokens \<Longrightarrow> same_lines (fst st) sql \<Longrightarrow> same_lines (fst st') sql"
proof (induction sql i tokens st rule: scan_exchanges.induct)
  case (1 sql i tokens st)
  note s = "1.prems"(1) [unfolded scan_exchanges.simps [of sql i tokens st]]
  show ?case
  proof (cases "i \<ge> length sql")
    case True
    with s "1.prems"(2,3) show ?thesis by (simp add: flush_exchange_lines)
  next
    case False
    then have i: "i < length sql" by simp
    have q: "token_ok sql (i, skipSQLQuoted sql i (sql ! i))" "token_ok sql (i, word_end sql i)"
      using skipSQLQuoted_bounds [OF i, of "sql ! i"] word_end_bounds [OF i] by (simp_all add: token_ok_def)
    show ?thesis
    proof (cases "sql ! i \<in> set exchange_blanks \<or> has_prefix (drop i sql) ''--'' \<or> has_prefix (drop i sql) ''/*''")
      case True
      from s False True consider "sql ! i \<in> set exchange_blanks" "scan_exchanges sql (i + 1) tokens st = Inr st'"
        | "sql ! i \<notin> set exchange_blanks" "has_prefix (drop i sql) ''--''" "scan_exchanges sql (skipSQLLineComment sql i) tokens st = Inr st'"
        | "sql ! i \<notin> set exchange_blanks" "\<not> has_prefix (drop i sql) ''--''" "has_prefix (drop i sql) ''/*''"
          "scan_exchanges sql (skipSQLBlockComment sql i) tokens st = Inr st'"
        by (auto split: if_split_asm)
      then show ?thesis
        using "1.IH"(1) [OF False] "1.IH"(2) [OF False] "1.IH"(3) [OF False] "1.prems"(2,3) by cases blast+
    next
      case t: False
      then have nb: "sql ! i \<notin> set exchange_blanks" "\<not> has_prefix (drop i sql) ''--''" "\<not> has_prefix (drop i sql) ''/*''" by blast+
      note s = s [unfolded if_not_P [OF False] if_not_P [OF nb(1)] if_not_P [OF nb(2)] if_not_P [OF nb(3)]]
      show ?thesis
      proof (cases "sql ! i = CHR '';''")
        case True
        with s obtain st1 where st1: "flush_exchange sql tokens st = Inr st1" "scan_exchanges sql (i + 1) [] st1 = Inr st'"
          by auto
        show ?thesis
          by (rule "1.IH"(4) [OF False nb True st1]) (use flush_exchange_lines [OF st1(1) "1.prems"(2,3)] in simp_all)
      next
        case c: False
        note s = s [unfolded if_not_P [OF c]]
        show ?thesis
        proof (cases "sql ! i \<in> set quote_bytes")
          case True
          show ?thesis
            by (rule "1.IH"(5) [OF False nb c True s [unfolded if_P [OF True]]]) (use "1.prems"(2,3) q in simp_all)
        next
          case w: False
          show ?thesis
            by (rule "1.IH"(6) [OF False nb c w s [unfolded if_not_P [OF w]]]) (use "1.prems"(2,3) q in simp_all)
        qed
      qed
    qed
  qed
qed

section \<open>Blanking tokens\<close>

lemma blank_byte_newline: "(blank_byte c = newline) = (c = newline)"
  by (auto simp: blank_byte_def newline_char)

lemma blank_token_lines:
  assumes "token_ok out t"
  shows "same_lines (blank_token t out) out"
proof -
  have "same_lines (map blank_byte (token_text out t)) (token_text out t)"
    by (simp add: same_lines_def comp_def blank_byte_newline)
  then have "same_lines (take (fst t) out @ map blank_byte (token_text out t) @ drop (snd t) out)
      (take (fst t) out @ token_text out t @ drop (snd t) out)"
    by (intro same_lines_append) simp_all
  with split_at_token [OF assms] show ?thesis by (simp add: blank_token_def token_text_def)
qed

lemma blank_tokens_lines:
  "list_all (token_ok sql) tokens \<Longrightarrow> same_lines out sql \<Longrightarrow> same_lines (fold blank_token tokens out) sql"
proof (induction tokens arbitrary: out)
  case (Cons t tokens)
  then have "token_ok out t" using same_lines_length [of out sql] by (simp add: token_ok_def)
  with Cons show ?case using same_lines_trans [OF blank_token_lines] by simp
qed simp

lemma flush_wait_lines:
  assumes "flush_wait sql tokens comments out = Inr out'" "list_all (token_ok sql) (tokens @ comments)" "same_lines out sql"
  shows "same_lines out' sql"
  using assms blank_tokens_lines [OF assms(2,3)] by (auto simp: flush_wait_def split: if_splits option.splits)

lemma scan_waits_lines:
  "scan_waits sql i tokens comments out = Inr out' \<Longrightarrow> list_all (token_ok sql) (tokens @ comments) \<Longrightarrow> same_lines out sql
    \<Longrightarrow> same_lines out' sql"
proof (induction sql i tokens comments out rule: scan_waits.induct)
  case (1 sql i tokens comments out)
  note s = "1.prems"(1) [unfolded scan_waits.simps [of sql i tokens comments out]]
  show ?case
  proof (cases "i \<ge> length sql")
    case True
    with s "1.prems"(2,3) show ?thesis by (simp add: flush_wait_lines)
  next
    case False
    then have i: "i < length sql" by simp
    have q: "token_ok sql (i, fst (schemaQuotedEnd sql i))" "token_ok sql (i, word_end sql i)"
      "has_prefix (drop i sql) ''/*'' \<Longrightarrow> token_ok sql (i, fst (schemaBlockCommentEnd sql i))"
      using schemaQuotedEnd_bounds [OF i] word_end_bounds [OF i] schemaBlockCommentEnd_bounds [of i sql] by (auto simp: token_ok_def)
    show ?thesis
    proof (cases "sql ! i \<in> set wait_blanks \<or> has_prefix (drop i sql) ''--'' \<or> has_prefix (drop i sql) ''/*''")
      case True
      let ?e = "schemaBlockCommentEnd sql i"
      from s False True consider "sql ! i \<in> set wait_blanks" "scan_waits sql (i + 1) tokens comments out = Inr out'"
        | "sql ! i \<notin> set wait_blanks" "has_prefix (drop i sql) ''--''" "scan_waits sql (skipSQLLineComment sql i) tokens comments out = Inr out'"
        | "sql ! i \<notin> set wait_blanks" "\<not> has_prefix (drop i sql) ''--''" "has_prefix (drop i sql) ''/*''" "\<not> \<not> snd ?e"
          "scan_waits sql (fst ?e) tokens (comments @ [(i, fst ?e)]) out = Inr out'"
        by (auto split: if_split_asm)
      then show ?thesis
      proof cases
        case 1 then show ?thesis using "1.IH"(1) [OF False] "1.prems"(2,3) by blast
      next
        case 2 then show ?thesis using "1.IH"(2) [OF False] "1.prems"(2,3) by blast
      next
        case 3 show ?thesis by (rule "1.IH"(3) [OF False 3]) (use "1.prems"(2,3) q(3) 3 in simp_all)
      qed
    next
      case t: False
      then have nb: "sql ! i \<notin> set wait_blanks" "\<not> has_prefix (drop i sql) ''--''" "\<not> has_prefix (drop i sql) ''/*''" by blast+
      note s = s [unfolded if_not_P [OF False] if_not_P [OF nb(1)] if_not_P [OF nb(2)] if_not_P [OF nb(3)]]
      show ?thesis
      proof (cases "sql ! i = CHR '';''")
        case True
        with s obtain out1 where o1: "flush_wait sql tokens comments out = Inr out1" "scan_waits sql (i + 1) [] [] out1 = Inr out'"
          by auto
        show ?thesis
          by (rule "1.IH"(4) [OF False nb True o1]) (use flush_wait_lines [OF o1(1) "1.prems"(2,3)] in simp_all)
      next
        case c: False
        note s = s [unfolded if_not_P [OF c]]
        show ?thesis
        proof (cases "sql ! i \<in> set quote_bytes")
          case True
          with s have closed: "\<not> \<not> snd (schemaQuotedEnd sql i)" by (auto split: if_split_asm)
          show ?thesis
            by (rule "1.IH"(5) [OF False nb c True closed s [unfolded if_P [OF True] if_not_P [OF closed]]])
              (use "1.prems"(2,3) q in simp_all)
        next
          case w: False
          show ?thesis
            by (rule "1.IH"(6) [OF False nb c w s [unfolded if_not_P [OF w]]]) (use "1.prems"(2,3) q in simp_all)
        qed
      qed
    qed
  qed
qed

text \<open>
  C24. The scanners that prepare a schema file for the SQL parser keep every byte offset and every
  line break, whatever comments, quotes and statements the file holds: the line computed from a
  position of the parser is the line of the original file.
\<close>
theorem scanners_keep_lines:
  assumes "normalizeSchemaExchanges (stripUnsupportedTTLRollup raw) = Inr (exchanged, exchanges)"
    and "normalizeSchemaWaitViews exchanged = Inr parserContent"
  shows "length parserContent = length raw \<and>
    (\<forall>i < length raw. parserContent ! i = newline \<longleftrightarrow> raw ! i = newline) \<and>
    (\<forall>k. lineOfOffset parserContent k = lineOfOffset raw k \<and> lineOfOffset (stripUnsupportedTTLRollup raw) k = lineOfOffset raw k)"
proof -
  let ?content = "stripUnsupportedTTLRollup raw"
  have "same_lines exchanged ?content"
    using scan_exchanges_lines [of ?content 0 "[]" "(?content, [])"] assms(1) by (simp add: normalizeSchemaExchanges_def)
  moreover have "same_lines parserContent exchanged"
    using scan_waits_lines [of exchanged 0 "[]" "[]" exchanged] assms(2) by (simp add: normalizeSchemaWaitViews_def)
  ultimately have s: "same_lines parserContent raw" using same_lines_trans strip_lines by blast
  have "parserContent ! i = newline \<longleftrightarrow> raw ! i = newline" if "i < length raw" for i
    using s that same_lines_length [OF s] arg_cong [OF s [unfolded same_lines_def], of "\<lambda>xs. xs ! i"] by simp
  with s show ?thesis using same_lines_line [OF s] same_lines_line [OF strip_lines] same_lines_length [OF s] by simp
qed

definition sample_sql :: string where
  "sample_sql = ''exchange tables a and b on cluster c;'' @ [newline] @ ''SYSTEM WAIT VIEW v;'' @ [newline] @ ''  TTL t GROUP BY x SET y;''"

theorem scanners_keep_lines_witness:
  "\<exists>exchanged exchanges parserContent. normalizeSchemaExchanges (stripUnsupportedTTLRollup sample_sql) = Inr (exchanged, exchanges)
    \<and> normalizeSchemaWaitViews exchanged = Inr parserContent \<and> length parserContent = length sample_sql"
proof -
  let ?e = "normalizeSchemaExchanges (stripUnsupportedTTLRollup sample_sql)"
  have "is_ok (bind_res ?e (\<lambda>e. normalizeSchemaWaitViews (fst e)))" by code_simp
  then obtain exchanged exchanges parserContent where
    e: "?e = Inr (exchanged, exchanges)" "normalizeSchemaWaitViews exchanged = Inr parserContent"
    by (auto simp: is_ok_iff)
  with scanners_keep_lines [OF e] show ?thesis by blast
qed

end
