(* ===== verification/Domains.thy ===== *)
theory Domains
  imports Arithmetic Containers SupertypeFacts "HOL-Library.Word"
begin

text \<open>
  The argument domains of \<^verbatim>\<open>argument_domain.go\<close>: the base type tests, one record per measured
  accept-set with the check that applies it to the named positions, the unit floor of
  toStartOfInterval, and the comparability of two operand types with the constant exemptions and the
  haystack rule of \<^verbatim>\<open>has\<close>. \<^verbatim>\<open>withoutGeometryAliases\<close> is the whole of
  \<^verbatim>\<open>geometry_alias.go\<close>.
\<close>

section \<open>Base type tests\<close>

definition integerBaseType :: "chtype \<Rightarrow> bool" where
  "integerBaseType value \<longleftrightarrow> Params value = [] \<and>
     normalizedName value \<in>
       {''int8'', ''int16'', ''int32'', ''int64'', ''int'', ''int128'', ''int256'',
        ''uint8'', ''uint16'', ''uint32'', ''uint64'', ''uint128'', ''uint256'', ''bool'', ''boolean''}"

definition floatBaseType :: "chtype \<Rightarrow> bool" where
  "floatBaseType value \<longleftrightarrow> Params value = [] \<and> normalizedName value \<in> {''float32'', ''float64''}"

definition enumBaseType :: "chtype \<Rightarrow> bool" where
  "enumBaseType value \<longleftrightarrow> normalizedName value \<in> {''enum'', ''enum8'', ''enum16''}"

definition numberBaseType :: "chtype \<Rightarrow> bool" where
  "numberBaseType value \<longleftrightarrow> integerBaseType value \<or> floatBaseType value \<or> arithmeticDecimalType value
     \<or> enumBaseType value \<or> normalizedName value = ''bfloat16''"

definition numberValueBaseType :: "chtype \<Rightarrow> bool" where
  "numberValueBaseType value \<longleftrightarrow> numberBaseType value \<and> \<not> enumBaseType value"

definition offsetBaseType :: "chtype \<Rightarrow> bool" where
  "offsetBaseType value \<longleftrightarrow> Params value = [] \<and>
     normalizedName value \<in>
       {''int8'', ''int16'', ''int32'', ''int64'', ''int'', ''uint8'', ''uint16'', ''uint32'', ''uint64'',
        ''bool'', ''boolean'', ''float32'', ''float64''}"

definition indexBaseType :: "chtype \<Rightarrow> bool" where
  "indexBaseType value \<longleftrightarrow> Params value = [] \<and>
     normalizedName value \<in>
       {''int8'', ''int16'', ''int32'', ''int64'', ''int'', ''uint8'', ''uint16'', ''uint32'', ''uint64'',
        ''bool'', ''boolean''}"

definition temporalBaseType :: "chtype \<Rightarrow> bool" where
  "temporalBaseType value \<longleftrightarrow> normalizedName value \<in> {''date'', ''datetime'', ''datetime64''}"

definition stringLikeBaseType :: "chtype \<Rightarrow> bool" where
  "stringLikeBaseType value \<longleftrightarrow> normalizedName value \<in> {''string'', ''fixedstring''}"

definition countableBaseType :: "chtype \<Rightarrow> bool" where
  "countableBaseType value \<longleftrightarrow> normalizedName value \<in>
     {''string'', ''fixedstring'', ''array'', ''map'', ''uuid'', ''ipv4'', ''ipv6''}"

definition byteLengthBaseType :: "chtype \<Rightarrow> bool" where
  "byteLengthBaseType value \<longleftrightarrow> normalizedName value \<in> {''string'', ''fixedstring'', ''array'', ''map''}"

definition arrayBaseType :: "chtype \<Rightarrow> bool" where
  "arrayBaseType value \<longleftrightarrow> normalizedName value = ''array''"

definition isLogicOperandType :: "chtype \<Rightarrow> bool" where
  "isLogicOperandType base \<longleftrightarrow> Params base = [] \<and>
     normalizedName base \<in>
       {''int8'', ''int16'', ''int32'', ''int64'', ''int'', ''uint8'', ''uint16'', ''uint32'', ''uint64'',
        ''float32'', ''float64'', ''bool'', ''boolean''}"

text \<open>The inferred types carry the parameters, the schema parser stores the bare name.\<close>

definition holdsAggregateFunctionState :: "chtype \<Rightarrow> bool" where
  "holdsAggregateFunctionState t \<longleftrightarrow>
     Name t = ''AggregateFunction'' \<or> has_prefix (Name t) ''AggregateFunction(''"

section \<open>Geometry aliases\<close>

abbreviation geometry_point :: chtype where
  "geometry_point \<equiv> ty1 ''Tuple'' [ty0 ''Float64'', ty0 ''Float64'']"

abbreviation geometry_array :: "chtype \<Rightarrow> chtype" where
  "geometry_array inner \<equiv> ty1 ''Array'' [inner]"

fun withoutGeometryAliases :: "chtype \<Rightarrow> chtype" where
  "withoutGeometryAliases (CHType n ps ls ns) =
     (if to_lower n = ''point'' then geometry_point
      else if to_lower n \<in> {''ring'', ''linestring''} then geometry_array geometry_point
      else if to_lower n \<in> {''polygon'', ''multilinestring''} then geometry_array (geometry_array geometry_point)
      else if to_lower n = ''multipolygon'' then geometry_array (geometry_array (geometry_array geometry_point))
      else CHType n (map withoutGeometryAliases ps) ls ns)"

definition containerBaseType :: "chtype \<Rightarrow> bool" where
  "containerBaseType value \<longleftrightarrow> normalizedName (withoutGeometryAliases value) \<in> {''array'', ''map'', ''tuple''}"

definition textArgumentBaseType :: "chtype \<Rightarrow> bool" where
  "textArgumentBaseType value \<longleftrightarrow> stringLikeBaseType value \<or> enumBaseType value"

definition dateArgumentBaseType :: "chtype \<Rightarrow> bool" where
  "dateArgumentBaseType value \<longleftrightarrow> temporalBaseType value \<or> normalizedName value = ''date32''"

definition predicateBodyBaseType :: "chtype \<Rightarrow> bool" where
  "predicateBodyBaseType value \<longleftrightarrow> Params value = [] \<and>
     normalizedName value \<in> {''uint8'', ''bool'', ''boolean'', ''nothing''}"

section \<open>The measured accept-sets\<close>

record argumentDomain =
  domain_name :: string
  accepts :: "chtype \<Rightarrow> bool"
  expected :: string

definition sumArgumentDomain :: argumentDomain where
  "sumArgumentDomain = \<lparr>domain_name = ''sum'',
     accepts = (\<lambda>value. integerBaseType value \<or> floatBaseType value
       \<or> arithmeticDecimalType value \<or> enumBaseType value),
     expected = ''an integer, a float, a Decimal or an Enum''\<rparr>"

definition avgArgumentDomain :: argumentDomain where
  "avgArgumentDomain = \<lparr>domain_name = ''avg'',
     accepts = (\<lambda>value. integerBaseType value \<or> floatBaseType value
       \<or> arithmeticDecimalType value),
     expected = ''an integer, a float or a Decimal''\<rparr>"

definition quantileArgumentDomain :: argumentDomain where
  "quantileArgumentDomain = \<lparr>domain_name = ''quantile'',
     accepts = (\<lambda>value. integerBaseType value \<or> floatBaseType value
       \<or> arithmeticDecimalType value \<or> temporalBaseType value),
     expected = ''an integer, a float, a Decimal, a Date, a DateTime or a DateTime64''\<rparr>"

definition groupBitArgumentDomain :: argumentDomain where
  "groupBitArgumentDomain = \<lparr>domain_name = ''the bitwise group aggregate'',
     accepts = (\<lambda>value. integerBaseType value),
     expected = ''an integer''\<rparr>"

definition arrayArgumentDomain :: argumentDomain where
  "arrayArgumentDomain = \<lparr>domain_name = ''the array function'',
     accepts = (\<lambda>value. arrayBaseType value),
     expected = ''an Array''\<rparr>"

definition scalarArgumentDomain :: argumentDomain where
  "scalarArgumentDomain = \<lparr>domain_name = ''the scalar function'',
     accepts = (\<lambda>value. \<not> containerBaseType value),
     expected = ''a scalar, not an Array, a Map or a Tuple''\<rparr>"

definition hexArgumentDomain :: argumentDomain where
  "hexArgumentDomain = \<lparr>domain_name = ''hex'',
     accepts = (\<lambda>value. \<not> containerBaseType value \<and> \<not> enumBaseType value \<and> normalizedName value \<noteq> ''date32'' \<and> normalizedName value \<noteq> ''datetime64''),
     expected = ''a scalar that is not a Date32, a DateTime64, an Enum, an Array, a Map or a Tuple''\<rparr>"

definition castArgumentDomain :: argumentDomain where
  "castArgumentDomain = \<lparr>domain_name = ''the numeric or date conversion'',
     accepts = (\<lambda>value. \<not> holdsAggregateFunctionState value \<and> normalizedName value \<notin> {''json'', ''variant''} \<and> \<not> containerBaseType value),
     expected = ''a scalar that is not JSON, Variant, an AggregateFunction state, an Array, a Map or a Tuple''\<rparr>"

definition dateFromValueArgumentDomain :: argumentDomain where
  "dateFromValueArgumentDomain = \<lparr>domain_name = ''toDate, toDate32 or toDateTime'',
     accepts = (\<lambda>value. \<not> holdsAggregateFunctionState value \<and> normalizedName value \<notin> {''json'', ''variant''} \<and> \<not> arithmeticDecimalType value \<and> \<not> containerBaseType value),
     expected = ''a scalar that is not JSON, Variant, an AggregateFunction state, a Decimal, an Array, a Map or a Tuple''\<rparr>"

definition hasArgumentDomain :: argumentDomain where
  "hasArgumentDomain = \<lparr>domain_name = ''has'',
     accepts = (\<lambda>value. arrayBaseType value \<or> normalizedName value = ''map''),
     expected = ''an Array or a Map''\<rparr>"

definition comparableValueArgumentDomain :: argumentDomain where
  "comparableValueArgumentDomain = \<lparr>domain_name = ''the ordering aggregate'',
     accepts = (\<lambda>value. \<not> holdsAggregateFunctionState value \<and> \<not> isDynamicCHType value \<and> normalizedName value \<noteq> ''variant''),
     expected = ''a value the server can order, not Dynamic, Variant or an AggregateFunction state''\<rparr>"

definition textArgumentDomain :: argumentDomain where
  "textArgumentDomain = \<lparr>domain_name = ''the text function'',
     accepts = (\<lambda>value. textArgumentBaseType value),
     expected = ''a String, a FixedString or an Enum''\<rparr>"

definition dateArgumentDomain :: argumentDomain where
  "dateArgumentDomain = \<lparr>domain_name = ''the date function'',
     accepts = (\<lambda>value. dateArgumentBaseType value),
     expected = ''a Date, a Date32, a DateTime or a DateTime64''\<rparr>"

definition hourMinuteStartOfArgumentDomain :: argumentDomain where
  "hourMinuteStartOfArgumentDomain = \<lparr>domain_name = ''toStartOfHour or toStartOfMinute'',
     accepts = (\<lambda>value. temporalBaseType value \<and> normalizedName value \<noteq> ''date''),
     expected = ''a DateTime or a DateTime64''\<rparr>"

definition stringArgumentDomain :: argumentDomain where
  "stringArgumentDomain = \<lparr>domain_name = ''the string function'',
     accepts = (\<lambda>value. stringLikeBaseType value),
     expected = ''a String or a FixedString''\<rparr>"

definition reverseArgumentDomain :: argumentDomain where
  "reverseArgumentDomain = \<lparr>domain_name = ''reverse'',
     accepts = (\<lambda>value. stringLikeBaseType value \<or> normalizedName value \<in> {''array'', ''tuple''}),
     expected = ''a String, a FixedString, an Array or a Tuple''\<rparr>"

definition logicOperatorArgumentDomain :: argumentDomain where
  "logicOperatorArgumentDomain = \<lparr>domain_name = ''the logic operator'',
     accepts = (\<lambda>value. isLogicOperandType value),
     expected = ''an integer of at most 64 bits, a float or a Bool''\<rparr>"

definition xorArgumentDomain :: argumentDomain where
  "xorArgumentDomain = \<lparr>domain_name = ''xor'',
     accepts = (\<lambda>value. isLogicOperandType value \<or> isDynamicCHType value),
     expected = ''an integer of at most 64 bits, a float, a Bool or Dynamic''\<rparr>"

definition countableArgumentDomain :: argumentDomain where
  "countableArgumentDomain = \<lparr>domain_name = ''the emptiness function'',
     accepts = (\<lambda>value. countableBaseType value),
     expected = ''a String, a FixedString, an Array, a Map, a UUID, an IPv4 or an IPv6''\<rparr>"

definition byteLengthArgumentDomain :: argumentDomain where
  "byteLengthArgumentDomain = \<lparr>domain_name = ''length'',
     accepts = (\<lambda>value. byteLengthBaseType value),
     expected = ''a String, a FixedString, an Array or a Map''\<rparr>"

definition castTextArgumentDomain :: argumentDomain where
  "castTextArgumentDomain = \<lparr>domain_name = ''the OrZero or OrNull cast constructor'',
     accepts = (\<lambda>value. stringLikeBaseType value),
     expected = ''a String or a FixedString''\<rparr>"

definition addSubtractTemporalArgumentDomain :: argumentDomain where
  "addSubtractTemporalArgumentDomain = \<lparr>domain_name = ''the addDays/addSeconds family'',
     accepts = (\<lambda>value. dateArgumentBaseType value),
     expected = ''a Date, a Date32, a DateTime or a DateTime64''\<rparr>"

definition wideIntegerArgumentDomain :: argumentDomain where
  "wideIntegerArgumentDomain = \<lparr>domain_name = ''the wide integer constructor'',
     accepts = (\<lambda>value. integerBaseType value \<or> floatBaseType value
       \<or> arithmeticDecimalType value \<or> enumBaseType value \<or> temporalBaseType value \<or> normalizedName value = ''date32'' \<or> stringLikeBaseType value),
     expected = ''an integer, a float, a Decimal, an Enum, a Date, a Date32, a DateTime, a DateTime64, a String or a FixedString''\<rparr>"

definition decimalConstructorArgumentDomain :: argumentDomain where
  "decimalConstructorArgumentDomain = \<lparr>domain_name = ''the Decimal constructor'',
     accepts = (\<lambda>value. integerBaseType value \<or> floatBaseType value
       \<or> arithmeticDecimalType value \<or> stringLikeBaseType value),
     expected = ''an integer, a float, a Decimal, a String or a FixedString''\<rparr>"

definition predicateBodyDomain :: argumentDomain where
  "predicateBodyDomain = \<lparr>domain_name = ''the lambda predicate'',
     accepts = (\<lambda>value. predicateBodyBaseType value),
     expected = ''a UInt8, a Bool or a Nullable of them''\<rparr>"

definition valuePreservingDomainFunctions :: "string list" where
  "valuePreservingDomainFunctions =
     [''max'', ''min'', ''maxif'', ''minif'', ''argmax'', ''argmin'', ''argmaxif'', ''argminif'']"

section \<open>The checks\<close>

definition checkArgumentDomain :: "string \<Rightarrow> argumentDomain \<Rightarrow> chtype \<Rightarrow> unit result" where
  "checkArgumentDomain displayName domain argument =
     (if Name argument = [] then Inr ()
      else if accepts domain argument then Inr ()
      else Inl (Errorf ''function %s does not accept an argument of type %s; ClickHouse needs %s here; %s''
                  [displayName, to_string argument, expected domain, pinTypeHint]))"

text \<open>\<open>baseAt\<close> reads the base type of an argument, None when inference could not type it.\<close>

fun checkArgumentDomainAt ::
    "string \<Rightarrow> argumentDomain \<Rightarrow> nat list \<Rightarrow> nat \<Rightarrow> (nat \<Rightarrow> chtype option) \<Rightarrow> unit result" where
  "checkArgumentDomainAt displayName domain [] argumentCount baseAt = Inr ()"
| "checkArgumentDomainAt displayName domain (index # indexes) argumentCount baseAt =
     (if index \<ge> argumentCount
      then Inl (Errorf ''function %s needs an argument at position %d, but the call has %d; ClickHouse needs %s there; %s''
                  [displayName, itoa (int index + 1), itoa (int argumentCount), expected domain, pinTypeHint])
      else case baseAt index of
          None \<Rightarrow> checkArgumentDomainAt displayName domain indexes argumentCount baseAt
        | Some base \<Rightarrow> bind_res (checkArgumentDomain displayName domain base)
            (\<lambda>_. checkArgumentDomainAt displayName domain indexes argumentCount baseAt))"

definition checkLambdaPredicateBody :: "string \<Rightarrow> chtype \<Rightarrow> unit result" where
  "checkLambdaPredicateBody displayName bodyType =
     (if Name bodyType = [] then Inr ()
      else if accepts predicateBodyDomain (base_of bodyType) then Inr ()
      else Inl (Errorf ''function %s reads its lambda body as a predicate and does not accept the body type %s; ClickHouse needs %s here; %s''
                  [displayName, to_string bodyType, expected predicateBodyDomain, pinTypeHint]))"

subsection \<open>The unit floor of toStartOfInterval\<close>

definition intervalUnitRank :: "(string \<times> int) list" where
  "intervalUnitRank = [
     (''nanosecond'', 0), (''microsecond'', 1), (''millisecond'', 2), (''second'', 3), (''minute'', 4),
     (''hour'', 5), (''day'', 6), (''week'', 7), (''month'', 8), (''quarter'', 9), (''year'', 10)]"

definition toStartOfIntervalUnitFloor :: "(string \<times> int) list" where
  "toStartOfIntervalUnitFloor = [(''date'', 6), (''date32'', 6), (''datetime'', 3)]"

definition normalizeIntervalUnitName :: "string \<Rightarrow> string" where
  "normalizeIntervalUnitName unit = trim_suffix (to_lower (trim_space unit)) ''s''"

definition checkToStartOfIntervalDomain :: "string \<Rightarrow> chtype \<Rightarrow> string \<Rightarrow> chtype \<Rightarrow> unit result" where
  "checkToStartOfIntervalDomain displayName base unit argument =
     (case map_of toStartOfIntervalUnitFloor (normalizedName base) of
        None \<Rightarrow> Inr ()
      | Some floor_rank \<Rightarrow>
         (case map_of intervalUnitRank (normalizeIntervalUnitName unit) of
            None \<Rightarrow> Inr ()
          | Some rank \<Rightarrow>
             (if rank \<ge> floor_rank then Inr ()
              else let smallest = (if floor_rank = 3 then ''SECOND'' else ''DAY'') in
                Inl (Errorf ''function %s does not accept INTERVAL %s for an argument of type %s; ClickHouse needs INTERVAL %s or a larger unit here, because %s holds no finer resolution; %s''
                  [displayName, to_upper (normalizeIntervalUnitName unit), to_string argument, smallest,
                   to_string base, pinTypeHint]))))"

section \<open>Geometry-free types\<close>

text \<open>
  The recursions below expand the geometry aliases at every level, so they are measured by the size of
  the expanded type: the expansion is idempotent and every part of an expanded type is expanded.
\<close>

definition geometry_free :: "chtype \<Rightarrow> bool" where
  "geometry_free = all_nodes (\<lambda>t. to_lower (Name t) \<notin>
     {''point'', ''ring'', ''linestring'', ''polygon'', ''multilinestring'', ''multipolygon''})"

lemma geometry_free_param: "geometry_free t \<Longrightarrow> p \<in> set (Params t) \<Longrightarrow> geometry_free p"
  unfolding geometry_free_def by (rule all_nodes_param)

lemma geometry_free_without: "geometry_free (withoutGeometryAliases t)"
  by (induction t) (auto simp: geometry_free_def list_all_iff)

lemma without_geometry_free: "geometry_free t \<Longrightarrow> withoutGeometryAliases t = t"
  by (induction t) (auto simp: geometry_free_def list_all_iff intro: map_idI)

lemma without_idem [simp]: "withoutGeometryAliases (withoutGeometryAliases t) = withoutGeometryAliases t"
  by (intro without_geometry_free geometry_free_without)

lemma base_of_part:
  "base_of t = t \<or> base_of t \<in> set (Params t) \<or> (\<exists>p \<in> set (Params t). base_of t \<in> set (Params p))"
  unfolding base_of_def splitCHWrappers_def Let_def
  by (auto dest!: hd_in_params intro: bexI [of _ "hd (Params t)"] split: if_splits)

lemma tsize_base_of: "tsize (base_of t) \<le> tsize t"
  using base_of_part [of t] by (auto dest!: tsize_param)

lemma geometry_free_base_of: "geometry_free t \<Longrightarrow> geometry_free (base_of t)"
  using base_of_part [of t] by (auto dest: geometry_free_param)

lemma tsize_without_member:
  assumes "p \<in> set (Params (withoutGeometryAliases t))"
  shows "tsize (withoutGeometryAliases (base_of p)) < tsize (withoutGeometryAliases t)"
proof -
  have "geometry_free p" using assms geometry_free_without by (rule geometry_free_param [rotated])
  then have "withoutGeometryAliases (base_of p) = base_of p"
    by (intro without_geometry_free geometry_free_base_of)
  then show ?thesis using tsize_base_of [of p] tsize_param [OF assms] by simp
qed

lemma tsize_without_base_part:
  assumes "p \<in> set (Params (base_of (withoutGeometryAliases t)))"
  shows "tsize (withoutGeometryAliases p) < tsize (withoutGeometryAliases t)"
proof -
  have "geometry_free p"
    using assms geometry_free_base_of [OF geometry_free_without] by (rule geometry_free_param [rotated])
  then show ?thesis
    using tsize_param [OF assms] tsize_base_of [of "withoutGeometryAliases t"]
    by (simp add: without_geometry_free)
qed

section \<open>Comparability\<close>

unbundle bit_operations_syntax

type_synonym comparisonClass = "16 word"

abbreviation comparisonClassNumeric :: comparisonClass where "comparisonClassNumeric \<equiv> 1"
abbreviation comparisonClassStringLike :: comparisonClass where "comparisonClassStringLike \<equiv> 2"
abbreviation comparisonClassTemporal :: comparisonClass where "comparisonClassTemporal \<equiv> 4"
abbreviation comparisonClassUUID :: comparisonClass where "comparisonClassUUID \<equiv> 8"
abbreviation comparisonClassIP :: comparisonClass where "comparisonClassIP \<equiv> 16"
abbreviation comparisonClassArray :: comparisonClass where "comparisonClassArray \<equiv> 32"
abbreviation comparisonClassTuple :: comparisonClass where "comparisonClassTuple \<equiv> 64"
abbreviation comparisonClassMap :: comparisonClass where "comparisonClassMap \<equiv> 128"
abbreviation comparisonClassVariant :: comparisonClass where "comparisonClassVariant \<equiv> 256"
abbreviation comparisonClassJSON :: comparisonClass where "comparisonClassJSON \<equiv> 512"

definition comparisonClassesOf :: "chtype \<Rightarrow> comparisonClass" where
  "comparisonClassesOf base =
     (let n = normalizedName base in
      if has_prefix n ''interval'' then comparisonClassNumeric
      else if n \<in> {''int8'', ''int16'', ''int32'', ''int64'', ''int'', ''int128'', ''int256'',
                   ''uint8'', ''uint16'', ''uint32'', ''uint64'', ''uint128'', ''uint256'',
                   ''float32'', ''float64'', ''bool'', ''boolean'',
                   ''decimal'', ''decimal32'', ''decimal64'', ''decimal128'', ''decimal256''}
      then comparisonClassNumeric
      else if n \<in> {''enum'', ''enum8'', ''enum16''} then comparisonClassNumeric OR comparisonClassStringLike
      else if n \<in> {''string'', ''fixedstring''} then comparisonClassStringLike
      else if n \<in> {''date'', ''date32''} then comparisonClassTemporal
      else if n \<in> {''datetime'', ''datetime64''} then comparisonClassTemporal OR comparisonClassNumeric
      else if n = ''uuid'' then comparisonClassUUID
      else if n \<in> {''ipv4'', ''ipv6''} then comparisonClassIP
      else if n = ''array'' then comparisonClassArray
      else if n = ''tuple'' then comparisonClassTuple
      else if n = ''map'' then comparisonClassMap
      else if n = ''variant'' then comparisonClassVariant
      else if n = ''json'' then comparisonClassJSON
      else 0)"

definition oneDateTimeOneDecimal :: "chtype \<Rightarrow> chtype \<Rightarrow> bool" where
  "oneDateTimeOneDecimal left right \<longleftrightarrow>
     normalizedName left = ''datetime'' \<and> arithmeticDecimalType right \<or>
     normalizedName right = ''datetime'' \<and> arithmeticDecimalType left"

definition oneDynamicOneMeasuredComposite :: "chtype \<Rightarrow> chtype \<Rightarrow> bool" where
  "oneDynamicOneMeasuredComposite left right \<longleftrightarrow>
     (let isComposite = (\<lambda>value. normalizedName value \<in> {''tuple'', ''map''}) in
      normalizedName left = ''dynamic'' \<and> isComposite right \<or>
      normalizedName right = ''dynamic'' \<and> isComposite left)"

definition oneDynamicOneVariant :: "chtype \<Rightarrow> chtype \<Rightarrow> bool" where
  "oneDynamicOneVariant left right \<longleftrightarrow>
     normalizedName left = ''dynamic'' \<and> normalizedName right = ''variant'' \<or>
     normalizedName right = ''dynamic'' \<and> normalizedName left = ''variant''"

definition oneEnumOneDecimal :: "chtype \<Rightarrow> chtype \<Rightarrow> bool" where
  "oneEnumOneDecimal left right \<longleftrightarrow>
     enumBaseType left \<and> arithmeticDecimalType right \<or> enumBaseType right \<and> arithmeticDecimalType left"

text \<open>The interval loop: an interval on either side refuses these types on the other.\<close>

definition interval_refuses :: "chtype \<Rightarrow> chtype \<Rightarrow> bool" where
  "interval_refuses interval other \<longleftrightarrow> has_prefix (normalizedName interval) ''interval'' \<and>
     (normalizedName other \<in> {''date'', ''date32'', ''datetime64''} \<or> arithmeticDecimalType other)"

function comparisonTypeKnown :: "chtype \<Rightarrow> bool" where
  "comparisonTypeKnown value =
     (let base = base_of (withoutGeometryAliases value) in
      if named base ''simpleaggregatefunction'' \<and> length (Params base) = 2
      then comparisonTypeKnown (Params base ! 1)
      else if normalizedName base = ''dynamic'' \<or> holdsAggregateFunctionState base then True
      else if comparisonClassesOf base = 0 then False
      else if normalizedName base \<in> {''array'', ''tuple'', ''map'', ''variant''}
      then list_all comparisonTypeKnown (Params base)
      else True)"
  by pat_completeness auto
termination
  by (relation "measure (\<lambda>t. tsize (withoutGeometryAliases t))") (auto intro: tsize_without_base_part)

declare comparisonTypeKnown.simps [simp del]

lemma zip_set_pairs: "(a, b) \<in> set (zip xs ys) \<Longrightarrow> a \<in> set xs \<and> b \<in> set ys"
  by (meson in_set_zipE)

function comparableBaseTypes :: "chtype \<Rightarrow> chtype \<Rightarrow> bool" where
  "comparableBaseTypes left0 right0 =
     (if Name left0 = [] \<or> Name right0 = [] then True else
      let left = withoutGeometryAliases left0; right = withoutGeometryAliases right0 in
      if interval_refuses left right \<or> interval_refuses right left then False
      else if holdsAggregateFunctionState left \<or> holdsAggregateFunctionState right then False
      else if normalizedName left = ''json'' \<or> normalizedName right = ''json''
      then normalizedName left = ''json'' \<and> normalizedName right = ''json'' \<and> to_string left = to_string right
      else if oneDateTimeOneDecimal left right then False
      else if oneDynamicOneMeasuredComposite left right then False
      else if oneDynamicOneVariant left right then False
      else if oneEnumOneDecimal left right then False
      else let leftClasses = comparisonClassesOf left; rightClasses = comparisonClassesOf right in
      if leftClasses = 0 \<or> rightClasses = 0 then comparisonTypeKnown left \<and> comparisonTypeKnown right
      else if leftClasses AND rightClasses = 0 then False
      else if leftClasses = comparisonClassVariant \<and> rightClasses = comparisonClassVariant
      then to_string left = to_string right
      else if leftClasses = comparisonClassArray \<and> rightClasses = comparisonClassArray
      then (if length (Params left) \<noteq> 1 \<or> length (Params right) \<noteq> 1 then True
            else is_ok (commonCHType (base_of (hd (Params left))) (base_of (hd (Params right))))
                 \<and> comparableBaseTypes (base_of (hd (Params left))) (base_of (hd (Params right))))
      else if leftClasses = comparisonClassTuple \<and> rightClasses = comparisonClassTuple
      then length (Params left) = length (Params right)
           \<and> list_all (\<lambda>(l, r). comparableBaseTypes (base_of l) (base_of r)) (zip (Params left) (Params right))
      else if leftClasses = comparisonClassMap \<and> rightClasses = comparisonClassMap
      then (if length (Params left) \<noteq> 2 \<or> length (Params right) \<noteq> 2 then True
            else list_all (\<lambda>(l, r). is_ok (commonCHType (base_of l) (base_of r))
                                  \<and> comparableBaseTypes (base_of l) (base_of r))
                   (zip (Params left) (Params right)))
      else True)"
  by pat_completeness auto
termination
  by (relation "measure (\<lambda>(l, r). tsize (withoutGeometryAliases l))")
     (auto intro!: tsize_without_member hd_in_params dest!: zip_set_pairs)

declare comparableBaseTypes.simps [simp del]

definition diagnostic_with :: "error \<Rightarrow> string \<Rightarrow> string \<Rightarrow> string \<Rightarrow> string \<Rightarrow> error" where
  "diagnostic_with err code status stage hint = Wrapf ''diagnostic'' [code, status, stage, hint] err"

datatype diagnosticStatus = Confirmed | Invalid | Unknown

definition comparisonVerdict :: "chtype \<Rightarrow> chtype \<Rightarrow> diagnosticStatus" where
  "comparisonVerdict left right =
     (if holdsAggregateFunctionState left \<or> holdsAggregateFunctionState right then Invalid
      else if \<not> comparisonTypeKnown left \<or> \<not> comparisonTypeKnown right then Unknown
      else if comparableBaseTypes left right then Confirmed
      else Invalid)"

definition checkComparableOperands :: "string \<Rightarrow> chtype \<Rightarrow> chtype \<Rightarrow> unit result" where
  "checkComparableOperands displayName left right =
     (if Name left = [] \<or> Name right = [] then Inr ()
      else case comparisonVerdict (base_of left) (base_of right) of
          Confirmed \<Rightarrow> Inr ()
        | Unknown \<Rightarrow> Inl (diagnostic_with
            (Errorf ''%s has no measured comparison domain for %s and %s'' [displayName, to_string left, to_string right])
            ''comparison-domain-unmeasured'' ''unknown'' ''inference''
            ''Verify this operand pair against ClickHouse and add a domain rule. A final-result type contract cannot validate unknown operand types.'')
        | Invalid \<Rightarrow> Inl (diagnostic_with
            (Errorf ''%s cannot compare an operand of type %s with an operand of type %s; ClickHouse refuses this pair, because the two types are not in one comparable family; %s''
               [displayName, to_string left, to_string right, pinTypeHint])
            ''comparison-domain-invalid'' ''invalid'' ''inference''
            ''Use operands in a compatible measured domain. A result contract cannot bypass a known invalid comparison.''))"

text \<open>\<open>leftConst\<close> and \<open>rightConst\<close> are \<^verbatim>\<open>isConstLiteralExpr\<close> of the two operand expressions.\<close>

definition checkComparableOperandExprs ::
    "string \<Rightarrow> bool \<Rightarrow> bool \<Rightarrow> chtype \<Rightarrow> chtype \<Rightarrow> unit result" where
  "checkComparableOperandExprs displayName leftConst rightConst left right =
     (if \<not> leftConst \<and> Name left \<noteq> [] \<and> \<not> comparisonTypeKnown left
         \<or> \<not> rightConst \<and> Name right \<noteq> [] \<and> \<not> comparisonTypeKnown right
      then checkComparableOperands displayName left right
      else if \<not> leftConst \<and> \<not> rightConst then checkComparableOperands displayName left right
      else if leftConst \<and> rightConst then Inr ()
      else let (constType, columnType) = (if rightConst then (right, left) else (left, right)) in
        if comparisonClassesOf (base_of constType) \<noteq> comparisonClassNumeric then Inr ()
        else checkComparableOperands displayName columnType constType)"

definition checkHasElementPair ::
    "string \<Rightarrow> string \<Rightarrow> bool list \<Rightarrow> chtype list \<Rightarrow> unit result" where
  "checkHasElementPair displayName name args_const argTypes =
     (if name \<noteq> ''has'' \<or> length args_const \<noteq> 2 \<or> length argTypes \<noteq> 2 then Inr ()
      else let inside = (\<lambda>t. case simpleAggregateWrapperInner t of Some inner \<Rightarrow> base_of inner | None \<Rightarrow> t);
               haystack = inside (base_of (argTypes ! 0)) in
        if arrayBaseType haystack \<and> length (Params haystack) = 1
           \<or> normalizedName haystack = ''map'' \<and> length (Params haystack) = 2
        then checkComparableOperandExprs (''function '' @ displayName) (args_const ! 0) (args_const ! 1)
               (base_of (Params haystack ! 0)) (inside (base_of (argTypes ! 1)))
        else Inr ())"

end
