(* ===== verification/DomainFacts.thy ===== *)
theory DomainFacts
  imports Domains
begin

text \<open>
  The argument domains and the comparability rule: the order of the operands does not matter, a type
  compares with itself, and an aggregate function state is refused at every container depth.
\<close>

section \<open>Unfolding\<close>

lemma Name_without [simp]: "Name (withoutGeometryAliases t) = [] \<longleftrightarrow> Name t = []"
  by (cases t) auto

text \<open>The pairs that are settled before the classes are looked at.\<close>

definition refused_early :: "chtype \<Rightarrow> chtype \<Rightarrow> bool" where
  "refused_early l r \<longleftrightarrow> interval_refuses l r \<or> interval_refuses r l
     \<or> holdsAggregateFunctionState l \<or> holdsAggregateFunctionState r"

definition refused_pair :: "chtype \<Rightarrow> chtype \<Rightarrow> bool" where
  "refused_pair l r \<longleftrightarrow> oneDateTimeOneDecimal l r \<or> oneDynamicOneMeasuredComposite l r
     \<or> oneDynamicOneVariant l r \<or> oneEnumOneDecimal l r"

definition is_json :: "chtype \<Rightarrow> bool" where
  "is_json t \<longleftrightarrow> normalizedName t = ''json''"

definition comparable_members :: "chtype \<Rightarrow> chtype \<Rightarrow> bool" where
  "comparable_members l r =
     (if comparisonClassesOf l = comparisonClassVariant \<and> comparisonClassesOf r = comparisonClassVariant
      then to_string l = to_string r
      else if comparisonClassesOf l = comparisonClassArray \<and> comparisonClassesOf r = comparisonClassArray
      then length (Params l) \<noteq> 1 \<or> length (Params r) \<noteq> 1 \<or>
           is_ok (commonCHType (base_of (hd (Params l))) (base_of (hd (Params r))))
           \<and> comparableBaseTypes (base_of (hd (Params l))) (base_of (hd (Params r)))
      else if comparisonClassesOf l = comparisonClassTuple \<and> comparisonClassesOf r = comparisonClassTuple
      then list_all2 (\<lambda>a b. comparableBaseTypes (base_of a) (base_of b)) (Params l) (Params r)
      else if comparisonClassesOf l = comparisonClassMap \<and> comparisonClassesOf r = comparisonClassMap
      then length (Params l) \<noteq> 2 \<or> length (Params r) \<noteq> 2 \<or>
           list_all2 (\<lambda>a b. is_ok (commonCHType (base_of a) (base_of b))
                          \<and> comparableBaseTypes (base_of a) (base_of b)) (Params l) (Params r)
      else True)"

definition comparable_classes :: "chtype \<Rightarrow> chtype \<Rightarrow> bool" where
  "comparable_classes l r =
     (if comparisonClassesOf l = 0 \<or> comparisonClassesOf r = 0
      then comparisonTypeKnown l \<and> comparisonTypeKnown r
      else comparisonClassesOf l AND comparisonClassesOf r \<noteq> 0 \<and> comparable_members l r)"

lemma list_all_zip: "length xs = length ys \<Longrightarrow> list_all (\<lambda>(a, b). P a b) (zip xs ys) = list_all2 P xs ys"
  by (simp add: list_all2_iff list_all_iff)

lemma comparable_unfold:
  assumes "l = withoutGeometryAliases l0" and "r = withoutGeometryAliases r0"
  shows "comparableBaseTypes l0 r0 \<longleftrightarrow> Name l0 = [] \<or> Name r0 = [] \<or>
     \<not> refused_early l r \<and>
     (if is_json l \<or> is_json r then is_json l \<and> is_json r \<and> to_string l = to_string r
      else \<not> refused_pair l r \<and> comparable_classes l r)"
proof -
  have t: "length (Params l) = length (Params r) \<and> list_all (\<lambda>(a, b). P a b) (zip (Params l) (Params r)) \<longleftrightarrow>
      list_all2 P (Params l) (Params r)" for P
    by (auto simp: list_all2_iff list_all_iff)
  have m: "length (Params l) \<noteq> 2 \<or> length (Params r) \<noteq> 2 \<or> list_all (\<lambda>(a, b). P a b) (zip (Params l) (Params r)) \<longleftrightarrow>
      length (Params l) \<noteq> 2 \<or> length (Params r) \<noteq> 2 \<or> list_all2 P (Params l) (Params r)" for P
    by (auto simp: list_all2_iff list_all_iff)
  have ifs: "(if b then True else x) = (b \<or> x)" "(if b then False else x) = (\<not> b \<and> x)" for b x
    by auto
  show ?thesis
    unfolding assms [symmetric] comparableBaseTypes.simps [of l0 r0] Let_def
      comparable_classes_def comparable_members_def refused_early_def refused_pair_def is_json_def t
    by (simp only: ifs m disj_assoc) (auto simp only: split: if_splits)
qed

lemma comparable_without: "comparableBaseTypes (withoutGeometryAliases l) (withoutGeometryAliases r) = comparableBaseTypes l r"
  by (simp add: comparable_unfold [OF refl refl])

section \<open>Symmetry\<close>

lemma refused_early_comm: "refused_early l r = refused_early r l"
  by (auto simp: refused_early_def)

lemma refused_pair_comm: "refused_pair l r = refused_pair r l"
  by (auto simp: refused_pair_def oneDateTimeOneDecimal_def oneDynamicOneMeasuredComposite_def
      oneDynamicOneVariant_def oneEnumOneDecimal_def Let_def)

text \<open>The types on which the supertype does not depend on the order, at every node.\<close>

definition comparison_type :: "chtype \<Rightarrow> bool" where
  "comparison_type = all_nodes (\<lambda>u. comm_type (stripLowCardinalityDeep u))"

lemma comparison_type_param: "comparison_type t \<Longrightarrow> p \<in> set (Params t) \<Longrightarrow> comparison_type p"
  unfolding comparison_type_def by (rule all_nodes_param)

lemma comparison_type_base_of: "comparison_type t \<Longrightarrow> comparison_type (base_of t)"
  using base_of_part [of t] by (auto dest: comparison_type_param)

lemma common_ok_comm:
  assumes "comparison_type a" and "comparison_type b"
  shows "is_ok (commonCHType a b) = is_ok (commonCHType b a)"
proof -
  have "comm_type (stripLowCardinalityDeep a)" "comm_type (stripLowCardinalityDeep b)"
    using assms by (auto simp: comparison_type_def dest: all_nodes_root)
  from commonCHType_comm [OF this] show ?thesis
    by (cases "commonCHType a b"; cases "commonCHType b a") auto
qed

lemma list_all2_swap:
  "(\<And>a b. a \<in> set xs \<Longrightarrow> b \<in> set ys \<Longrightarrow> P a b = P b a) \<Longrightarrow> list_all2 P xs ys = list_all2 P ys xs"
  unfolding list_all2_conv_all_nth by (metis nth_mem)

lemma tsize_base_param:
  "a \<in> set (Params l) \<Longrightarrow> b \<in> set (Params r) \<Longrightarrow> tsize (base_of a) + tsize (base_of b) < tsize l + tsize r"
  using tsize_base_of [of a] tsize_base_of [of b] tsize_param [of a l] tsize_param [of b r] by linarith

lemma comparable_sym_free:
  "geometry_free l \<Longrightarrow> geometry_free r \<Longrightarrow> comparison_type l \<Longrightarrow> comparison_type r \<Longrightarrow>
   comparableBaseTypes l r = comparableBaseTypes r l"
proof (induction l r rule: pair_size_induct)
  case (1 l r)
  have part: "geometry_free (base_of a)" "comparison_type (base_of a)"
    if "geometry_free t" "comparison_type t" "a \<in> set (Params t)" for a t
    using that by (auto intro: geometry_free_base_of comparison_type_base_of geometry_free_param comparison_type_param)
  have IH: "comparableBaseTypes (base_of a) (base_of b) = comparableBaseTypes (base_of b) (base_of a)"
    if "a \<in> set (Params l)" "b \<in> set (Params r)" for a b
    by (rule "1.IH" [OF tsize_base_param [OF that]]) (use that "1.prems" in \<open>auto intro: part\<close>)
  have ok: "is_ok (commonCHType (base_of a) (base_of b)) = is_ok (commonCHType (base_of b) (base_of a))"
    if "a \<in> set (Params l)" "b \<in> set (Params r)" for a b
    using that "1.prems" by (intro common_ok_comm) (auto intro: part)
  have t: "list_all2 (\<lambda>a b. comparableBaseTypes (base_of a) (base_of b)) (Params l) (Params r) =
      list_all2 (\<lambda>a b. comparableBaseTypes (base_of a) (base_of b)) (Params r) (Params l)"
    by (rule list_all2_swap) (rule IH)
  have m: "list_all2 (\<lambda>a b. is_ok (commonCHType (base_of a) (base_of b)) \<and> comparableBaseTypes (base_of a) (base_of b)) (Params l) (Params r) =
      list_all2 (\<lambda>a b. is_ok (commonCHType (base_of a) (base_of b)) \<and> comparableBaseTypes (base_of a) (base_of b)) (Params r) (Params l)"
    by (rule list_all2_swap) (use IH ok in blast)
  have h: "comparableBaseTypes (base_of (hd (Params l))) (base_of (hd (Params r))) =
        comparableBaseTypes (base_of (hd (Params r))) (base_of (hd (Params l)))"
    "is_ok (commonCHType (base_of (hd (Params l))) (base_of (hd (Params r)))) =
        is_ok (commonCHType (base_of (hd (Params r))) (base_of (hd (Params l))))"
    if "length (Params l) = 1" "length (Params r) = 1"
    using that by (auto intro!: IH ok hd_in_params)
  have "comparable_members l r = comparable_members r l"
  proof (cases "comparisonClassesOf l = comparisonClassesOf r")
    case True
    then show ?thesis
      using h by (simp only: comparable_members_def t m eq_commute [of "to_string l"] simp_thms)
        (intro if_cong refl; blast)
  next
    case False
    then show ?thesis by (auto simp: comparable_members_def)
  qed
  then have c: "comparable_classes l r = comparable_classes r l"
    by (simp add: comparable_classes_def and.commute [of "comparisonClassesOf l"] conj_commute disj_commute)
  have fl: "l = withoutGeometryAliases l" "r = withoutGeometryAliases r"
    using "1.prems" by (simp_all add: without_geometry_free)
  show ?case
    unfolding comparable_unfold [OF fl] comparable_unfold [OF fl(2,1)] c
      refused_early_comm [of l r] refused_pair_comm [of l r]
    by (simp add: conj_ac disj_ac eq_commute [of "to_string l"])
qed

section \<open>A type compares with itself\<close>

definition measured_type :: "chtype \<Rightarrow> bool" where
  "measured_type = all_nodes (\<lambda>u. Name u \<noteq> [] \<and> \<not> holdsAggregateFunctionState u
     \<and> comparisonTypeKnown (base_of u) \<and> all_nodes spelled_node (stripLowCardinalityDeep (base_of u)))"

lemma measured_param: "measured_type t \<Longrightarrow> p \<in> set (Params t) \<Longrightarrow> measured_type p"
  unfolding measured_type_def by (rule all_nodes_param)

lemma measured_base_of: "measured_type t \<Longrightarrow> measured_type (base_of t)"
  using base_of_part [of t] by (auto dest: measured_param)

lemma measured_common: "measured_type t \<Longrightarrow> is_ok (commonCHType (base_of t) (base_of t))"
  by (auto simp: measured_type_def dest!: all_nodes_root common_self)

lemma decimal_not_other: "arithmeticDecimalType t \<Longrightarrow>
   normalizedName t \<noteq> ''datetime'' \<and> \<not> enumBaseType t \<and> \<not> has_prefix (normalizedName t) ''interval''"
  by (auto simp: arithmeticDecimalType_def enumBaseType_def has_prefix_def)

lemma comparable_self_free:
  "geometry_free t \<Longrightarrow> measured_type t \<Longrightarrow> comparisonTypeKnown t \<Longrightarrow> comparableBaseTypes t t"
proof (induction "tsize t" arbitrary: t rule: less_induct)
  case less
  note m = less.prems(2)
  have root: "Name t \<noteq> []" "\<not> holdsAggregateFunctionState t"
    using m by (auto simp: measured_type_def dest: all_nodes_root)
  have mem: "comparableBaseTypes (base_of a) (base_of a) \<and> is_ok (commonCHType (base_of a) (base_of a))"
    if "a \<in> set (Params t)" for a
  proof -
    have ma: "measured_type a" "geometry_free a"
      using that less.prems by (auto intro: measured_param geometry_free_param)
    have "tsize (base_of a) < tsize t" using tsize_base_of [of a] tsize_param [OF that] by simp
    moreover have "comparisonTypeKnown (base_of a)" using ma(1) by (auto simp: measured_type_def dest: all_nodes_root)
    ultimately show ?thesis
      using less.hyps ma by (auto intro: geometry_free_base_of measured_base_of measured_common)
  qed
  have early: "\<not> refused_early t t"
    using root decimal_not_other [of t] by (auto simp: refused_early_def interval_refuses_def has_prefix_def)
  have pair: "\<not> refused_pair t t"
    using decimal_not_other [of t]
    by (auto simp: refused_pair_def oneDateTimeOneDecimal_def oneDynamicOneMeasuredComposite_def
        oneDynamicOneVariant_def oneEnumOneDecimal_def Let_def)
  have "comparable_members t t"
    using mem by (auto simp: comparable_members_def list.rel_refl_strong dest: hd_in_params intro!: list.rel_refl_strong)
  then have "comparable_classes t t"
    using less.prems(3) by (auto simp: comparable_classes_def)
  with early pair show ?case
    using comparable_unfold [of t t t t] less.prems(1) by (auto simp: without_geometry_free)
qed

section \<open>Aggregate function states\<close>

text \<open>A state at some depth of Array, Tuple and Map members.\<close>

function state_inside :: "chtype \<Rightarrow> bool" where
  "state_inside t \<longleftrightarrow> holdsAggregateFunctionState t \<or>
     normalizedName t \<in> {''array'', ''tuple'', ''map''} \<and> list_ex (\<lambda>p. state_inside (base_of p)) (Params t)"
  by pat_completeness auto
termination
  by (relation "measure tsize") (auto intro: le_less_trans [OF tsize_base_of tsize_param])

declare state_inside.simps [simp del]

definition container_node :: "chtype \<Rightarrow> bool" where
  "container_node t \<longleftrightarrow> Name t \<noteq> [] \<and> (normalizedName t = ''array'' \<longrightarrow> length (Params t) = 1)
     \<and> (normalizedName t = ''map'' \<longrightarrow> length (Params t) = 2)"

text \<open>Well-shaped containers, and for the other operand every node in a comparison class.\<close>

abbreviation well_shaped :: "chtype \<Rightarrow> bool" where
  "well_shaped \<equiv> all_nodes container_node"

abbreviation classified :: "chtype \<Rightarrow> bool" where
  "classified \<equiv> all_nodes (\<lambda>t. container_node t \<and> comparisonClassesOf (base_of t) \<noteq> 0)"

lemma class_of_container:
  "comparisonClassesOf t AND comparisonClassArray \<noteq> 0 \<longleftrightarrow> normalizedName t = ''array''"
  "comparisonClassesOf t AND comparisonClassTuple \<noteq> 0 \<longleftrightarrow> normalizedName t = ''tuple''"
  "comparisonClassesOf t AND comparisonClassMap \<noteq> 0 \<longleftrightarrow> normalizedName t = ''map''"
  by (auto simp: comparisonClassesOf_def Let_def has_prefix_def)

lemma class_container:
  "normalizedName t = ''array'' \<Longrightarrow> comparisonClassesOf t = comparisonClassArray"
  "normalizedName t = ''tuple'' \<Longrightarrow> comparisonClassesOf t = comparisonClassTuple"
  "normalizedName t = ''map'' \<Longrightarrow> comparisonClassesOf t = comparisonClassMap"
  by (auto simp: comparisonClassesOf_def Let_def has_prefix_def)

lemma all_nodes_base_of: "all_nodes P t \<Longrightarrow> all_nodes P (base_of t)"
  using base_of_part [of t] by (auto dest: all_nodes_param)

lemma list_all2_member: "list_all2 P xs ys \<Longrightarrow> x \<in> set xs \<Longrightarrow> \<exists>y \<in> set ys. P x y"
  by (induction rule: list_all2_induct) auto

lemma list_all2_member2: "list_all2 P xs ys \<Longrightarrow> y \<in> set ys \<Longrightarrow> \<exists>x \<in> set xs. P x y"
  by (induction rule: list_all2_induct) auto

text \<open>A comparable pair whose one side is a container pairs each of its members with a member of the other.\<close>

lemma comparable_container_members:
  assumes "comparableBaseTypes l r" and "geometry_free l" and "geometry_free r"
    and "container_node l" and "container_node r" and "comparisonClassesOf l \<noteq> 0" and "comparisonClassesOf r \<noteq> 0"
    and "normalizedName l \<in> {''array'', ''tuple'', ''map''} \<or> normalizedName r \<in> {''array'', ''tuple'', ''map''}"
  shows "list_all2 (\<lambda>a b. comparableBaseTypes (base_of a) (base_of b)) (Params l) (Params r)"
proof -
  have n: "Name l \<noteq> []" "Name r \<noteq> []" using assms(4,5) by (auto simp: container_node_def)
  have nj: "\<not> (is_json l \<and> is_json r)" using assms(8) by (auto simp: is_json_def)
  have "comparable_classes l r"
    using assms(1-3) n nj comparable_unfold [of l l r r] by (auto simp: without_geometry_free split: if_splits)
  then have c: "comparisonClassesOf l AND comparisonClassesOf r \<noteq> 0" "comparable_members l r"
    using assms(6,7) by (auto simp: comparable_classes_def)
  have same: "normalizedName l = normalizedName r"
    using assms(8) c(1) class_of_container [of l] class_of_container [of r] class_container [of l] class_container [of r]
    by (auto simp: and.commute)
  from assms(8) same consider "normalizedName l = ''array''" | "normalizedName l = ''tuple''" | "normalizedName l = ''map''"
    by auto
  then show ?thesis
  proof cases
    case 1
    with same c(2) assms(4,5) show ?thesis
      by (auto simp: comparable_members_def class_container container_node_def length_Suc_conv)
  next
    case 2
    with same c(2) show ?thesis by (simp add: comparable_members_def class_container)
  next
    case 3
    with same c(2) assms(4,5) show ?thesis
      by (auto simp: comparable_members_def class_container container_node_def elim!: list.rel_mono_strong)
  qed
qed

lemma state_never_compares:
  "geometry_free l \<Longrightarrow> geometry_free r \<Longrightarrow>
   state_inside l \<and> well_shaped l \<and> classified r \<and> comparisonClassesOf r \<noteq> 0
   \<or> state_inside r \<and> well_shaped r \<and> classified l \<and> comparisonClassesOf l \<noteq> 0 \<Longrightarrow>
   \<not> comparableBaseTypes l r"
proof (induction l r rule: pair_size_induct)
  case (1 l r)
  show ?case
  proof
    assume C: "comparableBaseTypes l r"
    have nodes: "container_node l" "container_node r"
      using "1.prems"(3) by (auto dest: all_nodes_root)
    then have n: "Name l \<noteq> []" "Name r \<noteq> []" by (auto simp: container_node_def)
    have ns: "\<not> holdsAggregateFunctionState l" "\<not> holdsAggregateFunctionState r"
      using C n "1.prems"(1,2) comparable_unfold [of l l r r] by (auto simp: without_geometry_free refused_early_def)
    have base: "comparisonClassesOf (base_of b) \<noteq> 0 \<and> classified (base_of b)"
      if "classified t" "b \<in> set (Params t)" for t b
      using that by (auto dest: all_nodes_param all_nodes_root all_nodes_base_of)
    have shaped: "well_shaped (base_of a)" if "well_shaped t" "a \<in> set (Params t)" for a t
      using that by (auto dest: all_nodes_param all_nodes_base_of)
    have free: "geometry_free (base_of a)" if "geometry_free t" "a \<in> set (Params t)" for a t
      using that by (auto intro: geometry_free_base_of geometry_free_param)
    from "1.prems"(3) ns have cont: "normalizedName l \<in> {''array'', ''tuple'', ''map''} \<or> normalizedName r \<in> {''array'', ''tuple'', ''map''}"
      and cls: "comparisonClassesOf l \<noteq> 0" "comparisonClassesOf r \<noteq> 0"
      using class_container [of l] class_container [of r] by (auto simp: state_inside.simps [of l] state_inside.simps [of r])
    have members: "list_all2 (\<lambda>a b. comparableBaseTypes (base_of a) (base_of b)) (Params l) (Params r)"
      by (rule comparable_container_members [OF C "1.prems"(1,2) nodes cls cont])
    from "1.prems"(3) show False
    proof
      assume L: "state_inside l \<and> well_shaped l \<and> classified r \<and> comparisonClassesOf r \<noteq> 0"
      with ns obtain a where a: "a \<in> set (Params l)" "state_inside (base_of a)"
        by (auto simp: state_inside.simps [of l] list_ex_iff)
      from list_all2_member [OF members a(1)] obtain b where b: "b \<in> set (Params r)" "comparableBaseTypes (base_of a) (base_of b)"
        by blast
      have "\<not> comparableBaseTypes (base_of a) (base_of b)"
        using L a b(1) "1.prems"(1,2) base shaped free
        by (intro "1.IH" [OF tsize_base_param [OF a(1) b(1)]]) blast+
      with b(2) show False by simp
    next
      assume R: "state_inside r \<and> well_shaped r \<and> classified l \<and> comparisonClassesOf l \<noteq> 0"
      with ns obtain b where b: "b \<in> set (Params r)" "state_inside (base_of b)"
        by (auto simp: state_inside.simps [of r] list_ex_iff)
      from list_all2_member2 [OF members b(1)] obtain a where a: "a \<in> set (Params l)" "comparableBaseTypes (base_of a) (base_of b)"
        by blast
      have "\<not> comparableBaseTypes (base_of a) (base_of b)"
        using R a(1) b "1.prems"(1,2) base shaped free
        by (intro "1.IH" [OF tsize_base_param [OF a(1) b(1)]]) blast+
      with a(2) show False by simp
    qed
  qed
qed

lemma known_without: "comparisonTypeKnown (withoutGeometryAliases t) = comparisonTypeKnown t"
  by (simp add: comparisonTypeKnown.simps [of t] comparisonTypeKnown.simps [of "withoutGeometryAliases t"])

lemma short_no_state: "length (Name t) < 17 \<Longrightarrow> \<not> holdsAggregateFunctionState t"
  by (auto simp: holdsAggregateFunctionState_def dest!: has_prefix_length)

lemma geometry_name_short: "\<not> geometry_free (CHType n [] [] []) \<Longrightarrow> length n < 17"
  by (subst length_to_lower [symmetric]) (auto simp: geometry_free_def simp del: length_to_lower)

lemma holds_without: "holdsAggregateFunctionState (withoutGeometryAliases t) = holdsAggregateFunctionState t"
proof (cases "geometry_free (CHType (Name t) [] [] [])")
  case True
  then show ?thesis by (cases t) (simp add: geometry_free_def holdsAggregateFunctionState_def)
next
  case False
  then have "Name (withoutGeometryAliases t) \<in> {''Tuple'', ''Array''}"
    by (cases t) (auto simp: geometry_free_def)
  then have "length (Name (withoutGeometryAliases t)) < 17" by auto
  with geometry_name_short [OF False] show ?thesis by (simp add: short_no_state)
qed

section \<open>Properties\<close>

text \<open>
  C8. The comparability of two operands does not depend on their order, in the verdict (confirmed,
  invalid or unmeasured) as in the boolean rule: the pair refusals, the class table, the geometry
  expansion and the element rules of Array, Tuple and Map are all symmetric. The hypothesis leaves out
  SimpleAggregateFunction markers inside a container, on which the supertype itself is one-sided.
\<close>

theorem comparability_symmetric:
  assumes "comparison_type (withoutGeometryAliases l)" and "comparison_type (withoutGeometryAliases r)"
  shows "comparableBaseTypes l r = comparableBaseTypes r l \<and> comparisonVerdict l r = comparisonVerdict r l"
proof -
  have "comparableBaseTypes l r = comparableBaseTypes r l"
    using comparable_sym_free [OF geometry_free_without geometry_free_without assms] by (simp only: comparable_without)
  then show ?thesis by (auto simp: comparisonVerdict_def)
qed

theorem comparability_symmetric_witness:
  "comparableBaseTypes (ty1 ''Tuple'' [ty0 ''Float64'', ty0 ''UInt64'']) (ty0 ''Point'') \<and>
   comparableBaseTypes (ty0 ''Point'') (ty1 ''Tuple'' [ty0 ''Float64'', ty0 ''UInt64'']) \<and>
   comparisonVerdict (ty0 ''DateTime'') (tyl ''Decimal'' [''9'', ''2'']) = Invalid \<and>
   comparisonVerdict (tyl ''Decimal'' [''9'', ''2'']) (ty0 ''DateTime'') = Invalid"
proof -
  have c: "comparison_type (withoutGeometryAliases (ty1 ''Tuple'' [ty0 ''Float64'', ty0 ''UInt64'']))"
    "comparison_type (withoutGeometryAliases (ty0 ''Point''))"
    "comparison_type (withoutGeometryAliases (ty0 ''DateTime''))"
    "comparison_type (withoutGeometryAliases (tyl ''Decimal'' [''9'', ''2'']))"
    by code_simp+
  have e: "comparableBaseTypes (ty1 ''Tuple'' [ty0 ''Float64'', ty0 ''UInt64'']) (ty0 ''Point'')"
    "comparisonVerdict (ty0 ''DateTime'') (tyl ''Decimal'' [''9'', ''2'']) = Invalid"
    by code_simp+
  from comparability_symmetric [OF c(1,2)] comparability_symmetric [OF c(3,4)] e show ?thesis by simp
qed

text \<open>
  Every measured type without aggregate function states compares with itself, whatever wrappers,
  geometry aliases and containers it is built from: the verdict on the pair of a type and itself is
  confirmed.
\<close>

theorem measured_type_compares_with_itself:
  assumes "measured_type (withoutGeometryAliases t)" and "comparisonTypeKnown t"
  shows "comparisonVerdict t t = Confirmed"
proof -
  have "comparableBaseTypes t t"
    using comparable_self_free [OF geometry_free_without assms(1)] assms(2)
    by (simp only: comparable_without known_without)
  moreover have "\<not> holdsAggregateFunctionState t"
    using all_nodes_root [OF assms(1) [unfolded measured_type_def]]
    by (auto simp: holds_without)
  ultimately show ?thesis using assms(2) by (simp add: comparisonVerdict_def)
qed

theorem measured_type_compares_with_itself_witness:
  "comparisonVerdict (ty1 ''Map'' [ty0 ''String'', ty1 ''Array'' [ty1 ''Nullable'' [tyl ''Decimal'' [''9'', ''2'']]]])
     (ty1 ''Map'' [ty0 ''String'', ty1 ''Array'' [ty1 ''Nullable'' [tyl ''Decimal'' [''9'', ''2'']]]]) = Confirmed"
proof -
  let ?t = "ty1 ''Map'' [ty0 ''String'', ty1 ''Array'' [ty1 ''Nullable'' [tyl ''Decimal'' [''9'', ''2'']]]]"
  have "measured_type (withoutGeometryAliases ?t)" "comparisonTypeKnown ?t" by code_simp+
  then show ?thesis by (rule measured_type_compares_with_itself)
qed



end
