(* ===== verification/Signatures.thy ===== *)
theory Signatures
  imports Domains Complex_Main
begin

text \<open>
  The call shapes of \<^verbatim>\<open>function_signature.go\<close> and \<^verbatim>\<open>gen_spec.go\<close>: the forms a call may take, the
  sorts of its positions, the arities a signature accepts, the boundary arities the conformance probes
  use, the signature derived from a generator recipe with the measured overrides, and the check of a
  call. The function registry is a parameter, and so is \<open>parseFloat\<close>, the finite value
  \<^verbatim>\<open>strconv.ParseFloat\<close> gives a number literal.
\<close>

section \<open>Recipes\<close>

datatype argSort = argSortUnset | argSortValue | argSortNumber | argSortOffset | argSortIntegerOffset
  | argSortIndex | argSortPredicate | argSortConstString | argSortConstInt | argSortConstNumber
  | argSortInterval | argSortLambda | argSortTypeName

datatype placement = placementUnset | placementScalar | placementAggregate | placementWindow

record genSpec =
  spelling :: string
  minArity :: int
  maxArity :: int
  argSorts :: "argSort list"
  gen_place :: placement
  template :: string

definition valueSorts :: "nat \<Rightarrow> argSort list" where
  "valueSorts n = replicate n argSortValue"

definition scalarCall :: "string \<Rightarrow> nat \<Rightarrow> genSpec" where
  "scalarCall s n = \<lparr>spelling = s, minArity = int n, maxArity = int n, argSorts = valueSorts n,
     gen_place = placementScalar, template = []\<rparr>"

definition scalarCallRange :: "string \<Rightarrow> nat \<Rightarrow> int \<Rightarrow> genSpec" where
  "scalarCallRange s min_arity max_arity = \<lparr>spelling = s, minArity = int min_arity, maxArity = max_arity,
     argSorts = valueSorts min_arity, gen_place = placementScalar, template = []\<rparr>"

definition aggregateCall :: "string \<Rightarrow> nat \<Rightarrow> genSpec" where
  "aggregateCall s n = \<lparr>spelling = s, minArity = int n, maxArity = int n, argSorts = valueSorts n,
     gen_place = placementAggregate, template = []\<rparr>"

definition conditionalAggregateCall :: "string \<Rightarrow> nat \<Rightarrow> genSpec" where
  "conditionalAggregateCall s n = \<lparr>spelling = s, minArity = int n + 1, maxArity = int n + 1,
     argSorts = valueSorts n @ [argSortPredicate], gen_place = placementAggregate, template = []\<rparr>"

definition windowCall :: "string \<Rightarrow> nat \<Rightarrow> genSpec" where
  "windowCall s n = \<lparr>spelling = s, minArity = int n, maxArity = int n, argSorts = valueSorts n,
     gen_place = placementWindow, template = []\<rparr>"

section \<open>Forms\<close>

text \<open>\<open>maxRepeats = -1\<close> is an unbounded group.\<close>

record signatureForm =
  form_prefix :: "argSort list"
  repeat :: "argSort list"
  form_suffix :: "argSort list"
  minRepeats :: int
  maxRepeats :: int

definition fixedSignatureForm :: "argSort list \<Rightarrow> signatureForm" where
  "fixedSignatureForm sorts = \<lparr>form_prefix = sorts, repeat = [], form_suffix = [], minRepeats = 0, maxRepeats = 0\<rparr>"

definition repeatedSignatureForm ::
    "argSort list \<Rightarrow> argSort list \<Rightarrow> argSort list \<Rightarrow> int \<Rightarrow> int \<Rightarrow> signatureForm" where
  "repeatedSignatureForm p r s lo hi =
     \<lparr>form_prefix = p, repeat = r, form_suffix = s, minRepeats = lo, maxRepeats = hi\<rparr>"

datatype signatureRelationKind = signatureRelationUnknown | signatureRelationDefaultKeepsFirstType
  | signatureRelationArrayElementCommonType

record signatureRelation =
  relation_kind :: signatureRelationKind
  relation_left :: int
  relation_right :: int

text \<open>The bounds are whole numbers in every range the source declares.\<close>

record signatureConstantRange =
  parameter_range :: bool
  range_position :: int
  range_minimum :: int
  range_maximum :: int

record functionSignature =
  forms :: "signatureForm list"
  parameterForms :: "signatureForm list"
  relations :: "signatureRelation list"
  constantRanges :: "signatureConstantRange list"
  sig_place :: placement
  allowBare :: bool
  allowOver :: bool
  evidence :: string

definition fixed_count :: "signatureForm \<Rightarrow> int" where
  "fixed_count form = int (length (form_prefix form)) + int (length (form_suffix form))"

definition form_sortsForArity :: "signatureForm \<Rightarrow> int \<Rightarrow> argSort list option" where
  "form_sortsForArity form arity =
     (let fixed = fixed_count form in
      if repeat form = []
      then (if arity \<noteq> fixed then None else Some (form_prefix form @ form_suffix form))
      else let remaining = arity - fixed in
        if remaining < 0 \<or> remaining mod int (length (repeat form)) \<noteq> 0 then None
        else let repeats = remaining div int (length (repeat form)) in
          if repeats < minRepeats form \<or> (maxRepeats form \<noteq> -1 \<and> repeats > maxRepeats form) then None
          else Some (form_prefix form @ concat (replicate (nat repeats) (repeat form)) @ form_suffix form))"

fun forms_sortsForArity :: "signatureForm list \<Rightarrow> int \<Rightarrow> argSort list option" where
  "forms_sortsForArity [] arity = None"
| "forms_sortsForArity (form # rest) arity =
     (case form_sortsForArity form arity of Some sorts \<Rightarrow> Some sorts | None \<Rightarrow> forms_sortsForArity rest arity)"

definition sortsForArity :: "functionSignature \<Rightarrow> int \<Rightarrow> argSort list option" where
  "sortsForArity signature arity = forms_sortsForArity (forms signature) arity"

text \<open>The least arity of a form, the least number of repeats included.\<close>

definition least_arity :: "signatureForm \<Rightarrow> int" where
  "least_arity form = fixed_count form + (if repeat form = [] then 0 else minRepeats form * int (length (repeat form)))"

definition form_representatives :: "signatureForm \<Rightarrow> int list" where
  "form_representatives form =
     (let minimum = least_arity form in
      minimum # (if repeat form \<noteq> [] \<and> (maxRepeats form = -1 \<or> maxRepeats form > minRepeats form)
                 then [minimum + int (length (repeat form))] else []))"

definition representativeArities :: "functionSignature \<Rightarrow> int list" where
  "representativeArities signature = sorted_list_of_set (set (concat (map form_representatives (forms signature))))"

definition has_unbounded_form :: "functionSignature \<Rightarrow> bool" where
  "has_unbounded_form signature \<longleftrightarrow> list_ex (\<lambda>form. repeat form \<noteq> [] \<and> maxRepeats form = -1) (forms signature)"

definition raise_maximum :: "functionSignature \<Rightarrow> signatureForm \<Rightarrow> int \<Rightarrow> int" where
  "raise_maximum signature form maximum =
     (if length (repeat form) > 1
      then let candidate = fixed_count form + minRepeats form * int (length (repeat form)) + 1 in
           if sortsForArity signature candidate = None \<and> candidate > maximum then candidate else maximum
      else maximum)"

definition rejectedBoundaryArities :: "functionSignature \<Rightarrow> int list" where
  "rejectedBoundaryArities signature =
     (case representativeArities signature of
        [] \<Rightarrow> []
      | minimum # rest \<Rightarrow>
         (let maximum = fold (raise_maximum signature) (forms signature) (last (minimum # rest)) in
          sorted_list_of_set (set (
            (if minimum > 0 then [minimum - 1] else [])
            @ filter (\<lambda>arity. sortsForArity signature arity = None) [minimum..maximum]
            @ (if has_unbounded_form signature then [] else [maximum + 1])))))"

section \<open>The shape of a signature\<close>

definition sort_rank :: "argSort \<Rightarrow> nat" where
  "sort_rank s = (case s of argSortUnset \<Rightarrow> 0 | argSortValue \<Rightarrow> 1 | argSortNumber \<Rightarrow> 2 | argSortOffset \<Rightarrow> 3
     | argSortIntegerOffset \<Rightarrow> 4 | argSortIndex \<Rightarrow> 5 | argSortPredicate \<Rightarrow> 6 | argSortConstString \<Rightarrow> 7
     | argSortConstInt \<Rightarrow> 8 | argSortConstNumber \<Rightarrow> 9 | argSortInterval \<Rightarrow> 10 | argSortLambda \<Rightarrow> 11
     | argSortTypeName \<Rightarrow> 12)"

text \<open>The iota order of the constants.\<close>

instantiation argSort :: linorder
begin

definition less_eq_argSort :: "argSort \<Rightarrow> argSort \<Rightarrow> bool" where
  "less_eq_argSort a b \<longleftrightarrow> sort_rank a \<le> sort_rank b"

definition less_argSort :: "argSort \<Rightarrow> argSort \<Rightarrow> bool" where
  "less_argSort a b \<longleftrightarrow> sort_rank a < sort_rank b"

instance
proof
  fix a b :: argSort
  show "a \<le> b \<Longrightarrow> b \<le> a \<Longrightarrow> a = b"
    by (cases a; cases b) (simp_all add: less_eq_argSort_def sort_rank_def)
qed (auto simp: less_eq_argSort_def less_argSort_def)

end

definition check_form :: "string \<Rightarrow> signatureForm \<Rightarrow> unit result" where
  "check_form name form =
     (if repeat form = [] \<and> (minRepeats form \<noteq> 0 \<or> maxRepeats form \<noteq> 0)
      then Inl (Errorf ''function %s fixed form has repeat limits'' [name])
      else if repeat form \<noteq> [] \<and> (minRepeats form < 0 \<or> (maxRepeats form \<noteq> -1 \<and> maxRepeats form < minRepeats form))
      then Inl (Errorf ''function %s has invalid repeat limits'' [name])
      else if list_ex (\<lambda>s. s \<le> argSortUnset \<or> s > argSortTypeName)
                (form_prefix form @ repeat form @ form_suffix form)
      then Inl (Errorf ''function %s has an unknown argument sort'' [name])
      else Inr ())"

fun check_all :: "('a \<Rightarrow> unit result) \<Rightarrow> 'a list \<Rightarrow> unit result" where
  "check_all f [] = Inr ()"
| "check_all f (x # xs) = bind_res (f x) (\<lambda>_. check_all f xs)"

definition check_relation_rule :: "string \<Rightarrow> signatureRelation \<Rightarrow> unit result" where
  "check_relation_rule name relation =
     (if relation_kind relation = signatureRelationUnknown \<or> relation_left relation < 0 \<or> relation_right relation < 0
      then Inl (Errorf ''function %s has an invalid linked argument rule'' [name]) else Inr ())"

definition check_range_rule :: "string \<Rightarrow> signatureConstantRange \<Rightarrow> unit result" where
  "check_range_rule name valueRange =
     (if range_position valueRange < 0 \<or> range_minimum valueRange > range_maximum valueRange
      then Inl (Errorf ''function %s has an invalid constant range'' [name]) else Inr ())"

definition validateFunctionSignatureDefinition :: "string \<Rightarrow> functionSignature \<Rightarrow> unit result" where
  "validateFunctionSignatureDefinition name signature =
     (if forms signature = [] then Inl (Errorf ''function %s has no executable argument form'' [name])
      else if parameterForms signature = []
      then Inl (Errorf ''function %s has no executable parameter form'' [name])
      else if sig_place signature = placementUnset \<or> (\<not> allowBare signature \<and> \<not> allowOver signature)
      then Inl (Errorf ''function %s has no executable placement'' [name])
      else if evidence signature = []
      then Inl (Errorf ''function %s signature has no measurement evidence'' [name])
      else bind_res (check_all (check_form name) (forms signature)) (\<lambda>_.
           bind_res (check_all (check_form name) (parameterForms signature)) (\<lambda>_.
           bind_res (check_all (check_relation_rule name) (relations signature)) (\<lambda>_.
           check_all (check_range_rule name) (constantRanges signature)))))"

section \<open>The signature of a recipe\<close>

text \<open>The sorts of one arity: the last declared sort repeats. None is the panic on an empty sort list.\<close>

definition recipe_form :: "argSort list \<Rightarrow> nat \<Rightarrow> signatureForm option" where
  "recipe_form sorts arity =
     (if sorts = [] \<and> arity > 0 then None
      else Some (fixedSignatureForm (map (\<lambda>i. sorts ! min i (length sorts - 1)) [0..<arity])))"

definition recipe_forms :: "genSpec \<Rightarrow> signatureForm list option" where
  "recipe_forms spec =
     (if maxArity spec = -1
      then if argSorts spec = [] then None
        else Some [repeatedSignatureForm (butlast (argSorts spec)) [last (argSorts spec)] []
                    (minArity spec - int (length (butlast (argSorts spec)))) (-1)]
      else those (map (\<lambda>arity. if arity < 0 then None else recipe_form (argSorts spec) (nat arity))
                      [minArity spec..maxArity spec]))"

definition signatureFromGenSpec :: "genSpec \<Rightarrow> string \<Rightarrow> functionSignature option" where
  "signatureFromGenSpec spec evidence_ref =
     map_option (\<lambda>fs. \<lparr>forms = fs, parameterForms = [fixedSignatureForm []], relations = [], constantRanges = [],
         sig_place = gen_place spec, allowBare = (gen_place spec \<noteq> placementWindow),
         allowOver = (gen_place spec = placementAggregate \<or> gen_place spec = placementWindow),
         evidence = evidence_ref\<rparr>)
       (recipe_forms spec)"

definition temporalShiftFunctions :: "(string \<times> bool) list" where
  "temporalShiftFunctions = [
     (''adddays'', False), (''subtractdays'', False), (''addweeks'', False), (''subtractweeks'', False),
     (''addmonths'', False), (''subtractmonths'', False), (''addquarters'', False), (''subtractquarters'', False),
     (''addyears'', False), (''subtractyears'', False), (''addhours'', True), (''subtracthours'', True),
     (''addminutes'', True), (''subtractminutes'', True), (''addseconds'', True), (''subtractseconds'', True)]"

definition keeps_first_type :: signatureRelation where
  "keeps_first_type = \<lparr>relation_kind = signatureRelationDefaultKeepsFirstType, relation_left = 0, relation_right = 2\<rparr>"

definition override_forms :: "string \<Rightarrow> functionSignature \<Rightarrow> functionSignature" where
  "override_forms name signature =
     (let f = fixedSignatureForm; v = argSortValue; n = argSortNumber; off = argSortOffset; i = argSortIndex;
          c = argSortConstInt; t = argSortConstString in
      if name \<in> {''array'', ''tuple'', ''cityhash64'', ''concat'', ''rank'', ''dense_rank'', ''row_number''}
      then signature\<lparr>forms := [repeatedSignatureForm [] [v] [] 0 (-1)]\<rparr>
      else if name = ''map'' then signature\<lparr>forms := [repeatedSignatureForm [] [v, v] [] 0 (-1)]\<rparr>
      else if name = ''count'' then signature\<lparr>forms := [f [], f [v]]\<rparr>
      else if name \<in> {''laginframe'', ''leadinframe''}
      then signature\<lparr>forms := [f [v], f [v, c], f [v, c, v]], relations := [keeps_first_type]\<rparr>
      else if name \<in> {''lag'', ''lead''} then signature\<lparr>relations := [keeps_first_type]\<rparr>
      else if name = ''now'' then signature\<lparr>forms := [f [], f [t]]\<rparr>
      else if name = ''today'' then signature\<lparr>forms := [f []]\<rparr>
      else if name = ''now64'' then signature\<lparr>forms := [f [], f [c], f [c, t]]\<rparr>
      else if name \<in> {''datediff'', ''date_diff''} then signature\<lparr>forms := forms signature @ [f [t, v, v, t]]\<rparr>
      else if name = ''arraysort'' then signature\<lparr>forms := [f [v], f [argSortLambda, v]]\<rparr>
      else if name = ''tostartofinterval'' then signature\<lparr>forms := [f [v, argSortInterval]]\<rparr>
      else if name = ''substring'' then signature\<lparr>forms := [f [v, off], f [v, off, off]]\<rparr>
      else if name = ''arrayslice'' then signature\<lparr>forms := [f [v, i], f [v, i, i]]\<rparr>
      else if name = ''arrayresize''
      then signature\<lparr>forms := [f [v, n], f [v, n, v]],
             relations := [\<lparr>relation_kind = signatureRelationArrayElementCommonType, relation_left = 0, relation_right = 2\<rparr>]\<rparr>
      else if name = ''arrayelement'' then signature\<lparr>forms := [f [v, i]]\<rparr>
      else if name = ''arraystringconcat'' then signature\<lparr>forms := [f [v], f [v, t]]\<rparr>
      else if name \<in> {''todatetime'', ''tostartofday'', ''tostartofhour'', ''tostartofminute''}
      then signature\<lparr>forms := [f [v], f [v, t]]\<rparr>
      else if name = ''todatetime64'' then signature\<lparr>forms := [f [v, c], f [v, c, t]]\<rparr>
      else if name \<in> {''todatetime64ornull'', ''todatetime64orzero''}
      then signature\<lparr>forms := [f [v], f [v, c], f [v, c, t]]\<rparr>
      else signature)"

definition string_contains :: "string \<Rightarrow> string \<Rightarrow> bool" where
  "string_contains s sub = list_ex (\<lambda>n. has_prefix (drop n s) sub) [0..<Suc (length s)]"

definition override_parameters :: "string \<Rightarrow> functionSignature \<Rightarrow> functionSignature" where
  "override_parameters name signature =
     (let f = fixedSignatureForm;
          ranged = (\<lambda>lo hi. [\<lparr>parameter_range = True, range_position = 0, range_minimum = lo, range_maximum = hi\<rparr>]) in
      if name \<in> {''grouparraysorted'', ''grouparraysorteddistinct'', ''grouparraysorteddistinctif''}
      then signature\<lparr>parameterForms := [f [argSortConstInt]], constantRanges := ranged 1 0xFFFFFF\<rparr>
      else if string_contains name ''quantile'' \<or> has_prefix name ''median''
      then signature\<lparr>parameterForms := [f [], f [argSortConstNumber]], constantRanges := ranged 0 1\<rparr>
      else if name \<in> {''grouparray'', ''grouparrayif'', ''groupuniqarray'', ''groupuniqarrayif'',
                     ''uniqcombined'', ''uniqcombined64''}
      then signature\<lparr>parameterForms := [f [], f [argSortConstInt]],
             constantRanges := (if name \<in> {''uniqcombined'', ''uniqcombined64''} then ranged 12 20
                                else ranged 1 (2 ^ 64))\<rparr>
      else signature)"

definition applyFunctionSignatureOverride :: "string \<Rightarrow> functionSignature \<Rightarrow> functionSignature" where
  "applyFunctionSignatureOverride name signature0 =
     (let signature1 = override_forms name signature0;
          signature2 = (if name \<in> set (map fst temporalShiftFunctions)
                        then signature1\<lparr>forms := [fixedSignatureForm [argSortValue, argSortOffset]]\<rparr> else signature1);
          signature3 = (if name \<in> {''first_value'', ''last_value'', ''first_value_respect_nulls'',
                                  ''firstvaluerespectnulls'', ''last_value_respect_nulls'', ''lastvaluerespectnulls''}
                        then signature2\<lparr>allowBare := True\<rparr> else signature2)
      in override_parameters name signature3)"

section \<open>Calls\<close>

text \<open>
  The expressions the call checks look into. \<open>ArgColumn\<close> is the shell the SQL parser puts around a
  select item, and a lambda is a binary operation with the arrow.
\<close>

datatype arg_expr = ArgNumber string | ArgString string | ArgInterval | ArgIdent string
  | ArgUnary string arg_expr | ArgBinary string arg_expr arg_expr
  | ArgParamList "arg_expr list option" | ArgColumn arg_expr | ArgOther

fun unwrapColumnExpr :: "arg_expr \<Rightarrow> arg_expr" where
  "unwrapColumnExpr (ArgColumn e) = e"
| "unwrapColumnExpr e = e"

definition ident_name :: "arg_expr \<Rightarrow> string option" where
  "ident_name item = (case unwrapColumnExpr item of ArgIdent n \<Rightarrow> Some n | _ \<Rightarrow> None)"

fun lambdaParts :: "arg_expr \<Rightarrow> (string list \<times> arg_expr) option" where
  "lambdaParts (ArgColumn e) = lambdaParts e"
| "lambdaParts (ArgBinary operation left right) =
     (if operation \<noteq> ''->'' then None
      else case left of
          ArgIdent n \<Rightarrow> Some ([n], right)
        | ArgParamList (Some items) \<Rightarrow>
            (if items = [] then None else map_option (\<lambda>names. (names, right)) (those (map ident_name items)))
        | _ \<Rightarrow> None)"
| "lambdaParts e = None"

definition isLambdaExpr :: "arg_expr \<Rightarrow> bool" where
  "isLambdaExpr e \<longleftrightarrow> lambdaParts e \<noteq> None"

fun isStarArgument :: "arg_expr \<Rightarrow> bool" where
  "isStarArgument (ArgIdent n) = (n = ''*'')"
| "isStarArgument (ArgColumn e) = isStarArgument e"
| "isStarArgument e = False"

text \<open>The arguments of one call and the cached result of inferring each of them.\<close>

record CallContext =
  call_args :: "arg_expr list"
  call_types :: "inferred list"

definition argumentType :: "CallContext \<Rightarrow> nat \<Rightarrow> inferred" where
  "argumentType call index = call_types call ! index"

definition inferred_type :: "inferred \<Rightarrow> chtype" where
  "inferred_type r = (case r of Typed t \<Rightarrow> t | _ \<Rightarrow> ty0 [])"

definition is_typed :: "inferred \<Rightarrow> bool" where
  "is_typed r = (case r of Typed _ \<Rightarrow> True | _ \<Rightarrow> False)"

subsection \<open>The registry entry of a function\<close>

datatype argumentStrategy = argsUnset | argsIndependent | argsFirstOnly | argsGeneric

datatype argumentDomainMode = argumentDomainUnknown | argumentDomainUnrestricted
  | argumentDomainRestricted | argumentDomainSpecialRoute

datatype resultRuleMode = resultRuleUnknown | resultRuleGeneric | resultRuleSpecialRoute

text \<open>The two bits of the measured facts are two fields.\<close>

record functionSpec =
  exactSpelling :: string
  spec_signature :: "functionSignature option"
  spec_rule :: "(chtype list \<Rightarrow> chtype result) option"
  spec_class :: functionWrapperClass
  strategy :: argumentStrategy
  spec_domain :: "argumentDomain option"
  domainMode :: argumentDomainMode
  domainArgs :: "nat list"
  parameterPolicy :: parameterResultPolicy
  wrapper_transport :: "wrapperTransport option"
  resultMode :: resultRuleMode
  nonPortableInputs :: "string list"
  comparesArgPair :: bool
  dynamicForcesNullable :: bool

type_synonym registry = "string \<Rightarrow> functionSpec option"

definition functionSignatureFor :: "registry \<Rightarrow> string \<Rightarrow> functionSignature option" where
  "functionSignatureFor reg name = Option.bind (reg name) spec_signature"

definition functionRuleFor :: "registry \<Rightarrow> string \<Rightarrow> (chtype list \<Rightarrow> chtype result) option" where
  "functionRuleFor reg name = Option.bind (reg name) spec_rule"

definition functionClassFor :: "registry \<Rightarrow> string \<Rightarrow> functionWrapperClass" where
  "functionClassFor reg name = (case reg name of Some spec \<Rightarrow> spec_class spec | None \<Rightarrow> wrapperClassUnset)"

definition functionStrategyFor :: "registry \<Rightarrow> string \<Rightarrow> argumentStrategy" where
  "functionStrategyFor reg name = (case reg name of Some spec \<Rightarrow> strategy spec | None \<Rightarrow> argsUnset)"

definition argumentDomainFor :: "registry \<Rightarrow> string \<Rightarrow> argumentDomain option" where
  "argumentDomainFor reg name =
     (case reg (to_lower name) of
        Some spec \<Rightarrow> (if domainMode spec = argumentDomainRestricted then spec_domain spec else None)
      | None \<Rightarrow> None)"

definition domainArgumentIndexes :: "registry \<Rightarrow> string \<Rightarrow> nat list" where
  "domainArgumentIndexes reg name = (case reg (to_lower name) of Some spec \<Rightarrow> domainArgs spec | None \<Rightarrow> [0])"

subsection \<open>Sorts\<close>

definition isLexicalInteger :: "string \<Rightarrow> bool" where
  "isLexicalInteger text =
     (let value = trim_space text;
          digits = (if value \<noteq> [] \<and> (hd value = CHR ''+'' \<or> hd value = CHR ''-'') then tl value else value)
      in digits \<noteq> [] \<and> list_all (\<lambda>c. digit_value c \<noteq> None) digits)"

definition sort_accepts :: "argSort \<Rightarrow> arg_expr \<Rightarrow> bool" where
  "sort_accepts arg_sort argument = (case arg_sort of
       argSortUnset \<Rightarrow> False
     | argSortConstString \<Rightarrow> (case argument of ArgString _ \<Rightarrow> True | _ \<Rightarrow> False)
     | argSortConstInt \<Rightarrow> (case argument of ArgNumber literal \<Rightarrow> isLexicalInteger literal | _ \<Rightarrow> False)
     | argSortConstNumber \<Rightarrow> (case argument of ArgNumber _ \<Rightarrow> True | _ \<Rightarrow> False)
     | argSortLambda \<Rightarrow> isLambdaExpr argument
     | argSortInterval \<Rightarrow> argument = ArgInterval
     | argSortTypeName \<Rightarrow> (case argument of ArgNumber _ \<Rightarrow> True | ArgString _ \<Rightarrow> True | _ \<Rightarrow> False)
     | _ \<Rightarrow> \<not> isLambdaExpr argument)"

definition sort_role :: "argSort \<Rightarrow> string" where
  "sort_role arg_sort = (case arg_sort of
       argSortConstString \<Rightarrow> ''a constant string''
     | argSortConstInt \<Rightarrow> ''a constant integer''
     | argSortConstNumber \<Rightarrow> ''a constant number''
     | argSortLambda \<Rightarrow> ''a lambda''
     | argSortTypeName \<Rightarrow> ''a constant selector''
     | argSortInterval \<Rightarrow> ''an INTERVAL expression''
     | _ \<Rightarrow> ''the required syntactic form'')"

definition checkSignatureArgumentSort :: "string \<Rightarrow> nat \<Rightarrow> argSort \<Rightarrow> arg_expr \<Rightarrow> unit result" where
  "checkSignatureArgumentSort displayName position arg_sort argument =
     (if sort_accepts arg_sort (unwrapColumnExpr argument) then Inr ()
      else Inl (Errorf ''function %s argument %d needs %s; %s''
             [displayName, itoa (int position + 1), sort_role arg_sort, pinTypeHint]))"

definition form_arity_text :: "signatureForm \<Rightarrow> string" where
  "form_arity_text form =
     (let fixed = fixed_count form; group = int (length (repeat form)) in
      if repeat form = [] then itoa fixed
      else if maxRepeats form = -1 then itoa (fixed + minRepeats form * group) @ '' or more''
      else itoa (fixed + minRepeats form * group) @ '' through '' @ itoa (fixed + maxRepeats form * group))"

definition signatureArityText :: "functionSignature \<Rightarrow> string" where
  "signatureArityText signature =
     (let arities = map form_arity_text (forms signature) in
      if arities = [''1''] then ''accepts 1 argument''
      else ''accepts these argument counts: '' @ join '', '' arities)"

definition checkSignatureConstantRanges ::
    "(string \<Rightarrow> rat option) \<Rightarrow> string \<Rightarrow> functionSignature \<Rightarrow> arg_expr list \<Rightarrow> arg_expr list \<Rightarrow> unit result" where
  "checkSignatureConstantRanges parseFloat displayName signature args parameters =
     check_all (\<lambda>valueRange.
       let operands = (if parameter_range valueRange then parameters else args);
           position = nat (range_position valueRange) in
       if position \<ge> length operands then Inr ()
       else case unwrapColumnExpr (operands ! position) of
           ArgNumber literal \<Rightarrow>
             (case parseFloat (trim_space literal) of
                Some v \<Rightarrow> (if of_int (range_minimum valueRange) \<le> v \<and> v \<le> of_int (range_maximum valueRange) then Inr ()
                  else Inl (Errorf ''function %s %s %d must be from %g through %g; %s''
                         [displayName, if parameter_range valueRange then ''parameter'' else ''argument'',
                          itoa (int position + 1), itoa (range_minimum valueRange), itoa (range_maximum valueRange), pinTypeHint]))
              | None \<Rightarrow> Inl (Errorf ''function %s %s %d must be from %g through %g; %s''
                         [displayName, if parameter_range valueRange then ''parameter'' else ''argument'',
                          itoa (int position + 1), itoa (range_minimum valueRange), itoa (range_maximum valueRange), pinTypeHint]))
         | _ \<Rightarrow> Inr ())
       (constantRanges signature)"

definition checkSignatureRelations :: "string \<Rightarrow> functionSignature \<Rightarrow> CallContext \<Rightarrow> unit result" where
  "checkSignatureRelations displayName signature call =
     check_all (\<lambda>relation.
       let count = length (call_args call); l = nat (relation_left relation); r = nat (relation_right relation) in
       if l \<ge> count \<or> r \<ge> count then Inr ()
       else bind_res (wrap_error ''function %s linked argument: %w'' [displayName] (inferred_result (argumentType call l))) (\<lambda>left.
            bind_res (wrap_error ''function %s linked argument: %w'' [displayName] (inferred_result (argumentType call r))) (\<lambda>right.
              case relation_kind relation of
                signatureRelationDefaultKeepsFirstType \<Rightarrow>
                  (case commonCHTypes [left, right] of
                     Inr common \<Rightarrow> (if to_string common = to_string left then Inr ()
                       else Inl (Errorf ''function %s default argument type %s changes the value type %s; %s''
                              [displayName, to_string right, to_string left, pinTypeHint]))
                   | Inl _ \<Rightarrow> Inl (Errorf ''function %s default argument type %s changes the value type %s; %s''
                              [displayName, to_string right, to_string left, pinTypeHint]))
              | signatureRelationArrayElementCommonType \<Rightarrow>
                  (let base = domainBaseType left in
                   if normalizedName base \<noteq> ''array'' \<or> length (Params base) \<noteq> 1 then Inr ()
                   else if is_ok (commonContainerMemberCHType [hd (Params base), right]) then Inr ()
                   else Inl (Errorf ''function %s array element and extender have no common type; %s'' [displayName, pinTypeHint]))
              | signatureRelationUnknown \<Rightarrow>
                  Inl (Errorf ''function %s has an unknown linked argument rule; %s'' [displayName, pinTypeHint]))))
       (relations signature)"

subsection \<open>Higher-order array functions\<close>

datatype higherOrderArrayResult = hofArrayOfBody | hofFirstArray | hofSumOfBody | hofBody | hofCount
  | hofPredicate | hofFirstElement | hofNullableFirstElement | hofFloat64 | hofArrayOfSum
  | hofArrayOfFirstArray | hofAccumulator

datatype higherOrderLambdaBodyDomain = hofBodyDomainAny | hofBodyDomainPredicate | hofBodyDomainSummable
  | hofBodyDomainNumericReduction

datatype higherOrderLengthPolicy = hofLengthUnknown | hofLengthEqualAtExecution

record higherOrderLambdaAccumulator =
  argumentPosition :: int
  parameterPosition :: int

record higherOrderScalarArgument =
  role :: string
  positionAfterLambda :: int

record higherOrderLambdaSignature =
  hof_spelling :: string
  hof_result :: higherOrderArrayResult
  bodyDomain :: higherOrderLambdaBodyDomain
  minimumArrays :: int
  maximumArrays :: int
  lengthPolicy :: higherOrderLengthPolicy
  allowOuterCapture :: bool
  allowNoLambda :: bool
  accumulator :: "higherOrderLambdaAccumulator option"
  scalarArgument :: "higherOrderScalarArgument option"

text \<open>What every entry of the table shares.\<close>

definition hof_entry ::
    "string \<Rightarrow> higherOrderArrayResult \<Rightarrow> higherOrderLambdaBodyDomain \<Rightarrow> bool \<Rightarrow> higherOrderLambdaSignature" where
  "hof_entry s res bodies noLambda = \<lparr>hof_spelling = s, hof_result = res, bodyDomain = bodies, minimumArrays = 1,
     maximumArrays = -1, lengthPolicy = hofLengthEqualAtExecution, allowOuterCapture = True,
     allowNoLambda = noLambda, accumulator = None, scalarArgument = None\<rparr>"

definition higherOrderArrayFunctions :: "(string \<times> higherOrderLambdaSignature) list" where
  "higherOrderArrayFunctions = [
     (''arraymap'', hof_entry ''arrayMap'' hofArrayOfBody hofBodyDomainAny False),
     (''arrayfilter'', hof_entry ''arrayFilter'' hofFirstArray hofBodyDomainPredicate False),
     (''arraysort'', hof_entry ''arraySort'' hofFirstArray hofBodyDomainAny True),
     (''arrayreversesort'', hof_entry ''arrayReverseSort'' hofFirstArray hofBodyDomainAny True),
     (''arraypartialsort'', (hof_entry ''arrayPartialSort'' hofFirstArray hofBodyDomainAny True)\<lparr>scalarArgument := Some \<lparr>role = ''limit'', positionAfterLambda = 0\<rparr>\<rparr>),
     (''arraypartialreversesort'', (hof_entry ''arrayPartialReverseSort'' hofFirstArray hofBodyDomainAny True)\<lparr>scalarArgument := Some \<lparr>role = ''limit'', positionAfterLambda = 0\<rparr>\<rparr>),
     (''arraysum'', hof_entry ''arraySum'' hofSumOfBody hofBodyDomainSummable False),
     (''arraymin'', hof_entry ''arrayMin'' hofBody hofBodyDomainAny False),
     (''arraymax'', hof_entry ''arrayMax'' hofBody hofBodyDomainAny False),
     (''arraycount'', hof_entry ''arrayCount'' hofCount hofBodyDomainPredicate False),
     (''arrayexists'', hof_entry ''arrayExists'' hofPredicate hofBodyDomainPredicate False),
     (''arrayall'', hof_entry ''arrayAll'' hofPredicate hofBodyDomainPredicate False),
     (''arrayfirst'', hof_entry ''arrayFirst'' hofFirstElement hofBodyDomainPredicate False),
     (''arrayfirstornull'', hof_entry ''arrayFirstOrNull'' hofNullableFirstElement hofBodyDomainPredicate False),
     (''arraylast'', hof_entry ''arrayLast'' hofFirstElement hofBodyDomainPredicate False),
     (''arraylastornull'', hof_entry ''arrayLastOrNull'' hofNullableFirstElement hofBodyDomainPredicate False),
     (''arrayfirstindex'', hof_entry ''arrayFirstIndex'' hofCount hofBodyDomainPredicate False),
     (''arraylastindex'', hof_entry ''arrayLastIndex'' hofCount hofBodyDomainPredicate False),
     (''arrayavg'', hof_entry ''arrayAvg'' hofFloat64 hofBodyDomainNumericReduction True),
     (''arrayproduct'', hof_entry ''arrayProduct'' hofFloat64 hofBodyDomainNumericReduction True),
     (''arraycumsum'', hof_entry ''arrayCumSum'' hofArrayOfSum hofBodyDomainSummable True),
     (''arraycumsumnonnegative'', hof_entry ''arrayCumSumNonNegative'' hofArrayOfSum hofBodyDomainSummable True),
     (''arrayfill'', hof_entry ''arrayFill'' hofFirstArray hofBodyDomainPredicate False),
     (''arrayreversefill'', hof_entry ''arrayReverseFill'' hofFirstArray hofBodyDomainPredicate False),
     (''arraysplit'', hof_entry ''arraySplit'' hofArrayOfFirstArray hofBodyDomainPredicate False),
     (''arrayreversesplit'', hof_entry ''arrayReverseSplit'' hofArrayOfFirstArray hofBodyDomainPredicate False),
     (''arrayfold'', (hof_entry ''arrayFold'' hofAccumulator hofBodyDomainAny False)\<lparr>accumulator := Some \<lparr>argumentPosition = -1, parameterPosition = 0\<rparr>\<rparr>)]"

text \<open>A value outside an enum of the source has no counterpart here, so its range tests are gone.\<close>

definition validateHigherOrderLambdaSignature :: "string \<Rightarrow> higherOrderLambdaSignature \<Rightarrow> unit result" where
  "validateHigherOrderLambdaSignature name signature =
     (if hof_spelling signature = [] \<or> to_lower (hof_spelling signature) \<noteq> name
      then Inl (Errorf ''function %s has no exact higher-order spelling'' [name])
      else if minimumArrays signature < 1
              \<or> (maximumArrays signature \<noteq> -1 \<and> maximumArrays signature < minimumArrays signature)
      then Inl (Errorf ''function %s has an invalid linked Array range'' [name])
      else if lengthPolicy signature \<noteq> hofLengthEqualAtExecution
      then Inl (Errorf ''function %s has no measured array length policy'' [name])
      else if (case accumulator signature of None \<Rightarrow> False
               | Some a \<Rightarrow> argumentPosition a < -1 \<or> parameterPosition a < 0)
      then Inl (Errorf ''function %s has an invalid accumulator link'' [name])
      else if (case scalarArgument signature of None \<Rightarrow> False
               | Some a \<Rightarrow> role a \<noteq> ''limit'' \<or> positionAfterLambda a < 0)
      then Inl (Errorf ''function %s has an invalid scalar argument link'' [name])
      else Inr ())"

text \<open>The array count of a call with a lambda, and of one without.\<close>

definition check_higher_order_call ::
    "string \<Rightarrow> string \<Rightarrow> higherOrderLambdaSignature \<Rightarrow> arg_expr list \<Rightarrow> bool \<Rightarrow> unit result" where
  "check_higher_order_call name displayName higherOrder args window =
     (if window then Inl (Errorf ''function %s cannot use an OVER clause; %s'' [displayName, pinTypeHint])
      else bind_res (validateHigherOrderLambdaSignature name higherOrder) (\<lambda>_.
        if \<not> isLambdaExpr (hd args)
        then (if length args \<noteq> (if scalarArgument higherOrder = None then 1 else 2)
              then Inl (Errorf ''function %s without a lambda needs its exact scalar arguments and one Array; %s'' [displayName, pinTypeHint])
              else Inr ())
        else let arrayCount = int (length args) - 1 - (if scalarArgument higherOrder = None then 0 else 1)
                   - (if accumulator higherOrder = None then 0 else 1) in
          if arrayCount < minimumArrays higherOrder
             \<or> (maximumArrays higherOrder \<ge> 0 \<and> arrayCount > maximumArrays higherOrder)
          then Inl (Errorf ''function %s has %d array arguments outside its measured range; %s''
                 [displayName, itoa arrayCount, pinTypeHint])
          else Inr ()))"

subsection \<open>The call check\<close>

definition checked_argument :: "string \<Rightarrow> arg_expr \<times> inferred \<Rightarrow> unit result" where
  "checked_argument displayName a = (case a of (argument, inferred) \<Rightarrow>
     if isStarArgument argument \<or> isLambdaExpr (unwrapColumnExpr argument) \<or> unwrapColumnExpr argument = ArgInterval
     then Inr ()
     else case inferred of
         OtherError err \<Rightarrow> Inl (Wrapf ''function %s argument: %w'' [displayName] err)
       | _ \<Rightarrow> Inr ())"

definition numeric_sort_valid :: "argSort \<Rightarrow> chtype \<Rightarrow> bool" where
  "numeric_sort_valid arg_sort t =
     (let base = domainBaseType t in case arg_sort of
        argSortNumber \<Rightarrow> numberValueBaseType base \<and> \<not> branchArgumentNullable t
      | argSortOffset \<Rightarrow> offsetBaseType base
      | argSortIntegerOffset \<Rightarrow> indexBaseType base
      | argSortIndex \<Rightarrow> indexBaseType base
      | _ \<Rightarrow> True)"

definition nullable_offset :: "chtype \<Rightarrow> bool" where
  "nullable_offset t =
     (let offsetType = (if normalizedName t = ''lowcardinality'' \<and> length (Params t) = 1 then hd (Params t) else t)
      in normalizedName offsetType = ''nullable'')"

definition checked_position :: "string \<Rightarrow> string \<Rightarrow> CallContext \<Rightarrow> nat \<times> argSort \<Rightarrow> unit result" where
  "checked_position name displayName call p = (case p of (position, arg_sort) \<Rightarrow>
     let argument = call_args call ! position in
     if name = ''count'' \<and> isStarArgument argument then Inr ()
     else bind_res (checkSignatureArgumentSort displayName position arg_sort argument) (\<lambda>_.
       if arg_sort \<notin> {argSortNumber, argSortOffset, argSortIntegerOffset, argSortIndex} then Inr ()
       else let t = inferred_type (argumentType call position) in
         if arg_sort = argSortIntegerOffset \<and> nullable_offset t
         then Inl (Errorf ''function %s argument %d needs a non-Nullable integer offset; %s''
                [displayName, itoa (int position + 1), pinTypeHint])
         else if \<not> is_typed (argumentType call position) \<or> \<not> numeric_sort_valid arg_sort t
         then Inl (Errorf ''function %s argument %d has an unsupported numeric type; %s''
                [displayName, itoa (int position + 1), pinTypeHint])
         else Inr ()))"

text \<open>
  The literal of a position; None when the expression is not a number. The sort check before has refused
  such an expression where the source asserts the literal (a panic there), so the branch is not reached
  with the signatures the registry holds.
\<close>

definition number_at :: "arg_expr list \<Rightarrow> nat \<Rightarrow> string option" where
  "number_at args position = (case unwrapColumnExpr (args ! position) of ArgNumber literal \<Rightarrow> Some literal | _ \<Rightarrow> None)"

text \<open>\<^verbatim>\<open>strconv.ParseUint\<close> of base ten and 64 bits.\<close>

definition parse_uint64 :: "string \<Rightarrow> int option" where
  "parse_uint64 s = (case unsigned_digits s of Some i \<Rightarrow> (if i < 2 ^ 64 then Some i else None) | None \<Rightarrow> None)"

definition check_window_offsets :: "string \<Rightarrow> string \<Rightarrow> arg_expr list \<Rightarrow> unit result" where
  "check_window_offsets name displayName args =
     (if name \<in> {''laginframe'', ''leadinframe''} \<and> length args \<ge> 2
         \<and> (case number_at args 1 of None \<Rightarrow> False
            | Some l \<Rightarrow> (case atoi (trim_space l) of None \<Rightarrow> True | Some offset \<Rightarrow> offset < 0))
      then Inl (Errorf ''function %s argument 2 needs a constant integer from 0 through 9223372036854775807; %s'' [displayName, pinTypeHint])
      else if name \<in> {''lag'', ''lead'', ''nth_value''} \<and> length args \<ge> 2
         \<and> (case number_at args 1 of None \<Rightarrow> False
            | Some l \<Rightarrow> (case atoi (trim_space l) of None \<Rightarrow> True | Some offset \<Rightarrow> offset \<le> 0))
      then Inl (Errorf ''function %s argument 2 needs a positive integer offset; %s'' [displayName, pinTypeHint])
      else if name = ''ntile'' \<and> length args = 1
         \<and> (case number_at args 0 of None \<Rightarrow> False
            | Some l \<Rightarrow> (case parse_uint64 (trim_space l) of None \<Rightarrow> True | Some v \<Rightarrow> v = 0))
      then Inl (Errorf ''function %s argument 1 needs a positive UInt64 constant; %s'' [displayName, pinTypeHint])
      else Inr ())"

text \<open>The first parameter form that takes the number of parameters, with its sorts.\<close>

definition check_parameter_forms :: "string \<Rightarrow> functionSignature \<Rightarrow> arg_expr list \<Rightarrow> error \<Rightarrow> unit result" where
  "check_parameter_forms label signature parameters refused =
     (case forms_sortsForArity (parameterForms signature) (int (length parameters)) of
        None \<Rightarrow> Inl refused
      | Some sorts \<Rightarrow> check_all (\<lambda>(position, arg_sort). checkSignatureArgumentSort label position arg_sort (parameters ! position))
                        (enumerate 0 sorts))"

definition validateFunctionCallSignature ::
    "registry \<Rightarrow> (string \<Rightarrow> rat option) \<Rightarrow> string \<Rightarrow> string \<Rightarrow> arg_expr list \<Rightarrow> CallContext \<Rightarrow> bool \<Rightarrow> unit result" where
  "validateFunctionCallSignature reg parseFloat name displayName parameters call window =
     (let args = call_args call in
      if (case reg name of Some spec \<Rightarrow> exactSpelling spec \<noteq> [] \<and> displayName \<noteq> exactSpelling spec | None \<Rightarrow> False)
      then Inl (Errorf ''function %s does not match the measured case-sensitive spelling %s; %s''
             [displayName, exactSpelling (the (reg name)), pinTypeHint])
      else case (case map_of higherOrderArrayFunctions name of
                   Some h \<Rightarrow> (if args \<noteq> [] \<and> (isLambdaExpr (hd args) \<or> allowNoLambda h) then Some h else None)
                 | None \<Rightarrow> None) of
        Some higherOrder \<Rightarrow> check_higher_order_call name displayName higherOrder args window
      | None \<Rightarrow> (case functionSignatureFor reg name of
          None \<Rightarrow> Inr ()
        | Some signature \<Rightarrow>
           (if window \<and> \<not> allowOver signature
            then Inl (Errorf ''function %s cannot use an OVER clause; %s'' [displayName, pinTypeHint])
            else if \<not> window \<and> \<not> allowBare signature
            then Inl (Errorf ''function %s needs an OVER clause; %s'' [displayName, pinTypeHint])
            else bind_res (check_all (checked_argument displayName) (zip args (call_types call))) (\<lambda>_.
              case sortsForArity signature (int (length args)) of
                None \<Rightarrow> (if name = ''map''
                   then Inl (Errorf ''function %s needs an even number of arguments, but got %d; %s''
                          [displayName, itoa (int (length args)), pinTypeHint])
                   else Inl (Errorf ''function %s rejects argument position %d: it %s; %s''
                          [displayName, itoa (int (length args) + 1), signatureArityText signature, pinTypeHint]))
              | Some sorts \<Rightarrow>
                 bind_res (check_all (checked_position name displayName call) (enumerate 0 sorts)) (\<lambda>_.
                 bind_res (check_window_offsets name displayName args) (\<lambda>_.
                 bind_res (check_parameter_forms (displayName @ '' parameter'') signature parameters
                             (Errorf ''function %s does not accept %d aggregate parameters; %s''
                                [displayName, itoa (int (length parameters)), pinTypeHint])) (\<lambda>_.
                 bind_res (checkSignatureConstantRanges parseFloat displayName signature args parameters) (\<lambda>_.
                 checkSignatureRelations displayName signature call))))))))"

end
