(* ===== verification/SignatureFacts.thy ===== *)
theory SignatureFacts
  imports Signatures
begin

text \<open>
  Arities: what a form accepts, that the representative arities are accepted and the least of them is
  the least arity of the signature, that the boundary arities are refused, and that the signatures the
  registry builder derives are well formed.
\<close>

section \<open>Forms\<close>

definition form_ok :: "signatureForm \<Rightarrow> bool" where
  "form_ok form \<longleftrightarrow>
     (repeat form = [] \<longrightarrow> minRepeats form = 0 \<and> maxRepeats form = 0) \<and>
     (repeat form \<noteq> [] \<longrightarrow> 0 \<le> minRepeats form \<and> (maxRepeats form = -1 \<or> minRepeats form \<le> maxRepeats form)) \<and>
     argSortUnset \<notin> set (form_prefix form @ repeat form @ form_suffix form)"

lemma sort_out_of_range: "s \<le> argSortUnset \<or> s > argSortTypeName \<longleftrightarrow> s = argSortUnset"
  by (cases s) (simp_all add: less_eq_argSort_def less_argSort_def sort_rank_def)

lemma unknown_sorts: "list_ex (\<lambda>s. s \<le> argSortUnset \<or> s > argSortTypeName) xs \<longleftrightarrow> argSortUnset \<in> set xs"
  by (simp only: sort_out_of_range list_ex_iff) blast

lemma check_form_iff: "check_form name form = Inr () \<longleftrightarrow> form_ok form"
  unfolding check_form_def form_ok_def unknown_sorts
  by (cases "repeat form = []"; cases "argSortUnset \<in> set (form_prefix form @ repeat form @ form_suffix form)")
     (simp_all only: simp_thms if_True if_False split: if_splits, auto)

lemma check_all_iff: "check_all f xs = Inr () \<longleftrightarrow> (\<forall>x \<in> set xs. f x = Inr ())"
  by (induction xs) auto

lemma validate_iff:
  "validateFunctionSignatureDefinition name signature = Inr () \<longleftrightarrow>
     forms signature \<noteq> [] \<and> parameterForms signature \<noteq> [] \<and> sig_place signature \<noteq> placementUnset \<and>
     (allowBare signature \<or> allowOver signature) \<and> evidence signature \<noteq> [] \<and>
     (\<forall>form \<in> set (forms signature). form_ok form) \<and> (\<forall>form \<in> set (parameterForms signature). form_ok form) \<and>
     (\<forall>relation \<in> set (relations signature). check_relation_rule name relation = Inr ()) \<and>
     (\<forall>valueRange \<in> set (constantRanges signature). check_range_rule name valueRange = Inr ())"
  by (auto simp: validateFunctionSignatureDefinition_def check_all_iff check_form_iff)

definition group_size :: "signatureForm \<Rightarrow> int" where
  "group_size form = int (length (repeat form))"

text \<open>The arities of a form: its fixed positions and an allowed number of groups.\<close>

definition form_accepts :: "signatureForm \<Rightarrow> int \<Rightarrow> bool" where
  "form_accepts form arity \<longleftrightarrow>
     (if repeat form = [] then arity = fixed_count form
      else \<exists>k. minRepeats form \<le> k \<and> (maxRepeats form = -1 \<or> k \<le> maxRepeats form)
             \<and> arity = fixed_count form + k * group_size form)"

lemma group_size_pos: "repeat form \<noteq> [] \<Longrightarrow> 0 < group_size form"
  by (simp add: group_size_def)

lemma form_sortsForArity_iff:
  assumes "form_ok form"
  shows "form_sortsForArity form arity \<noteq> None \<longleftrightarrow> form_accepts form arity"
proof (cases "repeat form = []")
  case True
  then show ?thesis by (auto simp: form_sortsForArity_def form_accepts_def)
next
  case False
  let ?g = "group_size form" and ?d = "arity - fixed_count form"
  note g = group_size_pos [OF False]
  have lo: "0 \<le> minRepeats form" using assms False by (simp add: form_ok_def)
  have "form_accepts form arity \<longleftrightarrow> 0 \<le> ?d \<and> ?d mod ?g = 0 \<and> minRepeats form \<le> ?d div ?g
      \<and> (maxRepeats form = -1 \<or> ?d div ?g \<le> maxRepeats form)"
  proof
    assume "form_accepts form arity"
    then obtain k where k: "minRepeats form \<le> k" "maxRepeats form = -1 \<or> k \<le> maxRepeats form" "?d = k * ?g"
      using False by (auto simp: form_accepts_def)
    moreover have "?d div ?g = k" using k(3) g by simp
    moreover have "0 \<le> ?d" using k(1,3) lo g by simp
    ultimately show "0 \<le> ?d \<and> ?d mod ?g = 0 \<and> minRepeats form \<le> ?d div ?g \<and> (maxRepeats form = -1 \<or> ?d div ?g \<le> maxRepeats form)"
      by simp
  next
    assume r: "0 \<le> ?d \<and> ?d mod ?g = 0 \<and> minRepeats form \<le> ?d div ?g \<and> (maxRepeats form = -1 \<or> ?d div ?g \<le> maxRepeats form)"
    then have "arity = fixed_count form + ?d div ?g * ?g"
      using div_mult_mod_eq [of ?d ?g] by simp
    with r False show "form_accepts form arity" unfolding form_accepts_def by auto
  qed
  with False show ?thesis
    by (auto simp: form_sortsForArity_def Let_def group_size_def)
qed

lemma form_sorts_length:
  assumes "form_sortsForArity form arity = Some sorts" and "form_ok form"
  shows "int (length sorts) = arity"
proof (cases "repeat form = []")
  case True
  with assms(1) show ?thesis by (auto simp: form_sortsForArity_def fixed_count_def split: if_splits)
next
  case False
  let ?k = "(arity - fixed_count form) div group_size form"
  have k: "0 \<le> minRepeats form" using assms(2) False by (simp add: form_ok_def)
  have s: "sorts = form_prefix form @ concat (replicate (nat ?k) (repeat form)) @ form_suffix form"
    "minRepeats form \<le> ?k" "(arity - fixed_count form) mod group_size form = 0"
    using assms(1) False by (auto simp: form_sortsForArity_def Let_def group_size_def split: if_splits)
  have "length (concat (replicate n xs)) = n * length xs" for n and xs :: "argSort list"
    by (induction n) auto
  then have "int (length sorts) = fixed_count form + ?k * group_size form"
    using s(1,2) k by (simp add: fixed_count_def group_size_def)
  then show ?thesis using s(3) div_mult_mod_eq [of "arity - fixed_count form" "group_size form"] by simp
qed

lemma form_accepts_least: "form_ok form \<Longrightarrow> form_accepts form arity \<Longrightarrow> least_arity form \<le> arity"
  using group_size_pos [of form]
  by (auto simp: form_accepts_def least_arity_def group_size_def [symmetric] form_ok_def split: if_splits)

lemma form_representatives_accepted: "form_ok form \<Longrightarrow> a \<in> set (form_representatives form) \<Longrightarrow> form_accepts form a"
  by (auto simp: form_accepts_def form_representatives_def least_arity_def group_size_def form_ok_def Let_def distrib_right
      intro: exI [of _ "minRepeats form"] exI [of _ "minRepeats form + 1"] split: if_splits)

section \<open>Signatures\<close>

lemma forms_sorts_iff:
  "\<forall>form \<in> set fs. form_ok form \<Longrightarrow>
   forms_sortsForArity fs arity \<noteq> None \<longleftrightarrow> (\<exists>form \<in> set fs. form_accepts form arity)"
  by (induction fs) (auto simp: form_sortsForArity_iff [symmetric] split: option.splits)

lemma forms_sorts_from: "forms_sortsForArity fs arity = Some sorts \<Longrightarrow> \<exists>form \<in> set fs. form_sortsForArity form arity = Some sorts"
  by (induction fs) (auto split: option.splits)

lemma set_representatives: "set (representativeArities signature) = (\<Union>form \<in> set (forms signature). set (form_representatives form))"
  by (simp add: representativeArities_def)

lemma representatives_nonempty: "forms signature \<noteq> [] \<Longrightarrow> representativeArities signature \<noteq> []"
  using set_representatives [of signature] by (cases "forms signature") (auto simp: form_representatives_def Let_def)

lemma sorted_hd_last: "sorted xs \<Longrightarrow> a \<in> set xs \<Longrightarrow> hd xs \<le> a \<and> a \<le> last xs"
  by (induction xs) (auto split: if_splits)

lemma representatives_bounds:
  assumes "a \<in> set (representativeArities signature)"
  shows "hd (representativeArities signature) \<le> a" "a \<le> last (representativeArities signature)"
  using assms sorted_hd_last [of "representativeArities signature" a] by (simp_all add: representativeArities_def)

lemma least_in_representatives: "form \<in> set (forms signature) \<Longrightarrow> least_arity form \<in> set (representativeArities signature)"
  unfolding set_representatives by (auto simp: form_representatives_def Let_def intro!: bexI [of _ form])

lemma sortsForArity_iff:
  assumes "validateFunctionSignatureDefinition name signature = Inr ()"
  shows "sortsForArity signature arity \<noteq> None \<longleftrightarrow> (\<exists>form \<in> set (forms signature). form_accepts form arity)"
  using assms by (simp add: sortsForArity_def validate_iff forms_sorts_iff del: not_None_eq)

lemma accepted_arity_at_least:
  assumes "validateFunctionSignatureDefinition name signature = Inr ()" and "sortsForArity signature arity \<noteq> None"
  shows "hd (representativeArities signature) \<le> arity"
proof -
  from assms sortsForArity_iff obtain form where f: "form \<in> set (forms signature)" "form_accepts form arity" by blast
  moreover have "form_ok form" using assms(1) f(1) by (simp add: validate_iff)
  ultimately show ?thesis
    using form_accepts_least representatives_bounds(1) [OF least_in_representatives] by (meson order_trans)
qed

text \<open>No bounded group may repeat more than one time above its minimum.\<close>

definition narrow_groups :: "functionSignature \<Rightarrow> bool" where
  "narrow_groups signature \<longleftrightarrow>
     (\<forall>form \<in> set (forms signature). repeat form = [] \<or> maxRepeats form = -1 \<or> maxRepeats form \<le> minRepeats form + 1)"

lemma raise_maximum_ge: "m \<le> fold (raise_maximum signature) fs m"
proof (induction fs arbitrary: m)
  case (Cons f fs)
  have "m \<le> raise_maximum signature f m" by (simp add: raise_maximum_def Let_def)
  also have "\<dots> \<le> fold (raise_maximum signature) fs (raise_maximum signature f m)" by (rule Cons.IH)
  finally show ?case by simp
qed simp

lemma bounded_arity_at_most:
  assumes "form_ok form" and "form_accepts form arity"
    and "repeat form = [] \<or> maxRepeats form \<noteq> -1 \<and> maxRepeats form \<le> minRepeats form + 1"
  shows "arity \<in> set (form_representatives form)"
proof (cases "repeat form = []")
  case True
  with assms(2) show ?thesis by (simp add: form_accepts_def form_representatives_def least_arity_def Let_def)
next
  case False
  with assms obtain k where k: "minRepeats form \<le> k" "k \<le> maxRepeats form" "arity = fixed_count form + k * group_size form"
    "maxRepeats form \<le> minRepeats form + 1" by (auto simp: form_accepts_def)
  then consider "k = minRepeats form" | "k = minRepeats form + 1" "maxRepeats form > minRepeats form" by linarith
  then show ?thesis
    by cases (use False k(3) in \<open>auto simp: form_representatives_def least_arity_def group_size_def Let_def distrib_right\<close>)
qed

lemma above_maximum_refused:
  assumes valid: "validateFunctionSignatureDefinition name signature = Inr ()" and "narrow_groups signature"
    and "\<not> has_unbounded_form signature" and "last (representativeArities signature) < arity"
  shows "sortsForArity signature arity = None"
proof (rule ccontr)
  assume "sortsForArity signature arity \<noteq> None"
  with valid sortsForArity_iff obtain form where f: "form \<in> set (forms signature)" "form_accepts form arity" by blast
  have "repeat form = [] \<or> maxRepeats form \<noteq> -1 \<and> maxRepeats form \<le> minRepeats form + 1"
    using assms(2,3) f(1) by (auto simp: narrow_groups_def has_unbounded_form_def list_ex_iff)
  with f(2) have "arity \<in> set (form_representatives form)"
    using valid f(1) by (intro bounded_arity_at_most) (auto simp: validate_iff)
  with f(1) have "arity \<in> set (representativeArities signature)" by (auto simp: set_representatives)
  with representatives_bounds(2) assms(4) show False by fastforce
qed

lemma rejected_boundary_cases:
  assumes "a \<in> set (rejectedBoundaryArities signature)" and "representativeArities signature \<noteq> []"
  shows "a = hd (representativeArities signature) - 1 \<or> sortsForArity signature a = None \<or>
     \<not> has_unbounded_form signature \<and>
     a = fold (raise_maximum signature) (forms signature) (last (representativeArities signature)) + 1"
proof -
  obtain m ms where r: "representativeArities signature = m # ms" using assms(2) by (cases "representativeArities signature") auto
  show ?thesis
    using assms(1) unfolding rejectedBoundaryArities_def r list.case Let_def set_sorted_list_of_set [OF finite_set]
    by (auto split: if_splits)
qed

section \<open>Derived signatures\<close>

lemma form_ok_fixed [simp]: "form_ok (fixedSignatureForm sorts) \<longleftrightarrow> argSortUnset \<notin> set sorts"
  by (simp add: form_ok_def fixedSignatureForm_def)

lemma form_ok_repeated [simp]:
  "form_ok (repeatedSignatureForm p r s lo (-1)) \<longleftrightarrow>
     (r = [] \<longrightarrow> False) \<and> 0 \<le> lo \<and> argSortUnset \<notin> set (p @ r @ s)"
  by (auto simp: form_ok_def repeatedSignatureForm_def)

abbreviation signature_ok :: "string \<Rightarrow> functionSignature \<Rightarrow> bool" where
  "signature_ok name signature \<equiv> validateFunctionSignatureDefinition name signature = Inr ()"

lemma keeps_first_ok [simp]: "check_relation_rule name keeps_first_type = Inr ()"
  by (simp add: check_relation_rule_def keeps_first_type_def)

named_theorems signature_intros \<open>updates that keep a signature well formed\<close>

lemma ok_if [signature_intros]: "signature_ok n a \<Longrightarrow> signature_ok n b \<Longrightarrow> signature_ok n (if c then a else b)"
  by simp

lemma ok_forms [signature_intros]:
  "signature_ok n s \<Longrightarrow> fs \<noteq> [] \<Longrightarrow> \<forall>form \<in> set fs. form_ok form \<Longrightarrow> signature_ok n (s\<lparr>forms := fs\<rparr>)"
  by (simp add: validate_iff)

lemma ok_append_form [signature_intros]:
  "signature_ok n s \<Longrightarrow> form_ok form \<Longrightarrow> signature_ok n (s\<lparr>forms := forms s @ [form]\<rparr>)"
  by (auto simp: validate_iff)

lemma ok_relation [signature_intros]:
  "signature_ok n s \<Longrightarrow> check_relation_rule n relation = Inr () \<Longrightarrow> signature_ok n (s\<lparr>relations := [relation]\<rparr>)"
  by (simp add: validate_iff)

lemma ok_bare [signature_intros]: "signature_ok n s \<Longrightarrow> signature_ok n (s\<lparr>allowBare := True\<rparr>)"
  by (simp add: validate_iff)

lemma ok_parameters [signature_intros]:
  "signature_ok n s \<Longrightarrow> fs \<noteq> [] \<Longrightarrow> \<forall>form \<in> set fs. form_ok form \<Longrightarrow>
   \<forall>r \<in> set rs. check_range_rule n r = Inr () \<Longrightarrow> signature_ok n (s\<lparr>parameterForms := fs, constantRanges := rs\<rparr>)"
  by (simp add: validate_iff)

lemma override_forms_valid: "signature_ok n s \<Longrightarrow> signature_ok n (override_forms name s)"
  unfolding override_forms_def Let_def
  by (intro signature_intros) (simp_all add: check_relation_rule_def keeps_first_type_def validate_iff)

lemma override_parameters_valid: "signature_ok n s \<Longrightarrow> signature_ok n (override_parameters name s)"
  unfolding override_parameters_def Let_def
  by (intro signature_intros) (simp_all add: check_range_rule_def)

lemma override_valid: "signature_ok n s \<Longrightarrow> signature_ok n (applyFunctionSignatureOverride name s)"
  unfolding applyFunctionSignatureOverride_def Let_def
  by (intro override_parameters_valid signature_intros override_forms_valid) simp_all

definition recipe_ok :: "genSpec \<Rightarrow> bool" where
  "recipe_ok spec \<longleftrightarrow> argSorts spec \<noteq> [] \<and> argSortUnset \<notin> set (argSorts spec) \<and> gen_place spec \<noteq> placementUnset \<and>
     (if maxArity spec = -1 then int (length (argSorts spec) - 1) \<le> minArity spec
      else 0 \<le> minArity spec \<and> minArity spec \<le> maxArity spec)"

lemma those_map_Some: "\<forall>x \<in> set xs. f x \<noteq> None \<Longrightarrow> those (map f xs) = Some (map (\<lambda>x. the (f x)) xs)"
  by (induction xs) auto

lemma recipe_forms_ok:
  assumes "recipe_ok spec"
  obtains fs where "recipe_forms spec = Some fs" "fs \<noteq> []" "\<forall>form \<in> set fs. form_ok form"
proof (cases "maxArity spec = -1")
  case True
  with assms that show ?thesis
    by (auto simp: recipe_forms_def recipe_ok_def dest: in_set_butlastD)
next
  case False
  define g where "g = (\<lambda>arity. if arity < 0 then None else recipe_form (argSorts spec) (nat arity))"
  have g: "g a \<noteq> None \<and> form_ok (the (g a))" if "a \<in> set [minArity spec..maxArity spec]" for a
  proof -
    have "argSorts spec ! min i (length (argSorts spec) - 1) \<in> set (argSorts spec)" for i
      using assms by (intro nth_mem) (cases "argSorts spec"; simp add: recipe_ok_def)
    then have "argSortUnset \<noteq> argSorts spec ! min i (length (argSorts spec) - 1)" for i
      using assms unfolding recipe_ok_def by metis
    then show ?thesis using that assms False by (auto simp: g_def recipe_form_def recipe_ok_def)
  qed
  have "recipe_forms spec = Some (map (\<lambda>a. the (g a)) [minArity spec..maxArity spec])"
    using False g by (simp add: recipe_forms_def g_def [symmetric] those_map_Some)
  moreover have "[minArity spec..maxArity spec] \<noteq> []" using assms False by (simp add: recipe_ok_def)
  ultimately show ?thesis using that g by simp
qed

section \<open>Properties\<close>



text \<open>
  The boundary set is not right for a wider bounded group: with one to three repeats it asks for three
  arguments to be refused, and the signature accepts them.
\<close>

lemma wide_bounded_group_boundary:
  fixes signature :: functionSignature
  defines "signature \<equiv> \<lparr>forms = [repeatedSignatureForm [] [argSortValue] [] 1 3], parameterForms = [fixedSignatureForm []],
      relations = [], constantRanges = [], sig_place = placementScalar, allowBare = True, allowOver = False, evidence = ''m''\<rparr>"
  shows "validateFunctionSignatureDefinition name signature = Inr ()"
    and "3 \<in> set (rejectedBoundaryArities signature)" and "sortsForArity signature 3 \<noteq> None"
  unfolding signature_def by code_simp+

text \<open>
  C32. The registry builder derives well-formed signatures: from a well-formed generator recipe and
  measurement evidence the derivation does not panic, and the measured overrides of a name keep every
  condition the definition check asks for.
\<close>

theorem derived_signatures_well_formed:
  assumes "recipe_ok spec" and "evidence_ref \<noteq> []"
  shows "\<exists>signature. signatureFromGenSpec spec evidence_ref = Some signature \<and>
    validateFunctionSignatureDefinition name (applyFunctionSignatureOverride name signature) = Inr ()"
proof -
  obtain fs where fs: "recipe_forms spec = Some fs" "fs \<noteq> []" "\<forall>form \<in> set fs. form_ok form"
    by (rule recipe_forms_ok [OF assms(1)])
  then obtain signature where s: "signatureFromGenSpec spec evidence_ref = Some signature" "signature_ok name signature"
    using assms by (cases "gen_place spec") (auto simp: signatureFromGenSpec_def validate_iff recipe_ok_def)
  from override_valid [OF s(2)] s(1) show ?thesis by blast
qed

theorem derived_signatures_well_formed_witness:
  "\<exists>signature. signatureFromGenSpec (aggregateCall ''uniqCombined'' 1) ''m'' = Some signature \<and>
    validateFunctionSignatureDefinition ''uniqcombined'' (applyFunctionSignatureOverride ''uniqcombined'' signature) = Inr ()"
proof -
  have "recipe_ok (aggregateCall ''uniqCombined'' 1)" by code_simp
  from derived_signatures_well_formed [OF this, of "''m''"] show ?thesis by simp
qed

end
