(* ===== verification/Combinators.thy ===== *)
theory Combinators
  imports Signatures
begin

text \<open>
  The aggregate function combinators of \<^verbatim>\<open>aggregate_combinator.go\<close>: the primitives and the
  measured chains, the argument plan of a chain, the parser that splits a function name into a base
  aggregate and a chain, the validation of a combinator call with its Resample parameters, and the
  result type of every chain. The function registry is the parameter \<open>reg\<close>.
\<close>

section \<open>Primitives, chains and plans\<close>

datatype aggregatePrimitive =
    PrimitiveArgMax | PrimitiveArgMin | PrimitiveArray | PrimitiveDistinct | PrimitiveForEach
  | PrimitiveIf | PrimitiveMap | PrimitiveMerge | PrimitiveNull | PrimitiveOrDefault
  | PrimitiveOrNull | PrimitiveResample | PrimitiveSimpleState | PrimitiveState

record aggregatePrimitiveSpec =
  primitive :: aggregatePrimitive
  primitive_text :: string
  isInternal :: bool

definition aggregatePrimitiveCatalog :: "aggregatePrimitiveSpec list" where
  "aggregatePrimitiveCatalog = [
     \<lparr>primitive = PrimitiveSimpleState, primitive_text = ''SimpleState'', isInternal = False\<rparr>,
     \<lparr>primitive = PrimitiveOrDefault, primitive_text = ''OrDefault'', isInternal = False\<rparr>,
     \<lparr>primitive = PrimitiveDistinct, primitive_text = ''Distinct'', isInternal = False\<rparr>,
     \<lparr>primitive = PrimitiveResample, primitive_text = ''Resample'', isInternal = False\<rparr>,
     \<lparr>primitive = PrimitiveForEach, primitive_text = ''ForEach'', isInternal = False\<rparr>,
     \<lparr>primitive = PrimitiveArgMax, primitive_text = ''ArgMax'', isInternal = False\<rparr>,
     \<lparr>primitive = PrimitiveArgMin, primitive_text = ''ArgMin'', isInternal = False\<rparr>,
     \<lparr>primitive = PrimitiveOrNull, primitive_text = ''OrNull'', isInternal = False\<rparr>,
     \<lparr>primitive = PrimitiveMerge, primitive_text = ''Merge'', isInternal = False\<rparr>,
     \<lparr>primitive = PrimitiveState, primitive_text = ''State'', isInternal = False\<rparr>,
     \<lparr>primitive = PrimitiveArray, primitive_text = ''Array'', isInternal = False\<rparr>,
     \<lparr>primitive = PrimitiveNull, primitive_text = ''Null'', isInternal = True\<rparr>,
     \<lparr>primitive = PrimitiveMap, primitive_text = ''Map'', isInternal = False\<rparr>,
     \<lparr>primitive = PrimitiveIf, primitive_text = ''If'', isInternal = False\<rparr>]"

record aggregateArgumentPlan =
  conditionArgument :: bool
  arrayDataArguments :: bool
  resampleKeyArgument :: bool
  stateArgument :: bool
  stateHasCondition :: bool
  stateStoresCondition :: bool
  dropsTopLevelNullable :: bool
  buildsAggregateState :: bool
  returnsAggregateState :: bool
  simpleStateResult :: bool
  orNullResult :: bool

record aggregateCombinator =
  primitives :: "aggregatePrimitive list"
  plan :: aggregateArgumentPlan
  chain_suffix :: string

datatype aggregateChainParseStatus =
  aggregateChainNotFound | aggregateChainUnsupported | aggregateChainSupported

definition measuredAggregatePrimitiveChains :: "aggregatePrimitive list list" where
  "measuredAggregatePrimitiveChains = [
     [PrimitiveSimpleState],
     [PrimitiveState, PrimitiveIf],
     [PrimitiveIf, PrimitiveState],
     [PrimitiveIf, PrimitiveMerge, PrimitiveState],
     [PrimitiveIf, PrimitiveMerge],
     [PrimitiveState, PrimitiveOrNull],
     [PrimitiveMerge, PrimitiveState],
     [PrimitiveState],
     [PrimitiveMerge],
     [PrimitiveOrNull],
     [PrimitiveOrDefault],
     [PrimitiveResample, PrimitiveIf],
     [PrimitiveResample],
     [PrimitiveArray, PrimitiveIf],
     [PrimitiveArray],
     [PrimitiveIf, PrimitiveOrNull],
     [PrimitiveIf, PrimitiveOrDefault],
     [PrimitiveIf]]"

text \<open>The last position of a primitive in a chain, -1 when it does not occur.\<close>

fun primitive_index :: "'a \<Rightarrow> int \<Rightarrow> 'a list \<Rightarrow> int \<Rightarrow> int" where
  "primitive_index x i [] found = found"
| "primitive_index x i (y # ys) found = primitive_index x (i + 1) ys (if x = y then i else found)"

definition aggregatePlanForPrimitives :: "aggregatePrimitive list \<Rightarrow> aggregateArgumentPlan" where
  "aggregatePlanForPrimitives ps =
     (let mergeIndex = primitive_index PrimitiveMerge 0 ps (-1);
          stateIndex = primitive_index PrimitiveState 0 ps (-1);
          ifIndex = primitive_index PrimitiveIf 0 ps (-1) in
      \<lparr>conditionArgument = (ifIndex \<ge> 0 \<and> mergeIndex < 0),
       arrayDataArguments = (PrimitiveArray \<in> set ps),
       resampleKeyArgument = (PrimitiveResample \<in> set ps),
       stateArgument = (PrimitiveMerge \<in> set ps),
       stateHasCondition = (ifIndex \<ge> 0 \<and> mergeIndex \<ge> 0 \<and> ifIndex < mergeIndex),
       stateStoresCondition = (ifIndex \<ge> 0 \<and> stateIndex \<ge> 0 \<and> mergeIndex < 0 \<and> ifIndex < stateIndex),
       dropsTopLevelNullable = (stateIndex \<ge> 0 \<and> ifIndex > stateIndex),
       buildsAggregateState = (stateIndex \<ge> 0 \<and> mergeIndex < 0),
       returnsAggregateState = (PrimitiveState \<in> set ps),
       simpleStateResult = (PrimitiveSimpleState \<in> set ps),
       orNullResult = (PrimitiveOrNull \<in> set ps)\<rparr>)"

definition aggregatePrimitiveSpelling :: "aggregatePrimitive \<Rightarrow> string" where
  "aggregatePrimitiveSpelling p =
     (case find (\<lambda>spec. primitive spec = p) aggregatePrimitiveCatalog of
        Some spec \<Rightarrow> primitive_text spec | None \<Rightarrow> [])"

definition aggregatePrimitiveChainSuffix :: "aggregatePrimitive list \<Rightarrow> string" where
  "aggregatePrimitiveChainSuffix ps = concat (map (\<lambda>p. to_lower (aggregatePrimitiveSpelling p)) ps)"

definition buildMeasuredAggregateCombinators :: "aggregateCombinator list" where
  "buildMeasuredAggregateCombinators =
     map (\<lambda>ps. \<lparr>primitives = ps, plan = aggregatePlanForPrimitives ps,
                chain_suffix = aggregatePrimitiveChainSuffix ps\<rparr>) measuredAggregatePrimitiveChains"

abbreviation aggregateCombinators :: "aggregateCombinator list" where
  "aggregateCombinators \<equiv> buildMeasuredAggregateCombinators"

definition validateAggregateArgumentPlan :: "aggregateCombinator \<Rightarrow> unit result" where
  "validateAggregateArgumentPlan combinator =
     (if plan combinator \<noteq> aggregatePlanForPrimitives (primitives combinator)
      then Inl (Errorf ''aggregate combinator chain %s has argument plan %+v, want %+v'' [chain_suffix combinator])
      else Inr ())"

section \<open>Names\<close>

definition aggregateBaseNames :: "string list" where
  "aggregateBaseNames = [
     ''sum'', ''min'', ''max'', ''any'', ''anylast'', ''avg'',
     ''argmin'', ''argmax'', ''count'', ''uniq'', ''uniqexact'', ''uniqcombined'',
     ''quantile'', ''median'', ''grouparray'', ''groupuniqarray'', ''grouparraysorted'',
     ''groupbitand'', ''groupbitor'', ''groupbitxor'']"

definition isCombinableBaseAggregate :: "string \<Rightarrow> bool" where
  "isCombinableBaseAggregate name \<longleftrightarrow> name \<in> set aggregateBaseNames"

text \<open>The first row of the catalog whose lower-case spelling starts the text.\<close>

definition leading_primitive :: "string \<Rightarrow> aggregatePrimitiveSpec option" where
  "leading_primitive text = find (\<lambda>spec. has_prefix text (to_lower (primitive_text spec))) aggregatePrimitiveCatalog"

lemma leading_primitive_shrinks:
  "leading_primitive text = Some spec \<Longrightarrow> text \<noteq> [] \<Longrightarrow> length text - length (primitive_text spec) < length text"
  by (auto simp: leading_primitive_def find_Some_iff aggregatePrimitiveCatalog_def nth_Cons' split: if_splits)

function primitives_of :: "string \<Rightarrow> aggregatePrimitive list option" where
  "primitives_of text =
     (if text = [] then Some []
      else case leading_primitive text of
          None \<Rightarrow> None
        | Some spec \<Rightarrow> map_option ((#) (primitive spec)) (primitives_of (drop (length (primitive_text spec)) text)))"
  by pat_completeness auto
termination
  by (relation "measure length") (auto simp: leading_primitive_shrinks)

declare primitives_of.simps [simp del]

definition parseAggregatePrimitiveSuffix :: "string \<Rightarrow> aggregatePrimitive list option" where
  "parseAggregatePrimitiveSuffix text =
     (case primitives_of text of Some [] \<Rightarrow> None | result \<Rightarrow> result)"

text \<open>The bases from the longest to the shortest; two bases of one length are never both a prefix of a name.\<close>

definition ordered_bases :: "string list" where
  "ordered_bases = sort_key (\<lambda>base. - int (length base)) aggregateBaseNames"

definition base_and_chain :: "string \<Rightarrow> string \<Rightarrow> (string \<times> aggregatePrimitive list) option" where
  "base_and_chain name base =
     (if \<not> has_prefix name base \<or> length name = length base then None
      else map_option (Pair base) (parseAggregatePrimitiveSuffix (drop (length base) name)))"

fun first_some :: "('a \<Rightarrow> 'b option) \<Rightarrow> 'a list \<Rightarrow> 'b option" where
  "first_some f [] = None"
| "first_some f (x # xs) = (case f x of Some y \<Rightarrow> Some y | None \<Rightarrow> first_some f xs)"

definition no_combinator :: aggregateCombinator where
  "no_combinator = \<lparr>primitives = [], plan = aggregatePlanForPrimitives [], chain_suffix = []\<rparr>"

definition parseAggregateCombinatorChain ::
    "string \<Rightarrow> string \<times> aggregateCombinator \<times> aggregateChainParseStatus" where
  "parseAggregateCombinatorChain name =
     (case first_some (base_and_chain (to_lower name)) ordered_bases of
        None \<Rightarrow> ([], no_combinator, aggregateChainNotFound)
      | Some (base, ps) \<Rightarrow>
         (let suf = aggregatePrimitiveChainSuffix ps in
          case find (\<lambda>combinator. chain_suffix combinator = suf) aggregateCombinators of
            Some combinator \<Rightarrow> (base, combinator, aggregateChainSupported)
          | None \<Rightarrow> (base, \<lparr>primitives = ps, plan = aggregatePlanForPrimitives ps, chain_suffix = suf\<rparr>,
                     aggregateChainUnsupported)))"

definition splitAggregateCombinator :: "string \<Rightarrow> (string \<times> aggregateCombinator) option" where
  "splitAggregateCombinator name =
     (case parseAggregateCombinatorChain name of (base, combinator, status) \<Rightarrow>
        if status = aggregateChainSupported then Some (base, combinator) else None)"

text \<open>The name that ClickHouse prints inside an AggregateFunction type.\<close>

definition baseAggregateDisplayName :: "string \<Rightarrow> string" where
  "baseAggregateDisplayName base =
     (case map_of [(''median'', ''quantile''), (''anylast'', ''anyLast''), (''argmin'', ''argMin''),
         (''argmax'', ''argMax''), (''uniqexact'', ''uniqExact''), (''uniqcombined'', ''uniqCombined''),
         (''grouparray'', ''groupArray''), (''grouparraysorted'', ''groupArraySorted''),
         (''groupuniqarray'', ''groupUniqArray''), (''groupbitand'', ''groupBitAnd''),
         (''groupbitor'', ''groupBitOr''), (''groupbitxor'', ''groupBitXor'')] base of
        Some shown \<Rightarrow> shown | None \<Rightarrow> base)"

definition simpleStateSupportedBases :: "string list" where
  "simpleStateSupportedBases = [''any'', ''anylast'', ''min'', ''max'', ''sum'',
     ''groupbitand'', ''groupbitor'', ''groupbitxor'']"

definition stateOrNullSupportedBases :: "string list" where
  "stateOrNullSupportedBases = [''sum'', ''min'', ''max'', ''any'', ''anylast'', ''avg'', ''argmin'', ''argmax'',
     ''uniqcombined'', ''quantile'', ''median'', ''groupbitand'', ''groupbitor'', ''groupbitxor'']"

section \<open>The call\<close>

text \<open>
  What the typing of a combinator call reads of the syntax tree: the function name as it is written,
  the parameter expressions and their formatted literals (a call such as quantileState(0.5)(x)), the
  arguments with the cached result of inferring each of them, and the CASE expression that the first
  argument is, if it is one.
\<close>

record case_when =
  when_truth :: "bool option option"
  then_type :: "inferred option"

record case_shape =
  case_operand :: bool
  case_else :: bool
  case_whens :: "case_when list"

record combinator_call =
  function_name :: string
  parameter_literals :: "string list"
  parameter_args :: "arg_expr list"
  context_of :: CallContext
  first_case :: "case_shape option"

text \<open>
  A CASE without ELSE that takes one Nullable branch on every row. \<open>when_truth\<close> is None for a missing
  condition, and inside it None for a condition that is not constant.
\<close>

definition simpleStateCaseKeepsInheritedNullable :: "case_shape \<Rightarrow> bool" where
  "simpleStateCaseKeepsInheritedNullable c =
     (if case_operand c \<or> case_else c then False
      else case case_whens c of
          [branch] \<Rightarrow>
            (case (when_truth branch, then_type branch) of
               (Some (Some True), Some (Typed branchType)) \<Rightarrow> nullable_of branchType
             | _ \<Rightarrow> False)
        | _ \<Rightarrow> False)"

section \<open>The condition of -If\<close>

definition checkIfCombinatorCondition :: "string \<Rightarrow> CallContext \<Rightarrow> nat \<Rightarrow> unit result" where
  "checkIfCombinatorCondition functionName call index =
     (case argumentType call index of
        PlaceholderError _ \<Rightarrow> Inr ()
      | OtherError err \<Rightarrow> Inl (Wrapf ''function %s condition: %w'' [functionName] err)
      | Typed inferred_ty \<Rightarrow>
          (if equal_fold (Name (base_of inferred_ty)) ''UInt8'' \<or> equal_fold (Name (base_of inferred_ty)) ''Bool''
           then Inr ()
           else Inl (Errorf ''function %s takes the last argument as the -If condition, and the server needs a UInt8 there, but the argument is %s; %s''
                  [functionName, to_string inferred_ty, pinTypeHint])))"

definition ifConditionExemptNames :: "string list" where
  "ifConditionExemptNames = [''nullif'']"

definition checkIfCombinatorConditionArg :: "string \<Rightarrow> string \<Rightarrow> CallContext \<Rightarrow> unit result" where
  "checkIfCombinatorConditionArg name spelledName call =
     (let count = length (call_args call) in
      if name \<in> set ifConditionExemptNames then Inr ()
      else if name = ''countif''
      then (if count \<noteq> 1 then Inr () else checkIfCombinatorCondition spelledName call 0)
      else if count < 2 then Inr ()
      else if \<not> has_suffix name ''if'' \<and> \<not> has_suffix name ''ifstate''
              \<and> \<not> has_suffix name ''ifornull'' \<and> \<not> has_suffix name ''ifordefault''
      then Inr ()
      else if has_suffix name ''ifmerge'' \<or> has_suffix name ''ifmergestate'' then Inr ()
      else checkIfCombinatorCondition spelledName call (count - 1))"

section \<open>Validation of a call\<close>

definition validateBaseAggregateArity :: "registry \<Rightarrow> string \<Rightarrow> string \<Rightarrow> int \<Rightarrow> unit result" where
  "validateBaseAggregateArity reg base displayName arity =
     (case functionSignatureFor reg base of
        None \<Rightarrow> Inl (Errorf ''aggregate %s has no executable base signature; %s'' [displayName, pinTypeHint])
      | Some signature \<Rightarrow>
          (if sortsForArity signature arity \<noteq> None then Inr ()
           else Inl (Errorf ''function %s base aggregate rejects %d data arguments: it %s; %s''
                  [displayName, itoa arity, signatureArityText signature, pinTypeHint])))"

definition signedIntegerConstant :: "arg_expr \<Rightarrow> int option" where
  "signedIntegerConstant expression =
     (let number = (\<lambda>negative e. case e of
            ArgNumber literal \<Rightarrow>
              (if list_ex (\<lambda>c. c \<in> set ''.eE'') literal then None
               else let text = trim_space literal in atoi (if negative then CHR ''-'' # text else text))
          | _ \<Rightarrow> None) in
      case unwrapColumnExpr expression of
        ArgUnary operator inner \<Rightarrow>
          (if trim_space operator \<noteq> ''-'' then None else number True (unwrapColumnExpr inner))
      | e \<Rightarrow> number False e)"

text \<open>The number of buckets of a range, in the unsigned 64-bit arithmetic of the source.\<close>

definition resample_buckets :: "int \<Rightarrow> int \<Rightarrow> int \<Rightarrow> 64 word" where
  "resample_buckets start stop step =
     (let distance = (word_of_int stop :: 64 word) - word_of_int start;
          width = (word_of_int step :: 64 word);
          buckets = distance div width
      in if distance mod width \<noteq> 0 then buckets + 1 else buckets)"

definition checkResampleParameters :: "string \<Rightarrow> arg_expr list \<Rightarrow> unit result" where
  "checkResampleParameters displayName ps =
     bind_res (map_res (\<lambda>(index, parameter). case signedIntegerConstant parameter of
         Some v \<Rightarrow> Inr v
       | None \<Rightarrow> Inl (Errorf ''function %s Resample parameter %d must be a signed 64-bit integer constant; %s''
                   [displayName, itoa (int index + 1), pinTypeHint])) (enumerate 0 ps)) (\<lambda>bounds.
       if bounds ! 2 \<le> 0 then Inl (Errorf ''function %s Resample step must be positive; %s'' [displayName, pinTypeHint])
       else if bounds ! 1 > bounds ! 0 \<and> resample_buckets (bounds ! 0) (bounds ! 1) (bounds ! 2) > 1048576
       then Inl (Errorf ''function %s Resample range has %d buckets, above the measured limit 1048576; %s''
              [displayName, itoa (uint (resample_buckets (bounds ! 0) (bounds ! 1) (bounds ! 2))), pinTypeHint])
       else Inr ())"

definition validateAggregateCombinatorParameters ::
    "registry \<Rightarrow> (string \<Rightarrow> rat option) \<Rightarrow> string \<Rightarrow> aggregateCombinator \<Rightarrow> combinator_call \<Rightarrow> unit result" where
  "validateAggregateCombinatorParameters reg parseFloat base combinator f =
     (case functionSignatureFor reg base of
        None \<Rightarrow> Inl (Errorf ''aggregate %s has no executable base signature; %s'' [function_name f, pinTypeHint])
      | Some signature \<Rightarrow>
          (let parameters = parameter_args f; split_at = length parameters - 3;
               resample = resampleKeyArgument (plan combinator);
               baseParameters = (if resample then take split_at parameters else parameters) in
           bind_res
             (if \<not> resample then Inr ()
              else if length parameters < 3
              then Inl (Errorf ''function %s needs three trailing Resample parameters; %s'' [function_name f, pinTypeHint])
              else checkResampleParameters (function_name f) (drop split_at parameters)) (\<lambda>_.
           bind_res (check_parameter_forms (function_name f @ '' parameter'') signature baseParameters
               (Errorf ''function %s base aggregate rejects %d parameters; %s''
                  [function_name f, itoa (int (length baseParameters)), pinTypeHint])) (\<lambda>_.
           checkSignatureConstantRanges parseFloat (function_name f) signature [] baseParameters))))"

definition resampleKeyType :: "chtype \<Rightarrow> bool" where
  "resampleKeyType t \<longleftrightarrow> normalizedName t \<in>
     {''int8'', ''int16'', ''int32'', ''int64'', ''int'', ''uint8'', ''uint16'', ''uint32'', ''uint64'',
      ''bool'', ''boolean'', ''enum8'', ''enum16'', ''date'', ''datetime''}"

definition boolInt :: "bool \<Rightarrow> int" where
  "boolInt b = (if b then 1 else 0)"

definition checkArrayArguments :: "string \<Rightarrow> CallContext \<Rightarrow> nat \<Rightarrow> unit result" where
  "checkArrayArguments displayName call n =
     check_all (\<lambda>index.
       bind_res (wrap_error ''function %s argument %d: %w'' [displayName, itoa (int index + 1)]
                   (inferred_result (argumentType call index))) (\<lambda>t.
         let bare = domainBaseType t in
         if normalizedName bare \<noteq> ''array'' \<or> length (Params bare) \<noteq> 1
         then Inl (Errorf ''function %s argument %d must be an Array, got %s; %s''
                [displayName, itoa (int index + 1), to_string t, pinTypeHint])
         else Inr ())) [0..<n]"

definition checkResampleKey :: "string \<Rightarrow> CallContext \<Rightarrow> nat \<Rightarrow> unit result" where
  "checkResampleKey displayName call keyIndex =
     bind_res (wrap_error ''function %s resample key: %w'' [displayName] (inferred_result (argumentType call keyIndex))) (\<lambda>keyType.
       if resampleKeyType (domainBaseType keyType) then Inr ()
       else Inl (Errorf ''function %s needs a fixed-width integer, Bool, Enum, Date, or DateTime resample key, got %s; %s''
              [displayName, to_string keyType, pinTypeHint]))"

definition validateAggregateCombinatorCall ::
    "registry \<Rightarrow> (string \<Rightarrow> rat option) \<Rightarrow> string \<Rightarrow> aggregateCombinator \<Rightarrow> combinator_call \<Rightarrow> unit result" where
  "validateAggregateCombinatorCall reg parseFloat base combinator f =
     (let call = context_of f; count = int (length (call_args call)); displayName = function_name f;
          exact = (case reg base of Some spec \<Rightarrow> exactSpelling spec | None \<Rightarrow> []);
          expected_name = exact @ concat (map aggregatePrimitiveSpelling (primitives combinator));
          p = plan combinator;
          baseArgCount = count - (boolInt (conditionArgument p) + boolInt (resampleKeyArgument p)) in
      if exact \<noteq> [] \<and> displayName \<noteq> expected_name
      then Inl (Errorf ''function %s does not match the measured case-sensitive spelling %s; %s''
             [displayName, expected_name, pinTypeHint])
      else bind_res (wrap_error ''function %s: %w'' [displayName] (validateAggregateArgumentPlan combinator)) (\<lambda>_.
        if stateArgument p
        then (if count \<noteq> 1
              then Inl (Errorf ''function %s accepts exactly one AggregateFunction state argument, but got %d; %s''
                     [displayName, itoa count, pinTypeHint])
              else validateAggregateCombinatorParameters reg parseFloat base combinator f)
        else if baseArgCount < 0
        then Inl (Errorf ''function %s has too few arguments; %s'' [displayName, pinTypeHint])
        else bind_res (validateBaseAggregateArity reg base displayName baseArgCount) (\<lambda>_.
          if arrayDataArguments p \<and> baseArgCount = 0
          then Inl (Errorf ''function %s needs at least one Array data argument; %s'' [displayName, pinTypeHint])
          else bind_res (if \<not> conditionArgument p then Inr ()
                  else if count = 0 then Inl (Errorf ''function %s has no -If condition argument'' [displayName])
                  else checkIfCombinatorCondition displayName call (nat count - 1)) (\<lambda>_.
               bind_res (if arrayDataArguments p then checkArrayArguments displayName call (nat baseArgCount) else Inr ()) (\<lambda>_.
               bind_res (if resampleKeyArgument p then checkResampleKey displayName call (nat baseArgCount) else Inr ()) (\<lambda>_.
               validateAggregateCombinatorParameters reg parseFloat base combinator f))))))"

section \<open>The ordinary result of the base aggregate\<close>

definition policy_of :: "registry \<Rightarrow> string \<Rightarrow> parameterResultPolicy option" where
  "policy_of reg name = map_option parameterPolicy (reg name)"

text \<open>The measured parameter gate of a registered call, before the wrappers.\<close>

definition evaluateRule ::
    "registry \<Rightarrow> (chtype list \<Rightarrow> chtype result) \<Rightarrow> string \<Rightarrow> chtype list \<Rightarrow> chtype result" where
  "evaluateRule reg rule functionName types =
     bind_res (rule types) (\<lambda>result.
       let name = to_lower functionName in
       if reg name \<noteq> None then applyParameterVerdict (policy_of reg) name result else Inr result)"

definition read_data_argument :: "registry \<Rightarrow> string \<Rightarrow> chtype \<Rightarrow> chtype" where
  "read_data_argument reg base argType =
     (let v = readSimpleAggregateValue argType in
      if argumentDomainFor reg base \<noteq> None \<and> base \<notin> set valuePreservingDomainFunctions
      then (let (bare, nullable, lowCardinality) = splitCHWrappers v in
            case simpleAggregateWrapperInner bare of
              Some inner \<Rightarrow> applyCHWrappers inner nullable lowCardinality
            | None \<Rightarrow> v)
      else v)"

definition baseAggregateResultType :: "registry \<Rightarrow> string \<Rightarrow> string \<Rightarrow> chtype list \<Rightarrow> chtype result" where
  "baseAggregateResultType reg base functionName argTypes =
     (case functionRuleFor reg base of
        None \<Rightarrow> Inl (Errorf ''aggregate %s has no registered type rule'' [base])
      | Some rule \<Rightarrow>
         (let valueTypes = map (read_data_argument reg base) argTypes;
              stripped = map base_of valueTypes;
              dataCount = aggregateDataArgCount base (length stripped);
              nullable = list_ex nullable_of (take dataCount valueTypes);
              opaque = (functionClassFor reg base = wrapperOpaque) in
          if functionStrategyFor reg base = argsIndependent
          then bind_res (evaluateRule reg rule functionName []) (\<lambda>result.
                 Inr (if opaque then result else applyCHWrappers result nullable False))
          else if opaque then evaluateRule reg rule functionName stripped
          else bind_res (evaluateRule reg rule functionName stripped) (\<lambda>result.
                 Inr (applyCHWrappers (stripNestedLowCardinality result) nullable False))))"

section \<open>The data arguments\<close>

text \<open>One data argument: its type, or the element type under the Array combinator.\<close>

definition data_argument_type ::
    "registry \<Rightarrow> string \<Rightarrow> string \<Rightarrow> aggregateArgumentPlan \<Rightarrow> nat \<times> inferred \<Rightarrow> chtype result" where
  "data_argument_type reg name displayName p a = (case a of (index, r) \<Rightarrow>
     (let refused = (\<lambda>err. if index = 0 \<and> functionStrategyFor reg name = argsFirstOnly \<and> \<not> buildsAggregateState p
             then Inl (Wrapf ''function %s first argument: %w'' [displayName] err)
             else Inl (Wrapf ''function %s argument: %w'' [displayName] err)) in
      case r of
        PlaceholderError err \<Rightarrow>
          (if functionStrategyFor reg name = argsIndependent then Inr (ty0 []) else refused err)
      | OtherError err \<Rightarrow> refused err
      | Typed t \<Rightarrow>
          (if \<not> arrayDataArguments p then Inr t
           else let (bare, nullable, _) = splitCHWrappers t in
             if \<not> equal_fold (Name bare) ''Array'' \<or> length (Params bare) \<noteq> 1
             then Inl (Errorf ''function %s expects an Array argument, got %s'' [displayName, to_string t])
             else Inr (if nullable then applyCHWrappers (hd (Params bare)) True False else hd (Params bare)))))"

definition data_argument_types ::
    "registry \<Rightarrow> string \<Rightarrow> string \<Rightarrow> aggregateArgumentPlan \<Rightarrow> inferred list \<Rightarrow> chtype list result" where
  "data_argument_types reg name displayName p infs =
     map_res (data_argument_type reg name displayName p) (enumerate 0 infs)"

definition checkCombinatorArgumentDomain :: "registry \<Rightarrow> string \<Rightarrow> string \<Rightarrow> chtype list \<Rightarrow> unit result" where
  "checkCombinatorArgumentDomain reg base displayName argTypes =
     (case argumentDomainFor reg base of
        None \<Rightarrow> Inr ()
      | Some domain \<Rightarrow>
          (if argTypes = [] then Inr ()
           else checkArgumentDomainAt displayName domain (domainArgumentIndexes reg base) (length argTypes)
             (\<lambda>index. let bare = base_of (argTypes ! index) in
                Some (case simpleAggregateWrapperInner bare of Some inner \<Rightarrow> base_of inner | None \<Rightarrow> bare))))"

section \<open>Result types\<close>

text \<open>A state stores an argument without LowCardinality at any depth, and with its Nullable.\<close>

definition state_argument :: "chtype \<Rightarrow> chtype" where
  "state_argument t = applyCHWrappers (stripNestedLowCardinality (base_of t)) (nullable_of t) False"

definition aggregate_state :: "string \<Rightarrow> string list \<Rightarrow> chtype list \<Rightarrow> chtype" where
  "aggregate_state name literals args = ty1 ''AggregateFunction'' (tyl name literals # args)"

definition if_state_type :: "string \<Rightarrow> combinator_call \<Rightarrow> chtype list \<Rightarrow> chtype result" where
  "if_state_type base f argTypes =
     (let call = context_of f in
      bind_res (wrap_error ''function %s argument: %w'' [function_name f]
                  (inferred_result (argumentType call (length (call_args call) - 1)))) (\<lambda>condition.
        Inr (aggregate_state (baseAggregateDisplayName base @ ''If'') (parameter_literals f)
               (map state_argument (argTypes @ [condition])))))"

text \<open>Plain State keeps a marker, except one that hides a LowCardinality; StateIf reads through it.\<close>

definition plain_state_argument :: "aggregateArgumentPlan \<Rightarrow> chtype \<Rightarrow> chtype" where
  "plain_state_argument p argType =
     (let encodedMarker = (normalizedName argType = ''simpleaggregatefunction'' \<and> length (Params argType) = 2
             \<and> normalizedName (Params argType ! 1) = ''lowcardinality'');
          t = (if dropsTopLevelNullable p \<or> encodedMarker then readSimpleAggregateValue argType else argType)
      in applyCHWrappers (stripNestedLowCardinality (base_of t)) (nullable_of t \<and> \<not> dropsTopLevelNullable p) False)"

definition state_type :: "string \<Rightarrow> aggregateArgumentPlan \<Rightarrow> combinator_call \<Rightarrow> chtype list \<Rightarrow> chtype" where
  "state_type base p f argTypes =
     aggregate_state (baseAggregateDisplayName base) (parameter_literals f) (map (plain_state_argument p) argTypes)"

definition simple_state_type ::
    "registry \<Rightarrow> string \<Rightarrow> combinator_call \<Rightarrow> nat \<Rightarrow> chtype list \<Rightarrow> chtype result" where
  "simple_state_type reg base f dataCount argTypes =
     (if base \<notin> set simpleStateSupportedBases
      then Inl (Errorf ''function %s is not a supported SimpleState aggregate; ClickHouse accepts -SimpleState only for any, anyLast, min, max, sum, sumWithOverflow, groupBitAnd, groupBitOr, groupBitXor, sumMap, minMap, maxMap and the *Array forms''
             [function_name f])
      else bind_res (baseAggregateResultType reg base (function_name f) argTypes) (\<lambda>result.
        let outside = (base = ''sum'' \<and> dataCount = 1 \<and>
              (case first_case f of
                 Some c \<Rightarrow> \<not> case_else c \<and> nullable_of result \<and> \<not> simpleStateCaseKeepsInheritedNullable c
               | None \<Rightarrow> False));
            marker = ty1 ''SimpleAggregateFunction''
              [tyl (baseAggregateDisplayName base) (parameter_literals f), if outside then base_of result else result]
        in Inr (applyCHWrappers marker outside False)))"

text \<open>The arguments of the read state without the -If condition, which must be a UInt8 or Bool.\<close>

definition state_value_arguments :: "string \<Rightarrow> bool \<Rightarrow> chtype list \<Rightarrow> chtype list result" where
  "state_value_arguments displayName wantsIf stateArgs =
     (if \<not> wantsIf then Inr stateArgs
      else if stateArgs = []
      then Inl (Errorf ''function %s reads a state with no -If condition type'' [displayName])
      else if normalizedName (domainBaseType (last stateArgs)) \<noteq> ''uint8''
              \<and> normalizedName (domainBaseType (last stateArgs)) \<noteq> ''bool''
      then Inl (Errorf ''function %s reads a state with an invalid -If condition type %s''
             [displayName, to_string (last stateArgs)])
      else Inr (butlast stateArgs))"

definition merge_type ::
    "registry \<Rightarrow> string \<Rightarrow> aggregateArgumentPlan \<Rightarrow> combinator_call \<Rightarrow> chtype list \<Rightarrow> chtype result" where
  "merge_type reg base p f argTypes =
     (case argTypes of
        [] \<Rightarrow> Inl (Errorf ''function %s has no arguments'' [function_name f])
      | stateType # _ \<Rightarrow>
         (if \<not> equal_fold (Name stateType) ''AggregateFunction'' \<or> Params stateType = []
          then Inl (Errorf ''function %s expects an AggregateFunction argument, got %s'' [function_name f, to_string stateType])
          else let stateName = Name (hd (Params stateType));
                   wantName = baseAggregateDisplayName base @ (if stateHasCondition p then ''If'' else []) in
            if \<not> equal_fold stateName wantName
            then Inl (Errorf ''function %s expects a state built by %s, got a state built by %s''
                   [function_name f, wantName, stateName])
            else bind_res (state_value_arguments (function_name f) (stateHasCondition p) (tl (Params stateType))) (\<lambda>stateArgs.
              bind_res (wrap_error ''function %s reads an invalid state shape: %w'' [function_name f]
                  (validateBaseAggregateArity reg base (function_name f) (int (length stateArgs)))) (\<lambda>_.
              if returnsAggregateState p
              then Inr (aggregate_state stateName (parameter_literals f) (tl (Params stateType)))
              else baseAggregateResultType reg base (function_name f) (tl (Params stateType))))))"

definition state_or_null_type :: "string \<Rightarrow> combinator_call \<Rightarrow> chtype list \<Rightarrow> chtype result" where
  "state_or_null_type base f argTypes =
     (if base \<notin> set stateOrNullSupportedBases
      then Inl (Errorf ''function %s is not a supported StateOrNull aggregate; ClickHouse refuses -StateOrNull for count, uniq, uniqExact, groupArray and groupUniqArray, because their state cannot go inside Nullable''
             [function_name f])
      else Inr (aggregate_state (baseAggregateDisplayName base @ ''OrNull'') (parameter_literals f)
             (map state_argument argTypes)))"

definition or_null_type :: "registry \<Rightarrow> string \<Rightarrow> combinator_call \<Rightarrow> chtype list \<Rightarrow> chtype result" where
  "or_null_type reg base f argTypes =
     bind_res (baseAggregateResultType reg base (function_name f) argTypes) (\<lambda>result.
       if \<not> canBeInsideNullable (base_of result)
       then Inl (Errorf ''function %s cannot put %s inside Nullable'' [function_name f, to_string (base_of result)])
       else Inr (applyCHWrappers (base_of result) True False))"

definition resample_type :: "registry \<Rightarrow> string \<Rightarrow> combinator_call \<Rightarrow> chtype list \<Rightarrow> chtype result" where
  "resample_type reg base f argTypes =
     bind_res (baseAggregateResultType reg base (function_name f) argTypes) (\<lambda>result.
       Inr (ty1 ''Array'' [base_of result]))"

text \<open>The switch over the plan, in the order of its cases.\<close>

definition combinator_result ::
    "registry \<Rightarrow> string \<Rightarrow> aggregateArgumentPlan \<Rightarrow> combinator_call \<Rightarrow> nat \<Rightarrow> chtype list \<Rightarrow> chtype result" where
  "combinator_result reg base p f dataCount argTypes =
     (if stateStoresCondition p then if_state_type base f argTypes
      else if buildsAggregateState p \<and> \<not> orNullResult p then Inr (state_type base p f argTypes)
      else if simpleStateResult p then simple_state_type reg base f dataCount argTypes
      else if stateArgument p then merge_type reg base p f argTypes
      else if buildsAggregateState p \<and> orNullResult p then state_or_null_type base f argTypes
      else if orNullResult p then or_null_type reg base f argTypes
      else if resampleKeyArgument p then resample_type reg base f argTypes
      else baseAggregateResultType reg base (function_name f) argTypes)"

definition is_placeholder :: "inferred \<Rightarrow> bool" where
  "is_placeholder r = (case r of PlaceholderError _ \<Rightarrow> True | _ \<Rightarrow> False)"

text \<open>
  None means the name is not a combinator call and the ordinary paths continue. With an unresolved
  placeholder among the arguments of a fixed-result aggregate the base rule answers without arguments;
  the registry has a rule for every base it can combine, and \<open>No base rule\<close> stands for the call of a nil rule.
\<close>

definition inferAggregateCombinatorType ::
    "registry \<Rightarrow> (string \<Rightarrow> rat option) \<Rightarrow> string \<Rightarrow> combinator_call \<Rightarrow> chtype result option" where
  "inferAggregateCombinatorType reg parseFloat name f =
     (case parseAggregateCombinatorChain name of (base, combinator, status) \<Rightarrow>
        if status = aggregateChainUnsupported
        then (if functionRuleFor reg name \<noteq> None then None
              else Some (Inl (Errorf ''function %s has no measured aggregate combinator chain; %s'' [function_name f, pinTypeHint])))
        else if status \<noteq> aggregateChainSupported then None
        else let p = plan combinator; infs = call_types (context_of f); count = length infs;
                 roles = nat (boolInt (conditionArgument p) + boolInt (resampleKeyArgument p));
                 dataArgs = (if stateArgument p then infs else take (count - roles) infs) in
          Some (bind_res (validateAggregateCombinatorCall reg parseFloat base combinator f) (\<lambda>_.
            if count < roles
            then Inl (Errorf ''function %s needs at least %d trailing role arguments'' [function_name f, itoa (int roles)])
            else bind_res (data_argument_types reg name (function_name f) p dataArgs) (\<lambda>argTypes.
              bind_res (if stateArgument p then Inr ()
                        else checkCombinatorArgumentDomain reg base (function_name f) argTypes) (\<lambda>_.
              if functionStrategyFor reg name = argsIndependent \<and> list_ex is_placeholder infs
              then (case functionRuleFor reg base of Some rule \<Rightarrow> rule [] | None \<Rightarrow> Inl (Errorf ''No base rule'' []))
              else combinator_result reg base p f (length dataArgs) argTypes)))))"

end
