(* ===== verification/CombinatorFacts.thy ===== *)
theory CombinatorFacts
  imports Combinators SignatureFacts
begin

text \<open>
  Combinator names print and parse back, for every base and every chain; the merge chains read exactly
  the states their building chains tag; the Resample arithmetic is exact.
\<close>

section \<open>Suffixes\<close>

lemma leading_primitive_spelled:
  "leading_primitive (to_lower (aggregatePrimitiveSpelling p) @ rest)
     = Some \<lparr>primitive = p, primitive_text = aggregatePrimitiveSpelling p, isInternal = (p = PrimitiveNull)\<rparr>"
  by (cases p) (simp_all add: leading_primitive_def aggregatePrimitiveCatalog_def aggregatePrimitiveSpelling_def has_prefix_def)

lemma spelling_nonempty [simp]: "aggregatePrimitiveSpelling p \<noteq> []"
  by (cases p) (simp_all add: aggregatePrimitiveSpelling_def aggregatePrimitiveCatalog_def)

lemma suffix_Nil [simp]: "aggregatePrimitiveChainSuffix [] = []"
  and suffix_Cons: "aggregatePrimitiveChainSuffix (p # ps) =
    to_lower (aggregatePrimitiveSpelling p) @ aggregatePrimitiveChainSuffix ps"
  by (simp_all add: aggregatePrimitiveChainSuffix_def)

lemma to_lower_eq_Nil [simp]: "to_lower s = [] \<longleftrightarrow> s = []"
  by (cases s) auto

lemma primitives_of_suffix: "primitives_of (aggregatePrimitiveChainSuffix ps) = Some ps"
proof (induction ps)
  case Nil
  then show ?case by (subst primitives_of.simps) simp
next
  case (Cons p ps)
  then show ?case
    by (subst primitives_of.simps) (simp add: suffix_Cons leading_primitive_spelled)
qed

lemma suffix_inj: "aggregatePrimitiveChainSuffix ps = aggregatePrimitiveChainSuffix qs \<longleftrightarrow> ps = qs"
  by (metis option.inject primitives_of_suffix)

lemma parse_suffix: "ps \<noteq> [] \<Longrightarrow> parseAggregatePrimitiveSuffix (aggregatePrimitiveChainSuffix ps) = Some ps"
  by (cases ps) (simp_all add: parseAggregatePrimitiveSuffix_def primitives_of_suffix)

text \<open>The other direction: a parsed text is the suffix of its primitives.\<close>

lemma leading_primitive_prefix:
  "leading_primitive text = Some spec \<Longrightarrow> spec \<in> set aggregatePrimitiveCatalog
     \<and> has_prefix text (to_lower (primitive_text spec))"
  by (auto simp: leading_primitive_def find_Some_iff)

lemma catalog_spelling:
  "spec \<in> set aggregatePrimitiveCatalog \<Longrightarrow> aggregatePrimitiveSpelling (primitive spec) = primitive_text spec"
  by (auto simp: aggregatePrimitiveCatalog_def aggregatePrimitiveSpelling_def)

lemma primitives_of_sound: "primitives_of str = Some ps \<Longrightarrow> str = aggregatePrimitiveChainSuffix ps"
proof (induction str arbitrary: ps rule: primitives_of.induct)
  case (1 str)
  show ?case
  proof (cases "str = []")
    case True
    with "1.prems" show ?thesis by (simp add: primitives_of.simps)
  next
    case False
    with "1.prems" obtain spec qs where l: "leading_primitive str = Some spec"
      and q: "primitives_of (drop (length (primitive_text spec)) str) = Some qs" "ps = primitive spec # qs"
      by (auto simp: primitives_of.simps [of str] split: option.splits)
    have "drop (length (primitive_text spec)) str = aggregatePrimitiveChainSuffix qs"
      by (rule "1.IH" [OF False l q(1)])
    moreover have "str = to_lower (primitive_text spec) @ drop (length (primitive_text spec)) str"
      using leading_primitive_prefix [OF l] has_prefix_decomp [of str "to_lower (primitive_text spec)"] by simp
    ultimately show ?thesis
      using q(2) leading_primitive_prefix [OF l] by (simp add: suffix_Cons catalog_spelling)
  qed
qed

section \<open>Bases\<close>

text \<open>No primitive starts with the letters that tell two bases apart.\<close>

lemma suffix_start:
  "take 2 (aggregatePrimitiveChainSuffix (p # ps)) \<in>
     {''si'', ''or'', ''di'', ''re'', ''fo'', ''ar'', ''me'', ''st'', ''nu'', ''ma'', ''if''}"
  by (cases p) (simp_all add: suffix_Cons aggregatePrimitiveSpelling_def aggregatePrimitiveCatalog_def)

definition telling_bases :: bool where
  "telling_bases \<longleftrightarrow> list_all (\<lambda>b. list_all (\<lambda>b'. length b < length b' \<and> take (length b) b' = b \<longrightarrow>
     length b + 2 \<le> length b' \<and> take 2 (drop (length b) b') \<notin>
       {''si'', ''or'', ''di'', ''re'', ''fo'', ''ar'', ''me'', ''st'', ''nu'', ''ma'', ''if''})
     aggregateBaseNames) aggregateBaseNames"

lemma telling_bases: telling_bases
  by code_simp

lemma longer_base_no_prefix:
  assumes "b \<in> set aggregateBaseNames" and "b' \<in> set aggregateBaseNames" and "length b \<le> length b'" and "b \<noteq> b'"
    and "ps \<noteq> []"
  shows "\<not> has_prefix (b @ aggregatePrimitiveChainSuffix ps) b'"
proof
  assume p: "has_prefix (b @ aggregatePrimitiveChainSuffix ps) b'"
  then have t: "b' = take (length b') (b @ aggregatePrimitiveChainSuffix ps)" by (simp add: has_prefix_def)
  then have b: "take (length b) b' = b"
    using assms(3) by (metis append_eq_conv_conj min.absorb1 take_take)
  with assms(3,4) have less: "length b < length b'" by (metis le_neq_implies_less order_refl take_all)
  with b assms(1,2) telling_bases have d: "length b + 2 \<le> length b'"
    "take 2 (drop (length b) b') \<notin> {''si'', ''or'', ''di'', ''re'', ''fo'', ''ar'', ''me'', ''st'', ''nu'', ''ma'', ''if''}"
    by (auto simp: telling_bases_def list_all_iff)
  have "drop (length b) b' = take (length b' - length b) (aggregatePrimitiveChainSuffix ps)"
    using less by (subst t) (simp add: drop_take)
  then have "take 2 (drop (length b) b') = take 2 (aggregatePrimitiveChainSuffix ps)"
    using d(1) by simp
  with d(2) assms(5) suffix_start show False by (cases ps) auto
qed

lemma first_some_split:
  "\<forall>y \<in> set ys. f y = None \<Longrightarrow> f x = Some r \<Longrightarrow> first_some f (ys @ x # zs) = Some r"
  by (induction ys) auto

lemma first_some_SomeD: "first_some f xs = Some r \<Longrightarrow> \<exists>x \<in> set xs. f x = Some r"
  by (induction xs) (auto split: option.splits)

lemma set_ordered_bases [simp]: "set ordered_bases = set aggregateBaseNames"
  by (simp add: ordered_bases_def)

lemma sort_key_before:
  assumes "sort_key (f :: 'a \<Rightarrow> int) xs = ys @ x # zs" and "y \<in> set ys"
  shows "f y \<le> f x"
proof -
  have "sorted (map f (ys @ x # zs))" using sorted_sort_key [of f xs] assms(1) by simp
  with assms(2) show ?thesis by (auto simp: sorted_append)
qed

lemma longest_base_wins:
  assumes b: "b \<in> set aggregateBaseNames" and ps: "ps \<noteq> []"
  shows "first_some (base_and_chain (b @ aggregatePrimitiveChainSuffix ps)) ordered_bases = Some (b, ps)"
proof -
  let ?n = "b @ aggregatePrimitiveChainSuffix ps"
  from b obtain ys zs where o: "ordered_bases = ys @ b # zs" "b \<notin> set ys"
    by (metis set_ordered_bases split_list_first)
  have "base_and_chain ?n y = None" if y: "y \<in> set ys" for y
  proof -
    have "y \<in> set aggregateBaseNames" using arg_cong [OF o(1), of set] y by auto
    moreover have "length b \<le> length y"
      using sort_key_before [OF o(1) [unfolded ordered_bases_def] y] by simp
    ultimately have "\<not> has_prefix ?n y"
      using longer_base_no_prefix [OF b _ _ _ ps, of y] o(2) y by auto
    then show ?thesis by (simp add: base_and_chain_def)
  qed
  moreover have "aggregatePrimitiveChainSuffix ps \<noteq> []"
    using ps by (cases ps) (simp_all add: suffix_Cons)
  then have "base_and_chain ?n b = Some (b, ps)"
    by (simp add: base_and_chain_def parse_suffix ps)
  ultimately show ?thesis unfolding o(1) by (blast intro: first_some_split)
qed

lemma find_combinator:
  "find (\<lambda>combinator. chain_suffix combinator = aggregatePrimitiveChainSuffix ps) aggregateCombinators =
     (if ps \<in> set measuredAggregatePrimitiveChains
      then Some \<lparr>primitives = ps, plan = aggregatePlanForPrimitives ps, chain_suffix = aggregatePrimitiveChainSuffix ps\<rparr>
      else None)"
proof -
  have "find (\<lambda>c. chain_suffix c = aggregatePrimitiveChainSuffix ps)
      (map (\<lambda>qs. \<lparr>primitives = qs, plan = aggregatePlanForPrimitives qs, chain_suffix = aggregatePrimitiveChainSuffix qs\<rparr>) chains) =
     (if ps \<in> set chains
      then Some \<lparr>primitives = ps, plan = aggregatePlanForPrimitives ps, chain_suffix = aggregatePrimitiveChainSuffix ps\<rparr>
      else None)" for chains
    by (induction chains) (auto simp: suffix_inj)
  then show ?thesis by (simp add: buildMeasuredAggregateCombinators_def)
qed

definition chain_combinator :: "aggregatePrimitive list \<Rightarrow> aggregateCombinator" where
  "chain_combinator ps = \<lparr>primitives = ps, plan = aggregatePlanForPrimitives ps, chain_suffix = aggregatePrimitiveChainSuffix ps\<rparr>"

lemma parse_from_chain:
  assumes "first_some (base_and_chain (to_lower name)) ordered_bases = Some (base, ps)"
  shows "parseAggregateCombinatorChain name = (base, chain_combinator ps,
     if ps \<in> set measuredAggregatePrimitiveChains then aggregateChainSupported else aggregateChainUnsupported)"
  using assms by (simp add: parseAggregateCombinatorChain_def find_combinator chain_combinator_def)

lemma parse_chain_name:
  assumes "base \<in> set aggregateBaseNames" and "ps \<noteq> []" and "to_lower name = base @ aggregatePrimitiveChainSuffix ps"
  shows "parseAggregateCombinatorChain name = (base, chain_combinator ps,
     if ps \<in> set measuredAggregatePrimitiveChains then aggregateChainSupported else aggregateChainUnsupported)"
  by (rule parse_from_chain) (simp only: assms(3) longest_base_wins [OF assms(1,2)])

lemma parse_chain_sound:
  assumes "parseAggregateCombinatorChain name = (base, combinator, status)" and "status \<noteq> aggregateChainNotFound"
  shows "base \<in> set aggregateBaseNames" "primitives combinator \<noteq> []" "combinator = chain_combinator (primitives combinator)"
    "to_lower name = base @ aggregatePrimitiveChainSuffix (primitives combinator)"
    "status = aggregateChainSupported \<longleftrightarrow> primitives combinator \<in> set measuredAggregatePrimitiveChains"
proof -
  obtain b ps where f: "first_some (base_and_chain (to_lower name)) ordered_bases = Some (b, ps)"
    using assms by (cases "first_some (base_and_chain (to_lower name)) ordered_bases") (auto simp: parseAggregateCombinatorChain_def)
  from assms parse_from_chain [OF f] have c: "base = b" "combinator = chain_combinator ps"
    "status = aggregateChainSupported \<longleftrightarrow> ps \<in> set measuredAggregatePrimitiveChains" by (auto split: if_splits)
  from first_some_SomeD [OF f] obtain b' where b': "b' \<in> set aggregateBaseNames" "base_and_chain (to_lower name) b' = Some (b, ps)"
    by auto
  then have b: "b' = b" "has_prefix (to_lower name) b" "parseAggregatePrimitiveSuffix (drop (length b) (to_lower name)) = Some ps"
    by (auto simp: base_and_chain_def split: if_splits)
  then have p: "ps \<noteq> []" "primitives_of (drop (length b) (to_lower name)) = Some ps"
    by (auto simp: parseAggregatePrimitiveSuffix_def split: option.splits list.splits)
  show "base \<in> set aggregateBaseNames" "primitives combinator \<noteq> []" "combinator = chain_combinator (primitives combinator)"
    "to_lower name = base @ aggregatePrimitiveChainSuffix (primitives combinator)"
    "status = aggregateChainSupported \<longleftrightarrow> primitives combinator \<in> set measuredAggregatePrimitiveChains"
    using b b'(1) c p primitives_of_sound [OF p(2)] has_prefix_decomp [OF b(2)] by (auto simp: chain_combinator_def)
qed

section \<open>Resample arithmetic\<close>

lemma ceiling_div:
  fixes d s :: int
  assumes "0 < s"
  shows "(d + s - 1) div s = d div s + (if d mod s = 0 then 0 else 1)"
proof -
  have r: "0 \<le> d mod s" "d mod s < s" using assms by simp_all
  have "(d + s - 1) div s = (d div s * s + (d mod s + s - 1)) div s"
    by (simp add: algebra_simps)
  also have "\<dots> = d div s + (d mod s + s - 1) div s" using assms by simp
  also have "(d mod s + s - 1) div s = (if d mod s = 0 then 0 else 1)"
  proof (cases "d mod s = 0")
    case True
    then show ?thesis using assms by simp
  next
    case False
    then have "(d mod s + s - 1) div s = (d mod s - 1 + 1 * s) div s" by (simp add: algebra_simps)
    also have "\<dots> = 1 + (d mod s - 1) div s" using assms by (subst div_mult_self1) simp_all
    also have "(d mod s - 1) div s = 0" using False r by (intro div_pos_pos_trivial) auto
    finally show ?thesis using False by simp
  qed
  finally show ?thesis .
qed

lemma uint_of_small: "0 \<le> i \<Longrightarrow> i < 2 ^ 64 \<Longrightarrow> uint (word_of_int i :: 64 word) = i"
  by (simp add: uint_word_of_int)

lemma resample_buckets_exact:
  assumes "in_int64 start" and "in_int64 stop" and "in_int64 step" and "start < stop" and "0 < step"
  shows "uint (resample_buckets start stop step) = (stop - start + step - 1) div step"
proof -
  let ?d = "stop - start"
  have r: "0 < ?d" "?d < 2 ^ 64" "step < 2 ^ 63" using assms by (auto simp: in_int64_def)
  define distance :: "64 word" where "distance = word_of_int stop - word_of_int start"
  define width :: "64 word" where "width = word_of_int step"
  have "distance = word_of_int ?d" by (simp add: distance_def)
  then have d: "uint distance = ?d" using r uint_of_small [of ?d] by simp
  have w: "uint width = step" using assms(5) r(3) uint_of_small [of step] by (simp add: width_def)
  have q: "uint (distance div width) = ?d div step" by (simp add: uint_div d w)
  have m: "uint (distance mod width) = ?d mod step" by (simp add: uint_mod d w)
  have z: "distance mod width = 0 \<longleftrightarrow> ?d mod step = 0" using m by (metis uint_0_eq word_uint_eqI)
  have fit: "?d div step + 1 < 2 ^ 64" if "?d mod step \<noteq> 0"
  proof -
    have "step \<noteq> 1" using that by auto
    with assms(5) have "?d div step \<le> ?d div 2" using r(1) by (intro zdiv_mono2) auto
    with r(2) show ?thesis by simp
  qed
  have "uint (distance div width + 1) = ?d div step + 1" if "?d mod step \<noteq> 0"
    using fit [OF that] r(1) assms(5) by (simp add: uint_word_ariths q pos_imp_zdiv_nonneg_iff)
  then show ?thesis
    unfolding resample_buckets_def Let_def distance_def [symmetric] width_def [symmetric] z ceiling_div [OF assms(5)]
    by (simp add: q)
qed

lemma map_res_option:
  "(\<And>i x. g (i, x) = (case h x of Some v \<Rightarrow> Inr v | None \<Rightarrow> Inl (e i))) \<Longrightarrow>
   map_res g (enumerate n xs) = Inr ys \<longleftrightarrow> map h xs = map Some ys"
  by (induction xs arbitrary: n ys) (auto split: option.splits)

lemma signed_constant_in_int64: "signedIntegerConstant e = Some v \<Longrightarrow> in_int64 v"
  by (auto simp: signedIntegerConstant_def atoi_def Let_def split: arg_expr.splits if_splits option.splits)

lemma three_options:
  "(\<exists>vs. map h [a, b, c] = map Some vs \<and> P (vs ! 0) (vs ! 1) (vs ! 2)) \<longleftrightarrow>
   (\<exists>x y z. h a = Some x \<and> h b = Some y \<and> h c = Some z \<and> P x y z)"
proof
  assume "\<exists>vs. map h [a, b, c] = map Some vs \<and> P (vs ! 0) (vs ! 1) (vs ! 2)"
  then obtain vs where "map h [a, b, c] = map Some vs" "P (vs ! 0) (vs ! 1) (vs ! 2)" by blast
  then show "\<exists>x y z. h a = Some x \<and> h b = Some y \<and> h c = Some z \<and> P x y z"
    by (auto simp: Cons_eq_map_conv numeral_2_eq_2)
next
  assume "\<exists>x y z. h a = Some x \<and> h b = Some y \<and> h c = Some z \<and> P x y z"
  then obtain x y z where "h a = Some x \<and> h b = Some y \<and> h c = Some z \<and> P x y z" by blast
  then show "\<exists>vs. map h [a, b, c] = map Some vs \<and> P (vs ! 0) (vs ! 1) (vs ! 2)"
    by (intro exI [of _ "[x, y, z]"]) simp
qed

lemma checkResampleParameters_iff:
  "checkResampleParameters name [a, b, c] = Inr () \<longleftrightarrow>
     (\<exists>start stop step. signedIntegerConstant a = Some start \<and> signedIntegerConstant b = Some stop
        \<and> signedIntegerConstant c = Some step \<and> 0 < step
        \<and> (start < stop \<longrightarrow> (stop - start + step - 1) div step \<le> 1048576))"
proof -
  have exact: "uint (resample_buckets start stop step) = (stop - start + step - 1) div step"
    if "signedIntegerConstant a = Some start" "signedIntegerConstant b = Some stop"
      "signedIntegerConstant c = Some step" "start < stop" "0 < step" for start stop step
    using that by (intro resample_buckets_exact) (auto dest: signed_constant_in_int64)
  have big: "(w > (1048576 :: 64 word)) = (uint w > 1048576)" for w by (simp add: word_less_def)
  have m: "map_res (\<lambda>(index, parameter). case signedIntegerConstant parameter of
         Some v \<Rightarrow> Inr v
       | None \<Rightarrow> Inl (Errorf ''function %s Resample parameter %d must be a signed 64-bit integer constant; %s''
                   [name, itoa (int index + 1), pinTypeHint])) (enumerate 0 [a, b, c]) = Inr vs \<longleftrightarrow>
      map signedIntegerConstant [a, b, c] = map Some vs" for vs
    by (rule map_res_option) (simp split: option.split)
  have refuse: "((if g then Inl e else r) = Inr ()) = (\<not> g \<and> r = Inr ())" for g e and r :: "unit result"
    by simp
  have "checkResampleParameters name [a, b, c] = Inr () \<longleftrightarrow>
      (\<exists>vs. map signedIntegerConstant [a, b, c] = map Some vs \<and> \<not> vs ! 2 \<le> 0
        \<and> \<not> (vs ! 1 > vs ! 0 \<and> resample_buckets (vs ! 0) (vs ! 1) (vs ! 2) > 1048576))"
    unfolding checkResampleParameters_def bind_res_eq_Inr m refuse by simp
  also have "\<dots> \<longleftrightarrow> (\<exists>start stop step. signedIntegerConstant a = Some start \<and> signedIntegerConstant b = Some stop
        \<and> signedIntegerConstant c = Some step \<and> \<not> step \<le> 0
        \<and> \<not> (stop > start \<and> resample_buckets start stop step > 1048576))"
    by (rule three_options)
  also have "\<dots> \<longleftrightarrow> (\<exists>start stop step. signedIntegerConstant a = Some start \<and> signedIntegerConstant b = Some stop
        \<and> signedIntegerConstant c = Some step \<and> 0 < step
        \<and> (start < stop \<longrightarrow> (stop - start + step - 1) div step \<le> 1048576))"
    unfolding big using exact by (intro ex_cong1) (force simp: not_less)
  finally show ?thesis .
qed

section \<open>States and merges\<close>

abbreviation plan_of :: "aggregatePrimitive list \<Rightarrow> aggregateArgumentPlan" where
  "plan_of \<equiv> aggregatePlanForPrimitives"

definition building_chains :: "aggregatePrimitive list list" where
  "building_chains = [[PrimitiveState], [PrimitiveIf, PrimitiveState], [PrimitiveState, PrimitiveIf],
     [PrimitiveState, PrimitiveOrNull]]"

definition merging_chains :: "aggregatePrimitive list list" where
  "merging_chains = [[PrimitiveMerge], [PrimitiveIf, PrimitiveMerge], [PrimitiveMerge, PrimitiveState],
     [PrimitiveIf, PrimitiveMerge, PrimitiveState]]"

text \<open>What a building chain appends to the aggregate name inside the state.\<close>

definition state_tag :: "aggregatePrimitive list \<Rightarrow> string" where
  "state_tag chain = (if chain = [PrimitiveIf, PrimitiveState] then ''If''
     else if chain = [PrimitiveState, PrimitiveOrNull] then ''OrNull'' else [])"

definition wanted_tag :: "aggregatePrimitive list \<Rightarrow> string" where
  "wanted_tag chain = (if PrimitiveIf \<in> set chain then ''If'' else [])"

lemmas plan_eval = aggregatePlanForPrimitives_def

lemma built_state:
  assumes "chain \<in> set building_chains" and "combinator_result reg base (plan_of chain) f n argTypes = Inr t"
  obtains args where "t = aggregate_state (baseAggregateDisplayName base @ state_tag chain) (parameter_literals f) args"
proof -
  from assms(1) consider "chain = [PrimitiveState]" | "chain = [PrimitiveIf, PrimitiveState]"
    | "chain = [PrimitiveState, PrimitiveIf]" | "chain = [PrimitiveState, PrimitiveOrNull]"
    by (auto simp: building_chains_def)
  then show thesis
    using assms(2) that
    by cases (auto simp: combinator_result_def plan_eval state_tag_def state_type_def if_state_type_def
        state_or_null_type_def Let_def split: if_splits)
qed

lemma merging_plan:
  assumes "chain \<in> set merging_chains"
  shows "combinator_result reg base (plan_of chain) f n argTypes = merge_type reg base (plan_of chain) f argTypes"
    and "stateHasCondition (plan_of chain) \<longleftrightarrow> PrimitiveIf \<in> set chain"
    and "returnsAggregateState (plan_of chain) \<longleftrightarrow> PrimitiveState \<in> set chain"
  using assms by (auto simp: merging_chains_def combinator_result_def plan_eval)

definition state_names :: "(string \<times> string) list" where
  "state_names = concat (map (\<lambda>name. map (Pair name) [[], ''If'', ''OrNull''])
     (remdups (map baseAggregateDisplayName aggregateBaseNames)))"

lemma distinct_state_names: "distinct (map (\<lambda>(name, tag). to_lower (name @ tag)) state_names)"
  by code_simp

lemma state_name_match:
  assumes "equal_fold (baseAggregateDisplayName b @ tag) (baseAggregateDisplayName b' @ tag')"
    and "b \<in> set aggregateBaseNames" "b' \<in> set aggregateBaseNames"
    and "tag \<in> {[], ''If'', ''OrNull''}" "tag' \<in> {[], ''If''}"
  shows "baseAggregateDisplayName b = baseAggregateDisplayName b'" "tag = tag'"
proof -
  have inj: "inj_on (\<lambda>(name, tag). to_lower (name @ tag)) (set state_names)"
    using distinct_state_names by (simp add: distinct_map)
  have "(baseAggregateDisplayName b, tag) \<in> set state_names" "(baseAggregateDisplayName b', tag') \<in> set state_names"
    using assms(2-5) by (auto simp: state_names_def)
  from inj_onD [OF inj _ this] assms(1)
  show "baseAggregateDisplayName b = baseAggregateDisplayName b'" "tag = tag'"
    by (simp_all add: equal_fold_def)
qed

lemma merge_needs_name:
  assumes "merge_type reg base p f [aggregate_state name literals args] = Inr t"
  shows "equal_fold name (baseAggregateDisplayName base @ (if stateHasCondition p then ''If'' else []))"
  using assms by (simp add: merge_type_def aggregate_state_def Let_def split: if_splits)

text \<open>What a state keeps of its arguments.\<close>

lemma merge_of_state:
  assumes "validateBaseAggregateArity reg base (function_name g) (int (length args)) = Inr ()"
    and "\<not> stateHasCondition p"
  shows "merge_type reg base p g [aggregate_state (baseAggregateDisplayName base) literals args] =
    (if returnsAggregateState p then Inr (aggregate_state (baseAggregateDisplayName base) (parameter_literals g) args)
     else baseAggregateResultType reg base (function_name g) args)"
  using assms by (simp add: merge_type_def aggregate_state_def state_value_arguments_def wrap_error_def)

text \<open>A registry with a summing and a first-argument rule, for the examples.\<close>

definition sample_signature :: "nat \<Rightarrow> functionSignature" where
  "sample_signature n = \<lparr>forms = [fixedSignatureForm (valueSorts n)], parameterForms = [fixedSignatureForm []],
     relations = [], constantRanges = [], sig_place = placementAggregate, allowBare = True, allowOver = True, evidence = ''m''\<rparr>"

definition sample_spec :: "nat \<Rightarrow> (chtype list \<Rightarrow> chtype result) \<Rightarrow> functionSpec" where
  "sample_spec n rule = \<lparr>exactSpelling = [], spec_signature = Some (sample_signature n), spec_rule = Some rule,
     spec_class = wrapperAggregate, strategy = argsGeneric, spec_domain = None, domainMode = argumentDomainUnrestricted,
     domainArgs = [], parameterPolicy = parameterResultUnknown,
     wrapper_transport = None, resultMode = resultRuleGeneric, nonPortableInputs = [], comparesArgPair = False,
     dynamicForcesNullable = False\<rparr>"

definition sample_registry :: registry where
  "sample_registry name =
     (if name = ''sum'' then Some (sample_spec 1 (\<lambda>_. Inr (ty0 ''Int64'')))
      else if name = ''argmax'' then Some (sample_spec 2 (\<lambda>args. Inr (hd args)))
      else None)"

definition sample_call :: "string \<Rightarrow> arg_expr list \<Rightarrow> chtype list \<Rightarrow> combinator_call" where
  "sample_call name ps types = \<lparr>function_name = name, parameter_literals = [], parameter_args = ps,
     context_of = \<lparr>call_args = map (\<lambda>_. ArgOther) types, call_types = map Typed types\<rparr>, first_case = None\<rparr>"

section \<open>Properties\<close>

text \<open>
  C10. Combinator names print and parse back. The name of a base aggregate followed by any chain of the
  fourteen primitives, in any letter case, is read as exactly that base and that chain, and is supported
  exactly when the chain is one of the measured ones; and a name that is read at all is the base and the
  chain it was read as, with the argument plan of that chain.
\<close>

theorem combinator_names_round_trip:
  shows "(\<forall>base \<in> set aggregateBaseNames. \<forall>ps name. ps \<noteq> [] \<and> to_lower name = base @ aggregatePrimitiveChainSuffix ps \<longrightarrow>
       parseAggregateCombinatorChain name =
         (base, \<lparr>primitives = ps, plan = aggregatePlanForPrimitives ps, chain_suffix = aggregatePrimitiveChainSuffix ps\<rparr>,
          if ps \<in> set measuredAggregatePrimitiveChains then aggregateChainSupported else aggregateChainUnsupported)) \<and>
    (\<forall>name base combinator status. parseAggregateCombinatorChain name = (base, combinator, status) \<and>
         status \<noteq> aggregateChainNotFound \<longrightarrow>
       isCombinableBaseAggregate base \<and> primitives combinator \<noteq> [] \<and>
       to_lower name = base @ aggregatePrimitiveChainSuffix (primitives combinator) \<and>
       validateAggregateArgumentPlan combinator = Inr ())"
proof (intro conjI ballI allI impI)
  fix base ps name
  assume "base \<in> set aggregateBaseNames" "ps \<noteq> [] \<and> to_lower name = base @ aggregatePrimitiveChainSuffix ps"
  then show "parseAggregateCombinatorChain name =
         (base, \<lparr>primitives = ps, plan = aggregatePlanForPrimitives ps, chain_suffix = aggregatePrimitiveChainSuffix ps\<rparr>,
          if ps \<in> set measuredAggregatePrimitiveChains then aggregateChainSupported else aggregateChainUnsupported)"
    unfolding chain_combinator_def [symmetric] by (intro parse_chain_name) auto
next
  fix name base combinator status
  assume "parseAggregateCombinatorChain name = (base, combinator, status) \<and> status \<noteq> aggregateChainNotFound"
  then have p: "parseAggregateCombinatorChain name = (base, combinator, status)" "status \<noteq> aggregateChainNotFound" by auto
  show "isCombinableBaseAggregate base" "primitives combinator \<noteq> []"
    "to_lower name = base @ aggregatePrimitiveChainSuffix (primitives combinator)"
    using parse_chain_sound(1,2,4) [OF p] by (simp_all add: isCombinableBaseAggregate_def)
  have "plan combinator = aggregatePlanForPrimitives (primitives combinator)"
    using parse_chain_sound(3) [OF p] by (metis aggregateCombinator.select_convs(2) chain_combinator_def)
  then show "validateAggregateArgumentPlan combinator = Inr ()" by (simp add: validateAggregateArgumentPlan_def)
qed

theorem combinator_names_round_trip_witness:
  "snd (snd (parseAggregateCombinatorChain ''anyLastIfMergeState'')) = aggregateChainSupported \<and>
   primitives (fst (snd (parseAggregateCombinatorChain ''anyLastIfMergeState''))) = [PrimitiveIf, PrimitiveMerge, PrimitiveState] \<and>
   snd (snd (parseAggregateCombinatorChain ''sumIfResample'')) = aggregateChainUnsupported"
proof -
  have n: "to_lower ''anyLastIfMergeState'' = ''anylast'' @ aggregatePrimitiveChainSuffix [PrimitiveIf, PrimitiveMerge, PrimitiveState]"
    "to_lower ''sumIfResample'' = ''sum'' @ aggregatePrimitiveChainSuffix [PrimitiveIf, PrimitiveResample]"
    "[PrimitiveIf, PrimitiveMerge, PrimitiveState] \<in> set measuredAggregatePrimitiveChains"
    "[PrimitiveIf, PrimitiveResample] \<notin> set measuredAggregatePrimitiveChains"
    "''anylast'' \<in> set aggregateBaseNames" "''sum'' \<in> set aggregateBaseNames"
    by code_simp+
  from combinator_names_round_trip n(5) n(1) have
    "parseAggregateCombinatorChain ''anyLastIfMergeState'' = (''anylast'', \<lparr>primitives = [PrimitiveIf, PrimitiveMerge, PrimitiveState],
       plan = aggregatePlanForPrimitives [PrimitiveIf, PrimitiveMerge, PrimitiveState],
       chain_suffix = aggregatePrimitiveChainSuffix [PrimitiveIf, PrimitiveMerge, PrimitiveState]\<rparr>,
       if [PrimitiveIf, PrimitiveMerge, PrimitiveState] \<in> set measuredAggregatePrimitiveChains
       then aggregateChainSupported else aggregateChainUnsupported)" by blast
  moreover from combinator_names_round_trip n(6) n(2) have
    "parseAggregateCombinatorChain ''sumIfResample'' = (''sum'', \<lparr>primitives = [PrimitiveIf, PrimitiveResample],
       plan = aggregatePlanForPrimitives [PrimitiveIf, PrimitiveResample],
       chain_suffix = aggregatePrimitiveChainSuffix [PrimitiveIf, PrimitiveResample]\<rparr>,
       if [PrimitiveIf, PrimitiveResample] \<in> set measuredAggregatePrimitiveChains
       then aggregateChainSupported else aggregateChainUnsupported)" by blast
  ultimately show ?thesis by (simp only: n(3,4) if_True if_False prod.sel aggregateCombinator.select_convs simp_thms)
qed

text \<open>
  C20. A Resample call that passes ends in three signed 64-bit integer constants with a positive step
  and, for a non-empty range, at most 1048576 buckets, counted exactly in the integers: the unsigned
  64-bit subtraction, division and rounding up of the source never wrap.
\<close>

theorem resample_parameters_bounded:
  assumes "resampleKeyArgument (plan combinator)"
    and "validateAggregateCombinatorParameters reg parseFloat base combinator f = Inr ()"
  shows "\<exists>front a b c start stop step. parameter_args f = front @ [a, b, c] \<and>
    signedIntegerConstant a = Some start \<and> signedIntegerConstant b = Some stop \<and> signedIntegerConstant c = Some step \<and>
    0 < step \<and> (start < stop \<longrightarrow> (stop - start + step - 1) div step \<le> 1048576)"
proof -
  let ?ps = "parameter_args f"
  obtain signature where sig: "functionSignatureFor reg base = Some signature"
    using assms(2) by (auto simp: validateAggregateCombinatorParameters_def split: option.splits)
  have l: "3 \<le> length ?ps" and c: "checkResampleParameters (function_name f) (drop (length ?ps - 3) ?ps) = Inr ()"
    using assms by (auto simp: validateAggregateCombinatorParameters_def sig Let_def split: if_splits)
  have "length (drop (length ?ps - 3) ?ps) = Suc (Suc (Suc 0))" using l by simp
  then obtain x y z where d: "drop (length ?ps - 3) ?ps = [x, y, z]"
    unfolding length_Suc_conv length_0_conv by blast
  then have p: "?ps = take (length ?ps - 3) ?ps @ [x, y, z]" using append_take_drop_id [of "length ?ps - 3" ?ps] by simp
  from c obtain start stop step where "signedIntegerConstant x = Some start" "signedIntegerConstant y = Some stop"
    "signedIntegerConstant z = Some step" "0 < step" "start < stop \<longrightarrow> (stop - start + step - 1) div step \<le> 1048576"
    unfolding d checkResampleParameters_iff by blast
  with p show ?thesis by blast
qed

text \<open>
  C6. A merge combinator reads only states of its own aggregate: when a state built by State, IfState,
  StateIf or StateOrNull of one base is typed by Merge, IfMerge, MergeState or IfMergeState of another
  base, both bases have the same ClickHouse name (median is quantile), the state stores a condition
  exactly when the merge asks for one, and it is not an OrNull state.
\<close>

theorem merge_reads_only_its_states:
  assumes "building \<in> set building_chains" and "merging \<in> set merging_chains"
    and "isCombinableBaseAggregate base" and "isCombinableBaseAggregate base'"
    and "combinator_result reg base (aggregatePlanForPrimitives building) f n argTypes = Inr state"
    and "combinator_result reg base' (aggregatePlanForPrimitives merging) g 1 [state] = Inr t"
  shows "baseAggregateDisplayName base = baseAggregateDisplayName base' \<and>
    (building = [PrimitiveIf, PrimitiveState] \<longleftrightarrow> PrimitiveIf \<in> set merging) \<and>
    building \<noteq> [PrimitiveState, PrimitiveOrNull]"
proof -
  obtain args where s: "state = aggregate_state (baseAggregateDisplayName base @ state_tag building) (parameter_literals f) args"
    by (rule built_state [OF assms(1,5)])
  have e: "equal_fold (baseAggregateDisplayName base @ state_tag building) (baseAggregateDisplayName base' @ wanted_tag merging)"
    using assms(6) merge_needs_name unfolding s merging_plan(1) [OF assms(2)] wanted_tag_def
    by (simp only: merging_plan(2) [OF assms(2), symmetric])
  have tags: "state_tag building \<in> {[], ''If'', ''OrNull''}" "wanted_tag merging \<in> {[], ''If''}"
    by (simp_all add: state_tag_def wanted_tag_def)
  have "baseAggregateDisplayName base = baseAggregateDisplayName base'" "state_tag building = wanted_tag merging"
    using state_name_match [OF e] assms(3,4) tags by (simp_all add: isCombinableBaseAggregate_def)
  then show ?thesis by (auto simp: state_tag_def wanted_tag_def split: if_splits)
qed

theorem merge_reads_only_its_states_witness:
  "combinator_result sample_registry ''sum'' (aggregatePlanForPrimitives [PrimitiveIf, PrimitiveState])
     (sample_call ''sumIfState'' [] [ty0 ''Int32'', ty0 ''UInt8'']) 1 [ty0 ''Int32'']
     = Inr (ty1 ''AggregateFunction'' [ty0 ''sumIf'', ty0 ''Int32'', ty0 ''UInt8'']) \<and>
   combinator_result sample_registry ''sum'' (aggregatePlanForPrimitives [PrimitiveIf, PrimitiveMerge])
     (sample_call ''sumIfMerge'' [] [ty1 ''AggregateFunction'' [ty0 ''sumIf'', ty0 ''Int32'', ty0 ''UInt8'']]) 1
     [ty1 ''AggregateFunction'' [ty0 ''sumIf'', ty0 ''Int32'', ty0 ''UInt8'']] = Inr (ty0 ''Int64'') \<and>
   baseAggregateDisplayName ''sum'' = baseAggregateDisplayName ''sum'' \<and>
   ([PrimitiveIf, PrimitiveState] = [PrimitiveIf, PrimitiveState] \<longleftrightarrow> PrimitiveIf \<in> set [PrimitiveIf, PrimitiveMerge])"
proof -
  let ?s = "ty1 ''AggregateFunction'' [ty0 ''sumIf'', ty0 ''Int32'', ty0 ''UInt8'']"
  have c: "[PrimitiveIf, PrimitiveState] \<in> set building_chains" "[PrimitiveIf, PrimitiveMerge] \<in> set merging_chains"
    "isCombinableBaseAggregate ''sum''" by code_simp+
  have b: "combinator_result sample_registry ''sum'' (aggregatePlanForPrimitives [PrimitiveIf, PrimitiveState])
     (sample_call ''sumIfState'' [] [ty0 ''Int32'', ty0 ''UInt8'']) 1 [ty0 ''Int32''] = Inr ?s" by code_simp
  have m: "combinator_result sample_registry ''sum'' (aggregatePlanForPrimitives [PrimitiveIf, PrimitiveMerge])
     (sample_call ''sumIfMerge'' [] [?s]) 1 [?s] = Inr (ty0 ''Int64'')" by code_simp
  from merge_reads_only_its_states [OF c(1,2,3,3) b m] b m show ?thesis by simp
qed

theorem resample_parameters_bounded_witness:
  "\<exists>front a b c start stop step. [ArgNumber ''0'', ArgNumber ''10'', ArgNumber ''3''] = front @ [a, b, c] \<and>
     signedIntegerConstant a = Some start \<and> signedIntegerConstant b = Some stop \<and> signedIntegerConstant c = Some step \<and>
     0 < step \<and> (start < stop \<longrightarrow> (stop - start + step - 1) div step \<le> 1048576)"
proof -
  let ?c = "\<lparr>primitives = [PrimitiveResample], plan = aggregatePlanForPrimitives [PrimitiveResample], chain_suffix = ''resample''\<rparr>"
  let ?f = "sample_call ''sumResample'' [ArgNumber ''0'', ArgNumber ''10'', ArgNumber ''3''] [ty0 ''Int32'', ty0 ''Int8'']"
  have k: "resampleKeyArgument (plan ?c)" by code_simp
  have v: "validateAggregateCombinatorParameters sample_registry (\<lambda>_. None) ''sum'' ?c ?f = Inr ()" by code_simp
  have p: "parameter_args ?f = [ArgNumber ''0'', ArgNumber ''10'', ArgNumber ''3'']" by (simp add: sample_call_def)
  from resample_parameters_bounded [OF k v] show ?thesis unfolding p by blast
qed

text \<open>
  C22. A state merges back. For arguments the base aggregate takes, Merge over the state that State
  builds gives the ordinary result of the base over the stored argument types, and MergeState gives the
  state back with the parameter literals of the merging call.
\<close>

theorem state_merges_back:
  assumes "combinator_result reg base (aggregatePlanForPrimitives [PrimitiveState]) f n argTypes = Inr state"
    and "validateBaseAggregateArity reg base (function_name g) (int (length argTypes)) = Inr ()"
  shows "combinator_result reg base (aggregatePlanForPrimitives [PrimitiveMerge]) g 1 [state] =
      baseAggregateResultType reg base (function_name g) (tl (Params state)) \<and>
    combinator_result reg base (aggregatePlanForPrimitives [PrimitiveMerge, PrimitiveState]) g 1 [state] =
      Inr (ty1 ''AggregateFunction'' (tyl (baseAggregateDisplayName base) (parameter_literals g) # tl (Params state))) \<and>
    length (tl (Params state)) = length argTypes \<and> (\<forall>t \<in> set (tl (Params state)). no_low_cardinality t)"
proof -
  define args where "args = map (plain_state_argument (aggregatePlanForPrimitives [PrimitiveState])) argTypes"
  have s: "state = aggregate_state (baseAggregateDisplayName base) (parameter_literals f) args"
    using assms(1) by (auto simp: combinator_result_def plan_eval state_type_def args_def)
  have clean: "no_low_cardinality t" if "t \<in> set args" for t
    using that by (auto simp: args_def plain_state_argument_def Let_def applyCHWrappers_def nlc_wrapNullable
        strip_nested_eq_deep stripLowCardinalityDeep_clean)
  have m: "[PrimitiveMerge] \<in> set merging_chains" "[PrimitiveMerge, PrimitiveState] \<in> set merging_chains"
    by (simp_all add: merging_chains_def)
  have "\<not> stateHasCondition (aggregatePlanForPrimitives [PrimitiveMerge])"
    "\<not> stateHasCondition (aggregatePlanForPrimitives [PrimitiveMerge, PrimitiveState])"
    by (simp_all add: merging_plan(2) m)
  moreover have "validateBaseAggregateArity reg base (function_name g) (int (length args)) = Inr ()"
    using assms(2) by (simp add: args_def)
  ultimately show ?thesis
    using clean by (simp add: s merging_plan m merge_of_state) (simp add: aggregate_state_def args_def)
qed

theorem state_merges_back_witness:
  "combinator_result sample_registry ''argmax'' (aggregatePlanForPrimitives [PrimitiveMerge])
     (sample_call ''argMaxMerge'' [] []) 1
     [ty1 ''AggregateFunction'' [ty0 ''argMax'', ty0 ''String'', ty1 ''Nullable'' [ty0 ''Int8'']]]
   = Inr (ty1 ''Nullable'' [ty0 ''String''])"
proof -
  let ?args = "[ty1 ''LowCardinality'' [ty0 ''String''], ty1 ''Nullable'' [ty0 ''Int8'']]"
  let ?s = "ty1 ''AggregateFunction'' [ty0 ''argMax'', ty0 ''String'', ty1 ''Nullable'' [ty0 ''Int8'']]"
  have b: "combinator_result sample_registry ''argmax'' (aggregatePlanForPrimitives [PrimitiveState])
     (sample_call ''argMaxState'' [] ?args) 2 ?args = Inr ?s" by code_simp
  have a: "validateBaseAggregateArity sample_registry ''argmax'' (function_name (sample_call ''argMaxMerge'' [] []))
     (int (length ?args)) = Inr ()" by code_simp
  have r: "baseAggregateResultType sample_registry ''argmax'' (function_name (sample_call ''argMaxMerge'' [] [])) (tl (Params ?s))
     = Inr (ty1 ''Nullable'' [ty0 ''String''])" by code_simp
  from state_merges_back [OF b a] r show ?thesis by simp
qed

text \<open>
  IfMerge takes the -If condition off the state for the arity check only: the base rule and its
  Nullable flag still see it. With a Nullable condition, argMaxIf over two plain columns is not Nullable,
  and argMaxIfMerge over the state of the same call is.
\<close>

lemma if_merge_counts_the_condition:
  "combinator_result sample_registry ''argmax'' (aggregatePlanForPrimitives [PrimitiveIf])
     (sample_call ''argMaxIf'' [] [ty0 ''Int32'', ty0 ''Int32'', ty1 ''Nullable'' [ty0 ''UInt8'']]) 2
     [ty0 ''Int32'', ty0 ''Int32''] = Inr (ty0 ''Int32'')"
  "combinator_result sample_registry ''argmax'' (aggregatePlanForPrimitives [PrimitiveIf, PrimitiveState])
     (sample_call ''argMaxIfState'' [] [ty0 ''Int32'', ty0 ''Int32'', ty1 ''Nullable'' [ty0 ''UInt8'']]) 2
     [ty0 ''Int32'', ty0 ''Int32''] =
     Inr (ty1 ''AggregateFunction'' [ty0 ''argMaxIf'', ty0 ''Int32'', ty0 ''Int32'', ty1 ''Nullable'' [ty0 ''UInt8'']])"
  "combinator_result sample_registry ''argmax'' (aggregatePlanForPrimitives [PrimitiveIf, PrimitiveMerge])
     (sample_call ''argMaxIfMerge'' [] []) 1
     [ty1 ''AggregateFunction'' [ty0 ''argMaxIf'', ty0 ''Int32'', ty0 ''Int32'', ty1 ''Nullable'' [ty0 ''UInt8'']]] =
     Inr (ty1 ''Nullable'' [ty0 ''Int32''])"
  by code_simp+

end
