(* ===== verification/Suggest.thy ===== *)
theory Suggest
  imports Prelude "HOL-Library.List_Lexorder" "HOL-Library.Char_ord"
begin

text \<open>
  The suggestion of a misspelt name: the edit distance with its two rows, and the choice of the one
  candidate nearest to the name.
\<close>

section \<open>The two-row distance\<close>

text \<open>One row of the table from the one above: \<open>left\<close> is the entry to the left, \<open>diagonal\<close> the one above it.\<close>

fun distance_row :: "char \<Rightarrow> string \<Rightarrow> nat \<Rightarrow> nat \<Rightarrow> nat list \<Rightarrow> nat list" where
  "distance_row c (d # right) left diagonal (up # rest) =
     (let cost = (if c = d then 0 else 1);
          entry = min (up + 1) (min (left + 1) (diagonal + cost))
      in entry # distance_row c right entry up rest)"
| "distance_row c right left diagonal row = []"

definition next_row :: "nat \<Rightarrow> char \<Rightarrow> string \<Rightarrow> nat list \<Rightarrow> nat list" where
  "next_row row c right prev = row # distance_row c right row (hd prev) (tl prev)"

fun distance_rows :: "nat \<Rightarrow> string \<Rightarrow> string \<Rightarrow> nat list \<Rightarrow> nat list" where
  "distance_rows row [] right prev = prev"
| "distance_rows row (c # left) right prev = distance_rows (Suc row) left right (next_row row c right prev)"

definition editDistance :: "string \<Rightarrow> string \<Rightarrow> nat" where
  "editDistance left right = last (distance_rows 1 left right [0..<Suc (length right)])"

section \<open>The choice\<close>

record suggestion =
  best :: string
  bestDistance :: nat
  tie :: bool

definition weigh_candidate :: "string \<Rightarrow> string \<Rightarrow> suggestion \<Rightarrow> suggestion" where
  "weigh_candidate name candidate st =
     (if candidate = name then st
      else let distance = editDistance name candidate in
        if distance < bestDistance st then \<lparr>best = candidate, bestDistance = distance, tie = False\<rparr>
        else if distance = bestDistance st \<and> candidate \<noteq> best st then st\<lparr>tie := True\<rparr>
        else st)"

definition suggestName :: "string \<Rightarrow> string list \<Rightarrow> string" where
  "suggestName name candidates =
     (let st = fold (weigh_candidate name) (sort candidates) \<lparr>best = [], bestDistance = 3, tie = False\<rparr>
      in if tie st \<or> bestDistance st > 2 then [] else best st)"

section \<open>The distance by definition\<close>

text \<open>The distance on the reversed texts, by the three ways the last step of an edit can go.\<close>

fun distance_rev :: "string \<Rightarrow> string \<Rightarrow> nat" where
  "distance_rev [] ys = length ys"
| "distance_rev (x # xs) [] = Suc (length xs)"
| "distance_rev (x # xs) (y # ys) =
     min (distance_rev xs (y # ys) + 1) (min (distance_rev (x # xs) ys + 1)
       (distance_rev xs ys + (if x = y then 0 else 1)))"

definition distance_spec :: "string \<Rightarrow> string \<Rightarrow> nat" where
  "distance_spec left right = distance_rev (rev left) (rev right)"

text \<open>An edit script: keep or replace a character, drop one, add one; with the number of its edits.\<close>

inductive edits :: "string \<Rightarrow> string \<Rightarrow> nat \<Rightarrow> bool" where
  finish: "edits [] [] 0"
| keep: "edits xs ys n \<Longrightarrow> edits (x # xs) (x # ys) n"
| replace: "edits xs ys n \<Longrightarrow> edits (x # xs) (y # ys) (Suc n)"
| remove: "edits xs ys n \<Longrightarrow> edits (x # xs) ys (Suc n)"
| insert: "edits xs ys n \<Longrightarrow> edits xs (y # ys) (Suc n)"

inductive_cases edits_NilE: "edits [] ys n"
inductive_cases edits_ConsNilE: "edits (x # xs) [] n"
inductive_cases edits_ConsE: "edits (x # xs) (y # ys) n"

lemma edits_length: "edits xs ys n \<Longrightarrow> length ys \<le> n + length xs \<and> length xs \<le> n + length ys"
  by (induction rule: edits.induct) auto

lemma edits_append: "edits xs ys n \<Longrightarrow> edits us vs m \<Longrightarrow> edits (xs @ us) (ys @ vs) (n + m)"
  by (induction rule: edits.induct) (auto intro: edits.intros)

lemma edits_rev: "edits xs ys n \<Longrightarrow> edits (rev xs) (rev ys) n"
proof (induction rule: edits.induct)
  case (keep xs ys n x)
  then show ?case using edits_append [OF keep.IH edits.keep [OF edits.finish, of x]] by simp
next
  case (replace xs ys n x y)
  then show ?case using edits_append [OF replace.IH edits.replace [OF edits.finish, of x y]] by simp
next
  case (remove xs ys n x)
  then show ?case using edits_append [OF remove.IH edits.remove [OF edits.finish, of x]] by simp
next
  case (insert xs ys n y)
  then show ?case using edits_append [OF insert.IH edits.insert [OF edits.finish, of y]] by simp
qed (simp add: edits.finish)

lemma edits_to_Nil: "edits xs [] (length xs)"
  by (induction xs) (auto intro: edits.intros)

lemma edits_from_Nil: "edits [] ys (length ys)"
  by (induction ys) (auto intro: edits.intros)

lemma distance_rev_Nil: "distance_rev xs [] = length xs"
  by (cases xs) auto

lemma distance_rev_edits: "edits xs ys (distance_rev xs ys)"
proof (induction xs ys rule: distance_rev.induct)
  case (1 ys)
  show ?case by (simp add: edits_from_Nil)
next
  case (2 x xs)
  show ?case using edits_to_Nil [of "x # xs"] by simp
next
  case (3 x xs y ys)
  have "edits (x # xs) (y # ys) (distance_rev xs (y # ys) + 1)" using 3(1) by (simp add: edits.remove)
  moreover have "edits (x # xs) (y # ys) (distance_rev (x # xs) ys + 1)" using 3(2) by (simp add: edits.insert)
  moreover have "edits (x # xs) (y # ys) (distance_rev xs ys + (if x = y then 0 else 1))"
    using 3(3) by (auto intro: edits.keep edits.replace)
  ultimately show ?case by (simp only: distance_rev.simps) (metis min_def)
qed

lemma distance_rev_least: "edits xs ys n \<Longrightarrow> distance_rev xs ys \<le> n"
proof (induction rule: edits.induct)
  case (remove xs ys n x)
  show ?case using remove.IH by (cases ys) (auto simp: distance_rev_Nil)
next
  case (insert xs ys n y)
  show ?case using insert.IH by (cases xs) auto
qed auto

definition least_edits :: "string \<Rightarrow> string \<Rightarrow> nat \<Rightarrow> bool" where
  "least_edits xs ys n \<longleftrightarrow> edits xs ys n \<and> (\<forall>m. edits xs ys m \<longrightarrow> n \<le> m)"

lemma distance_spec_least: "least_edits xs ys (distance_spec xs ys)"
  using distance_rev_edits [of "rev xs" "rev ys"] edits_rev [of "rev xs" "rev ys"]
    distance_rev_least [OF edits_rev]
  by (auto simp: least_edits_def distance_spec_def)

lemma least_edits_unique: "least_edits xs ys n \<Longrightarrow> least_edits xs ys m \<Longrightarrow> n = m"
  by (auto simp: least_edits_def intro: le_antisym)

text \<open>A row of the table from the second entry on; \<open>p\<close> is the part of the right text already read, reversed.\<close>

fun row_tail :: "string \<Rightarrow> string \<Rightarrow> string \<Rightarrow> nat list" where
  "row_tail l p [] = []"
| "row_tail l p (d # s) = distance_rev l (d # p) # row_tail l (d # p) s"

lemma distance_row_tail:
  "distance_row c s (distance_rev (c # l) p) (distance_rev l p) (row_tail l p s) = row_tail (c # l) p s"
proof (induction s arbitrary: p)
  case (Cons d s)
  have "min (distance_rev l (d # p) + 1) (min (distance_rev (c # l) p + 1) (distance_rev l p + (if c = d then 0 else 1)))
      = distance_rev (c # l) (d # p)" by simp
  with Cons.IH [of "d # p"] show ?case by (simp only: row_tail.simps distance_row.simps Let_def)
qed simp

lemma row_tail_first: "row_tail [] p s = [Suc (length p)..<Suc (length p + length s)]"
proof (induction s arbitrary: p)
  case (Cons d s)
  from Cons.IH [of "d # p"] show ?case by (simp add: upt_conv_Cons del: upt_Suc)
qed simp

lemma distance_rows_eq:
  "distance_rows (Suc (length l)) left right (length l # row_tail l [] right)
   = (length l + length left) # row_tail (rev left @ l) [] right"
proof (induction left arbitrary: l)
  case (Cons c left)
  have "next_row (Suc (length l)) c right (length l # row_tail l [] right) = Suc (length l) # row_tail (c # l) [] right"
    using distance_row_tail [of c right l "[]"] by (simp add: next_row_def distance_rev_Nil)
  with Cons.IH [of "c # l"] show ?case by simp
qed simp

lemma last_row_tail: "last (distance_rev l p # row_tail l p s) = distance_rev l (rev s @ p)"
  by (induction s arbitrary: p) auto

lemma editDistance_spec: "editDistance left right = distance_spec left right"
proof -
  have "[0..<Suc (length right)] = length ([] :: string) # row_tail [] [] right"
    by (simp add: row_tail_first upt_conv_Cons del: upt_Suc)
  then show ?thesis
    using distance_rows_eq [of "[]" left right] last_row_tail [of "rev left" "[]" right]
    by (simp add: editDistance_def distance_spec_def distance_rev_Nil)
qed

section \<open>The suggestion\<close>

definition nearest :: "string \<Rightarrow> string set \<Rightarrow> string \<Rightarrow> bool" where
  "nearest name candidates c \<longleftrightarrow> c \<in> candidates \<and> c \<noteq> name \<and> editDistance name c \<le> 2
     \<and> (\<forall>d \<in> candidates. d \<noteq> name \<longrightarrow> d \<noteq> c \<longrightarrow> editDistance name c < editDistance name d)"

definition weighed :: "string \<Rightarrow> string set \<Rightarrow> suggestion \<Rightarrow> bool" where
  "weighed name cs st \<longleftrightarrow>
     (\<forall>d \<in> cs. d \<noteq> name \<longrightarrow> bestDistance st \<le> editDistance name d) \<and> bestDistance st \<le> 3
     \<and> (bestDistance st < 3 \<longrightarrow> best st \<in> cs \<and> best st \<noteq> name \<and> editDistance name (best st) = bestDistance st
          \<and> (tie st \<longleftrightarrow> (\<exists>d \<in> cs. d \<noteq> name \<and> d \<noteq> best st \<and> editDistance name d = bestDistance st)))"

lemma weigh_keeps: "weighed name cs st \<Longrightarrow> weighed name (Set.insert c cs) (weigh_candidate name c st)"
  unfolding weighed_def weigh_candidate_def
  by (cases "c = name"; cases "editDistance name c" "bestDistance st" rule: linorder_cases)
     (auto simp: Let_def)

lemma weigh_all: "weighed name (set done_before) st \<Longrightarrow> weighed name (set done_before \<union> set cs) (fold (weigh_candidate name) cs st)"
proof (induction cs arbitrary: done_before st)
  case (Cons c cs)
  from Cons.IH [of "c # done_before"] weigh_keeps [OF Cons.prems, of c] show ?case by simp
qed simp

lemma suggestName_nearest: "c \<noteq> [] \<Longrightarrow> suggestName name candidates = c \<longleftrightarrow> nearest name (set candidates) c"
proof -
  assume c: "c \<noteq> []"
  let ?st = "fold (weigh_candidate name) (sort candidates) \<lparr>best = [], bestDistance = 3, tie = False\<rparr>"
  have w: "weighed name (set candidates) ?st"
    using weigh_all [of name "[]" "\<lparr>best = [], bestDistance = 3, tie = False\<rparr>" "sort candidates"]
    by (simp add: weighed_def)
  show ?thesis
  proof
    assume "suggestName name candidates = c"
    then have "\<not> tie ?st" "bestDistance ?st \<le> 2" "best ?st = c"
      using c by (auto simp: suggestName_def Let_def split: if_splits)
    moreover have "best ?st \<in> set candidates" "best ?st \<noteq> name" "editDistance name (best ?st) = bestDistance ?st"
      and "tie ?st \<longleftrightarrow> (\<exists>d \<in> set candidates. d \<noteq> name \<and> d \<noteq> best ?st \<and> editDistance name d = bestDistance ?st)"
      and "\<forall>d \<in> set candidates. d \<noteq> name \<longrightarrow> bestDistance ?st \<le> editDistance name d"
      using w calculation unfolding weighed_def by auto
    ultimately show "nearest name (set candidates) c"
      unfolding nearest_def by (metis le_neq_implies_less)
  next
    assume n: "nearest name (set candidates) c"
    then have le: "bestDistance ?st \<le> editDistance name c" "bestDistance ?st < 3"
      using w unfolding weighed_def nearest_def by fastforce+
    then have b: "best ?st \<in> set candidates" "best ?st \<noteq> name" "editDistance name (best ?st) = bestDistance ?st"
      and t: "tie ?st \<longleftrightarrow> (\<exists>d \<in> set candidates. d \<noteq> name \<and> d \<noteq> best ?st \<and> editDistance name d = bestDistance ?st)"
      using w unfolding weighed_def by blast+
    have "\<not> editDistance name c < editDistance name (best ?st)" using le b by simp
    then have best: "best ?st = c" using n b unfolding nearest_def by metis
    have "\<not> tie ?st"
      using t n b best unfolding nearest_def by fastforce
    with best show "suggestName name candidates = c" using le by (simp add: suggestName_def)
  qed
qed

text \<open>
  C28. The two-row distance is the least number of edits (replace, drop or add one character) that turn the
  one name into the other, and a name is suggested exactly when it is the one candidate nearest to the
  misspelt name, at two edits at most: with two candidates equally near nothing is suggested.
\<close>

theorem suggestion_is_nearest_name:
  assumes "c \<noteq> []"
  shows "least_edits left right (editDistance left right)
    \<and> (suggestName name candidates = c \<longleftrightarrow> nearest name (set candidates) c)"
  using assms by (simp add: distance_spec_least editDistance_spec suggestName_nearest)

theorem suggestion_is_nearest_name_witness:
  "least_edits ''acount'' ''account'' 1 \<and> suggestName ''usr'' [''user'', ''account'', ''usage''] = ''user''
   \<and> nearest ''usr'' {''user'', ''account'', ''usage''} ''user''"
proof -
  have "editDistance ''acount'' ''account'' = 1" by code_simp
  moreover have "suggestName ''usr'' [''user'', ''account'', ''usage''] = ''user''" by code_simp
  ultimately show ?thesis
    using suggestion_is_nearest_name [of "''user''" "''acount''" "''account''" "''usr''" "[''user'', ''account'', ''usage'']"]
    by simp
qed

end
