(* ===== verification/Expr.thy ===== *)
theory Expr
  imports Combinators Catalog Suggest
begin

text \<open>
  The expressions of a query as the inference sees them, and the scope it looks names up in
  (\<^verbatim>\<open>resolver.go\<close>, \<^verbatim>\<open>supertype.go\<close>). The syntax tree belongs to the SQL parser; the datatype has the
  node kinds the engine distinguishes and of each node the fields it reads. A node of another kind is
  \<open>EOther\<close> with its kind.
\<close>

section \<open>The syntax tree\<close>

datatype cast_target = TargetString string | TargetType col_type | TargetOther string

datatype frame_bound = BoundCurrentRow | BoundUnbounded string | BoundNumber string string
  | BoundInterval | BoundParam | BoundOther string

datatype frame_extent = ExtentBetween frame_bound frame_bound | ExtentFrom frame_bound

record window_frame =
  frame_type :: string
  frame_extend :: frame_extent

datatype expr =
    EColumn expr
  | EIdent string (unquoted: bool)
  | ESubQuery nat
  | EPath "string list"
  | EParens "expr list option" (has_columns: bool)
  | EArray "expr list option"
  | EIndex string expr expr
  | EObject expr "expr list option"
  | EUnary string expr
  | EBinary expr string expr
  | ECase "expr option" "(expr option \<times> expr option) list" "expr option"
  | EBetween "expr option" "expr option" "expr option"
  | EIsNull expr
  | EIsNotNull expr
  | EFunction string "expr list option" "expr list option"
  | EWindow string "expr list option" "expr list option" window_over
  | ECast "expr option" cast_target
  | EInterval expr "string option"
  | ENumber string
  | EString string
  | EBool string
  | ENull
  | EPlaceholder
  | EOther string
and window_over = OverName string | OverWindow window_spec | OverOther string
and window_spec = WindowSpec (partition_by: "expr list option") (order_by: "expr list option")
    (frame_of: "window_frame option") (window_name: "string option")

text \<open>
  \<open>EFunction name items cols\<close>: the parameter list and, for a parametric aggregate such as
  quantile(0.5)(x), the list of the data arguments behind it. \<open>None\<close> items is a nil list.
\<close>

fun unwrap_column :: "expr \<Rightarrow> expr" where
  "unwrap_column (EColumn e) = e"
| "unwrap_column e = e"

fun unwrapColumnExpression :: "expr \<Rightarrow> expr" where
  "unwrapColumnExpression (EColumn e) = unwrapColumnExpression e"
| "unwrapColumnExpression e = e"

definition functionArgs :: "expr list option \<Rightarrow> expr list option \<Rightarrow> expr list" where
  "functionArgs items cols = (case items of
       None \<Rightarrow> []
     | Some ps \<Rightarrow> map unwrap_column (case cols of Some cs \<Rightarrow> cs | None \<Rightarrow> ps))"

definition functionParameterArgs :: "expr list option \<Rightarrow> expr list option \<Rightarrow> expr list" where
  "functionParameterArgs items cols = (case (items, cols) of
       (Some ps, Some _) \<Rightarrow> map unwrap_column ps | _ \<Rightarrow> [])"

text \<open>The two views of an expression that the call checks and the literal narrowing read.\<close>

fun arg_of :: "expr \<Rightarrow> arg_expr" where
  "arg_of (EColumn e) = ArgColumn (arg_of e)"
| "arg_of (EIdent name _) = ArgIdent name"
| "arg_of (ENumber literal) = ArgNumber literal"
| "arg_of (EString literal) = ArgString literal"
| "arg_of (EInterval _ _) = ArgInterval"
| "arg_of (EUnary operation e) = ArgUnary operation (arg_of e)"
| "arg_of (EBinary l operation r) = ArgBinary operation (arg_of l) (arg_of r)"
| "arg_of (EParens items _) = ArgParamList (map_option (map arg_of) items)"
| "arg_of _ = ArgOther"

fun lit_of :: "expr \<Rightarrow> lit_expr" where
  "lit_of (EColumn e) = ColumnExpr (lit_of e)"
| "lit_of (EParens items _) = ParamExprList (map_option (map lit_of) items)"
| "lit_of (ENumber literal) = NumberLiteral literal"
| "lit_of (EFunction name items _) = FunctionExpr name (map_option (map lit_of) items)"
| "lit_of (ECase _ whens els) = CaseExpr (map (\<lambda>w. map_option lit_of (snd w)) whens) (map_option lit_of els)"
| "lit_of _ = OtherExpr"

text \<open>\<open>unwrapConstantOperand\<close>: the shell of an argument and a redundant pair of parentheses.\<close>

fun unwrapConstantOperand :: "expr \<Rightarrow> expr" where
  "unwrapConstantOperand (EColumn e) = unwrapConstantOperand e"
| "unwrapConstantOperand (EParens (Some [e]) False) = unwrapConstantOperand e"
| "unwrapConstantOperand e = e"

text \<open>A lambda as its parameter names and its body.\<close>

fun lambda_parts :: "expr \<Rightarrow> (string list \<times> expr) option" where
  "lambda_parts (EColumn e) = lambda_parts e"
| "lambda_parts (EBinary left operation right) =
     (if operation \<noteq> ''->'' then None
      else case left of
          EIdent n _ \<Rightarrow> Some ([n], right)
        | EParens (Some items) _ \<Rightarrow>
            (if items = [] then None
             else map_option (\<lambda>names. (names, right)) (those (map (\<lambda>i. ident_name (arg_of i)) items)))
        | _ \<Rightarrow> None)"
| "lambda_parts e = None"

lemma lambda_parts_arg_of: "lambdaParts (arg_of e) = map_option (\<lambda>(names, body). (names, arg_of body)) (lambda_parts e)"
proof (induction e rule: lambda_parts.induct)
  case (2 left operation right)
  show ?case
    by (cases left) (auto simp: comp_def option.map_comp split: option.splits)
qed auto

lemma isLambdaExpr_arg_of: "isLambdaExpr (arg_of e) \<longleftrightarrow> lambda_parts e \<noteq> None"
  by (simp add: isLambdaExpr_def lambda_parts_arg_of)

lemma size_unwrap_column: "size (unwrap_column e) \<le> size e"
  by (cases e) auto

lemma size_unwrapColumnExpression: "size (unwrapColumnExpression e) \<le> size e"
  by (induction e rule: unwrapColumnExpression.induct) auto

lemma size_unwrapConstantOperand: "size (unwrapConstantOperand e) \<le> size e"
  by (induction e rule: unwrapConstantOperand.induct) auto

lemma size_list_member_le: "x \<in> set xs \<Longrightarrow> f x \<le> size_list f xs"
  by (induction xs) auto

lemma size_functionArgs:
  assumes "x \<in> set (functionArgs items cols)"
  shows "size x < size (EFunction name items cols)" "size x < size (EWindow name items cols over)"
proof -
  obtain ps cs where ps: "items = Some ps" and x: "\<exists>y \<in> set (case cols of Some cs \<Rightarrow> cs | None \<Rightarrow> ps). x = unwrap_column y"
    using assms by (cases items) (auto simp: functionArgs_def)
  then obtain y where y: "y \<in> set (case cols of Some cs \<Rightarrow> cs | None \<Rightarrow> ps)" "x = unwrap_column y" by blast
  then have "size x \<le> size y" by (simp add: size_unwrap_column)
  moreover have "size y \<le> size_option (size_list size) items + size_option (size_list size) cols"
    using y ps size_list_member_le [of y _ size] by (cases cols) (fastforce simp: trans_le_add2 trans_le_add1)+
  ultimately show "size x < size (EFunction name items cols)" "size x < size (EWindow name items cols over)"
    by auto
qed

lemma unwrap_size:
  "unwrapConstantOperand e = EFunction name items cols \<Longrightarrow> x \<in> set (functionArgs items cols) \<Longrightarrow> size x < size e"
  "unwrapConstantOperand e = ECast (Some operand) target \<Longrightarrow> size operand < size e"
  "unwrapConstantOperand e = EUnary operation operand \<Longrightarrow> size operand < size e"
  "unwrapConstantOperand e = EBinary left operation right \<Longrightarrow> size left < size e"
  "unwrapConstantOperand e = EBinary left operation right \<Longrightarrow> size right < size e"
  using size_unwrapConstantOperand [of e] size_functionArgs(1) [of x items cols name] by auto

lemma size_lambda_body: "lambda_parts e = Some (names, body) \<Longrightarrow> size body < size e"
  by (induction e rule: lambda_parts.induct)
     (auto simp: less_Suc_eq_le split: if_splits expr.splits option.splits)

section \<open>Scopes\<close>

record scopedTable =
  scoped_table :: table
  scoped_alias :: string

text \<open>
  One level of names. \<open>ir_lookup\<close> is the lookup of a scope that the SQL IR has bound, and answers a type
  name. A scope is a stack of levels, the innermost first; the parent of a scope is its tail. The Go maps
  that are only read by key are association lists, so a scope is a finite object; the one map that is
  iterated (a scalar of the same name up to case) is read in the order of its list.
\<close>

record scope_level =
  ir_lookup :: "(string \<Rightarrow> string \<Rightarrow> string result) option"
  scope_tables :: "scopedTable list"
  scalars :: "(string \<times> chtype) list"
  projectionAliases :: "(string \<times> chtype) list"
  projectionExprs :: "(string \<times> expr) list"
  aliasExpansion :: "string list"
  fromBindingStart :: nat
  reservedScalars :: "string list"
  usingTypes :: "(string \<times> chtype) list"
  usingQualified :: "(string \<times> chtype) list"
  arrayJoinTypes :: "(string \<times> chtype) list"
  arrayJoinQualified :: "(string \<times> chtype) list"
  exactScalarNames :: bool
  windows :: "(string \<times> window_spec) list"
  scalarSubqueries :: "(nat \<times> chtype) list"

type_synonym queryScope = "scope_level list"

definition empty_level :: scope_level where
  "empty_level = \<lparr>ir_lookup = None, scope_tables = [], scalars = [], projectionAliases = [], projectionExprs = [],
     aliasExpansion = [], fromBindingStart = 0, reservedScalars = [], usingTypes = [], usingQualified = [],
     arrayJoinTypes = [], arrayJoinQualified = [], exactScalarNames = False, windows = [], scalarSubqueries = []\<rparr>"

definition local_scalar :: "scope_level \<Rightarrow> string \<Rightarrow> chtype option" where
  "local_scalar level name =
     (case map_of (projectionAliases level) name of
        Some scalar \<Rightarrow> Some scalar
      | None \<Rightarrow> (case map_of (scalars level) name of
          Some scalar \<Rightarrow> Some scalar
        | None \<Rightarrow> (if exactScalarNames level then None
                  else map_option snd (find (\<lambda>(scalarName, _). equal_fold name scalarName) (scalars level)))))"

fun lookupLocalScalar :: "queryScope \<Rightarrow> string \<Rightarrow> chtype option" where
  "lookupLocalScalar [] name = None"
| "lookupLocalScalar (level # _) name = local_scalar level name"

fun lookupScalar :: "queryScope \<Rightarrow> string \<Rightarrow> chtype option" where
  "lookupScalar [] name = None"
| "lookupScalar (level # parent) name =
     (case local_scalar level name of
        Some scalar \<Rightarrow> Some scalar
      | None \<Rightarrow> (if name \<in> set (reservedScalars level) then None else lookupScalar parent name))"

fun lookupProjectionExpr :: "queryScope \<Rightarrow> string \<Rightarrow> expr option" where
  "lookupProjectionExpr [] name = None"
| "lookupProjectionExpr (level # parent) name =
     (case map_of (projectionExprs level) name of
        Some expression \<Rightarrow> (if name \<notin> set (aliasExpansion level) then Some expression else lookupProjectionExpr parent name)
      | None \<Rightarrow> lookupProjectionExpr parent name)"

definition qualifier_matches :: "string \<Rightarrow> scopedTable \<Rightarrow> bool" where
  "qualifier_matches qualifier scoped \<longleftrightarrow>
     qualifier = scoped_alias scoped \<or> qualifier = table_name (scoped_table scoped)"

definition columnCandidates :: "queryScope \<Rightarrow> string \<Rightarrow> string list" where
  "columnCandidates scope qualifier =
     concat (map (\<lambda>scoped. column_order (scoped_table scoped))
       (filter (\<lambda>scoped. qualifier = [] \<or> equal_fold qualifier (scoped_alias scoped)
                       \<or> equal_fold qualifier (table_name (scoped_table scoped)))
         (concat (map scope_tables scope))))"

definition missing_column :: "queryScope \<Rightarrow> string \<Rightarrow> string \<Rightarrow> error" where
  "missing_column scope qualifier name =
     (let suggestion = suggestName name (columnCandidates scope qualifier) in
      if suggestion = [] then Errorf ''column %q is not present in FROM tables'' [name]
      else Errorf ''column %q is not present in FROM tables; did you mean %q?'' [name, suggestion])"

definition bound_column :: "scope_level \<Rightarrow> string \<Rightarrow> string \<Rightarrow> chtype option" where
  "bound_column level qualifier name =
     (if qualifier = []
      then (case map_of (arrayJoinTypes level) name of
              Some joined \<Rightarrow> Some joined | None \<Rightarrow> map_of (usingTypes level) name)
      else (case map_of (arrayJoinQualified level) (qualifier @ ''.'' @ name) of
              Some joined \<Rightarrow> Some joined | None \<Rightarrow> map_of (usingQualified level) (qualifier @ ''.'' @ name)))"

definition found_columns :: "scope_level \<Rightarrow> string \<Rightarrow> string \<Rightarrow> column list" where
  "found_columns level qualifier name =
     List.map_filter (\<lambda>scoped. columns (scoped_table scoped) name)
       (filter (\<lambda>scoped. qualifier = [] \<or> qualifier_matches qualifier scoped) (scope_tables level))"

text \<open>\<open>parse_name\<close> is \<^verbatim>\<open>parseCHTypeName\<close>, which runs the SQL parser on a type name.\<close>

fun lookupColumn :: "(string \<Rightarrow> chtype result) \<Rightarrow> queryScope \<Rightarrow> string \<Rightarrow> string \<Rightarrow> chtype result" where
  "lookupColumn parse_name [] qualifier name = Inl (missing_column [] qualifier name)"
| "lookupColumn parse_name (level # parent) qualifier name =
     (case ir_lookup level of
        Some lookup \<Rightarrow> bind_res (lookup qualifier name) parse_name
      | None \<Rightarrow> (case bound_column level qualifier name of
          Some bound \<Rightarrow> Inr bound
        | None \<Rightarrow>
           (let found = found_columns level qualifier name;
                localQualifier = (qualifier \<noteq> [] \<and> list_ex (qualifier_matches qualifier) (scope_tables level)) in
            if found = []
            then (if parent \<noteq> [] \<and> \<not> localQualifier then lookupColumn parse_name parent qualifier name
                  else Inl (missing_column (level # parent) qualifier name))
            else if length found > 1 \<and> qualifier = []
                    \<and> int (length (scope_tables level)) - int (fromBindingStart level) \<noteq> 2
            then Inl (Errorf ''column %q is ambiguous'' [name])
            else Inr (column_type (hd found)))))"

definition lookupLocalColumn :: "(string \<Rightarrow> chtype result) \<Rightarrow> queryScope \<Rightarrow> string \<Rightarrow> string \<Rightarrow> chtype result" where
  "lookupLocalColumn parse_name scope qualifier name = lookupColumn parse_name (take 1 scope) qualifier name"

section \<open>What the inference is given\<close>

text \<open>
  The registry, \<^verbatim>\<open>strconv.ParseFloat\<close> (the finite value of a literal), the formatter of the SQL parser,
  \<^verbatim>\<open>parseCHTypeName\<close>, and the SQL parser on the declaration of one column. Go's 64-bit floats enter as the rational numbers they are.
\<close>

record infer_env =
  env_registry :: registry
  env_parseFloat :: "string \<Rightarrow> rat option"
  env_format :: "expr \<Rightarrow> string"
  env_parseTypeName :: "string \<Rightarrow> chtype result"
  env_parseColumn :: "string \<Rightarrow> col_type option"

definition env_lookupColumn :: "infer_env \<Rightarrow> queryScope \<Rightarrow> string \<Rightarrow> string \<Rightarrow> chtype result" where
  "env_lookupColumn env = lookupColumn (env_parseTypeName env)"

end
