(* ===== verification/Constants.thy ===== *)
theory Constants
  imports Expr
begin

text \<open>
  The folding of constant conditions (\<^verbatim>\<open>constant_condition.go\<close>) and the test for a constant
  (\<^verbatim>\<open>isConstLiteralExpr\<close> of \<^verbatim>\<open>arithmetic.go\<close>): what lets an \<^verbatim>\<open>if\<close> lose its dead branch, and what lets a
  call keep LowCardinality. \<open>None\<close> is the answer that an expression is not a constant.
\<close>

section \<open>Literals\<close>

definition renderedNumberStandIn :: string where
  "renderedNumberStandIn = char_of (0 :: nat) # ''rendered-number''"

definition trim_quotes :: "string \<Rightarrow> string" where
  "trim_quotes s = (let front = dropWhile ((=) quote_mark) s in rev (dropWhile ((=) quote_mark) (rev front)))"

fun constantNumber :: "(string \<Rightarrow> rat option) \<Rightarrow> expr \<Rightarrow> rat option" where
  "constantNumber parseFloat (EColumn e) = constantNumber parseFloat e"
| "constantNumber parseFloat (EParens (Some [e]) False) = constantNumber parseFloat e"
| "constantNumber parseFloat (ENumber literal) = parseFloat (trim_space literal)"
| "constantNumber parseFloat (EUnary prefix_op e) =
     (if trim_space prefix_op = ''-'' then map_option uminus (constantNumber parseFloat e) else None)"
| "constantNumber parseFloat e = None"

lemma constantNumber_unwrap: "constantNumber parseFloat (unwrapConstantOperand e) = constantNumber parseFloat e"
  by (induction e rule: unwrapConstantOperand.induct) auto

function constantString :: "(string \<Rightarrow> rat option) \<Rightarrow> expr \<Rightarrow> string option" where
  "constantString parseFloat e = (case unwrapConstantOperand e of
       EString literal \<Rightarrow> Some (trim_quotes literal)
     | EFunction name items cols \<Rightarrow>
         (if equal_fold name ''concat''
          then let args = functionArgs items cols in
            if args = [] then None
            else (case those (map (constantString parseFloat) args) of
                None \<Rightarrow> None
              | Some texts \<Rightarrow> (if renderedNumberStandIn \<in> set texts then None else Some (concat texts)))
          else if \<not> equal_fold name ''toString'' then None
          else (case items of
              Some [p] \<Rightarrow> (if constantNumber parseFloat p = None then None else Some renderedNumberStandIn)
            | _ \<Rightarrow> None))
     | _ \<Rightarrow> None)"
  by pat_completeness auto
termination
  by (relation "measure (\<lambda>(_, e). size e)") (auto dest: unwrap_size)

declare constantString.simps [simp del]

definition castTargetTypeName :: "cast_target \<Rightarrow> string option" where
  "castTargetTypeName target = (case target of
       TargetString literal \<Rightarrow> Some (trim_quotes literal)
     | TargetType t \<Rightarrow> (case parseCHType t of Inr parsed \<Rightarrow> Some (Name parsed) | Inl _ \<Rightarrow> None)
     | TargetOther _ \<Rightarrow> None)"

section \<open>Comparisons\<close>

definition compareOrdered :: "string \<Rightarrow> 'a::linorder \<Rightarrow> 'a \<Rightarrow> bool" where
  "compareOrdered operator left right =
     (if operator \<in> {''='', ''==''} then left = right
      else if operator \<in> {''!='', ''<>''} then left \<noteq> right
      else if operator = ''<'' then left < right
      else if operator = ''<='' then left \<le> right
      else if operator = ''>'' then left > right
      else left \<ge> right)"

definition comparisonFunctionOperator :: "string \<Rightarrow> string option" where
  "comparisonFunctionOperator name = map_of [(''equals'', ''=''), (''notequals'', ''!=''), (''less'', ''<''),
     (''lessorequals'', ''<=''), (''greater'', ''>''), (''greaterorequals'', ''>='')] name"

definition cast_ranges :: "(string \<times> int \<times> int) list" where
  "cast_ranges = [(''INT8'', -128, 127), (''INT16'', -32768, 32767), (''INT32'', -2147483648, 2147483647),
     (''INT64'', -9223372036854775808, 9223372036854775807), (''UINT8'', 0, 255), (''UINT16'', 0, 65535),
     (''UINT32'', 0, 4294967295), (''UINT64'', 0, 18446744073709551615)]"

definition castKeepsNumericValue :: "string \<Rightarrow> rat \<Rightarrow> bool" where
  "castKeepsNumericValue typeName v =
     (let name = to_upper (trim_space typeName) in
      case map_of cast_ranges name of
        Some (low, high) \<Rightarrow> of_int low \<le> v \<and> v \<le> of_int high
      | None \<Rightarrow> name \<in> {''FLOAT32'', ''FLOAT64''})"

definition constantComparisonValueNames :: "string list" where
  "constantComparisonValueNames = [''toint8'', ''toint16'', ''toint32'', ''toint64'', ''touint8'', ''touint16'',
     ''touint32'', ''touint64'', ''tofloat32'', ''tofloat64'', ''nullif'', ''ifnull'']"

text \<open>The numeric value of a comparison operand: a literal, or a call that keeps the value of a constant.\<close>

function constantComparisonNumber :: "(string \<Rightarrow> rat option) \<Rightarrow> expr \<Rightarrow> rat option" where
  "constantComparisonNumber parseFloat e = (case constantNumber parseFloat e of
       Some v \<Rightarrow> Some v
     | None \<Rightarrow> (case unwrapConstantOperand e of
         ECast (Some operand) target \<Rightarrow>
           (case (castTargetTypeName target, constantComparisonNumber parseFloat operand) of
              (Some typeName, Some v) \<Rightarrow> (if castKeepsNumericValue typeName v then Some v else None)
            | _ \<Rightarrow> None)
       | EFunction spelled items cols \<Rightarrow>
           (let name = to_lower spelled; values = map (constantComparisonNumber parseFloat) (functionArgs items cols) in
            if name \<notin> set constantComparisonValueNames then None
            else if name = ''nullif'' then
              (case values of [Some l, Some r] \<Rightarrow> (if l = r then None else Some l) | _ \<Rightarrow> None)
            else if name = ''ifnull'' then (case values of [Some l, Some _] \<Rightarrow> Some l | _ \<Rightarrow> None)
            else (case values of
                [Some v] \<Rightarrow> (if castKeepsNumericValue (trim_prefix name ''to'') v then Some v else None)
              | _ \<Rightarrow> None))
       | _ \<Rightarrow> None))"
  by pat_completeness auto
termination
  by (relation "measure (\<lambda>(_, e). size e)") (auto dest: unwrap_size)

declare constantComparisonNumber.simps [simp del]

definition constantComparisonTruth :: "(string \<Rightarrow> rat option) \<Rightarrow> string \<Rightarrow> expr \<Rightarrow> expr \<Rightarrow> bool option" where
  "constantComparisonTruth parseFloat operator left right =
     (case constantComparisonNumber parseFloat left of
        Some l \<Rightarrow> map_option (compareOrdered operator l) (constantComparisonNumber parseFloat right)
      | None \<Rightarrow>
         (case (constantString parseFloat left, constantString parseFloat right) of
            (Some leftText, Some rightText) \<Rightarrow>
              (let leftStandIn = (leftText = renderedNumberStandIn); rightStandIn = (rightText = renderedNumberStandIn) in
               if \<not> leftStandIn \<and> \<not> rightStandIn then Some (compareOrdered operator leftText rightText)
               else if leftStandIn \<and> rightStandIn then None
               else if leftStandIn
               then (if rightText \<noteq> [] then None else Some (compareOrdered operator (1 :: int) 0))
               else if leftText \<noteq> [] then None else Some (compareOrdered operator (0 :: int) 1))
          | _ \<Rightarrow> None))"

section \<open>Conditions\<close>

text \<open>AND and OR fold on one deciding side; \<open>leftTruth\<close> and \<open>rightTruth\<close> are the folded sides.\<close>

definition constantBinaryTruth ::
    "(string \<Rightarrow> rat option) \<Rightarrow> string \<Rightarrow> bool option \<Rightarrow> bool option \<Rightarrow> expr \<Rightarrow> expr \<Rightarrow> bool option" where
  "constantBinaryTruth parseFloat operation leftTruth rightTruth left right =
     (let operator = to_upper (trim_space operation) in
      if operator = ''AND''
      then (if leftTruth = Some False \<or> rightTruth = Some False then Some False
            else if leftTruth \<noteq> None \<and> rightTruth \<noteq> None then Some True else None)
      else if operator = ''OR''
      then (if leftTruth = Some True \<or> rightTruth = Some True then Some True
            else if leftTruth \<noteq> None \<and> rightTruth \<noteq> None then Some False else None)
      else if operator \<in> {''='', ''=='', ''!='', ''<>'', ''<'', ''<='', ''>'', ''>=''}
      then constantComparisonTruth parseFloat operator left right
      else None)"

definition constantConditionCallNames :: "string list" where
  "constantConditionCallNames = [''empty'', ''notempty'', ''isnull'', ''isnotnull'', ''not'', ''nullif'', ''ifnull'',
     ''touint8'', ''tobool'', ''equals'', ''notequals'', ''less'', ''greater'', ''lessorequals'', ''greaterorequals'',
     ''and'', ''or'']"

definition keyword_truth :: "string \<Rightarrow> bool option" where
  "keyword_truth text =
     (if to_upper text = ''TRUE'' then Some True else if to_upper text = ''FALSE'' then Some False else None)"

text \<open>The keywords true and false are identifiers that a scalar or a column of that name shadows.\<close>

definition shadowed :: "infer_env \<Rightarrow> queryScope \<Rightarrow> string \<Rightarrow> bool" where
  "shadowed env scope name \<longleftrightarrow> lookupScalar scope name \<noteq> None \<or> is_ok (env_lookupColumn env scope [] name)"

definition truth_number :: "bool \<Rightarrow> rat" where
  "truth_number b = (if b then 1 else 0)"

text \<open>\<^verbatim>\<open>int64(value) & 0xff\<close>: the conversion truncates, the mask keeps the low byte.\<close>

definition low_byte :: "rat \<Rightarrow> rat" where
  "low_byte v = of_int ((if v \<ge> 0 then \<lfloor>v\<rfloor> else \<lceil>v\<rceil>) mod 256)"

text \<open>
  The call of a function of the list on its arguments: their folded truths and values, and the
  arguments themselves for the text and comparison functions.
\<close>

definition constant_call ::
    "(string \<Rightarrow> rat option) \<Rightarrow> string \<Rightarrow> bool option list \<Rightarrow> rat option list \<Rightarrow> expr list \<Rightarrow> rat option" where
  "constant_call parseFloat name truths values args =
     (if name \<notin> set constantConditionCallNames then None
      else if name \<in> {''empty'', ''notempty''} then
        (case args of
           [arg] \<Rightarrow> map_option (\<lambda>text. truth_number ((text = []) = (name = ''empty''))) (constantString parseFloat arg)
         | _ \<Rightarrow> None)
      else if name \<in> {''isnull'', ''isnotnull''} then
        (case values of [Some _] \<Rightarrow> Some (truth_number (name = ''isnotnull'')) | _ \<Rightarrow> None)
      else if name = ''not'' then
        (case truths of [Some truth] \<Rightarrow> Some (truth_number (\<not> truth)) | _ \<Rightarrow> None)
      else if name \<in> {''touint8'', ''tobool''} then
        (case values of
           [Some v] \<Rightarrow> Some (if name = ''tobool'' then truth_number (v \<noteq> 0) else low_byte v)
         | _ \<Rightarrow> None)
      else if name = ''nullif'' then
        (case values of [Some l, Some r] \<Rightarrow> Some (if l = r then 0 else l) | _ \<Rightarrow> None)
      else if name = ''ifnull'' then (case values of [Some l, Some _] \<Rightarrow> Some l | _ \<Rightarrow> None)
      else if name \<in> {''and'', ''or''} then
        (case (truths, args) of
           ([leftTruth, rightTruth], [left, right]) \<Rightarrow>
             map_option truth_number
               (constantBinaryTruth parseFloat (if name = ''or'' then ''OR'' else ''AND'') leftTruth rightTruth left right)
         | _ \<Rightarrow> None)
      else (case (comparisonFunctionOperator name, args) of
           (Some operator, [left, right]) \<Rightarrow>
             map_option truth_number (constantComparisonTruth parseFloat operator left right)
         | _ \<Rightarrow> None))"

function constantConditionTruth :: "infer_env \<Rightarrow> queryScope \<Rightarrow> expr \<Rightarrow> bool option"
  and constantCallValue :: "infer_env \<Rightarrow> queryScope \<Rightarrow> expr \<Rightarrow> rat option"
  and constantOperandValue :: "infer_env \<Rightarrow> queryScope \<Rightarrow> expr \<Rightarrow> rat option" where
  "constantConditionTruth env scope e = (case unwrapConstantOperand e of
       EIdent name _ \<Rightarrow> (if shadowed env scope name then None else keyword_truth name)
     | EBool literal \<Rightarrow> keyword_truth (trim_space literal)
     | ENumber literal \<Rightarrow> map_option (\<lambda>v. v \<noteq> 0) (env_parseFloat env (trim_space literal))
     | EUnary prefix_op operand \<Rightarrow>
         (if to_upper (trim_space prefix_op) = ''NOT'' then map_option Not (constantConditionTruth env scope operand)
          else if to_upper (trim_space prefix_op) = ''-''
          then (case operand of
              ENumber literal \<Rightarrow> map_option (\<lambda>v. v \<noteq> 0) (env_parseFloat env (trim_space literal))
            | _ \<Rightarrow> None)
          else None)
     | EBinary left operation right \<Rightarrow>
         constantBinaryTruth (env_parseFloat env) operation
           (constantConditionTruth env scope left) (constantConditionTruth env scope right) left right
     | EFunction _ _ _ \<Rightarrow> map_option (\<lambda>v. v \<noteq> 0) (constantCallValue env scope e)
     | ECast _ _ \<Rightarrow> map_option (\<lambda>v. v \<noteq> 0) (constantCallValue env scope e)
     | _ \<Rightarrow> None)"
| "constantCallValue env scope e = (case unwrapConstantOperand e of
       ECast (Some operand) target \<Rightarrow>
         (case castTargetTypeName target of
            None \<Rightarrow> None
          | Some typeName \<Rightarrow>
              (if to_upper (trim_space typeName) \<in> {''UINT8'', ''BOOL'', ''BOOLEAN''}
               then map_option low_byte (constantOperandValue env scope operand) else None))
     | EFunction name items cols \<Rightarrow>
         constant_call (env_parseFloat env) (to_lower name)
           (map (constantConditionTruth env scope) (functionArgs items cols))
           (map (constantOperandValue env scope) (functionArgs items cols)) (functionArgs items cols)
     | _ \<Rightarrow> None)"
| "constantOperandValue env scope e = (case constantNumber (env_parseFloat env) e of
       Some v \<Rightarrow> Some v
     | None \<Rightarrow> (case unwrapConstantOperand e of
         EFunction _ _ _ \<Rightarrow> constantCallValue env scope e
       | ECast _ _ \<Rightarrow> constantCallValue env scope e
       | EIdent _ _ \<Rightarrow> map_option truth_number (constantConditionTruth env scope e)
       | EBool _ \<Rightarrow> map_option truth_number (constantConditionTruth env scope e)
       | _ \<Rightarrow> None))"
  by pat_completeness auto
termination
  by (relation "measures [\<lambda>x. case x of Inl (_, _, e) \<Rightarrow> size e | Inr (Inl (_, _, e)) \<Rightarrow> size e | Inr (Inr (_, _, e)) \<Rightarrow> size e,
      \<lambda>x. case x of Inl _ \<Rightarrow> 1 | Inr (Inl _) \<Rightarrow> 0 | Inr (Inr _) \<Rightarrow> 2]")
     (auto dest: unwrap_size)

declare constantConditionTruth.simps [simp del] constantCallValue.simps [simp del] constantOperandValue.simps [simp del]

section \<open>Constant literals\<close>

definition isAggregateFunctionName :: "registry \<Rightarrow> string \<Rightarrow> bool" where
  "isAggregateFunctionName reg name \<longleftrightarrow>
     functionClassFor reg name = wrapperAggregate
     \<or> name \<in> {''count'', ''countif'', ''uniq'', ''uniqexact'', ''uniqexactif'', ''uniqcombined'', ''countdistinct'',
          ''grouparray'', ''grouparrayif'', ''groupuniqarray'', ''groupuniqarrayif'', ''grouparraysorted'',
          ''grouparraysorteddistinct'', ''grouparraysorteddistinctif'', ''quantilestate'', ''quantilestateif''}
     \<or> has_suffix name ''merge''"

text \<open>The branch that an \<^verbatim>\<open>if\<close> with a folded condition takes.\<close>

definition taken_branch :: "infer_env \<Rightarrow> queryScope \<Rightarrow> string \<Rightarrow> expr list \<Rightarrow> expr option" where
  "taken_branch env scope name args =
     (if equal_fold name ''if'' \<and> length args = 3
      then map_option (\<lambda>truth. if truth then args ! 1 else args ! 2) (constantConditionTruth env scope (args ! 0))
      else None)"

lemma taken_branch_member: "taken_branch env scope name args = Some e \<Longrightarrow> e \<in> set args"
  by (auto simp: taken_branch_def split: if_splits)

lemma size_case_when:
  assumes "w \<in> set whens"
  shows "fst w = Some x \<Longrightarrow> size x < size (ECase operand whens els)" "snd w = Some x \<Longrightarrow> size x < size (ECase operand whens els)"
proof -
  have "size_prod (size_option size) (size_option size) w
      \<le> size_list (size_prod (size_option size) (size_option size)) whens"
    by (rule size_list_member_le [OF assms])
  then show "fst w = Some x \<Longrightarrow> size x < size (ECase operand whens els)" "snd w = Some x \<Longrightarrow> size x < size (ECase operand whens els)"
    by (cases w; auto)+
qed

function isConstLiteralExpr :: "infer_env \<Rightarrow> queryScope \<Rightarrow> expr \<Rightarrow> bool" where
  "isConstLiteralExpr env scope e = (case e of
       ENumber _ \<Rightarrow> True
     | EString _ \<Rightarrow> True
     | EBool _ \<Rightarrow> True
     | EIdent name _ \<Rightarrow> (equal_fold name ''true'' \<or> equal_fold name ''false'') \<and> \<not> shadowed env scope name
     | EColumn inner \<Rightarrow> isConstLiteralExpr env scope inner
     | EUnary _ operand \<Rightarrow> isConstLiteralExpr env scope operand
     | EBinary left _ right \<Rightarrow> isConstLiteralExpr env scope left \<and> isConstLiteralExpr env scope right
     | ECast (Some operand) _ \<Rightarrow> isConstLiteralExpr env scope operand
     | EFunction name items cols \<Rightarrow>
         (if isAggregateFunctionName (env_registry env) (to_lower name) then False
          else (case taken_branch env scope name (functionArgs items cols) of
              Some taken \<Rightarrow> isConstLiteralExpr env scope taken
            | None \<Rightarrow> list_all (isConstLiteralExpr env scope) (functionArgs items cols)))
     | ECase operand whens els \<Rightarrow>
         (case operand of None \<Rightarrow> True | Some x \<Rightarrow> isConstLiteralExpr env scope x)
         \<and> list_all (\<lambda>w. (case fst w of None \<Rightarrow> False | Some x \<Rightarrow> isConstLiteralExpr env scope x)
                      \<and> (case snd w of None \<Rightarrow> False | Some x \<Rightarrow> isConstLiteralExpr env scope x)) whens
         \<and> (case els of None \<Rightarrow> True | Some x \<Rightarrow> isConstLiteralExpr env scope x)
     | EParens (Some [inner]) _ \<Rightarrow> isConstLiteralExpr env scope inner
     | _ \<Rightarrow> False)"
  by pat_completeness auto
termination
  by (relation "measure (\<lambda>(_, _, e). size e)") (auto dest: size_functionArgs(1) size_functionArgs(1) [OF taken_branch_member] size_case_when)

declare isConstLiteralExpr.simps [simp del]

end
