(* ===== verification/Rules.thy ===== *)
theory Rules
  imports Constants
begin

text \<open>
  The result rules that the function registry names (\<^verbatim>\<open>infer_function.go\<close>, \<^verbatim>\<open>registry.go\<close>,
  \<^verbatim>\<open>infer_operators.go\<close>, \<^verbatim>\<open>cursor_functions.go\<close>, \<^verbatim>\<open>measured_unary_family.go\<close>). A rule reads the base
  types of the arguments and gives the base type of the result; the wrappers are put on by the transport.
\<close>

type_synonym functionTypeRule = "chtype list \<Rightarrow> chtype result"

definition firstFunctionArgument :: functionTypeRule where
  "firstFunctionArgument args =
     (if args = [] then Inl (Errorf ''function has no arguments'' []) else Inr (withoutGeometryAliases (hd args)))"

section \<open>Text and containers\<close>

definition caseFoldingFunctionType :: functionTypeRule where
  "caseFoldingFunctionType args = bind_res (firstFunctionArgument args) (\<lambda>first.
     Inr (if named first ''fixedstring'' then first else ty0 ''String''))"

definition reverseFunctionType :: functionTypeRule where
  "reverseFunctionType args = bind_res (firstFunctionArgument args) (\<lambda>first.
     if normalizedName first = ''array''
     then (if length (Params first) \<noteq> 1
           then Inl (Errorf ''function reverse: an Array argument needs one element type; %s'' [pinTypeHint])
           else Inr (ty1 ''Array'' [stripLowCardinalityDeep (hd (Params first))]))
     else if normalizedName first = ''tuple''
     then Inr (CHType ''Tuple'' (rev (Params first)) []
            (if length (ParamNames first) = length (Params first) then rev (ParamNames first) else []))
     else caseFoldingFunctionType args)"

definition allCHTypesNamed :: "chtype list \<Rightarrow> string \<Rightarrow> bool" where
  "allCHTypesNamed types name \<longleftrightarrow> list_all (\<lambda>t. equal_fold (Name t) name) types"

definition concatFunctionType :: functionTypeRule where
  "concatFunctionType args =
     (if length args < 2 then Inr (ty0 ''String'')
      else if allCHTypesNamed args ''Array'' \<or> allCHTypesNamed args ''Map'' then commonCHTypes args
      else if allCHTypesNamed args ''Tuple''
      then Inl (Errorf ''concat over Tuple arguments joins the element lists, and chgen cannot express that result shape; %s'' [pinTypeHint])
      else Inr (ty0 ''String''))"

definition fixedFunctionType :: "string \<Rightarrow> functionTypeRule" where
  "fixedFunctionType name = (\<lambda>_. Inr (ty0 name))"

text \<open>Whether a rule gives the same type for an Int32 and for a String argument.\<close>

definition fixedResultFunctionType :: "functionTypeRule option \<Rightarrow> bool" where
  "fixedResultFunctionType rule = (case rule of
       None \<Rightarrow> False
     | Some r \<Rightarrow> (case (r [ty0 ''Int32''], r [ty0 ''String'']) of
           (Inr first, Inr second) \<Rightarrow> to_string first = to_string second
         | _ \<Rightarrow> False))"

definition arrayDistinctFunctionResult :: functionTypeRule where
  "arrayDistinctFunctionResult args = bind_res (firstFunctionArgument args) (\<lambda>argument.
     if \<not> named argument ''array'' \<or> length (Params argument) \<noteq> 1 then Inr argument
     else let element = hd (Params argument) in
       if \<not> named element ''nullable'' \<or> length (Params element) \<noteq> 1 then Inr argument
       else Inr (ty1 (Name argument) [hd (Params element)]))"

definition arrayResizeFunctionResult :: functionTypeRule where
  "arrayResizeFunctionResult args =
     (if length args < 2 then Inl (Errorf ''arrayResize needs an array and a size'' [])
      else let arrayType = withoutGeometryAliases (domainBaseType (args ! 0)) in
        if normalizedName arrayType \<noteq> ''array'' \<or> length (Params arrayType) \<noteq> 1
        then Inl (Errorf ''arrayResize needs an Array as its first argument'' [])
        else if length args = 2 then Inr arrayType
        else (case commonContainerMemberCHType [hd (Params arrayType), args ! 2] of
            Inl err \<Rightarrow> Inl (Wrapf ''arrayResize element: %w'' [] err)
          | Inr element \<Rightarrow> Inr (ty1 ''Array'' [element])))"

definition greatestLeastFunctionType :: "string \<Rightarrow> functionTypeRule" where
  "greatestLeastFunctionType name = (\<lambda>args.
     if args = [] then Inl (Errorf ''function has no arguments'' [])
     else bind_res (greatestLeastCommonCHTypes name args) (\<lambda>result. Inr (withoutGeometryAliases result)))"

section \<open>Sums and bit aggregates\<close>

definition decimalScale :: "chtype \<Rightarrow> string" where
  "decimalScale value =
     (if to_lower (Name value) \<in> {''decimal32'', ''decimal64'', ''decimal128'', ''decimal256''}
      then (if length (LiteralParams value) = 1 then hd (LiteralParams value) else [])
      else if to_lower (Name value) = ''decimal''
      then (if length (LiteralParams value) \<ge> 2 then LiteralParams value ! 1 else [])
      else [])"

definition decimalSumPrecision :: "chtype \<Rightarrow> string" where
  "decimalSumPrecision value =
     (if named value ''decimal256'' then ''76''
      else if named value ''decimal'' \<and> LiteralParams value \<noteq> []
              \<and> (case atoi (hd (LiteralParams value)) of Some precision \<Rightarrow> precision > 38 | None \<Rightarrow> False)
      then ''76'' else ''38'')"

text \<open>The result of sum for a bare argument type; sum of a Nullable argument is Nullable.\<close>

definition sum_result :: "chtype \<Rightarrow> chtype result" where
  "sum_result first =
     (let name = to_lower (Name first) in
      if name \<in> {''uint8'', ''uint16'', ''uint32'', ''uint64'', ''bool'', ''boolean''} then Inr (ty0 ''UInt64'')
      else if name \<in> {''int8'', ''int16'', ''int32'', ''int64'', ''int''} then Inr (ty0 ''Int64'')
      else if name \<in> {''int128'', ''uint128'', ''int256'', ''uint256''} then Inr (ty0 (Name first))
      else if name \<in> {''enum'', ''enum8'', ''enum16''} then Inr (ty0 ''Int64'')
      else if name \<in> {''float32'', ''float64''} then Inr (ty0 ''Float64'')
      else if name \<in> {''decimal'', ''decimal32'', ''decimal64'', ''decimal128'', ''decimal256''}
      then (if decimalScale first = [] then Inl (Errorf ''sum(%s) requires a decimal scale'' [to_string first])
            else Inr (tyl ''Decimal'' [decimalSumPrecision first, decimalScale first]))
      else Inr first)"

definition sumFunctionArgument :: functionTypeRule where
  "sumFunctionArgument args = bind_res (firstFunctionArgument args) (\<lambda>first.
     if named first ''nullable''
     then (if length (Params first) \<noteq> 1 then Inl (Errorf ''Nullable expects one type argument'' [])
           else bind_res (sum_result (hd (Params first))) (\<lambda>result. Inr (ty1 ''Nullable'' [result])))
     else sum_result first)"

definition groupBitFunctionArgument :: functionTypeRule where
  "groupBitFunctionArgument args = bind_res (firstFunctionArgument args) (\<lambda>first.
     let (base, nullable, lowCardinality) = splitCHWrappers first; name = to_lower (Name base) in
     if name \<in> {''bool'', ''boolean''} then Inr (applyCHWrappers (ty0 ''UInt8'') nullable lowCardinality)
     else if name \<in> {''int8'', ''int16'', ''int32'', ''int64'', ''int128'', ''int256'',
         ''uint8'', ''uint16'', ''uint32'', ''uint64'', ''uint128'', ''uint256''}
     then Inr (applyCHWrappers base nullable lowCardinality)
     else Inl (Errorf ''groupBitAnd/groupBitOr/groupBitXor: cannot derive a type for argument of type %s'' [to_string first]))"

definition sumWithOverflowFunctionArgument :: functionTypeRule where
  "sumWithOverflowFunctionArgument args = bind_res (firstFunctionArgument args) (\<lambda>first.
     let (base, nullable, lowCardinality) = splitCHWrappers first; name = normalizedName base;
         result = (if name \<in> {''bool'', ''boolean''} then ty0 ''UInt8''
                   else if name \<in> {''enum'', ''enum8''} then ty0 ''Int8''
                   else if name = ''enum16'' then ty0 ''Int16'' else base) in
     Inr (applyCHWrappers result nullable lowCardinality))"

section \<open>Quantiles and aggregate states\<close>

function quantileFunctionResultType :: "chtype \<Rightarrow> chtype" where
  "quantileFunctionResultType argument =
     (if named argument ''nullable''
      then (if length (Params argument) \<noteq> 1 then argument
            else ty1 ''Nullable'' [quantileFunctionResultType (hd (Params argument))])
      else if arithmeticDecimalType argument then canonicalDecimalType argument
      else if numericCHType argument \<or> integerBaseType argument \<or> floatBaseType argument then ty0 ''Float64''
      else argument)"
  by pat_completeness auto
termination
  by (relation "measure tsize") (auto intro!: tsize_hd_param)

declare quantileFunctionResultType.simps [simp del]

definition quantileFunctionArgument :: functionTypeRule where
  "quantileFunctionArgument args = bind_res (firstFunctionArgument args) (\<lambda>first. Inr (quantileFunctionResultType first))"

definition aggregateStateFunctionArgument :: functionTypeRule where
  "aggregateStateFunctionArgument args = bind_res (firstFunctionArgument args) (\<lambda>first.
     Inr (ty1 ''AggregateFunction'' [ty0 ''quantile'', first]))"

definition withoutNullableFunctionArgument :: functionTypeRule where
  "withoutNullableFunctionArgument args = bind_res (firstFunctionArgument args) (\<lambda>first.
     let result = withoutGeometryAliases (readSimpleAggregateValue first) in
     if named result ''lowcardinality'' \<and> length (Params result) = 1
     then (let inner = hd (Params result) in
           if named inner ''nullable'' \<and> length (Params inner) = 1 then Inr (wrapLowCardinality (hd (Params inner)))
           else Inr result)
     else if named result ''nullable'' \<and> length (Params result) = 1 then Inr (hd (Params result))
     else Inr (stripNestedLowCardinality result))"

section \<open>Numbers\<close>

definition absFunctionType :: functionTypeRule where
  "absFunctionType args = bind_res (firstFunctionArgument args) (\<lambda>first.
     if arithmeticDecimalType first \<or> floatBaseType first then Inr first
     else case arithmeticIntegerClassOf first of
         None \<Rightarrow> Inl (Errorf ''function abs argument: unsupported type %s'' [to_string first])
       | Some class \<Rightarrow> (case map_of arithmeticIntegerTypeNames (arithmeticIntegerClass.make False (size_bytes class)) of
             None \<Rightarrow> Inl (Errorf ''function abs argument: unsupported integer width for %s'' [to_string first])
           | Some name \<Rightarrow> Inr (ty0 name)))"

definition negateFunctionType :: functionTypeRule where
  "negateFunctionType args = bind_res (firstFunctionArgument args) (\<lambda>first.
     if arithmeticDecimalType first \<or> floatBaseType first then Inr first
     else case arithmeticIntegerClassOf first of
         None \<Rightarrow> Inl (Errorf ''function negate argument: unsupported type %s'' [to_string first])
       | Some class \<Rightarrow>
          (let width = (if arithmeticIntegerClass.signed class then size_bytes class else promotedArithmeticSize (size_bytes class)) in
           case map_of arithmeticIntegerTypeNames (arithmeticIntegerClass.make True width) of
             None \<Rightarrow> Inl (Errorf ''function negate argument: unsupported integer width for %s'' [to_string first])
           | Some name \<Rightarrow> Inr (ty0 name)))"

definition nullIfFunctionResult :: functionTypeRule where
  "nullIfFunctionResult args = bind_res (firstFunctionArgument args) (\<lambda>first.
     if \<not> canBeInsideNullable first
     then Inl (Errorf ''function nullIf cannot return NULL for a first argument of type %s because ClickHouse cannot put that type inside Nullable; %s''
                 [to_string first, pinTypeHint])
     else Inr first)"

definition bitShiftIntegerDomain :: argumentDomain where
  "bitShiftIntegerDomain = \<lparr>domain_name = ''bit-shift integer'',
     accepts = (\<lambda>value. case arithmeticIntegerClassOf value of Some c \<Rightarrow> size_bytes c \<le> 8 | None \<Rightarrow> False),
     expected = ''an integer of at most 64 bits or Bool''\<rparr>"

definition class_or_zero :: "chtype \<Rightarrow> arithmeticIntegerClass" where
  "class_or_zero t = (case arithmeticIntegerClassOf t of Some class \<Rightarrow> class | None \<Rightarrow> arithmeticIntegerClass.make False 0)"

definition bitShiftRightFunctionType :: functionTypeRule where
  "bitShiftRightFunctionType args =
     (if length args \<noteq> 2 then Inl (Errorf ''function bitShiftRight needs two arguments'' [])
      else bind_res (check_all (checkArgumentDomain ''bitShiftRight'' bitShiftIntegerDomain) args) (\<lambda>_.
        let left = class_or_zero (args ! 0); right = class_or_zero (args ! 1) in
        Inr (ty0 (case map_of arithmeticIntegerTypeNames
                    (arithmeticIntegerClass.make (arithmeticIntegerClass.signed left \<or> arithmeticIntegerClass.signed right)
                       (max (size_bytes left) (size_bytes right))) of
                  Some name \<Rightarrow> name | None \<Rightarrow> []))))"

section \<open>The measured unary families\<close>

record measuredUnaryFamily =
  family_result :: string
  family_primitives :: string
  family_decimal :: bool
  family_fixedString :: bool
  family_transport :: "wrapperTransport option"

record measuredUnaryMember =
  member_spelling :: string
  member_exactSpelling :: string
  member_evidence :: string
  member_nonPortableInputs :: "string list"

definition measured_unary_domain :: "measuredUnaryFamily \<Rightarrow> argumentDomain" where
  "measured_unary_domain f =
     (let primitives = go_fields (family_primitives f) in
      \<lparr>domain_name = ''measured argument domain'',
       accepts = (\<lambda>value. family_decimal f \<and> arithmeticDecimalType value
          \<or> family_fixedString f \<and> normalizedName value = ''fixedstring'' \<and> length (Params value) = 1
          \<or> Params value = [] \<and> normalizedName value \<in> set primitives),
       expected = join '', '' (map (\<lambda>p. if p = ''string'' then ''String'' else p) primitives
          @ (if family_decimal f then [''Decimal''] else []) @ (if family_fixedString f then [''FixedString''] else []))\<rparr>)"

definition portableFunctionInput :: "chtype \<Rightarrow> string list \<Rightarrow> bool" where
  "portableFunctionInput value excluded =
     (let base = domainBaseType value; aggregate = simpleAggregateWrapperInner base;
          marker = ''SimpleAggregateFunction(anyLast, '' in
      list_all (\<lambda>input. \<not> equal_fold (to_string base) input
        \<and> (case aggregate of
             None \<Rightarrow> True
           | Some inner \<Rightarrow> \<not> equal_fold (to_string (domainBaseType inner)) input
               \<and> (has_prefix input marker
                  \<longrightarrow> \<not> equal_fold (to_string inner) (trim_suffix (trim_prefix input marker) '')'')))) excluded)"

end
