(* ===== verification/Windows.thy ===== *)
theory Windows
  imports Rules
begin

text \<open>
  The OVER clause of a window function (\<^verbatim>\<open>window_validation.go\<close>): the named windows a specification
  inherits from, and the frame. The types of the PARTITION BY and ORDER BY expressions come from the
  inference, the argument \<open>f\<close>.
\<close>

section \<open>Inheritance\<close>

definition inherit_window :: "string \<Rightarrow> window_spec \<Rightarrow> window_spec \<Rightarrow> window_spec result" where
  "inherit_window base_name own base =
     (if partition_by own \<noteq> None
      then Inl (Errorf ''window %s cannot add or replace a PARTITION BY clause; %s'' [base_name, pinTypeHint])
      else if order_by own \<noteq> None \<and> order_by base \<noteq> None
      then Inl (Errorf ''window %s replaces an existing ORDER BY clause; %s'' [base_name, pinTypeHint])
      else if frame_of base \<noteq> None
      then Inl (Errorf ''window %s cannot inherit a parent frame; %s'' [base_name, pinTypeHint])
      else Inr (WindowSpec (partition_by base) (if order_by own = None then order_by base else order_by own)
                  (if frame_of own = None then frame_of base else frame_of own) None))"

type_synonym window_table = "(string \<times> window_spec) list"

definition unvisited :: "window_table \<Rightarrow> string list \<Rightarrow> nat" where
  "unvisited table visiting = length (filter (\<lambda>w. fst w \<notin> set visiting) table)"

lemma unvisited_Cons:
  assumes "map_of table name = Some w" "name \<notin> set visiting"
  shows "unvisited table (name # visiting) < unvisited table visiting"
proof -
  have "(name, w) \<in> set (filter (\<lambda>w. fst w \<notin> set visiting) table)" using assms by (auto dest: map_of_SomeD)
  then have "length (filter (\<lambda>w. fst w \<noteq> name) (filter (\<lambda>w. fst w \<notin> set visiting) table))
      < length (filter (\<lambda>w. fst w \<notin> set visiting) table)"
    by (rule length_filter_less) simp
  then show ?thesis by (simp add: unvisited_def conj_commute)
qed

text \<open>\<open>visiting\<close> holds the names that are being resolved: the guard against a recursive definition.\<close>

function materializeNamedWindow :: "window_table \<Rightarrow> string list \<Rightarrow> string \<Rightarrow> window_spec result"
  and materializeWindowExpr :: "window_table \<Rightarrow> string list \<Rightarrow> window_spec \<Rightarrow> window_spec result" where
  "materializeNamedWindow table visiting name =
     (case map_of table name of
        None \<Rightarrow> Inl (Errorf ''window %s is not defined; %s'' [name, pinTypeHint])
      | Some window \<Rightarrow>
          (if name \<in> set visiting then Inl (Errorf ''window %s has a recursive definition; %s'' [name, pinTypeHint])
           else materializeWindowExpr table (name # visiting) window))"
| "materializeWindowExpr table visiting window =
     (case window_name window of
        None \<Rightarrow> Inr (WindowSpec (partition_by window) (order_by window) (frame_of window) None)
      | Some base_name \<Rightarrow>
          (case materializeNamedWindow table visiting base_name of
             Inl err \<Rightarrow> Inl err
           | Inr base \<Rightarrow> inherit_window base_name window base))"
  by pat_completeness auto
termination
  by (relation "measure (\<lambda>x. case x of Inl (table, visiting, _) \<Rightarrow> 2 * unvisited table visiting
        | Inr (table, visiting, _) \<Rightarrow> Suc (2 * unvisited table visiting))")
     (auto dest!: unvisited_Cons)

declare materializeNamedWindow.simps [simp del] materializeWindowExpr.simps [simp del]

definition materializeWindowOver :: "window_table \<Rightarrow> window_over \<Rightarrow> window_spec result" where
  "materializeWindowOver table over = (case over of
       OverName name \<Rightarrow> materializeNamedWindow table [] name
     | OverWindow window \<Rightarrow> materializeWindowExpr table [] window
     | OverOther k \<Rightarrow> Inl (Errorf ''unsupported OVER specification %T; %s'' [k, pinTypeHint]))"

section \<open>Frames\<close>

definition maximumWindowFrameOffset :: int where
  "maximumWindowFrameOffset = 2147483646"

record windowFrameBound =
  position :: int
  bound_offset :: int
  direction :: string

definition parseWindowFrameBound :: "frame_bound \<Rightarrow> (windowFrameBound \<times> bool) result" where
  "parseWindowFrameBound bound = (case bound of
       BoundCurrentRow \<Rightarrow> Inr (\<lparr>position = 0, bound_offset = 0, direction = ''current''\<rparr>, False)
     | BoundUnbounded d \<Rightarrow>
         (if to_lower d = ''preceding'' then Inr (\<lparr>position = -2, bound_offset = 0, direction = ''unbounded_preceding''\<rparr>, False)
          else if to_lower d = ''following'' then Inr (\<lparr>position = 2, bound_offset = 0, direction = ''unbounded_following''\<rparr>, False)
          else Inl (Errorf ''UNBOUNDED has direction %q'' [d]))
     | BoundNumber literal d \<Rightarrow>
         (let out_of_range = Inl (Errorf ''offset %q is not in the measured range 0..%d'' [literal, itoa maximumWindowFrameOffset]) in
          case parse_uint64 literal of
            None \<Rightarrow> out_of_range
          | Some v \<Rightarrow>
              (if v > maximumWindowFrameOffset then out_of_range
               else if to_lower d = ''preceding'' then Inr (\<lparr>position = -1, bound_offset = v, direction = ''preceding''\<rparr>, True)
               else if to_lower d = ''following'' then Inr (\<lparr>position = 1, bound_offset = v, direction = ''following''\<rparr>, True)
               else Inl (Errorf ''offset has direction %q'' [d])))
     | BoundInterval \<Rightarrow> Inl (Errorf ''interval offsets are not supported by ClickHouse %s'' [''25.8.29.51''])
     | BoundParam \<Rightarrow> Inl (Errorf ''parameter offsets have no measured generated binding'' [])
     | BoundOther k \<Rightarrow> Inl (Errorf ''unsupported endpoint %T'' [k]))"

definition compareWindowBounds :: "windowFrameBound \<Rightarrow> windowFrameBound \<Rightarrow> int" where
  "compareWindowBounds left right =
     (if position left \<noteq> position right then (if position left < position right then -1 else 1)
      else if direction left = ''preceding''
      then (if bound_offset left > bound_offset right then -1 else if bound_offset left < bound_offset right then 1 else 0)
      else if direction left = ''following''
      then (if bound_offset left < bound_offset right then -1 else if bound_offset left > bound_offset right then 1 else 0)
      else 0)"

definition frame_bounds :: "window_frame \<Rightarrow> frame_bound \<times> frame_bound" where
  "frame_bounds frame = (case frame_extend frame of
       ExtentBetween start end_bound \<Rightarrow> (start, end_bound) | ExtentFrom start \<Rightarrow> (start, BoundCurrentRow))"

definition validateWindowFrame :: "window_frame \<Rightarrow> bool result" where
  "validateWindowFrame frame =
     (if \<not> equal_fold (frame_type frame) ''ROWS'' \<and> \<not> equal_fold (frame_type frame) ''RANGE''
      then Inl (Errorf ''window frame type %s is not supported; %s'' [frame_type frame, pinTypeHint])
      else case parseWindowFrameBound (fst (frame_bounds frame)) of
        Inl err \<Rightarrow> Inl (Wrapf ''window frame start: %w'' [] err)
      | Inr (start, startOffset) \<Rightarrow>
         (case parseWindowFrameBound (snd (frame_bounds frame)) of
            Inl err \<Rightarrow> Inl (Wrapf ''window frame end: %w'' [] err)
          | Inr (end_bound, endOffset) \<Rightarrow>
             (if direction start = ''unbounded_following''
              then Inl (Errorf ''window frame start cannot be UNBOUNDED FOLLOWING; %s'' [pinTypeHint])
              else if direction end_bound = ''unbounded_preceding''
              then Inl (Errorf ''window frame end cannot be UNBOUNDED PRECEDING; %s'' [pinTypeHint])
              else if compareWindowBounds start end_bound > 0
              then Inl (Errorf ''window frame start must not follow its end; %s'' [pinTypeHint])
              else Inr (startOffset \<or> endOffset))))"

definition rangeOffsetOrderType :: "chtype \<Rightarrow> bool" where
  "rangeOffsetOrderType value \<longleftrightarrow> normalizedName value \<in> set [''bool'', ''int8'', ''int16'', ''int32'', ''int64'',
     ''int128'', ''int256'', ''uint8'', ''uint16'', ''uint32'', ''uint64'', ''uint128'', ''uint256'',
     ''float32'', ''float64'', ''enum'', ''enum8'', ''enum16'', ''date'', ''date32'', ''datetime'']"

definition isFullPartitionFrame :: "window_frame option \<Rightarrow> bool" where
  "isFullPartitionFrame frame = (case frame of
       None \<Rightarrow> False
     | Some fr \<Rightarrow> (equal_fold (frame_type fr) ''ROWS'' \<or> equal_fold (frame_type fr) ''RANGE'')
         \<and> (case frame_extend fr of
              ExtentBetween (BoundUnbounded s) (BoundUnbounded e) \<Rightarrow> equal_fold s ''PRECEDING'' \<and> equal_fold e ''FOLLOWING''
            | _ \<Rightarrow> False))"

section \<open>Validation\<close>

definition window_clause :: "expr list option \<Rightarrow> expr list" where
  "window_clause items = (case items of None \<Rightarrow> [] | Some es \<Rightarrow> es)"

definition wrapped_type :: "string \<Rightarrow> (expr \<Rightarrow> chtype result) \<Rightarrow> expr \<Rightarrow> chtype result" where
  "wrapped_type label f e = (case f e of Inl err \<Rightarrow> Inl (Wrapf label [] err) | Inr t \<Rightarrow> Inr t)"

definition range_order_check :: "chtype list \<Rightarrow> unit result" where
  "range_order_check orderTypes =
     (if length orderTypes \<noteq> 1
      then Inl (Errorf ''a RANGE offset frame needs exactly one ORDER BY expression; %s'' [pinTypeHint])
      else if normalizedName (hd orderTypes) = ''lowcardinality''
      then Inl (Errorf ''a RANGE offset frame does not support LowCardinality ORDER BY; %s'' [pinTypeHint])
      else let base = domainBaseType (hd orderTypes) in
        if \<not> rangeOffsetOrderType base
        then Inl (Errorf ''a RANGE offset frame does not support ORDER BY type %s; %s'' [to_string base, pinTypeHint])
        else Inr ())"

definition validateMaterializedWindow :: "(expr \<Rightarrow> chtype result) \<Rightarrow> window_spec \<Rightarrow> unit result" where
  "validateMaterializedWindow f window =
     bind_res (map_res (wrapped_type ''window PARTITION BY: %w'' f) (window_clause (partition_by window))) (\<lambda>_.
     bind_res (map_res (wrapped_type ''window ORDER BY: %w'' f) (window_clause (order_by window))) (\<lambda>orderTypes.
     case frame_of window of
       None \<Rightarrow> Inr ()
     | Some frame \<Rightarrow> bind_res (validateWindowFrame frame) (\<lambda>hasOffset.
         if \<not> equal_fold (frame_type frame) ''RANGE'' \<or> \<not> hasOffset then Inr () else range_order_check orderTypes)))"

definition window_function_rule :: "string \<Rightarrow> window_spec \<Rightarrow> unit result" where
  "window_function_rule spelled window =
     (let name = to_lower spelled in
      if name \<in> {''lag'', ''lead'', ''percentrank'', ''percent_rank''}
      then (if frame_of window \<noteq> None
            then Inl (Errorf ''window function %s does not allow an explicit frame; %s'' [spelled, pinTypeHint]) else Inr ())
      else if name = ''ntile''
      then (if window_clause (order_by window) = []
            then Inl (Errorf ''window function %s needs ORDER BY; %s'' [spelled, pinTypeHint])
            else if frame_of window \<noteq> None \<and> \<not> isFullPartitionFrame (frame_of window)
            then Inl (Errorf ''window function %s needs its default frame or a full partition frame; %s'' [spelled, pinTypeHint])
            else Inr ())
      else Inr ())"

definition validateWindowFunction ::
    "(expr \<Rightarrow> chtype result) \<Rightarrow> window_table \<Rightarrow> string \<Rightarrow> window_over \<Rightarrow> unit result" where
  "validateWindowFunction f table spelled over =
     bind_res (materializeWindowOver table over) (\<lambda>window.
     bind_res (validateMaterializedWindow f window) (\<lambda>_. window_function_rule spelled window))"

definition validateNamedWindowDefinitions :: "(expr \<Rightarrow> chtype result) \<Rightarrow> window_table \<Rightarrow> unit result" where
  "validateNamedWindowDefinitions f table = check_all (\<lambda>name.
     bind_res (materializeNamedWindow table [] name) (\<lambda>window.
       case validateMaterializedWindow f window of
         Inl err \<Rightarrow> Inl (Wrapf ''window %s: %w'' [name] err) | Inr _ \<Rightarrow> Inr ())) (map fst table)"

end
