(* ===== verification/Calls.thy ===== *)
theory Calls
  imports Windows
begin

text \<open>
  The evaluation of an ordinary registered call (\<^verbatim>\<open>function_evaluator.go\<close>) and the two families that read
  their branches and conditions (\<^verbatim>\<open>inferConditionalFamilyType\<close>, \<^verbatim>\<open>inferLogicOperatorFunctionType\<close>). A
  call holds its arguments, what the inference says of each, and whether each is a constant literal.
\<close>

section \<open>Calls and errors\<close>

definition errPlaceholderResultType :: error where
  "errPlaceholderResultType = Errorf ''positional placeholder has no result type'' []"

text \<open>\<^verbatim>\<open>errors.Is\<close> walks the chain of wrapped errors.\<close>

fun is_placeholder_error :: "error \<Rightarrow> bool" where
  "is_placeholder_error (Wrapf format values err) = is_placeholder_error err"
| "is_placeholder_error (Errorf format values) \<longleftrightarrow> Errorf format values = errPlaceholderResultType"

definition inferred_of :: "chtype result \<Rightarrow> inferred" where
  "inferred_of r = (case r of
       Inr t \<Rightarrow> Typed t | Inl err \<Rightarrow> (if is_placeholder_error err then PlaceholderError err else OtherError err))"

lemma inferred_result_of [simp]: "inferred_result (inferred_of r) = r"
  by (auto simp: inferred_of_def inferred_result_def split: sum.splits)

record eval_call =
  ev_args :: "expr list"
  ev_types :: "inferred list"
  ev_consts :: "bool list"

definition newCallContext :: "infer_env \<Rightarrow> queryScope \<Rightarrow> (expr \<Rightarrow> chtype result) \<Rightarrow> expr list \<Rightarrow> eval_call" where
  "newCallContext env scope f args =
     \<lparr>ev_args = args, ev_types = map (\<lambda>e. inferred_of (f e)) args, ev_consts = map (isConstLiteralExpr env scope) args\<rparr>"

lemma newCallContext_cong:
  "(\<And>e. e \<in> set args \<Longrightarrow> f e = g e) \<Longrightarrow> newCallContext env scope f args = newCallContext env scope g args"
  by (simp add: newCallContext_def)

text \<open>The registry facts that the wrapper transport reads.\<close>

definition facts_of :: "registry \<Rightarrow> string \<Rightarrow> registry_facts" where
  "facts_of reg name =
     \<lparr>spec_transport = Option.bind (reg name) wrapper_transport,
      argument_constrained = (argumentDomainFor reg name \<noteq> None),
      fixed_result_rule = fixedResultFunctionType (functionRuleFor reg name),
      dynamic_forces_nullable = (case reg name of Some spec \<Rightarrow> dynamicForcesNullable spec | None \<Rightarrow> False)\<rparr>"

text \<open>A registered specification has a class, so the transport of a class without one is a panic.\<close>

definition no_transport :: error where
  "no_transport = Errorf ''panic: a function has no wrapper class'' []"

section \<open>The evaluation of a registered call\<close>

record callEvaluationPlan =
  ruleArguments :: nat
  validationArguments :: nat
  domainBefore :: "nat list"
  domainAfter :: "nat list"
  firstValue :: bool
  allowPlaceholder :: bool
  skipStars :: bool
  checkParameters :: bool
  compareBefore :: bool
  compareAfter :: bool

definition functionCallPlan :: "string \<Rightarrow> functionSpec \<Rightarrow> nat \<Rightarrow> callEvaluationPlan" where
  "functionCallPlan name spec arity =
     (let p = \<lparr>ruleArguments = arity, validationArguments = arity, domainBefore = [], domainAfter = [],
            firstValue = False, allowPlaceholder = False, skipStars = False, checkParameters = True,
            compareBefore = True, compareAfter = False\<rparr> in
      case strategy spec of
        argsIndependent \<Rightarrow> p\<lparr>ruleArguments := 0, domainBefore := domainArgs spec, allowPlaceholder := True,
            skipStars := True, checkParameters := False, compareBefore := False, compareAfter := True\<rparr>
      | argsFirstOnly \<Rightarrow> p\<lparr>ruleArguments := 1,
            validationArguments := (if spec_class spec = wrapperOpaque then 1 else aggregateDataArgCount name arity),
            firstValue := True, allowPlaceholder := True, compareBefore := False,
            domainBefore := (if 0 \<in> set (domainArgs spec) then [0] else []), domainAfter := domainArgs spec\<rparr>
      | argsGeneric \<Rightarrow> (if arity > 0 then p\<lparr>domainBefore := [0]\<rparr> else p)
      | argsUnset \<Rightarrow> p)"

definition evaluation_argument ::
    "string \<Rightarrow> bool \<Rightarrow> callEvaluationPlan \<Rightarrow> nat \<times> inferred \<Rightarrow> (chtype \<times> bool) result" where
  "evaluation_argument displayName allow p a =
     (let refused = (\<lambda>err. Inl (Wrapf ''function %s %s: %w''
            [displayName, if firstValue p \<and> fst a = 0 then ''first argument'' else ''argument''] err)) in
      case snd a of
        Typed t \<Rightarrow> Inr (t, False)
      | PlaceholderError err \<Rightarrow> (if allow then Inr (ty0 [], True) else refused err)
      | OtherError err \<Rightarrow> refused err)"

text \<open>The types of the arguments from \<open>start\<close> to \<open>stop\<close>, and whether one of them is a placeholder.\<close>

definition evaluationArguments ::
    "eval_call \<Rightarrow> string \<Rightarrow> nat \<Rightarrow> nat \<Rightarrow> bool \<Rightarrow> callEvaluationPlan \<Rightarrow> (chtype list \<times> bool) result" where
  "evaluationArguments call displayName start stop allow p =
     bind_res (map_res (\<lambda>i. evaluation_argument displayName allow p (i, ev_types call ! i))
        (filter (\<lambda>i. \<not> (skipStars p \<and> isStarArgument (arg_of (ev_args call ! i)))) [start..<stop]))
     (\<lambda>vs. Inr (map fst vs, list_ex snd vs))"

definition domain_base :: "chtype \<Rightarrow> chtype" where
  "domain_base t = (case simpleAggregateWrapperInner (base_of t) of Some inner \<Rightarrow> base_of inner | None \<Rightarrow> base_of t)"

definition evaluation_domain_at :: "eval_call \<Rightarrow> string \<Rightarrow> functionSpec \<Rightarrow> argumentDomain \<Rightarrow> nat \<Rightarrow> unit result" where
  "evaluation_domain_at call displayName spec domain index =
     bind_res (checkArgumentDomainAt displayName domain [index] (length (ev_args call))
        (\<lambda>i. case ev_types call ! i of Typed t \<Rightarrow> Some (domain_base t) | _ \<Rightarrow> None)) (\<lambda>_.
     case ev_types call ! index of
       Typed t \<Rightarrow> (if nonPortableInputs spec \<noteq> [] \<and> \<not> portableFunctionInput t (nonPortableInputs spec)
          then Inl (Errorf ''function %s has a build-dependent result for %s; explicitly CAST the input AS Float64 (preserving nullability), or use server-assisted generation''
                 [displayName, to_string t])
          else Inr ())
     | _ \<Rightarrow> Inr ())"

definition validateEvaluationDomain :: "eval_call \<Rightarrow> string \<Rightarrow> functionSpec \<Rightarrow> nat list \<Rightarrow> nat \<Rightarrow> unit result" where
  "validateEvaluationDomain call displayName spec indexes start =
     (if domainMode spec \<noteq> argumentDomainRestricted then Inr ()
      else case spec_domain spec of
        None \<Rightarrow> Inr ()
      | Some domain \<Rightarrow> check_all (evaluation_domain_at call displayName spec domain) (filter (\<lambda>i. i \<ge> start) indexes))"

definition validateEvaluationPairs :: "eval_call \<Rightarrow> string \<Rightarrow> string \<Rightarrow> functionSpec \<Rightarrow> chtype list \<Rightarrow> unit result" where
  "validateEvaluationPairs call name displayName spec types =
     bind_res (checkHasElementPair displayName name (ev_consts call) types) (\<lambda>_.
       if comparesArgPair spec \<and> length (ev_args call) = 2 \<and> length types = 2
       then checkComparableOperandExprs (''function '' @ displayName) (ev_consts call ! 0) (ev_consts call ! 1) (types ! 0) (types ! 1)
       else Inr ())"

definition add_outer :: "bool \<Rightarrow> bool \<Rightarrow> wrapperStack \<Rightarrow> wrapperStack" where
  "add_outer nullable lowCardinality stack = stack\<lparr>
     st_lowCardinality := (st_lowCardinality stack \<or> lowCardinality),
     st_nullable := (st_nullable stack \<or> nullable), st_outerNullable := (st_outerNullable stack \<or> nullable)\<rparr>"

definition evaluationRuleArgument ::
    "registry \<Rightarrow> string \<Rightarrow> functionSpec \<Rightarrow> callEvaluationPlan \<Rightarrow> chtype \<Rightarrow> chtype \<times> wrapperStack" where
  "evaluationRuleArgument reg name spec p value_type =
     (if spec_class spec = wrapperOpaque then (value_type, zero_stack)
      else if firstValue p then
        (let (base, nullable, lowCardinality) = splitCHWrappers value_type;
             unwraps = (domainMode spec = argumentDomainRestricted \<and> name \<notin> set valuePreservingDomainFunctions
               \<and> \<not> hasFunctionTransportOverride (facts_of reg) name);
             (base', nullable', lowCardinality') = (case (unwraps, simpleAggregateWrapperInner base) of
                 (True, Some inner) \<Rightarrow> (let (innerBase, innerNull, innerLow) = splitCHWrappers inner in
                    (innerBase, nullable \<or> innerNull, lowCardinality \<or> innerLow))
               | _ \<Rightarrow> (base, nullable, lowCardinality));
             (bare, stack) = splitWrapperStack base' in
         (bare, add_outer nullable' lowCardinality' stack))
      else splitWrapperStack value_type)"

text \<open>The wrappers of the result, once the rule and every check has answered.\<close>

definition evaluation_result ::
    "registry \<Rightarrow> string \<Rightarrow> functionSpec \<Rightarrow> eval_call \<Rightarrow> callEvaluationPlan \<Rightarrow> (chtype \<times> wrapperStack) list \<Rightarrow>
     chtype list \<Rightarrow> chtype list \<Rightarrow> chtype \<Rightarrow> chtype result" where
  "evaluation_result reg name spec call p ruleArgs argTypes extraTypes result =
     (if firstValue p then
        (case transportForFunction (facts_of reg) name (spec_class spec) of
           None \<Rightarrow> Inl no_transport
         | Some transport \<Rightarrow>
            (let firstStack = foldl (\<lambda>st t. add_outer (nullable_of t) False st) (snd (hd ruleArgs)) extraTypes in
             Inr (applyWrapperTransport result
               (if hasFunctionTransportOverride (facts_of reg) name then transport
                else withResolvedLowCardinality transport (st_lowCardinality firstStack))
               \<lparr>call_base = fst (hd ruleArgs), call_stacks = [firstStack], call_argCount = length (ev_args call)\<rparr>)))
      else (case functionWrapperTransport (facts_of reg) (spec_class spec) name (ev_consts call) argTypes of
           None \<Rightarrow> Inl no_transport
         | Some (transport, wrappers) \<Rightarrow> Inr (applyWrapperTransport result transport wrappers)))"

definition check_when :: "bool \<Rightarrow> unit result \<Rightarrow> unit result" where
  "check_when needed check = (if needed then check else Inr ())"

definition evaluateFunctionCall ::
    "registry \<Rightarrow> string \<Rightarrow> string \<Rightarrow> functionSpec \<Rightarrow> functionTypeRule \<Rightarrow> eval_call \<Rightarrow> chtype result" where
  "evaluateFunctionCall reg name displayName spec rule call =
     (let p = functionCallPlan name spec (length (ev_args call)) in
      if ruleArguments p > length (ev_args call)
      then Inl (Errorf ''function %s has no arguments'' [displayName])
      else
        bind_res (evaluationArguments call displayName 0 (ruleArguments p) False p) (\<lambda>(argTypes, _).
        bind_res (validateEvaluationDomain call displayName spec (domainBefore p) 0) (\<lambda>_.
        bind_res (check_when (compareBefore p) (validateEvaluationPairs call name displayName spec argTypes)) (\<lambda>_.
        let ruleArgs = map (evaluationRuleArgument reg name spec p) argTypes in
        bind_res (rule (map fst ruleArgs)) (\<lambda>ruled.
        bind_res (if checkParameters p then applyParameterVerdict (policy_of reg) name ruled else Inr ruled) (\<lambda>result.
        bind_res (evaluationArguments call displayName (ruleArguments p) (validationArguments p) (allowPlaceholder p) p)
          (\<lambda>(extraTypes, placeholder).
        bind_res (validateEvaluationDomain call displayName spec (domainAfter p) (ruleArguments p)) (\<lambda>_.
        bind_res (check_when (compareAfter p \<and> \<not> placeholder)
                    (validateEvaluationPairs call name displayName spec (argTypes @ extraTypes))) (\<lambda>_.
        if spec_class spec = wrapperOpaque \<or> placeholder \<and> \<not> firstValue p then Inr result
        else evaluation_result reg name spec call p ruleArgs (argTypes @ extraTypes) extraTypes result)))))))))"


section \<open>if, multiIf, coalesce and ifNull\<close>

text \<open>The positions of the values; the other positions are conditions.\<close>

definition conditional_values :: "string \<Rightarrow> string \<Rightarrow> nat \<Rightarrow> nat list result" where
  "conditional_values name displayName arity =
     (if name = ''if'' then
        (if arity \<noteq> 3 then Inl (Errorf ''function %s expects a condition and two values'' [displayName]) else Inr [1, 2])
      else if name = ''multiif'' then
        (if arity < 3 \<or> even arity
         then Inl (Errorf ''function %s expects condition/value pairs and a final value'' [displayName])
         else Inr (filter odd [1..<arity - 1] @ [arity - 1]))
      else if name = ''ifnull'' then
        (if arity \<noteq> 2 then Inl (Errorf ''function %s expects two arguments'' [displayName]) else Inr [0, 1])
      else if arity = 0 then Inl (Errorf ''function %s has no arguments'' [displayName])
      else Inr [0..<arity])"

definition argument_checked :: "string \<Rightarrow> string list \<Rightarrow> inferred \<Rightarrow> chtype result" where
  "argument_checked label names a = (case inferred_result a of Inl err \<Rightarrow> Inl (Wrapf label names err) | Inr t \<Rightarrow> Inr t)"

text \<open>
  A folded condition spares the call a dead branch that has no type: the result is then the live branch.
  \<open>folded\<close> is the folded truth of the first argument.
\<close>

definition dead_branch :: "bool option \<Rightarrow> eval_call \<Rightarrow> inferred option" where
  "dead_branch folded call = (case folded of
       None \<Rightarrow> None
     | Some truth \<Rightarrow>
         (let live = (if truth then 1 else 2); dead = (if truth then 2 else 1) in
          if is_typed (ev_types call ! dead) then None else Some (ev_types call ! live)))"

definition coalesce_prefix :: "chtype list \<Rightarrow> nat" where
  "coalesce_prefix types = (if list_all branchArgumentNullable types then length types
     else Suc (length (takeWhile branchArgumentNullable types)))"

definition null_eliminated :: "chtype \<Rightarrow> chtype" where
  "null_eliminated result = (case simpleAggregateWrapperInner result of
       Some inner \<Rightarrow> (if nullable_of inner then inner else result) | None \<Rightarrow> result)"

definition conditional_result :: "registry \<Rightarrow> string \<Rightarrow> chtype list \<Rightarrow> expr list \<Rightarrow> bool list \<Rightarrow> chtype result" where
  "conditional_result reg name types exprs consts =
     (let kept = (if name = ''coalesce'' then coalesce_prefix types else length types);
          ts = take kept types; es = map lit_of (take kept exprs);
          eliminates = (name = ''coalesce'' \<or> name = ''ifnull'') in
      bind_res (if eliminates then commonNullEliminatingCHType ts es else commonBranchCHType ts es) (\<lambda>common.
        let result = (if eliminates then null_eliminated common else common);
            nullable = (if name = ''coalesce'' then list_all branchArgumentNullable ts
                        else if name = ''ifnull'' then branchArgumentNullable (ts ! 1) else nullable_of result);
            lowCardinality = (name = ''ifnull'' \<and> snd (transparentWrapperFlags (facts_of reg) name consts ts)) in
        Inr (applyCHWrappers (base_of result) nullable lowCardinality)))"

definition inferConditionalFamilyType ::
    "registry \<Rightarrow> string \<Rightarrow> string \<Rightarrow> bool option \<Rightarrow> eval_call \<Rightarrow> chtype result" where
  "inferConditionalFamilyType reg name displayName folded call =
     bind_res (conditional_values name displayName (length (ev_args call))) (\<lambda>slots.
       case (if name = ''if'' then dead_branch folded call else None) of
         Some live \<Rightarrow> argument_checked ''function %s argument: %w'' [displayName] live
       | None \<Rightarrow>
          bind_res (check_all (\<lambda>i. case ev_types call ! i of
                OtherError err \<Rightarrow> Inl (Wrapf ''function %s condition: %w'' [displayName] err) | _ \<Rightarrow> Inr ())
              (filter (\<lambda>i. i \<notin> set slots) [0..<length (ev_args call)])) (\<lambda>_.
          bind_res (map_res (\<lambda>i. argument_checked ''function %s argument: %w'' [displayName] (ev_types call ! i)) slots) (\<lambda>types.
          conditional_result reg name types (map ((!) (ev_args call)) slots) (map ((!) (ev_consts call)) slots))))"

section \<open>AND, OR and xor\<close>

text \<open>The type whose base decides whether an operand is a Bool: a marker that a value read removes is set aside.\<close>

definition value_read_type :: "chtype \<Rightarrow> chtype" where
  "value_read_type t = (case simpleAggregateWrapperInner t of
       Some inner \<Rightarrow> (if simpleAggregateMarkerSurvives inner then t else inner) | None \<Rightarrow> t)"

definition bare_bool :: "chtype result \<Rightarrow> bool result" where
  "bare_bool r = (case inferred_of r of
       Typed t \<Rightarrow> Inr (\<not> nullable_of (value_read_type t) \<and> named (base_of (value_read_type t)) ''bool'')
     | PlaceholderError _ \<Rightarrow> Inr False | OtherError err \<Rightarrow> Inl err)"

text \<open>
  A chain of the same operator without parentheses is one flat list of operands; parentheses seal it.
\<close>

fun andOrOperandCarriesBareBool :: "(expr \<Rightarrow> chtype result) \<Rightarrow> string \<Rightarrow> expr \<Rightarrow> bool result" where
  "andOrOperandCarriesBareBool f operator (EColumn e) = andOrOperandCarriesBareBool f operator e"
| "andOrOperandCarriesBareBool f operator (EBinary left operation right) =
     (if equal_fold operation operator
      then bind_res (andOrOperandCarriesBareBool f operator left) (\<lambda>leftHasBool.
        if leftHasBool then Inr True else andOrOperandCarriesBareBool f operator right)
      else bare_bool (f (EBinary left operation right)))"
| "andOrOperandCarriesBareBool f operator e = bare_bool (f e)"

definition xorOperandCarriesBool :: "(expr \<Rightarrow> chtype result) \<Rightarrow> expr \<Rightarrow> bool result" where
  "xorOperandCarriesBool f e = (case inferred_of (f e) of
       Typed t \<Rightarrow> Inr (named (base_of (value_read_type t)) ''bool'')
     | PlaceholderError _ \<Rightarrow> Inr False | OtherError err \<Rightarrow> Inl err)"

record logic_state =
  lg_nullable :: bool
  lg_count :: nat
  lg_othersConstant :: bool
  lg_hasBool :: bool
  lg_hasDynamic :: bool

definition logic_start :: logic_state where
  "logic_start = \<lparr>lg_nullable = False, lg_count = 0, lg_othersConstant = True, lg_hasBool = False, lg_hasDynamic = False\<rparr>"

text \<open>One argument of the loop: its expression, its type, whether it is a constant.\<close>

definition logic_step ::
    "registry \<Rightarrow> argumentDomain \<Rightarrow> (expr \<Rightarrow> chtype result) \<Rightarrow> string \<Rightarrow> string \<Rightarrow> expr \<times> inferred \<times> bool \<Rightarrow>
     logic_state \<Rightarrow> logic_state result" where
  "logic_step reg domain f name displayName a st = (case a of (e, inferred, const) \<Rightarrow>
     (case inferred of
        PlaceholderError _ \<Rightarrow> Inr (st\<lparr>lg_othersConstant := False\<rparr>)
      | OtherError err \<Rightarrow> Inl (Wrapf ''function %s argument: %w'' [displayName] err)
      | Typed t \<Rightarrow>
         (let logicBase = domain_base t in
          if \<not> accepts domain logicBase
          then Inl (Errorf ''function %s does not accept an argument of type %s; ClickHouse needs %s here; %s''
                 [displayName, to_string t, expected domain, pinTypeHint])
          else
            bind_res (if name = ''xor'' then xorOperandCarriesBool f e
                      else andOrOperandCarriesBareBool f (to_upper name) e) (\<lambda>operandHasBool.
            let dynamic = isDynamicCHType logicBase; low = branchArgumentLowCardinality t in
            Inr (st\<lparr>lg_hasDynamic := (lg_hasDynamic st \<or> dynamic),
              lg_nullable := (lg_nullable st \<or> dynamic \<and> dynamic_forces_nullable (facts_of reg name) \<or> branchArgumentNullable t),
              lg_count := (if low then Suc (lg_count st) else lg_count st),
              lg_othersConstant := (lg_othersConstant st \<and> (low \<or> const)),
              lg_hasBool := (lg_hasBool st \<or> operandHasBool)\<rparr>)))))"

text \<open>The result of a logic operation on a base type: the class transport decides which wrappers stay.\<close>

definition logic_result :: "registry \<Rightarrow> string \<Rightarrow> chtype \<Rightarrow> bool \<Rightarrow> bool \<Rightarrow> nat \<Rightarrow> chtype result" where
  "logic_result reg name base nullable lowCardinality arity =
     (case transportForFunction (facts_of reg) name wrapperTransparent of
        None \<Rightarrow> Inl no_transport
      | Some transport \<Rightarrow> Inr (applyWrapperTransport base (withResolvedLowCardinality transport lowCardinality)
          \<lparr>call_base = base, call_stacks = [\<lparr>st_lowCardinality = lowCardinality, st_nullable = nullable,
             st_outerNullable = nullable, st_simpleAggregate = None\<rparr>], call_argCount = arity\<rparr>))"

definition inferLogicOperatorFunctionType ::
    "registry \<Rightarrow> (expr \<Rightarrow> chtype result) \<Rightarrow> string \<Rightarrow> string \<Rightarrow> eval_call \<Rightarrow> chtype result" where
  "inferLogicOperatorFunctionType reg f name displayName call =
     (if length (ev_args call) < 2
      then Inl (Errorf ''function %s needs at least 2 arguments, the call has %d; %s''
             [displayName, itoa (int (length (ev_args call))), pinTypeHint])
      else case argumentDomainFor reg name of
        None \<Rightarrow> Inl (Errorf ''function %s has no measured argument domain; %s'' [displayName, pinTypeHint])
      | Some domain \<Rightarrow>
         bind_res (fold_res (logic_step reg domain f name displayName)
            (zip (ev_args call) (zip (ev_types call) (ev_consts call))) logic_start) (\<lambda>st.
         logic_result reg name (if lg_hasBool st \<and> \<not> lg_hasDynamic st then ty0 ''Bool'' else ty0 ''UInt8'')
           (lg_nullable st) (lg_count st = 1 \<and> lg_othersConstant st) (length (ev_args call))))"

end
