(* ===== verification/Special.thy ===== *)
theory Special
  imports Calls TypeParser Temporal
begin

text \<open>
  The calls with a route of their own (\<^verbatim>\<open>function_routes.go\<close>): tuple elements, time zones, date
  arithmetic (\<^verbatim>\<open>infer_operators.go\<close>, \<^verbatim>\<open>cursor_functions.go\<close>) and the constructors that read a size
  (\<^verbatim>\<open>sized_constructor.go\<close>).
\<close>

section \<open>Tuple elements\<close>

definition isCHTuple :: "chtype \<Rightarrow> bool" where
  "isCHTuple columnType \<longleftrightarrow> named columnType ''tuple'' \<and> Params columnType \<noteq> []"

definition tupleElementResult :: "chtype \<Rightarrow> bool \<Rightarrow> chtype" where
  "tupleElementResult elementType keepLowCardinality =
     (if keepLowCardinality then elementType else applyCHWrappers (base_of elementType) (nullable_of elementType) False)"

definition tupleElementByIndex :: "chtype \<Rightarrow> int \<Rightarrow> bool \<Rightarrow> chtype result" where
  "tupleElementByIndex tupleType index keepLowCardinality =
     (if index < 1 \<or> index > int (length (Params tupleType))
      then Inl (Errorf ''%s has no element with index %d; ClickHouse counts the elements from 1'' [to_string tupleType, itoa index])
      else Inr (tupleElementResult (Params tupleType ! nat (index - 1)) keepLowCardinality))"

definition tupleElementByName :: "chtype \<Rightarrow> string \<Rightarrow> bool \<Rightarrow> chtype result" where
  "tupleElementByName tupleType name keepLowCardinality =
     (if ParamNames tupleType = []
      then Inl (Errorf ''%s has unnamed elements, so it has no element %q; use the index form'' [to_string tupleType, name])
      else case find (\<lambda>(elementName, _). elementName = name) (zip (ParamNames tupleType) (Params tupleType)) of
        Some (_, element) \<Rightarrow> Inr (tupleElementResult element keepLowCardinality)
      | None \<Rightarrow> Inl (Errorf ''%s has no element with name %q'' [to_string tupleType, name]))"

text \<open>The element a selector names, and whether the tuple is inside an Array.\<close>

definition tuple_selected :: "(expr \<Rightarrow> string) \<Rightarrow> string \<Rightarrow> chtype \<Rightarrow> expr \<Rightarrow> (chtype result) result" where
  "tuple_selected format displayName tupleType selector = (case selector of
       ENumber literal \<Rightarrow> (case atoi literal of
           None \<Rightarrow> Inl (Errorf ''function %s element index %q is not an integer'' [displayName, literal])
         | Some p \<Rightarrow> Inr (tupleElementByIndex tupleType p False))
     | EString literal \<Rightarrow> Inr (tupleElementByName tupleType (trim_quotes literal) False)
     | _ \<Rightarrow> Inl (Errorf ''function %s needs a constant element index or element name, got %s'' [displayName, format selector]))"

definition inferTupleElementType :: "(expr \<Rightarrow> string) \<Rightarrow> string \<Rightarrow> eval_call \<Rightarrow> chtype result" where
  "inferTupleElementType format displayName call =
     (let args = ev_args call in
      if length args < 2 \<or> length args > 3
      then Inl (Errorf ''function %s expects two or three arguments, got %d'' [displayName, itoa (int (length args))])
      else bind_res (argument_checked ''function %s first argument: %w'' [displayName] (ev_types call ! 0)) (\<lambda>first.
        let arrayOfTuple = (normalizedName first = ''array'' \<and> length (Params first) = 1 \<and> isCHTuple (hd (Params first)));
            tupleType = (if arrayOfTuple then hd (Params first) else first) in
        if \<not> isCHTuple tupleType
        then Inl (Errorf ''function %s cannot read an element of %s: it needs a Tuple with known element types''
               [displayName, to_string tupleType])
        else bind_res (tuple_selected format displayName tupleType (args ! 1)) (\<lambda>selected.
          case selected of
            Inr element \<Rightarrow> Inr (if arrayOfTuple then ty1 ''Array'' [element] else element)
          | Inl err \<Rightarrow>
              (if arrayOfTuple then Inl (Wrapf ''function %s: %w'' [displayName] err)
               else if length args = 3
               then argument_checked ''function %s default argument: %w'' [displayName] (ev_types call ! 2)
               else Inl (Wrapf ''function %s: %w'' [displayName] err)))))"

section \<open>Dates and time zones\<close>

definition quoted_zone :: "string \<Rightarrow> string" where
  "quoted_zone literal = quote_mark # trim_quotes literal @ [quote_mark]"

definition dateTime :: "string list \<Rightarrow> chtype" where
  "dateTime zone = tyl ''DateTime'' zone"

definition dateTime64 :: "string \<Rightarrow> string list \<Rightarrow> chtype" where
  "dateTime64 precision zone = tyl ''DateTime64'' (precision # zone)"

definition interval_unit :: "expr \<Rightarrow> string option" where
  "interval_unit e = (case e of EInterval _ (Some unit) \<Rightarrow> Some unit | _ \<Rightarrow> None)"

definition inferToStartOfIntervalType :: "string \<Rightarrow> eval_call \<Rightarrow> chtype result" where
  "inferToStartOfIntervalType displayName call =
     (if length (ev_args call) < 2
      then Inl (Errorf ''function %s expects a value and an INTERVAL argument; %s'' [displayName, pinTypeHint])
      else case interval_unit (ev_args call ! 1) of
        None \<Rightarrow> Inl (Errorf ''function %s second argument is not an INTERVAL with a unit; %s'' [displayName, pinTypeHint])
      | Some unit \<Rightarrow>
         bind_res (argument_checked ''function %s first argument: %w'' [displayName] (ev_types call ! 0)) (\<lambda>valueType.
           let (base, nullable, lowCardinality) = splitCHWrappers valueType in
           if normalizedName base \<notin> {''date'', ''date32'', ''datetime'', ''datetime64''}
           then Inl (Errorf ''function %s has no measured rule for a %s argument; %s'' [displayName, to_string valueType, pinTypeHint])
           else case intervalUnitPrecision unit of
             None \<Rightarrow> Inl (Errorf ''function %s has no measured rule for INTERVAL %s; %s'' [displayName, to_upper unit, pinTypeHint])
           | Some (unitPrecision, _) \<Rightarrow>
              bind_res (checkToStartOfIntervalDomain displayName base unit valueType) (\<lambda>_.
                let zone = dateTimeTimezoneParams base;
                    result = (if to_lower (normalizeIntervalUnitName unit) \<in> {''week'', ''month'', ''quarter'', ''year''}
                              then ty0 ''Date''
                              else if unitPrecision > 0 then dateTime64 (itoa unitPrecision) zone else dateTime zone) in
                Inr (applyCHWrappers result nullable lowCardinality))))"

definition inferToTimeZoneType :: "string \<Rightarrow> eval_call \<Rightarrow> chtype result" where
  "inferToTimeZoneType displayName call =
     (if length (ev_args call) < 2
      then Inl (Errorf ''function %s expects a value and a timezone argument; %s'' [displayName, pinTypeHint])
      else case ev_args call ! 1 of
        EString literal \<Rightarrow>
          bind_res (argument_checked ''function %s first argument: %w'' [displayName] (ev_types call ! 0)) (\<lambda>valueType.
            let (base, nullable, lowCardinality) = splitCHWrappers valueType; zone = quoted_zone literal in
            if normalizedName base = ''datetime'' then Inr (applyCHWrappers (dateTime [zone]) nullable lowCardinality)
            else if normalizedName base = ''datetime64''
            then Inr (applyCHWrappers (dateTime64 (itoa (dateTime64Precision base)) [zone]) nullable lowCardinality)
            else Inl (Errorf ''function %s rejects a %s argument, it needs DateTime or DateTime64; %s''
                   [displayName, to_string valueType, pinTypeHint]))
      | _ \<Rightarrow> Inl (Errorf ''function %s needs a constant timezone; %s'' [displayName, pinTypeHint]))"

text \<open>The zone at a position: absent, or a constant, or refused.\<close>

definition zone_argument :: "string \<Rightarrow> expr list \<Rightarrow> nat \<Rightarrow> (string option) result" where
  "zone_argument displayName args index =
     (if index \<ge> length args then Inr None
      else case args ! index of
        EString literal \<Rightarrow> Inr (Some (quoted_zone literal))
      | _ \<Rightarrow> Inl (Errorf ''function %s needs a constant timezone; %s'' [displayName, pinTypeHint]))"

definition precision_argument :: "string \<Rightarrow> expr list \<Rightarrow> nat \<Rightarrow> string result" where
  "precision_argument displayName args index =
     (if index \<ge> length args then Inr ''3''
      else case args ! index of
        ENumber literal \<Rightarrow> Inr (trim_space literal)
      | _ \<Rightarrow> Inl (Errorf ''function %s needs a constant precision; %s'' [displayName, pinTypeHint]))"

definition timezone_domain :: "string \<Rightarrow> argumentDomain" where
  "timezone_domain name =
     (if name = ''tostartofday'' then dateArgumentDomain
      else if name \<in> {''tostartofhour'', ''tostartofminute''} then hourMinuteStartOfArgumentDomain
      else if name = ''todatetime'' then dateFromValueArgumentDomain
      else castArgumentDomain)"

text \<open>The result for a typed first argument.\<close>

definition timezone_result :: "string \<Rightarrow> string \<Rightarrow> expr list \<Rightarrow> string list \<Rightarrow> chtype result" where
  "timezone_result name displayName args argumentZone =
     (if name = ''todatetime64'' then
        bind_res (precision_argument displayName args 1) (\<lambda>precision.
        bind_res (zone_argument displayName args 2) (\<lambda>zone.
        Inr (dateTime64 precision (case zone of Some z \<Rightarrow> [z] | None \<Rightarrow> argumentZone))))
      else bind_res (zone_argument displayName args 1) (\<lambda>zone.
        Inr (dateTime (case zone of Some z \<Rightarrow> [z] | None \<Rightarrow> argumentZone))))"

definition inferTimezoneCarryingType :: "string \<Rightarrow> string \<Rightarrow> eval_call \<Rightarrow> chtype result" where
  "inferTimezoneCarryingType name displayName call =
     (let args = ev_args call in
      if name = ''now'' then
        bind_res (zone_argument displayName args 0) (\<lambda>zone. Inr (dateTime (case zone of Some z \<Rightarrow> [z] | None \<Rightarrow> [])))
      else if name = ''now64'' then
        bind_res (precision_argument displayName args 0) (\<lambda>precision.
        bind_res (zone_argument displayName args 1) (\<lambda>zone.
        Inr (dateTime64 precision (case zone of Some z \<Rightarrow> [z] | None \<Rightarrow> []))))
      else if args = [] then Inl (Errorf ''function %s has no arguments; %s'' [displayName, pinTypeHint])
      else case ev_types call ! 0 of
        PlaceholderError _ \<Rightarrow> Inr (if name = ''todatetime64'' then dateTime64 ''3'' [] else dateTime [])
      | OtherError err \<Rightarrow> Inl (Wrapf ''function %s first argument: %w'' [displayName] err)
      | Typed valueType \<Rightarrow>
         bind_res (checkArgumentDomain displayName (timezone_domain name) (domain_base valueType)) (\<lambda>_.
         bind_res (timezone_result name displayName args (dateTimeTimezoneParams (base_of valueType))) (\<lambda>result.
         Inr (applyCHWrappers result (branchArgumentNullable valueType) (branchArgumentLowCardinality valueType)))))"

definition temporal_shift_result :: "bool \<Rightarrow> chtype \<Rightarrow> chtype option" where
  "temporal_shift_result subFineUnit base =
     (let zone = dateTimeTimezoneParams base; name = normalizedName base in
      if name = ''date'' then Some (if subFineUnit then dateTime [] else ty0 ''Date'')
      else if name = ''date32'' then Some (if subFineUnit then dateTime64 ''3'' [] else ty0 ''Date32'')
      else if name = ''datetime'' then Some (dateTime zone)
      else if name = ''datetime64'' then Some (dateTime64 (itoa (dateTime64Precision base)) zone)
      else None)"

definition inferTemporalShiftType :: "string \<Rightarrow> string \<Rightarrow> eval_call \<Rightarrow> chtype result" where
  "inferTemporalShiftType name displayName call = (case map_of temporalShiftFunctions name of
       None \<Rightarrow> Inl (Errorf ''function %s is not a recognised date-arithmetic function; %s'' [displayName, pinTypeHint])
     | Some subFineUnit \<Rightarrow>
        (if ev_args call = [] then Inl (Errorf ''function %s has no arguments; %s'' [displayName, pinTypeHint])
         else case ev_types call ! 0 of
           PlaceholderError _ \<Rightarrow> Inr (dateTime [])
         | OtherError err \<Rightarrow> Inl (Wrapf ''function %s first argument: %w'' [displayName] err)
         | Typed valueType \<Rightarrow>
            bind_res (checkArgumentDomain displayName addSubtractTemporalArgumentDomain (domain_base valueType)) (\<lambda>_.
            bind_res (if length (ev_args call) > 1
                      then (case ev_types call ! 1 of
                          OtherError err \<Rightarrow> Inl (Wrapf ''function %s shift count: %w'' [displayName] err)
                        | PlaceholderError _ \<Rightarrow> Inr (branchArgumentNullable (ty0 []))
                        | Typed countType \<Rightarrow> Inr (branchArgumentNullable countType))
                      else Inr False) (\<lambda>countNullable.
            case temporal_shift_result subFineUnit (base_of valueType) of
              None \<Rightarrow> Inl (Errorf ''function %s: unhandled base type %s; %s''
                        [displayName, to_string (base_of valueType), pinTypeHint])
            | Some result \<Rightarrow> Inr (applyCHWrappers result (branchArgumentNullable valueType \<or> countNullable)
                               (branchArgumentLowCardinality valueType))))))"

definition inferUnixMillisecondsType :: "registry \<Rightarrow> string \<Rightarrow> eval_call \<Rightarrow> chtype result" where
  "inferUnixMillisecondsType reg displayName call =
     (let args = ev_args call; wrap = (\<lambda>result types.
          case applyFunctionWrappers (facts_of reg) result wrapperTransparent ''fromunixtimestamp64milli'' (ev_consts call) types of
            Some t \<Rightarrow> Inr t | None \<Rightarrow> Inl no_transport) in
      if length args < 1 \<or> length args > 2
      then Inl (Errorf ''function %s needs an integer and an optional constant timezone'' [displayName])
      else bind_res (argument_checked ''function %s first argument: %w'' [displayName] (ev_types call ! 0)) (\<lambda>valueType.
        bind_res (checkArgumentDomain displayName bitShiftIntegerDomain (fst (splitWrapperStack valueType))) (\<lambda>_.
        if length args \<noteq> 2 then wrap (dateTime64 ''3'' []) [valueType]
        else case unwrap_column (args ! 1) of
          EString literal \<Rightarrow> bind_res (validateMeasuredTimezone (quoted_zone literal)) (\<lambda>_.
            wrap (dateTime64 ''3'' [quoted_zone literal]) [valueType, ty0 ''String''])
        | _ \<Rightarrow> Inl (Errorf ''function %s needs a constant timezone'' [displayName]))))"

end
