(* ===== verification/Lambdas.thy ===== *)
theory Lambdas
  imports Special
begin

text \<open>
  The constructors that read a size from a constant argument (\<^verbatim>\<open>sized_constructor.go\<close>) and the
  higher-order array functions (\<^verbatim>\<open>infer_function.go\<close>). The body of a lambda is inferred in a scope of its
  own, below the scope of the call, so \<open>g\<close> is the inference in any scope.
\<close>

section \<open>Sized constructors\<close>

datatype sizedConstructorKind = sizedConstructorNone | sizedConstructorDecimal | sizedConstructorLength

record sizedConstructor =
  sized_base :: string
  sized_kind :: sizedConstructorKind
  decimalPrecision :: string
  sizeArgIndex :: nat
  orNull :: bool
  sized_spelling :: string
  sized_domain :: argumentDomain

definition castTargets :: "string list" where
  "castTargets = [''Int8'', ''Int16'', ''Int32'', ''Int64'', ''Int128'', ''Int256'', ''UInt8'', ''UInt16'', ''UInt32'',
     ''UInt64'', ''UInt128'', ''UInt256'', ''Float32'', ''Float64'', ''Date'', ''Date32'', ''DateTime'', ''UUID'',
     ''IPv4'', ''IPv6'']"

definition decimalTargets :: "(string \<times> string) list" where
  "decimalTargets = [(''Decimal32'', ''9''), (''Decimal64'', ''18''), (''Decimal128'', ''38''), (''Decimal256'', ''76'')]"

definition sized_entry ::
    "string \<Rightarrow> string \<Rightarrow> sizedConstructorKind \<Rightarrow> string \<Rightarrow> nat \<Rightarrow> bool \<Rightarrow> argumentDomain \<Rightarrow> string \<times> sizedConstructor" where
  "sized_entry spelt base k precision index null domain = (to_lower spelt,
     \<lparr>sized_base = base, sized_kind = k, decimalPrecision = precision, sizeArgIndex = index, orNull = null,
      sized_spelling = spelt, sized_domain = domain\<rparr>)"

definition buildSizedConstructors :: "(string \<times> sizedConstructor) list" where
  "buildSizedConstructors =
     map (\<lambda>target. sized_entry (''to'' @ target) target sizedConstructorNone [] 0 False wideIntegerArgumentDomain)
       [''Int128'', ''Int256'', ''UInt128'', ''UInt256'']
     @ [sized_entry ''toFixedString'' ''FixedString'' sizedConstructorLength [] 1 False castTextArgumentDomain]
     @ concat (map (\<lambda>(suffix, precision).
         [sized_entry (''to'' @ suffix) ''Decimal'' sizedConstructorDecimal precision 1 False decimalConstructorArgumentDomain,
          sized_entry (''to'' @ suffix @ ''OrZero'') ''Decimal'' sizedConstructorDecimal precision 1 False castTextArgumentDomain,
          sized_entry (''to'' @ suffix @ ''OrNull'') ''Decimal'' sizedConstructorDecimal precision 1 True castTextArgumentDomain])
         decimalTargets)
     @ concat (map (\<lambda>target.
         [sized_entry (''to'' @ target @ ''OrZero'') target sizedConstructorNone [] 0 False castTextArgumentDomain,
          sized_entry (''to'' @ target @ ''OrNull'') target sizedConstructorNone [] 0 True castTextArgumentDomain])
         castTargets)
     @ [sized_entry ''toDateTime64OrZero'' ''DateTime64'' sizedConstructorLength [] 1 False castTextArgumentDomain,
        sized_entry ''toDateTime64OrNull'' ''DateTime64'' sizedConstructorLength [] 1 True castTextArgumentDomain]"

text \<open>\<^verbatim>\<open>%T\<close> of a node, and the constant that a size argument must be.\<close>

fun node_kind :: "expr \<Rightarrow> string" where
  "node_kind (EColumn _) = ''ColumnExpr''"
| "node_kind (EIdent _ _) = ''Ident''"
| "node_kind (ESubQuery _) = ''SubQuery''"
| "node_kind (EPath _) = ''Path''"
| "node_kind (EParens _ _) = ''ParamExprList''"
| "node_kind (EArray _) = ''ArrayParamList''"
| "node_kind (EIndex _ _ _) = ''IndexOperation''"
| "node_kind (EObject _ _) = ''ObjectParams''"
| "node_kind (EUnary _ _) = ''UnaryExpr''"
| "node_kind (EBinary _ _ _) = ''BinaryOperation''"
| "node_kind (ECase _ _ _) = ''CaseExpr''"
| "node_kind (EBetween _ _ _) = ''BetweenClause''"
| "node_kind (EIsNull _) = ''IsNullExpr''"
| "node_kind (EIsNotNull _) = ''IsNotNullExpr''"
| "node_kind (EFunction _ _ _) = ''FunctionExpr''"
| "node_kind (EWindow _ _ _ _) = ''WindowFunctionExpr''"
| "node_kind (ECast _ _) = ''CastExpr''"
| "node_kind (EInterval _ _) = ''IntervalExpr''"
| "node_kind (ENumber _) = ''NumberLiteral''"
| "node_kind (EString _) = ''StringLiteral''"
| "node_kind (EBool _) = ''BoolLiteral''"
| "node_kind ENull = ''NullLiteral''"
| "node_kind EPlaceholder = ''PlaceHolder''"
| "node_kind (EOther k) = k"

definition constantIntegerArgument :: "(expr \<Rightarrow> string) \<Rightarrow> string \<Rightarrow> expr list \<Rightarrow> nat \<Rightarrow> string \<Rightarrow> string result" where
  "constantIntegerArgument format displayName args index label =
     (if index \<ge> length args
      then Inl (Errorf ''function %s needs a constant %s argument at position %d; %s''
             [displayName, label, itoa (int index + 1), pinTypeHint])
      else case unwrap_column (args ! index) of
        ENumber literal \<Rightarrow>
          (let number = trim_space (format (ENumber literal)) in
           case unsigned_digits number of
             Some v \<Rightarrow> (if v < 2 ^ 16 then Inr number
                 else Inl (Errorf ''function %s needs a constant non-negative integer %s argument, got %q; %s'' [displayName, label, number, pinTypeHint]))
           | None \<Rightarrow> Inl (Errorf ''function %s needs a constant non-negative integer %s argument, got %q; %s'' [displayName, label, number, pinTypeHint]))
      | other \<Rightarrow> Inl (Errorf ''function %s needs a constant %s argument, got %T; %s'' [displayName, label, node_kind other, pinTypeHint]))"

definition sized_zone :: "(expr \<Rightarrow> string) \<Rightarrow> sizedConstructor \<Rightarrow> string \<Rightarrow> expr list \<Rightarrow> string list result" where
  "sized_zone format spec displayName args =
     (if equal_fold (sized_base spec) ''DateTime64'' \<and> length args > sizeArgIndex spec + 1
      then (case unwrap_column (args ! (sizeArgIndex spec + 1)) of
          EString literal \<Rightarrow> Inr [format (EString literal)]
        | _ \<Rightarrow> Inl (Errorf ''function %s needs a constant timezone; %s'' [displayName, pinTypeHint]))
      else Inr [])"

definition sized_literals :: "(expr \<Rightarrow> string) \<Rightarrow> sizedConstructor \<Rightarrow> string \<Rightarrow> expr list \<Rightarrow> string list result" where
  "sized_literals format spec displayName args = (case sized_kind spec of
       sizedConstructorNone \<Rightarrow> Inr []
     | sizedConstructorDecimal \<Rightarrow>
         bind_res (constantIntegerArgument format displayName args (sizeArgIndex spec) ''scale'') (\<lambda>scale.
         Inr [decimalPrecision spec, scale])
     | sizedConstructorLength \<Rightarrow>
         bind_res
           (if sizeArgIndex spec < length args
            then constantIntegerArgument format displayName args (sizeArgIndex spec) ''size''
            else if \<not> equal_fold displayName ''toDateTime64OrNull'' \<and> \<not> equal_fold displayName ''toDateTime64OrZero''
            then Inl (Errorf ''function %s needs a constant size argument at position %d; %s''
                   [displayName, itoa (int (sizeArgIndex spec) + 1), pinTypeHint])
            else Inr ''3'')
           (\<lambda>size_text. bind_res (sized_zone format spec displayName args) (\<lambda>zone. Inr (size_text # zone))))"

definition sizedConstructorResult :: "(expr \<Rightarrow> string) \<Rightarrow> sizedConstructor \<Rightarrow> string \<Rightarrow> expr list \<Rightarrow> chtype result" where
  "sizedConstructorResult format spec displayName args =
     bind_res (sized_literals format spec displayName args) (\<lambda>literals.
       let result = tyl (sized_base spec) literals in
       Inr (if orNull spec then ty1 ''Nullable'' [result] else result))"

definition checkFixedStringNarrowing :: "string \<Rightarrow> chtype \<Rightarrow> chtype \<Rightarrow> unit result" where
  "checkFixedStringNarrowing displayName source result =
     (let sourceBase = base_of source in
      if Name result \<noteq> ''FixedString'' \<or> normalizedName sourceBase \<noteq> ''fixedstring''
         \<or> length (LiteralParams sourceBase) \<noteq> 1 \<or> length (LiteralParams result) \<noteq> 1
      then Inr ()
      else case (atoi (hd (LiteralParams sourceBase)), atoi (hd (LiteralParams result))) of
        (Some sourceWidth, Some targetWidth) \<Rightarrow>
          (if targetWidth \<ge> sourceWidth then Inr ()
           else Inl (Errorf ''function %s narrows a FixedString(%d) source to FixedString(%d); a FixedString(%d) value is always %d bytes long because ClickHouse NUL-pads it to that width, so no value of the source type can fit in the narrower target, and the server reports Code: 131 (String too long) when the query RUNS, not when it is analyzed; %s''
                  [displayName, itoa sourceWidth, itoa targetWidth, itoa sourceWidth, itoa sourceWidth, pinTypeHint]))
      | _ \<Rightarrow> Inr ())"

definition inferSizedConstructorType ::
    "registry \<Rightarrow> (expr \<Rightarrow> string) \<Rightarrow> sizedConstructor \<Rightarrow> string \<Rightarrow> string \<Rightarrow> eval_call \<Rightarrow> chtype result" where
  "inferSizedConstructorType reg format spec name displayName call =
     bind_res (sizedConstructorResult format spec displayName (ev_args call)) (\<lambda>result.
     bind_res (map_res (argument_checked ''function %s argument: %w'' [displayName]) (ev_types call)) (\<lambda>argTypes.
     if argTypes = [] then Inl (Errorf ''function %s has no arguments'' [displayName])
     else
       bind_res (checkArgumentDomain displayName (sized_domain spec) (base_of (hd argTypes))) (\<lambda>_.
       bind_res (checkFixedStringNarrowing displayName (hd argTypes) result) (\<lambda>_.
       let (nullable, lowCardinality) = transparentWrapperFlags (facts_of reg) name (ev_consts call) argTypes in
       Inr (applyCHWrappers result nullable (lowCardinality \<and> \<not> resultRejectsLowCardinality result))))))"

section \<open>Reductions of an array\<close>

definition arraySumResultType :: "string \<Rightarrow> chtype \<Rightarrow> chtype result" where
  "arraySumResultType displayName bodyType =
     (let base = base_of bodyType; lower = to_lower (Name base);
          refused = Inl (Errorf ''function %s cannot aggregate the type %s'' [displayName, to_string bodyType]) in
      if nullable_of bodyType
      then Inl (Errorf ''function %s cannot aggregate the Nullable type %s'' [displayName, to_string bodyType])
      else case decimalPrecisionScale base of
        Some (precision, scale) \<Rightarrow> Inr (tyl ''Decimal'' [itoa (max 38 precision), itoa scale])
      | None \<Rightarrow>
         (if has_prefix lower ''float'' then Inr (ty0 ''Float64'')
          else if lower \<in> {''uint128'', ''uint256'', ''int128'', ''int256''} then Inr base
          else if lower = ''bool'' \<or> lower = ''boolean'' \<or> has_prefix lower ''uint'' then Inr (ty0 ''UInt64'')
          else if integerBaseType base \<and> has_prefix lower ''int'' then Inr (ty0 ''Int64'')
          else refused))"

definition checkArrayNumericReductionBody :: "string \<Rightarrow> chtype \<Rightarrow> unit result" where
  "checkArrayNumericReductionBody displayName bodyType =
     (let base = base_of bodyType in
      if nullable_of bodyType
      then Inl (Errorf ''function %s cannot aggregate the Nullable type %s'' [displayName, to_string bodyType])
      else if numberBaseType base \<or> normalizedName base \<in> {''bool'', ''boolean'', ''enum8'', ''enum16''} then Inr ()
      else Inl (Errorf ''function %s cannot aggregate the type %s'' [displayName, to_string bodyType]))"

definition foldAccumulatorTypesEqual :: "chtype \<Rightarrow> chtype \<Rightarrow> bool" where
  "foldAccumulatorTypesEqual bodyType accumulatorType \<longleftrightarrow>
     to_string bodyType = to_string accumulatorType
     \<or> Params bodyType = [] \<and> Params accumulatorType = [] \<and> LiteralParams bodyType = [] \<and> LiteralParams accumulatorType = []
       \<and> normalizedName bodyType \<in> {''bool'', ''boolean'', ''uint8''}
       \<and> normalizedName accumulatorType \<in> {''bool'', ''boolean'', ''uint8''}"

definition checkHigherOrderLimit :: "(expr \<Rightarrow> chtype result) \<Rightarrow> string \<Rightarrow> expr \<Rightarrow> unit result" where
  "checkHigherOrderLimit f displayName e = (case f e of
       Inl err \<Rightarrow> Inl (Wrapf ''function %s limit: %w'' [displayName] err)
     | Inr limitType \<Rightarrow>
         (if nullable_of limitType \<or> \<not> indexBaseType (base_of limitType)
          then Inl (Errorf ''function %s needs a non-Nullable integer or Bool limit, not %s'' [displayName, to_string limitType])
          else Inr ()))"

section \<open>Higher-order array functions\<close>

definition without_index :: "nat \<Rightarrow> 'a list \<Rightarrow> 'a list" where
  "without_index i xs = take i xs @ drop (Suc i) xs"

text \<open>The scalar argument, when the function has one, is checked and leaves the data arguments.\<close>

definition take_scalar ::
    "(expr \<Rightarrow> chtype result) \<Rightarrow> string \<Rightarrow> string \<Rightarrow> higherOrderLambdaSignature \<Rightarrow> expr list \<Rightarrow> expr list result" where
  "take_scalar f label displayName signature dataArgs = (case scalarArgument signature of
       None \<Rightarrow> Inr dataArgs
     | Some scalar \<Rightarrow>
        (let p = positionAfterLambda scalar in
         if p < 0 \<or> p \<ge> int (length dataArgs) then Inl (Errorf label [displayName, role scalar])
         else bind_res (checkHigherOrderLimit f displayName (dataArgs ! nat p)) (\<lambda>_. Inr (without_index (nat p) dataArgs))))"

text \<open>The accumulator of a fold: its type, and the data arguments that remain.\<close>

definition take_accumulator ::
    "(expr \<Rightarrow> chtype result) \<Rightarrow> string \<Rightarrow> higherOrderLambdaSignature \<Rightarrow> expr list \<Rightarrow> (chtype option \<times> expr list) result" where
  "take_accumulator f displayName signature dataArgs = (case accumulator signature of
       None \<Rightarrow> Inr (None, dataArgs)
     | Some acc \<Rightarrow>
        (if length dataArgs < 2 then Inl (Errorf ''function %s needs an Array and an accumulator'' [displayName])
         else let index = (if argumentPosition acc = -1 then int (length dataArgs) - 1 else argumentPosition acc) in
           if index < 0 \<or> index \<ge> int (length dataArgs)
           then Inl (Errorf ''function %s has an invalid accumulator argument position'' [displayName])
           else case f (dataArgs ! nat index) of
             Inl err \<Rightarrow> Inl (Wrapf ''function %s accumulator: %w'' [displayName] err)
           | Inr t \<Rightarrow> Inr (Some t, without_index (nat index) dataArgs)))"

definition array_element ::
    "(expr \<Rightarrow> string) \<Rightarrow> (expr \<Rightarrow> chtype result) \<Rightarrow> string \<Rightarrow> expr \<Rightarrow> chtype result" where
  "array_element format f displayName dataArg = (case f dataArg of
       Inl err \<Rightarrow> Inl (Wrapf ''function %s array argument: %w'' [displayName] err)
     | Inr arrayType \<Rightarrow>
        (let outer = unwrapLowCardinality arrayType;
             bare = (case simpleAggregateWrapperInner outer of Some inner \<Rightarrow> unwrapLowCardinality inner | None \<Rightarrow> outer) in
         if \<not> named bare ''array'' \<or> length (Params bare) \<noteq> 1
         then Inl (Errorf ''function %s argument %s is %s, not an Array'' [displayName, format dataArg, to_string arrayType])
         else Inr (unwrapLowCardinality (hd (Params bare)))))"

text \<open>The scope of a lambda: its parameters, above the scope it captures.\<close>

definition lambda_scope ::
    "queryScope \<Rightarrow> higherOrderLambdaSignature \<Rightarrow> string list \<Rightarrow> chtype option \<Rightarrow> chtype list \<Rightarrow> queryScope" where
  "lambda_scope scope signature params accType elements =
     (let offset = (if accumulator signature = None then 0 else 1);
          bound = rev (zip (drop offset params) elements)
            @ (case (accumulator signature, accType) of
                 (Some acc, Some t) \<Rightarrow> [(params ! nat (parameterPosition acc), t)] | _ \<Rightarrow> []) in
      empty_level\<lparr>scalars := bound, exactScalarNames := True\<rparr> # (if allowOuterCapture signature then scope else []))"

definition check_lambda_body ::
    "string \<Rightarrow> higherOrderLambdaSignature \<Rightarrow> chtype option \<Rightarrow> chtype \<Rightarrow> unit result" where
  "check_lambda_body displayName signature accType bodyType =
     bind_res (case bodyDomain signature of
         hofBodyDomainAny \<Rightarrow> Inr ()
       | hofBodyDomainPredicate \<Rightarrow> checkLambdaPredicateBody displayName bodyType
       | hofBodyDomainSummable \<Rightarrow> bind_res (arraySumResultType displayName bodyType) (\<lambda>_. Inr ())
       | hofBodyDomainNumericReduction \<Rightarrow> checkArrayNumericReductionBody displayName bodyType) (\<lambda>_.
     case accType of
       None \<Rightarrow> Inr ()
     | Some t \<Rightarrow> (if foldAccumulatorTypesEqual bodyType t then Inr ()
         else Inl (Errorf ''function %s lambda body type %s does not match accumulator type %s''
                [displayName, to_string bodyType, to_string t])))"

definition higher_order_result ::
    "string \<Rightarrow> higherOrderArrayResult \<Rightarrow> chtype option \<Rightarrow> chtype \<Rightarrow> chtype \<Rightarrow> chtype result" where
  "higher_order_result displayName res accType first bodyType = (case res of
       hofArrayOfBody \<Rightarrow> Inr (ty1 ''Array'' [bodyType])
     | hofFirstArray \<Rightarrow> Inr (ty1 ''Array'' [first])
     | hofSumOfBody \<Rightarrow> arraySumResultType displayName bodyType
     | hofBody \<Rightarrow> Inr bodyType
     | hofCount \<Rightarrow> Inr (ty0 ''UInt32'')
     | hofPredicate \<Rightarrow> Inr (ty0 ''UInt8'')
     | hofFirstElement \<Rightarrow> Inr first
     | hofNullableFirstElement \<Rightarrow>
         (if \<not> canBeInsideNullable first \<and> normalizedName first \<noteq> ''nullable''
          then Inl (Errorf ''function %s cannot put the element type %s inside Nullable'' [displayName, to_string first])
          else Inr (wrapNullable first))
     | hofFloat64 \<Rightarrow> Inr (ty0 ''Float64'')
     | hofArrayOfSum \<Rightarrow> bind_res (arraySumResultType displayName bodyType) (\<lambda>t. Inr (ty1 ''Array'' [t]))
     | hofArrayOfFirstArray \<Rightarrow> Inr (ty1 ''Array'' [ty1 ''Array'' [first]])
     | hofAccumulator \<Rightarrow> (case accType of Some t \<Rightarrow> Inr t | None \<Rightarrow> Inr (ty0 [])))"

definition first_repeated :: "string list \<Rightarrow> string option" where
  "first_repeated xs = map_option snd (find (\<lambda>(i, x). x \<in> set (take i xs)) (enumerate 0 xs))"

definition check_array_counts ::
    "string \<Rightarrow> higherOrderLambdaSignature \<Rightarrow> string list \<Rightarrow> expr list \<Rightarrow> unit result" where
  "check_array_counts displayName signature params dataArgs =
     (if int (length dataArgs) < minimumArrays signature
         \<or> maximumArrays signature \<ge> 0 \<and> int (length dataArgs) > maximumArrays signature
      then Inl (Errorf ''function %s has %d array arguments outside its measured range'' [displayName, itoa (int (length dataArgs))])
      else if length params \<noteq> length dataArgs + (if accumulator signature = None then 0 else 1)
      then Inl (Errorf ''function %s has %d lambda parameters and %d array arguments''
             [displayName, itoa (int (length params)), itoa (int (length dataArgs))])
      else Inr ())"

text \<open>Everything up to the body: the scope of the lambda, its body, the accumulator and the element types.\<close>

definition lambda_call ::
    "(expr \<Rightarrow> string) \<Rightarrow> (expr \<Rightarrow> chtype result) \<Rightarrow> queryScope \<Rightarrow> higherOrderLambdaSignature \<Rightarrow> string \<Rightarrow> expr list \<Rightarrow>
     (queryScope \<times> expr \<times> chtype option \<times> chtype list) result" where
  "lambda_call format f scope signature displayName args = (case lambda_parts (hd args) of
       None \<Rightarrow> Inl (Errorf ''function %s expects a lambda as the first argument'' [displayName])
     | Some (params, body) \<Rightarrow>
        (case first_repeated params of
           Some param \<Rightarrow> Inl (Errorf ''function %s lambda has more than one parameter named %s; %s'' [displayName, param, pinTypeHint])
         | None \<Rightarrow>
            bind_res (take_scalar f ''function %s needs its %s before the Array arguments'' displayName signature (tl args)) (\<lambda>afterScalar.
            bind_res (take_accumulator f displayName signature afterScalar) (\<lambda>(accType, dataArgs).
            bind_res (check_array_counts displayName signature params dataArgs) (\<lambda>_.
            bind_res (map_res (array_element format f displayName) dataArgs) (\<lambda>elements.
            Inr (lambda_scope scope signature params accType elements, body, accType, elements)))))))"

definition inferHigherOrderArrayType ::
    "(expr \<Rightarrow> string) \<Rightarrow> (queryScope \<Rightarrow> expr \<Rightarrow> chtype result) \<Rightarrow> queryScope \<Rightarrow> higherOrderLambdaSignature \<Rightarrow>
     string \<Rightarrow> expr list \<Rightarrow> chtype result" where
  "inferHigherOrderArrayType format g scope signature displayName args =
     bind_res (lambda_call format (g scope) scope signature displayName args) (\<lambda>(bodyScope, body, accType, elements).
     case g bodyScope body of
       Inl err \<Rightarrow> Inl (Wrapf ''function %s lambda body: %w'' [displayName] err)
     | Inr bodyType \<Rightarrow>
         bind_res (check_lambda_body displayName signature accType bodyType) (\<lambda>_.
         higher_order_result displayName (hof_result signature) accType (hd elements) bodyType))"

definition inferHigherOrderArrayWithoutLambda ::
    "(expr \<Rightarrow> string) \<Rightarrow> (expr \<Rightarrow> chtype result) \<Rightarrow> higherOrderLambdaSignature \<Rightarrow> string \<Rightarrow> expr list \<Rightarrow> chtype result" where
  "inferHigherOrderArrayWithoutLambda format f signature displayName args =
     (if \<not> allowNoLambda signature then Inl (Errorf ''function %s has no measured no-lambda form'' [displayName])
      else bind_res (take_scalar f ''function %s needs its %s before the Array argument'' displayName signature args) (\<lambda>dataArgs.
        if length dataArgs \<noteq> 1 then Inl (Errorf ''function %s without a lambda needs exactly one Array argument'' [displayName])
        else bind_res (array_element format f displayName (hd dataArgs)) (\<lambda>bodyType.
          bind_res (case bodyDomain signature of
              hofBodyDomainNumericReduction \<Rightarrow> checkArrayNumericReductionBody displayName bodyType
            | hofBodyDomainSummable \<Rightarrow> bind_res (arraySumResultType displayName bodyType) (\<lambda>_. Inr ())
            | _ \<Rightarrow> Inr ()) (\<lambda>_.
          case hof_result signature of
            hofFloat64 \<Rightarrow> Inr (ty0 ''Float64'')
          | hofArrayOfSum \<Rightarrow> bind_res (arraySumResultType displayName bodyType) (\<lambda>t. Inr (ty1 ''Array'' [t]))
          | hofFirstArray \<Rightarrow> Inr (ty1 ''Array'' [bodyType])
          | _ \<Rightarrow> Inl (Errorf ''function %s has an invalid no-lambda result rule'' [displayName])))))"

end
