(* ===== verification/Operators.thy ===== *)
theory Operators
  imports Lambdas Arithmetic
begin

text \<open>
  The operators of an expression (\<^verbatim>\<open>infer_operators.go\<close>, \<^verbatim>\<open>infer_expr.go\<close>, \<^verbatim>\<open>operator_catalog.go\<close>):
  the catalog, literals, the unary and binary operators and the two element accesses. \<open>f\<close> is the
  inference in the scope of the expression.
\<close>

section \<open>The catalog\<close>

datatype opFamily = opFamilyUnknown | opPredicate | opArith | opConcat | opRefusal

record operatorSpec =
  token :: string
  op_family :: opFamily
  op_arity :: nat
  op_class :: functionWrapperClass
  op_domainMode :: argumentDomainMode
  op_policy :: parameterResultPolicy

definition isRegexpOperandType :: "chtype \<Rightarrow> bool" where
  "isRegexpOperandType base \<longleftrightarrow> normalizedName base \<in> {''string'', ''fixedstring'', ''enum8'', ''enum16'', ''enum''}"

definition predicate_spec :: "string \<Rightarrow> operatorSpec" where
  "predicate_spec t = \<lparr>token = t, op_family = opPredicate, op_arity = 2, op_class = wrapperTransparent,
     op_domainMode = (if t = ''REGEXP'' then argumentDomainRestricted else argumentDomainUnrestricted),
     op_policy = parameterResultCurated\<rparr>"

definition value_spec :: "opFamily \<Rightarrow> string \<Rightarrow> operatorSpec" where
  "value_spec fam t = \<lparr>token = t, op_family = fam, op_arity = 2, op_class = wrapperTransparent,
     op_domainMode = argumentDomainUnrestricted, op_policy = parameterResultLattice\<rparr>"

definition refusal_spec :: "string \<Rightarrow> operatorSpec" where
  "refusal_spec t = \<lparr>token = t, op_family = opRefusal, op_arity = 2, op_class = wrapperOpaque,
     op_domainMode = argumentDomainSpecialRoute, op_policy = parameterResultCurated\<rparr>"

definition operatorSemanticSpecs :: "operatorSpec list" where
  "operatorSemanticSpecs =
     map predicate_spec [''AND'', ''OR'', ''IN'', ''NOT IN'', ''='', ''=='', ''!='', ''<>'', ''<'', ''<='', ''>'', ''>='',
       ''LIKE'', ''NOT LIKE'', ''ILIKE'', ''NOT ILIKE'', ''REGEXP'']
     @ map (value_spec opArith) [''+'', ''-'', ''*'', ''/'', ''%'']
     @ [value_spec opConcat ''||''] @ map refusal_spec [''::'', ''->'']"

definition operatorSpecFor :: "string \<Rightarrow> operatorSpec option" where
  "operatorSpecFor t = find (\<lambda>spec. token spec = t) operatorSemanticSpecs"

definition operatorFamilyOf :: "string \<Rightarrow> opFamily option" where
  "operatorFamilyOf t = map_option op_family (operatorSpecFor t)"

definition operatorTokensOfFamily :: "opFamily \<Rightarrow> string list" where
  "operatorTokensOfFamily fam = map token (filter (\<lambda>spec. op_family spec = fam) operatorSemanticSpecs)"

definition isInOperation :: "string \<Rightarrow> bool" where
  "isInOperation operation \<longleftrightarrow> to_upper (trim_space operation) \<in> {''IN'', ''NOT IN''}"

definition comparison_operators :: "string list" where
  "comparison_operators = [''='', ''=='', ''!='', ''<>'', ''<'', ''<='', ''>'', ''>='']"

section \<open>Literals\<close>

definition float_literal :: "string \<Rightarrow> bool" where
  "float_literal literal \<longleftrightarrow> list_ex (\<lambda>c. c = CHR ''.'' \<or> c = CHR ''e'' \<or> c = CHR ''E'') literal"

definition integerLiteralCHType :: "string \<Rightarrow> bool \<Rightarrow> chtype option" where
  "integerLiteralCHType literal negative =
     (if float_literal literal then None
      else case unsigned_digits literal of
        None \<Rightarrow> None
      | Some v \<Rightarrow>
         (if negative
          then (if v > 2 ^ 63 then None
                else if - v \<ge> -(2 ^ 7) then Some (ty0 ''Int8'')
                else if - v \<ge> -(2 ^ 15) then Some (ty0 ''Int16'')
                else if - v \<ge> -(2 ^ 31) then Some (ty0 ''Int32'') else Some (ty0 ''Int64''))
          else (if v \<ge> 2 ^ 64 then None
                else if v < 2 ^ 8 then Some (ty0 ''UInt8'')
                else if v < 2 ^ 16 then Some (ty0 ''UInt16'')
                else if v < 2 ^ 32 then Some (ty0 ''UInt32'') else Some (ty0 ''UInt64''))))"

text \<open>\<^verbatim>\<open>strings.CutPrefix(literal, "-")\<close>.\<close>

definition cut_minus :: "string \<Rightarrow> string \<times> bool" where
  "cut_minus literal = (if has_prefix literal ''-'' then (tl literal, True) else (literal, False))"

definition number_literal_type :: "string \<Rightarrow> chtype" where
  "number_literal_type literal =
     (if float_literal literal then ty0 ''Float64''
      else case integerLiteralCHType (fst (cut_minus literal)) (snd (cut_minus literal)) of
        Some t \<Rightarrow> t | None \<Rightarrow> ty0 ''Int64'')"

section \<open>Unary operators and accesses\<close>

definition negated_type :: "chtype \<Rightarrow> chtype option" where
  "negated_type base =
     (let name = to_lower (Name base) in
      if name \<in> {''uint8'', ''bool''} then Some (ty0 ''Int16'')
      else if name = ''uint16'' then Some (ty0 ''Int32'')
      else if name \<in> {''uint32'', ''uint64''} then Some (ty0 ''Int64'')
      else if name \<in> {''int8'', ''int16'', ''int32'', ''int64'', ''int128'', ''int256'', ''float32'', ''float64'',
          ''decimal'', ''decimal32'', ''decimal64'', ''decimal128'', ''decimal256''} then Some base
      else if name = ''uint128'' then Some (ty0 ''Int128'')
      else if name = ''uint256'' then Some (ty0 ''Int256'')
      else None)"

definition negated_literal :: "string \<Rightarrow> chtype result" where
  "negated_literal literal =
     (if float_literal literal then Inr (ty0 ''Float64'')
      else case integerLiteralCHType (fst (cut_minus literal)) (\<not> snd (cut_minus literal)) of
        Some t \<Rightarrow> Inr t | None \<Rightarrow> Inl (Errorf ''cannot infer type for negated literal %q'' [literal]))"

definition not_type :: "chtype \<Rightarrow> (chtype \<times> bool) option" where
  "not_type base =
     (let name = to_lower (Name base) in
      if name = ''bool'' then Some (ty0 ''Bool'', False)
      else if name \<in> {''uint8'', ''uint16'', ''uint32'', ''uint64'', ''int8'', ''int16'', ''int32'', ''int64'',
          ''float32'', ''float64''} then Some (ty0 ''UInt8'', False)
      else if name = ''dynamic'' then Some (ty0 ''UInt8'', True)
      else None)"

definition number_literal :: "expr \<Rightarrow> string option" where
  "number_literal e = (case e of ENumber literal \<Rightarrow> Some literal | _ \<Rightarrow> None)"

definition inferUnaryExprType :: "(expr \<Rightarrow> chtype result) \<Rightarrow> string \<Rightarrow> expr \<Rightarrow> chtype result" where
  "inferUnaryExprType f operator operand =
     (if operator = ''-'' then
        (case number_literal operand of
           Some literal \<Rightarrow> negated_literal literal
         | None \<Rightarrow> bind_res (f operand) (\<lambda>t.
             let operandType = simpleAggregateInnerType t in
             case negated_type (base_of operandType) of
               None \<Rightarrow> Inl (Errorf ''cannot negate an operand of type %s'' [to_string operandType])
             | Some result \<Rightarrow> Inr (case splitCHWrappers operandType of (_, nullable, lowCardinality) \<Rightarrow>
                 applyCHWrappers result nullable lowCardinality)))
      else if equal_fold operator ''NOT'' then
        bind_res (f operand) (\<lambda>operandType.
          case not_type (base_of operandType) of
            None \<Rightarrow> Inl (Errorf ''cannot apply NOT to an operand of type %s'' [to_string operandType])
          | Some (result, adds) \<Rightarrow> Inr (case splitCHWrappers operandType of (_, nullable, lowCardinality) \<Rightarrow>
              applyCHWrappers result (nullable \<or> adds) lowCardinality))
      else Inl (Errorf ''cannot infer type for unary operator %q'' [operator]))"

definition inferIndexOperationType ::
    "(expr \<Rightarrow> string) \<Rightarrow> (expr \<Rightarrow> chtype result) \<Rightarrow> string \<Rightarrow> expr \<Rightarrow> expr \<Rightarrow> chtype result" where
  "inferIndexOperationType format f operation object index =
     (if operation \<noteq> ''.''
      then Inl (Errorf ''cannot infer type for index operation %q (%s); %s'' [operation, format (EIndex operation object index), pinTypeHint])
      else bind_res (f object) (\<lambda>objectType.
        if \<not> isCHTuple objectType
        then Inl (Errorf ''cannot read an element of %s: the dot form needs a Tuple with known element types'' [to_string objectType])
        else case index of
          ENumber literal \<Rightarrow> (case atoi literal of
              None \<Rightarrow> Inl (Errorf ''Tuple element index %q is not an integer'' [literal])
            | Some p \<Rightarrow> tupleElementByIndex objectType p False)
        | EIdent name _ \<Rightarrow> tupleElementByName objectType name True
        | _ \<Rightarrow> Inl (Errorf ''Tuple element index %s must be a constant integer or an element name'' [format index])))"

definition inferSubscriptType :: "(expr \<Rightarrow> chtype result) \<Rightarrow> expr \<Rightarrow> expr list option \<Rightarrow> chtype result" where
  "inferSubscriptType f object params =
     bind_res (f object) (\<lambda>objectType.
       case params of
         Some [index] \<Rightarrow> bind_res (f index) (\<lambda>indexType.
           bind_res (if named objectType ''array'' \<and> length (Params objectType) = 1 then Inr (Params objectType ! 0)
                     else if named objectType ''map'' \<and> length (Params objectType) = 2 then Inr (Params objectType ! 1)
                     else Inl (Errorf ''cannot subscript a value of type %s'' [to_string objectType])) (\<lambda>result.
           Inr (if nullable_of indexType then applyCHWrappers result True False else result)))
       | _ \<Rightarrow> Inl (Errorf ''subscript access expects exactly one index'' []))"

section \<open>Predicates\<close>

text \<open>What an operator asks of one operand.\<close>

definition predicate_operand_check :: "string \<Rightarrow> chtype \<Rightarrow> unit result" where
  "predicate_operand_check operator operandType =
     (let base = base_of operandType; inside = domain_base operandType in
      if operator = ''REGEXP'' \<and> \<not> isRegexpOperandType base
      then Inl (Errorf ''operator REGEXP does not accept an operand of type %s; ClickHouse needs String, FixedString or an Enum here; %s''
             [to_string operandType, pinTypeHint])
      else if string_contains operator ''LIKE'' \<and> \<not> isRegexpOperandType inside
      then Inl (Errorf ''operator %s does not accept an operand of type %s; ClickHouse needs String, FixedString or an Enum here; %s''
             [operator, to_string operandType, pinTypeHint])
      else if operator \<in> {''AND'', ''OR''} \<and> \<not> isLogicOperandType inside
      then Inl (Errorf ''operator %s does not accept an operand of type %s; ClickHouse needs an integer of at most 64 bits, a float or a Bool here; %s''
             [operator, to_string operandType, pinTypeHint])
      else Inr ())"

record predicate_state =
  pr_nullable :: bool
  pr_count :: nat
  pr_othersConstant :: bool
  pr_types :: "chtype list"

definition predicate_step :: "string \<Rightarrow> inferred \<times> bool \<Rightarrow> predicate_state \<Rightarrow> predicate_state result" where
  "predicate_step operator a st = (case fst a of
       PlaceholderError _ \<Rightarrow> Inr (st\<lparr>pr_othersConstant := False, pr_types := pr_types st @ [ty0 []]\<rparr>)
     | OtherError err \<Rightarrow> Inl (Wrapf ''operator %s operand: %w'' [operator] err)
     | Typed t \<Rightarrow> bind_res (predicate_operand_check operator t) (\<lambda>_.
         let low = branchArgumentLowCardinality t in
         Inr (st\<lparr>pr_nullable := (pr_nullable st \<or> operator \<in> set comparison_operators \<and> isDynamicCHType (base_of t)
                 \<or> branchArgumentNullable t),
               pr_count := (if low then Suc (pr_count st) else pr_count st),
               pr_othersConstant := (pr_othersConstant st \<and> (low \<or> snd a)),
               pr_types := pr_types st @ [t]\<rparr>)))"

definition inferPredicateType ::
    "infer_env \<Rightarrow> queryScope \<Rightarrow> (expr \<Rightarrow> chtype result) \<Rightarrow> string \<Rightarrow> expr \<Rightarrow> expr \<Rightarrow> chtype result" where
  "inferPredicateType env scope f operator left right =
     (let const = isConstLiteralExpr env scope; reg = env_registry env in
      bind_res (fold_res (predicate_step operator)
         [(inferred_of (f left), const left), (inferred_of (f right), const right)]
         \<lparr>pr_nullable = False, pr_count = 0, pr_othersConstant = True, pr_types = []\<rparr>) (\<lambda>st.
      bind_res (if operator \<in> set comparison_operators
                then checkComparableOperandExprs (''operator '' @ operator) (const left) (const right)
                       (pr_types st ! 0) (pr_types st ! 1)
                else Inr ()) (\<lambda>_.
      bind_res (if operator \<in> {''AND'', ''OR''}
                then bind_res (andOrOperandCarriesBareBool f operator left) (\<lambda>leftHasBool.
                     bind_res (andOrOperandCarriesBareBool f operator right) (\<lambda>rightHasBool.
                     Inr (leftHasBool \<or> rightHasBool)))
                else Inr False) (\<lambda>hasBool.
      logic_result reg (to_lower operator) (if hasBool then ty0 ''Bool'' else ty0 ''UInt8'')
        (pr_nullable st) (pr_count st = 1 \<and> pr_othersConstant st) 2))))"

section \<open>Arithmetic and concatenation\<close>

definition inferIntervalArithmeticType :: "(expr \<Rightarrow> chtype result) \<Rightarrow> expr \<Rightarrow> string option \<Rightarrow> chtype result" where
  "inferIntervalArithmeticType f operand interval = (case interval of
       None \<Rightarrow> Inl (Errorf ''INTERVAL has no unit; %s'' [pinTypeHint])
     | Some unit \<Rightarrow> bind_res (f operand) (\<lambda>operandType. case intervalArithmeticResultType operandType unit of
           None \<Rightarrow> Inl (Errorf ''cannot infer result type for %s with INTERVAL %s; %s'' [to_string operandType, to_upper unit, pinTypeHint])
         | Some result \<Rightarrow> Inr result))"

definition interval_of :: "expr \<Rightarrow> (string option) option" where
  "interval_of e = (case e of EInterval _ unit \<Rightarrow> Some unit | _ \<Rightarrow> None)"

definition inferArithmeticOperandType :: "(expr \<Rightarrow> chtype result) \<Rightarrow> expr \<Rightarrow> chtype result" where
  "inferArithmeticOperandType f e =
     (let literal = (case e of
            ENumber l \<Rightarrow> integerLiteralCHType (fst (cut_minus l)) (snd (cut_minus l))
          | EUnary operation (ENumber l) \<Rightarrow> (if operation = ''-'' then integerLiteralCHType l True else None)
          | _ \<Rightarrow> None) in
      case literal of Some t \<Rightarrow> Inr t | None \<Rightarrow> f e)"

definition low_cardinality_inner :: "chtype \<Rightarrow> chtype \<times> bool" where
  "low_cardinality_inner t =
     (if named t ''lowcardinality'' \<and> length (Params t) = 1 then (hd (Params t), True) else (t, False))"

definition inferArithmeticType :: "bool \<Rightarrow> bool \<Rightarrow> string \<Rightarrow> chtype \<Rightarrow> chtype \<Rightarrow> chtype result" where
  "inferArithmeticType leftConst rightConst operator left right =
     (let (leftInner, leftLow) = low_cardinality_inner left; (rightInner, rightLow) = low_cardinality_inner right in
      bind_res (inferArithmeticResultType operator leftInner rightInner) (\<lambda>result.
        Inr (applyCHWrappers result False
          ((leftLow \<and> \<not> rightLow \<and> rightConst \<or> rightLow \<and> \<not> leftLow \<and> leftConst)
           \<and> \<not> resultRejectsLowCardinality result))))"

definition inferConcatOperatorType ::
    "registry \<Rightarrow> string \<Rightarrow> bool list \<Rightarrow> chtype list \<Rightarrow> chtype result" where
  "inferConcatOperatorType reg spelled consts types = (case functionRuleFor reg ''concat'' of
       None \<Rightarrow> Inl (Errorf ''the concatenation operator in %s needs the concat entry of the function registry, which is absent; %s''
                 [spelled, pinTypeHint])
     | Some rule \<Rightarrow> bind_res (rule (map (\<lambda>t. fst (splitWrapperStack t)) types)) (\<lambda>result.
         case applyFunctionWrappers (facts_of reg) result (functionClassFor reg ''concat'') ''concat'' consts types of
           Some t \<Rightarrow> Inr t | None \<Rightarrow> Inl no_transport))"

definition inferValueOperatorType ::
    "infer_env \<Rightarrow> queryScope \<Rightarrow> (expr \<Rightarrow> chtype result) \<Rightarrow> string \<Rightarrow> expr \<Rightarrow> expr \<Rightarrow> string \<Rightarrow> chtype result" where
  "inferValueOperatorType env scope f operator left right spelled =
     (let leftConst = isConstLiteralExpr env scope left; rightConst = isConstLiteralExpr env scope right in
      bind_res (inferArithmeticOperandType f left) (\<lambda>l.
      bind_res (inferArithmeticOperandType f right) (\<lambda>r.
      case (if operator = ''*'' then aggregateStateReplicationResultType l r leftConst rightConst else None) of
        Some result \<Rightarrow> Inr result
      | None \<Rightarrow>
         (if aggregateStateOperand l \<or> aggregateStateOperand r
          then Inl (Errorf ''chgen cannot infer result type for %s %s %s; an AggregateFunction state only supports multiplication by a non-negative unsigned integer constant''
                 [to_string l, operator, to_string r])
          else if operator \<in> {''+'', ''-'', ''*'', ''/'', ''%''} then inferArithmeticType leftConst rightConst operator l r
          else if operator = ''||'' then inferConcatOperatorType (env_registry env) spelled [leftConst, rightConst] [l, r]
          else Inl (Errorf ''chgen has no measured rule for the binary operator %q in %s; %s'' [operator, spelled, pinTypeHint])))))"

definition unknown_operator :: "string \<Rightarrow> bool" where
  "unknown_operator operator \<longleftrightarrow> (case operatorSpecFor operator of
       None \<Rightarrow> False
     | Some spec \<Rightarrow> op_family spec = opFamilyUnknown \<or> op_domainMode spec = argumentDomainUnknown
         \<or> op_policy spec = parameterResultUnknown)"

definition inferBinaryOperationType ::
    "infer_env \<Rightarrow> queryScope \<Rightarrow> (expr \<Rightarrow> chtype result) \<Rightarrow> expr \<Rightarrow> string \<Rightarrow> expr \<Rightarrow> chtype result" where
  "inferBinaryOperationType env scope f left operation right =
     (let operator = to_upper operation; spelled = env_format env (EBinary left operation right) in
      if unknown_operator operator
      then Inl (Errorf ''operator %s has an unknown semantic state; %s'' [operator, pinTypeHint])
      else if operatorFamilyOf operator = Some opPredicate then inferPredicateType env scope f operator left right
      else if operator = ''::''
      then Inl (Errorf ''chgen cannot infer the :: cast operator in %s; write CAST(x AS T) instead; %s'' [spelled, pinTypeHint])
      else if operator = ''->''
      then Inl (Errorf ''the lambda %s has no result type of its own; use it as the argument of a higher-order array function; %s''
             [spelled, pinTypeHint])
      else case (if operator \<in> {''+'', ''-''} then interval_of right else None) of
        Some interval \<Rightarrow> inferIntervalArithmeticType f left interval
      | None \<Rightarrow> (case (if operator = ''+'' then interval_of left else None) of
          Some interval \<Rightarrow> inferIntervalArithmeticType f right interval
        | None \<Rightarrow> inferValueOperatorType env scope f operator left right spelled))"

section \<open>IS NULL\<close>

fun isBarePlaceholderOperand :: "expr \<Rightarrow> bool" where
  "isBarePlaceholderOperand (EColumn e) = isBarePlaceholderOperand e"
| "isBarePlaceholderOperand (EParens (Some [e]) _) = isBarePlaceholderOperand e"
| "isBarePlaceholderOperand EPlaceholder = True"
| "isBarePlaceholderOperand _ = False"

definition inferIsNullPredicateType :: "(expr \<Rightarrow> chtype result) \<Rightarrow> expr \<Rightarrow> string \<Rightarrow> chtype result" where
  "inferIsNullPredicateType f operand operator =
     (if isBarePlaceholderOperand operand then Inr (ty0 ''UInt8'')
      else case f operand of
        Inl err \<Rightarrow> Inl (Wrapf ''%s operand: %w'' [operator] err)
      | Inr _ \<Rightarrow> Inr (ty0 ''UInt8''))"

end
