(* ===== verification/Infer.thy ===== *)
theory Infer
  imports Operators GoTypes
begin

text \<open>
  The inference of an expression (\<^verbatim>\<open>inferExprType\<close> of \<^verbatim>\<open>infer_expr.go\<close>, \<^verbatim>\<open>inferFunctionTypeAt\<close> of
  \<^verbatim>\<open>infer_function.go\<close>), with the refusal of nested aggregates (\<^verbatim>\<open>nested_aggregate.go\<close>) and the type
  contracts of an expression (\<^verbatim>\<open>expression_contract.go\<close>). \<open>infer_step\<close> is the body of the recursion:
  \<open>g\<close> stands for the recursive calls, in the same scope or in another. \<open>inferExprType\<close> ties the knot with
  a bound on the depth of the calls, since the recursion of the source can run forever.
\<close>

section \<open>Nested aggregates\<close>

definition scalarNamesInTheAggregateClass :: "string list" where
  "scalarNamesInTheAggregateClass =
     [''arraydistinct'', ''arrayresize'', ''arrayslice'', ''arraysort'', ''greatest'', ''least'']"

definition knownAggregateNames :: "string list" where
  "knownAggregateNames = [''count'', ''countdistinct'', ''uniq'', ''uniqexact'', ''uniqhll12'', ''uniqtheta'',
     ''grouparray'', ''grouparraysorted'', ''grouparraysorteddistinct'', ''grouparraysorteddistinctif'',
     ''groupuniqarray'', ''topk'', ''stddevpop'', ''stddevsamp'', ''varpop'', ''varsamp'', ''corr'', ''covarpop'',
     ''covarsamp'', ''entropy'', ''sumkahan'', ''avgweighted'', ''maxmap'', ''minmap'', ''summap'', ''sumcount'',
     ''deltasum'', ''histogram'']"

definition isAggregateCallName :: "registry \<Rightarrow> string \<Rightarrow> bool" where
  "isAggregateCallName reg name \<longleftrightarrow>
     name \<notin> set scalarNamesInTheAggregateClass
     \<and> (name \<in> set knownAggregateNames \<or> functionClassFor reg name = wrapperAggregate
        \<or> (case splitAggregateCombinator name of
             Some (base, _) \<Rightarrow> base \<notin> set scalarNamesInTheAggregateClass | None \<Rightarrow> False))"

text \<open>
  The walk visits the nodes in the order of their fields and stops at the first aggregate; it does not
  enter a window function or a subquery. The list holds the aggregates it would meet, the first one first.
\<close>

fun aggregate_calls :: "registry \<Rightarrow> expr \<Rightarrow> expr list" where
  "aggregate_calls reg (EColumn e) = aggregate_calls reg e"
| "aggregate_calls reg (EParens items _) = (case items of Some es \<Rightarrow> concat (map (aggregate_calls reg) es) | None \<Rightarrow> [])"
| "aggregate_calls reg (EArray items) = (case items of Some es \<Rightarrow> concat (map (aggregate_calls reg) es) | None \<Rightarrow> [])"
| "aggregate_calls reg (EIndex _ object index) = aggregate_calls reg object @ aggregate_calls reg index"
| "aggregate_calls reg (EObject object params) = aggregate_calls reg object
     @ (case params of Some es \<Rightarrow> concat (map (aggregate_calls reg) es) | None \<Rightarrow> [])"
| "aggregate_calls reg (EUnary _ e) = aggregate_calls reg e"
| "aggregate_calls reg (EBinary l _ r) = aggregate_calls reg l @ aggregate_calls reg r"
| "aggregate_calls reg (ECase operand whens els) =
     (case operand of Some e \<Rightarrow> aggregate_calls reg e | None \<Rightarrow> [])
     @ concat (map (\<lambda>w. (case fst w of Some e \<Rightarrow> aggregate_calls reg e | None \<Rightarrow> [])
          @ (case snd w of Some e \<Rightarrow> aggregate_calls reg e | None \<Rightarrow> [])) whens)
     @ (case els of Some e \<Rightarrow> aggregate_calls reg e | None \<Rightarrow> [])"
| "aggregate_calls reg (EBetween a b c) =
     (case a of Some e \<Rightarrow> aggregate_calls reg e | None \<Rightarrow> []) @ (case b of Some e \<Rightarrow> aggregate_calls reg e | None \<Rightarrow> [])
     @ (case c of Some e \<Rightarrow> aggregate_calls reg e | None \<Rightarrow> [])"
| "aggregate_calls reg (EIsNull e) = aggregate_calls reg e"
| "aggregate_calls reg (EIsNotNull e) = aggregate_calls reg e"
| "aggregate_calls reg (EFunction name items cols) =
     (if isAggregateCallName reg (to_lower name) then [EFunction name items cols]
      else (case items of Some es \<Rightarrow> concat (map (aggregate_calls reg) es) | None \<Rightarrow> [])
         @ (case cols of Some es \<Rightarrow> concat (map (aggregate_calls reg) es) | None \<Rightarrow> []))"
| "aggregate_calls reg (ECast operand _) = (case operand of Some e \<Rightarrow> aggregate_calls reg e | None \<Rightarrow> [])"
| "aggregate_calls reg (EInterval e _) = aggregate_calls reg e"
| "aggregate_calls reg _ = []"

definition findNestedAggregate :: "registry \<Rightarrow> expr \<Rightarrow> expr option" where
  "findNestedAggregate reg e = (case aggregate_calls reg e of [] \<Rightarrow> None | found # _ \<Rightarrow> Some found)"

fun checkNestedAggregateArgs :: "infer_env \<Rightarrow> string \<Rightarrow> string \<Rightarrow> expr list \<Rightarrow> unit result" where
  "checkNestedAggregateArgs env name spelledName [] = Inr ()"
| "checkNestedAggregateArgs env name spelledName (arg # args) =
     (if \<not> isAggregateCallName (env_registry env) name then Inr ()
      else case findNestedAggregate (env_registry env) arg of
        Some inner \<Rightarrow> Inl (Errorf ''aggregate function %s has aggregate function %s in its argument; ClickHouse refuses this with Code: 184 (ILLEGAL_AGGREGATION): aggregate function is found inside another aggregate function in query''
                        [spelledName, env_format env inner])
      | None \<Rightarrow> checkNestedAggregateArgs env name spelledName args)"

section \<open>Type contracts\<close>

definition expressionContractMacro :: string where
  "expressionContractMacro = ''chgen.assumeType''"

definition expressionContractFunction :: string where
  "expressionContractFunction = ''__chgen_assume_type''"

definition unregistered_function :: "string \<Rightarrow> error" where
  "unregistered_function name = Errorf ''function %s has no registered type rule; %s'' [name, pinTypeHint]"

text \<open>\<^verbatim>\<open>errors.As\<close> with an \<^verbatim>\<open>unregisteredFunctionError\<close>: the name of the function.\<close>

fun missing_function :: "error \<Rightarrow> string option" where
  "missing_function (Wrapf _ _ err) = missing_function err"
| "missing_function (Errorf format args) =
     (if args \<noteq> [] \<and> Errorf format args = unregistered_function (hd args) then Some (hd args) else None)"

definition escaped_char :: "char \<Rightarrow> char option" where
  "escaped_char c =
     (if c = CHR 0x5C \<or> c = quote_mark \<or> c = CHR 0x22 then Some c
      else if c = CHR ''n'' then Some (CHR 0x0A)
      else if c = CHR ''r'' then Some (CHR 0x0D)
      else if c = CHR ''t'' then Some (CHR 0x09) else None)"

fun contractTypeLiteral :: "string \<Rightarrow> string result" where
  "contractTypeLiteral [] = Inr []"
| "contractTypeLiteral (c # cs) =
     (if c = CHR 0x5C then
        (case cs of
           [] \<Rightarrow> Inl (Errorf ''unterminated contract type escape'' [])
         | d # ds \<Rightarrow> (case escaped_char d of
               Some x \<Rightarrow> bind_res (contractTypeLiteral ds) (\<lambda>rest. Inr (x # rest))
             | None \<Rightarrow> Inl (Errorf (''unsupported contract type escape '' @ [CHR 0x5C] @ ''%c'') [[d]])))
      else if c = quote_mark \<and> cs \<noteq> [] \<and> hd cs = quote_mark
      then bind_res (contractTypeLiteral (tl cs)) (\<lambda>rest. Inr (c # rest))
      else bind_res (contractTypeLiteral cs) (\<lambda>rest. Inr (c # rest)))"

text \<open>
  The type after \<^verbatim>\<open>-- result-chtype: expression\<close>: one column type for the SQL parser, a type for
  \<^verbatim>\<open>parseCHType\<close>, and one that has a Go type.
\<close>

definition parseResultTypeContract :: "infer_env \<Rightarrow> string \<Rightarrow> chtype result" where
  "parseResultTypeContract env typeText = (case env_parseColumn env (trim_space typeText) of
       None \<Rightarrow> Inl (Errorf ''invalid result-chtype %q'' [trim_space typeText])
     | Some column_ast \<Rightarrow> bind_res (parseCHType column_ast) (\<lambda>t. bind_res (goType t) (\<lambda>_. Inr t)))"

text \<open>The contract type, and whether it is asserted rather than inferred.\<close>

definition asserted_call ::
    "(expr \<Rightarrow> chtype result) \<Rightarrow> expr \<Rightarrow> error \<Rightarrow> string \<Rightarrow> chtype \<Rightarrow> (chtype \<times> bool) result" where
  "asserted_call f e err missing contract =
     (let bypass = Inl (Wrapf ''%s cannot bypass a known operation's argument checks: %w; put contracts on its unknown operands''
            [expressionContractMacro] err) in
      case unwrapColumnExpression e of
        EFunction name (Some items) None \<Rightarrow>
          (if name \<noteq> missing then bypass
           else bind_res (check_all (\<lambda>arg. case f arg of
                 Inl argErr \<Rightarrow> Inl (Wrapf ''%s argument: %w'' [expressionContractMacro] argErr) | Inr _ \<Rightarrow> Inr ())
               (functionArgs (Some items) None)) (\<lambda>_. Inr (contract, True)))
      | _ \<Rightarrow> bypass)"

definition inferExpressionContract ::
    "infer_env \<Rightarrow> (expr \<Rightarrow> chtype result) \<Rightarrow> expr list option \<Rightarrow> expr list option \<Rightarrow> (chtype \<times> bool) result" where
  "inferExpressionContract env f items cols =
     (case (functionArgs items cols, cols) of
        ([e, EString literal], None) \<Rightarrow>
          bind_res (contractTypeLiteral literal) (\<lambda>typeText.
          bind_res (parseResultTypeContract env typeText) (\<lambda>contract.
          case f e of
            Inr inferred \<Rightarrow>
              (if to_string inferred \<noteq> to_string contract
               then Inl (Errorf ''%s asserts %s, inferred %s'' [expressionContractMacro, to_string contract, to_string inferred])
               else Inr (inferred, False))
          | Inl err \<Rightarrow> (case missing_function err of
                None \<Rightarrow> Inl err
              | Some missing \<Rightarrow> asserted_call f e err missing contract)))
      | ([_, _], None) \<Rightarrow> Inl (Errorf ''%s type must be a constant string'' [expressionContractMacro])
      | _ \<Rightarrow> Inl (Errorf ''%s requires exactly two arguments'' [expressionContractMacro]))"


section \<open>Function calls\<close>

definition inferred_option :: "(expr \<Rightarrow> chtype result) \<Rightarrow> expr option \<Rightarrow> inferred option" where
  "inferred_option f e = map_option (\<lambda>x. inferred_of (f x)) e"

definition check_context :: "eval_call \<Rightarrow> CallContext" where
  "check_context call = \<lparr>call_args = map arg_of (ev_args call), call_types = ev_types call\<rparr>"

text \<open>A CASE in the first argument, as the -SimpleState rule of sum reads it.\<close>

definition first_case_shape :: "infer_env \<Rightarrow> queryScope \<Rightarrow> (expr \<Rightarrow> chtype result) \<Rightarrow> expr list \<Rightarrow> case_shape option" where
  "first_case_shape env scope f args = (case args of
       [] \<Rightarrow> None
     | e # _ \<Rightarrow> (case unwrapConstantOperand e of
           ECase operand whens els \<Rightarrow> Some \<lparr>case_operand = (operand \<noteq> None), case_else = (els \<noteq> None),
             case_whens = map (\<lambda>w. \<lparr>when_truth = map_option (constantConditionTruth env scope) (fst w),
                                   then_type = inferred_option f (snd w)\<rparr>) whens\<rparr>
         | _ \<Rightarrow> None))"

definition combinator_call_of ::
    "infer_env \<Rightarrow> queryScope \<Rightarrow> (expr \<Rightarrow> chtype result) \<Rightarrow> string \<Rightarrow> expr list option \<Rightarrow> expr list option \<Rightarrow>
     eval_call \<Rightarrow> combinator_call" where
  "combinator_call_of env scope f spelled items cols call =
     \<lparr>function_name = spelled,
      parameter_literals = (case (items, cols) of (Some ps, Some _) \<Rightarrow> map (env_format env) ps | _ \<Rightarrow> []),
      parameter_args = map arg_of (functionParameterArgs items cols),
      context_of = check_context call, first_case = first_case_shape env scope f (ev_args call)\<rparr>"

definition timezone_routes :: "string list" where
  "timezone_routes = [''todatetime'', ''todatetime64'', ''tostartofday'', ''tostartofhour'', ''tostartofminute'', ''now'', ''now64'']"

definition expressionFunctionRoutes ::
    "infer_env \<Rightarrow> (expr \<Rightarrow> chtype result) \<Rightarrow> string \<Rightarrow> string \<Rightarrow> eval_call \<Rightarrow> chtype result option" where
  "expressionFunctionRoutes env f name spelled call =
     (if name = ''fromunixtimestamp64milli'' then Some (inferUnixMillisecondsType (env_registry env) spelled call)
      else if name = ''tupleelement'' then Some (inferTupleElementType (env_format env) spelled call)
      else if name = ''tostartofinterval'' then Some (inferToStartOfIntervalType spelled call)
      else if name = ''totimezone'' then Some (inferToTimeZoneType spelled call)
      else if name \<in> set timezone_routes then Some (inferTimezoneCarryingType name spelled call)
      else if name \<in> {''and'', ''or'', ''xor''} then Some (inferLogicOperatorFunctionType (env_registry env) f name spelled call)
      else None)"

text \<open>The last resort of a call: no rule knows the name.\<close>

definition unmeasured_call :: "string \<Rightarrow> string \<Rightarrow> eval_call \<Rightarrow> chtype result" where
  "unmeasured_call name spelled call =
     bind_res (map_res (argument_checked ''function %s argument: %w'' [spelled]) (ev_types call)) (\<lambda>argTypes.
     if has_suffix name ''merge''
     then (case argTypes of
         [] \<Rightarrow> Inl (Errorf ''merge function %s has no arguments'' [spelled])
       | first # _ \<Rightarrow> Inl (Errorf ''function %s ends in merge but its base aggregate has no measured type rule for this argument (%s); %s''
             [spelled, to_string first, pinTypeHint]))
     else Inl (unregistered_function spelled))"

definition registered_call ::
    "infer_env \<Rightarrow> queryScope \<Rightarrow> (expr \<Rightarrow> chtype result) \<Rightarrow> string \<Rightarrow> string \<Rightarrow> expr list option \<Rightarrow> expr list option \<Rightarrow>
     eval_call \<Rightarrow> chtype result" where
  "registered_call env scope f name spelled items cols call =
     (let reg = env_registry env in
      if (case reg name of Some spec \<Rightarrow> resultMode spec = resultRuleUnknown | None \<Rightarrow> False)
      then Inl (Errorf ''function %s has an unknown result rule mode; %s'' [spelled, pinTypeHint])
      else if (case reg name of Some spec \<Rightarrow> domainMode spec = argumentDomainUnknown | None \<Rightarrow> False)
      then Inl (Errorf ''function %s has an unknown argument domain; %s'' [spelled, pinTypeHint])
      else case inferAggregateCombinatorType reg (env_parseFloat env) name (combinator_call_of env scope f spelled items cols call) of
        Some result \<Rightarrow> result
      | None \<Rightarrow> (case reg name of
          None \<Rightarrow> unmeasured_call name spelled call
        | Some spec \<Rightarrow> (case spec_rule spec of
            None \<Rightarrow> unmeasured_call name spelled call
          | Some rule \<Rightarrow> evaluateFunctionCall reg name spelled spec rule call)))"

text \<open>The higher-order forms: with a lambda first, or in the form without one.\<close>

definition higher_order_call ::
    "infer_env \<Rightarrow> (queryScope \<Rightarrow> expr \<Rightarrow> chtype result) \<Rightarrow> queryScope \<Rightarrow> string \<Rightarrow> string \<Rightarrow> expr list \<Rightarrow> chtype result option" where
  "higher_order_call env g scope name spelled args =
     (case (map_of higherOrderArrayFunctions name, args) of
        (Some signature, first # _) \<Rightarrow>
          (let plain = (\<lambda>r. Some (bind_res r (\<lambda>t. Inr (withoutGeometryAliases t)))) in
           if lambda_parts first \<noteq> None
           then plain (inferHigherOrderArrayType (env_format env) g scope signature spelled args)
           else if allowNoLambda signature
           then plain (inferHigherOrderArrayWithoutLambda (env_format env) (g scope) signature spelled args)
           else None)
      | _ \<Rightarrow> None)"

definition routed_call ::
    "infer_env \<Rightarrow> (queryScope \<Rightarrow> expr \<Rightarrow> chtype result) \<Rightarrow> queryScope \<Rightarrow> string \<Rightarrow> string \<Rightarrow> expr list option \<Rightarrow>
     expr list option \<Rightarrow> eval_call \<Rightarrow> chtype result" where
  "routed_call env g scope name spelled items cols call =
     (if name \<in> {''if'', ''multiif'', ''coalesce'', ''ifnull''}
      then inferConditionalFamilyType (env_registry env) name spelled
             (if ev_args call = [] then None else constantConditionTruth env scope (hd (ev_args call))) call
      else case expressionFunctionRoutes env (g scope) name spelled call of
        Some result \<Rightarrow> result
      | None \<Rightarrow>
         (if map_of temporalShiftFunctions name \<noteq> None then inferTemporalShiftType name spelled call
          else case higher_order_call env g scope name spelled (ev_args call) of
            Some result \<Rightarrow> result
          | None \<Rightarrow> (case map_of buildSizedConstructors name of
              Some spec \<Rightarrow> inferSizedConstructorType (env_registry env) (env_format env) spec name spelled call
            | None \<Rightarrow> registered_call env scope (g scope) name spelled items cols call)))"

text \<open>The checks before any rule: the condition of -If, nested aggregates, the signature.\<close>

definition call_checks ::
    "infer_env \<Rightarrow> string \<Rightarrow> string \<Rightarrow> expr list option \<Rightarrow> expr list option \<Rightarrow> eval_call \<Rightarrow> bool \<Rightarrow> unit result" where
  "call_checks env name spelled items cols call window =
     bind_res (if name \<in> {''if'', ''multiif'', ''coalesce'', ''ifnull''} then Inr ()
               else checkIfCombinatorConditionArg name spelled (check_context call)) (\<lambda>_.
     bind_res (checkNestedAggregateArgs env name spelled (ev_args call)) (\<lambda>_.
     validateFunctionCallSignature (env_registry env) (env_parseFloat env) name spelled
       (map arg_of (functionParameterArgs items cols)) (check_context call) window))"

definition inferFunctionTypeAt ::
    "infer_env \<Rightarrow> (queryScope \<Rightarrow> expr \<Rightarrow> chtype result) \<Rightarrow> queryScope \<Rightarrow> string \<Rightarrow> expr list option \<Rightarrow> expr list option \<Rightarrow>
     bool \<Rightarrow> chtype result" where
  "inferFunctionTypeAt env g scope spelled items cols window =
     (let name = to_lower spelled; args = functionArgs items cols in
      if name = expressionContractFunction
      then bind_res (inferExpressionContract env (g scope) items cols) (\<lambda>r. Inr (fst r))
      else let call = newCallContext env scope (g scope) args in
        case map_of higherOrderArrayFunctions name of
          Some higherOrder \<Rightarrow>
            (if spelled \<noteq> hof_spelling higherOrder
             then Inl (Errorf ''function %s does not match the measured case-sensitive spelling %s; %s''
                    [spelled, hof_spelling higherOrder, pinTypeHint])
             else bind_res (call_checks env name spelled items cols call window) (\<lambda>_.
               routed_call env g scope name spelled items cols call))
        | None \<Rightarrow> bind_res (call_checks env name spelled items cols call window) (\<lambda>_.
               routed_call env g scope name spelled items cols call))"


section \<open>Names\<close>

definition top_level :: "queryScope \<Rightarrow> scope_level" where
  "top_level scope = (case scope of [] \<Rightarrow> empty_level | level # _ \<Rightarrow> level)"

text \<open>The scope in which the expression of an alias is read: the alias is being expanded.\<close>

definition expanding :: "queryScope \<Rightarrow> string \<Rightarrow> queryScope" where
  "expanding scope name = (top_level scope)\<lparr>aliasExpansion := name # aliasExpansion (top_level scope)\<rparr> # tl scope"

definition local_alias :: "queryScope \<Rightarrow> string \<Rightarrow> expr option" where
  "local_alias scope name =
     (if name \<in> set (aliasExpansion (top_level scope)) then None else map_of (projectionExprs (top_level scope)) name)"

definition parent_or_keyword ::
    "(queryScope \<Rightarrow> expr \<Rightarrow> chtype result) \<Rightarrow> queryScope \<Rightarrow> string \<Rightarrow> bool \<Rightarrow> error \<Rightarrow> chtype result" where
  "parent_or_keyword g scope name bare err =
     (if name \<in> set (reservedScalars (top_level scope)) then Inl (Errorf ''scalar CTE %q is not resolved'' [name])
      else if tl scope \<noteq> [] then g (tl scope) (EIdent name bare)
      else if equal_fold name ''true'' \<or> equal_fold name ''false'' then Inr (ty0 ''Bool'')
      else Inl err)"

definition inferIdentType ::
    "infer_env \<Rightarrow> (queryScope \<Rightarrow> expr \<Rightarrow> chtype result) \<Rightarrow> queryScope \<Rightarrow> string \<Rightarrow> bool \<Rightarrow> chtype result" where
  "inferIdentType env g scope name bare =
     (if bare \<and> equal_fold name ''NULL'' then Inr (wrapNullable (ty0 ''Nothing''))
      else case local_alias scope name of
        Some expansion \<Rightarrow> g (expanding scope name) expansion
      | None \<Rightarrow> (case lookupLocalScalar scope name of
          Some scalar \<Rightarrow> Inr scalar
        | None \<Rightarrow> (case map_of (arrayJoinTypes (top_level scope)) name of
            Some joined \<Rightarrow> Inr joined
          | None \<Rightarrow> (case lookupLocalColumn (env_parseTypeName env) scope [] name of
              Inr columnType \<Rightarrow> Inr columnType
            | Inl err \<Rightarrow> (case lookupProjectionExpr scope name of
                Some expansion \<Rightarrow> g (expanding scope name) expansion
              | None \<Rightarrow> parent_or_keyword g scope name bare err)))))"

definition inferPathType :: "infer_env \<Rightarrow> queryScope \<Rightarrow> string list \<Rightarrow> chtype result" where
  "inferPathType env scope path =
     (if length path < 2 then Inl (Errorf ''column path %q is empty'' [env_format env (EPath path)])
      else let qualifier = path ! (length path - 2); field = last path;
               tuple = (\<lambda>t. if isCHTuple t then Some t else None);
               column_tuple = (case env_lookupColumn env scope [] qualifier of Inr t \<Rightarrow> tuple t | Inl _ \<Rightarrow> None);
               joined_tuple = Option.bind (map_of (arrayJoinTypes (top_level scope)) qualifier) tuple in
        case column_tuple of
          Some t \<Rightarrow> tupleElementByName t field True
        | None \<Rightarrow> (case joined_tuple of
            Some t \<Rightarrow> tupleElementByName t field True
          | None \<Rightarrow> env_lookupColumn env scope qualifier field))"

section \<open>CAST\<close>

definition validateUntypedNullCastTarget :: "chtype option \<Rightarrow> chtype \<Rightarrow> chtype result" where
  "validateUntypedNullCastTarget source target =
     (case source of
        Some t \<Rightarrow>
          (if isUntypedNullType t
              \<and> (\<not> named target ''nullable'' \<or> length (Params target) \<noteq> 1 \<or> \<not> canBeInsideNullable (hd (Params target)))
           then Inl (Errorf ''CAST of bare NULL requires a valid Nullable target, got %s'' [to_string target])
           else Inr target)
      | None \<Rightarrow> Inr target)"

definition inferCastType :: "infer_env \<Rightarrow> (expr \<Rightarrow> chtype result) \<Rightarrow> expr option \<Rightarrow> cast_target \<Rightarrow> chtype result" where
  "inferCastType env f operand target =
     bind_res (case inferred_option f operand of
         Some (Typed t) \<Rightarrow> Inr (Some t)
       | Some (OtherError err) \<Rightarrow> Inl (Wrapf ''CAST source: %w'' [] err)
       | _ \<Rightarrow> Inr None) (\<lambda>source.
     case target of
       TargetType t \<Rightarrow> bind_res (parseCHType t) (validateUntypedNullCastTarget source)
     | TargetString literal \<Rightarrow> (case env_parseTypeName env (trim_quotes literal) of
           Inl err \<Rightarrow> Inl (Wrapf ''CAST target %q: %w'' [trim_quotes literal] err)
         | Inr t \<Rightarrow> validateUntypedNullCastTarget source t)
     | TargetOther k \<Rightarrow> Inl (Errorf ''CAST target %T is not a ClickHouse type'' [k]))"

section \<open>The step\<close>

definition item_types :: "(expr \<Rightarrow> chtype result) \<Rightarrow> expr list \<Rightarrow> chtype list result" where
  "item_types f items = map_res f items"

definition inferParensType :: "(expr \<Rightarrow> chtype result) \<Rightarrow> expr list option \<Rightarrow> chtype result" where
  "inferParensType f items = (case items of
       None \<Rightarrow> Inl (Errorf ''empty parenthesized expression'' [])
     | Some es \<Rightarrow>
        (if es = [] then Inl (Errorf ''empty parenthesized expression'' [])
         else if length es = 1 then f (hd es)
         else bind_res (item_types f es) tupleFunctionResult))"

definition inferArrayType :: "(expr \<Rightarrow> chtype result) \<Rightarrow> expr list option \<Rightarrow> chtype result" where
  "inferArrayType f items = (case items of
       None \<Rightarrow> Inl (Errorf ''cannot infer the element type of an empty array literal'' [])
     | Some es \<Rightarrow>
        (if es = [] then Inl (Errorf ''cannot infer the element type of an empty array literal'' [])
         else bind_res (item_types f es) arrayFunctionResult))"

definition is_subquery :: "expr \<Rightarrow> bool" where
  "is_subquery e \<longleftrightarrow> (case unwrapColumnExpression e of ESubQuery _ \<Rightarrow> True | _ \<Rightarrow> False)"

definition inferFunctionExprType ::
    "infer_env \<Rightarrow> (queryScope \<Rightarrow> expr \<Rightarrow> chtype result) \<Rightarrow> queryScope \<Rightarrow> string \<Rightarrow> expr list option \<Rightarrow> expr list option \<Rightarrow> chtype result" where
  "inferFunctionExprType env g scope spelled items cols =
     (if equal_fold spelled ''exists'' then Inr (ty0 ''UInt8'')
      else bind_res (inferFunctionTypeAt env g scope spelled items cols False) (\<lambda>result.
        let name = to_lower spelled in
        Inr (if name \<in> {''first_value'', ''last_value''} \<or> isAggregateCallName (env_registry env) name
             then withoutGeometryAliases result else result)))"

definition case_branches :: "(expr \<Rightarrow> chtype result) \<Rightarrow> (expr option \<times> expr option) list \<Rightarrow> case_branch list" where
  "case_branches f whens =
     map (\<lambda>w. (inferred_option f (fst w), map_option (\<lambda>x. (inferred_of (f x), lit_of x)) (snd w))) whens"

definition infer_step :: "infer_env \<Rightarrow> (queryScope \<Rightarrow> expr \<Rightarrow> chtype result) \<Rightarrow> queryScope \<Rightarrow> expr \<Rightarrow> chtype result" where
  "infer_step env g scope e = (case e of
       EColumn inner \<Rightarrow> g scope inner
     | EIdent name bare \<Rightarrow> inferIdentType env g scope name bare
     | ESubQuery select \<Rightarrow> (case map_of (scalarSubqueries (top_level scope)) select of
           Some scalar \<Rightarrow> Inr scalar | None \<Rightarrow> Inl (Errorf ''scalar subquery type was not resolved'' []))
     | EPath path \<Rightarrow> inferPathType env scope path
     | EParens items _ \<Rightarrow> inferParensType (g scope) items
     | EIndex operation object index \<Rightarrow> inferIndexOperationType (env_format env) (g scope) operation object index
     | EUnary operation operand \<Rightarrow> inferUnaryExprType (g scope) operation operand
     | EObject object params \<Rightarrow> inferSubscriptType (g scope) object params
     | EArray items \<Rightarrow> inferArrayType (g scope) items
     | EBinary left operation right \<Rightarrow>
         (if isInOperation operation \<and> is_subquery right
          then bind_res (g scope left) (\<lambda>t. Inr (if branchArgumentNullable t then wrapNullable (ty0 ''UInt8'') else ty0 ''UInt8''))
          else inferBinaryOperationType env scope (g scope) left operation right)
     | ECase operand whens els \<Rightarrow>
         inferCaseExprType (inferred_option (g scope) operand) (case_branches (g scope) whens)
           (map_option (\<lambda>x. (inferred_of (g scope x), lit_of x)) els)
     | EBetween a b c \<Rightarrow> inferBetweenType (map (inferred_option (g scope)) [a, b, c])
     | EIsNull operand \<Rightarrow> inferIsNullPredicateType (g scope) operand ''IS NULL''
     | EIsNotNull operand \<Rightarrow> inferIsNullPredicateType (g scope) operand ''IS NOT NULL''
     | EWindow name items cols over \<Rightarrow>
         bind_res (validateWindowFunction (g scope) (windows (top_level scope)) name over) (\<lambda>_.
         bind_res (inferFunctionTypeAt env g scope name items cols True) (\<lambda>result. Inr (withoutGeometryAliases result)))
     | EFunction name items cols \<Rightarrow> inferFunctionExprType env g scope name items cols
     | ECast operand target \<Rightarrow> inferCastType env (g scope) operand target
     | ENumber literal \<Rightarrow> Inr (number_literal_type literal)
     | EString _ \<Rightarrow> Inr (ty0 ''String'')
     | ENull \<Rightarrow> Inr (wrapNullable (ty0 ''Nothing''))
     | EBool _ \<Rightarrow> Inr (ty0 ''Bool'')
     | EPlaceholder \<Rightarrow> Inl errPlaceholderResultType
     | _ \<Rightarrow> Inl (Errorf ''cannot infer type for ClickHouse expression %T (%s); %s'' [node_kind e, env_format env e, pinTypeHint]))"

text \<open>The inference with at most \<open>n\<close> nested calls; \<open>call_depth_exceeded\<close> stands for a stack that is too deep.\<close>

definition call_depth_exceeded :: error where
  "call_depth_exceeded = Errorf ''goroutine stack exceeds the limit'' []"

fun inferExprType :: "infer_env \<Rightarrow> nat \<Rightarrow> queryScope \<Rightarrow> expr \<Rightarrow> chtype result" where
  "inferExprType env 0 scope e = Inl call_depth_exceeded"
| "inferExprType env (Suc n) scope e = infer_step env (inferExprType env n) scope e"

definition inferSelectItemType :: "infer_env \<Rightarrow> nat \<Rightarrow> queryScope \<Rightarrow> string option \<Rightarrow> expr \<Rightarrow> chtype result" where
  "inferSelectItemType env n scope alias_name e =
     inferExprType env n (case alias_name of Some name \<Rightarrow> expanding scope name | None \<Rightarrow> scope) e"

end
