(* ===== verification/Reach.thy ===== *)
theory Reach
  imports Infer
begin

text \<open>
  Which recursive calls the inference of an expression makes, and that it reads nothing else of the
  recursion. Here: the subexpressions, and what an operator, a call and a lambda read of the inference;
  \<^verbatim>\<open>StepCalls\<close> puts the forms together.
\<close>

section \<open>Subexpressions\<close>

definition opt_exprs :: "expr list option \<Rightarrow> expr list" where
  "opt_exprs items = (case items of Some es \<Rightarrow> es | None \<Rightarrow> [])"

definition opt_expr :: "expr option \<Rightarrow> expr list" where
  "opt_expr e = (case e of Some x \<Rightarrow> [x] | None \<Rightarrow> [])"

definition spec_exprs :: "window_spec \<Rightarrow> expr list" where
  "spec_exprs w = opt_exprs (partition_by w) @ opt_exprs (order_by w)"

definition over_exprs :: "window_over \<Rightarrow> expr list" where
  "over_exprs over = (case over of OverWindow w \<Rightarrow> spec_exprs w | _ \<Rightarrow> [])"

fun parts :: "expr \<Rightarrow> expr list" where
  "parts (EColumn e) = [e]"
| "parts (EParens items _) = opt_exprs items"
| "parts (EArray items) = opt_exprs items"
| "parts (EIndex _ object index) = [object, index]"
| "parts (EObject object params) = object # opt_exprs params"
| "parts (EUnary _ e) = [e]"
| "parts (EBinary l _ r) = [l, r]"
| "parts (ECase operand whens els) = opt_expr operand @ concat (map (\<lambda>w. opt_expr (fst w) @ opt_expr (snd w)) whens) @ opt_expr els"
| "parts (EBetween a b c) = opt_expr a @ opt_expr b @ opt_expr c"
| "parts (EIsNull e) = [e]"
| "parts (EIsNotNull e) = [e]"
| "parts (EFunction _ items cols) = opt_exprs items @ opt_exprs cols"
| "parts (EWindow _ items cols over) = opt_exprs items @ opt_exprs cols @ over_exprs over"
| "parts (ECast operand _) = opt_expr operand"
| "parts (EInterval e _) = [e]"
| "parts _ = []"

lemma size_opt_exprs: "x \<in> set (opt_exprs items) \<Longrightarrow> size x < size_option (size_list size) items"
  by (cases items) (auto simp: opt_exprs_def less_Suc_eq_le size_list_member_le)

lemma size_opt_expr: "x \<in> set (opt_expr e) \<Longrightarrow> size x < size_option size e"
  by (cases e) (auto simp: opt_expr_def)

lemma size_over_exprs: "x \<in> set (over_exprs over) \<Longrightarrow> size x < size over"
  by (cases over; cases "case over of OverWindow w \<Rightarrow> w | _ \<Rightarrow> undefined")
     (auto simp: over_exprs_def spec_exprs_def dest!: size_opt_exprs)

lemma size_parts:
  assumes "x \<in> set (parts e)"
  shows "size x < size e"
proof (cases e)
  case (ECase operand whens els)
  have w: "size x < size (ECase operand whens els)" if "w \<in> set whens" "x \<in> set (opt_expr (fst w)) \<or> x \<in> set (opt_expr (snd w))" for w
    using that size_case_when [OF that(1), of x operand els] by (auto simp: opt_expr_def split: option.splits)
  consider "x \<in> set (opt_expr operand)" | "x \<in> set (opt_expr els)"
    | w where "w \<in> set whens" "x \<in> set (opt_expr (fst w)) \<or> x \<in> set (opt_expr (snd w))"
    using assms ECase by auto
  then show ?thesis
  proof cases
    case 3
    then show ?thesis using w ECase by blast
  qed (use ECase in \<open>auto dest!: size_opt_expr\<close>)
qed (use assms in \<open>auto dest!: size_opt_exprs size_opt_expr size_over_exprs\<close>)

text \<open>The strict subexpressions.\<close>

primrec each_with :: "('a \<Rightarrow> 'a list) \<Rightarrow> 'a list \<Rightarrow> 'a list" where
  "each_with f [] = []"
| "each_with f (x # xs) = x # f x @ each_with f xs"

lemma each_with_cong [fundef_cong]: "xs = ys \<Longrightarrow> (\<And>x. x \<in> set ys \<Longrightarrow> f x = g x) \<Longrightarrow> each_with f xs = each_with g ys"
  by (induction ys arbitrary: xs) auto

lemma set_each_with: "set (each_with f xs) = set xs \<union> (\<Union>x \<in> set xs. set (f x))"
  by (induction xs) auto

function subs :: "expr \<Rightarrow> expr list" where
  "subs e = each_with subs (parts e)"
  by pat_completeness auto
termination
  by (relation "measure size") (auto dest: size_parts)

declare subs.simps [simp del]

lemma set_subs: "set (subs e) = set (parts e) \<union> (\<Union>x \<in> set (parts e). set (subs x))"
  by (simp add: subs.simps [of e] set_each_with)

lemma parts_subs: "x \<in> set (parts e) \<Longrightarrow> x \<in> set (subs e)"
  by (auto simp: set_subs [of e])

lemma subs_trans: "x \<in> set (subs y) \<Longrightarrow> y \<in> set (subs e) \<Longrightarrow> x \<in> set (subs e)"
proof (induction "size e" arbitrary: e rule: less_induct)
  case less
  obtain p where p: "p \<in> set (parts e)" "y = p \<or> y \<in> set (subs p)"
    using less.prems(2) by (auto simp: set_subs [of e])
  have "x \<in> set (subs p)" using p less.prems(1) less.hyps [OF size_parts [OF p(1)]] by blast
  then show ?case using p(1) by (auto simp: set_subs [of e])
qed

lemma subs_parts: "x \<in> set (parts y) \<Longrightarrow> y \<in> set (subs e) \<Longrightarrow> x \<in> set (subs e)"
  using subs_trans parts_subs by blast

lemma size_subs: "x \<in> set (subs e) \<Longrightarrow> size x < size e"
proof (induction "size e" arbitrary: e rule: less_induct)
  case less
  obtain p where p: "p \<in> set (parts e)" "x = p \<or> x \<in> set (subs p)"
    using less.prems by (auto simp: set_subs [of e])
  then show ?case using less.hyps [OF size_parts [OF p(1)]] size_parts [OF p(1)] by auto
qed

lemma subs_unwrap_column: "x \<in> set (subs e) \<Longrightarrow> unwrap_column x \<in> set (subs e)"
  using subs_parts [of "unwrap_column x" x e] by (cases x) auto

lemma subs_functionArgs:
  assumes "x \<in> set (functionArgs items cols)"
  shows "x \<in> set (subs (EFunction name items cols))" "x \<in> set (subs (EWindow name items cols over))"
proof -
  obtain y where y: "y \<in> set (opt_exprs items @ opt_exprs cols)" "x = unwrap_column y"
    using assms by (cases items; cases cols) (auto simp: functionArgs_def opt_exprs_def)
  show "x \<in> set (subs (EFunction name items cols))" unfolding y(2)
    by (rule subs_unwrap_column, rule parts_subs) (use y(1) in auto)
  show "x \<in> set (subs (EWindow name items cols over))" unfolding y(2)
    by (rule subs_unwrap_column, rule parts_subs) (use y(1) in auto)
qed

lemma subs_lambda_body: "lambda_parts e = Some (names, body) \<Longrightarrow> body \<in> set (subs e)"
proof (induction e rule: lambda_parts.induct)
  case (1 e)
  then show ?case using subs_trans parts_subs [of e "EColumn e"] by simp
next
  case (2 left operation right)
  then have "body = right" by (auto split: if_splits expr.splits option.splits)
  then show ?case by (simp add: parts_subs)
qed auto

lemma subs_unwrap: "unwrapColumnExpression e = e \<or> unwrapColumnExpression e \<in> set (subs e)"
proof (induction e rule: unwrapColumnExpression.induct)
  case (1 e)
  then show ?case using subs_trans parts_subs [of e "EColumn e"] by auto
qed auto

lemma subs_unwrapConstantOperand: "unwrapConstantOperand e = e \<or> unwrapConstantOperand e \<in> set (subs e)"
proof (induction e rule: unwrapConstantOperand.induct)
  case (1 e)
  then show ?case using subs_trans parts_subs [of e "EColumn e"] by auto
next
  case (2 e)
  then show ?case using subs_trans parts_subs [of e "EParens (Some [e]) False"] by (auto simp: opt_exprs_def)
qed auto

section \<open>The calls of each form\<close>

lemma check_all_cong: "(\<And>x. x \<in> set xs \<Longrightarrow> f x = g x) \<Longrightarrow> check_all f xs = check_all g xs"
  by (induction xs) (auto simp: bind_res_def split: sum.splits)

lemma fold_res_agree: "(\<And>x s. x \<in> set xs \<Longrightarrow> f x s = g x s) \<Longrightarrow> fold_res f xs s = fold_res g xs s"
  by (induction xs arbitrary: s) (auto simp: bind_res_def split: sum.splits)

lemma bare_bool_cong:
  "(\<And>x. x = e \<or> x \<in> set (subs e) \<Longrightarrow> f x = h x) \<Longrightarrow>
     andOrOperandCarriesBareBool f operator e = andOrOperandCarriesBareBool h operator e"
proof (induction f operator e rule: andOrOperandCarriesBareBool.induct)
  case (1 f operator e)
  have "andOrOperandCarriesBareBool f operator e = andOrOperandCarriesBareBool h operator e"
    by (rule 1(1)) (metis 1(2) parts.simps(1) parts_subs subs_trans list.set_intros(1))
  then show ?case by simp
next
  case (2 f operator left operation right)
  have sub: "x \<in> set (subs (EBinary left operation right))" if "x = left \<or> x \<in> set (subs left) \<or> x = right \<or> x \<in> set (subs right)" for x
    using that by (auto simp: set_subs [of "EBinary left operation right"])
  show ?case
  proof (cases "equal_fold operation operator")
    case True
    have l: "andOrOperandCarriesBareBool f operator left = andOrOperandCarriesBareBool h operator left"
      by (rule 2(1) [OF True]) (use 2(3) sub in blast)
    have r: "andOrOperandCarriesBareBool f operator right = andOrOperandCarriesBareBool h operator right"
      if "andOrOperandCarriesBareBool f operator left = Inr False"
      by (rule 2(2) [OF True that]) (use 2(3) sub in blast)+
    show ?thesis using True l r by (auto simp: bind_res_def split: sum.splits)
  next
    case False
    then show ?thesis using 2(3) by simp
  qed
qed simp_all


lemma newCallContext_args: "ev_args (newCallContext env scope f args) = args"
  by (simp add: newCallContext_def)

lemma logic_function_cong:
  assumes "\<And>e x. e \<in> set (ev_args call) \<Longrightarrow> x = e \<or> x \<in> set (subs e) \<Longrightarrow> f x = h x"
  shows "inferLogicOperatorFunctionType reg f name displayName call = inferLogicOperatorFunctionType reg h name displayName call"
proof -
  have step: "logic_step reg domain f name displayName a = logic_step reg domain h name displayName a"
    if "a \<in> set (zip (ev_args call) (zip (ev_types call) (ev_consts call)))" for domain a
  proof -
    obtain e i c where a: "a = (e, i, c)" by (cases a) auto
    have e: "e \<in> set (ev_args call)" using that a by (auto dest: set_zip_leftD)
    have "andOrOperandCarriesBareBool f (to_upper name) e = andOrOperandCarriesBareBool h (to_upper name) e"
      by (rule bare_bool_cong) (use assms e in blast)
    moreover have "xorOperandCarriesBool f e = xorOperandCarriesBool h e"
      using assms [OF e, of e] by (simp add: xorOperandCarriesBool_def)
    ultimately have eq: "(if name = ''xor'' then xorOperandCarriesBool f e else andOrOperandCarriesBareBool f (to_upper name) e)
        = (if name = ''xor'' then xorOperandCarriesBool h e else andOrOperandCarriesBareBool h (to_upper name) e)" by simp
    show ?thesis unfolding a logic_step_def prod.case eq ..
  qed
  then have eq: "fold_res (logic_step reg domain f name displayName) (zip (ev_args call) (zip (ev_types call) (ev_consts call))) logic_start
      = fold_res (logic_step reg domain h name displayName) (zip (ev_args call) (zip (ev_types call) (ev_consts call))) logic_start" for domain
    by (intro fold_res_agree) simp
  show ?thesis unfolding inferLogicOperatorFunctionType_def eq ..
qed

lemma without_index_subset: "set (without_index i xs) \<subseteq> set xs"
  by (auto simp: without_index_def dest: in_set_takeD in_set_dropD)

lemma take_scalar_cong:
  assumes "\<And>x. x \<in> set args \<Longrightarrow> f x = h x"
  shows "take_scalar f label displayName signature args = take_scalar h label displayName signature args"
    and "take_scalar f label displayName signature args = Inr rest \<Longrightarrow> set rest \<subseteq> set args"
proof -
  show "take_scalar f label displayName signature args = take_scalar h label displayName signature args"
    using assms by (auto simp: take_scalar_def checkHigherOrderLimit_def Let_def split: option.splits)
  show "take_scalar f label displayName signature args = Inr rest \<Longrightarrow> set rest \<subseteq> set args"
    using subsetD [OF without_index_subset] by (auto simp: take_scalar_def bind_res_def Let_def split: option.splits if_splits sum.splits)
qed

lemma take_accumulator_cong:
  assumes "\<And>x. x \<in> set args \<Longrightarrow> f x = h x"
  shows "take_accumulator f displayName signature args = take_accumulator h displayName signature args"
    and "take_accumulator f displayName signature args = Inr (t, rest) \<Longrightarrow> set rest \<subseteq> set args"
proof -
  show "take_accumulator f displayName signature args = take_accumulator h displayName signature args"
    using assms by (auto simp: take_accumulator_def Let_def split: option.splits)
  show "take_accumulator f displayName signature args = Inr (t, rest) \<Longrightarrow> set rest \<subseteq> set args"
    using subsetD [OF without_index_subset] by (auto simp: take_accumulator_def Let_def split: option.splits if_splits sum.splits)
qed

lemma elements_cong:
  "(\<And>x. x \<in> set args \<Longrightarrow> f x = h x) \<Longrightarrow> map_res (array_element format f displayName) args = map_res (array_element format h displayName) args"
  by (rule map_res_cong) (simp_all add: array_element_def)

lemma lambda_call_cong:
  assumes "\<And>x. x \<in> set args \<Longrightarrow> f x = h x" "args \<noteq> []"
  shows "lambda_call format f scope signature displayName args = lambda_call format h scope signature displayName args"
proof -
  have tl: "x \<in> set (tl args) \<Longrightarrow> f x = h x" for x using assms(1) by (meson assms(2) list.set_sel(2))
  let ?l = "''function %s needs its %s before the Array arguments''"
  have a: "take_scalar f ?l displayName signature (tl args) = take_scalar h ?l displayName signature (tl args)"
    by (rule take_scalar_cong(1)) (rule tl)
  have b: "take_accumulator f displayName signature rest = take_accumulator h displayName signature rest"
    "take_accumulator f displayName signature rest = Inr (t, data) \<Longrightarrow>
       map_res (array_element format f displayName) data = map_res (array_element format h displayName) data"
    if "take_scalar f ?l displayName signature (tl args) = Inr rest" for rest t data
  proof -
    have sub: "set rest \<subseteq> set (tl args)" using take_scalar_cong(2) [OF tl that] by blast
    show "take_accumulator f displayName signature rest = take_accumulator h displayName signature rest"
      by (rule take_accumulator_cong(1)) (use tl sub in blast)
    assume acc: "take_accumulator f displayName signature rest = Inr (t, data)"
    have "set data \<subseteq> set rest" using take_accumulator_cong(2) [OF _ acc, of f] by simp
    then show "map_res (array_element format f displayName) data = map_res (array_element format h displayName) data"
      by (intro elements_cong) (use tl sub in blast)
  qed
  show ?thesis
    unfolding lambda_call_def a [symmetric]
    by (auto simp: bind_res_def b split: option.splits sum.splits prod.splits)
qed


text \<open>Two inferences agree on the arguments of a call and on everything inside them.\<close>

definition agree_inside :: "(expr \<Rightarrow> chtype result) \<Rightarrow> (expr \<Rightarrow> chtype result) \<Rightarrow> expr list \<Rightarrow> bool" where
  "agree_inside f h args \<longleftrightarrow> (\<forall>a \<in> set args. \<forall>x \<in> insert a (set (subs a)). f x = h x)"

lemma agree_inside_arg: "agree_inside f h args \<Longrightarrow> a \<in> set args \<Longrightarrow> f a = h a"
  by (simp add: agree_inside_def)

lemma asserted_call_cong:
  assumes "f e = h e" "\<And>x. x \<in> set (subs e) \<Longrightarrow> f x = h x"
  shows "asserted_call f e err missing contract = asserted_call h e err missing contract"
proof (cases "unwrapColumnExpression e")
  case (EFunction name items cols)
  have "f x = h x" if "x \<in> set (functionArgs items cols)" for x
    using subs_functionArgs(1) [OF that, of name] subs_unwrap [of e] subs_trans [of x "EFunction name items cols" e] assms(2) EFunction
    by auto
  then have "check_all (\<lambda>arg. case f arg of Inl argErr \<Rightarrow> Inl (Wrapf ''%s argument: %w'' [expressionContractMacro] argErr) | Inr _ \<Rightarrow> Inr ())
        (functionArgs items None)
      = check_all (\<lambda>arg. case h arg of Inl argErr \<Rightarrow> Inl (Wrapf ''%s argument: %w'' [expressionContractMacro] argErr) | Inr _ \<Rightarrow> Inr ())
        (functionArgs items None)" if "cols = None"
    using that by (intro check_all_cong) simp
  then show ?thesis using EFunction by (cases items; cases cols) (simp_all add: asserted_call_def)
qed (simp_all add: asserted_call_def)

lemma expression_contract_cong:
  assumes "agree_inside f h (functionArgs items cols)"
  shows "inferExpressionContract env f items cols = inferExpressionContract env h items cols"
proof -
  consider e l where "functionArgs items cols = [e, EString l]" "cols = None"
    | "\<not> (\<exists>e l. functionArgs items cols = [e, EString l] \<and> cols = None)" by blast
  then show ?thesis
  proof cases
    case (1 e l)
    have f: "f e = h e" "asserted_call f e err missing contract = asserted_call h e err missing contract" for err missing contract
      using assms 1 asserted_call_cong [of f e h] by (auto simp: agree_inside_def)
    have args: "functionArgs items None = [e, EString l]" using 1 by simp
    show ?thesis unfolding inferExpressionContract_def 1(2) args
      by (auto simp: bind_res_def f split: sum.splits option.splits)
  next
    case 2
    then show ?thesis unfolding inferExpressionContract_def
      by (auto split: list.splits option.splits expr.splits)
  qed
qed

lemma subs_case_then:
  assumes "unwrapConstantOperand a = ECase operand whens els" "w \<in> set whens" "snd w = Some x"
  shows "x \<in> set (subs a)"
proof -
  have "x \<in> set (parts (ECase operand whens els))" using assms(2,3) by (force simp: opt_expr_def)
  then show ?thesis using subs_unwrapConstantOperand [of a] assms(1) parts_subs subs_parts by metis
qed

lemma first_case_cong:
  assumes "agree_inside f h args"
  shows "first_case_shape env scope f args = first_case_shape env scope h args"
proof (cases args)
  case (Cons a rest)
  show ?thesis
  proof (cases "unwrapConstantOperand a")
    case (ECase operand whens els)
    have "inferred_option f (snd w) = inferred_option h (snd w)" if "w \<in> set whens" for w
      using assms Cons subs_case_then [OF ECase that] by (cases "snd w") (auto simp: inferred_option_def agree_inside_def)
    then show ?thesis using Cons ECase by (simp add: first_case_shape_def)
  qed (simp_all add: first_case_shape_def Cons)
qed (simp add: first_case_shape_def)

lemma higher_order_call_cong:
  assumes "\<And>x. x \<in> set args \<Longrightarrow> g scope x = h scope x"
    and lambda: "\<And>signature s body acc els. map_of higherOrderArrayFunctions name = Some signature \<Longrightarrow> args \<noteq> [] \<Longrightarrow>
      lambda_call (env_format env) (g scope) scope signature spelled args = Inr (s, body, acc, els) \<Longrightarrow> g s body = h s body"
  shows "higher_order_call env g scope name spelled args = higher_order_call env h scope name spelled args"
proof (cases "map_of higherOrderArrayFunctions name")
  case (Some signature)
  show ?thesis
  proof (cases args)
    case (Cons a rest)
    have "lambda_call (env_format env) (g scope) scope signature spelled args = lambda_call (env_format env) (h scope) scope signature spelled args"
      by (rule lambda_call_cong) (use assms(1) Cons in auto)
    then have a: "inferHigherOrderArrayType (env_format env) g scope signature spelled args
        = inferHigherOrderArrayType (env_format env) h scope signature spelled args"
      using lambda [OF Some] Cons
      by (auto simp: inferHigherOrderArrayType_def bind_res_def split: sum.splits prod.splits)
    have s: "take_scalar (g scope) l spelled signature args = take_scalar (h scope) l spelled signature args" for l
      by (rule take_scalar_cong(1)) (use assms(1) in auto)
    have e: "array_element (env_format env) (g scope) spelled (hd data) = array_element (env_format env) (h scope) spelled (hd data)"
      if "take_scalar (h scope) l spelled signature args = Inr data" "length data = 1" for l data
    proof -
      have "hd data \<in> set args" using that take_scalar_cong(2) [of args "h scope" "h scope"] by (metis length_greater_0_conv list.set_sel(1) subsetD zero_less_one)
      then show ?thesis using assms(1) by (simp add: array_element_def)
    qed
    have b: "inferHigherOrderArrayWithoutLambda (env_format env) (g scope) signature spelled args
        = inferHigherOrderArrayWithoutLambda (env_format env) (h scope) signature spelled args"
      unfolding inferHigherOrderArrayWithoutLambda_def s
      by (auto simp: bind_res_def e split: sum.splits)
    show ?thesis using Some Cons a b by (simp add: higher_order_call_def)
  qed (simp add: higher_order_call_def Some)
qed (simp add: higher_order_call_def)

lemma routed_call_cong:
  assumes "agree_inside (g scope) (h scope) (ev_args call)"
    and lambda: "\<And>signature s body acc els. map_of higherOrderArrayFunctions name = Some signature \<Longrightarrow> ev_args call \<noteq> [] \<Longrightarrow>
      lambda_call (env_format env) (g scope) scope signature spelled (ev_args call) = Inr (s, body, acc, els) \<Longrightarrow> g s body = h s body"
  shows "routed_call env g scope name spelled items cols call = routed_call env h scope name spelled items cols call"
proof -
  have a: "inferLogicOperatorFunctionType reg (g scope) name spelled call = inferLogicOperatorFunctionType reg (h scope) name spelled call" for reg
    by (rule logic_function_cong) (use assms(1) in \<open>auto simp: agree_inside_def\<close>)
  have b: "expressionFunctionRoutes env (g scope) name spelled call = expressionFunctionRoutes env (h scope) name spelled call"
    unfolding expressionFunctionRoutes_def a ..
  have c: "higher_order_call env g scope name spelled (ev_args call) = higher_order_call env h scope name spelled (ev_args call)"
    by (rule higher_order_call_cong) (fact agree_inside_arg [OF assms(1)], fact lambda)
  have d: "registered_call env scope (g scope) name spelled items cols call = registered_call env scope (h scope) name spelled items cols call"
    unfolding registered_call_def combinator_call_of_def first_case_cong [OF assms(1)] ..
  show ?thesis unfolding routed_call_def b c d ..
qed

lemma function_call_cong:
  assumes agree: "agree_inside (g scope) (h scope) (functionArgs items cols)"
    and lambda: "\<And>signature s body acc els. map_of higherOrderArrayFunctions (to_lower spelled) = Some signature \<Longrightarrow>
      functionArgs items cols \<noteq> [] \<Longrightarrow>
      lambda_call (env_format env) (g scope) scope signature spelled (functionArgs items cols) = Inr (s, body, acc, els) \<Longrightarrow> g s body = h s body"
  shows "inferFunctionTypeAt env g scope spelled items cols window = inferFunctionTypeAt env h scope spelled items cols window"
proof -
  have a: "newCallContext env scope (g scope) (functionArgs items cols) = newCallContext env scope (h scope) (functionArgs items cols)"
    by (rule newCallContext_cong) (rule agree_inside_arg [OF agree])
  have b: "routed_call env g scope (to_lower spelled) spelled items cols (newCallContext env scope (h scope) (functionArgs items cols))
      = routed_call env h scope (to_lower spelled) spelled items cols (newCallContext env scope (h scope) (functionArgs items cols))"
    by (rule routed_call_cong) (use agree lambda in \<open>auto simp: newCallContext_args\<close>)
  show ?thesis
    unfolding inferFunctionTypeAt_def Let_def a b expression_contract_cong [OF agree] ..
qed

end
