(* ===== verification/StepCalls.thy ===== *)
theory StepCalls
  imports Reach
begin

text \<open>
  The recursive calls of one step of the inference (\<open>static_calls\<close>, \<open>lambda_callee\<close>), and that the step
  reads nothing else of the recursion: two inferences that agree on those calls agree on the expression
  (\<open>infer_step_cong\<close>).
\<close>

section \<open>The calls of the step\<close>

lemma inferred_option_cong: "(\<And>x. x \<in> set (opt_expr e) \<Longrightarrow> f x = h x) \<Longrightarrow> inferred_option f e = inferred_option h e"
  by (cases e) (auto simp: inferred_option_def opt_expr_def)

lemma items_cong:
  assumes "\<And>x. x \<in> set (opt_exprs items) \<Longrightarrow> f x = h x"
  shows "inferParensType f items = inferParensType h items" "inferArrayType f items = inferArrayType h items"
proof -
  have m: "map_res f es = map_res h es" if "items = Some es" for es
    by (rule map_res_cong) (use assms that in \<open>auto simp: opt_exprs_def\<close>)
  show "inferParensType f items = inferParensType h items"
    using m assms by (cases items) (auto simp: inferParensType_def item_types_def opt_exprs_def)
  show "inferArrayType f items = inferArrayType h items"
    using m by (cases items) (auto simp: inferArrayType_def item_types_def)
qed

lemma unary_cong: "f operand = h operand \<Longrightarrow> inferUnaryExprType f operation operand = inferUnaryExprType h operation operand"
  by (simp add: inferUnaryExprType_def split: option.splits)

lemma index_cong: "f object = h object \<Longrightarrow> inferIndexOperationType format f operation object index = inferIndexOperationType format h operation object index"
  by (simp add: inferIndexOperationType_def)

lemma subscript_cong:
  assumes "f object = h object" "\<And>x. x \<in> set (opt_exprs params) \<Longrightarrow> f x = h x"
  shows "inferSubscriptType f object params = inferSubscriptType h object params"
  using assms by (auto simp: inferSubscriptType_def opt_exprs_def bind_res_def split: sum.splits option.splits list.splits)

lemma is_null_cong: "f operand = h operand \<Longrightarrow> inferIsNullPredicateType f operand operation = inferIsNullPredicateType h operand operation"
  by (simp add: inferIsNullPredicateType_def)

lemma cast_cong: "(\<And>x. x \<in> set (opt_expr operand) \<Longrightarrow> f x = h x) \<Longrightarrow> inferCastType env f operand target = inferCastType env h operand target"
  using inferred_option_cong [of operand f h] by (simp add: inferCastType_def)

lemma case_branches_cong:
  assumes "\<And>w x. w \<in> set whens \<Longrightarrow> x \<in> set (opt_expr (fst w) @ opt_expr (snd w)) \<Longrightarrow> f x = h x"
  shows "case_branches f whens = case_branches h whens"
  unfolding case_branches_def
proof (rule map_cong [OF refl])
  fix w assume w: "w \<in> set whens"
  have "inferred_option f (fst w) = inferred_option h (fst w)"
    by (rule inferred_option_cong) (use assms w in auto)
  moreover have "map_option (\<lambda>x. (inferred_of (f x), lit_of x)) (snd w) = map_option (\<lambda>x. (inferred_of (h x), lit_of x)) (snd w)"
    using assms [OF w] by (cases "snd w") (auto simp: opt_expr_def)
  ultimately show "(inferred_option f (fst w), map_option (\<lambda>x. (inferred_of (f x), lit_of x)) (snd w))
      = (inferred_option h (fst w), map_option (\<lambda>x. (inferred_of (h x), lit_of x)) (snd w))" by simp
qed

lemma binary_cong:
  assumes "\<And>x. x \<in> {left, right} \<union> set (subs left) \<union> set (subs right) \<Longrightarrow> f x = h x"
  shows "inferBinaryOperationType env scope f left operation right = inferBinaryOperationType env scope h left operation right"
proof -
  have lr: "f left = h left" "f right = h right" using assms by auto
  have b: "andOrOperandCarriesBareBool f operator left = andOrOperandCarriesBareBool h operator left"
    "andOrOperandCarriesBareBool f operator right = andOrOperandCarriesBareBool h operator right" for operator
    by (rule bare_bool_cong; use assms in blast)+
  have p: "inferPredicateType env scope f operator left right = inferPredicateType env scope h operator left right" for operator
    unfolding inferPredicateType_def lr b ..
  have a: "inferArithmeticOperandType f left = inferArithmeticOperandType h left" "inferArithmeticOperandType f right = inferArithmeticOperandType h right"
    unfolding inferArithmeticOperandType_def lr by (rule refl)+
  have v: "inferValueOperatorType env scope f operator left right spelled = inferValueOperatorType env scope h operator left right spelled" for operator spelled
    unfolding inferValueOperatorType_def a ..
  have i: "inferIntervalArithmeticType f left interval = inferIntervalArithmeticType h left interval"
    "inferIntervalArithmeticType f right interval = inferIntervalArithmeticType h right interval" for interval
    unfolding inferIntervalArithmeticType_def lr by (rule refl)+
  show ?thesis unfolding inferBinaryOperationType_def p v i ..
qed

text \<open>The expressions of the window that an OVER clause stands for.\<close>

definition window_exprs :: "window_table \<Rightarrow> window_over \<Rightarrow> expr list" where
  "window_exprs table over = (case materializeWindowOver table over of Inr w \<Rightarrow> spec_exprs w | Inl _ \<Rightarrow> [])"

lemma window_clause_opt: "window_clause = opt_exprs"
  by (auto simp: window_clause_def opt_exprs_def fun_eq_iff)

lemma window_cong:
  assumes "\<And>x. x \<in> set (window_exprs table over) \<Longrightarrow> f x = h x"
  shows "validateWindowFunction f table spelled over = validateWindowFunction h table spelled over"
proof (cases "materializeWindowOver table over")
  case (Inr w)
  have m: "map_res (wrapped_type label f) (window_clause items) = map_res (wrapped_type label h) (window_clause items)"
    if "items = partition_by w \<or> items = order_by w" for label items
    by (rule map_res_cong)
       (use assms that Inr in \<open>auto simp: window_exprs_def spec_exprs_def window_clause_opt wrapped_type_def\<close>)
  show ?thesis using m [of "partition_by w"] m [of "order_by w"] Inr
    by (simp add: validateWindowFunction_def validateMaterializedWindow_def)
qed (simp add: validateWindowFunction_def)

text \<open>The calls that do not depend on the answers of other calls.\<close>

definition alias_calls :: "queryScope \<Rightarrow> string \<Rightarrow> expr list" where
  "alias_calls scope name = (case local_alias scope name of
       Some x \<Rightarrow> [x] | None \<Rightarrow> (case lookupProjectionExpr scope name of Some x \<Rightarrow> [x] | None \<Rightarrow> []))"

definition static_calls :: "queryScope \<Rightarrow> expr \<Rightarrow> (queryScope \<times> expr) list" where
  "static_calls scope e = map (Pair scope) (subs e) @ (case e of
       EIdent name _ \<Rightarrow> map (Pair (expanding scope name)) (alias_calls scope name) @ (if tl scope = [] then [] else [(tl scope, e)])
     | EWindow _ _ _ over \<Rightarrow> map (Pair scope) (window_exprs (windows (top_level scope)) over)
     | _ \<Rightarrow> [])"

text \<open>The one call that does: the body of a lambda, in the scope of its parameters.\<close>

definition lambda_callee ::
    "infer_env \<Rightarrow> (queryScope \<Rightarrow> expr \<Rightarrow> chtype result) \<Rightarrow> queryScope \<Rightarrow> expr \<Rightarrow> queryScope \<Rightarrow> expr \<Rightarrow> bool" where
  "lambda_callee env g scope e s body \<longleftrightarrow> (\<exists>name items cols over signature acc els.
     (e = EFunction name items cols \<or> e = EWindow name items cols over)
     \<and> map_of higherOrderArrayFunctions (to_lower name) = Some signature \<and> functionArgs items cols \<noteq> []
     \<and> lambda_call (env_format env) (g scope) scope signature name (functionArgs items cols) = Inr (s, body, acc, els))"

lemma static_subs: "x \<in> set (subs e) \<Longrightarrow> (scope, x) \<in> set (static_calls scope e)"
  by (auto simp: static_calls_def)

lemma ident_cong:
  assumes "\<And>s x. (s, x) \<in> set (static_calls scope (EIdent name bare)) \<Longrightarrow> g s x = h s x"
  shows "inferIdentType env g scope name bare = inferIdentType env h scope name bare"
proof -
  have a: "g (expanding scope name) x = h (expanding scope name) x" if "x \<in> set (alias_calls scope name)" for x
    by (rule assms) (use that in \<open>auto simp: static_calls_def\<close>)
  have p: "parent_or_keyword g scope name bare err = parent_or_keyword h scope name bare err" for err
    using assms [of "tl scope" "EIdent name bare"] by (simp add: parent_or_keyword_def static_calls_def)
  show ?thesis
  proof (cases "local_alias scope name")
    case None
    have l: "g (expanding scope name) x = h (expanding scope name) x" if "lookupProjectionExpr scope name = Some x" for x
      using a None that by (simp add: alias_calls_def)
    show ?thesis using None l p
      by (auto simp: inferIdentType_def split: option.splits sum.splits)
  next
    case (Some x)
    then show ?thesis using a by (simp add: inferIdentType_def alias_calls_def)
  qed
qed

lemma infer_step_cong:
  assumes static: "\<And>s x. (s, x) \<in> set (static_calls scope e) \<Longrightarrow> g s x = h s x"
    and lambda: "\<And>s body. lambda_callee env g scope e s body \<Longrightarrow> g s body = h s body"
  shows "infer_step env g scope e = infer_step env h scope e"
proof -
  have sub: "g scope x = h scope x" if "x \<in> set (subs e)" for x
    using static static_subs that by blast
  have part: "g scope x = h scope x" if "x \<in> set (parts e)" for x
    using sub parts_subs that by blast
  have call: "inferFunctionTypeAt env g scope name items cols window = inferFunctionTypeAt env h scope name items cols window"
    if "e = EFunction name items cols \<or> (\<exists>over. e = EWindow name items cols over)" for name items cols window
  proof (rule function_call_cong)
    show "agree_inside (g scope) (h scope) (functionArgs items cols)"
      unfolding agree_inside_def
    proof (intro ballI)
      fix a x assume a: "a \<in> set (functionArgs items cols)" and x: "x \<in> insert a (set (subs a))"
      have "a \<in> set (subs e)" using that subs_functionArgs [OF a] by auto
      then have "x \<in> set (subs e)" using x subs_trans by auto
      then show "g scope x = h scope x" by (rule sub)
    qed
  next
    fix signature s body acc els
    assume "map_of higherOrderArrayFunctions (to_lower name) = Some signature" "functionArgs items cols \<noteq> []"
      "lambda_call (env_format env) (g scope) scope signature name (functionArgs items cols) = Inr (s, body, acc, els)"
    then show "g s body = h s body" using that by (intro lambda) (auto simp: lambda_callee_def)
  qed
  show ?thesis
  proof (cases e)
    case (EIdent name bare)
    then show ?thesis using ident_cong [of scope name bare g h] static by (simp add: infer_step_def)
  next
    case (EParens items b)
    then show ?thesis using items_cong(1) [of items "g scope" "h scope"] part by (simp add: infer_step_def)
  next
    case (EArray items)
    then show ?thesis using items_cong(2) [of items "g scope" "h scope"] part by (simp add: infer_step_def)
  next
    case (EIndex operation object index)
    then show ?thesis using index_cong [of "g scope" object "h scope"] part by (simp add: infer_step_def)
  next
    case (EObject object params)
    then show ?thesis using subscript_cong [of "g scope" object "h scope" params] part by (simp add: infer_step_def)
  next
    case (EUnary operation operand)
    then show ?thesis using unary_cong [of "g scope" operand "h scope"] part by (simp add: infer_step_def)
  next
    case (EBinary left operation right)
    have "inferBinaryOperationType env scope (g scope) left operation right = inferBinaryOperationType env scope (h scope) left operation right"
      by (rule binary_cong) (use sub in \<open>auto simp: EBinary set_subs [of "EBinary left operation right"]\<close>)
    then show ?thesis using EBinary part by (simp add: infer_step_def)
  next
    case (ECase operand whens els)
    have o: "inferred_option (g scope) operand = inferred_option (h scope) operand"
      by (rule inferred_option_cong) (use part ECase in auto)
    have w: "case_branches (g scope) whens = case_branches (h scope) whens"
      by (rule case_branches_cong) (use part ECase in auto)
    have e: "map_option (\<lambda>x. (inferred_of (g scope x), lit_of x)) els = map_option (\<lambda>x. (inferred_of (h scope x), lit_of x)) els"
      using part ECase by (cases els) (auto simp: opt_expr_def)
    show ?thesis unfolding infer_step_def ECase expr.case o w e ..
  next
    case (EBetween a b c)
    have "map (inferred_option (g scope)) [a, b, c] = map (inferred_option (h scope)) [a, b, c]"
      by (intro map_cong refl inferred_option_cong part) (use EBetween in auto)
    then show ?thesis using EBetween by (simp add: infer_step_def)
  next
    case (EIsNull operand)
    then show ?thesis using is_null_cong [of "g scope" operand "h scope"] part by (simp add: infer_step_def)
  next
    case (EIsNotNull operand)
    then show ?thesis using is_null_cong [of "g scope" operand "h scope"] part by (simp add: infer_step_def)
  next
    case (EFunction name items cols)
    then show ?thesis using call by (simp add: infer_step_def inferFunctionExprType_def)
  next
    case (EWindow name items cols over)
    have "validateWindowFunction (g scope) (windows (top_level scope)) name over = validateWindowFunction (h scope) (windows (top_level scope)) name over"
      by (rule window_cong, rule static) (simp add: static_calls_def EWindow)
    then show ?thesis using EWindow call by (simp add: infer_step_def)
  next
    case (ECast operand target)
    then show ?thesis using cast_cong [of operand "g scope" "h scope"] part by (simp add: infer_step_def)
  qed (use part in \<open>simp_all add: infer_step_def\<close>)
qed

end
