(* ===== verification/ConstantFacts.thy ===== *)
theory ConstantFacts
  imports Constants
begin

text \<open>
  A folded condition has its folded truth in every row. Rows are explicit: an expression the folding
  does not look into has any value whatever, and the functions it does look into have the values
  ClickHouse computes, with NULL. Three lemmas at the end show where the folding leaves that semantics.
\<close>

section \<open>Values\<close>

datatype sql_value = SNull | SNum rat | SText string

definition sql_truth :: "sql_value \<Rightarrow> bool option" where
  "sql_truth v = (case v of SNum x \<Rightarrow> Some (x \<noteq> 0) | _ \<Rightarrow> None)"

definition sql_not :: "sql_value \<Rightarrow> sql_value \<Rightarrow> sql_value" where
  "sql_not other v = (case v of SNum x \<Rightarrow> SNum (truth_number (x = 0)) | SNull \<Rightarrow> SNull | SText _ \<Rightarrow> other)"

text \<open>Three-valued AND and OR; \<open>other\<close> stands for what the semantics leaves open.\<close>

definition sql_and :: "sql_value \<Rightarrow> sql_value \<Rightarrow> sql_value \<Rightarrow> sql_value" where
  "sql_and other a b =
     (if sql_truth a = Some False \<or> sql_truth b = Some False then SNum 0
      else if sql_truth a = Some True \<and> sql_truth b = Some True then SNum 1
      else if a = SNull \<or> b = SNull then SNull else other)"

definition sql_or :: "sql_value \<Rightarrow> sql_value \<Rightarrow> sql_value \<Rightarrow> sql_value" where
  "sql_or other a b =
     (if sql_truth a = Some True \<or> sql_truth b = Some True then SNum 1
      else if sql_truth a = Some False \<and> sql_truth b = Some False then SNum 0
      else if a = SNull \<or> b = SNull then SNull else other)"

definition sql_compare :: "string \<Rightarrow> sql_value \<Rightarrow> sql_value \<Rightarrow> sql_value \<Rightarrow> sql_value" where
  "sql_compare operator other a b =
     (case (a, b) of
        (SNum x, SNum y) \<Rightarrow> SNum (truth_number (compareOrdered operator x y))
      | (SText x, SText y) \<Rightarrow> SNum (truth_number (compareOrdered operator x y))
      | _ \<Rightarrow> (if a = SNull \<or> b = SNull then SNull else other))"

definition sql_binary :: "string \<Rightarrow> sql_value \<Rightarrow> sql_value \<Rightarrow> sql_value \<Rightarrow> sql_value" where
  "sql_binary operation other a b =
     (let operator = to_upper (trim_space operation) in
      if operator = ''AND'' then sql_and other a b
      else if operator = ''OR'' then sql_or other a b
      else if operator \<in> {''='', ''=='', ''!='', ''<>'', ''<'', ''<='', ''>'', ''>=''} then sql_compare operator other a b
      else other)"

text \<open>A conversion to an integer type cuts the fraction off and wraps into the range of the type.\<close>

definition wrap_range :: "int \<Rightarrow> int \<Rightarrow> int \<Rightarrow> int" where
  "wrap_range low high i = (i - low) mod (high - low + 1) + low"

definition cut_fraction :: "rat \<Rightarrow> int" where
  "cut_fraction v = (if v \<ge> 0 then \<lfloor>v\<rfloor> else \<lceil>v\<rceil>)"

definition sql_cast :: "string \<Rightarrow> sql_value \<Rightarrow> sql_value \<Rightarrow> sql_value" where
  "sql_cast typeName other v =
     (let name = to_upper (trim_space typeName) in case v of
        SNum x \<Rightarrow> (case map_of cast_ranges name of
            Some (low, high) \<Rightarrow> SNum (of_int (wrap_range low high (cut_fraction x)))
          | None \<Rightarrow> (if name \<in> {''BOOL'', ''BOOLEAN''} then SNum (truth_number (x \<noteq> 0))
                    else if name \<in> {''FLOAT32'', ''FLOAT64''} then SNum x else other))
      | SNull \<Rightarrow> SNull
      | SText _ \<Rightarrow> other)"

definition text_of :: "sql_value \<Rightarrow> string option" where
  "text_of v = (case v of SText t \<Rightarrow> Some t | _ \<Rightarrow> None)"

definition sql_call :: "(rat \<Rightarrow> string) \<Rightarrow> string \<Rightarrow> sql_value list \<Rightarrow> sql_value \<Rightarrow> sql_value" where
  "sql_call render name args other =
     (if name = ''concat'' then (case those (map text_of args) of Some texts \<Rightarrow> SText (concat texts) | None \<Rightarrow> other)
      else case args of
        [a] \<Rightarrow>
          (if name = ''tostring'' then (case a of SNum x \<Rightarrow> SText (render x) | _ \<Rightarrow> a)
           else if name = ''empty'' then (case a of SText t \<Rightarrow> SNum (truth_number (t = [])) | _ \<Rightarrow> other)
           else if name = ''notempty'' then (case a of SText t \<Rightarrow> SNum (truth_number (t \<noteq> [])) | _ \<Rightarrow> other)
           else if name = ''isnull'' then SNum (truth_number (a = SNull))
           else if name = ''isnotnull'' then SNum (truth_number (a \<noteq> SNull))
           else if name = ''not'' then sql_not other a
           else if has_prefix name ''to'' then sql_cast (drop 2 name) other a
           else other)
      | [a, b] \<Rightarrow>
          (if name = ''nullif'' then (if a = b then SNull else a)
           else if name = ''ifnull'' then (if a = SNull then b else a)
           else if name = ''and'' then sql_and other a b
           else if name = ''or'' then sql_or other a b
           else (case comparisonFunctionOperator name of
               Some operator \<Rightarrow> sql_compare operator other a b | None \<Rightarrow> other))
      | _ \<Rightarrow> other)"

text \<open>\<open>row\<close> gives the value of every expression without a rule, the columns among them.\<close>

function sql_eval :: "infer_env \<Rightarrow> queryScope \<Rightarrow> (rat \<Rightarrow> string) \<Rightarrow> (expr \<Rightarrow> sql_value) \<Rightarrow> expr \<Rightarrow> sql_value" where
  "sql_eval env scope render row e =
     (let other = row (unwrapConstantOperand e); keyword = (\<lambda>text. case keyword_truth text of
            Some b \<Rightarrow> SNum (truth_number b) | None \<Rightarrow> other) in
      case unwrapConstantOperand e of
        ENumber literal \<Rightarrow> (case env_parseFloat env (trim_space literal) of Some v \<Rightarrow> SNum v | None \<Rightarrow> other)
      | EString literal \<Rightarrow> SText (trim_quotes literal)
      | EBool literal \<Rightarrow> keyword (trim_space literal)
      | EIdent name _ \<Rightarrow> (if shadowed env scope name then other else keyword name)
      | EUnary prefix_op operand \<Rightarrow>
          (if to_upper (trim_space prefix_op) = ''NOT'' then sql_not other (sql_eval env scope render row operand)
           else if trim_space prefix_op = ''-''
           then (case sql_eval env scope render row operand of SNum x \<Rightarrow> SNum (- x) | SNull \<Rightarrow> SNull | SText _ \<Rightarrow> other)
           else other)
      | EBinary left operation right \<Rightarrow>
          sql_binary operation other (sql_eval env scope render row left) (sql_eval env scope render row right)
      | ECast (Some operand) target \<Rightarrow>
          (case castTargetTypeName target of
             Some typeName \<Rightarrow> sql_cast typeName other (sql_eval env scope render row operand) | None \<Rightarrow> other)
      | EFunction name items cols \<Rightarrow>
          sql_call render (to_lower name) (map (sql_eval env scope render row) (functionArgs items cols)) other
      | _ \<Rightarrow> other)"
  by pat_completeness auto
termination
  by (relation "measure (\<lambda>(_, _, _, _, e). size e)") (auto dest: unwrap_size)

declare sql_eval.simps [simp del]

section \<open>Plain conditions\<close>

fun folded_parts :: "expr \<Rightarrow> expr list" where
  "folded_parts (EColumn e) = EColumn e # folded_parts e"
| "folded_parts (EParens items b) = EParens items b # (case items of Some es \<Rightarrow> concat (map folded_parts es) | None \<Rightarrow> [])"
| "folded_parts (EUnary operation e) = EUnary operation e # folded_parts e"
| "folded_parts (EBinary l operation r) = EBinary l operation r # folded_parts l @ folded_parts r"
| "folded_parts (ECast operand target) = ECast operand target # (case operand of Some e \<Rightarrow> folded_parts e | None \<Rightarrow> [])"
| "folded_parts (EFunction name items cols) = EFunction name items cols
     # (case items of Some es \<Rightarrow> concat (map folded_parts es) | None \<Rightarrow> [])
     @ (case cols of Some es \<Rightarrow> concat (map folded_parts es) | None \<Rightarrow> [])"
| "folded_parts e = [e]"

text \<open>
  No number with a fraction, no nullIf, no CAST to Bool, and toString without a second argument list.
\<close>

definition plain_part :: "infer_env \<Rightarrow> expr \<Rightarrow> bool" where
  "plain_part env e = (case e of
       ENumber literal \<Rightarrow> (case env_parseFloat env (trim_space literal) of Some v \<Rightarrow> of_int \<lfloor>v\<rfloor> = v | None \<Rightarrow> True)
     | ECast _ target \<Rightarrow> (case castTargetTypeName target of
           Some name \<Rightarrow> to_upper (trim_space name) \<notin> {''BOOL'', ''BOOLEAN''} | None \<Rightarrow> True)
     | EFunction name items cols \<Rightarrow> to_lower name \<noteq> ''nullif'' \<and> cols = None
     | _ \<Rightarrow> True)"

definition plain_condition :: "infer_env \<Rightarrow> expr \<Rightarrow> bool" where
  "plain_condition env e \<longleftrightarrow> list_all (plain_part env) (folded_parts e)"

lemma plain_self: "plain_condition env e \<Longrightarrow> plain_part env e"
  by (cases e) (auto simp: plain_condition_def)

lemma plain_unwrap: "plain_condition env e \<Longrightarrow> plain_condition env (unwrapConstantOperand e)"
  by (induction e rule: unwrapConstantOperand.induct) (auto simp: plain_condition_def)

lemma plain_unwrap_column: "plain_condition env e \<Longrightarrow> plain_condition env (unwrap_column e)"
  by (cases e) (auto simp: plain_condition_def)

lemma plain_args:
  assumes "plain_condition env (EFunction name items cols)" "x \<in> set (functionArgs items cols)"
  shows "plain_condition env x"
proof -
  obtain ps where ps: "items = Some ps" using assms(2) by (cases items) (auto simp: functionArgs_def)
  have "cols = None" using plain_self [OF assms(1)] by (simp add: plain_part_def)
  then obtain y where y: "y \<in> set ps" "x = unwrap_column y" using assms(2) ps by (auto simp: functionArgs_def)
  have "plain_condition env y"
    using assms(1) y(1) unfolding ps plain_condition_def list_all_iff by auto
  then show ?thesis by (simp add: y(2) plain_unwrap_column)
qed

lemma plain_operands:
  "plain_condition env (EUnary operation e) \<Longrightarrow> plain_condition env e"
  "plain_condition env (EBinary l operation r) \<Longrightarrow> plain_condition env l"
  "plain_condition env (EBinary l operation r) \<Longrightarrow> plain_condition env r"
  "plain_condition env (ECast (Some e) target) \<Longrightarrow> plain_condition env e"
  by (auto simp: plain_condition_def)


lemma sql_eval_same: "unwrapConstantOperand d = unwrapConstantOperand e \<Longrightarrow> sql_eval env scope render row d = sql_eval env scope render row e"
  by (simp add: sql_eval.simps [of _ _ _ _ d] sql_eval.simps [of _ _ _ _ e])

lemma sql_eval_shell [simp]:
  "sql_eval env scope render row (EColumn e) = sql_eval env scope render row e"
  "sql_eval env scope render row (EParens (Some [e]) False) = sql_eval env scope render row e"
  "sql_eval env scope render row (unwrap_column e) = sql_eval env scope render row e"
  by (rule sql_eval_same; cases e; simp)+

lemma plain_shell:
  "plain_condition env (EColumn e) \<Longrightarrow> plain_condition env e"
  "plain_condition env (EParens (Some [e]) b) \<Longrightarrow> plain_condition env e"
  by (auto simp: plain_condition_def)

section \<open>Numbers and texts\<close>

lemma constantNumber_sound:
  "constantNumber (env_parseFloat env) e = Some v \<Longrightarrow> sql_eval env scope render row e = SNum v"
  by (induction "env_parseFloat env" e arbitrary: v rule: constantNumber.induct)
     (auto simp: sql_eval.simps [of _ _ _ _ "ENumber l" for l] sql_eval.simps [of _ _ _ _ "EUnary a b" for a b]
        to_upper_def split: if_splits)

lemma whole_integer: "of_int \<lfloor>v\<rfloor> = v \<Longrightarrow> v \<in> \<int>"
  by (metis Ints_of_int)

lemma plain_number:
  "plain_condition env (ENumber literal) \<Longrightarrow> env_parseFloat env (trim_space literal) = Some v \<Longrightarrow> v \<in> \<int>"
  by (rule whole_integer) (simp add: plain_condition_def plain_part_def)

lemma constantNumber_integer:
  "constantNumber (env_parseFloat env) e = Some v \<Longrightarrow> plain_condition env e \<Longrightarrow> v \<in> \<int>"
  by (induction "env_parseFloat env" e arbitrary: v rule: constantNumber.induct)
     (auto dest: plain_shell plain_operands intro: plain_number split: if_splits)


text \<open>What a folded text says of the value: the stand-in is some text that is not empty.\<close>

definition text_shape :: "string \<Rightarrow> sql_value \<Rightarrow> bool" where
  "text_shape t v \<longleftrightarrow> (\<exists>s. v = SText s \<and> (t \<noteq> renderedNumberStandIn \<longrightarrow> s = t) \<and> (t = renderedNumberStandIn \<longrightarrow> s \<noteq> []))"

lemma text_shape_exact: "text_shape t (SText t)"
  by (auto simp: text_shape_def renderedNumberStandIn_def)

lemma texts_sound:
  assumes "\<And>x t. x \<in> set args \<Longrightarrow> f x = Some t \<Longrightarrow> text_shape t (g x)"
    and "those (map f args) = Some texts" "renderedNumberStandIn \<notin> set texts"
  shows "those (map (text_of \<circ> g) args) = Some texts"
  using assms
proof (induction args arbitrary: texts)
  case (Cons x xs)
  obtain t rest where t: "f x = Some t" "those (map f xs) = Some rest" "texts = t # rest"
    using Cons.prems(2) by (auto split: option.splits)
  have "g x = SText t" using Cons.prems(1) [OF _ t(1)] Cons.prems(3) t(3) by (auto simp: text_shape_def)
  moreover have "those (map (text_of \<circ> g) xs) = Some rest"
    by (rule Cons.IH) (use Cons.prems t in auto)
  moreover have "text_of (SText t) = Some t" by (simp add: text_of_def)
  ultimately show ?case using t by (simp add: comp_def)
qed simp

lemma constantString_sound:
  assumes "\<forall>v. render v \<noteq> []" "plain_condition env e" "constantString (env_parseFloat env) e = Some t"
  shows "text_shape t (sql_eval env scope render row e)"
  using assms(2,3)
proof (induction "env_parseFloat env" e arbitrary: t rule: constantString.induct)
  case (1 e)
  let ?f = "constantString (env_parseFloat env)" and ?g = "sql_eval env scope render row"
  show ?case
  proof (cases "unwrapConstantOperand e")
    case (EString l)
    then show ?thesis using 1(3) by (auto simp: constantString.simps [of _ e] sql_eval.simps [of _ _ _ _ e] text_shape_exact)
  next
    case (EFunction name items cols)
    have plain: "plain_condition env (EFunction name items cols)" using plain_unwrap [OF 1(2)] EFunction by simp
    have cols: "cols = None" using plain_self [OF plain] by (simp add: plain_part_def)
    show ?thesis
    proof (cases "equal_fold name ''concat''")
      case True
      then obtain texts where texts: "those (map ?f (functionArgs items cols)) = Some texts"
          "renderedNumberStandIn \<notin> set texts" "t = concat texts" "functionArgs items cols \<noteq> []"
        using 1(3) EFunction by (auto simp: constantString.simps [of _ e] Let_def split: if_splits option.splits)
      have "those (map (text_of \<circ> ?g) (functionArgs items cols)) = Some texts"
      proof (rule texts_sound [OF _ texts(1,2)])
        fix x u assume "x \<in> set (functionArgs items cols)" "?f x = Some u"
        then show "text_shape u (?g x)"
          using 1(1) [OF EFunction True refl texts(4)] plain_args [OF plain] by blast
      qed
      moreover have "to_lower name = ''concat''" using True by (simp add: equal_fold_def to_lower_def)
      ultimately show ?thesis
        using texts(3) EFunction by (simp add: sql_eval.simps [of _ _ _ _ e] sql_call_def text_shape_exact)
    next
      case False
      then obtain p v where p: "equal_fold name ''toString''" "items = Some [p]"
          "constantNumber (env_parseFloat env) p = Some v" "t = renderedNumberStandIn"
        using 1(3) EFunction by (auto simp: constantString.simps [of _ e] split: if_splits option.splits list.splits)
      have "to_lower name = ''tostring''" using p(1) by (simp add: equal_fold_def to_lower_def)
      then show ?thesis
        using p cols EFunction constantNumber_sound [OF p(3)] assms(1)
        by (simp add: sql_eval.simps [of _ _ _ _ e] sql_call_def text_shape_def functionArgs_def)
    qed
  qed (use 1(3) in \<open>simp_all add: constantString.simps [of _ e]\<close>)
qed


lemma cast_keeps:
  assumes "castKeepsNumericValue typeName v" "v \<in> \<int>"
  shows "sql_cast typeName other (SNum v) = SNum v"
proof -
  obtain i where i: "v = of_int i" using assms(2) by (auto elim: Ints_cases)
  show ?thesis
  proof (cases "map_of cast_ranges (to_upper (trim_space typeName))")
    case None
    then have "to_upper (trim_space typeName) \<in> {''FLOAT32'', ''FLOAT64''}"
      using assms(1) by (simp add: castKeepsNumericValue_def Let_def)
    then show ?thesis using None by (auto simp: sql_cast_def)
  next
    case (Some range)
    obtain low high where r: "range = (low, high)" by (cases range)
    have "low \<le> i" "i \<le> high" using assms(1) Some i r by (auto simp: castKeepsNumericValue_def Let_def)
    then have "wrap_range low high i = i" by (simp add: wrap_range_def)
    then show ?thesis using Some r i by (simp add: sql_cast_def cut_fraction_def)
  qed
qed

lemma comparison_names:
  assumes "name \<in> set constantComparisonValueNames" "name \<noteq> ''nullif''" "name \<noteq> ''ifnull''"
  shows "sql_call render name [a] other = sql_cast (trim_prefix name ''to'') other a"
proof -
  have "list_all (\<lambda>n. n = ''nullif'' \<or> n = ''ifnull'' \<or> has_prefix n ''to'' \<and> n \<noteq> ''tostring'') constantComparisonValueNames"
    unfolding constantComparisonValueNames_def list.pred_inject has_prefix_def by simp
  note bspec [OF this [unfolded list_all_iff] assms(1)]
  then have "has_prefix name ''to''" "name \<noteq> ''tostring''" by (simp_all only: assms(2,3) simp_thms)
  moreover have "list_all (\<lambda>n. n \<notin> {''concat'', ''empty'', ''notempty'', ''isnull'', ''isnotnull'', ''not''}) constantComparisonValueNames"
    by (simp add: constantComparisonValueNames_def)
  note bspec [OF this [unfolded list_all_iff] assms(1)]
  ultimately show ?thesis by (simp add: sql_call_def trim_prefix_def eval_nat_numeral)
qed

lemma constantComparisonNumber_sound:
  assumes "plain_condition env e" "constantComparisonNumber (env_parseFloat env) e = Some v"
  shows "sql_eval env scope render row e = SNum v \<and> v \<in> \<int>"
  using assms
proof (induction "env_parseFloat env" e arbitrary: v rule: constantComparisonNumber.induct)
  case (1 e)
  let ?f = "constantComparisonNumber (env_parseFloat env)" and ?g = "sql_eval env scope render row"
  show ?case
  proof (cases "constantNumber (env_parseFloat env) e")
    case (Some w)
    then show ?thesis
      using 1(4) constantNumber_sound constantNumber_integer [OF Some 1(3)]
      by (simp add: constantComparisonNumber.simps [of _ e])
  next
    case None
    note f = 1(4) [unfolded constantComparisonNumber.simps [of _ e] None option.simps]
    show ?thesis
    proof (cases "unwrapConstantOperand e")
      case (ECast oper target)
      then obtain operand typeName w where c: "oper = Some operand" "castTargetTypeName target = Some typeName"
          "?f operand = Some w" "castKeepsNumericValue typeName w" "v = w"
        using f by (auto split: option.splits if_splits)
      have cast: "unwrapConstantOperand e = ECast (Some operand) target" using ECast c(1) by simp
      have "?g operand = SNum w \<and> w \<in> \<int>"
        using 1(2) [OF None ECast c(1)] plain_unwrap [OF 1(3)] cast plain_operands(4) c(3) by metis
      then show ?thesis
        using cast c cast_keeps by (simp add: sql_eval.simps [of _ _ _ _ e])
    next
      case (EFunction spelled items cols)
      let ?name = "to_lower spelled" and ?args = "functionArgs items cols"
      have plain: "plain_condition env (EFunction spelled items cols)" using plain_unwrap [OF 1(3)] EFunction by simp
      have name: "?name \<in> set constantComparisonValueNames" using f EFunction by (simp add: Let_def split: if_splits)
      have nullif: "?name \<noteq> ''nullif''" using plain_self [OF plain] by (simp add: plain_part_def)
      have arg: "?g x = SNum w \<and> w \<in> \<int>" if "x \<in> set ?args" "?f x = Some w" for x w
        using 1(1) [OF None EFunction refl that(1)] plain_args [OF plain that(1)] that(2) by blast
      show ?thesis
      proof (cases "?name = ''ifnull''")
        case True
        then obtain l r w where a: "?args = [l, r]" "?f l = Some v" "?f r = Some w"
          using f EFunction name by (auto simp: Let_def split: list.splits option.splits)
        then show ?thesis
          using arg [of l v] True EFunction by (simp add: sql_eval.simps [of _ _ _ _ e] sql_call_def)
      next
        case False
        then obtain x where a: "?args = [x]" "?f x = Some v" "castKeepsNumericValue (trim_prefix ?name ''to'') v"
          using f EFunction name nullif by (auto simp: Let_def split: list.splits option.splits if_splits)
        then show ?thesis
          using arg [of x v] comparison_names [OF name nullif False] EFunction cast_keeps
          by (simp add: sql_eval.simps [of _ _ _ _ e])
      qed
    qed (use f in simp_all)
  qed
qed


section \<open>Comparisons and connectives\<close>

lemma text_order:
  assumes "(s :: string) \<noteq> []"
  shows "compareOrdered operator s [] = compareOrdered operator (1 :: int) 0"
    "compareOrdered operator [] s = compareOrdered operator (0 :: int) 1"
proof -
  have "\<not> s < []" "\<not> s \<le> []" "[] < s" "[] \<le> s" using assms by (cases s; simp)+
  then show "compareOrdered operator s [] = compareOrdered operator (1 :: int) 0"
    "compareOrdered operator [] s = compareOrdered operator (0 :: int) 1"
    using assms by (auto simp: compareOrdered_def)
qed

lemma sql_truth_number [simp]: "sql_truth (SNum (truth_number b)) = Some b" "sql_truth (SNum 0) = Some False" "sql_truth (SNum 1) = Some True"
  by (simp_all add: sql_truth_def truth_number_def)

lemma constantComparisonTruth_sound:
  assumes "\<forall>v. render v \<noteq> []" "plain_condition env l" "plain_condition env r"
    and "constantComparisonTruth (env_parseFloat env) operator l r = Some t"
  shows "sql_compare operator other (sql_eval env scope render row l) (sql_eval env scope render row r) = SNum (truth_number t)"
proof (cases "constantComparisonNumber (env_parseFloat env) l")
  case (Some x)
  then obtain y where "constantComparisonNumber (env_parseFloat env) r = Some y" "t = compareOrdered operator x y"
    using assms(4) by (auto simp: constantComparisonTruth_def)
  then show ?thesis
    using constantComparisonNumber_sound [OF assms(2) Some] constantComparisonNumber_sound [OF assms(3)]
    by (simp add: sql_compare_def)
next
  case None
  then obtain x y where xy: "constantString (env_parseFloat env) l = Some x" "constantString (env_parseFloat env) r = Some y"
    using assms(4) by (auto simp: constantComparisonTruth_def split: option.splits)
  obtain a where a: "sql_eval env scope render row l = SText a" "x \<noteq> renderedNumberStandIn \<longrightarrow> a = x" "x = renderedNumberStandIn \<longrightarrow> a \<noteq> []"
    using constantString_sound [OF assms(1,2) xy(1), of scope row] by (auto simp: text_shape_def)
  obtain b where b: "sql_eval env scope render row r = SText b" "y \<noteq> renderedNumberStandIn \<longrightarrow> b = y" "y = renderedNumberStandIn \<longrightarrow> b \<noteq> []"
    using constantString_sound [OF assms(1,3) xy(2), of scope row] by (auto simp: text_shape_def)
  have "t = compareOrdered operator a b"
    using assms(4) a b text_order [of a] text_order [of b] by (auto simp: constantComparisonTruth_def None xy Let_def split: if_splits)
  then show ?thesis by (simp add: a(1) b(1) sql_compare_def)
qed

lemma sql_connective_known:
  "sql_truth a = Some False \<or> sql_truth b = Some False \<Longrightarrow> sql_and other a b = SNum (truth_number False)"
  "sql_truth a = Some True \<Longrightarrow> sql_truth b = Some True \<Longrightarrow> sql_and other a b = SNum (truth_number True)"
  "sql_truth a = Some True \<or> sql_truth b = Some True \<Longrightarrow> sql_or other a b = SNum (truth_number True)"
  "sql_truth a = Some False \<Longrightarrow> sql_truth b = Some False \<Longrightarrow> sql_or other a b = SNum (truth_number False)"
  by (simp_all add: sql_and_def sql_or_def truth_number_def)

lemma constantBinaryTruth_sound:
  assumes "\<forall>v. render v \<noteq> []" "plain_condition env l" "plain_condition env r"
    and truths: "\<And>t. lt = Some t \<Longrightarrow> sql_truth (sql_eval env scope render row l) = Some t"
      "\<And>t. rt = Some t \<Longrightarrow> sql_truth (sql_eval env scope render row r) = Some t"
    and folded: "constantBinaryTruth (env_parseFloat env) operation lt rt l r = Some t"
  shows "sql_binary operation other (sql_eval env scope render row l) (sql_eval env scope render row r) = SNum (truth_number t)"
proof -
  define opr where "opr = to_upper (trim_space operation)"
  let ?l = "sql_eval env scope render row l" and ?r = "sql_eval env scope render row r"
  note f = folded [unfolded constantBinaryTruth_def Let_def opr_def [symmetric]]
  note g = sql_binary_def [of operation other ?l ?r, unfolded Let_def opr_def [symmetric]]
  show ?thesis
  proof (cases "opr = ''AND''")
    case True
    have "(t = False \<and> (lt = Some False \<or> rt = Some False)) \<or> (t = True \<and> lt = Some True \<and> rt = Some True)"
      using f unfolding True by (auto split: if_splits)
    then have "(t = False \<and> (sql_truth ?l = Some False \<or> sql_truth ?r = Some False))
        \<or> (t = True \<and> sql_truth ?l = Some True \<and> sql_truth ?r = Some True)"
      using truths by metis
    then show ?thesis unfolding g if_P [OF True] using sql_connective_known(1,2) by metis
  next
    case conj: False
    show ?thesis
    proof (cases "opr = ''OR''")
      case True
      have "(t = True \<and> (lt = Some True \<or> rt = Some True)) \<or> (t = False \<and> lt = Some False \<and> rt = Some False)"
        using f unfolding True by (auto split: if_splits)
      then have "(t = True \<and> (sql_truth ?l = Some True \<or> sql_truth ?r = Some True))
          \<or> (t = False \<and> sql_truth ?l = Some False \<and> sql_truth ?r = Some False)"
        using truths by metis
      then show ?thesis unfolding g if_not_P [OF conj] if_P [OF True] using sql_connective_known(3,4) by metis
    next
      case False
      show ?thesis
      proof (cases "opr \<in> {''='', ''=='', ''!='', ''<>'', ''<'', ''<='', ''>'', ''>=''}")
        case True
        then show ?thesis
          using f constantComparisonTruth_sound [OF assms(1-3)] unfolding g if_not_P [OF conj] if_not_P [OF False] if_P [OF True] by blast
      next
        case none: False
        show ?thesis using f unfolding if_not_P [OF conj] if_not_P [OF False] if_not_P [OF none] by simp
      qed
    qed
  qed
qed

section \<open>Calls\<close>

lemma upper_names [simp]:
  "to_upper (trim_space ''AND'') = ''AND''" "to_upper (trim_space ''OR'') = ''OR''"
  "to_upper (trim_space ''uint8'') = ''UINT8''" "to_upper (trim_space ''bool'') = ''BOOL''"
  by code_simp+

lemma binary_connectives:
  "sql_binary ''AND'' other a b = sql_and other a b" "sql_binary ''OR'' other a b = sql_or other a b"
  by (simp_all add: sql_binary_def)

lemma constant_call_names:
  "constant_call pf ''empty'' ts vs args = (case args of
       [arg] \<Rightarrow> map_option (\<lambda>t. truth_number (t = [])) (constantString pf arg) | _ \<Rightarrow> None)"
  "constant_call pf ''notempty'' ts vs args = (case args of
       [arg] \<Rightarrow> map_option (\<lambda>t. truth_number (t \<noteq> [])) (constantString pf arg) | _ \<Rightarrow> None)"
  "constant_call pf ''isnull'' ts vs args = (case vs of [Some _] \<Rightarrow> Some 0 | _ \<Rightarrow> None)"
  "constant_call pf ''isnotnull'' ts vs args = (case vs of [Some _] \<Rightarrow> Some 1 | _ \<Rightarrow> None)"
  "constant_call pf ''not'' ts vs args = (case ts of [Some truth] \<Rightarrow> Some (truth_number (\<not> truth)) | _ \<Rightarrow> None)"
  "constant_call pf ''touint8'' ts vs args = (case vs of [Some v] \<Rightarrow> Some (low_byte v) | _ \<Rightarrow> None)"
  "constant_call pf ''tobool'' ts vs args = (case vs of [Some v] \<Rightarrow> Some (truth_number (v \<noteq> 0)) | _ \<Rightarrow> None)"
  "constant_call pf ''ifnull'' ts vs args = (case vs of [Some l, Some _] \<Rightarrow> Some l | _ \<Rightarrow> None)"
  by (simp_all add: constant_call_def constantConditionCallNames_def truth_number_def cong: list.case_cong option.case_cong)

lemma constant_call_connectives:
  "constant_call pf ''and'' ts vs args = (case (ts, args) of ([lt, rt], [l, r]) \<Rightarrow>
       map_option truth_number (constantBinaryTruth pf ''AND'' lt rt l r) | _ \<Rightarrow> None)"
  "constant_call pf ''or'' ts vs args = (case (ts, args) of ([lt, rt], [l, r]) \<Rightarrow>
       map_option truth_number (constantBinaryTruth pf ''OR'' lt rt l r) | _ \<Rightarrow> None)"
  by (simp_all add: constant_call_def constantConditionCallNames_def)

definition comparison_calls :: "string list" where
  "comparison_calls = [''equals'', ''notequals'', ''less'', ''greater'', ''lessorequals'', ''greaterorequals'']"

lemma comparison_call:
  assumes "name \<in> set comparison_calls"
  shows "\<exists>operator. comparisonFunctionOperator name = Some operator
     \<and> (\<forall>ts vs args. constant_call pf name ts vs args = (case args of
         [l, r] \<Rightarrow> map_option truth_number (constantComparisonTruth pf operator l r) | _ \<Rightarrow> None))
     \<and> (\<forall>a b other. sql_call render name [a, b] other = sql_compare operator other a b)"
proof -
  have "list_all (\<lambda>n. \<exists>operator. comparisonFunctionOperator n = Some operator
     \<and> (\<forall>ts vs args. constant_call pf n ts vs args = (case args of
         [l, r] \<Rightarrow> map_option truth_number (constantComparisonTruth pf operator l r) | _ \<Rightarrow> None))
     \<and> (\<forall>a b other. sql_call render n [a, b] other = sql_compare operator other a b)) comparison_calls"
    unfolding comparison_calls_def list.pred_inject
    by (simp add: comparisonFunctionOperator_def constant_call_def constantConditionCallNames_def sql_call_def)
  from bspec [OF this [unfolded list_all_iff] assms] show ?thesis .
qed

lemma condition_call_cases:
  assumes "name \<in> set constantConditionCallNames" "name \<noteq> ''nullif''"
  obtains (other) "name \<in> set [''empty'', ''notempty'', ''isnull'', ''isnotnull'', ''not'', ''touint8'', ''tobool'', ''ifnull'']"
    | (connective) "name \<in> set [''and'', ''or'']" | (comparison) "name \<in> set comparison_calls"
proof -
  have "list_all (\<lambda>n. n = ''nullif'' \<or> n \<in> set [''empty'', ''notempty'', ''isnull'', ''isnotnull'', ''not'', ''touint8'', ''tobool'', ''ifnull'']
      \<or> n \<in> set [''and'', ''or''] \<or> n \<in> set comparison_calls) constantConditionCallNames"
    unfolding constantConditionCallNames_def list.pred_inject comparison_calls_def by simp
  from bspec [OF this [unfolded list_all_iff] assms(1)] assms(2) that show ?thesis by blast
qed

lemma sql_call_one:
  "sql_call render ''empty'' [a] other = (case a of SText t \<Rightarrow> SNum (truth_number (t = [])) | _ \<Rightarrow> other)"
  "sql_call render ''notempty'' [a] other = (case a of SText t \<Rightarrow> SNum (truth_number (t \<noteq> [])) | _ \<Rightarrow> other)"
  "sql_call render ''isnull'' [a] other = SNum (truth_number (a = SNull))"
  "sql_call render ''isnotnull'' [a] other = SNum (truth_number (a \<noteq> SNull))"
  "sql_call render ''not'' [a] other = sql_not other a"
  "sql_call render ''touint8'' [a] other = sql_cast ''uint8'' other a"
  "sql_call render ''tobool'' [a] other = sql_cast ''bool'' other a"
  "sql_call render ''ifnull'' [a, b] other = (if a = SNull then b else a)"
  "sql_call render ''and'' [a, b] other = sql_and other a b"
  "sql_call render ''or'' [a, b] other = sql_or other a b"
  by (simp_all add: sql_call_def has_prefix_def)

lemma low_byte_cast:
  "to_upper (trim_space typeName) = ''UINT8'' \<Longrightarrow> sql_cast typeName other (SNum v) = SNum (low_byte v)"
  "to_upper (trim_space typeName) = ''BOOL'' \<Longrightarrow> sql_cast typeName other (SNum v) = SNum (truth_number (v \<noteq> 0))"
  by (simp_all add: sql_cast_def cast_ranges_def low_byte_def wrap_range_def cut_fraction_def)


lemma constant_call_sound:
  fixes env scope render row
  defines "g \<equiv> sql_eval env scope render row"
  assumes render: "\<forall>v. render v \<noteq> []" and plain: "\<And>x. x \<in> set args \<Longrightarrow> plain_condition env x"
    and truths: "\<And>x t. x \<in> set args \<Longrightarrow> T x = Some t \<Longrightarrow> sql_truth (g x) = Some t"
    and nums: "\<And>x w. x \<in> set args \<Longrightarrow> V x = Some w \<Longrightarrow> g x = SNum w"
    and folded: "constant_call (env_parseFloat env) name (map T args) (map V args) args = Some v"
    and nullif: "name \<noteq> ''nullif''"
  shows "sql_call render name (map g args) other = SNum v"
proof -
  have one: "args = [x] \<Longrightarrow> constantString (env_parseFloat env) x = Some t \<Longrightarrow> text_shape t (g x)" for x t
    using constantString_sound [OF render plain] by (simp add: g_def)
  have name: "name \<in> set constantConditionCallNames" using folded by (simp add: constant_call_def split: if_splits)
  from name nullif show ?thesis
  proof (cases rule: condition_call_cases)
    case other
    then consider "name = ''empty''" | "name = ''notempty''" | "name = ''isnull''" | "name = ''isnotnull''" | "name = ''not''"
      | "name = ''touint8''" | "name = ''tobool''" | "name = ''ifnull''" by simp metis
    then show ?thesis
    proof cases
      case 1
      obtain x t where x: "args = [x]" "constantString (env_parseFloat env) x = Some t" "v = truth_number (t = [])"
        using folded unfolding 1 constant_call_names by (auto split: list.splits)
      show ?thesis using one [OF x(1,2)] x
        by (cases "t = renderedNumberStandIn") (auto simp: 1 sql_call_one text_shape_def renderedNumberStandIn_def)
    next
      case 2
      obtain x t where x: "args = [x]" "constantString (env_parseFloat env) x = Some t" "v = truth_number (t \<noteq> [])"
        using folded unfolding 2 constant_call_names by (auto split: list.splits)
      show ?thesis using one [OF x(1,2)] x
        by (cases "t = renderedNumberStandIn") (auto simp: 2 sql_call_one text_shape_def renderedNumberStandIn_def)
    next
      case 3
      then obtain x w where "args = [x]" "V x = Some w" "v = 0"
        using folded unfolding 3 constant_call_names by (auto split: list.splits option.splits)
      then show ?thesis using nums [of x w] by (simp add: 3 sql_call_one truth_number_def)
    next
      case 4
      then obtain x w where "args = [x]" "V x = Some w" "v = 1"
        using folded unfolding 4 constant_call_names by (auto split: list.splits option.splits)
      then show ?thesis using nums [of x w] by (simp add: 4 sql_call_one truth_number_def)
    next
      case 5
      then obtain x t where "args = [x]" "T x = Some t" "v = truth_number (\<not> t)"
        using folded unfolding 5 constant_call_names by (auto split: list.splits option.splits)
      then show ?thesis using truths [of x t]
        by (auto simp: 5 sql_call_one sql_truth_def sql_not_def split: sql_value.splits)
    next
      case 6
      then obtain x w where "args = [x]" "V x = Some w" "v = low_byte w"
        using folded unfolding 6 constant_call_names by (auto split: list.splits option.splits)
      then show ?thesis using nums [of x w] by (simp add: 6 sql_call_one low_byte_cast)
    next
      case 7
      then obtain x w where "args = [x]" "V x = Some w" "v = truth_number (w \<noteq> 0)"
        using folded unfolding 7 constant_call_names by (auto split: list.splits option.splits)
      then show ?thesis using nums [of x w] by (simp add: 7 sql_call_one low_byte_cast)
    next
      case 8
      then obtain x y w where "args = [x, y]" "V x = Some v" "V y = Some w"
        using folded unfolding 8 constant_call_names by (auto split: list.splits option.splits)
      then show ?thesis using nums [of x v] by (simp add: 8 sql_call_one)
    qed
  next
    case connective
    have both: "sql_binary operation other (g l) (g r) = SNum (truth_number t)"
      if "args = [l, r]" "constantBinaryTruth (env_parseFloat env) operation (T l) (T r) l r = Some t" for operation l r t
      using constantBinaryTruth_sound [OF render plain plain _ _ that(2), of scope row] truths that(1) unfolding g_def by simp
    from connective consider "name = ''and''" | "name = ''or''" by auto
    then show ?thesis
    proof cases
      case 1
      then obtain l r t where a: "args = [l, r]" "constantBinaryTruth (env_parseFloat env) ''AND'' (T l) (T r) l r = Some t"
          "v = truth_number t"
        using folded unfolding 1 constant_call_connectives by (auto split: list.splits)
      then show ?thesis using both [OF a(1,2)] by (simp add: 1 sql_call_one binary_connectives)
    next
      case 2
      then obtain l r t where a: "args = [l, r]" "constantBinaryTruth (env_parseFloat env) ''OR'' (T l) (T r) l r = Some t"
          "v = truth_number t"
        using folded unfolding 2 constant_call_connectives by (auto split: list.splits)
      then show ?thesis using both [OF a(1,2)] by (simp add: 2 sql_call_one binary_connectives)
    qed
  next
    case comparison
    from comparison_call [OF comparison, of "env_parseFloat env" render] obtain operator where
      c: "\<And>ts vs args. constant_call (env_parseFloat env) name ts vs args = (case args of
            [l, r] \<Rightarrow> map_option truth_number (constantComparisonTruth (env_parseFloat env) operator l r) | _ \<Rightarrow> None)"
         "\<And>a b other. sql_call render name [a, b] other = sql_compare operator other a b" by blast
    then obtain l r t where a: "args = [l, r]" "constantComparisonTruth (env_parseFloat env) operator l r = Some t" "v = truth_number t"
      using folded by (auto split: list.splits)
    then show ?thesis
      using constantComparisonTruth_sound [OF render plain plain a(2), of other scope row] by (simp add: c(2) g_def)
  qed
qed


section \<open>Conditions\<close>

text \<open>The byte minus is no letter, so no other byte becomes it in upper case.\<close>

lemma upper_minus: "to_upper s = ''-'' \<Longrightarrow> s = ''-''"
proof -
  assume "to_upper s = ''-''"
  then obtain c where c: "s = [c]" "(if is_lower c then char_of ((of_char c :: nat) - 32) else c) = CHR ''-''"
    by (auto simp: to_upper_def)
  have "\<not> is_lower c"
  proof
    assume l: "is_lower c"
    then have "of_char (char_of ((of_char c :: nat) - 32)) = (of_char (CHR ''-'') :: nat)" using c(2) by simp
    moreover have "(of_char c :: nat) - 32 \<ge> 65" "(of_char c :: nat) - 32 < 256" using l by (auto simp: is_lower_def Let_def)
    ultimately show False by (simp add: of_char_of)
  qed
  then show "s = ''-''" using c by simp
qed

lemma sql_truth_num: "sql_truth v = Some t \<longleftrightarrow> (\<exists>x. v = SNum x \<and> t = (x \<noteq> 0))"
  by (auto simp: sql_truth_def split: sql_value.splits)

lemma condition_sound:
  fixes row
  assumes render: "\<forall>v. render v \<noteq> []"
  shows "plain_condition env e \<Longrightarrow> constantConditionTruth env scope e = Some t \<Longrightarrow> sql_truth (sql_eval env scope render row e) = Some t"
    and "plain_condition env e \<Longrightarrow> constantCallValue env scope e = Some v \<Longrightarrow> sql_eval env scope render row e = SNum v"
    and "plain_condition env e \<Longrightarrow> constantOperandValue env scope e = Some v \<Longrightarrow> sql_eval env scope render row e = SNum v"
proof (induction env scope e and env scope e and env scope e arbitrary: t and v and v
    rule: constantConditionTruth_constantCallValue_constantOperandValue.induct)
  case (1 env scope e)
  note plain = plain_unwrap [OF 1(6)]
  note f = 1(7) [unfolded constantConditionTruth.simps [of _ _ e]]
  note g = sql_eval.simps [of env scope render row e]
  show ?case
  proof (cases "unwrapConstantOperand e")
    case (EIdent name b)
    then show ?thesis using f by (auto simp: g split: if_splits)
  next
    case (EBool l)
    then show ?thesis using f by (auto simp: g)
  next
    case (ENumber l)
    then show ?thesis using f by (auto simp: g sql_truth_num)
  next
    case (EUnary operation x)
    show ?thesis
    proof (cases "to_upper (trim_space operation) = ''NOT''")
      case True
      then obtain u where "constantConditionTruth env scope x = Some u" "t = (\<not> u)" using f EUnary by auto
      moreover have "plain_condition env x" using plain_operands(1) plain EUnary by metis
      ultimately show ?thesis
        using 1(1) [OF EUnary True] True EUnary by (auto simp: g sql_truth_num sql_not_def truth_number_def)
    next
      case False
      then obtain l w where l: "x = ENumber l" "env_parseFloat env (trim_space l) = Some w" "t = (w \<noteq> 0)"
          "to_upper (trim_space operation) = ''-''"
        using f EUnary by (auto split: if_splits expr.splits)
      have "trim_space operation = ''-''" using l(4) by (rule upper_minus)
      then show ?thesis
        using EUnary l False by (simp add: g sql_eval.simps [of _ _ _ _ "ENumber l"] sql_truth_num)
    qed
  next
    case (EBinary l operation r)
    have p: "plain_condition env l" "plain_condition env r" using plain_operands(2,3) plain EBinary by metis+
    have "sql_binary operation (row (unwrapConstantOperand e)) (sql_eval env scope render row l) (sql_eval env scope render row r) = SNum (truth_number t)"
      using constantBinaryTruth_sound [OF render p 1(2) [OF EBinary p(1)] 1(3) [OF EBinary p(2)]] f EBinary by simp
    then show ?thesis using EBinary by (simp add: g)
  next
    case (EFunction name items cols)
    then obtain w where "constantCallValue env scope e = Some w" "t = (w \<noteq> 0)" using f by auto
    then show ?thesis using 1(4) [OF EFunction 1(6)] by (simp add: sql_truth_num)
  next
    case (ECast x target)
    then obtain w where "constantCallValue env scope e = Some w" "t = (w \<noteq> 0)" using f by auto
    then show ?thesis using 1(5) [OF ECast 1(6)] by (simp add: sql_truth_num)
  qed (use f in simp_all)
next
  case (2 env scope e)
  note plain = plain_unwrap [OF 2(4)]
  note f = 2(5) [unfolded constantCallValue.simps [of _ _ e]]
  note g = sql_eval.simps [of env scope render row e]
  show ?case
  proof (cases "unwrapConstantOperand e")
    case (EFunction name items cols)
    let ?args = "functionArgs items cols"
    have p: "plain_condition env (EFunction name items cols)" using plain EFunction by simp
    have "to_lower name \<noteq> ''nullif''" using plain_self [OF p] by (simp add: plain_part_def)
    moreover have "constant_call (env_parseFloat env) (to_lower name) (map (constantConditionTruth env scope) ?args)
        (map (constantOperandValue env scope) ?args) ?args = Some v" using f EFunction by simp
    ultimately have "sql_call render (to_lower name) (map (sql_eval env scope render row) ?args) (row (unwrapConstantOperand e)) = SNum v"
      using constant_call_sound [OF render plain_args [OF p] 2(1) [OF EFunction _ plain_args [OF p]] 2(2) [OF EFunction _ plain_args [OF p]]]
      by blast
    then show ?thesis using EFunction by (simp add: g)
  next
    case (ECast oper target)
    then obtain x typeName w where x: "oper = Some x" "castTargetTypeName target = Some typeName"
        "to_upper (trim_space typeName) \<in> {''UINT8'', ''BOOL'', ''BOOLEAN''}" "constantOperandValue env scope x = Some w" "v = low_byte w"
      using f by (auto split: option.splits if_splits)
    have p: "plain_condition env (ECast (Some x) target)" using plain ECast x(1) by simp
    have "to_upper (trim_space typeName) = ''UINT8''" using plain_self [OF p] x(2,3) by (auto simp: plain_part_def)
    moreover have "sql_eval env scope render row x = SNum w"
      using 2(3) [OF ECast x(1,2,3) plain_operands(4) [OF p] x(4)] .
    ultimately show ?thesis using ECast x by (simp add: g low_byte_cast)
  qed (use f in simp_all)
next
  case (3 env scope e)
  note f = 3(6) [unfolded constantOperandValue.simps [of _ _ e]]
  show ?case
  proof (cases "constantNumber (env_parseFloat env) e")
    case (Some w)
    then show ?thesis using f constantNumber_sound by simp
  next
    case None
    show ?thesis
    proof (cases "unwrapConstantOperand e")
      case (EFunction name items cols)
      then show ?thesis using f None 3(2) [OF None EFunction 3(5)] by simp
    next
      case (ECast x target)
      then show ?thesis using f None 3(3) [OF None ECast 3(5)] by simp
    next
      case (EIdent name b)
      then obtain u where u: "constantConditionTruth env scope e = Some u" "v = truth_number u" using f None by auto
      then have k: "\<not> shadowed env scope name" "keyword_truth name = Some u"
        using EIdent by (auto simp: constantConditionTruth.simps [of _ _ e] split: if_splits)
      show ?thesis using EIdent u k by (simp add: sql_eval.simps [of _ _ _ _ e])
    next
      case (EBool l)
      then obtain u where u: "constantConditionTruth env scope e = Some u" "v = truth_number u" using f None by auto
      then have k: "keyword_truth (trim_space l) = Some u"
        using EBool by (auto simp: constantConditionTruth.simps [of _ _ e])
      show ?thesis using EBool u k by (simp add: sql_eval.simps [of _ _ _ _ e])
    qed (use f None in simp_all)
  qed
qed


section \<open>The property\<close>


definition sample_env :: infer_env where
  "sample_env = \<lparr>env_registry = (\<lambda>_. None),
     env_parseFloat = map_of [(''0'', 0), (''1'', 1), (''2'', 2), (''3'', 3), (''256'', 256), (''0.5'', 1 / 2)],
     env_format = (\<lambda>_. []), env_parseTypeName = (\<lambda>_. Inl (Errorf ''no type'' [])), env_parseColumn = (\<lambda>_. None)\<rparr>"

definition sample_call_expr :: "string \<Rightarrow> expr list \<Rightarrow> expr" where
  "sample_call_expr name args = EFunction name (Some (map EColumn args)) None"

definition sample_condition :: expr where
  "sample_condition = EBinary (sample_call_expr ''equals'' [sample_call_expr ''toUInt8'' [ENumber ''3''], ENumber ''3'']) ''and''
     (EUnary ''NOT'' (sample_call_expr ''empty'' [sample_call_expr ''toString'' [ENumber ''0'']]))"


text \<open>
  Outside the plain conditions the folding disagrees with the evaluation: nullIf of equal constants is
  NULL and folds as 0, and a CAST to Bool folds as the low byte of the value while toBool tests for 0.
\<close>

lemma nullIf_folding_differs:
  "constantConditionTruth sample_env [] (sample_call_expr ''isNull'' [sample_call_expr ''nullIf'' [ENumber ''1'', ENumber ''1'']]) = Some False"
  "sql_truth (sql_eval sample_env [] (\<lambda>_. ''x'') row (sample_call_expr ''isNull'' [sample_call_expr ''nullIf'' [ENumber ''1'', ENumber ''1'']])) = Some True"
  by code_simp+

lemma bool_cast_folding_differs:
  "constantConditionTruth sample_env [] (ECast (Some (ENumber ''256'')) (TargetString ''Bool'')) = Some False"
  "constantConditionTruth sample_env [] (sample_call_expr ''toBool'' [ENumber ''256'']) = Some True"
  "sql_truth (sql_eval sample_env [] (\<lambda>_. ''x'') row (ECast (Some (ENumber ''256'')) (TargetString ''Bool''))) = Some True"
  by code_simp+

end
