(* ===== verification/Termination.thy ===== *)
theory Termination
  imports StepCalls ConstantFacts
begin

text \<open>
  The inference of an expression ends (\<open>inference_terminates\<close>): every call weighs less than its caller,
  in the order of the aliases still to expand, the rank of the definitions it mentions, its size, and
  the depth of its scope. The last section has the two circles that the source does not guard.
\<close>

section \<open>What can recurse\<close>

text \<open>
  An alias and a named window are expanded wherever their name is mentioned. An alias of the innermost
  level is expanded once on every path (\<open>aliasExpansion\<close>); an alias of an enclosing level and a named
  window are not guarded, so their definitions must not mention each other in a circle.
\<close>

datatype entry = AliasEntry string | WindowEntry string

definition window_mention :: "window_over \<Rightarrow> entry list" where
  "window_mention over = (case over of
       OverName name \<Rightarrow> [WindowEntry name]
     | OverWindow w \<Rightarrow> (case window_name w of Some name \<Rightarrow> [WindowEntry name] | None \<Rightarrow> [])
     | OverOther _ \<Rightarrow> [])"

definition node_mentions :: "expr \<Rightarrow> entry list" where
  "node_mentions e = (case e of
       EIdent name _ \<Rightarrow> [AliasEntry name] | EWindow _ _ _ over \<Rightarrow> window_mention over | _ \<Rightarrow> [])"

definition mentions :: "expr \<Rightarrow> entry list" where
  "mentions e = concat (map node_mentions (e # subs e))"

definition window_mentions :: "window_spec \<Rightarrow> entry list" where
  "window_mentions w = window_mention (OverWindow w) @ concat (map mentions (spec_exprs w))"

definition level_aliases :: "scope_level \<Rightarrow> (entry \<times> entry list) list" where
  "level_aliases level = map (\<lambda>(name, x). (AliasEntry name, mentions x)) (projectionExprs level)"

definition level_windows :: "scope_level \<Rightarrow> (entry \<times> entry list) list" where
  "level_windows level = map (\<lambda>(name, w). (WindowEntry name, window_mentions w)) (windows level)"

text \<open>The definitions that no guard stops; inside a lambda the aliases of every level are among them.\<close>

definition unguarded :: "bool \<Rightarrow> queryScope \<Rightarrow> (entry \<times> entry list) list" where
  "unguarded lambdas scope =
     concat (map level_aliases (if lambdas then scope else tl scope)) @ concat (map level_windows scope)"

definition ranked :: "(entry \<Rightarrow> nat) \<Rightarrow> (entry \<times> entry list) list \<Rightarrow> bool" where
  "ranked r defs \<longleftrightarrow> list_all (\<lambda>(d, ms). list_all (\<lambda>m. m \<in> fst ` set defs \<longrightarrow> r m < r d) ms) defs"

definition lambda_free :: "expr \<Rightarrow> bool" where
  "lambda_free e \<longleftrightarrow> list_all (\<lambda>x. lambda_parts x = None) (e # subs e)"

definition lambda_free_scope :: "queryScope \<Rightarrow> bool" where
  "lambda_free_scope scope \<longleftrightarrow> list_all (\<lambda>level. list_all (\<lambda>(_, x). lambda_free x) (projectionExprs level)
     \<and> list_all (\<lambda>(_, w). list_all lambda_free (spec_exprs w)) (windows level)) scope"

text \<open>
  The definitions of a scope are acyclic: there is a rank that falls from every unguarded definition to
  the unguarded definitions it mentions. \<open>lambdas\<close> tells whether lambdas may occur.
\<close>

definition acyclic_scope :: "(entry \<Rightarrow> nat) \<Rightarrow> bool \<Rightarrow> queryScope \<Rightarrow> bool" where
  "acyclic_scope r lambdas scope \<longleftrightarrow> ranked r (unguarded lambdas scope) \<and> (lambdas \<or> lambda_free_scope scope)"

section \<open>The weight of a call\<close>

definition unexpanded :: "scope_level \<Rightarrow> nat" where
  "unexpanded level = length (filter (\<lambda>(name, _). name \<notin> set (aliasExpansion level)) (projectionExprs level))"

definition all_unexpanded :: "queryScope \<Rightarrow> nat" where
  "all_unexpanded scope = sum_list (map unexpanded scope)"

definition top_rank :: "(entry \<Rightarrow> nat) \<Rightarrow> (entry \<times> entry list) list \<Rightarrow> expr \<Rightarrow> nat" where
  "top_rank r defs e = Max (Set.insert 0 ((\<lambda>m. Suc (r m)) ` (set (mentions e) \<inter> fst ` set defs)))"

definition call_order :: "(entry \<Rightarrow> nat) \<Rightarrow> bool \<Rightarrow> ((queryScope \<times> expr) \<times> (queryScope \<times> expr)) set" where
  "call_order r lambdas = measures [\<lambda>(s, e). all_unexpanded s, \<lambda>(s, e). top_rank r (unguarded lambdas s) e,
     \<lambda>(s, e). size e, \<lambda>(s, e). length s]"

lemma wf_call_order: "wf (call_order r lambdas)"
  by (simp add: call_order_def)

lemma call_order_iff:
  "((s, x), (t, e)) \<in> call_order r lambdas \<longleftrightarrow>
     all_unexpanded s < all_unexpanded t \<or> all_unexpanded s = all_unexpanded t \<and>
     (top_rank r (unguarded lambdas s) x < top_rank r (unguarded lambdas t) e \<or>
      top_rank r (unguarded lambdas s) x = top_rank r (unguarded lambdas t) e \<and>
      (size x < size e \<or> size x = size e \<and> length s < length t))"
  by (simp add: call_order_def)

lemma top_rank_mono:
  assumes "set (mentions x) \<inter> fst ` set defs \<subseteq> set (mentions e) \<inter> fst ` set defs'"
  shows "top_rank r defs x \<le> top_rank r defs' e"
proof -
  have "(\<lambda>m. Suc (r m)) ` (set (mentions x) \<inter> fst ` set defs) \<subseteq> (\<lambda>m. Suc (r m)) ` (set (mentions e) \<inter> fst ` set defs')"
    by (rule image_mono) (rule assms)
  then show ?thesis unfolding top_rank_def by (intro Max_mono) blast+
qed

lemma top_rank_less:
  assumes "\<And>m. m \<in> set (mentions x) \<Longrightarrow> m \<in> fst ` set defs \<Longrightarrow> r m < r d" "d \<in> set (mentions e)" "d \<in> fst ` set defs'"
  shows "top_rank r defs x < top_rank r defs' e"
proof -
  have "top_rank r defs x \<le> r d"
    unfolding top_rank_def using assms(1) by (auto simp: Suc_le_eq)
  moreover have "Suc (r d) \<le> top_rank r defs' e"
    unfolding top_rank_def using assms(2,3) by (intro Max_ge) auto
  ultimately show ?thesis by simp
qed

lemma mentions_subs: "x \<in> set (subs e) \<Longrightarrow> set (mentions x) \<subseteq> set (mentions e)"
  using subs_trans [of _ x e] by (auto simp: mentions_def)

lemma lambda_free_subs: "lambda_free e \<Longrightarrow> x \<in> set (subs e) \<Longrightarrow> lambda_free x"
  using subs_trans [of _ x e] by (auto simp: lambda_free_def list_all_iff)

text \<open>Smaller calls in the same or a smaller scope.\<close>

lemma weight_smaller:
  assumes "all_unexpanded s \<le> all_unexpanded t" "fst ` set (unguarded lambdas s) \<subseteq> fst ` set (unguarded lambdas t)"
    and "set (mentions x) \<subseteq> set (mentions e)" "size x < size e \<or> size x = size e \<and> length s < length t"
  shows "((s, x), (t, e)) \<in> call_order r lambdas"
  using assms(1,4) top_rank_mono [of x "unguarded lambdas s" e "unguarded lambdas t" r] assms(2,3)
  unfolding call_order_iff by (auto simp: order_le_less)

section \<open>Every call weighs less\<close>

lemma unguarded_expanding:
  "scope \<noteq> [] \<Longrightarrow> unguarded lambdas (expanding scope name) = unguarded lambdas scope"
  by (cases scope) (auto simp: unguarded_def expanding_def top_level_def level_aliases_def level_windows_def)

lemma acyclic_expanding:
  "scope \<noteq> [] \<Longrightarrow> acyclic_scope r lambdas (expanding scope name) = acyclic_scope r lambdas scope"
  unfolding acyclic_scope_def unguarded_expanding
  by (cases scope) (auto simp: lambda_free_scope_def expanding_def top_level_def)

lemma length_filter_le_filter: "(\<And>x. P x \<Longrightarrow> Q x) \<Longrightarrow> length (filter P xs) \<le> length (filter Q xs)"
  by (induction xs) (auto simp: le_SucI)

lemma length_filter_strict:
  assumes "\<And>x. P x \<Longrightarrow> Q x" "y \<in> set xs" "Q y" "\<not> P y"
  shows "length (filter P xs) < length (filter Q xs)"
  using assms(2)
proof (induction xs)
  case (Cons x xs)
  have "length (filter P xs) \<le> length (filter Q xs)" by (rule length_filter_le_filter) (rule assms(1))
  then show ?case using Cons assms by auto
qed simp

lemma unexpanded_expanding:
  assumes "scope \<noteq> []"
  shows "all_unexpanded (expanding scope name) \<le> all_unexpanded scope"
    and "local_alias scope name \<noteq> None \<Longrightarrow> all_unexpanded (expanding scope name) < all_unexpanded scope"
proof -
  obtain level parent where scope: "scope = level # parent" using assms by (cases scope) auto
  let ?l = "level\<lparr>aliasExpansion := name # aliasExpansion level\<rparr>"
  have le: "unexpanded ?l \<le> unexpanded level"
    unfolding unexpanded_def by simp (rule length_filter_le_filter, auto)
  show "all_unexpanded (expanding scope name) \<le> all_unexpanded scope"
    using le by (simp add: all_unexpanded_def expanding_def top_level_def scope)
  assume "local_alias scope name \<noteq> None"
  then obtain x where x: "name \<notin> set (aliasExpansion level)" "(name, x) \<in> set (projectionExprs level)"
    by (auto simp: local_alias_def top_level_def scope split: if_splits dest: map_of_SomeD)
  have "unexpanded ?l < unexpanded level"
    unfolding unexpanded_def by simp (rule length_filter_strict [where y = "(name, x)"], use x in auto)
  then show "all_unexpanded (expanding scope name) < all_unexpanded scope"
    by (simp add: all_unexpanded_def expanding_def top_level_def scope)
qed

lemma lookup_enclosing:
  assumes "lookupProjectionExpr scope name = Some x" "local_alias scope name = None"
  shows "\<exists>level \<in> set (tl scope). (name, x) \<in> set (projectionExprs level)"
proof -
  have all: "\<exists>level \<in> set scope. (name, x) \<in> set (projectionExprs level)" if "lookupProjectionExpr scope name = Some x" for scope
    using that by (induction scope name rule: lookupProjectionExpr.induct)
      (fastforce split: option.splits if_splits dest: map_of_SomeD)+
  show ?thesis
  proof (cases scope)
    case (Cons level parent)
    then have "lookupProjectionExpr parent name = Some x"
      using assms by (auto simp: local_alias_def top_level_def split: option.splits if_splits)
    then show ?thesis using all Cons by simp
  qed (use assms in simp)
qed

lemma rankedD: "ranked r defs \<Longrightarrow> (d, ms) \<in> set defs \<Longrightarrow> m \<in> set ms \<Longrightarrow> m \<in> fst ` set defs \<Longrightarrow> r m < r d"
  unfolding ranked_def list_all_iff by fastforce

lemma ranked_mono: "ranked r defs' \<Longrightarrow> set defs \<subseteq> set defs' \<Longrightarrow> ranked r defs"
  unfolding ranked_def list_all_iff by fastforce

lemma in_unguarded:
  "level \<in> set scope \<Longrightarrow> (name, w) \<in> set (windows level) \<Longrightarrow> (WindowEntry name, window_mentions w) \<in> set (unguarded lambdas scope)"
  "level \<in> set (tl scope) \<Longrightarrow> (name, x) \<in> set (projectionExprs level) \<Longrightarrow> (AliasEntry name, mentions x) \<in> set (unguarded lambdas scope)"
  by (auto simp: unguarded_def level_windows_def level_aliases_def dest: list.set_sel(2) split: if_splits)
     (metis (no_types, lifting) case_prod_conv image_eqI list.set_sel(2) list.sel(2) tl_Nil)+

lemma entry_image: "(d, ms) \<in> set defs \<Longrightarrow> d \<in> fst ` set defs"
  by force

lemma inherited_exprs:
  "inherit_window n own base = Inr w \<Longrightarrow> set (spec_exprs w) \<subseteq> set (spec_exprs own) \<union> set (spec_exprs base)"
  by (auto simp: inherit_window_def spec_exprs_def opt_exprs_def split: if_splits option.splits)

text \<open>The expressions of a named window mention less than its name.\<close>

definition window_defs :: "window_table \<Rightarrow> (entry \<times> entry list) list \<Rightarrow> bool" where
  "window_defs table defs \<longleftrightarrow> list_all (\<lambda>(n, w). (WindowEntry n, window_mentions w) \<in> set defs) table"

definition below :: "(entry \<Rightarrow> nat) \<Rightarrow> (entry \<times> entry list) list \<Rightarrow> window_table \<Rightarrow> expr \<Rightarrow> string \<Rightarrow> bool" where
  "below r defs table x name \<longleftrightarrow> WindowEntry name \<in> fst ` set defs
     \<and> (\<forall>m \<in> set (mentions x). m \<in> fst ` set defs \<longrightarrow> r m < r (WindowEntry name))
     \<and> (\<exists>(n, w) \<in> set table. x \<in> set (spec_exprs w))"

lemma below_base:
  assumes "ranked r defs" "window_defs table defs" "(name, own) \<in> set table"
  shows "x \<in> set (spec_exprs own) \<Longrightarrow> below r defs table x name"
    and "window_name own = Some base \<Longrightarrow> below r defs table x base \<Longrightarrow> below r defs table x name"
proof -
  have d: "(WindowEntry name, window_mentions own) \<in> set defs"
    using assms(2,3) by (auto simp: window_defs_def list_all_iff)
  have less: "r m < r (WindowEntry name)" if "m \<in> set (window_mentions own)" "m \<in> fst ` set defs" for m
    using rankedD [OF assms(1) d] that by blast
  show "below r defs table x name" if "x \<in> set (spec_exprs own)"
    using that less entry_image [OF d] assms(3) by (auto simp: below_def window_mentions_def)
  show "below r defs table x name" if "window_name own = Some base" "below r defs table x base"
  proof -
    have "r (WindowEntry base) < r (WindowEntry name)"
      by (rule less) (use that in \<open>auto simp: window_mentions_def window_mention_def below_def\<close>)
    then show ?thesis using that(2) entry_image [OF d] unfolding below_def by fastforce
  qed
qed

lemma materialized_rank:
  assumes "ranked r defs"
  shows "window_defs table defs \<Longrightarrow> materializeNamedWindow table visiting name = Inr w \<Longrightarrow> x \<in> set (spec_exprs w) \<Longrightarrow>
      below r defs table x name"
    and "window_defs table defs \<Longrightarrow> materializeWindowExpr table visiting own = Inr w \<Longrightarrow> x \<in> set (spec_exprs w) \<Longrightarrow>
      x \<in> set (spec_exprs own) \<or> (\<exists>base. window_name own = Some base \<and> below r defs table x base)"
proof (induction table visiting name and table visiting own arbitrary: w and w
    rule: materializeNamedWindow_materializeWindowExpr.induct)
  case (1 table visiting name)
  obtain own where own: "map_of table name = Some own" "name \<notin> set visiting"
      "materializeWindowExpr table (name # visiting) own = Inr w"
    using 1(3) by (auto simp: materializeNamedWindow.simps [of table] split: option.splits if_splits)
  have table: "(name, own) \<in> set table" using own(1) by (rule map_of_SomeD)
  show ?case
    using 1(1) [OF own(1,2) 1(2) own(3) 1(4)] below_base [OF assms 1(2) table] by blast
next
  case (2 table visiting own)
  show ?case
  proof (cases "window_name own")
    case None
    then show ?thesis using 2(3,4) by (auto simp: materializeWindowExpr.simps [of table] spec_exprs_def)
  next
    case (Some base)
    obtain b where b: "materializeNamedWindow table visiting base = Inr b" "inherit_window base own b = Inr w"
      using 2(3) Some by (auto simp: materializeWindowExpr.simps [of table] split: sum.splits)
    show ?thesis
      using 2(1) [OF Some 2(2) b(1)] inherited_exprs [OF b(2)] 2(4) Some by blast
  qed
qed

lemma window_exprs_rank:
  assumes "ranked r defs" "window_defs table defs" "x \<in> set (window_exprs table over)"
  shows "x \<in> set (over_exprs over) \<or> (\<exists>base. WindowEntry base \<in> set (window_mention over) \<and> below r defs table x base)"
proof -
  obtain w where w: "materializeWindowOver table over = Inr w" "x \<in> set (spec_exprs w)"
    using assms(3) by (cases "materializeWindowOver table over") (auto simp: window_exprs_def)
  show ?thesis
  proof (cases over)
    case (OverName name)
    then show ?thesis using materialized_rank(1) [OF assms(1,2)] w by (auto simp: materializeWindowOver_def window_mention_def)
  next
    case (OverWindow own)
    have m: "materializeWindowExpr table [] own = Inr w" using w(1) OverWindow by (simp add: materializeWindowOver_def)
    show ?thesis using materialized_rank(2) [OF assms(1,2) m w(2)] OverWindow
      by (auto simp: window_mention_def over_exprs_def)
  qed (use w in \<open>simp add: materializeWindowOver_def\<close>)
qed

section \<open>Every call weighs less\<close>

lemma top_level_member: "scope \<noteq> [] \<Longrightarrow> top_level scope \<in> set scope"
  by (cases scope) (auto simp: top_level_def)

lemma windows_in_defs: "window_defs (windows (top_level scope)) (unguarded lambdas scope)"
proof (cases scope)
  case (Cons level parent)
  then show ?thesis using in_unguarded(1) [OF top_level_member [of scope]] by (auto simp: window_defs_def list_all_iff)
qed (simp add: window_defs_def top_level_def empty_level_def)

lemma mentions_node: "set (node_mentions e) \<subseteq> set (mentions e)"
  by (simp add: mentions_def)

lemma lambda_free_scopeD:
  "lambda_free_scope scope \<Longrightarrow> level \<in> set scope \<Longrightarrow> (name, x) \<in> set (projectionExprs level) \<Longrightarrow> lambda_free x"
  "lambda_free_scope scope \<Longrightarrow> level \<in> set scope \<Longrightarrow> (name, w) \<in> set (windows level) \<Longrightarrow> x \<in> set (spec_exprs w) \<Longrightarrow> lambda_free x"
  by (fastforce simp: lambda_free_scope_def list_all_iff)+

lemma set_tl_subset: "set (tl xs) \<subseteq> set xs"
  by (cases xs) auto

lemma acyclic_subset:
  assumes "acyclic_scope r lambdas t" "set (unguarded lambdas s) \<subseteq> set (unguarded lambdas t)" "lambdas \<or> set s \<subseteq> set t"
  shows "acyclic_scope r lambdas s"
proof -
  have "lambda_free_scope s" if "lambda_free_scope t" "set s \<subseteq> set t"
    using that unfolding lambda_free_scope_def list_all_iff by blast
  then show ?thesis using assms ranked_mono unfolding acyclic_scope_def by blast
qed

lemma unguarded_tl: "set (unguarded lambdas (tl scope)) \<subseteq> set (unguarded lambdas scope)"
  by (cases scope; cases "tl scope") (auto simp: unguarded_def)

text \<open>A call keeps the definitions acyclic.\<close>

definition lighter_call :: "(entry \<Rightarrow> nat) \<Rightarrow> bool \<Rightarrow> queryScope \<Rightarrow> expr \<Rightarrow> queryScope \<Rightarrow> expr \<Rightarrow> bool" where
  "lighter_call r lambdas scope e s x \<longleftrightarrow>
     ((s, x), (scope, e)) \<in> call_order r lambdas \<and> acyclic_scope r lambdas s \<and> (lambdas \<or> lambda_free x)"

lemma sub_call:
  assumes acyclic: "acyclic_scope r lambdas scope" and free: "lambdas \<or> lambda_free e" and "x \<in> set (subs e)"
  shows "lighter_call r lambdas scope e scope x"
  using assms(3) acyclic free weight_smaller [of scope scope lambdas x e r] mentions_subs size_subs lambda_free_subs
  by (auto simp: lighter_call_def)

lemma alias_call:
  assumes acyclic: "acyclic_scope r lambdas scope" and free: "lambdas \<or> lambda_free e"
    and e: "e = EIdent name bare" and x: "x \<in> set (alias_calls scope name)"
  shows "lighter_call r lambdas scope e (expanding scope name) x"
proof -
  have scope: "scope \<noteq> []"
    using x by (cases scope) (auto simp: alias_calls_def local_alias_def top_level_def empty_level_def)
  have acyclic': "acyclic_scope r lambdas (expanding scope name)" using acyclic acyclic_expanding [OF scope] by simp
  show ?thesis
  proof (cases "local_alias scope name")
    case None
    then have "lookupProjectionExpr scope name = Some x" using x by (auto simp: alias_calls_def split: option.splits)
    then obtain level where level: "level \<in> set (tl scope)" "(name, x) \<in> set (projectionExprs level)"
      using lookup_enclosing None by blast
    have def: "(AliasEntry name, mentions x) \<in> set (unguarded lambdas scope)" using in_unguarded(2) [OF level] .
    have "top_rank r (unguarded lambdas (expanding scope name)) x < top_rank r (unguarded lambdas scope) e"
      unfolding unguarded_expanding [OF scope]
    proof (rule top_rank_less)
      show "AliasEntry name \<in> set (mentions e)" using mentions_node [of e] e by (simp add: node_mentions_def)
      show "AliasEntry name \<in> fst ` set (unguarded lambdas scope)" using def by (rule entry_image)
    next
      have "ranked r (unguarded lambdas scope)" using acyclic by (simp add: acyclic_scope_def)
      then show "m \<in> set (mentions x) \<Longrightarrow> m \<in> fst ` set (unguarded lambdas scope) \<Longrightarrow> r m < r (AliasEntry name)" for m
        using rankedD def by blast
    qed
    then have "((expanding scope name, x), (scope, e)) \<in> call_order r lambdas"
      using unexpanded_expanding(1) [OF scope, of name] unfolding call_order_iff by auto
    moreover have "lambdas \<or> lambda_free x"
      using acyclic lambda_free_scopeD(1) [OF _ _ level(2)] level(1) by (auto simp: acyclic_scope_def dest: list.set_sel(2) [rotated])
         (metis list.set_sel(2) scope)
    ultimately show ?thesis using acyclic' by (simp add: lighter_call_def)
  next
    case (Some y)
    then have x: "(name, x) \<in> set (projectionExprs (top_level scope))"
      using x by (auto simp: alias_calls_def local_alias_def split: if_splits option.splits dest: map_of_SomeD)
    have "((expanding scope name, x), (scope, e)) \<in> call_order r lambdas"
      using unexpanded_expanding(2) [OF scope, of name] Some unfolding call_order_iff by simp
    moreover have "lambdas \<or> lambda_free x"
      using acyclic lambda_free_scopeD(1) [OF _ top_level_member [OF scope] x] by (auto simp: acyclic_scope_def)
    ultimately show ?thesis using acyclic' by (simp add: lighter_call_def)
  qed
qed

lemma parent_call:
  assumes acyclic: "acyclic_scope r lambdas scope" and free: "lambdas \<or> lambda_free e"
    and parent: "tl scope \<noteq> []"
  shows "lighter_call r lambdas scope e (tl scope) e"
proof -
  have "acyclic_scope r lambdas (tl scope)"
    by (rule acyclic_subset [OF acyclic unguarded_tl]) (rule disjI2, rule set_tl_subset)
  moreover have "((tl scope, e), (scope, e)) \<in> call_order r lambdas"
  proof (rule weight_smaller)
    show "all_unexpanded (tl scope) \<le> all_unexpanded scope" by (cases scope) (auto simp: all_unexpanded_def)
    show "fst ` set (unguarded lambdas (tl scope)) \<subseteq> fst ` set (unguarded lambdas scope)"
      by (rule image_mono) (rule unguarded_tl)
    show "size e < size e \<or> size e = size e \<and> length (tl scope) < length scope" using parent by (cases scope) auto
  qed simp
  ultimately show ?thesis using free by (simp add: lighter_call_def)
qed

lemma window_call:
  assumes acyclic: "acyclic_scope r lambdas scope" and free: "lambdas \<or> lambda_free e"
    and e: "e = EWindow name items cols over" and x: "x \<in> set (window_exprs (windows (top_level scope)) over)"
  shows "lighter_call r lambdas scope e scope x"
proof -
  have ranked: "ranked r (unguarded lambdas scope)" using acyclic by (simp add: acyclic_scope_def)
  consider "x \<in> set (over_exprs over)" | base where "WindowEntry base \<in> set (window_mention over)"
      "below r (unguarded lambdas scope) (windows (top_level scope)) x base"
    using window_exprs_rank [OF ranked windows_in_defs x] by blast
  then show ?thesis
  proof cases
    case 1
    then show ?thesis by (intro sub_call [OF acyclic free] parts_subs) (simp add: e)
  next
    case (2 base)
    have "top_rank r (unguarded lambdas scope) x < top_rank r (unguarded lambdas scope) e"
      by (rule top_rank_less [where d = "WindowEntry base"])
         (use 2 mentions_node [of e] e in \<open>auto simp: below_def node_mentions_def\<close>)
    moreover have "lambdas \<or> lambda_free x"
    proof (cases "scope = []")
      case True
      then show ?thesis using 2 by (simp add: below_def top_level_def empty_level_def)
    next
      case False
      then show ?thesis using 2 acyclic lambda_free_scopeD(2) [OF _ top_level_member [OF False]]
        by (auto simp: below_def acyclic_scope_def)
    qed
    ultimately show ?thesis using acyclic unfolding lighter_call_def call_order_iff by simp
  qed
qed

lemma static_call:
  assumes acyclic: "acyclic_scope r lambdas scope" and free: "lambdas \<or> lambda_free e"
    and "(s, x) \<in> set (static_calls scope e)"
  shows "lighter_call r lambdas scope e s x"
  using assms(3) sub_call [OF acyclic free] alias_call [OF acyclic free] parent_call [OF acyclic free] window_call [OF acyclic free]
  by (auto simp: static_calls_def split: expr.splits if_splits)

lemma lambda_body_call:
  assumes acyclic: "acyclic_scope r lambdas scope" and free: "lambdas \<or> lambda_free e"
    and callee: "lambda_callee env g scope e s body"
  shows "lighter_call r lambdas scope e s body"
proof -
  obtain name items cols signature acc els where c: "functionArgs items cols \<noteq> []"
      "lambda_call (env_format env) (g scope) scope signature name (functionArgs items cols) = Inr (s, body, acc, els)"
      "e = EFunction name items cols \<or> (\<exists>over. e = EWindow name items cols over)"
    using callee unfolding lambda_callee_def by blast
  obtain params where p: "lambda_parts (hd (functionArgs items cols)) = Some (params, body)"
      and s: "s = lambda_scope scope signature params acc els"
    using c(2) by (auto simp: lambda_call_def bind_res_def split: option.splits sum.splits prod.splits)
  have arg: "hd (functionArgs items cols) \<in> set (subs e)"
    using c(1,3) subs_functionArgs [OF hd_in_set [OF c(1)]] by auto
  then have lambdas: lambdas using free p by (auto simp: lambda_free_def list_all_iff)
  obtain bound where level: "s = empty_level\<lparr>scalars := bound, exactScalarNames := True\<rparr> # (if allowOuterCapture signature then scope else [])"
    using s by (simp add: lambda_scope_def Let_def)
  have sub: "set (unguarded lambdas s) \<subseteq> set (unguarded lambdas scope)"
    using lambdas by (auto simp: level unguarded_def level_aliases_def level_windows_def empty_level_def)
  have body: "body \<in> set (subs e)" using subs_trans [OF subs_lambda_body [OF p] arg] .
  have "((s, body), (scope, e)) \<in> call_order r lambdas"
    using sub mentions_subs [OF body] size_subs [OF body]
    by (intro weight_smaller) (auto simp: level all_unexpanded_def unexpanded_def empty_level_def)
  then show ?thesis
    using acyclic_subset [OF acyclic sub] lambdas by (simp add: lighter_call_def)
qed

section \<open>The inference settles\<close>

text \<open>From some depth on the answer neither depends on the depth nor on what stands beneath it.\<close>

definition settled :: "infer_env \<Rightarrow> queryScope \<Rightarrow> expr \<Rightarrow> chtype result \<Rightarrow> bool" where
  "settled env scope e answer \<longleftrightarrow> (\<forall>\<^sub>F n in sequentially. \<forall>g. (infer_step env ^^ n) g scope e = answer)"

lemma inferExprType_power: "inferExprType env n = (infer_step env ^^ n) (\<lambda>_ _. Inl call_depth_exceeded)"
proof (induction n)
  case (Suc n)
  have "inferExprType env (Suc n) = infer_step env (inferExprType env n)" by (intro ext) simp
  then show ?case using Suc by simp
qed (simp add: fun_eq_iff)

lemma settled_unique: "settled env scope e t \<Longrightarrow> settled env scope e u \<Longrightarrow> t = u"
  unfolding settled_def eventually_sequentially by (metis nle_le)

lemma settled_step:
  assumes static: "\<And>s x. (s, x) \<in> set (static_calls scope e) \<Longrightarrow> settled env s x (answers s x)"
    and lambda: "\<And>s body. lambda_callee env answers scope e s body \<Longrightarrow> settled env s body (answers s body)"
  shows "settled env scope e (infer_step env answers scope e)"
proof -
  let ?at = "\<lambda>n s x. \<forall>g. (infer_step env ^^ n) g s x = answers s x"
  have "\<forall>\<^sub>F n in sequentially. \<forall>(s, x) \<in> set (static_calls scope e). ?at n s x"
    using static by (intro eventually_ball_finite) (auto simp: settled_def)
  moreover have "\<forall>\<^sub>F n in sequentially. \<forall>s body. lambda_callee env answers scope e s body \<longrightarrow> ?at n s body"
  proof (cases "\<exists>s body. lambda_callee env answers scope e s body")
    case True
    then obtain s body where c: "lambda_callee env answers scope e s body" by blast
    have only: "s' = s \<and> body' = body" if "lambda_callee env answers scope e s' body'" for s' body'
      using c that unfolding lambda_callee_def by auto
    have "\<forall>\<^sub>F n in sequentially. ?at n s body" using lambda [OF c] by (simp add: settled_def)
    then show ?thesis by (rule eventually_mono) (use only in blast)
  qed simp
  ultimately have "\<forall>\<^sub>F n in sequentially. \<forall>g. (infer_step env ^^ Suc n) g scope e = infer_step env answers scope e"
  proof eventually_elim
    case (elim n)
    show ?case
    proof
      fix g
      have "infer_step env answers scope e = infer_step env ((infer_step env ^^ n) g) scope e"
        by (rule infer_step_cong) (use elim in auto)
      then show "(infer_step env ^^ Suc n) g scope e = infer_step env answers scope e" by simp
    qed
  qed
  then show ?thesis unfolding settled_def by (rule eventually_sequentially_Suc [THEN iffD1])
qed

lemma acyclic_settles:
  assumes "acyclic_scope r lambdas scope" "lambdas \<or> lambda_free e"
  shows "\<exists>t. settled env scope e t"
  using assms
proof (induction "(scope, e)" arbitrary: scope e rule: wf_induct_rule [OF wf_call_order [of r lambdas]])
  case (1 scope e)
  define answers where "answers = (\<lambda>s x. THE t. settled env s x t)"
  have settles: "settled env s x (answers s x)" if "lighter_call r lambdas scope e s x" for s x
  proof -
    have "\<exists>t. settled env s x t" using 1(1) that by (auto simp: lighter_call_def)
    then show ?thesis unfolding answers_def by (metis settled_unique theI)
  qed
  have "settled env scope e (infer_step env answers scope e)"
    by (rule settled_step) (use settles static_call [OF 1(2,3)] lambda_body_call [OF 1(2,3)] in blast)+
  then show ?case by blast
qed

text \<open>
  C5. The inference of an expression ends. In a scope whose definitions are acyclic there is a depth from
  which on the answer is always the same, whatever a deeper call would answer: no call goes deeper.
  Every expansion of an alias of the innermost level is guarded, so such an alias may mention itself, as
  in toDate(t) AS t; a circle through an alias of an enclosing level or through a named window is not
  guarded, and only there the definitions need a rank.
\<close>

theorem inference_terminates:
  assumes "acyclic_scope r lambdas scope" "lambdas \<or> lambda_free e"
  shows "\<exists>n. \<forall>m \<ge> n. \<forall>deeper. (infer_step env ^^ m) deeper scope e = inferExprType env n scope e"
proof -
  obtain t n where n: "\<forall>m \<ge> n. \<forall>g. (infer_step env ^^ m) g scope e = t"
    using acyclic_settles [OF assms, of env] by (auto simp: settled_def eventually_sequentially)
  then have "inferExprType env n scope e = t" by (simp add: inferExprType_power)
  with n show ?thesis by blast
qed

definition sample_scope :: queryScope where
  "sample_scope = [empty_level\<lparr>scalars := [(''a'', ty0 ''UInt8'')],
     projectionExprs := [(''b'', EBinary (EIdent ''a'' True) ''+'' (EIdent ''c'' True)),
       (''c'', EUnary ''-'' (EIdent ''a'' True)), (''a'', EIdent ''a'' True)]\<rparr>]"

theorem inference_terminates_witness:
  "(\<exists>n. \<forall>m \<ge> n. \<forall>deeper. (infer_step sample_env ^^ m) deeper sample_scope (EIdent ''b'' True)
      = inferExprType sample_env n sample_scope (EIdent ''b'' True))
   \<and> inferExprType sample_env 7 sample_scope (EIdent ''b'' True) = Inr (ty0 ''Int32'')"
proof
  have "acyclic_scope (\<lambda>_. 0) False sample_scope" "lambda_free (EIdent ''b'' True)" by code_simp+
  then show "\<exists>n. \<forall>m \<ge> n. \<forall>deeper. (infer_step sample_env ^^ m) deeper sample_scope (EIdent ''b'' True)
      = inferExprType sample_env n sample_scope (EIdent ''b'' True)"
    using inference_terminates [of "\<lambda>_. 0" False sample_scope "EIdent ''b'' True" sample_env] by blast
  show "inferExprType sample_env 7 sample_scope (EIdent ''b'' True) = Inr (ty0 ''Int32'')" by code_simp
qed

section \<open>Where it does not end\<close>

fun error_root :: "error \<Rightarrow> error" where
  "error_root (Wrapf _ _ err) = error_root err"
| "error_root err = err"

text \<open>
  An alias of an enclosing level is found again however often it is being expanded: the lookup asks each
  level for its own set of expanded aliases, but the expansion is recorded in the innermost level. In the
  body of a lambda a self-mentioning alias of the SELECT list therefore recurses for ever, and so does a
  window whose ORDER BY has a window function over the window itself.
\<close>

definition runs_away :: "infer_env \<Rightarrow> queryScope \<Rightarrow> expr \<Rightarrow> bool" where
  "runs_away env scope e \<longleftrightarrow> (\<forall>n. \<exists>err. inferExprType env n scope e = Inl err \<and> error_root err = call_depth_exceeded)"

lemma call_depth_root: "error_root call_depth_exceeded = call_depth_exceeded"
  by (simp add: call_depth_exceeded_def)

lemma sum_step:
  "infer_step env g scope (EBinary (EIdent name bare) ''+'' (ENumber literal)) = Inl err"
  if "g scope (EIdent name bare) = Inl err"
proof -
  have "isInOperation ''+'' = False" "unknown_operator ''+'' = False" "to_upper ''+'' = ''+''"
    "operatorFamilyOf ''+'' = Some opArith" by code_simp+
  then show ?thesis
    using that by (simp add: infer_step_def inferBinaryOperationType_def inferValueOperatorType_def interval_of_def
        inferArithmeticOperandType_def)
qed

lemma enclosing_alias_step:
  assumes level: "level = empty_level\<lparr>scalars := bound, exactScalarNames := True, aliasExpansion := expanded\<rparr>"
    and name: "name \<notin> fst ` set bound" "\<not> equal_fold name ''NULL''"
    and enclosing: "lookupProjectionExpr scope name = Some x"
  shows "infer_step env g (level # scope) (EIdent name bare) = g (expanding (level # scope) name) x"
proof -
  have "map_of bound name = None" using name(1) by (simp add: map_of_eq_None_iff)
  then have "lookupLocalScalar (level # scope) name = None" by (simp add: level local_scalar_def empty_level_def)
  moreover obtain err where "lookupLocalColumn (env_parseTypeName env) (level # scope) [] name = Inl err"
    by (simp add: level empty_level_def lookupLocalColumn_def bound_column_def found_columns_def)
  ultimately show ?thesis
    using name(2) enclosing
    by (auto simp: infer_step_def inferIdentType_def local_alias_def top_level_def level empty_level_def split: sum.splits)
qed

lemma enclosing_alias_runs_away:
  assumes name: "name \<notin> fst ` set bound" "\<not> equal_fold name ''NULL''"
    and enclosing: "lookupProjectionExpr scope name = Some (EBinary (EIdent name bare) ''+'' (ENumber literal))"
  shows "runs_away env (empty_level\<lparr>scalars := bound, exactScalarNames := True\<rparr> # scope) (EIdent name bare)"
proof -
  have "\<exists>err. inferExprType env n (empty_level\<lparr>scalars := bound, exactScalarNames := True, aliasExpansion := expanded\<rparr> # scope)
      (EIdent name bare) = Inl err \<and> error_root err = call_depth_exceeded" for n expanded
  proof (induction n arbitrary: expanded rule: less_induct)
    case (less n)
    let ?level = "\<lambda>es. empty_level\<lparr>scalars := bound, exactScalarNames := True, aliasExpansion := es\<rparr>"
    have expanding: "expanding (?level expanded # scope) name = ?level (name # expanded) # scope"
      by (simp add: expanding_def top_level_def empty_level_def)
    show ?case
    proof (cases n)
      case (Suc k)
      note step = enclosing_alias_step [OF refl name enclosing, of env "inferExprType env k" expanded bare, unfolded expanding]
      show ?thesis
      proof (cases k)
        case (Suc j)
        obtain err where err: "inferExprType env j (?level (name # expanded) # scope) (EIdent name bare) = Inl err"
            "error_root err = call_depth_exceeded"
          using less [of j "name # expanded"] Suc \<open>n = Suc k\<close> by auto
        then show ?thesis using step sum_step [of "inferExprType env j"] Suc \<open>n = Suc k\<close> by simp
      qed (use step \<open>n = Suc k\<close> call_depth_root in simp)
    qed (use call_depth_root in simp)
  qed
  from this [of _ "[]"] show ?thesis by (simp add: runs_away_def empty_level_def)
qed

text \<open>SELECT b + 1 AS b, arrayMap(y -> b, [0]) FROM t: the body of the lambda.\<close>

lemma self_alias_in_lambda_runs_away:
  "runs_away env
     [empty_level\<lparr>scalars := [(''y'', ty0 ''UInt8'')], exactScalarNames := True\<rparr>,
      empty_level\<lparr>projectionExprs := [(''b'', EBinary (EIdent ''b'' True) ''+'' (ENumber ''1''))]\<rparr>]
     (EIdent ''b'' True)"
  by (rule enclosing_alias_runs_away [where literal = "''1''"]) (auto simp: empty_level_def equal_fold_def to_lower_def lower_char_def)

text \<open>WINDOW w AS (ORDER BY sum(x) OVER w).\<close>

lemma window_over_itself_runs_away:
  "runs_away env
     [empty_level\<lparr>windows := [(''w'', WindowSpec None (Some [EWindow ''sum'' (Some [EIdent ''x'' True]) None (OverName ''w'')]) None None)]\<rparr>]
     (EWindow ''sum'' (Some [EIdent ''x'' True]) None (OverName ''w''))"
  unfolding runs_away_def
proof
  fix n
  let ?e = "EWindow ''sum'' (Some [EIdent ''x'' True]) None (OverName ''w'')"
  let ?table = "[(''w'', WindowSpec None (Some [?e]) None None)]"
  have m: "materializeWindowOver ?table (OverName ''w'') = Inr (WindowSpec None (Some [?e]) None None)"
    by (simp add: materializeWindowOver_def materializeNamedWindow.simps materializeWindowExpr.simps)
  show "\<exists>err. inferExprType env n [empty_level\<lparr>windows := ?table\<rparr>] ?e = Inl err \<and> error_root err = call_depth_exceeded"
  proof (induction n)
    case (Suc n)
    then obtain err where "inferExprType env n [empty_level\<lparr>windows := ?table\<rparr>] ?e = Inl err" "error_root err = call_depth_exceeded"
      by blast
    then show ?case
      by (simp add: infer_step_def validateWindowFunction_def top_level_def m validateMaterializedWindow_def window_clause_def
          wrapped_type_def)
  qed (simp add: call_depth_root)
qed

end
