(* ===== verification/QueryText.thy ===== *)
theory QueryText
  imports SqlScan GoTypes
begin

text \<open>
  The byte scanners that run over the text of a query before the SQL parser: the macros
  \<^verbatim>\<open>chgen.arg\<close>, \<^verbatim>\<open>chgen.table\<close> and \<^verbatim>\<open>chgen.external\<close> (\<^verbatim>\<open>annotations.go\<close>, \<^verbatim>\<open>external.go\<close>), raw placeholders,
  expression contracts (\<^verbatim>\<open>expression_contract.go\<close>), statements that are not checked
  (\<^verbatim>\<open>unchecked_exec.go\<close>), and the parser-only copies without LIMIT ... WITH TIES and trailing SETTINGS
  (\<^verbatim>\<open>resolver.go\<close>). Offsets are byte offsets.
\<close>

section \<open>Go identifiers\<close>

definition go_keywords :: "string list" where
  "go_keywords = [''break'', ''case'', ''chan'', ''const'', ''continue'', ''default'', ''defer'', ''else'',
     ''fallthrough'', ''for'', ''func'', ''go'', ''goto'', ''if'', ''import'', ''interface'', ''map'', ''package'',
     ''range'', ''return'', ''select'', ''struct'', ''switch'', ''type'', ''var'']"

definition is_digit :: "char \<Rightarrow> bool" where
  "is_digit c \<longleftrightarrow> (let n = (of_char c :: nat) in 48 \<le> n \<and> n \<le> 57)"

definition letter_or_underscore :: "char \<Rightarrow> bool" where
  "letter_or_underscore c \<longleftrightarrow> c = CHR ''_'' \<or> is_lower c \<or> is_upper c"

text \<open>\<^verbatim>\<open>token.IsIdentifier\<close> on ASCII text, without the blank identifier.\<close>

definition isGoIdentifier :: "string \<Rightarrow> bool" where
  "isGoIdentifier name \<longleftrightarrow> name \<noteq> ''_'' \<and> name \<noteq> [] \<and> name \<notin> set go_keywords
     \<and> letter_or_underscore (hd name) \<and> list_all (\<lambda>c. letter_or_underscore c \<or> is_digit c) name"

text \<open>\<^verbatim>\<open>ast.IsExported\<close>.\<close>

definition is_exported :: "string \<Rightarrow> bool" where
  "is_exported name \<longleftrightarrow> name \<noteq> [] \<and> is_upper (hd name)"

section \<open>Blanks, data and keywords\<close>

definition sql_blank :: "char \<Rightarrow> bool" where
  "sql_blank c \<longleftrightarrow> c = CHR '' '' \<or> c = CHR 0x09 \<or> c = CHR 0x0D \<or> c = newline"

definition skipSQLWhitespace :: "string \<Rightarrow> nat \<Rightarrow> nat" where
  "skipSQLWhitespace sql start = start + length (takeWhile sql_blank (drop start sql))"

definition sub_text :: "string \<Rightarrow> nat \<Rightarrow> nat \<Rightarrow> string" where
  "sub_text sql i j = take (j - i) (drop i sql)"

definition index_byte :: "string \<Rightarrow> char \<Rightarrow> nat option" where
  "index_byte s c = (let k = length (takeWhile (\<lambda>x. x \<noteq> c) s) in if k < length s then Some k else None)"

text \<open>The offset of the first byte of the line of an offset.\<close>

definition line_start :: "string \<Rightarrow> nat \<Rightarrow> nat" where
  "line_start sql i = i - length (takeWhile (\<lambda>c. c \<noteq> newline) (rev (take i sql)))"

text \<open>The end of a quoted token or a comment at the offset, and the offset itself for every other byte.\<close>

definition sqlDataEnd :: "string \<Rightarrow> nat \<Rightarrow> nat" where
  "sqlDataEnd sql i =
     (if sql ! i \<in> set quote_bytes then skipSQLQuoted sql i (sql ! i)
      else if has_prefix (drop i sql) ''--'' then skipSQLLineComment sql i
      else if has_prefix (drop i sql) ''/*'' then skipSQLBlockComment sql i
      else i)"

definition sqlKeywordAt :: "string \<Rightarrow> nat \<Rightarrow> string \<Rightarrow> bool" where
  "sqlKeywordAt sql index keyword \<longleftrightarrow>
     index + length keyword \<le> length sql
     \<and> equal_fold (sub_text sql index (index + length keyword)) keyword
     \<and> (index = 0 \<or> \<not> isSQLIdentifierByte (sql ! (index - 1)))
     \<and> (index + length keyword = length sql \<or> \<not> isSQLIdentifierByte (sql ! (index + length keyword)))"

text \<open>The next offset of a scan that has no use for the byte, and its bounds.\<close>

definition next_offset :: "string \<Rightarrow> nat \<Rightarrow> nat" where
  "next_offset sql i = (if sqlDataEnd sql i > i then sqlDataEnd sql i else i + 1)"

lemma sqlDataEnd_bounds: "i < length sql \<Longrightarrow> i \<le> sqlDataEnd sql i \<and> sqlDataEnd sql i \<le> length sql"
  using skipSQLQuoted_bounds [of i sql "sql ! i"] skipSQLLineComment_bounds [of i sql] skipSQLBlockComment_bounds [of i sql]
  by (auto simp: sqlDataEnd_def)

lemma next_offset_bounds: "i < length sql \<Longrightarrow> i < next_offset sql i \<and> next_offset sql i \<le> length sql"
  using sqlDataEnd_bounds [of i sql] by (auto simp: next_offset_def)

lemma skipSQLWhitespace_ge: "i \<le> skipSQLWhitespace sql i"
  by (simp add: skipSQLWhitespace_def)

lemma skipSQLWhitespace_le: "i \<le> length sql \<Longrightarrow> skipSQLWhitespace sql i \<le> length sql"
  using length_takeWhile_le [of sql_blank "drop i sql"] by (simp add: skipSQLWhitespace_def)

lemma index_byte_bound:
  assumes "index_byte s c = Some k"
  shows "k < length s \<and> s ! k = c \<and> (\<forall>j<k. s ! j \<noteq> c)"
proof -
  from assms have k: "k = length (takeWhile (\<lambda>x. x \<noteq> c) s)" "k < length s"
    by (simp_all add: index_byte_def Let_def split: if_splits)
  then have "s ! k = c" using nth_length_takeWhile [of "\<lambda>x. x \<noteq> c" s] by simp
  moreover have "s ! j \<noteq> c" if "j < k" for j
    using that k(1) takeWhile_nth [of j "\<lambda>x. x \<noteq> c" s] nth_mem [of j "takeWhile (\<lambda>x. x \<noteq> c) s"] set_takeWhileD by fastforce
  ultimately show ?thesis using k(2) by simp
qed

section \<open>Named macros\<close>

text \<open>\<open>None\<close>: no macro at the offset. Otherwise the name and the offset after the closing parenthesis.\<close>

definition parseNamedMacroAt :: "string \<Rightarrow> nat \<Rightarrow> string \<Rightarrow> (string \<times> nat) option result" where
  "parseNamedMacroAt sql start macro =
     (if length sql - start < length macro \<or> \<not> equal_fold (sub_text sql start (start + length macro)) macro then Inr None
      else if start > 0 \<and> (isSQLIdentifierByte (sql ! (start - 1)) \<or> sql ! (start - 1) = CHR ''.'') then Inr None
      else let open_at = skipSQLWhitespace sql (start + length macro);
               quote_at = skipSQLWhitespace sql (open_at + 1) in
        if open_at \<ge> length sql \<or> sql ! open_at \<noteq> CHR ''(''
        then Inl (Errorf ''invalid %s at byte %d: expected opening parenthesis'' [macro, itoa (int start)])
        else if quote_at \<ge> length sql \<or> sql ! quote_at \<noteq> single_quote
        then Inl (Errorf ''invalid %s at byte %d: expected a single-quoted name'' [macro, itoa (int start)])
        else case index_byte (drop (quote_at + 1) sql) single_quote of
            None \<Rightarrow> Inl (Errorf ''invalid %s at byte %d: expected closing quote'' [macro, itoa (int start)])
          | Some closing \<Rightarrow>
              (let name = sub_text sql (quote_at + 1) (quote_at + 1 + closing);
                   close_at = skipSQLWhitespace sql (quote_at + 1 + closing + 1) in
               if \<not> isGoIdentifier name then Inl (Errorf ''invalid %s name %q'' [macro, name])
               else if close_at \<ge> length sql \<or> sql ! close_at \<noteq> CHR '')''
               then Inl (Errorf ''invalid %s(%q): expected closing parenthesis'' [macro, name])
               else Inr (Some (name, close_at + 1))))"

text \<open>The check for the closing quote after the name in the code cannot fail: the search found the quote.\<close>

lemma parseNamedMacroAt_end:
  assumes "parseNamedMacroAt sql start macro = Inr (Some (name, e))"
  shows "start < e \<and> e \<le> length sql"
proof -
  from assms obtain closing where "e = skipSQLWhitespace sql (skipSQLWhitespace sql (skipSQLWhitespace sql (start + length macro) + 1) + 1 + closing + 1) + 1"
    and "e - 1 < length sql"
    by (auto simp: parseNamedMacroAt_def Let_def split: if_splits option.splits)
  moreover have "start < skipSQLWhitespace sql (skipSQLWhitespace sql (skipSQLWhitespace sql (start + length macro) + 1) + 1 + closing + 1) + 1"
    using skipSQLWhitespace_ge [of "start + length macro" sql] skipSQLWhitespace_ge [of "skipSQLWhitespace sql (start + length macro) + 1" sql]
      skipSQLWhitespace_ge [of "skipSQLWhitespace sql (skipSQLWhitespace sql (start + length macro) + 1) + 1 + closing + 1" sql]
    by linarith
  ultimately show ?thesis by simp
qed

definition namedArgPrefix :: string where "namedArgPrefix = ''chgen.arg''"

definition parseNamedArgAt :: "string \<Rightarrow> nat \<Rightarrow> (string \<times> nat) option result" where
  "parseNamedArgAt sql start = parseNamedMacroAt sql start namedArgPrefix"

lemma parseNamedArgAt_end: "parseNamedArgAt sql i = Inr (Some (name, e)) \<Longrightarrow> i < e \<and> e \<le> length sql"
  unfolding parseNamedArgAt_def by (rule parseNamedMacroAt_end)

text \<open>The loop of \<^verbatim>\<open>normalizeNamedArgs\<close>: the text written and the names met so far.\<close>

function scan_named_args :: "string \<Rightarrow> nat \<Rightarrow> string \<Rightarrow> string list \<Rightarrow> (string \<times> string list) result" where
  "scan_named_args sql i normalized names =
     (if i \<ge> length sql then Inr (normalized, names)
      else if sql ! i \<in> set quote_bytes then
        scan_named_args sql (skipSQLQuoted sql i (sql ! i)) (normalized @ sub_text sql i (skipSQLQuoted sql i (sql ! i))) names
      else if has_prefix (drop i sql) ''--'' then
        scan_named_args sql (skipSQLLineComment sql i) (normalized @ sub_text sql i (skipSQLLineComment sql i)) names
      else if has_prefix (drop i sql) ''/*'' then
        scan_named_args sql (skipSQLBlockComment sql i) (normalized @ sub_text sql i (skipSQLBlockComment sql i)) names
      else case parseNamedArgAt sql i of
          Inl err \<Rightarrow> Inl err
        | Inr (Some (name, e)) \<Rightarrow> scan_named_args sql e (normalized @ ''?'') (names @ [name])
        | Inr None \<Rightarrow> scan_named_args sql (i + 1) (normalized @ [sql ! i]) names)"
  by pat_completeness auto
termination
proof (relation "measure (\<lambda>(sql, i, _, _). length sql - i)", goal_cases)
  case (2 sql i) then show ?case using skipSQLQuoted_bounds [of i sql "sql ! i"] by auto
next
  case (3 sql i) then show ?case using skipSQLLineComment_bounds [of i sql] by auto
next
  case (4 sql i) then show ?case using skipSQLBlockComment_bounds [of i sql] by auto
qed (auto dest!: parseNamedArgAt_end)

declare scan_named_args.simps [simp del]

definition normalizeNamedArgs :: "string \<Rightarrow> (string \<times> string list) result" where
  "normalizeNamedArgs sql = scan_named_args sql 0 [] []"

text \<open>
  \<^verbatim>\<open>rejectRawPlaceholders\<close>: the line of the first raw placeholder of a query, from the line of the first
  line of its body.
\<close>

definition newlines_in :: "string \<Rightarrow> nat \<Rightarrow> nat \<Rightarrow> nat" where
  "newlines_in sql i j = count_list (sub_text sql i j) newline"

function raw_placeholder :: "string \<Rightarrow> nat \<Rightarrow> nat \<Rightarrow> nat option" where
  "raw_placeholder sql i line =
     (if i \<ge> length sql then None
      else if sql ! i = newline then raw_placeholder sql (i + 1) (line + 1)
      else if sql ! i \<in> set quote_bytes then
        raw_placeholder sql (skipSQLQuoted sql i (sql ! i)) (line + newlines_in sql i (skipSQLQuoted sql i (sql ! i)))
      else if has_prefix (drop i sql) ''--'' then
        raw_placeholder sql (skipSQLLineComment sql i) (line + newlines_in sql i (skipSQLLineComment sql i))
      else if has_prefix (drop i sql) ''/*'' then
        raw_placeholder sql (skipSQLBlockComment sql i) (line + newlines_in sql i (skipSQLBlockComment sql i))
      else if sql ! i = CHR ''?'' then Some line
      else raw_placeholder sql (i + 1) line)"
  by pat_completeness auto
termination
proof (relation "measure (\<lambda>(sql, i, _). length sql - i)", goal_cases)
  case (3 sql i) then show ?case using skipSQLQuoted_bounds [of i sql "sql ! i"] by auto
next
  case (4 sql i) then show ?case using skipSQLLineComment_bounds [of i sql] by auto
next
  case (5 sql i) then show ?case using skipSQLBlockComment_bounds [of i sql] by auto
qed auto

declare raw_placeholder.simps [simp del]

section \<open>Table choices\<close>

text \<open>The text with the selected tables, and the choices that it uses.\<close>

function scan_table_choices ::
    "string \<Rightarrow> nat \<Rightarrow> (string \<rightharpoonup> string) \<Rightarrow> string \<Rightarrow> string list \<Rightarrow> (string \<times> string list) result" where
  "scan_table_choices sql i selected out used =
     (if i \<ge> length sql then Inr (out, used)
      else if sqlDataEnd sql i > i then scan_table_choices sql (sqlDataEnd sql i) selected (out @ sub_text sql i (sqlDataEnd sql i)) used
      else case parseNamedMacroAt sql i ''chgen.table'' of
          Inl err \<Rightarrow> Inl err
        | Inr None \<Rightarrow> scan_table_choices sql (i + 1) selected (out @ [sql ! i]) used
        | Inr (Some (name, e)) \<Rightarrow> (case selected name of
              None \<Rightarrow> Inl (Errorf ''chgen.table(%q) has no chgen:table declaration'' [name])
            | Some table \<Rightarrow> scan_table_choices sql e selected (out @ table) (List.insert name used)))"
  by pat_completeness auto
termination
  by (relation "measure (\<lambda>(sql, i, _). length sql - i)") (auto dest!: parseNamedMacroAt_end)

declare scan_table_choices.simps [simp del]

definition replaceTableChoices :: "string \<Rightarrow> (string \<rightharpoonup> string) \<Rightarrow> (string \<times> string list) result" where
  "replaceTableChoices sql selected = scan_table_choices sql 0 selected [] []"

section \<open>External tables\<close>

text \<open>The parameter name (empty when it is left out), the schema and the offset after the macro.\<close>

definition externalTablePrefix :: string where "externalTablePrefix = ''chgen.external''"

definition external_name :: "string \<Rightarrow> nat \<Rightarrow> nat \<Rightarrow> (string \<times> nat) result" where
  "external_name sql start i =
     (if \<not> (i < length sql \<and> sql ! i = single_quote) then Inr ([], i)
      else case index_byte (drop (i + 1) sql) single_quote of
          None \<Rightarrow> Inl (Errorf ''invalid chgen.external parameter name at byte %d'' [itoa (int start)])
        | Some closing \<Rightarrow>
            (let goName = sub_text sql (i + 1) (i + 1 + closing);
                 comma_at = skipSQLWhitespace sql (i + 1 + closing + 1) in
             if \<not> isGoIdentifier goName then Inl (Errorf ''invalid chgen.external parameter name at byte %d'' [itoa (int start)])
             else if comma_at \<ge> length sql \<or> sql ! comma_at \<noteq> CHR '',''
             then Inl (Errorf ''invalid chgen.external(%q) at byte %d: expected schema after comma'' [goName, itoa (int start)])
             else Inr (goName, skipSQLWhitespace sql (comma_at + 1))))"

definition parseExternalAt :: "string \<Rightarrow> nat \<Rightarrow> (string \<times> string \<times> nat) option result" where
  "parseExternalAt sql start =
     (if length sql - start < length externalTablePrefix
        \<or> \<not> equal_fold (sub_text sql start (start + length externalTablePrefix)) externalTablePrefix then Inr None
      else if start > 0 \<and> (isSQLIdentifierByte (sql ! (start - 1)) \<or> sql ! (start - 1) = CHR ''.'') then Inr None
      else let open_at = skipSQLWhitespace sql (start + length externalTablePrefix) in
        if open_at \<ge> length sql \<or> sql ! open_at \<noteq> CHR ''(''
        then Inl (Errorf ''invalid chgen.external at byte %d: expected opening parenthesis'' [itoa (int start)])
        else bind_res (external_name sql start (skipSQLWhitespace sql (open_at + 1))) (\<lambda>(goName, schemaStart).
          if schemaStart \<ge> length sql \<or> \<not> letter_or_underscore (sql ! schemaStart)
          then Inl (Errorf ''invalid chgen.external at byte %d: expected schema identifier'' [itoa (int start)])
          else let schemaEnd = identifier_end sql schemaStart;
                   schemaName = sub_text sql schemaStart schemaEnd;
                   close_at = skipSQLWhitespace sql schemaEnd in
            if close_at \<ge> length sql \<or> sql ! close_at \<noteq> CHR '')''
            then Inl (Errorf ''invalid chgen.external(%s) at byte %d: expected closing parenthesis'' [schemaName, itoa (int start)])
            else Inr (Some (goName, schemaName, close_at + 1))))"

lemma external_name_end: "external_name sql start i = Inr (goName, j) \<Longrightarrow> i \<le> j"
proof -
  assume a: "external_name sql start i = Inr (goName, j)"
  show ?thesis
  proof (cases "i < length sql \<and> sql ! i = single_quote")
    case False with a show ?thesis by (simp add: external_name_def)
  next
    case True
    with a obtain closing where "j = skipSQLWhitespace sql (skipSQLWhitespace sql (i + 1 + closing + 1) + 1)"
      by (auto simp: external_name_def Let_def split: if_splits option.splits)
    then show ?thesis
      using skipSQLWhitespace_ge [of "i + 1 + closing + 1" sql] skipSQLWhitespace_ge [of "skipSQLWhitespace sql (i + 1 + closing + 1) + 1" sql]
      by linarith
  qed
qed

lemma identifier_end_ge: "i \<le> identifier_end sql i"
  by (simp add: identifier_end_def)

lemma parseExternalAt_end:
  assumes "parseExternalAt sql start = Inr (Some (goName, schemaName, e))"
  shows "start < e \<and> e \<le> length sql"
proof -
  define open_at where "open_at = skipSQLWhitespace sql (start + length externalTablePrefix)"
  from assms obtain schemaStart where
    name: "external_name sql start (skipSQLWhitespace sql (open_at + 1)) = Inr (goName, schemaStart)"
    and e: "e = skipSQLWhitespace sql (identifier_end sql schemaStart) + 1" "e \<le> length sql"
    by (auto simp: parseExternalAt_def Let_def open_at_def split: if_splits)
  have "start \<le> open_at" using skipSQLWhitespace_ge [of "start + length externalTablePrefix" sql] by (simp add: open_at_def)
  also have "open_at < open_at + 1" by simp
  also have "open_at + 1 \<le> skipSQLWhitespace sql (open_at + 1)" by (rule skipSQLWhitespace_ge)
  also have "\<dots> \<le> schemaStart" using name by (rule external_name_end)
  also have "\<dots> \<le> identifier_end sql schemaStart" by (rule identifier_end_ge)
  also have "\<dots> \<le> skipSQLWhitespace sql (identifier_end sql schemaStart)" by (rule skipSQLWhitespace_ge)
  finally show ?thesis using e by simp
qed

end
