(* ===== verification/ContractText.thy ===== *)
theory ContractText
  imports QueryText Infer
begin

text \<open>
  The contracts in the text of a query: \<^verbatim>\<open>chgen.assumeType\<close> as an internal call for the resolver and as
  a parenthesised expression for the server (\<^verbatim>\<open>expression_contract.go\<close>), the header lines
  \<^verbatim>\<open>-- result-chtype:\<close> (\<^verbatim>\<open>result_contract.go\<close>), and the scan of a statement that is not checked
  (\<^verbatim>\<open>unchecked_exec.go\<close>).
\<close>

section \<open>Expression contracts\<close>

text \<open>The comma and the closing parenthesis of the macro whose opening parenthesis is at the offset.\<close>

definition contract_shape_error :: error where
  "contract_shape_error = Errorf ''%s requires (expression, 'ClickHouseType')'' [expressionContractMacro]"

function contract_bounds :: "string \<Rightarrow> nat \<Rightarrow> nat \<Rightarrow> nat \<Rightarrow> nat option \<Rightarrow> (nat \<times> nat) result" where
  "contract_bounds sql open_at i depth comma =
     (if i \<ge> length sql then Inl contract_shape_error
      else if sqlDataEnd sql i > i then contract_bounds sql open_at (sqlDataEnd sql i) depth comma
      else if sql ! i = CHR ''('' \<or> sql ! i = CHR ''['' then contract_bounds sql open_at (i + 1) (depth + 1) comma
      else if sql ! i = CHR '')'' \<or> sql ! i = CHR '']'' then
        (if depth > 1 then contract_bounds sql open_at (i + 1) (depth - 1) comma
         else case comma of
             None \<Rightarrow> Inl contract_shape_error
           | Some comma_at \<Rightarrow>
               if trim_space (sub_text sql (open_at + 1) comma_at) = [] then Inl contract_shape_error
               else Inr (comma_at, i))
      else if sql ! i = CHR '','' \<and> depth = 1 then
        (if comma \<noteq> None then Inl (Errorf ''%s requires exactly two arguments'' [expressionContractMacro])
         else contract_bounds sql open_at (i + 1) depth (Some i))
      else contract_bounds sql open_at (i + 1) depth comma)"
  by pat_completeness auto
termination
  by (relation "measure (\<lambda>(sql, _, i, _). length sql - i)") auto

declare contract_bounds.simps [simp del]

definition expressionContractBounds :: "string \<Rightarrow> nat \<Rightarrow> (nat \<times> nat) result" where
  "expressionContractBounds sql open_at = contract_bounds sql open_at (open_at + 1) 1 None"

lemma contract_bounds_range:
  assumes "contract_bounds sql open_at i depth comma = Inr (comma_at, close_at)"
    and "open_at < i" "i \<le> length sql" "\<And>c. comma = Some c \<Longrightarrow> open_at < c \<and> c < i"
  shows "open_at < comma_at \<and> comma_at < close_at \<and> close_at < length sql"
  using assms
proof (induction sql open_at i depth comma rule: contract_bounds.induct)
  case (1 sql open_at i depth comma)
  note eq = "1.prems"(1) [unfolded contract_bounds.simps [of sql open_at i depth comma]]
  show ?case
  proof (cases "i \<ge> length sql")
    case True with eq show ?thesis by simp
  next
    case inside: False
    consider (data) "sqlDataEnd sql i > i"
      | (opens) "\<not> sqlDataEnd sql i > i" "sql ! i = CHR ''('' \<or> sql ! i = CHR ''[''"
      | (closing) "\<not> sqlDataEnd sql i > i" "sql ! i = CHR '')'' \<or> sql ! i = CHR '']''"
      | (comma) "\<not> sqlDataEnd sql i > i" "sql ! i = CHR '',''" "depth = 1"
      | (byte) "\<not> sqlDataEnd sql i > i" "\<not> (sql ! i = CHR ''('' \<or> sql ! i = CHR ''['')"
          "\<not> (sql ! i = CHR '')'' \<or> sql ! i = CHR '']'')" "\<not> (sql ! i = CHR '','' \<and> depth = 1)"
      by blast
    then show ?thesis
    proof cases
      case data
      with inside eq "1.prems" sqlDataEnd_bounds [of i sql] show ?thesis by (intro "1.IH"(1)) force+
    next
      case opens
      with inside eq "1.prems" show ?thesis by (intro "1.IH"(2)) force+
    next
      case closing
      show ?thesis
      proof (cases "depth > 1")
        case True
        with closing inside eq "1.prems" show ?thesis by (intro "1.IH"(3)) force+
      next
        case False
        with closing inside eq "1.prems" show ?thesis by (force split: option.splits if_splits)
      qed
    next
      case comma
      with inside eq "1.prems" show ?thesis by (intro "1.IH"(4)) (force split: if_splits)+
    next
      case byte
      have "contract_bounds sql open_at (i + 1) depth comma = Inr (comma_at, close_at)"
        using eq unfolding if_not_P [OF inside] if_not_P [OF byte(1)] if_not_P [OF byte(2)] if_not_P [OF byte(3)] if_not_P [OF byte(4)] by simp
      with inside byte "1.prems"(2,4) show ?thesis by (intro "1.IH"(5)) force+
    qed
  qed
qed

lemma expressionContractBounds_range:
  assumes "expressionContractBounds sql open_at = Inr (comma_at, close_at)" and "open_at < length sql"
  shows "open_at < comma_at \<and> comma_at < close_at \<and> close_at < length sql"
  using contract_bounds_range [of sql open_at "open_at + 1" 1 None comma_at close_at] assms
  by (simp add: expressionContractBounds_def)

text \<open>
  \<open>runtime\<close> writes the expression alone, in parentheses; otherwise the internal call with both arguments.
  The first argument is rewritten on its own.
\<close>

definition contract_call :: "bool \<Rightarrow> string \<Rightarrow> nat \<Rightarrow> nat \<Rightarrow> string \<Rightarrow> string" where
  "contract_call runtime sql comma_at close_at inner =
     (if runtime then [] else expressionContractFunction) @ ''('' @ inner
     @ (if runtime then [] else sub_text sql comma_at close_at) @ '')''"

function scan_contracts :: "bool \<Rightarrow> string \<Rightarrow> nat \<Rightarrow> string \<Rightarrow> string result" where
  "scan_contracts runtime sql i out =
     (if i \<ge> length sql then Inr out
      else if sqlDataEnd sql i > i then scan_contracts runtime sql (sqlDataEnd sql i) (out @ sub_text sql i (sqlDataEnd sql i))
      else if sqlKeywordAt sql i expressionContractFunction
      then Inl (Errorf ''%s is reserved; use %s(expression, 'ClickHouseType')'' [expressionContractFunction, expressionContractMacro])
      else if \<not> sqlKeywordAt sql i expressionContractMacro \<or> i > 0 \<and> sql ! (i - 1) = CHR ''.''
      then scan_contracts runtime sql (i + 1) (out @ [sql ! i])
      else let open_at = skipSQLWhitespace sql (i + length expressionContractMacro) in
        if open_at \<ge> length sql \<or> sql ! open_at \<noteq> CHR ''('' then Inl contract_shape_error
        else case expressionContractBounds sql open_at of
            Inl err \<Rightarrow> Inl err
          | Inr (comma_at, close_at) \<Rightarrow>
              bind_res (scan_contracts runtime (sub_text sql (open_at + 1) comma_at) 0 []) (\<lambda>inner.
                scan_contracts runtime sql (close_at + 1) (out @ contract_call runtime sql comma_at close_at inner)))"
  by pat_completeness auto
termination
proof (relation "measures [\<lambda>(_, sql, _, _). length sql, \<lambda>(_, sql, i, _). length sql - i]", goal_cases)
  case (4 runtime sql i out open_at res comma_at close_at)
  then show ?case using expressionContractBounds_range [of sql open_at comma_at close_at] by (auto simp: sub_text_def)
next
  case (5 runtime sql i out open_at res comma_at close_at)
  then show ?case using expressionContractBounds_range [of sql open_at comma_at close_at]
      skipSQLWhitespace_ge [of "i + length expressionContractMacro" sql] by auto
qed auto

declare scan_contracts.simps [simp del]

definition rewriteExpressionContracts :: "string \<Rightarrow> bool \<Rightarrow> string result" where
  "rewriteExpressionContracts sql runtimeSQL = scan_contracts runtimeSQL sql 0 []"

section \<open>Result contracts\<close>

definition resultCHTypeDirective :: string where "resultCHTypeDirective = ''-- result-chtype:''"

text \<open>The lines with a directive: a comment that is alone on its line, outside quoted data.\<close>

function contract_lines :: "string \<Rightarrow> nat \<Rightarrow> nat list" where
  "contract_lines sql i =
     (if i \<ge> length sql then []
      else if sql ! i \<in> set quote_bytes then contract_lines sql (skipSQLQuoted sql i (sql ! i))
      else if has_prefix (drop i sql) ''/*'' then contract_lines sql (skipSQLBlockComment sql i)
      else if has_prefix (drop i sql) ''--'' then
        (if trim_space (sub_text sql (line_start sql i) i) = []
            \<and> has_prefix (sub_text sql i (skipSQLLineComment sql i)) resultCHTypeDirective
         then [lineOfOffset sql i] else [])
        @ contract_lines sql (skipSQLLineComment sql i)
      else contract_lines sql (i + 1))"
  by pat_completeness auto
termination
proof (relation "measure (\<lambda>(sql, i). length sql - i)", goal_cases)
  case (2 sql i) then show ?case using skipSQLQuoted_bounds [of i sql "sql ! i"] by auto
next
  case (3 sql i) then show ?case using skipSQLBlockComment_bounds [of i sql] by auto
next
  case (4 sql i) then show ?case using skipSQLLineComment_bounds [of i sql] by auto
qed auto

declare contract_lines.simps [simp del]

definition resultContractCommentLines :: "string \<Rightarrow> nat list" where
  "resultContractCommentLines sql = contract_lines sql 0"

text \<open>
  The statements that the SQL parser reads from a text: the columns of a CREATE TABLE with a column
  list, each the type and the offset of its end (\<open>None\<close>: no column definition or no type).
\<close>

datatype contract_statement = ContractTable "(col_type \<times> int) option list" | OtherStatement

type_synonym contract_parser = "string \<Rightarrow> contract_statement list option"

definition contract_prefix :: string where
  "contract_prefix = ''CREATE TABLE __chgen_contract (value ''"

definition contract_type :: "(col_type \<Rightarrow> chtype result) \<Rightarrow> string \<Rightarrow> contract_statement list option \<Rightarrow> chtype result" where
  "contract_type parseType typeText statements = (case statements of
       Some [ContractTable [column]] \<Rightarrow>
         (let only = Inl (Errorf ''result-chtype must contain only a ClickHouse type'' []) in
          case column of
            None \<Rightarrow> only
          | Some (column_ast, type_end) \<Rightarrow>
              (let e = type_end - int (length contract_prefix) in
               if e \<noteq> int (length typeText)
                  \<and> \<not> (e = int (length typeText) - 1 \<and> typeText ! nat e = CHR '')'')
               then only
               else bind_res (parseType column_ast) (\<lambda>t. bind_res (goType t) (\<lambda>_. Inr t))))
     | Some [_] \<Rightarrow> Inl (Errorf ''expected exactly one ClickHouse type'' [])
     | _ \<Rightarrow> Inl (Errorf ''invalid result-chtype %q'' [typeText]))"

definition contract_alias :: "string \<Rightarrow> bool" where
  "contract_alias alias \<longleftrightarrow> alias \<noteq> [] \<and> letter_or_underscore (hd alias) \<and> list_all isSQLIdentifierByte alias"

definition parseTypeContractWith ::
    "contract_parser \<Rightarrow> string \<Rightarrow> nat \<Rightarrow> (col_type \<Rightarrow> chtype result) \<Rightarrow> (string \<times> chtype \<times> nat) result" where
  "parseTypeContractWith parser line lineNumber parseType =
     (let body = trim_space (trim_prefix line resultCHTypeDirective);
          separator = length (takeWhile (\<lambda>c. \<not> is_space c) body);
          alias = take separator body; typeText = trim_space (drop separator body) in
      if separator = length body \<or> separator < 1
      then Inl (Errorf ''expected -- result-chtype: SQLAlias ClickHouseType'' [])
      else if \<not> contract_alias alias
      then Inl (Errorf ''result-chtype alias %q must be a simple identifier'' [alias])
      else bind_res (contract_type parseType typeText (parser (contract_prefix @ typeText @ '')'')))
             (\<lambda>t. Inr (alias, t, lineNumber)))"

definition parse_result_contract :: "contract_parser \<Rightarrow> string \<Rightarrow> nat \<Rightarrow> (string \<times> chtype \<times> nat) result" where
  "parse_result_contract parser line lineNumber = parseTypeContractWith parser line lineNumber parseCHType"

section \<open>Statements that are not checked\<close>

definition uncheckedExecDirective :: string where "uncheckedExecDirective = ''-- chgen:unchecked-exec''"

definition scanExecQuote :: "string \<Rightarrow> nat \<Rightarrow> nat result" where
  "scanExecQuote sql start =
     (if snd (quoted_close sql (sql ! start) (start + 1)) then Inr (fst (quoted_close sql (sql ! start) (start + 1)))
      else Inl (Errorf ''unterminated quoted SQL'' []))"

definition one_statement :: "string \<Rightarrow> error" where
  "one_statement where_at = Errorf ''%s requires exactly one SQL statement'' [where_at]"

function scan_exec :: "string \<Rightarrow> string \<Rightarrow> nat \<Rightarrow> nat \<Rightarrow> bool \<Rightarrow> bool \<Rightarrow> nat result" where
  "scan_exec sql where_at i placeholders hasContent ended =
     (if i \<ge> length sql then
        (if hasContent then Inr placeholders else Inl (Errorf ''%s requires a SQL statement'' [where_at]))
      else if sql_blank (sql ! i) then scan_exec sql where_at (i + 1) placeholders hasContent ended
      else if has_prefix (drop i sql) ''--'' then scan_exec sql where_at (skipSQLLineComment sql i) placeholders hasContent ended
      else if has_prefix (drop i sql) ''/*'' then
        (if first_index (drop (i + 2) sql) ''*/'' = None then Inl (Errorf ''%s: unterminated block comment'' [where_at])
         else scan_exec sql where_at (skipSQLBlockComment sql i) placeholders hasContent ended)
      else if sql ! i \<in> set quote_bytes then
        (if ended then Inl (one_statement where_at)
         else case scanExecQuote sql i of
             Inl err \<Rightarrow> Inl (Wrapf ''%s: %w'' [where_at] err)
           | Inr e \<Rightarrow> scan_exec sql where_at e placeholders True ended)
      else if sql ! i = CHR '';'' then
        (if ended \<or> \<not> hasContent then Inl (one_statement where_at)
         else scan_exec sql where_at (i + 1) placeholders hasContent True)
      else if ended then Inl (one_statement where_at)
      else scan_exec sql where_at (i + 1) (if sql ! i = CHR ''?'' then placeholders + 1 else placeholders) True ended)"
  by pat_completeness auto
termination
proof (relation "measure (\<lambda>(sql, _, i, _). length sql - i)", goal_cases)
  case (3 sql where_at i) then show ?case using skipSQLLineComment_bounds [of i sql] by auto
next
  case (4 sql where_at i) then show ?case using skipSQLBlockComment_bounds [of i sql] by auto
next
  case (5 sql where_at i) then show ?case using skipSQLQuoted_bounds [of i sql "sql ! i"]
    by (auto simp: scanExecQuote_def skipSQLQuoted_def split: if_splits)
qed auto

declare scan_exec.simps [simp del]

definition scanSingleExecSQL :: "string \<Rightarrow> string \<Rightarrow> nat result" where
  "scanSingleExecSQL sql where_at = scan_exec sql where_at 0 0 False False"

definition validateUncheckedExecSQL :: "string \<Rightarrow> nat result" where
  "validateUncheckedExecSQL sql = scanSingleExecSQL sql uncheckedExecDirective"

end
