(* ===== verification/ParserText.thy ===== *)
theory ParserText
  imports QueryText
begin

text \<open>
  The copies of a query that only the SQL parser sees: parentheses for the operand of a simple CASE
  that starts with a prefix operator (\<^verbatim>\<open>parser_normalize.go\<close>), blanks for the modifier of
  LIMIT ... WITH TIES, and a statement without its trailing SETTINGS (\<^verbatim>\<open>resolver.go\<close>). The parser is a
  parameter.
\<close>

section \<open>The operand of a simple CASE\<close>

definition casePrefixOperatorAt :: "string \<Rightarrow> nat \<Rightarrow> bool" where
  "casePrefixOperatorAt sql i \<longleftrightarrow> sql ! i = CHR ''+'' \<or> sql ! i = CHR ''-'' \<or> sqlKeywordAt sql i ''NOT''"

text \<open>The last space or tab before the end, with only line breaks after it. \<open>None\<close> is the code's -1.\<close>

fun horizontalPaddingBefore :: "string \<Rightarrow> nat \<Rightarrow> nat \<Rightarrow> nat option" where
  "horizontalPaddingBefore sql 0 start = None"
| "horizontalPaddingBefore sql (Suc i) start =
     (if i < start then None
      else if sql ! i = CHR '' '' \<or> sql ! i = CHR 0x09 then Some i
      else if sql ! i \<noteq> newline \<and> sql ! i \<noteq> CHR 0x0D then None
      else horizontalPaddingBefore sql i start)"

function case_when_start :: "string \<Rightarrow> nat \<Rightarrow> nat \<Rightarrow> nat \<Rightarrow> nat \<Rightarrow> nat option" where
  "case_when_start sql i parens brackets cases =
     (if i \<ge> length sql then None
      else if sql ! i \<in> set quote_bytes then case_when_start sql (skipSQLQuoted sql i (sql ! i)) parens brackets cases
      else if has_prefix (drop i sql) ''--'' then case_when_start sql (skipSQLLineComment sql i) parens brackets cases
      else if has_prefix (drop i sql) ''/*'' then case_when_start sql (skipSQLBlockComment sql i) parens brackets cases
      else if sql ! i = CHR ''('' then case_when_start sql (i + 1) (parens + 1) brackets cases
      else if sql ! i = CHR '')'' then (if parens = 0 then None else case_when_start sql (i + 1) (parens - 1) brackets cases)
      else if sql ! i = CHR ''['' then case_when_start sql (i + 1) parens (brackets + 1) cases
      else if sql ! i = CHR '']'' then (if brackets = 0 then None else case_when_start sql (i + 1) parens (brackets - 1) cases)
      else if parens = 0 \<and> brackets = 0 \<and> sqlKeywordAt sql i ''CASE'' then case_when_start sql (i + 4) parens brackets (cases + 1)
      else if parens = 0 \<and> brackets = 0 \<and> sqlKeywordAt sql i ''END'' then
        (if cases = 0 then None else case_when_start sql (i + 3) parens brackets (cases - 1))
      else if parens = 0 \<and> brackets = 0 \<and> cases = 0 \<and> sqlKeywordAt sql i ''WHEN'' then Some i
      else case_when_start sql (i + 1) parens brackets cases)"
  by pat_completeness auto
termination
proof (relation "measure (\<lambda>(sql, i, _). length sql - i)", goal_cases)
  case (2 sql i) then show ?case using skipSQLQuoted_bounds [of i sql "sql ! i"] by auto
next
  case (3 sql i) then show ?case using skipSQLLineComment_bounds [of i sql] by auto
next
  case (4 sql i) then show ?case using skipSQLBlockComment_bounds [of i sql] by auto
qed auto

declare case_when_start.simps [simp del]

definition simpleCaseWhenStart :: "string \<Rightarrow> nat \<Rightarrow> nat option" where
  "simpleCaseWhenStart sql operandStart = case_when_start sql operandStart 0 0 0"

text \<open>The copy, and the flags \<^verbatim>\<open>unsafe\<close> and \<^verbatim>\<open>plus\<close>, after the CASE at the offset.\<close>

definition wrap_case_operand :: "string \<Rightarrow> nat \<Rightarrow> string \<times> bool \<times> bool \<Rightarrow> string \<times> bool \<times> bool" where
  "wrap_case_operand sql i = (\<lambda>(normalized, unsafe, has_plus).
     let operandStart = skipSQLWhitespace sql (i + 4) in
     if operandStart = i + 4 \<or> operandStart \<ge> length sql \<or> \<not> casePrefixOperatorAt sql operandStart
     then (normalized, unsafe, has_plus)
     else case simpleCaseWhenStart sql operandStart of
         None \<Rightarrow> (normalized, unsafe, has_plus)
       | Some whenStart \<Rightarrow>
           (case (horizontalPaddingBefore sql operandStart (i + 4), horizontalPaddingBefore sql whenStart operandStart) of
              (Some open_at, Some close_at) \<Rightarrow>
                (normalized[open_at := CHR ''('', close_at := CHR '')''], unsafe, has_plus \<or> sql ! operandStart = CHR ''+'')
            | _ \<Rightarrow> (normalized, True, has_plus)))"

function scan_case_operands :: "string \<Rightarrow> nat \<Rightarrow> string \<times> bool \<times> bool \<Rightarrow> string \<times> bool \<times> bool" where
  "scan_case_operands sql i st =
     (if i \<ge> length sql then st
      else if sql ! i \<in> set quote_bytes then scan_case_operands sql (skipSQLQuoted sql i (sql ! i)) st
      else if has_prefix (drop i sql) ''--'' then scan_case_operands sql (skipSQLLineComment sql i) st
      else if has_prefix (drop i sql) ''/*'' then scan_case_operands sql (skipSQLBlockComment sql i) st
      else if sqlKeywordAt sql i ''CASE'' then scan_case_operands sql (i + 4) (wrap_case_operand sql i st)
      else scan_case_operands sql (i + 1) st)"
  by pat_completeness auto
termination
proof (relation "measure (\<lambda>(sql, i, _). length sql - i)", goal_cases)
  case (2 sql i) then show ?case using skipSQLQuoted_bounds [of i sql "sql ! i"] by auto
next
  case (3 sql i) then show ?case using skipSQLLineComment_bounds [of i sql] by auto
next
  case (4 sql i) then show ?case using skipSQLBlockComment_bounds [of i sql] by auto
qed auto

declare scan_case_operands.simps [simp del]

definition normalizeCasePrefixOperands :: "string \<Rightarrow> string \<times> bool \<times> bool" where
  "normalizeCasePrefixOperands sql = scan_case_operands sql 0 (sql, False, False)"

section \<open>LIMIT ... WITH TIES\<close>

definition previousSQLWord :: "string \<Rightarrow> nat \<Rightarrow> string" where
  "previousSQLWord sql i = rev (takeWhile isSQLIdentifierByte (dropWhile sql_blank (rev (take i sql))))"

definition non_scalar_contexts :: "string list" where
  "non_scalar_contexts = [''FROM'', ''JOIN'', ''IN'', ''EXISTS'', ''AS'']"

text \<open>The parenthesis depth, and per depth: an ORDER BY, a LIMIT, no scalar subquery.\<close>

record ties_state =
  ties_depth :: nat
  ties_ordered :: "nat \<Rightarrow> bool"
  ties_limit :: "nat \<Rightarrow> bool"
  ties_non_scalar :: "nat \<Rightarrow> bool"

definition open_parenthesis :: "string \<Rightarrow> nat \<Rightarrow> ties_state \<Rightarrow> ties_state" where
  "open_parenthesis sql i st =
     (let depth = ties_depth st + 1 in
      st\<lparr>ties_depth := depth,
         ties_non_scalar := (ties_non_scalar st)(depth := list_ex (equal_fold (previousSQLWord sql i)) non_scalar_contexts)\<rparr>)"

definition close_parenthesis :: "ties_state \<Rightarrow> ties_state" where
  "close_parenthesis st =
     (let depth = ties_depth st in
      st\<lparr>ties_ordered := (ties_ordered st)(depth := False), ties_limit := (ties_limit st)(depth := False),
         ties_non_scalar := (ties_non_scalar st)(depth := False), ties_depth := depth - 1\<rparr>)"

definition enter_select :: "ties_state \<Rightarrow> ties_state" where
  "enter_select st = st\<lparr>ties_ordered := (ties_ordered st)(ties_depth st := False), ties_limit := (ties_limit st)(ties_depth st := False)\<rparr>"

definition meet_order :: "string \<Rightarrow> nat \<Rightarrow> ties_state \<Rightarrow> ties_state" where
  "meet_order sql i st =
     (if sqlKeywordAt sql (skipSQLWhitespace sql (i + 5)) ''BY''
      then st\<lparr>ties_ordered := (ties_ordered st)(ties_depth st := True)\<rparr> else st)"

definition meet_limit :: "ties_state \<Rightarrow> ties_state" where
  "meet_limit st = st\<lparr>ties_limit := (ties_limit st)(ties_depth st := True)\<rparr>"

definition check_ties :: "string \<Rightarrow> nat \<Rightarrow> ties_state \<Rightarrow> unit result" where
  "check_ties sql i st =
     (if sqlKeywordAt sql (skipSQLWhitespace sql (i + 4)) ''TIES'' \<and> ties_limit st (ties_depth st) then
        (if ties_depth st > 0 \<and> \<not> ties_non_scalar st (ties_depth st)
         then Inl (Errorf ''nested LIMIT WITH TIES is not supported'' [])
         else if \<not> ties_ordered st (ties_depth st)
         then Inl (Errorf ''LIMIT WITH TIES requires ORDER BY in the same SELECT query'' [])
         else Inr ())
      else Inr ())"

function scan_ties :: "string \<Rightarrow> nat \<Rightarrow> ties_state \<Rightarrow> unit result" where
  "scan_ties sql i st =
     (if i \<ge> length sql then Inr ()
      else if sql ! i \<in> set quote_bytes then scan_ties sql (skipSQLQuoted sql i (sql ! i)) st
      else if has_prefix (drop i sql) ''--'' then scan_ties sql (skipSQLLineComment sql i) st
      else if has_prefix (drop i sql) ''/*'' then scan_ties sql (skipSQLBlockComment sql i) st
      else if sql ! i = CHR ''('' then scan_ties sql (i + 1) (open_parenthesis sql i st)
      else if sql ! i = CHR '')'' then scan_ties sql (i + 1) (close_parenthesis st)
      else if sqlKeywordAt sql i ''SELECT'' then scan_ties sql (i + 6) (enter_select st)
      else if sqlKeywordAt sql i ''ORDER'' then scan_ties sql (i + 5) (meet_order sql i st)
      else if sqlKeywordAt sql i ''LIMIT'' then scan_ties sql (i + 5) (meet_limit st)
      else if sqlKeywordAt sql i ''WITH'' then bind_res (check_ties sql i st) (\<lambda>_. scan_ties sql (i + 4) st)
      else scan_ties sql (i + 1) st)"
  by pat_completeness auto
termination
proof (relation "measure (\<lambda>(sql, i, _). length sql - i)", goal_cases)
  case (2 sql i) then show ?case using skipSQLQuoted_bounds [of i sql "sql ! i"] by auto
next
  case (3 sql i) then show ?case using skipSQLLineComment_bounds [of i sql] by auto
next
  case (4 sql i) then show ?case using skipSQLBlockComment_bounds [of i sql] by auto
qed auto

declare scan_ties.simps [simp del]

definition validateLimitWithTiesOwnership :: "string \<Rightarrow> unit result" where
  "validateLimitWithTiesOwnership sql =
     scan_ties sql 0 \<lparr>ties_depth = 0, ties_ordered = \<lambda>_. False, ties_limit = \<lambda>_. False, ties_non_scalar = \<lambda>_. False\<rparr>"

text \<open>The end of a WITH TIES at the offset that a LIMIT can own.\<close>

definition ties_modifier :: "string \<Rightarrow> nat \<Rightarrow> nat option" where
  "ties_modifier sql i =
     (let tiesStart = skipSQLWhitespace sql (i + 4); after = skipSQLWhitespace sql (tiesStart + 4) in
      if \<not> sqlKeywordAt sql i ''WITH'' \<or> \<not> sqlKeywordAt sql tiesStart ''TIES'' then None
      else if after < length sql \<and> sql ! after \<noteq> CHR '')'' \<and> sql ! after \<noteq> CHR '';''
        \<and> \<not> sqlKeywordAt sql after ''SETTINGS'' \<and> \<not> sqlKeywordAt sql after ''FORMAT'' \<and> \<not> sqlKeywordAt sql after ''OFFSET''
      then None
      else Some (tiesStart + 4))"

lemma ties_modifier_end: "ties_modifier sql i = Some e \<Longrightarrow> i < e \<and> e \<le> length sql"
  using skipSQLWhitespace_ge [of "i + 4" sql]
  by (auto simp: ties_modifier_def Let_def sqlKeywordAt_def split: if_splits)

function scan_modifiers :: "string \<Rightarrow> nat \<Rightarrow> string \<Rightarrow> string" where
  "scan_modifiers sql i normalized =
     (if i \<ge> length sql then normalized
      else if sql ! i \<in> set quote_bytes then scan_modifiers sql (skipSQLQuoted sql i (sql ! i)) normalized
      else if has_prefix (drop i sql) ''--'' then scan_modifiers sql (skipSQLLineComment sql i) normalized
      else if has_prefix (drop i sql) ''/*'' then scan_modifiers sql (skipSQLBlockComment sql i) normalized
      else case ties_modifier sql i of
          Some tiesEnd \<Rightarrow> scan_modifiers sql tiesEnd (blank_token (i, tiesEnd) normalized)
        | None \<Rightarrow> scan_modifiers sql (i + 1) normalized)"
  by pat_completeness auto
termination
proof (relation "measure (\<lambda>(sql, i, _). length sql - i)", goal_cases)
  case (2 sql i) then show ?case using skipSQLQuoted_bounds [of i sql "sql ! i"] by auto
next
  case (3 sql i) then show ?case using skipSQLLineComment_bounds [of i sql] by auto
next
  case (4 sql i) then show ?case using skipSQLBlockComment_bounds [of i sql] by auto
qed (auto dest!: ties_modifier_end)

declare scan_modifiers.simps [simp del]

definition stripLimitWithTiesModifiers :: "string \<Rightarrow> string" where
  "stripLimitWithTiesModifiers sql = scan_modifiers sql 0 sql"

section \<open>Trailing SETTINGS\<close>

text \<open>The last keyword SETTINGS outside data.\<close>

function last_settings :: "string \<Rightarrow> nat \<Rightarrow> nat option \<Rightarrow> nat option" where
  "last_settings sql i found =
     (if i \<ge> length sql then found
      else if sql ! i \<in> set quote_bytes then last_settings sql (skipSQLQuoted sql i (sql ! i)) found
      else if has_prefix (drop i sql) ''--'' then last_settings sql (skipSQLLineComment sql i) found
      else if has_prefix (drop i sql) ''/*'' then last_settings sql (skipSQLBlockComment sql i) found
      else last_settings sql (i + 1) (if sqlKeywordAt sql i ''SETTINGS'' then Some i else found))"
  by pat_completeness auto
termination
proof (relation "measure (\<lambda>(sql, i, _). length sql - i)", goal_cases)
  case (2 sql i) then show ?case using skipSQLQuoted_bounds [of i sql "sql ! i"] by auto
next
  case (3 sql i) then show ?case using skipSQLLineComment_bounds [of i sql] by auto
next
  case (4 sql i) then show ?case using skipSQLBlockComment_bounds [of i sql] by auto
qed auto

declare last_settings.simps [simp del]

definition stripTrailingSettingsClause :: "string \<Rightarrow> string" where
  "stripTrailingSettingsClause sql = (case last_settings sql 0 None of
       None \<Rightarrow> sql
     | Some at \<Rightarrow> trim_space (take at sql))"

section \<open>Parsing with the adapters\<close>

text \<open>
  \<open>parse\<close> is \<^verbatim>\<open>parseWithSeriesParameters\<close>. A refusal keeps the error of the first parse; the text of the
  later one (\<^verbatim>\<open>%v\<close>) is left out.
\<close>

definition settings_adapter ::
    "(string \<Rightarrow> 'a result) \<Rightarrow> bool \<Rightarrow> string \<Rightarrow> error \<Rightarrow> 'a result" where
  "settings_adapter parse is_exec sql err =
     (let stripped = stripTrailingSettingsClause sql in
      if \<not> is_exec \<or> stripped = sql then Inl err
      else case parse stripped of
          Inr statements \<Rightarrow> Inr statements
        | Inl strippedErr \<Rightarrow> Inl (Wrapf ''original: %w; without unsupported modifiers: %v'' [] err))"

definition ties_adapter :: "(string \<Rightarrow> 'a result) \<Rightarrow> bool \<Rightarrow> string \<Rightarrow> error \<Rightarrow> 'a result" where
  "ties_adapter parse is_exec sql err =
     (let without = stripLimitWithTiesModifiers sql in
      if without = sql then settings_adapter parse is_exec sql err
      else bind_res (validateLimitWithTiesOwnership sql) (\<lambda>_.
        case parse without of
          Inr statements \<Rightarrow> Inr statements
        | Inl withoutErr \<Rightarrow> settings_adapter parse is_exec without
            (Wrapf ''original: %w; without unsupported LIMIT modifier: %v'' [] err)))"

definition parseChgenStatementsWithAdapters :: "(string \<Rightarrow> 'a result) \<Rightarrow> string \<Rightarrow> bool \<Rightarrow> 'a result" where
  "parseChgenStatementsWithAdapters parse sql is_exec = (case parse sql of
       Inr statements \<Rightarrow> Inr statements
     | Inl err \<Rightarrow>
         (case normalizeCasePrefixOperands sql of (normalized, unsafe, has_plus) \<Rightarrow>
           if has_plus then Inl (Errorf (''CASE operand: cannot infer type for unary operator '' @ [double_quote, CHR ''+'', double_quote]) [])
           else case (if normalized \<noteq> sql then parse normalized else Inl err) of
               Inr statements \<Rightarrow> Inr statements
             | Inl normalizedErr \<Rightarrow>
                 if unsafe
                 then Inl (Wrapf ''CASE prefix operand cannot be parsed without changing source locations: %w'' [] err)
                 else ties_adapter parse is_exec normalized err))"

end
