(* ===== verification/QueryFile.thy ===== *)
theory QueryFile
  imports ContractText ParserText
begin

text \<open>
  Query files (\<^verbatim>\<open>annotations.go\<close>, \<^verbatim>\<open>generator.go\<close>): the annotations of a query, the directives of its
  header, the trimming of trailing comments (\<^verbatim>\<open>emit.go\<close>) and the machine that reads a file line by line.
  \<open>file_line\<close> is one round of the loop of \<^verbatim>\<open>parseQueriesInFile\<close>; the state is the queries that are finished
  and the one that is being read.
\<close>

section \<open>Queries\<close>

datatype command = CommandMany | CommandOne | CommandExec

definition command_text :: "command \<Rightarrow> string" where
  "command_text c = (case c of CommandMany \<Rightarrow> ''many'' | CommandOne \<Rightarrow> ''one'' | CommandExec \<Rightarrow> ''exec'')"

definition zero_type :: chtype where "zero_type = CHType [] [] [] []"

record param =
  p_name :: string
  p_go_type :: string
  p_type :: chtype

record result_column =
  r_name :: string
  r_sql_name :: string
  r_go_type :: string
  r_type :: chtype
  r_asserted :: bool

record external_column =
  xc_name :: string
  xc_sql_name :: string
  xc_go_type :: string
  xc_type_text :: string

record external_param =
  xp_name :: string
  xp_schema :: string
  xp_wire :: string
  xp_row_type :: string
  xp_columns :: "external_column list"

text \<open>The fields of a query that is checked without a server.\<close>

record query =
  q_name :: string
  q_file :: string
  q_line :: nat
  q_command :: command
  q_params :: "param list"
  q_externals :: "external_param list"
  q_indexes :: "nat list"
  q_results :: "result_column list"
  q_capacity :: string
  q_sql :: string
  q_unchecked_exec :: bool
  q_named :: "string list"
  q_contracts :: "string \<rightharpoonup> chtype \<times> nat"
  q_unverified_results :: "string list"
  q_unverified_expressions :: "string list"
  q_unchecked_settings :: "string list"
  q_wildcard_sql :: string

definition new_query :: "string \<Rightarrow> command \<Rightarrow> query" where
  "new_query name cmd = \<lparr>q_name = name, q_file = [], q_line = 0, q_command = cmd, q_params = [], q_externals = [],
     q_indexes = [], q_results = [], q_capacity = [], q_sql = [], q_unchecked_exec = False, q_named = [],
     q_contracts = Map.empty, q_unverified_results = [], q_unverified_expressions = [], q_unchecked_settings = [],
     q_wildcard_sql = []\<rparr>"

record table_choice =
  tc_name :: string
  tc_tables :: "string list"

record query_builder =
  b_query :: query
  b_lines :: "string list"
  b_started :: bool
  b_settings :: "string list"
  b_choices :: "table_choice list"
  b_first_line :: nat

section \<open>Go types of annotations\<close>

definition go_scalar_types :: "string list" where
  "go_scalar_types = [''string'', ''bool'', ''int8'', ''int16'', ''int32'', ''int64'', ''uint8'', ''uint16'', ''uint32'',
     ''uint64'', ''float32'', ''float64'', ''time.Time'', ''decimal.Decimal'', ''net.IP'', ''uuid.UUID'']"

function validGoValueType :: "string \<Rightarrow> bool" where
  "validGoValueType t =
     (if t = ''[]byte'' \<or> t = ''json.RawMessage'' then True
      else if has_prefix t ''*'' then drop 1 t \<in> set go_scalar_types
      else if has_prefix t ''[]'' then validGoValueType (drop 2 t)
      else if has_prefix t ''map['' then
        (case index_byte (drop 4 t) (CHR '']'') of
           None \<Rightarrow> False
         | Some closing \<Rightarrow>
             (let key = take closing (drop 4 t) in
              if key = ''net.IP'' then False
              else if key \<notin> set go_scalar_types then False
              else validGoValueType (drop (closing + 1) (drop 4 t))))
      else t \<in> set go_scalar_types)"
  by pat_completeness auto
termination
  by (relation "measure length") (auto dest!: has_prefix_length)

declare validGoValueType.simps [simp del]

definition validateGoType :: "string \<Rightarrow> unit result" where
  "validateGoType t = (if validGoValueType t then Inr () else Inl (Errorf ''unsupported Go type %q'' [t]))"

text \<open>The leaves of a Go type, in the order in which they are recorded.\<close>

function addGoTypeLeaves :: "string list \<Rightarrow> string \<Rightarrow> string list" where
  "addGoTypeLeaves leaves t =
     (if t = [] then leaves
      else if has_prefix t ''*'' then addGoTypeLeaves leaves (drop 1 t)
      else if t \<noteq> ''[]byte'' \<and> has_prefix t ''[]'' then addGoTypeLeaves leaves (drop 2 t)
      else case (if has_prefix t ''map['' then index_byte (drop 4 t) (CHR '']'') else None) of
          Some closing \<Rightarrow>
            addGoTypeLeaves (addGoTypeLeaves leaves (take closing (drop 4 t))) (drop (closing + 1) (drop 4 t))
        | None \<Rightarrow> List.insert t leaves)"
  by pat_completeness auto
termination
  by (relation "measure (\<lambda>(_, t). length t)") (auto dest!: has_prefix_length split: if_splits)

declare addGoTypeLeaves.simps [simp del]

section \<open>Annotations\<close>

definition annotation_fields :: "string \<Rightarrow> string \<Rightarrow> string list" where
  "annotation_fields line directive = go_fields (trim_space (trim_prefix line directive))"

definition parse_command :: "string \<Rightarrow> command option" where
  "parse_command field = map_of [(''many'', CommandMany), (''one'', CommandOne), (''exec'', CommandExec)] (trim_prefix field '':'')"

definition parseNameAnnotation :: "string \<Rightarrow> query result" where
  "parseNameAnnotation line = (case annotation_fields line ''-- name:'' of
       [name, field] \<Rightarrow>
         (if \<not> isGoIdentifier name then Inl (Errorf ''invalid query name %q'' [name])
          else case parse_command field of
              None \<Rightarrow> Inl (Errorf ''unsupported query command %q'' [field])
            | Some cmd \<Rightarrow> Inr (new_query name cmd))
     | _ \<Rightarrow> Inl (Errorf ''expected -- name: QueryName :many|:one|:exec'' []))"

definition annotated_param :: "string \<Rightarrow> string \<Rightarrow> param" where
  "annotated_param name t = \<lparr>p_name = name, p_go_type = t, p_type = zero_type\<rparr>"

definition parseParamAnnotation :: "string \<Rightarrow> param result" where
  "parseParamAnnotation line =
     (let parts = annotation_fields line ''-- param:''; name = hd parts in
      if length parts \<noteq> 1 \<and> length parts \<noteq> 2 then Inl (Errorf ''expected -- param: GoName [GoType]'' [])
      else if \<not> isGoIdentifier name then Inl (Errorf ''invalid parameter name %q'' [name])
      else if length parts = 1 then Inr (annotated_param name [])
      else bind_res (wrap_error ''parameter %s: %w'' [name] (validateGoType (parts ! 1)))
             (\<lambda>_. Inr (annotated_param name (parts ! 1))))"

definition annotated_result :: "string \<Rightarrow> string \<Rightarrow> string \<Rightarrow> result_column" where
  "annotated_result name sqlName t = \<lparr>r_name = name, r_sql_name = sqlName, r_go_type = t, r_type = zero_type, r_asserted = False\<rparr>"

definition parseResultAnnotation :: "string \<Rightarrow> result_column result" where
  "parseResultAnnotation line =
     (let parts = annotation_fields line ''-- result:''; name = hd parts in
      if length parts \<noteq> 2 \<and> length parts \<noteq> 3 then Inl (Errorf ''expected -- result: GoName SQLAlias [GoType]'' [])
      else if \<not> isGoIdentifier name then Inl (Errorf ''invalid result field name %q'' [name])
      else if \<not> isGoIdentifier (parts ! 1) then Inl (Errorf ''invalid result SQL alias %q'' [parts ! 1])
      else if length parts = 2 then Inr (annotated_result name (parts ! 1) [])
      else bind_res (wrap_error ''result %s: %w'' [name] (validateGoType (parts ! 2)))
             (\<lambda>_. Inr (annotated_result name (parts ! 1) (parts ! 2))))"

definition parseResultCapacityAnnotation :: "string \<Rightarrow> string result" where
  "parseResultCapacityAnnotation line =
     (let parts = annotation_fields line ''-- result-capacity:'' in
      if length parts \<noteq> 1 \<or> \<not> isGoIdentifier (hd parts) then Inl (Errorf ''expected -- result-capacity: SliceParameter'' [])
      else Inr (hd parts))"

definition uncheckedSettingDirective :: string where "uncheckedSettingDirective = ''-- chgen:unchecked-setting''"

definition setting_char :: "char \<Rightarrow> bool" where
  "setting_char c \<longleftrightarrow> is_lower c \<or> c = CHR ''_''"

definition isSettingName :: "string \<Rightarrow> bool" where
  "isSettingName name \<longleftrightarrow> name \<noteq> [] \<and> setting_char (hd name) \<and> list_all (\<lambda>c. setting_char c \<or> is_digit c) name"

definition parseUncheckedSettingAnnotation :: "string \<Rightarrow> string list \<Rightarrow> string result" where
  "parseUncheckedSettingAnnotation line previous =
     (let cut = has_prefix line (uncheckedSettingDirective @ '' '') \<or> has_prefix line (uncheckedSettingDirective @ [CHR 0x09]);
          name = trim_space (if cut then drop (length uncheckedSettingDirective + 1) line else line) in
      if \<not> cut \<or> \<not> isSettingName name
      then Inl (Errorf ''expected %s name (one exact lowercase setting name)'' [uncheckedSettingDirective])
      else if name \<in> set previous then Inl (Errorf ''duplicate %s %s'' [uncheckedSettingDirective, name])
      else Inr name)"

section \<open>Composition lines\<close>

definition isCompositionControlLine :: "string \<Rightarrow> bool" where
  "isCompositionControlLine line \<longleftrightarrow> list_ex (has_prefix line) [''-- chgen:if'', ''-- chgen:end'', ''-- chgen:else'']"

text \<open>The first table name that is no identifier or occurs before.\<close>

fun bad_choice :: "string list \<Rightarrow> string list \<Rightarrow> string option" where
  "bad_choice seen [] = None"
| "bad_choice seen (t # ts) = (if \<not> isGoIdentifier t \<or> t \<in> set seen then Some t else bad_choice (t # seen) ts)"

definition parseTableChoice :: "string \<Rightarrow> table_choice result" where
  "parseTableChoice line =
     (let parts = go_fields line in
      if length parts < 4 \<or> parts ! 1 \<noteq> ''chgen:table'' \<or> \<not> isGoIdentifier (parts ! 2) \<or> \<not> is_exported (parts ! 2)
      then Inl (Errorf ''expected -- chgen:table ExportedChoiceName table [table...]'' [])
      else case bad_choice [] (drop 3 parts) of
          Some t \<Rightarrow> Inl (Errorf ''table choice %s requires distinct simple table names, got %q'' [parts ! 2, t])
        | None \<Rightarrow> Inr \<lparr>tc_name = parts ! 2, tc_tables = drop 3 parts\<rparr>)"

function composition_lines :: "string \<Rightarrow> nat \<Rightarrow> nat list" where
  "composition_lines sql i =
     (if i \<ge> length sql then []
      else (if has_prefix (drop i sql) ''-- chgen:'' \<and> trim_space (sub_text sql (line_start sql i) i) = []
            then [lineOfOffset sql i] else [])
           @ composition_lines sql (next_offset sql i))"
  by pat_completeness auto
termination
proof (relation "measure (\<lambda>(sql, i). length sql - i)", goal_cases)
  case (2 sql i) then show ?case using next_offset_bounds [of i sql] by auto
qed auto

declare composition_lines.simps [simp del]

definition compositionCommentLines :: "string \<Rightarrow> nat list" where
  "compositionCommentLines sql = composition_lines sql 0"

section \<open>Trailing comments\<close>

text \<open>The lines (from 0) that end inside a quoted token.\<close>

function open_quoted :: "string \<Rightarrow> nat \<Rightarrow> nat \<Rightarrow> nat list" where
  "open_quoted sql i line =
     (if i \<ge> length sql then []
      else if sql ! i \<in> set quote_bytes then
        (let e = skipSQLQuoted sql i (sql ! i); n = newlines_in sql i e in
         [line..<line + n] @ open_quoted sql e (line + n))
      else open_quoted sql (i + 1) (if sql ! i = newline then line + 1 else line))"
  by pat_completeness auto
termination
proof (relation "measure (\<lambda>(sql, i, _). length sql - i)", goal_cases)
  case (2 sql i) then show ?case using skipSQLQuoted_bounds [of i sql "sql ! i"] by auto
qed auto

declare open_quoted.simps [simp del]

definition openQuotedLineSet :: "string \<Rightarrow> nat list" where
  "openQuotedLineSet sql = open_quoted sql 0 0"

definition comment_or_blank :: "string \<Rightarrow> bool" where
  "comment_or_blank line \<longleftrightarrow> trim_space line = [] \<or> has_prefix (trim_space line) ''--''"

fun trimmed_end :: "nat list \<Rightarrow> string list \<Rightarrow> nat \<Rightarrow> nat" where
  "trimmed_end opened ls 0 = 0"
| "trimmed_end opened ls (Suc n) =
     (if n > 0 \<and> n - 1 \<in> set opened then Suc n
      else if comment_or_blank (ls ! n) then trimmed_end opened ls n
      else Suc n)"

definition trimTrailingCommentLines :: "string list \<Rightarrow> string list" where
  "trimTrailingCommentLines ls = take (trimmed_end (openQuotedLineSet (join [newline] ls)) ls (length ls)) ls"

section \<open>The machine\<close>

record file_state =
  fs_done :: "query_builder list"
  fs_current :: "query_builder option"

text \<open>What the machine knows of the whole file.\<close>

record file_view =
  fv_file :: string
  fv_contract_lines :: "nat list"
  fv_composition_lines :: "nat list"
  fv_parser :: contract_parser

definition finish_query :: "file_state \<Rightarrow> file_state" where
  "finish_query st = (case fs_current st of
       None \<Rightarrow> st
     | Some b \<Rightarrow>
         (let body = trim_space (join [newline] (trimTrailingCommentLines (b_lines b))) in
          \<lparr>fs_done = fs_done st @ [b\<lparr>b_query := b_query b\<lparr>q_sql := body\<rparr>\<rparr>], fs_current = None\<rparr>))"

definition at_file :: "file_view \<Rightarrow> nat \<Rightarrow> string \<Rightarrow> string list \<Rightarrow> error" where
  "at_file view line msg args = Errorf (''%s:%d: '' @ msg) (at_line (fv_file view) line @ args)"

definition with_current :: "query_builder \<Rightarrow> file_state \<Rightarrow> file_state" where
  "with_current b st = st\<lparr>fs_current := Some b\<rparr>"

definition contract_line :: "file_view \<Rightarrow> nat \<Rightarrow> string \<Rightarrow> file_state \<Rightarrow> file_state result" where
  "contract_line view n trimmed st = (case fs_current st of
       None \<Rightarrow> Inl (at_file view n ''%s must appear in a query header'' [resultCHTypeDirective])
     | Some b \<Rightarrow>
         if b_started b then Inl (at_file view n ''%s must appear in a query header'' [resultCHTypeDirective])
         else if q_command (b_query b) = CommandExec then Inl (at_file view n ''%s is not allowed on :exec'' [resultCHTypeDirective])
         else bind_res (located (fv_file view) n (parse_result_contract (fv_parser view) trimmed n)) (\<lambda>(alias, contract).
           if q_contracts (b_query b) alias \<noteq> None then Inl (at_file view n ''duplicate result-chtype for %q'' [alias])
           else Inr (with_current (b\<lparr>b_query := b_query b\<lparr>q_contracts := (q_contracts (b_query b))(alias \<mapsto> contract)\<rparr>\<rparr>) st)))"

definition fresh_builder :: "query \<Rightarrow> query_builder" where
  "fresh_builder q = \<lparr>b_query = q, b_lines = [], b_started = False, b_settings = [], b_choices = [], b_first_line = 0\<rparr>"

definition name_line :: "file_view \<Rightarrow> nat \<Rightarrow> string \<Rightarrow> file_state \<Rightarrow> file_state result" where
  "name_line view n trimmed st =
     bind_res (wrap_error ''line %d: %w'' [itoa (int n)] (parseNameAnnotation trimmed)) (\<lambda>q.
       Inr (with_current (fresh_builder (q\<lparr>q_file := fv_file view, q_line := n\<rparr>)) (finish_query st)))"

definition line_before_name :: "file_view \<Rightarrow> nat \<Rightarrow> string \<Rightarrow> file_state \<Rightarrow> file_state result" where
  "line_before_name view n trimmed st =
     (if n \<in> set (fv_composition_lines view) \<and> has_prefix trimmed ''-- chgen:table''
      then Inl (at_file view n ''chgen:table must follow a -- name annotation'' [])
      else if has_prefix trimmed uncheckedSettingDirective
      then Inl (at_file view n ''%s must follow a -- name annotation'' [uncheckedSettingDirective])
      else if has_prefix trimmed uncheckedExecDirective
      then Inl (at_file view n ''%s must follow a -- name annotation'' [uncheckedExecDirective])
      else if trimmed = [] \<or> has_prefix trimmed ''--'' then Inr st
      else Inl (Errorf ''line %d: SQL appears before a -- name annotation'' [itoa (int n)]))"

definition choice_line :: "file_view \<Rightarrow> nat \<Rightarrow> string \<Rightarrow> query_builder \<Rightarrow> query_builder result" where
  "choice_line view n trimmed b =
     (if b_started b then Inl (at_file view n ''chgen:table must appear in a query header'' [])
      else bind_res (located (fv_file view) n (parseTableChoice trimmed)) (\<lambda>choice. Inr (b\<lparr>b_choices := b_choices b @ [choice]\<rparr>)))"

definition unchecked_exec_line :: "file_view \<Rightarrow> nat \<Rightarrow> string \<Rightarrow> query_builder \<Rightarrow> query_builder result" where
  "unchecked_exec_line view n trimmed b =
     (if trimmed \<noteq> uncheckedExecDirective then Inl (at_file view n ''expected %s with no arguments'' [uncheckedExecDirective])
      else if b_started b \<or> q_command (b_query b) \<noteq> CommandExec \<or> q_unchecked_exec (b_query b)
      then Inl (at_file view n ''%s is valid once in a :exec query header'' [uncheckedExecDirective])
      else Inr (b\<lparr>b_query := b_query b\<lparr>q_unchecked_exec := True\<rparr>\<rparr>))"

definition capacity_line :: "nat \<Rightarrow> string \<Rightarrow> query_builder \<Rightarrow> query_builder result" where
  "capacity_line n trimmed b =
     (if q_capacity (b_query b) \<noteq> [] then Inl (Errorf ''line %d: duplicate -- result-capacity annotation'' [itoa (int n)])
      else bind_res (wrap_error ''line %d: %w'' [itoa (int n)] (parseResultCapacityAnnotation trimmed)) (\<lambda>capacity.
        Inr (b\<lparr>b_query := b_query b\<lparr>q_capacity := capacity\<rparr>\<rparr>)))"

definition body_line :: "nat \<Rightarrow> string \<Rightarrow> query_builder \<Rightarrow> query_builder" where
  "body_line n line b = b\<lparr>b_first_line := (if b_started b then b_first_line b else n), b_started := True, b_lines := b_lines b @ [line]\<rparr>"

text \<open>A line of a query that is neither a contract nor a name.\<close>

definition query_line :: "file_view \<Rightarrow> nat \<Rightarrow> string \<Rightarrow> query_builder \<Rightarrow> query_builder result" where
  "query_line view n line b =
     (let trimmed = trim_space line; header = \<not> b_started b in
      if n \<in> set (fv_composition_lines view) \<and> has_prefix trimmed ''-- chgen:table'' then choice_line view n trimmed b
      else if header \<and> has_prefix trimmed uncheckedSettingDirective then
        bind_res (located (fv_file view) n (parseUncheckedSettingAnnotation trimmed (b_settings b))) (\<lambda>name.
          Inr (b\<lparr>b_settings := b_settings b @ [name]\<rparr>))
      else if has_prefix trimmed uncheckedExecDirective then unchecked_exec_line view n trimmed b
      else if header \<and> has_prefix trimmed ''-- param:'' then
        bind_res (wrap_error ''line %d: %w'' [itoa (int n)] (parseParamAnnotation trimmed)) (\<lambda>p.
          Inr (b\<lparr>b_query := b_query b\<lparr>q_params := q_params (b_query b) @ [p]\<rparr>\<rparr>))
      else if header \<and> has_prefix trimmed ''-- result:'' then
        bind_res (wrap_error ''line %d: %w'' [itoa (int n)] (parseResultAnnotation trimmed)) (\<lambda>r.
          Inr (b\<lparr>b_query := b_query b\<lparr>q_results := q_results (b_query b) @ [r]\<rparr>\<rparr>))
      else if header \<and> has_prefix trimmed ''-- result-capacity:'' then capacity_line n trimmed b
      else if header \<and> (trimmed = [] \<or> has_prefix trimmed ''--'') then Inr b
      else Inr (body_line n line b))"

definition file_line :: "file_view \<Rightarrow> nat \<times> string \<Rightarrow> file_state \<Rightarrow> file_state result" where
  "file_line view numbered st =
     (let n = fst numbered; line = snd numbered; trimmed = trim_space line in
      if n \<in> set (fv_composition_lines view) \<and> isCompositionControlLine trimmed
        \<and> (case fs_current st of None \<Rightarrow> True | Some b \<Rightarrow> \<not> b_started b)
      then Inl (at_file view n ''composition blocks must appear inside the SQL body'' [])
      else if n \<in> set (fv_contract_lines view) then contract_line view n trimmed st
      else if has_prefix trimmed ''-- name:'' then name_line view n trimmed st
      else case fs_current st of
          None \<Rightarrow> line_before_name view n trimmed st
        | Some b \<Rightarrow> bind_res (query_line view n line b) (\<lambda>b'. Inr (with_current b' st)))"

fun replace_crlf :: "string \<Rightarrow> string" where
  "replace_crlf (c # d # cs) = (if c = CHR 0x0D \<and> d = newline then newline # replace_crlf cs else c # replace_crlf (d # cs))"
| "replace_crlf cs = cs"

definition view_of :: "contract_parser \<Rightarrow> string \<Rightarrow> string \<Rightarrow> file_view" where
  "view_of parser path sql = \<lparr>fv_file = path, fv_contract_lines = resultContractCommentLines sql,
     fv_composition_lines = compositionCommentLines sql, fv_parser = parser\<rparr>"

definition numbered_lines :: "string \<Rightarrow> (nat \<times> string) list" where
  "numbered_lines sql = (let ls = split_lines sql in zip [1..<Suc (length ls)] ls)"

text \<open>The builders of a file, in order.\<close>

definition read_builders :: "contract_parser \<Rightarrow> string \<Rightarrow> string \<Rightarrow> query_builder list result" where
  "read_builders parser path input =
     (let sql = replace_crlf input in
      bind_res (fold_res (file_line (view_of parser path sql)) (numbered_lines sql) \<lparr>fs_done = [], fs_current = None\<rparr>) (\<lambda>st.
        let builders = fs_done (finish_query st) in
        if builders = [] then Inl (Errorf ''no -- name annotations found'' []) else Inr builders))"

text \<open>\<open>resolve\<close> is \<^verbatim>\<open>resolveComposedQuery\<close> on the catalogs of the package.\<close>

definition parseQueriesInFile ::
    "contract_parser \<Rightarrow> (query_builder \<Rightarrow> 'q result) \<Rightarrow> string \<Rightarrow> string \<Rightarrow> 'q list result" where
  "parseQueriesInFile parser resolve path input =
     bind_res (read_builders parser path input) (map_res resolve)"

end
