(* ===== verification/Params.thy ===== *)
theory Params
  imports QueryFile
begin

text \<open>
  The parameters of a query (\<^verbatim>\<open>resolver.go\<close>): when two uses of one named argument agree on a type, what a
  column accepts on INSERT, and the parameters that the placeholders become. A placeholder is its position
  among the placeholders of the statement; the three maps that the resolver fills by placeholder (types,
  name hints, use as a collection) are arguments.
\<close>

section \<open>Types that one parameter can hold\<close>

definition insert_as_string :: "string list" where
  "insert_as_string = [''string'', ''fixedstring'', ''enum8'', ''enum16'', ''uuid'', ''ipv4'', ''ipv6'']"

definition insertAcceptsAsString :: "chtype \<Rightarrow> bool" where
  "insertAcceptsAsString t \<longleftrightarrow> to_lower (Name t) \<in> set insert_as_string"

text \<open>The rules for two types without LowCardinality and Nullable around them.\<close>

definition insert_scalars_compatible :: "chtype \<Rightarrow> chtype \<Rightarrow> bool" where
  "insert_scalars_compatible target source =
     (if named target ''datetime64'' \<and> named source ''datetime64'' then True
      else if insertAcceptsAsString target \<and> insertAcceptsAsString source then True
      else if compatibleNamedArgTypes target source then True
      else case commonCHType target source of
          Inr common \<Rightarrow> compatibleNamedArgTypes common target
        | Inl _ \<Rightarrow> named target ''datetime64'' \<and> named source ''datetime''
            \<or> named target ''date32'' \<and> named source ''date'')"

function insertTypesCompatible :: "chtype \<Rightarrow> chtype \<Rightarrow> bool" where
  "insertTypesCompatible target0 source0 =
     (let target = unwrapLowCardinality target0; source = unwrapLowCardinality source0 in
      if named target ''nullable'' then
        (if length (Params target) \<noteq> 1 then False
         else if named source ''nullable'' then
           (if length (Params source) \<noteq> 1 then False
            else insertTypesCompatible (hd (Params target)) (hd (Params source)))
         else insertTypesCompatible (hd (Params target)) source)
      else if named source ''nullable'' then False
      else insert_scalars_compatible target source)"
  by pat_completeness auto
termination
proof (relation "measure (\<lambda>(target, _). tsize target)", goal_cases)
  case (2 target0 source0 target source)
  then have "tsize (hd (Params target)) < tsize target" by (auto intro!: tsize_hd_param)
  then show ?case using 2 tsize_unwrapLowCardinality [of target0] by simp
next
  case (3 target0 source0 target source)
  then have "tsize (hd (Params target)) < tsize target" by (auto intro!: tsize_hd_param)
  then show ?case using 3 tsize_unwrapLowCardinality [of target0] by simp
qed auto

declare insertTypesCompatible.simps [simp del]

definition validateInsertSelectType :: "column \<Rightarrow> chtype \<Rightarrow> unit result" where
  "validateInsertSelectType target source =
     (if insertTypesCompatible (column_type target) source then Inr ()
      else Inl (Errorf ''INSERT SELECT target column %s has type %s, but SELECT expression has type %s''
                  [column_name target, to_string (column_type target), to_string source]))"

text \<open>The columns of INSERT ... SELECT: the named ones, or every insertable one in the table's order.\<close>

definition target_column :: "table \<Rightarrow> string \<Rightarrow> column result" where
  "target_column t name = (case columns t name of
       None \<Rightarrow> Inl (Errorf ''table %s has no column %q'' [table_name t, name])
     | Some c \<Rightarrow> if insertable c then Inr c
         else Inl (Errorf ''table %s column %q is not insertable'' [table_name t, name]))"

definition insertSelectTargetColumns :: "table \<Rightarrow> string list option \<Rightarrow> column list result" where
  "insertSelectTargetColumns t names = (case names of
       Some ns \<Rightarrow> map_res (target_column t) ns
     | None \<Rightarrow>
         (let targets = filter insertable (List.map_filter (columns t) (column_order t)) in
          if targets = [] then Inl (Errorf ''table %s has no insertable columns'' [table_name t]) else Inr targets))"

section \<open>Names of parameters\<close>

definition pluralizeIdentifier :: "string \<Rightarrow> string" where
  "pluralizeIdentifier name =
     (if has_suffix name ''IDs'' \<or> has_suffix name ''Keys'' \<or> has_suffix name ''s'' then name else name @ ''s'')"

text \<open>What the resolver found out about the placeholders.\<close>

record placeholder_info =
  ph_types :: "nat \<rightharpoonup> chtype"
  ph_hints :: "nat \<rightharpoonup> string"
  ph_collection :: "nat \<Rightarrow> bool"

definition parameterName :: "string list \<Rightarrow> placeholder_info \<Rightarrow> nat \<Rightarrow> string" where
  "parameterName names info i = (case ph_hints info i of
       None \<Rightarrow> ''Arg''
     | Some hint \<Rightarrow>
         if hint = [] then ''Arg''
         else if ph_collection info i \<and> (names = [] \<or> i \<ge> length names \<or> names ! i = [])
         then pluralizeIdentifier (exportedIdentifier hint)
         else exportedIdentifier hint)"

section \<open>Types of named arguments\<close>

text \<open>The first inferred type of each name; a later one must be compatible with it.\<close>

fun named_types :: "placeholder_info \<Rightarrow> nat \<Rightarrow> string list \<Rightarrow> (string \<rightharpoonup> chtype) \<Rightarrow> (string \<rightharpoonup> chtype) result" where
  "named_types info i [] seen = Inr seen"
| "named_types info i (name # names) seen = (case ph_types info i of
       None \<Rightarrow> named_types info (i + 1) names seen
     | Some inferred \<Rightarrow> (case seen name of
           None \<Rightarrow> named_types info (i + 1) names (seen(name \<mapsto> inferred))
         | Some previous \<Rightarrow>
             if compatibleNamedArgTypes previous inferred then named_types info (i + 1) names seen
             else Inl (Errorf ''chgen.arg(%q) has incompatible inferred types %s and %s''
                         [name, to_string previous, to_string inferred])))"

definition applyNamedParamNames :: "string list \<Rightarrow> nat \<Rightarrow> placeholder_info \<Rightarrow> placeholder_info result" where
  "applyNamedParamNames names n info =
     (if names = [] then Inr info
      else if length names \<noteq> n
      then Inl (Errorf ''found %d chgen.arg names for %d positional placeholders'' [itoa (int (length names)), itoa (int n)])
      else bind_res (named_types info 0 names Map.empty) (\<lambda>seen.
        Inr (info\<lparr>ph_hints := (\<lambda>i. if i < n then Some (names ! i) else ph_hints info i),
                  ph_types := (\<lambda>i. case ph_types info i of
                      Some t \<Rightarrow> Some t | None \<Rightarrow> if i < n then seen (names ! i) else None)\<rparr>)))"

section \<open>Parameters\<close>

text \<open>The parameters so far, and for each placeholder so far the index of its parameter.\<close>

record assignment =
  as_params :: "param list"
  as_indexes :: "nat list"
  as_by_name :: "string \<rightharpoonup> nat"
  as_sources :: "string \<rightharpoonup> string"

definition no_assignment :: assignment where
  "no_assignment = \<lparr>as_params = [], as_indexes = [], as_by_name = Map.empty, as_sources = Map.empty\<rparr>"

definition bare_param :: "string \<Rightarrow> param" where
  "bare_param name = annotated_param name []"

definition recordNamedArgGoName :: "(string \<rightharpoonup> string) \<Rightarrow> string \<Rightarrow> string \<Rightarrow> (string \<rightharpoonup> string) result" where
  "recordNamedArgGoName sources sourceName goName =
     (if sources goName \<noteq> None \<and> sources goName \<noteq> Some sourceName
      then Inl (Errorf ''chgen.arg names %q and %q both generate Go parameter %s'' [the (sources goName), sourceName, goName])
      else Inr (sources(goName \<mapsto> sourceName)))"

text \<open>A placeholder takes the parameter of its name; a new name appends a parameter.\<close>

definition assign_name :: "string \<Rightarrow> param \<Rightarrow> assignment \<Rightarrow> assignment" where
  "assign_name name p st = (case as_by_name st name of
       Some i \<Rightarrow> st\<lparr>as_indexes := as_indexes st @ [i]\<rparr>
     | None \<Rightarrow> st\<lparr>as_indexes := as_indexes st @ [length (as_params st)],
                  as_by_name := (as_by_name st)(name \<mapsto> length (as_params st)),
                  as_params := as_params st @ [p]\<rparr>)"

text \<open>Named arguments with annotations: the annotation of a name replaces the bare parameter.\<close>

fun duplicate_name :: "param list \<Rightarrow> string option" where
  "duplicate_name [] = None"
| "duplicate_name (p # ps) = (case duplicate_name ps of
       Some name \<Rightarrow> Some name | None \<Rightarrow> if p_name p \<in> set (map p_name ps) then Some (p_name p) else None)"

definition annotation_of :: "param list \<Rightarrow> string \<Rightarrow> param" where
  "annotation_of annotations name = (case List.find (\<lambda>p. p_name p = name) annotations of
       Some p \<Rightarrow> p | None \<Rightarrow> bare_param name)"

definition assign_source :: "(string \<Rightarrow> param) \<Rightarrow> string \<Rightarrow> string \<Rightarrow> assignment \<Rightarrow> assignment result" where
  "assign_source param_for sourceName name st =
     bind_res (recordNamedArgGoName (as_sources st) sourceName name) (\<lambda>sources.
       Inr (assign_name name (param_for name) (st\<lparr>as_sources := sources\<rparr>)))"

definition assign_annotated :: "param list \<Rightarrow> string list \<Rightarrow> assignment result" where
  "assign_annotated annotations names = (case duplicate_name annotations of
       Some name \<Rightarrow> Inl (Errorf ''duplicate -- param annotation for %s'' [name])
     | None \<Rightarrow>
         bind_res (fold_res (\<lambda>sourceName. assign_source (annotation_of annotations) sourceName (exportedIdentifier sourceName))
                     names no_assignment) (\<lambda>st.
           case List.find (\<lambda>p. p_name p \<notin> set (map exportedIdentifier names)) annotations of
             Some p \<Rightarrow> Inl (Errorf ''parameter %s is not mapped to a named SQL argument'' [p_name p])
           | None \<Rightarrow> Inr st))"

text \<open>Named arguments without annotations.\<close>

definition assign_named :: "string list \<Rightarrow> placeholder_info \<Rightarrow> nat \<Rightarrow> assignment result" where
  "assign_named names info n =
     fold_res (\<lambda>i. assign_source bare_param (names ! i) (parameterName names info i)) [0..<n] no_assignment"

text \<open>Anonymous placeholders: one parameter each; a repeated hint gets a number.\<close>

fun numbered_names :: "string list \<Rightarrow> string list \<Rightarrow> string list" where
  "numbered_names seen [] = []"
| "numbered_names seen (name # names) =
     (let k = count_list seen name + 1 in
      (if k > 1 then name @ itoa (int k) else name) # numbered_names (name # seen) names)"

definition assign_anonymous :: "placeholder_info \<Rightarrow> nat \<Rightarrow> assignment" where
  "assign_anonymous info n = no_assignment\<lparr>
     as_params := map bare_param (numbered_names [] (map (parameterName [] info) [0..<n])),
     as_indexes := [0..<n]\<rparr>"

text \<open>One annotation per placeholder, in order.\<close>

definition assign_in_order :: "param list \<Rightarrow> assignment" where
  "assign_in_order annotations = fold (\<lambda>p. assign_name (p_name p) p) annotations no_assignment"

text \<open>
  Fewer annotations than placeholders: a placeholder takes the annotation that its hint took before, then
  an unused one of the hint's name, then the next unused one.
\<close>

record hint_state =
  hs_used :: "nat list"
  hs_assigned :: "string \<rightharpoonup> nat"
  hs_next :: nat
  hs_indexes :: "nat list"

fun skip_used :: "nat list \<Rightarrow> nat \<Rightarrow> nat \<Rightarrow> nat" where
  "skip_used used k 0 = k"
| "skip_used used k (Suc fuel) = (if k \<in> set used then skip_used used (k + 1) fuel else k)"

definition hinted_index :: "param list \<Rightarrow> string \<Rightarrow> hint_state \<Rightarrow> nat option" where
  "hinted_index params hint st = (case (if hint = ''Arg'' then None else hs_assigned st hint) of
       Some i \<Rightarrow> Some i
     | None \<Rightarrow> List.find (\<lambda>i. i \<notin> set (hs_used st) \<and> p_name (params ! i) = hint) [0..<length params])"

definition take_index :: "string \<Rightarrow> nat \<Rightarrow> hint_state \<Rightarrow> hint_state" where
  "take_index hint i st = st\<lparr>hs_used := List.insert i (hs_used st),
     hs_assigned := (if hint = ''Arg'' then hs_assigned st else (hs_assigned st)(hint \<mapsto> i)),
     hs_indexes := hs_indexes st @ [i]\<rparr>"

definition assign_hint :: "param list \<Rightarrow> string \<Rightarrow> hint_state \<Rightarrow> hint_state result" where
  "assign_hint params hint st = (case hinted_index params hint st of
       Some i \<Rightarrow> Inr (take_index hint i st)
     | None \<Rightarrow>
         (let free = skip_used (hs_used st) (hs_next st) (length params - hs_next st) in
          if free \<ge> length params then Inl (Errorf ''could not map placeholder to a -- param annotation'' [])
          else Inr (take_index hint free (st\<lparr>hs_next := free + 1\<rparr>))))"

definition assign_by_hint :: "param list \<Rightarrow> string list \<Rightarrow> placeholder_info \<Rightarrow> nat \<Rightarrow> assignment result" where
  "assign_by_hint params names info n =
     (if length params > n
      then Inl (Errorf ''SQL has %d positional placeholders but %d -- param annotations'' [itoa (int n), itoa (int (length params))])
      else bind_res (fold_res (\<lambda>i. assign_hint params (parameterName names info i)) [0..<n]
                       \<lparr>hs_used = [], hs_assigned = Map.empty, hs_next = 0, hs_indexes = []\<rparr>) (\<lambda>st.
        case List.find (\<lambda>i. i \<notin> set (hs_used st)) [0..<length params] of
          Some i \<Rightarrow> Inl (Errorf ''parameter %s is not mapped to a SQL placeholder'' [p_name (params ! i)])
        | None \<Rightarrow> Inr (no_assignment\<lparr>as_params := params, as_indexes := hs_indexes st\<rparr>)))"

definition assign_params :: "query \<Rightarrow> nat \<Rightarrow> placeholder_info \<Rightarrow> assignment result" where
  "assign_params q n info =
     (let names = q_named q; annotations = q_params q in
      if names \<noteq> [] \<and> annotations \<noteq> [] then assign_annotated annotations names
      else if annotations = [] then (if names \<noteq> [] then assign_named names info n else Inr (assign_anonymous info n))
      else if length annotations = n then Inr (assign_in_order annotations)
      else assign_by_hint annotations names info n)"

text \<open>
  The type of a parameter is the one of its first placeholder. \<open>index_panic\<close>: there is no such placeholder
  and the code panics.
\<close>

definition index_panic :: error where
  "index_panic = Errorf ''runtime error: index out of range'' []"

definition typed_param :: "nat \<Rightarrow> placeholder_info \<Rightarrow> nat list \<Rightarrow> nat \<times> param \<Rightarrow> param result" where
  "typed_param n info indexes numbered = (case List.find (\<lambda>k. indexes ! k = fst numbered) [0..<length indexes] of
       None \<Rightarrow> Inl index_panic
     | Some first \<Rightarrow>
         (let p = snd numbered in
          if first \<ge> n then Inl index_panic
          else case ph_types info first of
              Some t \<Rightarrow>
                (if p_go_type p \<noteq> [] then Inr (p\<lparr>p_type := t\<rparr>)
                 else bind_res (wrap_error ''parameter %s: %w'' [p_name p] (goType t)) (\<lambda>g.
                   Inr (p\<lparr>p_type := t, p_go_type := g\<rparr>)))
            | None \<Rightarrow>
                if p_go_type p \<noteq> [] then Inr p
                else Inl (Errorf ''parameter %s has no inferable ClickHouse type; add an explicit GoType'' [p_name p])))"

definition finalizeParams :: "query \<Rightarrow> nat \<Rightarrow> placeholder_info \<Rightarrow> query result" where
  "finalizeParams q n info =
     (if n = 0 then Inr (q\<lparr>q_indexes := []\<rparr>)
      else bind_res (assign_params q n info) (\<lambda>st.
           bind_res (map_res (typed_param n info (as_indexes st)) (zip [0..<length (as_params st)] (as_params st))) (\<lambda>params.
             Inr (q\<lparr>q_params := params, q_indexes := as_indexes st\<rparr>))))"

section \<open>Statements that are not checked\<close>

definition no_info :: placeholder_info where
  "no_info = \<lparr>ph_types = Map.empty, ph_hints = Map.empty, ph_collection = \<lambda>_. False\<rparr>"

definition resolveUncheckedExecParams :: "query \<Rightarrow> query result" where
  "resolveUncheckedExecParams q = bind_res (validateUncheckedExecSQL (q_sql q)) (\<lambda>n.
     if q_named q \<noteq> [] \<and> length (q_named q) \<noteq> n
     then Inl (Errorf ''%s cannot mix chgen.arg('Name') with raw positional placeholders'' [uncheckedExecDirective])
     else finalizeParams q n no_info)"

end
