(* ===== verification/Composition.thy ===== *)
theory Composition
  imports QueryFile
begin

text \<open>
  Compositions (\<^verbatim>\<open>composition.go\<close>): optional blocks and table choices of a query, the finite list of its
  variants, each resolved on its own, and the query that stands for all of them. A variant is a number:
  its low bits select the optional blocks, the rest selects a table per choice in mixed radix.
\<close>

section \<open>Optional blocks\<close>

record conditional_sql =
  cs_text :: string
  cs_option :: string

record block_state =
  bs_parts :: "conditional_sql list"
  bs_options :: "string list"
  bs_start :: nat
  bs_active :: string

definition control_line :: "string \<Rightarrow> nat \<Rightarrow> bool" where
  "control_line sql i \<longleftrightarrow> has_prefix (drop i sql) ''-- chgen:'' \<and> trim_space (sub_text sql (line_start sql i) i) = []"

text \<open>A control comment from the offset to the end.\<close>

definition meet_control :: "string \<Rightarrow> nat \<Rightarrow> nat \<Rightarrow> block_state \<Rightarrow> block_state result" where
  "meet_control sql i e st =
     (let line = trim_space (sub_text sql i e);
          parts = bs_parts st @ [\<lparr>cs_text = sub_text sql (bs_start st) i, cs_option = bs_active st\<rparr>];
          words = go_fields line in
      if has_prefix line ''-- chgen:else''
      then Inl (Errorf ''chgen:else is not supported; use independent optional blocks'' [])
      else if \<not> (has_prefix line ''-- chgen:if'' \<or> has_prefix line ''-- chgen:end'') then Inr st
      else if line = ''-- chgen:end'' then
        (if bs_active st = [] then Inl (Errorf ''chgen:end has no matching chgen:if'' [])
         else Inr (st\<lparr>bs_parts := parts, bs_active := [], bs_start := e\<rparr>))
      else if length words \<noteq> 3 \<or> words ! 1 \<noteq> ''chgen:if'' \<or> \<not> isGoIdentifier (words ! 2) \<or> \<not> is_exported (words ! 2)
      then Inl (Errorf ''expected -- chgen:if ExportedOptionName'' [])
      else if bs_active st \<noteq> []
      then Inl (Errorf ''nested chgen:if blocks are not supported; use independent blocks'' [])
      else Inr (st\<lparr>bs_parts := parts, bs_active := words ! 2, bs_start := e,
                   bs_options := (if words ! 2 \<in> set (bs_options st) then bs_options st else bs_options st @ [words ! 2])\<rparr>))"

function scan_blocks :: "string \<Rightarrow> nat \<Rightarrow> block_state \<Rightarrow> block_state result" where
  "scan_blocks sql i st =
     (if i \<ge> length sql then Inr st
      else if control_line sql i
      then bind_res (meet_control sql i (sqlDataEnd sql i) st) (\<lambda>st'. scan_blocks sql (next_offset sql i) st')
      else scan_blocks sql (next_offset sql i) st)"
  by pat_completeness auto
termination
proof (relation "measure (\<lambda>(sql, i, _). length sql - i)", goal_cases)
  case (2 sql i) then show ?case using next_offset_bounds [of i sql] by auto
next
  case (3 sql i) then show ?case using next_offset_bounds [of i sql] by auto
qed auto

declare scan_blocks.simps [simp del]

definition parseConditionalSQL :: "string \<Rightarrow> (conditional_sql list \<times> string list) result" where
  "parseConditionalSQL sql =
     bind_res (scan_blocks sql 0 \<lparr>bs_parts = [], bs_options = [], bs_start = 0, bs_active = []\<rparr>) (\<lambda>st.
       if bs_active st \<noteq> [] then Inl (Errorf ''chgen:if %s is missing chgen:end'' [bs_active st])
       else Inr (bs_parts st @ [\<lparr>cs_text = drop (bs_start st) sql, cs_option = []\<rparr>], bs_options st))"

section \<open>Variants\<close>

text \<open>\<^verbatim>\<open>mask & (1 << i) != 0\<close>.\<close>

definition mask_bit :: "nat \<Rightarrow> nat \<Rightarrow> bool" where
  "mask_bit vmask i \<longleftrightarrow> odd (vmask div 2 ^ i)"

fun enabled_from :: "nat \<Rightarrow> string list \<Rightarrow> nat \<Rightarrow> string list" where
  "enabled_from i [] vmask = []"
| "enabled_from i (name # names) vmask =
     (if mask_bit vmask i then name # enabled_from (i + 1) names vmask else enabled_from (i + 1) names vmask)"

definition enabledOptions :: "string list \<Rightarrow> nat \<Rightarrow> string list" where
  "enabledOptions options vmask = enabled_from 0 options vmask"

definition option_index :: "string list \<Rightarrow> string \<Rightarrow> nat" where
  "option_index options name = length (takeWhile (\<lambda>x. x \<noteq> name) options)"

definition kept_part :: "string list \<Rightarrow> nat \<Rightarrow> conditional_sql \<Rightarrow> bool" where
  "kept_part options vmask part \<longleftrightarrow> cs_option part = [] \<or> mask_bit vmask (option_index options (cs_option part))"

text \<open>A block that is left out keeps its line breaks.\<close>

definition compositionSQL :: "conditional_sql list \<Rightarrow> string list \<Rightarrow> nat \<Rightarrow> string" where
  "compositionSQL parts options vmask = trim_space (concat (map (\<lambda>part.
     if kept_part options vmask part then cs_text part
     else replicate (count_list (cs_text part) newline) newline) parts))"

definition too_many_variants :: error where
  "too_many_variants = Errorf ''composition exceeds the limit of 32 fully checked variants'' []"

fun count_choices :: "nat \<Rightarrow> string list \<Rightarrow> table_choice list \<Rightarrow> nat result" where
  "count_choices n names [] = Inr n"
| "count_choices n names (choice # choices) =
     (if tc_name choice \<in> set names then Inl (Errorf ''duplicate composition option %s'' [tc_name choice])
      else if tc_tables choice = [] \<or> n > 32 div length (tc_tables choice) then Inl too_many_variants
      else count_choices (n * length (tc_tables choice)) (names @ [tc_name choice]) choices)"

definition compositionVariantCount :: "string list \<Rightarrow> table_choice list \<Rightarrow> nat result" where
  "compositionVariantCount options tables =
     (if length options > 5 then Inl too_many_variants else count_choices (2 ^ length options) options tables)"

fun select_tables :: "nat \<Rightarrow> table_choice list \<Rightarrow> (string \<rightharpoonup> string) \<Rightarrow> (string \<rightharpoonup> string)" where
  "select_tables index [] selected = selected"
| "select_tables index (choice # choices) selected =
     select_tables (index div length (tc_tables choice)) choices
       (selected(tc_name choice \<mapsto> tc_tables choice ! (index mod length (tc_tables choice))))"

definition selectedTables :: "string list \<Rightarrow> table_choice list \<Rightarrow> nat \<Rightarrow> (string \<rightharpoonup> string)" where
  "selectedTables options tables variant = select_tables (variant div 2 ^ length options) tables Map.empty"

section \<open>Merging the variants\<close>

record composition =
  co_options :: "string list"
  co_tables :: "table_choice list"
  co_owners :: "string \<rightharpoonup> string"
  co_variants :: "query list"

definition appendUnique :: "string list \<Rightarrow> string list \<Rightarrow> string list" where
  "appendUnique vs added = fold (\<lambda>v acc. if v \<in> set acc then acc else acc @ [v]) added vs"

text \<open>The shape of a parameter: its Go and ClickHouse types, or the text of an external parameter.\<close>

definition param_shape :: "param \<Rightarrow> string" where
  "param_shape p = p_go_type p @ '':'' @ to_string (p_type p)"

text \<open>\<^verbatim>\<open>%#v\<close> of an external parameter, with strings as \<^verbatim>\<open>strconv.Quote\<close> writes them.\<close>

definition column_go_text :: "external_column \<Rightarrow> string" where
  "column_go_text c = ''engine.ExternalColumn{GoName:'' @ go_quote (xc_name c) @ '', SQLName:'' @ go_quote (xc_sql_name c)
     @ '', GoType:'' @ go_quote (xc_go_type c) @ '', ClickHouseType:'' @ go_quote (xc_type_text c) @ ''}''"

definition external_shape :: "external_param \<Rightarrow> string" where
  "external_shape p = ''external:engine.ExternalParam{GoName:'' @ go_quote (xp_name p) @ '', SchemaName:'' @ go_quote (xp_schema p)
     @ '', WireName:'' @ go_quote (xp_wire p) @ '', RowType:'' @ go_quote (xp_row_type p)
     @ '', Columns:[]engine.ExternalColumn{'' @ join '', '' (map column_go_text (xp_columns p)) @ ''}}''"

text \<open>The shape of each name, the variants it occurs in, and the merged lists.\<close>

record merge_state =
  ms_shapes :: "string \<rightharpoonup> string"
  ms_presence :: "string \<Rightarrow> nat list"
  ms_params :: "param list"
  ms_externals :: "external_param list"
  ms_query :: query

definition note_parameter :: "nat \<Rightarrow> string \<Rightarrow> string \<Rightarrow> merge_state \<Rightarrow> (merge_state \<times> bool) result" where
  "note_parameter index name shape st =
     (let present = st\<lparr>ms_presence := (ms_presence st)(name := ms_presence st name @ [index])\<rparr> in
      case ms_shapes st name of
        Some previous \<Rightarrow>
          if previous \<noteq> shape
          then Inl (Errorf ''variant %d changes parameter %s from %s to %s'' [itoa (int index + 1), name, previous, shape])
          else Inr (present, False)
      | None \<Rightarrow> Inr (present\<lparr>ms_shapes := (ms_shapes st)(name \<mapsto> shape)\<rparr>, True))"

definition merge_param :: "nat \<Rightarrow> param \<Rightarrow> merge_state \<Rightarrow> merge_state result" where
  "merge_param index p st = bind_res (note_parameter index (p_name p) (param_shape p) st) (\<lambda>(st', added).
     Inr (if added then st'\<lparr>ms_params := ms_params st' @ [p]\<rparr> else st'))"

definition merge_external :: "nat \<Rightarrow> external_param \<Rightarrow> merge_state \<Rightarrow> merge_state result" where
  "merge_external index p st = bind_res (note_parameter index (xp_name p) (external_shape p) st) (\<lambda>(st', added).
     Inr (if added then st'\<lparr>ms_externals := ms_externals st' @ [p]\<rparr> else st'))"

definition same_result :: "result_column \<Rightarrow> result_column \<Rightarrow> bool" where
  "same_result r want \<longleftrightarrow> r_sql_name r = r_sql_name want \<and> r_name r = r_name want \<and> r_go_type r = r_go_type want
     \<and> to_string (r_type r) = to_string (r_type want)"

text \<open>The columns of a variant against the merged ones; a merged column is asserted when one of them is.\<close>

fun merge_results :: "nat \<Rightarrow> nat \<Rightarrow> result_column list \<Rightarrow> result_column list \<Rightarrow> result_column list result" where
  "merge_results index i (r # rs) (want # wants) =
     (if \<not> same_result r want
      then Inl (Errorf ''variant %d changes result column %d (%s)'' [itoa (int index + 1), itoa (int i + 1), r_sql_name want])
      else bind_res (merge_results index (i + 1) rs wants) (\<lambda>merged.
        Inr (want\<lparr>r_asserted := r_asserted want \<or> r_asserted r\<rparr> # merged)))"
| "merge_results index i _ wants = Inr wants"

definition merge_variant :: "nat \<times> query \<Rightarrow> merge_state \<Rightarrow> merge_state result" where
  "merge_variant numbered st =
     (let index = fst numbered; variant = snd numbered; q = ms_query st in
      if length (q_results variant) \<noteq> length (q_results q)
      then Inl (Errorf ''variant %d changes the result column count'' [itoa (int index + 1)])
      else bind_res (merge_results index 0 (q_results variant) (q_results q)) (\<lambda>results.
           bind_res (fold_res (merge_param index) (q_params variant) (st\<lparr>ms_query := q\<lparr>q_results := results\<rparr>\<rparr>)) (\<lambda>st1.
           bind_res (fold_res (merge_external index) (q_externals variant) st1) (\<lambda>st2.
             Inr (st2\<lparr>ms_query := (ms_query st2)\<lparr>
               q_unverified_expressions := appendUnique (q_unverified_expressions (ms_query st2)) (q_unverified_expressions variant),
               q_unverified_results := appendUnique (q_unverified_results (ms_query st2)) (q_unverified_results variant),
               q_unchecked_settings := appendUnique (q_unchecked_settings (ms_query st2)) (q_unchecked_settings variant)\<rparr>\<rparr>)))))"

text \<open>A name is owned by the option whose variants are exactly the ones it occurs in.\<close>

definition owned_by :: "nat \<Rightarrow> nat list \<Rightarrow> nat \<Rightarrow> bool" where
  "owned_by variants presence bit_index \<longleftrightarrow>
     list_all (\<lambda>index. index \<in> set presence \<longleftrightarrow> mask_bit index bit_index) [0..<variants]"

fun owner_from :: "nat \<Rightarrow> string list \<Rightarrow> nat \<Rightarrow> nat list \<Rightarrow> string option \<Rightarrow> string option" where
  "owner_from i [] variants presence owner = owner"
| "owner_from i (name # names) variants presence owner =
     owner_from (i + 1) names variants presence (if owned_by variants presence i then Some name else owner)"

definition owners_of :: "string list \<Rightarrow> nat \<Rightarrow> merge_state \<Rightarrow> (string \<rightharpoonup> string)" where
  "owners_of options variants st = (\<lambda>name.
     if ms_shapes st name = None then None else owner_from 0 options variants (ms_presence st name) None)"

definition start_merge :: "query \<Rightarrow> merge_state" where
  "start_merge q = \<lparr>ms_shapes = Map.empty, ms_presence = \<lambda>_. [], ms_params = [], ms_externals = [],
     ms_query = q\<lparr>q_params := [], q_externals := [], q_unverified_expressions := [], q_unverified_results := [],
                  q_unchecked_settings := []\<rparr>\<rparr>"

text \<open>The code is called with at least one variant.\<close>

definition mergeQueryVariants :: "composition \<Rightarrow> (query \<times> composition) result" where
  "mergeQueryVariants co =
     (let variants = co_variants co in
      bind_res (fold_res merge_variant (zip [0..<length variants] variants) (start_merge (hd variants))) (\<lambda>st.
        case List.find (\<lambda>name. ms_shapes st name \<noteq> None) (co_options co) of
          Some name \<Rightarrow> Inl (Errorf ''option %s collides with a parameter name'' [name])
        | None \<Rightarrow> (case List.find (\<lambda>choice. ms_shapes st (tc_name choice) \<noteq> None) (co_tables co) of
            Some choice \<Rightarrow> Inl (Errorf ''table choice %s collides with a parameter name'' [tc_name choice])
          | None \<Rightarrow> Inr ((ms_query st)\<lparr>q_params := ms_params st, q_externals := ms_externals st\<rparr>,
                        co\<lparr>co_owners := owners_of (co_options co) (length variants) st\<rparr>))))"

section \<open>Resolving a composed query\<close>

definition compositionError :: "query \<Rightarrow> error \<Rightarrow> error" where
  "compositionError q err = Wrapf ''%s:%d: query %s composition: %w'' [q_file q, itoa (int (q_line q)), q_name q] err"

definition composing :: "query \<Rightarrow> 'a result \<Rightarrow> 'a result" where
  "composing q r = (case r of Inl err \<Rightarrow> Inl (compositionError q err) | Inr x \<Rightarrow> Inr x)"

definition unknown_table :: "(string \<rightharpoonup> table) \<Rightarrow> table_choice list \<Rightarrow> (string \<times> string) option" where
  "unknown_table tables choices = List.find (\<lambda>(name, t). tables t = None)
     (concat (map (\<lambda>choice. map (Pair (tc_name choice)) (tc_tables choice)) choices))"

text \<open>The builder of one variant; an optional block owns its annotations only when it is present.\<close>

definition variant_builder ::
    "query_builder \<Rightarrow> conditional_sql list \<Rightarrow> string list \<Rightarrow> nat \<Rightarrow> query_builder result" where
  "variant_builder b parts options vmask =
     bind_res (replaceTableChoices (compositionSQL parts options vmask) (selectedTables options (b_choices b) vmask)) (\<lambda>(sql, used).
       case List.find (\<lambda>choice. tc_name choice \<notin> set used) (b_choices b) of
         Some choice \<Rightarrow> Inl (Errorf ''table choice %s is unused in variant %d'' [tc_name choice, itoa (int vmask + 1)])
       | None \<Rightarrow> bind_res (normalizeNamedArgs sql) (\<lambda>(_, names).
           Inr (b\<lparr>b_query := (b_query b)\<lparr>q_sql := sql,
                   q_params := filter (\<lambda>p. p_name p \<in> set names) (q_params (b_query b))\<rparr>\<rparr>)))"

text \<open>\<open>resolve\<close> is \<^verbatim>\<open>resolveBuiltQuery\<close> on the catalogs.\<close>

definition resolve_variant ::
    "(query_builder \<Rightarrow> query result) \<Rightarrow> query_builder \<Rightarrow> conditional_sql list \<Rightarrow> string list \<Rightarrow> nat \<Rightarrow> query result" where
  "resolve_variant resolve b parts options vmask =
     bind_res (composing (b_query b) (variant_builder b parts options vmask)) (\<lambda>variant.
       wrap_error ''composition variant %d (%s): %w'' [itoa (int vmask + 1), join '', '' (enabledOptions options vmask)]
         (resolve variant))"

definition resolve_variants ::
    "(query_builder \<Rightarrow> query result) \<Rightarrow> (string \<rightharpoonup> table) \<Rightarrow> query_builder \<Rightarrow> conditional_sql list \<Rightarrow> string list
     \<Rightarrow> (query \<times> composition option) result" where
  "resolve_variants resolve tables b parts options =
     (let q = b_query b in
      bind_res (composing q (compositionVariantCount options (b_choices b))) (\<lambda>variants.
      case unknown_table tables (b_choices b) of
        Some (name, t) \<Rightarrow> Inl (compositionError q
            (Errorf ''table choice %s names %q, which is not a physical catalog table'' [name, t]))
      | None \<Rightarrow>
          bind_res (map_res (resolve_variant resolve b parts options) [0..<variants]) (\<lambda>resolved.
          bind_res (composing q (mergeQueryVariants \<lparr>co_options = options, co_tables = b_choices b,
                      co_owners = Map.empty, co_variants = resolved\<rparr>)) (\<lambda>(merged, co).
            case List.find (\<lambda>a. p_name a \<notin> set (map p_name (q_params merged))) (q_params q) of
              Some a \<Rightarrow> Inl (compositionError q (Errorf ''unused parameter annotation %s'' [p_name a]))
            | None \<Rightarrow> Inr (merged, Some co)))))"

definition resolveComposedQuery ::
    "(query_builder \<Rightarrow> query result) \<Rightarrow> (string \<rightharpoonup> table) \<Rightarrow> query_builder \<Rightarrow> (query \<times> composition option) result" where
  "resolveComposedQuery resolve tables b =
     (let q = b_query b in
      bind_res (composing q (parseConditionalSQL (trim_space (join [newline] (b_lines b))))) (\<lambda>(parts, options).
        if options = [] \<and> b_choices b = [] then
          bind_res (composing q (replaceTableChoices (q_sql q) Map.empty)) (\<lambda>_.
            bind_res (resolve b) (\<lambda>resolved. Inr (resolved, None)))
        else if q_command q = CommandExec
        then Inl (compositionError q (Errorf ''composition is supported only in :one and :many queries'' []))
        else resolve_variants resolve tables b parts options))"

end
