(* ===== verification/SelectTree.thy ===== *)
theory SelectTree
  imports Infer
begin

text \<open>
  SELECT queries as the engine reads them: the clauses of one SELECT, the sources of its FROM, and the tree
  of set operations with its leaves (\<^verbatim>\<open>setQueryLeaves\<close> of \<^verbatim>\<open>resolver.go\<close>). A nested SELECT is named by its node: an expression
  and a source hold a number, and the environment of the resolver maps it to the query.
\<close>

section \<open>Clauses\<close>

record select_item =
  si_expr :: expr
  si_alias :: "string option"
  si_modified :: bool

datatype table_alias = NoAlias | Alias string | AliasOther string

text \<open>A table by its database and name, a table function, a subquery.\<close>

datatype table_source =
    SourceTable "string option" "string option"
  | SourceFunction string "expr list"
  | SourceSelect nat
  | SourceOther string

text \<open>ON, USING, and the node that holds either (USING first); \<open>None\<close>: a nil list.\<close>

datatype join_constraint =
    OnConstraint "expr list option"
  | UsingConstraint "expr list option"
  | EitherConstraint "expr list option" "expr list option"
  | ConstraintOther string

text \<open>An item of ARRAY JOIN is an expression with an alias, or a node of another kind.\<close>

datatype array_item = ArrayItem expr "string option" | ArrayItemOther string

text \<open>
  The nodes of FROM: a table with its alias and FINAL; the same inside a join, with SAMPLE and FINAL; a
  join with its modifiers; the list of an ARRAY JOIN.
\<close>

datatype from_expr =
    FromTable table_source table_alias bool
  | FromJoinTable from_expr bool bool
  | FromJoin from_expr "from_expr option" "string list" "join_constraint option"
  | FromColumns "array_item list"
  | FromOther string

datatype relation_expr = RelationIdent string | RelationTable "string option" | RelationOther string

text \<open>WITH: a relation \<^verbatim>\<open>name AS (SELECT)\<close>, a scalar \<^verbatim>\<open>expression AS name\<close>, and a nil entry.\<close>

datatype with_item = WithRelation relation_expr nat | WithScalar relation_expr "expr option" | WithEmpty

record order_fill =
  fill_from :: "expr option"
  fill_to :: "expr option"
  fill_step :: "expr option"
  fill_staleness :: "expr option"

datatype order_item = OrderItem "expr option" "order_fill option" | OrderOther string

record limit_clause =
  limit_rows :: "expr option"
  limit_offset :: "expr option"

record limit_by_clause =
  limit_by_limit :: "limit_clause option"
  limit_by_keys :: "expr list option"

text \<open>A single expression of GROUP BY is a list of one; \<open>group_plain\<close>: no CUBE, ROLLUP or TOTALS of any spelling.\<close>

record group_clause =
  group_keys :: "expr list option"
  group_plain :: bool

record select_body =
  sb_with :: "with_item list option"
  sb_from :: "from_expr option"
  sb_items :: "select_item list"
  sb_prewhere :: "expr option"
  sb_where :: "expr option"
  sb_distinct_on :: "(string \<times> string option) option list option"
  sb_top :: "(expr \<times> bool) option"
  sb_group_by :: "group_clause option"
  sb_having :: "expr option"
  sb_settings :: "(string option \<times> expr option) list option"
  sb_order_by :: "order_item list option"
  sb_interpolate :: bool
  sb_limit_by :: "limit_by_clause option"
  sb_limit :: "limit_clause option"
  sb_windows :: "(string \<times> window_spec) option list option"

section \<open>Set operations\<close>

text \<open>A SELECT with the parenthesised query in front of it and the right sides of its set operations.\<close>

datatype select_query = SelectQuery
  (sq_body: select_body) (sq_inner: "select_query option")
  (sq_union_all: "select_query option") (sq_union_distinct: "select_query option")
  (sq_except: "select_query option") (sq_intersect: "select_query option")

definition sq_items :: "select_query \<Rightarrow> select_item list" where
  "sq_items q = sb_items (sq_body q)"

definition set_operations :: "select_query \<Rightarrow> select_query list" where
  "set_operations q = List.map_filter id [sq_union_all q, sq_union_distinct q, sq_except q, sq_intersect q]"

lemma size_set_operation: "r \<in> set (set_operations q) \<Longrightarrow> size r < size q"
  by (cases q) (auto simp: set_operations_def map_filter_def split: if_splits)

lemma size_inner: "sq_inner q = Some r \<Longrightarrow> size r < size q"
  by (cases q) auto

text \<open>The right side is the last set operation of the list; a query with more than one is refused.\<close>

function setQueryLeaves :: "select_query \<Rightarrow> select_query list result" where
  "setQueryLeaves q =
     (if length (set_operations q) > 1 then Inl (Errorf ''SELECT query has more than one set-operation edge'' [])
      else bind_res (case sq_inner q of None \<Rightarrow> Inr [q] | Some inner \<Rightarrow> setQueryLeaves inner) (\<lambda>leaves.
        case set_operations q of
          [] \<Rightarrow> Inr leaves
        | right # _ \<Rightarrow> bind_res (setQueryLeaves right) (\<lambda>rest. Inr (leaves @ rest))))"
  by pat_completeness auto
termination
  by (relation "measure size") (auto dest: size_inner intro: size_set_operation)

declare setQueryLeaves.simps [simp del]

definition selectQueryHasSetOperation :: "select_query \<Rightarrow> bool" where
  "selectQueryHasSetOperation q \<longleftrightarrow> sq_inner q \<noteq> None \<or> set_operations q \<noteq> []"

text \<open>The leaves are never none, so the first branch of a set query exists.\<close>

lemma setQueryLeaves_nonempty: "setQueryLeaves q = Inr leaves \<Longrightarrow> leaves \<noteq> []"
proof (induction q arbitrary: leaves rule: setQueryLeaves.induct)
  case (1 q)
  note eq = "1.prems" [unfolded setQueryLeaves.simps [of q]]
  from eq have few: "\<not> length (set_operations q) > 1" by (simp split: if_splits)
  from eq few obtain left where left: "(case sq_inner q of None \<Rightarrow> Inr [q] | Some inner \<Rightarrow> setQueryLeaves inner) = Inr left"
    and rest: "leaves = left \<or> (\<exists>rest. leaves = left @ rest)"
    by (cases "set_operations q") auto
  have "left \<noteq> []" using left "1.IH"(1) [OF few] by (auto split: option.splits)
  with rest show ?case by auto
qed

section \<open>Names of results\<close>

fun directColumnName :: "expr \<Rightarrow> string option" where
  "directColumnName (EColumn e) = directColumnName e"
| "directColumnName (EIdent name _) = Some name"
| "directColumnName (EPath parts) = (if parts = [] then None else Some (last parts))"
| "directColumnName _ = None"

definition selectItemSQLName :: "(expr \<Rightarrow> string) \<Rightarrow> select_item \<Rightarrow> string result" where
  "selectItemSQLName format item = (case si_alias item of
       Some name \<Rightarrow> Inr name
     | None \<Rightarrow> (case directColumnName (si_expr item) of
           Some name \<Rightarrow> Inr name
         | None \<Rightarrow> Inl (Errorf ''SELECT expression %q requires an explicit AS alias'' [format (si_expr item)])))"

text \<open>
  \<open>qualified\<close> is the parser's view of a name with one qualifier: the qualifier, the name and whether the name
  has no quotes; \<open>None\<close> for every other node.
\<close>

definition selectWildcardQualifier :: "(expr \<Rightarrow> (string \<times> string \<times> bool) option) \<Rightarrow> expr \<Rightarrow> string \<times> bool" where
  "selectWildcardQualifier qualified e = (case unwrapColumnExpression e of
       EIdent name bare \<Rightarrow> ([], name = ''*'' \<and> bare)
     | node \<Rightarrow> (case qualified node of
           Some (qualifier, name, bare) \<Rightarrow> (qualifier, name = ''*'' \<and> bare)
         | None \<Rightarrow> ([], False)))"

section \<open>Types of a set operation\<close>

definition commonSetOperationTypes :: "chtype list \<Rightarrow> chtype result" where
  "commonSetOperationTypes types = (case types of
       [] \<Rightarrow> Inl (Errorf ''set result has no branch types'' [])
     | first # rest \<Rightarrow>
         if list_all (\<lambda>t. to_string t = to_string first) rest then Inr first else commonCHTypes types)"

end
