(* ===== verification/QueryChecks.thy ===== *)
theory QueryChecks
  imports Params Composition Suggest SelectTree
begin

text \<open>
  From a builder to a resolved query (\<^verbatim>\<open>annotations.go\<close>, \<^verbatim>\<open>external.go\<close>, \<^verbatim>\<open>validate.go\<close>): external tables, the
  checks on the fields of a query, the branches of a set operation (\<^verbatim>\<open>resolver.go\<close>) and
  \<^verbatim>\<open>resolveBuiltQuery\<close>. The SQL parser and the resolver of the types are parameters.
\<close>

section \<open>External tables\<close>

definition lowerFirstIdentifier :: "string \<Rightarrow> string" where
  "lowerFirstIdentifier name = (case name of [] \<Rightarrow> [] | c # cs \<Rightarrow> lower_char c # cs)"

definition non_ascii :: "char \<Rightarrow> bool" where "non_ascii c \<longleftrightarrow> (of_char c :: nat) > 127"

definition writeSQLIdentifier :: "string \<Rightarrow> string" where
  "writeSQLIdentifier name = (if list_ex non_ascii name then [double_quote] @ name @ [double_quote] else name)"

definition table_names :: "(string \<rightharpoonup> table) \<Rightarrow> string list" where
  "table_names tables = sorted_list_of_set (dom tables)"

text \<open>Only the text of a suggestion depends on it.\<close>

declare table_names_def [code del]

definition unknownExternalSchemaError :: "string \<Rightarrow> (string \<rightharpoonup> table) \<Rightarrow> (string \<rightharpoonup> table) \<Rightarrow> error" where
  "unknownExternalSchemaError schemaName externals physicals =
     (let unknown = ''chgen.external(%s): unknown external schema; declare it with ''
        @ [double_quote] @ ''-- chgen:external'' @ [double_quote] @ '' before its CREATE TABLE in a schema input'' in
      if physicals schemaName \<noteq> None
      then Errorf (unknown @ ''; a physical table %q exists; chgen.external only accepts schemas marked -- chgen:external'')
             [schemaName, schemaName]
      else let suggestion = suggestName schemaName (table_names externals) in
        if suggestion \<noteq> [] then Errorf (unknown @ ''; did you mean %q?'') [schemaName, suggestion]
        else Errorf unknown [schemaName])"

text \<open>The typed columns of a schema; two columns must not give one Go field.\<close>

fun external_columns :: "string \<Rightarrow> table \<Rightarrow> external_column list \<Rightarrow> string list \<Rightarrow> external_column list result" where
  "external_columns schemaName t cols [] = Inr cols"
| "external_columns schemaName t cols (name # names) = (case columns t name of
       None \<Rightarrow> Inl (Errorf ''external schema %s column %s must be an ordinary insertable column'' [schemaName, name])
     | Some c \<Rightarrow>
         if \<not> insertable c
         then Inl (Errorf ''external schema %s column %s must be an ordinary insertable column'' [schemaName, name])
         else bind_res (wrap_error ''external schema %s column %s: %w'' [schemaName, name] (goType (column_type c))) (\<lambda>g.
           let field = exportedIdentifier name in
           case List.find (\<lambda>xc. xc_name xc = field) cols of
             Some previous \<Rightarrow> Inl (Errorf ''external schema %s columns %q and %q both generate Go field %s''
                                [schemaName, xc_sql_name previous, name, field])
           | None \<Rightarrow> external_columns schemaName t (cols @ [\<lparr>xc_name = field, xc_sql_name = name, xc_go_type = g,
                        xc_type_text = to_string (column_type c)\<rparr>]) names))"

definition external_use :: "(string \<rightharpoonup> table) \<Rightarrow> (string \<rightharpoonup> table) \<Rightarrow> string \<Rightarrow> string \<Rightarrow> external_param result" where
  "external_use externals physicals name schemaName = (case externals schemaName of
       None \<Rightarrow> Inl (unknownExternalSchemaError schemaName externals physicals)
     | Some t \<Rightarrow>
         (let goName = (if name = [] then exportedIdentifier schemaName else name);
              wireName = (if goName \<noteq> exportedIdentifier schemaName then lowerFirstIdentifier goName else schemaName) in
          if \<not> isGoIdentifier goName \<or> \<not> is_exported goName
          then Inl (Errorf ''chgen.external parameter name %q must be an exported Go identifier'' [goName])
          else bind_res (external_columns schemaName t [] (column_order t)) (\<lambda>cols.
            if cols = [] then Inl (Errorf ''external schema %s has no columns'' [schemaName])
            else Inr \<lparr>xp_name = goName, xp_schema = schemaName, xp_wire = wireName,
                      xp_row_type = exportedIdentifier schemaName @ ''Row'', xp_columns = cols\<rparr>)))"

text \<open>The parameter joins the list: once per name, and one name per wire table.\<close>

definition add_external :: "external_param \<Rightarrow> external_param list \<Rightarrow> external_param list result" where
  "add_external p params = (case List.find (\<lambda>q. xp_name q = xp_name p) params of
       Some previous \<Rightarrow>
         if xp_schema previous \<noteq> xp_schema p \<or> xp_wire previous \<noteq> xp_wire p
         then Inl (Errorf ''chgen.external parameter %q is reused with incompatible schemas %q and %q''
                     [xp_name p, xp_schema previous, xp_schema p])
         else Inr params
     | None \<Rightarrow> (case List.find (\<lambda>q. xp_wire q = xp_wire p) params of
           Some previous \<Rightarrow> Inl (Errorf ''chgen.external parameters %q and %q resolve to duplicate wire table %q''
                              [xp_name previous, xp_name p, xp_wire p])
         | None \<Rightarrow> Inr (params @ [p])))"

function scan_externals ::
    "(string \<Rightarrow> string \<Rightarrow> external_param result) \<Rightarrow> string \<Rightarrow> nat \<Rightarrow> string \<Rightarrow> external_param list
     \<Rightarrow> (string \<times> external_param list) result" where
  "scan_externals use sql i normalized params =
     (if i \<ge> length sql then Inr (normalized, params)
      else if sql ! i \<in> set quote_bytes then
        scan_externals use sql (skipSQLQuoted sql i (sql ! i)) (normalized @ sub_text sql i (skipSQLQuoted sql i (sql ! i))) params
      else if has_prefix (drop i sql) ''--'' then
        scan_externals use sql (skipSQLLineComment sql i) (normalized @ sub_text sql i (skipSQLLineComment sql i)) params
      else if has_prefix (drop i sql) ''/*'' then
        scan_externals use sql (skipSQLBlockComment sql i) (normalized @ sub_text sql i (skipSQLBlockComment sql i)) params
      else case parseExternalAt sql i of
          Inl err \<Rightarrow> Inl err
        | Inr None \<Rightarrow> scan_externals use sql (i + 1) (normalized @ [sql ! i]) params
        | Inr (Some (name, schemaName, e)) \<Rightarrow> (case use name schemaName of
              Inl err \<Rightarrow> Inl err
            | Inr p \<Rightarrow> (case add_external p params of
                Inl err \<Rightarrow> Inl err
              | Inr params' \<Rightarrow> scan_externals use sql e (normalized @ writeSQLIdentifier (xp_wire p)) params')))"
  by pat_completeness auto
termination
proof (relation "measure (\<lambda>(_, sql, i, _, _). length sql - i)", goal_cases)
  case (2 use sql i) then show ?case using skipSQLQuoted_bounds [of i sql "sql ! i"] by auto
next
  case (3 use sql i) then show ?case using skipSQLLineComment_bounds [of i sql] by auto
next
  case (4 use sql i) then show ?case using skipSQLBlockComment_bounds [of i sql] by auto
qed (auto dest!: parseExternalAt_end)

declare scan_externals.simps [simp del]

definition normalizeExternalTables ::
    "string \<Rightarrow> (string \<rightharpoonup> table) \<Rightarrow> (string \<rightharpoonup> table) \<Rightarrow> (string \<times> external_param list) result" where
  "normalizeExternalTables sql externals physicals = scan_externals (external_use externals physicals) sql 0 [] []"

text \<open>The tables of a query: the physical ones and one per external parameter, under its wire name.\<close>

definition add_wire_table :: "(string \<rightharpoonup> table) \<Rightarrow> external_param \<Rightarrow> (string \<rightharpoonup> table) \<Rightarrow> (string \<rightharpoonup> table) result" where
  "add_wire_table externals p tables =
     (if tables (xp_wire p) \<noteq> None
      then Inl (Errorf ''external parameter %s wire table %q collides with a physical table'' [xp_name p, xp_wire p])
      else Inr (tables(xp_wire p := map_option (\<lambda>t. t\<lparr>table_name := xp_wire p\<rparr>) (externals (xp_schema p)))))"

definition schemaForQuery ::
    "(string \<rightharpoonup> table) \<Rightarrow> external_param list \<Rightarrow> (string \<rightharpoonup> table) \<Rightarrow> (string \<rightharpoonup> table) result" where
  "schemaForQuery physicals params externals = fold_res (add_wire_table externals) params physicals"

section \<open>What the checks know of a statement\<close>

text \<open>What the checks know of the parser: its statements, the text of an expression, a star item, \<^verbatim>\<open>%T\<close>.\<close>

record statement_view =
  sv_identifiers :: "table_identifier list"
  sv_placeholders :: nat
  sv_select :: "select_query option"
  sv_go_type :: string

record check_env =
  ce_parse :: "string \<Rightarrow> bool \<Rightarrow> statement_view list result"
  ce_format :: "expr \<Rightarrow> string"
  ce_qualified :: "expr \<Rightarrow> (string \<times> string \<times> bool) option"

section \<open>Checks on the fields of a query\<close>

fun validate_go_names :: "result_column list \<Rightarrow> result_column list \<Rightarrow> unit result" where
  "validate_go_names seen [] = Inr ()"
| "validate_go_names seen (r # rs) =
     (if r_name r = [] then validate_go_names seen rs
      else case List.find (\<lambda>s. r_name s = r_name r) seen of
          Some previous \<Rightarrow> Inl (Errorf ''result columns %q and %q both generate Go field %s''
                             [r_sql_name previous, r_sql_name r, r_name r])
        | None \<Rightarrow> validate_go_names (r # seen) rs)"

definition validateResultGoNames :: "result_column list \<Rightarrow> unit result" where
  "validateResultGoNames results = validate_go_names [] results"

definition validate_unchecked_exec :: "query \<Rightarrow> unit result" where
  "validate_unchecked_exec q =
     (if q_command q \<noteq> CommandExec then Inl (Errorf ''%s is valid only for :exec'' [uncheckedExecDirective])
      else if q_results q \<noteq> [] then Inl (Errorf ''%s cannot have -- result annotations'' [uncheckedExecDirective])
      else bind_res (validateUncheckedExecSQL (q_sql q)) (\<lambda>n.
        if length (q_indexes q) \<noteq> n
        then Inl (Errorf ''SQL has %d positional placeholders but %d parameter mappings'' [itoa (int n), itoa (int (length (q_indexes q)))])
        else if length (q_params q) > n
        then Inl (Errorf ''SQL has %d positional placeholders but %d -- param annotations'' [itoa (int n), itoa (int (length (q_params q)))])
        else Inr ()))"

fun distinct_aliases :: "check_env \<Rightarrow> string list \<Rightarrow> select_item list \<Rightarrow> string list result" where
  "distinct_aliases env seen [] = Inr seen"
| "distinct_aliases env seen (item # items) = bind_res (selectItemSQLName (ce_format env) item) (\<lambda>alias.
     if alias \<in> set seen then Inl (Errorf ''duplicate SELECT alias %q'' [alias])
     else distinct_aliases env (alias # seen) items)"

definition validate_select_fields :: "check_env \<Rightarrow> query \<Rightarrow> select_item list \<Rightarrow> unit result" where
  "validate_select_fields env q items =
     (if q_wildcard_sql q \<noteq> [] then
        (if q_sql q \<noteq> q_wildcard_sql q
         then Inl (Errorf ''wildcard SQL changed after catalog resolution; parse the query again'' [])
         else validateResultGoNames (q_results q))
      else if list_ex (\<lambda>item. snd (selectWildcardQualifier (ce_qualified env) (si_expr item))) items then validateResultGoNames (q_results q)
      else if q_results q \<noteq> [] \<and> length (q_results q) > length items
      then Inl (Errorf ''SELECT has %d items but %d -- result annotations'' [itoa (int (length items)), itoa (int (length (q_results q)))])
      else bind_res (distinct_aliases env [] items) (\<lambda>aliases.
        case List.find (\<lambda>r. r_sql_name r \<notin> set aliases) (q_results q) of
          Some r \<Rightarrow> Inl (Errorf ''result annotation %s references missing SELECT alias %q'' [r_name r, r_sql_name r])
        | None \<Rightarrow> validateResultGoNames (q_results q)))"

definition validate_statement :: "check_env \<Rightarrow> query \<Rightarrow> statement_view \<Rightarrow> unit result" where
  "validate_statement env q view =
     bind_res (checkQueryQualifiedReferences (sv_identifiers view) (q_command q \<noteq> CommandExec)) (\<lambda>_.
     let n = sv_placeholders view in
     if q_indexes q \<noteq> [] \<and> n \<noteq> length (q_indexes q)
     then Inl (Errorf ''SQL has %d positional placeholders but %d parameter mappings'' [itoa (int n), itoa (int (length (q_indexes q)))])
     else if q_indexes q = [] \<and> length (q_params q) > n
     then Inl (Errorf ''SQL has %d positional placeholders but %d -- param annotations'' [itoa (int n), itoa (int (length (q_params q)))])
     else if q_command q = CommandExec then Inr ()
     else case sv_select view of
         None \<Rightarrow> Inl (Errorf ''%s query must be a SELECT, got %T'' [command_text (q_command q), sv_go_type view])
       | Some select \<Rightarrow> bind_res (setQueryLeaves select) (\<lambda>leaves. case leaves of
             [] \<Rightarrow> Inl (Errorf ''SELECT query has no result branch'' [])
           | leaf # _ \<Rightarrow> validate_select_fields env q (sq_items leaf)))"

definition validateQueryFields :: "check_env \<Rightarrow> query \<Rightarrow> unit result" where
  "validateQueryFields env q =
     (if q_sql q = [] then Inl (Errorf ''SQL body is empty'' [])
      else if q_unchecked_exec q then validate_unchecked_exec q
      else bind_res (wrap_error ''parse SQL: %w'' [] (ce_parse env (q_sql q) (q_command q = CommandExec))) (\<lambda>statements.
        case statements of
          [view] \<Rightarrow> validate_statement env q view
        | _ \<Rightarrow> Inl (Errorf ''expected exactly one SQL statement, got %d'' [itoa (int (length statements))])))"

section \<open>Resolving a builder\<close>

definition rejectRawPlaceholders :: "query \<Rightarrow> nat \<Rightarrow> unit result" where
  "rejectRawPlaceholders q firstLine =
     (if q_command q = CommandExec then Inr ()
      else case raw_placeholder (q_sql q) 0 firstLine of
          None \<Rightarrow> Inr ()
        | Some line \<Rightarrow> Inl (Errorf (''%s: query %s: raw positional placeholder '' @ [double_quote, CHR ''?'', double_quote]
                @ ''; use chgen.arg('Name') so parameter names stay in the SQL source'')
            [if q_file q \<noteq> [] then q_file q @ '':'' @ itoa (int line) else ''line '' @ itoa (int line), q_name q]))"

text \<open>The text of a query after the macros: for the resolver and for the server.\<close>

record lowered_query =
  lq_query :: query
  lq_runtime :: string

text \<open>\<^verbatim>\<open>wrap\<close>: an error about an external reference keeps its own text.\<close>

definition external_error :: "error \<Rightarrow> bool" where
  "external_error err = (case err of
       Errorf format _ \<Rightarrow> has_prefix format ''chgen.external(%s): unknown external schema;'' | Wrapf _ _ _ \<Rightarrow> False)"

definition query_error :: "query \<Rightarrow> error \<Rightarrow> error" where
  "query_error q err =
     (if external_error err then Wrapf ''%s:%d: %w'' (at_line (q_file q) (q_line q)) err
      else Wrapf ''%s:%d: query %s: %w'' (at_line (q_file q) (q_line q) @ [q_name q]) err)"

definition in_query :: "query \<Rightarrow> 'a result \<Rightarrow> 'a result" where
  "in_query q r = (case r of Inl err \<Rightarrow> Inl (query_error q err) | Inr x \<Rightarrow> Inr x)"

definition lower_query :: "(string \<rightharpoonup> table) \<Rightarrow> (string \<rightharpoonup> table) \<Rightarrow> query \<Rightarrow> lowered_query result" where
  "lower_query externals physicals q =
     bind_res (normalizeExternalTables (q_sql q) externals physicals) (\<lambda>(sql1, params).
     bind_res (normalizeNamedArgs sql1) (\<lambda>(sql2, names).
     bind_res (rewriteExpressionContracts sql2 True) (\<lambda>runtime.
     bind_res (rewriteExpressionContracts sql2 False) (\<lambda>sql3.
       if q_command q = CommandExec \<and> sql3 \<noteq> runtime
       then Inl (Errorf ''chgen.assumeType is supported only in :one and :many queries'' [])
       else Inr \<lparr>lq_query = q\<lparr>q_sql := sql3, q_externals := params, q_named := names\<rparr>, lq_runtime = runtime\<rparr>))))"

text \<open>
  \<open>resolve\<close> is \<^verbatim>\<open>resolveQueryWithUncheckedSettings\<close>. A catalog without external schemas is the empty map.
\<close>

definition resolve_unchecked :: "check_env \<Rightarrow> query_builder \<Rightarrow> lowered_query \<Rightarrow> query result" where
  "resolve_unchecked env b lowered =
     (let q = lq_query lowered in
      if b_settings b \<noteq> []
      then Inl (Errorf ''%s cannot be combined with %s'' [uncheckedExecDirective, uncheckedSettingDirective])
      else if q_externals q \<noteq> [] then Inl (Errorf ''%s does not support chgen.external tables'' [uncheckedExecDirective])
      else bind_res (resolveUncheckedExecParams q) (\<lambda>q'.
           bind_res (validateQueryFields env q') (\<lambda>_. Inr (q'\<lparr>q_sql := lq_runtime lowered\<rparr>))))"

definition resolve_lowered ::
    "check_env \<Rightarrow> (query \<Rightarrow> (string \<rightharpoonup> table) \<Rightarrow> string list \<Rightarrow> query result) \<Rightarrow> (string \<rightharpoonup> table) \<Rightarrow> (string \<rightharpoonup> table)
     \<Rightarrow> query_builder \<Rightarrow> lowered_query \<Rightarrow> query result" where
  "resolve_lowered env resolve externals physicals b lowered =
     (let q = lq_query lowered in
      bind_res (if q_unchecked_exec q then Inr () else validateQueryFields env q) (\<lambda>_.
      bind_res (schemaForQuery physicals (q_externals q) externals) (\<lambda>tables.
        if q_unchecked_exec q then resolve_unchecked env b lowered
        else bind_res (resolve q tables (b_settings b)) (\<lambda>q'. Inr (q'\<lparr>q_sql := lq_runtime lowered\<rparr>)))))"

definition resolveBuiltQuery ::
    "check_env \<Rightarrow> (query \<Rightarrow> (string \<rightharpoonup> table) \<Rightarrow> string list \<Rightarrow> query result) \<Rightarrow> (string \<rightharpoonup> table) \<Rightarrow> (string \<rightharpoonup> table)
     \<Rightarrow> query_builder \<Rightarrow> query result" where
  "resolveBuiltQuery env resolve externals physicals b =
     bind_res (rejectRawPlaceholders (b_query b) (b_first_line b)) (\<lambda>_.
       in_query (b_query b)
         (bind_res (lower_query externals physicals (b_query b)) (resolve_lowered env resolve externals physicals b)))"

end
