(* ===== verification/QueryTextFacts.thy ===== *)
theory QueryTextFacts
  imports QueryChecks
begin

text \<open>
  The macros against the lexical structure of the text: every scanner that rewrites a query leaves the
  data of the text (strings, quoted identifiers, comments) alone and adds exactly one placeholder per named
  argument, so the names and the placeholders that the resolver meets are as many.
\<close>

lemma byte_chars [simp]:
  "single_quote = CHR 0x27" "double_quote = CHR 0x22" "back_quote = CHR 0x60" "newline = CHR 0x0A" "backslash = CHR 0x5C"
  by code_simp+

section \<open>Tokens as prefixes of the rest of the text\<close>

text \<open>The bytes that a quoted token takes after its opening quote, and whether it closes.\<close>

fun quoted_len :: "char \<Rightarrow> string \<Rightarrow> nat \<times> bool" where
  "quoted_len q [] = (0, False)"
| "quoted_len q [c] = (1, c \<noteq> backslash \<and> c = q)"
| "quoted_len q (c # d # ds) =
     (if c = backslash \<or> c = q \<and> d = q then (fst (quoted_len q ds) + 2, snd (quoted_len q ds))
      else if c \<noteq> q then (fst (quoted_len q (d # ds)) + 1, snd (quoted_len q (d # ds)))
      else (1, True))"

lemma quoted_close_beyond: "length sql \<le> i \<Longrightarrow> quoted_close sql q i = (length sql, False)"
  by (simp add: quoted_close.simps)

lemma quoted_len_pos: "snd (quoted_len q s) \<Longrightarrow> 0 < fst (quoted_len q s)"
  by (induction q s rule: quoted_len.induct) (auto split: if_splits)

lemma quoted_close_len: "i \<le> length sql \<Longrightarrow>
  quoted_close sql q i = (i + fst (quoted_len q (drop i sql)), snd (quoted_len q (drop i sql)))"
proof (induction sql q i rule: quoted_close.induct)
  case (1 sql q i)
  consider "i = length sql" | "i + 1 = length sql" | "i + 2 \<le> length sql" using "1.prems" by linarith
  then show ?case
  proof cases
    case 1
    then show ?thesis by (simp add: quoted_close.simps)
  next
    case 2
    then have d: "drop i sql = [sql ! i]" by (metis Cons_nth_drop_Suc Suc_eq_plus1 drop_all le_refl lessI)
    show ?thesis using 2 by (subst quoted_close.simps) (auto simp: d quoted_close_beyond)
  next
    case 3
    then have d: "drop i sql = sql ! i # sql ! Suc i # drop (i + 2) sql"
      by (metis Cons_nth_drop_Suc Suc_eq_plus1 Suc_le_lessD add_2_eq_Suc' le_add1 le_less_trans le_trans less_eq_Suc_le not_less_eq_eq)
    then have s: "drop (i + 1) sql = sql ! Suc i # drop (i + 2) sql" using 3 Cons_nth_drop_Suc [of "Suc i" sql] by simp
    have "\<not> i \<ge> length sql" using 3 by simp
    then show ?thesis
      using "1.IH"(1) "1.IH"(2) "1.IH"(3) 3 s
      by (subst quoted_close.simps) (auto simp: d)
  qed
qed

lemma quoted_len_append:
  assumes "quoted_len q (u @ t) = (length u, True)" and "t' = [] \<or> hd t' \<noteq> q"
  shows "quoted_len q (u @ t') = (length u, True)"
  using assms
proof (induction q u rule: quoted_len.induct)
  case (1 q)
  then show ?case by (cases t; cases "tl t") (auto split: if_splits)
next
  case (2 q c)
  then show ?case using quoted_len_pos [of q t] by (cases t; cases t') (auto split: if_splits)
next
  case (3 q c d ds)
  show ?case
  proof (cases "c = backslash \<or> c = q \<and> d = q")
    case True
    with 3 have "quoted_len q (ds @ t) = (length ds, True)" by (cases "quoted_len q (ds @ t)") auto
    with 3 True show ?thesis by auto
  next
    case False
    with 3 show ?thesis by (cases "quoted_len q (d # ds @ t)") (auto split: if_splits)
  qed
qed

lemma quoted_len_bound: "fst (quoted_len q s) \<le> length s"
  by (induction q s rule: quoted_len.induct) auto

lemma quoted_len_open: "\<not> snd (quoted_len q s) \<Longrightarrow> fst (quoted_len q s) = length s"
  by (induction q s rule: quoted_len.induct) (auto split: if_splits)

text \<open>The bytes of data at the start of a text: 0 when it starts with a byte of code.\<close>

definition data_len :: "string \<Rightarrow> nat" where
  "data_len s = (if s = [] then 0 else sqlDataEnd s 0)"

lemma first_index_first:
  "first_index s p = Some k \<longleftrightarrow> k \<le> length s \<and> has_prefix (drop k s) p \<and> (\<forall>j<k. \<not> has_prefix (drop j s) p)"
  unfolding first_index_def by (auto simp: find_Some_iff less_Suc_eq_le simp del: upt_Suc)

lemma sqlDataEnd_shift: "i < length sql \<Longrightarrow> sqlDataEnd sql i = i + data_len (drop i sql)"
proof -
  assume i: "i < length sql"
  then have ne: "drop i sql \<noteq> []" and hd: "drop i sql ! 0 = sql ! i" by simp_all
  have q: "skipSQLQuoted sql i q = i + skipSQLQuoted (drop i sql) 0 q" for q
    using i quoted_close_len [of "i + 1" sql q] quoted_close_len [of 1 "drop i sql" q]
    by (simp add: skipSQLQuoted_def Suc_le_eq)
  have l: "skipSQLLineComment sql i = i + skipSQLLineComment (drop i sql) 0"
    using i by (simp add: skipSQLLineComment_def Let_def)
  have b: "has_prefix (drop i sql) ''/*'' \<Longrightarrow> skipSQLBlockComment sql i = i + skipSQLBlockComment (drop i sql) 0"
    using i has_prefix_length [of "drop i sql" "''/*''"]
    by (auto simp: skipSQLBlockComment_def add.commute split: option.splits)
  show ?thesis using ne hd q l b by (simp add: data_len_def sqlDataEnd_def)
qed

lemma data_len_bound: "data_len s \<le> length s"
  using sqlDataEnd_bounds [of 0 s] by (simp add: data_len_def)

section \<open>Placeholders outside data\<close>

text \<open>The number of \<^verbatim>\<open>?\<close> in the code of a text.\<close>

function lexical_placeholders :: "string \<Rightarrow> nat" where
  "lexical_placeholders s =
     (if s = [] then 0
      else if data_len s > 0 then lexical_placeholders (drop (data_len s) s)
      else (if hd s = CHR ''?'' then 1 else 0) + lexical_placeholders (tl s))"
  by pat_completeness auto
termination
  by (relation "measure length") (auto simp: data_len_bound)

declare lexical_placeholders.simps [simp del]

lemma lexical_placeholders_Nil [simp]: "lexical_placeholders [] = 0"
  by (simp add: lexical_placeholders.simps)

lemma lexical_placeholders_data:
  "q \<noteq> [] \<Longrightarrow> data_len (q @ t) = length q \<Longrightarrow> lexical_placeholders (q @ t) = lexical_placeholders t"
  by (subst lexical_placeholders.simps) simp

lemma lexical_placeholders_byte:
  "data_len (c # s) = 0 \<Longrightarrow> lexical_placeholders (c # s) = (if c = CHR ''?'' then 1 else 0) + lexical_placeholders s"
  by (subst lexical_placeholders.simps) simp

text \<open>One step of a scanner at an offset: over data, or over one byte.\<close>

lemma step_data:
  "i < length sql \<Longrightarrow> sqlDataEnd sql i > i \<Longrightarrow> lexical_placeholders (drop i sql) = lexical_placeholders (drop (sqlDataEnd sql i) sql)"
  by (subst lexical_placeholders.simps) (simp add: sqlDataEnd_shift add.commute)

lemma step_byte:
  assumes "i < length sql" "\<not> sqlDataEnd sql i > i"
  shows "lexical_placeholders (drop i sql) = (if sql ! i = CHR ''?'' then 1 else 0) + lexical_placeholders (drop (i + 1) sql)"
proof -
  have d: "drop i sql = sql ! i # drop (i + 1) sql" using assms(1) by (simp add: Cons_nth_drop_Suc)
  have "data_len (drop i sql) = 0" using assms sqlDataEnd_shift [of i sql] by simp
  then show ?thesis unfolding d by (rule lexical_placeholders_byte)
qed

lemma has_prefix_two: "has_prefix s [a, b] \<longleftrightarrow> (\<exists>t. s = a # b # t)"
  by (cases s; cases "tl s") (auto simp: has_prefix_def)

text \<open>Which data starts at an offset; its first byte is no blank.\<close>

lemma data_cases:
  assumes "i < length sql" and "sqlDataEnd sql i > i"
  obtains (quote) "sql ! i \<in> set quote_bytes" "sqlDataEnd sql i = skipSQLQuoted sql i (sql ! i)"
      "\<not> has_prefix (drop i sql) ''--''" "\<not> has_prefix (drop i sql) ''/*''" "\<not> sql_blank (sql ! i)"
    | (line) "sql ! i = CHR ''-''" "sql ! i \<notin> set quote_bytes" "has_prefix (drop i sql) ''--''"
      "sqlDataEnd sql i = skipSQLLineComment sql i"
    | (block) "sql ! i = CHR ''/''" "sql ! i \<notin> set quote_bytes" "\<not> has_prefix (drop i sql) ''--''"
      "has_prefix (drop i sql) ''/*''" "sqlDataEnd sql i = skipSQLBlockComment sql i"
proof -
  have d: "drop i sql = sql ! i # drop (Suc i) sql" using assms(1) by (simp add: Cons_nth_drop_Suc)
  consider "sql ! i \<in> set quote_bytes" | "sql ! i \<notin> set quote_bytes" "has_prefix (drop i sql) ''--''"
    | "sql ! i \<notin> set quote_bytes" "\<not> has_prefix (drop i sql) ''--''" "has_prefix (drop i sql) ''/*''"
    using assms(2) by (auto simp: sqlDataEnd_def split: if_splits)
  then show thesis
  proof cases
    case 1
    then show thesis by (intro quote) (auto simp: sqlDataEnd_def has_prefix_two d quote_bytes_def sql_blank_def)
  next
    case 2
    then show thesis by (intro line) (auto simp: sqlDataEnd_def has_prefix_two d quote_bytes_def)
  next
    case 3
    then show thesis by (intro block) (auto simp: sqlDataEnd_def has_prefix_two d quote_bytes_def)
  qed
qed

lemma no_data:
  assumes "i < length sql" and "\<not> sqlDataEnd sql i > i"
  shows "sql ! i \<notin> set quote_bytes" "\<not> has_prefix (drop i sql) ''--''" "\<not> has_prefix (drop i sql) ''/*''"
  using assms skipSQLQuoted_bounds [of i sql "sql ! i"] skipSQLLineComment_bounds [of i sql] skipSQLBlockComment_bounds [of i sql]
  by (auto simp: sqlDataEnd_def split: if_splits)

lemma raw_placeholder_data:
  assumes "i < length sql" and "sqlDataEnd sql i > i"
  shows "raw_placeholder sql i line = raw_placeholder sql (sqlDataEnd sql i) (line + newlines_in sql i (sqlDataEnd sql i))"
  using assms by (cases rule: data_cases) (use assms(1) in \<open>auto simp: raw_placeholder.simps [of sql i] quote_bytes_def sql_blank_def\<close>)

lemma raw_placeholder_byte:
  assumes "i < length sql" and "\<not> sqlDataEnd sql i > i"
  shows "raw_placeholder sql i line =
    (if sql ! i = CHR ''?'' then Some line else raw_placeholder sql (i + 1) (if sql ! i = newline then line + 1 else line))"
  using assms(1) no_data [OF assms] by (auto simp: raw_placeholder.simps [of sql i])

lemma offset_induct [consumes 1, case_names finish data byte]:
  assumes "i \<le> length sql" and "\<And>i. i = length sql \<Longrightarrow> P i"
    and "\<And>i. i < length sql \<Longrightarrow> sqlDataEnd sql i > i \<Longrightarrow> sqlDataEnd sql i \<le> length sql \<Longrightarrow> P (sqlDataEnd sql i) \<Longrightarrow> P i"
    and "\<And>i. i < length sql \<Longrightarrow> \<not> sqlDataEnd sql i > i \<Longrightarrow> (\<And>j. i < j \<Longrightarrow> j \<le> length sql \<Longrightarrow> P j) \<Longrightarrow> P i"
  shows "P i"
  using assms(1)
proof (induction "length sql - i" arbitrary: i rule: less_induct)
  case less
  consider "i = length sql" | "i < length sql" "sqlDataEnd sql i > i" | "i < length sql" "\<not> sqlDataEnd sql i > i"
    using less.prems by linarith
  then show ?case
  proof cases
    case 1 then show ?thesis by (rule assms(2))
  next
    case 2
    then show ?thesis using assms(3) [of i] sqlDataEnd_bounds [of i sql] less.hyps [of "sqlDataEnd sql i"] by auto
  next
    case 3
    then show ?thesis using assms(4) [of i] less.hyps by auto
  qed
qed

lemma raw_placeholder_none:
  "i \<le> length sql \<Longrightarrow> raw_placeholder sql i line = None \<longleftrightarrow> lexical_placeholders (drop i sql) = 0"
proof (induction i arbitrary: line rule: offset_induct)
  case (finish i)
  then show ?case by (simp add: raw_placeholder.simps)
next
  case (data i)
  then show ?case by (simp add: raw_placeholder_data step_data)
next
  case (byte i)
  then show ?case by (simp add: raw_placeholder_byte step_byte)
qed

lemma rejectRawPlaceholders_accepts:
  "q_command q \<noteq> CommandExec \<Longrightarrow> rejectRawPlaceholders q line = Inr () \<longleftrightarrow> lexical_placeholders (q_sql q) = 0"
  using raw_placeholder_none [of 0 "q_sql q" line]
  by (auto simp: rejectRawPlaceholders_def split: option.splits)

lemma scan_exec_data:
  assumes "i < length sql" "sqlDataEnd sql i > i" "scan_exec sql w i p content ended = Inr n"
  shows "\<exists>content'. scan_exec sql w (sqlDataEnd sql i) p content' ended = Inr n"
  using assms(1,2)
proof (cases rule: data_cases)
  case quote
  with assms show ?thesis
    by (auto simp: scan_exec.simps [of sql w i] scanExecQuote_def skipSQLQuoted_def split: if_splits)
next
  case line
  with assms show ?thesis by (auto simp: scan_exec.simps [of sql w i] sql_blank_def)
next
  case block
  with assms show ?thesis by (auto simp: scan_exec.simps [of sql w i] sql_blank_def split: if_splits)
qed

lemma scan_exec_byte:
  assumes "i < length sql" "\<not> sqlDataEnd sql i > i" "scan_exec sql w i p content ended = Inr n"
  shows "\<exists>content' ended'. scan_exec sql w (i + 1) (if sql ! i = CHR ''?'' then p + 1 else p) content' ended' = Inr n"
  using assms(1,3) no_data [OF assms(1,2)] unfolding scan_exec.simps [of sql w i]
  by (cases "sql_blank (sql ! i)") (auto simp: sql_blank_def split: if_splits)

lemma scan_exec_counts:
  "i \<le> length sql \<Longrightarrow> scan_exec sql w i p content ended = Inr n \<Longrightarrow> n = p + lexical_placeholders (drop i sql)"
proof (induction i arbitrary: p content ended rule: offset_induct)
  case (finish i)
  then show ?case by (simp add: scan_exec.simps split: if_splits)
next
  case (data i)
  then show ?case using scan_exec_data [of i sql w p content ended n] by (auto simp: step_data)
next
  case (byte i)
  obtain content' ended' where "scan_exec sql w (i + 1) (if sql ! i = CHR ''?'' then p + 1 else p) content' ended' = Inr n"
    using scan_exec_byte [OF byte(1,2,4)] by blast
  then have "n = (if sql ! i = CHR ''?'' then p + 1 else p) + lexical_placeholders (drop (i + 1) sql)"
    using byte(1,3) by simp
  then show ?case using byte(1,2) by (simp add: step_byte)
qed

lemma scanSingleExecSQL_counts: "scanSingleExecSQL sql w = Inr n \<Longrightarrow> n = lexical_placeholders sql"
  using scan_exec_counts [of 0 sql w 0 False False n] by (simp add: scanSingleExecSQL_def)

section \<open>Rewriting that leaves data alone\<close>

text \<open>A byte that starts no data and ends no quoted token: what macros are made of, but for their names.\<close>

definition plain :: "char \<Rightarrow> bool" where
  "plain c \<longleftrightarrow> c \<notin> set quote_bytes \<and> c \<noteq> CHR ''-'' \<and> c \<noteq> CHR ''*'' \<and> c \<noteq> CHR ''/''"

definition quiet :: "char \<Rightarrow> bool" where
  "quiet c \<longleftrightarrow> plain c \<and> c \<noteq> CHR ''?''"

lemma data_len_plain: "plain c \<Longrightarrow> data_len (c # s) = 0"
  by (auto simp: data_len_def sqlDataEnd_def plain_def has_prefix_two)

lemma skip_quiet: "list_all quiet u \<Longrightarrow> lexical_placeholders (u @ s) = lexical_placeholders s"
  by (induction u) (auto simp: lexical_placeholders_byte data_len_plain quiet_def)

lemma count_plain: "list_all plain u \<Longrightarrow> lexical_placeholders (u @ s) = count_list u (CHR ''?'') + lexical_placeholders s"
  by (induction u) (auto simp: lexical_placeholders_byte data_len_plain)

text \<open>
  \<open>rewritten s t n\<close>: \<open>t\<close> is \<open>s\<close> with spans of code replaced by plain text that holds \<open>n\<close> placeholders more.
\<close>

inductive rewritten :: "string \<Rightarrow> string \<Rightarrow> nat \<Rightarrow> bool" where
  all: "rewritten [] [] 0"
| data: "q \<noteq> [] \<Longrightarrow> data_len (q @ s) = length q \<Longrightarrow> rewritten s t n \<Longrightarrow> rewritten (q @ s) (q @ t) n"
| byte: "data_len (c # s) = 0 \<Longrightarrow> rewritten s t n \<Longrightarrow> rewritten (c # s) (c # t) n"
| span: "lexical_placeholders (u @ s) = lexical_placeholders s \<Longrightarrow> u \<noteq> [] \<Longrightarrow> v \<noteq> [] \<Longrightarrow> list_all plain v \<Longrightarrow> rewritten s t n
     \<Longrightarrow> rewritten (u @ s) (v @ t) (n + count_list v (CHR ''?''))"

lemma rewritten_head: "rewritten s t n \<Longrightarrow> s = [] \<and> t = [] \<or> s \<noteq> [] \<and> t \<noteq> [] \<and> (hd t = hd s \<or> plain (hd t))"
  by (induction rule: rewritten.induct) (auto simp: list_all_iff hd_append)

lemma quoted_len_next: "quoted_len q (u @ t) = (length u, True) \<Longrightarrow> t = [] \<or> hd t \<noteq> q"
proof (induction q u rule: quoted_len.induct)
  case (1 q)
  then show ?case using quoted_len_pos [of q t] by auto
next
  case (2 q c)
  then show ?case using quoted_len_pos [of q t] by (cases t) (auto split: if_splits)
next
  case (3 q c d ds)
  show ?case
  proof (cases "c = backslash \<or> c = q \<and> d = q")
    case True
    with 3 show ?thesis by (cases "quoted_len q (ds @ t)") auto
  next
    case False
    with 3 show ?thesis by (cases "quoted_len q (d # ds @ t)") (auto split: if_splits)
  qed
qed

lemma takeWhile_len_append:
  "length (takeWhile P (u @ s)) < length (u @ s) \<Longrightarrow> length (takeWhile P (u @ s)) < length u
    \<Longrightarrow> length (takeWhile P (u @ t)) = length (takeWhile P (u @ s))"
  by (induction u) auto

lemma first_index_append:
  assumes "first_index (u @ s) p = Some k" and "k + length p \<le> length u"
  shows "first_index (u @ t) p = Some k"
proof -
  have "has_prefix (drop j (u @ t)) p \<longleftrightarrow> has_prefix (drop j (u @ s)) p" if "j \<le> k" for j
    using that assms(2) by (simp add: has_prefix_def)
  then show ?thesis using assms by (auto simp: first_index_first)
qed

text \<open>The token at the start of a text is the same when what follows it changes within code.\<close>

lemma data_len_stable:
  assumes "q \<noteq> []" "data_len (q @ s) = length q"
    and "s = [] \<and> t = [] \<or> s \<noteq> [] \<and> t \<noteq> [] \<and> (hd t = hd s \<or> plain (hd t))"
  shows "data_len (q @ t) = length q"
proof -
  obtain c u where q: "q = c # u" using assms(1) by (cases q) auto
  show ?thesis
  proof (cases "s = []")
    case True
    with assms show ?thesis by simp
  next
    case s: False
    have e: "sqlDataEnd (q @ s) 0 = length q" using assms(2) q by (simp add: data_len_def)
    from q e have "0 < length (q @ s)" "sqlDataEnd (q @ s) 0 > 0" by simp_all
    then show ?thesis
    proof (cases rule: data_cases)
      case quote
      then have c: "c \<in> set quote_bytes" by (simp add: q)
      have ql: "1 + fst (quoted_len c (u @ s)) = length q"
        using e quote quoted_close_len [of 1 "q @ s" c] by (simp add: q skipSQLQuoted_def)
      have closes: "snd (quoted_len c (u @ s))"
        using ql s quoted_len_open [of c "u @ s"] by (auto simp: q)
      then have tok: "quoted_len c (u @ s) = (length u, True)" using ql by (cases "quoted_len c (u @ s)") (simp add: q)
      then have "s = [] \<or> hd s \<noteq> c" by (rule quoted_len_next)
      then have "t = [] \<or> hd t \<noteq> c" using assms(3) c by (auto simp: plain_def)
      then have "quoted_len c (u @ t) = (length u, True)" by (rule quoted_len_append [OF tok])
      then show ?thesis using c quoted_close_len [of 1 "q @ t" c]
        by (simp add: data_len_def sqlDataEnd_def q skipSQLQuoted_def)
    next
      case line
      let ?P = "\<lambda>c. c \<noteq> CHR 0x0A"
      have l: "length (takeWhile ?P (q @ s)) < length (q @ s)" "length (takeWhile ?P (q @ s)) + 1 = length q"
        using e line s by (auto simp: skipSQLLineComment_def Let_def split: if_splits)
      then have l': "length (takeWhile ?P (q @ t)) = length (takeWhile ?P (q @ s))"
        using takeWhile_len_append [of ?P q s t] by simp
      have two: "has_prefix (q @ t) ''--''" "q ! 0 \<notin> set quote_bytes"
      proof -
        from line obtain x where x: "q @ s = CHR ''-'' # CHR ''-'' # x" by (auto simp: has_prefix_two)
        then have "u \<noteq> []" using l by (cases u) (auto simp: q)
        then show "has_prefix (q @ t) ''--''" using x by (cases u) (auto simp: q has_prefix_two)
        show "q ! 0 \<notin> set quote_bytes" using line by (simp add: q)
      qed
      show ?thesis using two l l' by (simp add: data_len_def sqlDataEnd_def q skipSQLLineComment_def Let_def)
    next
      case block
      from block obtain x where x: "q @ s = CHR ''/'' # CHR ''*'' # x" by (auto simp: has_prefix_two)
      obtain k where k: "first_index (drop 2 (q @ s)) ''*/'' = Some k" "k + 4 = length q"
      proof (cases "first_index (drop (0 + 2) (q @ s)) ''*/''")
        case None
        with e block s show ?thesis by (simp add: skipSQLBlockComment_def)
      next
        case (Some k)
        have "k + 4 = length q" using e block(5) Some unfolding skipSQLBlockComment_def by simp
        then show ?thesis by (rule that [OF Some [unfolded add_0]])
      qed
      then have "first_index (drop 2 q @ s) ''*/'' = Some k" by simp
      then have k': "first_index (drop 2 (q @ t)) ''*/'' = Some k"
        using first_index_append [of "drop 2 q" s "''*/''" k t] k(2) by simp
      have "u \<noteq> []" using k(2) by (auto simp: q)
      then have two: "has_prefix (q @ t) ''/*''" "c = CHR ''/''" using x by (cases u; auto simp: q has_prefix_two)+
      then have "\<not> has_prefix (q @ t) ''--''" by (auto simp: q has_prefix_two)
      then show ?thesis using two k' k(2) block by (simp add: data_len_def sqlDataEnd_def q skipSQLBlockComment_def)
    qed
  qed
qed

lemma data_len_byte_stable:
  assumes "data_len (c # s) = 0"
    and "s = [] \<and> t = [] \<or> s \<noteq> [] \<and> t \<noteq> [] \<and> (hd t = hd s \<or> plain (hd t))"
  shows "data_len (c # t) = 0"
proof -
  have "\<not> sqlDataEnd (c # s) 0 > 0" using assms(1) by (simp add: data_len_def)
  from no_data [OF _ this] have no: "c \<notin> set quote_bytes" "\<not> has_prefix (c # s) ''--''" "\<not> has_prefix (c # s) ''/*''" by auto
  have "\<not> has_prefix (c # t) [a, b]" if "\<not> has_prefix (c # s) [a, b]" "\<not> plain b" for a b
    using that assms(2) by (cases s; cases t) (auto simp: has_prefix_two)
  from this [OF no(2)] this [OF no(3)] have "\<not> has_prefix (c # t) ''--''" "\<not> has_prefix (c # t) ''/*''"
    by (simp_all add: plain_def)
  with no(1) show ?thesis by (simp add: data_len_def sqlDataEnd_def)
qed

lemma rewritten_counts: "rewritten s t n \<Longrightarrow> lexical_placeholders t = lexical_placeholders s + n"
proof (induction rule: rewritten.induct)
  case all
  show ?case by simp
next
  case (data q s t n)
  then show ?case using data_len_stable [OF data(1,2) rewritten_head [OF data(3)]]
    by (simp add: lexical_placeholders_data)
next
  case (byte c s t n)
  then show ?case using data_len_byte_stable [OF byte(1) rewritten_head [OF byte(2)]]
    by (simp add: lexical_placeholders_byte)
next
  case (span u s v t n)
  then show ?case by (simp add: count_plain)
qed

section \<open>The macros are code without placeholders\<close>

abbreviation placeholders_at :: "string \<Rightarrow> nat \<Rightarrow> nat" where
  "placeholders_at sql i \<equiv> lexical_placeholders (drop i sql)"

lemma sub_text_split: "i \<le> j \<Longrightarrow> drop i sql = sub_text sql i j @ drop j sql"
  using append_take_drop_id [of "j - i" "drop i sql"] by (simp add: sub_text_def)

lemma skip_span: "list_all quiet (sub_text sql i j) \<Longrightarrow> i \<le> j \<Longrightarrow> placeholders_at sql i = placeholders_at sql j"
  using skip_quiet [of "sub_text sql i j" "drop j sql"] by (simp add: sub_text_split [symmetric])

lemma skip_blanks: "placeholders_at sql (skipSQLWhitespace sql i) = placeholders_at sql i"
proof -
  have "list_all quiet (takeWhile sql_blank (drop i sql))"
    by (auto simp: list_all_iff quiet_def plain_def sql_blank_def quote_bytes_def dest!: set_takeWhileD)
  from skip_quiet [OF this, of "dropWhile sql_blank (drop i sql)"]
  moreover have "dropWhile sql_blank (drop i sql) = drop (skipSQLWhitespace sql i) sql"
    by (simp add: skipSQLWhitespace_def dropWhile_eq_drop add.commute)
  ultimately show ?thesis by (metis takeWhile_dropWhile_id)
qed

lemma skip_byte: "i < length sql \<Longrightarrow> quiet (sql ! i) \<Longrightarrow> placeholders_at sql (i + 1) = placeholders_at sql i"
  using skip_quiet [of "[sql ! i]" "drop (i + 1) sql"] by (simp add: Cons_nth_drop_Suc)

lemma quiet_lower: "quiet (lower_char c) \<Longrightarrow> quiet c"
proof (rule ccontr)
  assume a: "quiet (lower_char c)" and "\<not> quiet c"
  then have "c \<in> {CHR 0x27, CHR 0x22, CHR 0x60, CHR ''-'', CHR ''*'', CHR ''/'', CHR ''?''}"
    by (auto simp: quiet_def plain_def quote_bytes_def)
  then have "lower_char c = c" by (elim insertE) simp_all
  with a \<open>\<not> quiet c\<close> show False by simp
qed

lemma skip_macro:
  assumes "equal_fold (sub_text sql i (i + length macro)) macro" and "list_all quiet (to_lower macro)"
  shows "placeholders_at sql (i + length macro) = placeholders_at sql i"
proof -
  have "list_all quiet (to_lower (sub_text sql i (i + length macro)))" using assms by (simp add: equal_fold_def)
  then have "list_all quiet (sub_text sql i (i + length macro))"
    by (auto simp: to_lower_def list_all_iff intro: quiet_lower)
  then show ?thesis by (simp add: skip_span)
qed

lemma ident_char_quiet: "letter_or_underscore c \<or> is_digit c \<Longrightarrow> quiet c \<and> c \<noteq> backslash"
  by (auto simp: letter_or_underscore_def is_digit_def is_lower_def is_upper_def quiet_def plain_def quote_bytes_def Let_def)

lemma isSQLIdentifierByte_char: "isSQLIdentifierByte c \<longleftrightarrow> letter_or_underscore c \<or> is_digit c"
  by (auto simp: isSQLIdentifierByte_def letter_or_underscore_def is_digit_def Let_def)

lemma identifier_quiet: "isGoIdentifier name \<Longrightarrow> list_all (\<lambda>c. quiet c \<and> c \<noteq> backslash) name"
  by (auto simp: isGoIdentifier_def list_all_iff dest!: ident_char_quiet)

lemma quoted_len_name:
  assumes "list_all (\<lambda>c. c \<noteq> q \<and> c \<noteq> backslash) name" "rest = [] \<or> hd rest \<noteq> q" "q \<noteq> backslash"
  shows "quoted_len q (name @ q # rest) = (length name + 1, True)"
  using assms
proof (induction name)
  case Nil
  then show ?case by (cases rest) auto
next
  case (Cons c cs)
  then show ?case by (cases cs) auto
qed

lemma before_blanks:
  assumes "skipSQLWhitespace sql j < length sql" "sql ! skipSQLWhitespace sql j \<noteq> single_quote"
  shows "j < length sql \<and> sql ! j \<noteq> single_quote"
proof -
  have j: "j < length sql" using assms(1) skipSQLWhitespace_ge [of j sql] by simp
  then have d: "drop j sql = sql ! j # drop (Suc j) sql" by (simp add: Cons_nth_drop_Suc)
  show ?thesis
  proof (cases "sql_blank (sql ! j)")
    case True
    with j show ?thesis by (auto simp: sql_blank_def)
  next
    case False
    then have "skipSQLWhitespace sql j = j" by (simp add: skipSQLWhitespace_def d)
    with assms j show ?thesis by simp
  qed
qed

lemma skip_quoted_name:
  assumes "i < length sql" "sql ! i = single_quote" "index_byte (drop (i + 1) sql) single_quote = Some k"
    and "isGoIdentifier (sub_text sql (i + 1) (i + 1 + k))"
    and "i + 1 + k + 1 < length sql" "sql ! (i + 1 + k + 1) \<noteq> single_quote"
  shows "placeholders_at sql (i + 1 + k + 1) = placeholders_at sql i"
proof -
  define name where "name = sub_text sql (i + 1) (i + 1 + k)"
  have k: "k < length (drop (i + 1) sql)" "drop (i + 1) sql ! k = single_quote"
    using index_byte_bound [OF assms(3)] by auto
  have "drop (i + 1) sql = take k (drop (i + 1) sql) @ drop (i + 1) sql ! k # drop (Suc k) (drop (i + 1) sql)"
    using k(1) by (rule id_take_nth_drop)
  then have split: "drop (i + 1) sql = name @ single_quote # drop (i + 1 + k + 1) sql"
    using k(2) by (simp add: name_def sub_text_def add.commute)
  have len: "length name = k" using k(1) by (simp add: name_def sub_text_def)
  have "list_all (\<lambda>c. c \<noteq> single_quote \<and> c \<noteq> backslash) name"
    using identifier_quiet [OF assms(4)] by (auto simp: name_def list_all_iff quiet_def plain_def quote_bytes_def)
  moreover have "hd (drop (i + 1 + k + 1) sql) \<noteq> single_quote" using assms(5,6) by (simp add: hd_drop_conv_nth)
  ultimately have "quoted_len single_quote (drop (i + 1) sql) = (k + 1, True)"
    using quoted_len_name [of single_quote name "drop (i + 1 + k + 1) sql"] unfolding split len by simp
  then have "skipSQLQuoted sql i single_quote = i + 1 + k + 1"
    using assms(1) quoted_close_len [of "i + 1" sql single_quote] by (simp add: skipSQLQuoted_def)
  then have "sqlDataEnd sql i = i + 1 + k + 1" using assms(2) by (simp add: sqlDataEnd_def quote_bytes_def)
  then show ?thesis using step_data [of i sql] assms(1) by simp
qed

lemma quiet_bytes: "quiet (CHR ''('')" "quiet (CHR '')'')" "quiet (CHR '','')"
  by (simp_all add: quiet_def plain_def quote_bytes_def)

lemma macro_has_no_placeholder:
  assumes "parseNamedMacroAt sql i macro = Inr (Some (name, e))" and "list_all quiet (to_lower macro)"
  shows "placeholders_at sql e = placeholders_at sql i"
proof -
  define open_at where "open_at = skipSQLWhitespace sql (i + length macro)"
  define quote_at where "quote_at = skipSQLWhitespace sql (open_at + 1)"
  from assms(1) obtain k where m: "equal_fold (sub_text sql i (i + length macro)) macro"
    and o: "open_at < length sql" "sql ! open_at = CHR ''(''"
    and q: "quote_at < length sql" "sql ! quote_at = single_quote" "index_byte (drop (quote_at + 1) sql) single_quote = Some k"
    and n: "isGoIdentifier (sub_text sql (quote_at + 1) (quote_at + 1 + k))"
    and c: "skipSQLWhitespace sql (quote_at + 1 + k + 1) < length sql" "sql ! skipSQLWhitespace sql (quote_at + 1 + k + 1) = CHR '')''"
    and e: "e = skipSQLWhitespace sql (quote_at + 1 + k + 1) + 1"
    by (auto simp: parseNamedMacroAt_def Let_def open_at_def quote_at_def split: if_splits option.splits)
  have after: "quote_at + 1 + k + 1 < length sql" "sql ! (quote_at + 1 + k + 1) \<noteq> single_quote"
    using before_blanks [of sql "quote_at + 1 + k + 1"] c by auto
  have "placeholders_at sql i = placeholders_at sql (i + length macro)" by (rule skip_macro [OF m assms(2), symmetric])
  also have "\<dots> = placeholders_at sql open_at" unfolding open_at_def by (rule skip_blanks [symmetric])
  also have "\<dots> = placeholders_at sql (open_at + 1)" using o quiet_bytes by (intro skip_byte [symmetric]) auto
  also have "\<dots> = placeholders_at sql quote_at" unfolding quote_at_def by (rule skip_blanks [symmetric])
  also have "\<dots> = placeholders_at sql (quote_at + 1 + k + 1)" by (rule skip_quoted_name [OF q n after, symmetric])
  also have "\<dots> = placeholders_at sql (skipSQLWhitespace sql (quote_at + 1 + k + 1))" by (rule skip_blanks [symmetric])
  also have "\<dots> = placeholders_at sql e" unfolding e using c quiet_bytes by (intro skip_byte [symmetric]) auto
  finally show ?thesis ..
qed

lemma external_has_no_placeholder:
  assumes "parseExternalAt sql i = Inr (Some (name, schemaName, e))"
  shows "placeholders_at sql e = placeholders_at sql i"
proof -
  define open_at where "open_at = skipSQLWhitespace sql (i + length externalTablePrefix)"
  define arg_at where "arg_at = skipSQLWhitespace sql (open_at + 1)"
  from assms obtain j where m: "equal_fold (sub_text sql i (i + length externalTablePrefix)) externalTablePrefix"
    and o: "open_at < length sql" "sql ! open_at = CHR ''(''"
    and x: "external_name sql i arg_at = Inr (name, j)"
    and c: "skipSQLWhitespace sql (identifier_end sql j) < length sql" "sql ! skipSQLWhitespace sql (identifier_end sql j) = CHR '')''"
    and e: "e = skipSQLWhitespace sql (identifier_end sql j) + 1"
    by (auto simp: parseExternalAt_def Let_def open_at_def arg_at_def split: if_splits)
  have named: "placeholders_at sql arg_at = placeholders_at sql j"
  proof (cases "arg_at < length sql \<and> sql ! arg_at = single_quote")
    case False
    with x show ?thesis by (simp add: external_name_def)
  next
    case True
    with x obtain k where k: "index_byte (drop (arg_at + 1) sql) single_quote = Some k"
      "isGoIdentifier (sub_text sql (arg_at + 1) (arg_at + 1 + k))"
      and comma: "skipSQLWhitespace sql (arg_at + 1 + k + 1) < length sql" "sql ! skipSQLWhitespace sql (arg_at + 1 + k + 1) = CHR '',''"
      and j: "j = skipSQLWhitespace sql (skipSQLWhitespace sql (arg_at + 1 + k + 1) + 1)"
      by (auto simp: external_name_def Let_def split: if_splits option.splits)
    have after: "arg_at + 1 + k + 1 < length sql" "sql ! (arg_at + 1 + k + 1) \<noteq> single_quote"
      using before_blanks [of sql "arg_at + 1 + k + 1"] comma by auto
    have "placeholders_at sql arg_at = placeholders_at sql (arg_at + 1 + k + 1)"
      using True k after by (intro skip_quoted_name [symmetric]) auto
    also have "\<dots> = placeholders_at sql (skipSQLWhitespace sql (arg_at + 1 + k + 1))" by (rule skip_blanks [symmetric])
    also have "\<dots> = placeholders_at sql (skipSQLWhitespace sql (arg_at + 1 + k + 1) + 1)"
      using comma quiet_bytes by (intro skip_byte [symmetric]) auto
    also have "\<dots> = placeholders_at sql j" unfolding j by (rule skip_blanks [symmetric])
    finally show ?thesis .
  qed
  have id: "sub_text sql j (identifier_end sql j) = takeWhile isSQLIdentifierByte (drop j sql)"
    by (simp add: sub_text_def identifier_end_def takeWhile_eq_take [symmetric])
  have ident: "list_all quiet (sub_text sql j (identifier_end sql j))"
    unfolding id by (auto simp: list_all_iff isSQLIdentifierByte_char dest!: set_takeWhileD ident_char_quiet)
  have "list_all quiet (to_lower externalTablePrefix)"
    by (simp add: externalTablePrefix_def quiet_def plain_def quote_bytes_def)
  then have "placeholders_at sql i = placeholders_at sql (i + length externalTablePrefix)" by (rule skip_macro [OF m, symmetric])
  also have "\<dots> = placeholders_at sql open_at" unfolding open_at_def by (rule skip_blanks [symmetric])
  also have "\<dots> = placeholders_at sql (open_at + 1)" using o quiet_bytes by (intro skip_byte [symmetric]) auto
  also have "\<dots> = placeholders_at sql arg_at" unfolding arg_at_def by (rule skip_blanks [symmetric])
  also note named
  also have "placeholders_at sql j = placeholders_at sql (identifier_end sql j)" by (rule skip_span [OF ident identifier_end_ge])
  also have "\<dots> = placeholders_at sql (skipSQLWhitespace sql (identifier_end sql j))" by (rule skip_blanks [symmetric])
  also have "\<dots> = placeholders_at sql e" unfolding e using c quiet_bytes by (intro skip_byte [symmetric]) auto
  finally show ?thesis ..
qed

section \<open>The scanners rewrite code only\<close>

lemma rewritten_data:
  assumes "i < length sql" "sqlDataEnd sql i > i" "rewritten (drop (sqlDataEnd sql i) sql) t n"
  shows "rewritten (drop i sql) (sub_text sql i (sqlDataEnd sql i) @ t) n"
proof -
  let ?q = "sub_text sql i (sqlDataEnd sql i)"
  have s: "drop i sql = ?q @ drop (sqlDataEnd sql i) sql" using assms(2) by (intro sub_text_split) simp
  have l: "length ?q = sqlDataEnd sql i - i" using sqlDataEnd_bounds [OF assms(1)] by (auto simp: sub_text_def)
  have "data_len (?q @ drop (sqlDataEnd sql i) sql) = length ?q"
    unfolding s [symmetric] l using assms(1) by (simp add: sqlDataEnd_shift)
  moreover have "?q \<noteq> []" using l assms(2) by auto
  ultimately show ?thesis unfolding s by (intro rewritten.data assms(3))
qed

lemma rewritten_byte:
  assumes "i < length sql" "\<not> sqlDataEnd sql i > i" "rewritten (drop (i + 1) sql) t n"
  shows "rewritten (drop i sql) (sql ! i # t) n"
proof -
  have s: "drop i sql = sql ! i # drop (i + 1) sql" using assms(1) by (simp add: Cons_nth_drop_Suc)
  have "data_len (sql ! i # drop (i + 1) sql) = 0" unfolding s [symmetric] using assms(1,2) by (simp add: sqlDataEnd_shift)
  then show ?thesis unfolding s using assms(3) by (rule rewritten.byte)
qed

lemma rewritten_span:
  assumes "i < e" "e \<le> length sql" "placeholders_at sql e = placeholders_at sql i" "v \<noteq> []" "list_all plain v"
    "rewritten (drop e sql) t n"
  shows "rewritten (drop i sql) (v @ t) (n + count_list v (CHR ''?''))"
proof -
  have s: "drop i sql = sub_text sql i e @ drop e sql" using assms(1) by (intro sub_text_split) simp
  have "sub_text sql i e \<noteq> []" using assms(1,2) by (auto simp: sub_text_def)
  with assms(3-6) show ?thesis unfolding s by (intro rewritten.span) (simp_all add: s [symmetric])
qed

lemma scan_named_args_data:
  assumes "i < length sql" "sqlDataEnd sql i > i"
  shows "scan_named_args sql i out names = scan_named_args sql (sqlDataEnd sql i) (out @ sub_text sql i (sqlDataEnd sql i)) names"
  using assms by (cases rule: data_cases) (use assms(1) in \<open>auto simp: scan_named_args.simps [of sql i]\<close>)

lemma scan_named_args_byte:
  assumes "i < length sql" "\<not> sqlDataEnd sql i > i"
  shows "scan_named_args sql i out names = (case parseNamedArgAt sql i of
       Inl err \<Rightarrow> Inl err
     | Inr (Some (name, e)) \<Rightarrow> scan_named_args sql e (out @ ''?'') (names @ [name])
     | Inr None \<Rightarrow> scan_named_args sql (i + 1) (out @ [sql ! i]) names)"
  using assms(1) no_data [OF assms] by (simp add: scan_named_args.simps [of sql i])

lemma plain_placeholder: "list_all plain ''?''"
  by (simp add: plain_def quote_bytes_def)

lemma scan_named_args_rewrites:
  "i \<le> length sql \<Longrightarrow> scan_named_args sql i out names = Inr (out', names') \<Longrightarrow>
     \<exists>t more_names. out' = out @ t \<and> names' = names @ more_names \<and> rewritten (drop i sql) t (length more_names)"
proof (induction i arbitrary: out names rule: offset_induct)
  case (finish i)
  then show ?case by (intro exI [of _ "[]"]) (simp add: scan_named_args.simps [of sql "length sql"] rewritten.all)
next
  case (data i)
  obtain t ns where "out' = (out @ sub_text sql i (sqlDataEnd sql i)) @ t" "names' = names @ ns"
    "rewritten (drop (sqlDataEnd sql i) sql) t (length ns)"
    using data(4) data(5) unfolding scan_named_args_data [OF data(1,2)] by blast
  then show ?case using rewritten_data [OF data(1,2)] by fastforce
next
  case (byte i)
  note step = byte(4) [unfolded scan_named_args_byte [OF byte(1,2)]]
  show ?case
  proof (cases "parseNamedArgAt sql i")
    case (Inl err)
    with step show ?thesis by simp
  next
    case (Inr r)
    show ?thesis
    proof (cases r)
      case None
      then obtain t ns where "out' = (out @ [sql ! i]) @ t" "names' = names @ ns" "rewritten (drop (i + 1) sql) t (length ns)"
        using byte(3) [of "i + 1" "out @ [sql ! i]" names] byte(1) step Inr by auto
      then show ?thesis using rewritten_byte [OF byte(1,2)] by fastforce
    next
      case (Some m)
      obtain name e where m: "m = (name, e)" by (cases m)
      have p: "parseNamedArgAt sql i = Inr (Some (name, e))" using Inr Some m by simp
      have e: "i < e \<and> e \<le> length sql" using p by (rule parseNamedArgAt_end)
      have "list_all quiet (to_lower namedArgPrefix)" by (simp add: namedArgPrefix_def quiet_def plain_def quote_bytes_def)
      with p have c: "placeholders_at sql e = placeholders_at sql i"
        unfolding parseNamedArgAt_def by (rule macro_has_no_placeholder)
      obtain t ns where r: "out' = (out @ ''?'') @ t" "names' = (names @ [name]) @ ns" "rewritten (drop e sql) t (length ns)"
        using byte(3) [of e "out @ ''?''" "names @ [name]"] e step p by auto
      have "rewritten (drop i sql) (''?'' @ t) (length ns + count_list ''?'' (CHR ''?''))"
        using e c plain_placeholder r(3) by (intro rewritten_span [of i e]) auto
      then have "rewritten (drop i sql) (''?'' @ t) (length (name # ns))" by simp
      with r show ?thesis by (intro exI [of _ "''?'' @ t"] exI [of _ "name # ns"]) simp
    qed
  qed
qed

lemma normalizeNamedArgs_counts:
  assumes "normalizeNamedArgs sql = Inr (out, names)"
  shows "lexical_placeholders out = lexical_placeholders sql + length names"
proof -
  from scan_named_args_rewrites [of 0 sql "[]" "[]" out names] assms
  have "rewritten sql out (length names)" by (auto simp: normalizeNamedArgs_def)
  then show ?thesis by (rule rewritten_counts)
qed

lemma scan_externals_data:
  assumes "i < length sql" "sqlDataEnd sql i > i"
  shows "scan_externals use sql i out params = scan_externals use sql (sqlDataEnd sql i) (out @ sub_text sql i (sqlDataEnd sql i)) params"
  using assms by (cases rule: data_cases) (use assms(1) in \<open>auto simp: scan_externals.simps [of use sql i]\<close>)

lemma scan_externals_byte:
  assumes "i < length sql" "\<not> sqlDataEnd sql i > i"
  shows "scan_externals use sql i out params = (case parseExternalAt sql i of
       Inl err \<Rightarrow> Inl err
     | Inr None \<Rightarrow> scan_externals use sql (i + 1) (out @ [sql ! i]) params
     | Inr (Some (name, schemaName, e)) \<Rightarrow> (case use name schemaName of
           Inl err \<Rightarrow> Inl err
         | Inr p \<Rightarrow> (case add_external p params of
             Inl err \<Rightarrow> Inl err
           | Inr params' \<Rightarrow> scan_externals use sql e (out @ writeSQLIdentifier (xp_wire p)) params')))"
  using assms(1) no_data [OF assms] by (simp add: scan_externals.simps [of use sql i])

lemma quiet_plain: "list_all quiet v \<Longrightarrow> list_all plain v" "list_all quiet v \<Longrightarrow> count_list v (CHR ''?'') = 0"
  by (induction v) (auto simp: quiet_def)

lemma external_schema_quiet:
  assumes "parseExternalAt sql i = Inr (Some (name, schemaName, e))"
  shows "schemaName \<noteq> [] \<and> list_all quiet schemaName \<and> list_all (\<lambda>c. \<not> non_ascii c) schemaName"
proof -
  from assms obtain j where j: "j < length sql" "letter_or_underscore (sql ! j)" "schemaName = sub_text sql j (identifier_end sql j)"
    unfolding parseExternalAt_def Let_def by (auto simp: not_le split: if_splits)
  then have s: "schemaName = takeWhile isSQLIdentifierByte (drop j sql)"
    by (simp add: sub_text_def identifier_end_def takeWhile_eq_take [symmetric])
  have "drop j sql = sql ! j # drop (Suc j) sql" using j(1) by (simp add: Cons_nth_drop_Suc)
  then have "schemaName \<noteq> []" using j(2) by (simp add: s isSQLIdentifierByte_char)
  moreover have "\<not> non_ascii c" if "letter_or_underscore c \<or> is_digit c" for c
    using that by (auto simp: letter_or_underscore_def is_digit_def is_lower_def is_upper_def non_ascii_def Let_def)
  ultimately show ?thesis
    unfolding s by (auto simp: list_all_iff isSQLIdentifierByte_char dest!: set_takeWhileD ident_char_quiet)
qed

lemma lowerFirst_quiet:
  assumes "isGoIdentifier name"
  shows "lowerFirstIdentifier name \<noteq> [] \<and> list_all quiet (lowerFirstIdentifier name) \<and> list_all (\<lambda>c. \<not> non_ascii c) (lowerFirstIdentifier name)"
proof -
  have ascii: "letter_or_underscore c \<or> is_digit c \<Longrightarrow> \<not> non_ascii c" for c
    by (auto simp: letter_or_underscore_def is_digit_def is_lower_def is_upper_def non_ascii_def Let_def)
  have low: "letter_or_underscore (lower_char c)" if "letter_or_underscore c" for c
    using that by (auto simp: letter_or_underscore_def lower_char_def is_lower_def is_upper_def Let_def)
  from assms obtain c cs where "name = c # cs" "letter_or_underscore c" "list_all (\<lambda>c. letter_or_underscore c \<or> is_digit c) cs"
    by (cases name) (auto simp: isGoIdentifier_def)
  then show ?thesis using low [of c] ascii ident_char_quiet
    by (auto simp: lowerFirstIdentifier_def list_all_iff)
qed

lemma external_wire_quiet:
  assumes "external_use externals physicals name schemaName = Inr p"
    and "schemaName \<noteq> [] \<and> list_all quiet schemaName \<and> list_all (\<lambda>c. \<not> non_ascii c) schemaName"
  shows "writeSQLIdentifier (xp_wire p) \<noteq> [] \<and> list_all quiet (writeSQLIdentifier (xp_wire p))"
proof -
  from assms(1) obtain goName where g: "isGoIdentifier goName"
    and w: "xp_wire p = (if goName \<noteq> exportedIdentifier schemaName then lowerFirstIdentifier goName else schemaName)"
    by (auto simp: external_use_def Let_def split: option.splits if_splits)
  have "xp_wire p \<noteq> [] \<and> list_all quiet (xp_wire p) \<and> list_all (\<lambda>c. \<not> non_ascii c) (xp_wire p)"
    using lowerFirst_quiet [OF g] assms(2) w by (simp split: if_splits)
  moreover from this have "writeSQLIdentifier (xp_wire p) = xp_wire p"
    by (auto simp: writeSQLIdentifier_def list_ex_iff list_all_iff)
  ultimately show ?thesis by simp
qed

lemma scan_externals_rewrites:
  "i \<le> length sql \<Longrightarrow> scan_externals (external_use externals physicals) sql i out params = Inr (out', params') \<Longrightarrow>
     \<exists>t. out' = out @ t \<and> rewritten (drop i sql) t 0"
proof (induction i arbitrary: out params rule: offset_induct)
  case (finish i)
  then show ?case
    by (intro exI [of _ "[]"]) (simp add: scan_externals.simps [of "external_use externals physicals" sql "length sql"] rewritten.all)
next
  case (data i)
  obtain t where "out' = (out @ sub_text sql i (sqlDataEnd sql i)) @ t" "rewritten (drop (sqlDataEnd sql i) sql) t 0"
    using data(4) data(5) unfolding scan_externals_data [OF data(1,2)] by blast
  then show ?case using rewritten_data [OF data(1,2)] by fastforce
next
  case (byte i)
  note step = byte(4) [unfolded scan_externals_byte [OF byte(1,2)]]
  show ?case
  proof (cases "parseExternalAt sql i")
    case (Inl err)
    with step show ?thesis by simp
  next
    case (Inr r)
    show ?thesis
    proof (cases r)
      case None
      then obtain t where "out' = (out @ [sql ! i]) @ t" "rewritten (drop (i + 1) sql) t 0"
        using byte(3) [of "i + 1" "out @ [sql ! i]" params] byte(1) step Inr by auto
      then show ?thesis using rewritten_byte [OF byte(1,2)] by fastforce
    next
      case (Some m)
      obtain name schemaName e where m: "m = (name, schemaName, e)" by (cases m)
      have p: "parseExternalAt sql i = Inr (Some (name, schemaName, e))" using Inr Some m by simp
      have e: "i < e \<and> e \<le> length sql" using p by (rule parseExternalAt_end)
      obtain x params1 where x: "external_use externals physicals name schemaName = Inr x"
        and rest: "scan_externals (external_use externals physicals) sql e (out @ writeSQLIdentifier (xp_wire x)) params1 = Inr (out', params')"
        using step p by (auto split: sum.splits)
      let ?v = "writeSQLIdentifier (xp_wire x)"
      have v: "?v \<noteq> [] \<and> list_all quiet ?v" using x external_schema_quiet [OF p] by (rule external_wire_quiet)
      obtain t where r: "out' = (out @ ?v) @ t" "rewritten (drop e sql) t 0" using byte(3) [of e] e rest by blast
      have "rewritten (drop i sql) (?v @ t) (0 + count_list ?v (CHR ''?''))"
        using e external_has_no_placeholder [OF p] v quiet_plain(1) r(2) by (intro rewritten_span [of i e]) auto
      then show ?thesis using r(1) quiet_plain(2) v by (intro exI [of _ "?v @ t"]) simp
    qed
  qed
qed

lemma normalizeExternalTables_counts:
  assumes "normalizeExternalTables sql externals physicals = Inr (out, params)"
  shows "lexical_placeholders out = lexical_placeholders sql"
proof -
  from scan_externals_rewrites [of 0 sql externals physicals "[]" "[]" out params] assms
  have "rewritten sql out 0" by (auto simp: normalizeExternalTables_def)
  then show ?thesis using rewritten_counts by fastforce
qed

text \<open>
  C38. In a query that is no :exec, every placeholder that the macros leave in the code of the SQL text has
  exactly one name: the check for raw placeholders, the lowering of the external tables and the lowering of
  the named arguments leave as many placeholders as names, whatever strings, quoted identifiers and comments
  the text holds.
\<close>
theorem every_placeholder_is_named:
  assumes "q_command q \<noteq> CommandExec" and "rejectRawPlaceholders q line = Inr ()"
    and "normalizeExternalTables (q_sql q) externals physicals = Inr (sql1, params)"
    and "normalizeNamedArgs sql1 = Inr (sql2, names)"
  shows "lexical_placeholders sql2 = length names"
  using assms rejectRawPlaceholders_accepts [OF assms(1)] normalizeExternalTables_counts [OF assms(3)] normalizeNamedArgs_counts [OF assms(4)]
  by simp


definition sample_query :: query where
  "sample_query = (new_query ''Q'' CommandOne)\<lparr>q_sql := ''SELECT '' @ single_quote # ''?'' @ single_quote
     # '', chgen.arg( '' @ single_quote # ''N'' @ single_quote # '' ) -- ?''\<rparr>"

theorem every_placeholder_is_named_witness:
  "lexical_placeholders (''SELECT '' @ single_quote # ''?'' @ single_quote # '', ? -- ?'') = length [''N'']"
proof (rule every_placeholder_is_named [of sample_query 3 Map.empty Map.empty "q_sql sample_query" "[]"])
  show "q_command sample_query \<noteq> CommandExec" by code_simp
  show "rejectRawPlaceholders sample_query 3 = Inr ()" by code_simp
  show "normalizeExternalTables (q_sql sample_query) Map.empty Map.empty = Inr (q_sql sample_query, [])" by code_simp
  show "normalizeNamedArgs (q_sql sample_query)
     = Inr (''SELECT '' @ single_quote # ''?'' @ single_quote # '', ? -- ?'', [''N''])" by code_simp
qed

text \<open>An :exec statement that is not checked: its named arguments are the placeholders, or it is refused.\<close>

lemma unchecked_exec_names:
  assumes "normalizeNamedArgs sql = Inr (q_sql q, q_named q)" "q_named q \<noteq> []" "resolveUncheckedExecParams q = Inr q'"
  shows "lexical_placeholders sql = 0"
  using assms normalizeNamedArgs_counts [OF assms(1)]
  by (auto simp: resolveUncheckedExecParams_def validateUncheckedExecSQL_def dest: scanSingleExecSQL_counts split: if_splits)

end
