(* ===== verification/ParserTextFacts.thy ===== *)
theory ParserTextFacts
  imports ParserText
begin

text \<open>
  The copies that the parser sees have the bytes and the lines of the query, so its positions are positions
  of the query.
\<close>

section \<open>Texts with the same layout\<close>

definition same_layout :: "string \<Rightarrow> string \<Rightarrow> bool" where
  "same_layout s t \<longleftrightarrow> list_all2 (\<lambda>x y. x = newline \<longleftrightarrow> y = newline) s t"

lemma same_layout_refl [simp]: "same_layout s s"
  by (simp add: same_layout_def list_all2_refl)

lemma same_layout_trans: "same_layout s t \<Longrightarrow> same_layout t u \<Longrightarrow> same_layout s u"
  by (auto simp: same_layout_def list_all2_conv_all_nth)

lemma same_layout_length: "same_layout s t \<Longrightarrow> length t = length s"
  by (auto simp: same_layout_def dest: list_all2_lengthD)

lemma same_layout_update:
  "same_layout s t \<Longrightarrow> s ! i \<noteq> newline \<Longrightarrow> c \<noteq> newline \<Longrightarrow> same_layout s (t[i := c])"
  by (cases "i < length t") (auto simp: same_layout_def list_all2_conv_all_nth nth_list_update)

text \<open>The lines of such texts are the same: an offset is on the same line of both.\<close>

lemma count_newlines: "count_list s newline = length (filter (\<lambda>c. c = newline) s)"
  by (induction s) auto

lemma same_layout_lines: "same_layout s t \<Longrightarrow> lineOfOffset s i = lineOfOffset t i"
proof -
  assume a: "same_layout s t"
  then have "list_all2 (\<lambda>x y. x = newline \<longleftrightarrow> y = newline) (take i s) (take i t)"
    unfolding same_layout_def by (rule list_all2_takeI)
  then have "length (filter (\<lambda>c. c = newline) (take i s)) = length (filter (\<lambda>c. c = newline) (take i t))"
    by (induction rule: list_all2_induct) auto
  then show ?thesis using a by (simp add: lineOfOffset_def count_newlines same_layout_length min_def)
qed

section \<open>The operand of a simple CASE\<close>

lemma padding_is_blank:
  "horizontalPaddingBefore sql e start = Some i \<Longrightarrow> i < e \<and> (sql ! i = CHR '' '' \<or> sql ! i = CHR 0x09)"
  by (induction sql e start rule: horizontalPaddingBefore.induct) (auto split: if_splits)

lemma wrap_case_operand_layout:
  assumes "same_layout sql (fst st)"
  shows "same_layout sql (fst (wrap_case_operand sql i st))"
proof -
  obtain t u v where st: "st = (t, u, v)" by (cases st)
  have nl: "CHR '' '' \<noteq> newline" "CHR 0x09 \<noteq> newline" "CHR ''('' \<noteq> newline" "CHR '')'' \<noteq> newline" by code_simp+
  show ?thesis
  proof (cases "simpleCaseWhenStart sql (skipSQLWhitespace sql (i + 4))")
    case None
    with assms show ?thesis by (simp add: wrap_case_operand_def st Let_def)
  next
    case (Some w)
    have update: "same_layout sql (t[a := CHR ''('', b := CHR '')''])"
      if "horizontalPaddingBefore sql (skipSQLWhitespace sql (i + 4)) (i + 4) = Some a"
        "horizontalPaddingBefore sql w (skipSQLWhitespace sql (i + 4)) = Some b" for a b
      using padding_is_blank [OF that(1)] padding_is_blank [OF that(2)] assms nl
      by (intro same_layout_update) (auto simp: st)
    show ?thesis using assms Some update
      by (auto simp: wrap_case_operand_def st Let_def split: option.splits)
  qed
qed

lemma scan_case_operands_layout: "same_layout sql (fst st) \<Longrightarrow> same_layout sql (fst (scan_case_operands sql i st))"
proof (induction sql i st rule: scan_case_operands.induct)
  case (1 sql i st)
  show ?case using "1.prems" "1.IH" wrap_case_operand_layout [of sql st i] unfolding scan_case_operands.simps [of sql i st]
    by simp
qed

lemma normalizeCasePrefixOperands_layout: "same_layout sql (fst (normalizeCasePrefixOperands sql))"
  unfolding normalizeCasePrefixOperands_def by (rule scan_case_operands_layout) simp

section \<open>LIMIT ... WITH TIES\<close>

lemma blank_token_layout:
  assumes "same_layout sql t" "i \<le> e" "e \<le> length sql"
  shows "same_layout sql (blank_token (i, e) t)"
proof -
  have blank: "CHR '' '' \<noteq> newline" by code_simp
  have nl: "(blank_byte c = newline) = (c = newline)" for c
    using blank by (auto simp: blank_byte_def split: if_splits)
  have l: "length t = length sql" using assms(1) by (rule same_layout_length)
  have split: "t = take i t @ take (e - i) (drop i t) @ drop e t"
    using assms(2) by (metis append_take_drop_id drop_drop le_add_diff_inverse2)
  have "list_all2 (\<lambda>x y. x = newline \<longleftrightarrow> y = newline) t (blank_token (i, e) t)"
    unfolding blank_token_def fst_conv snd_conv
    by (subst split) (intro list_all2_appendI, simp_all add: list_all2_refl list_all2_map2 nl)
  then show ?thesis using assms(1) by (simp add: same_layout_def same_layout_trans [unfolded same_layout_def])
qed

lemma scan_modifiers_layout: "same_layout sql t \<Longrightarrow> same_layout sql (scan_modifiers sql i t)"
proof (induction sql i t rule: scan_modifiers.induct)
  case (1 sql i t)
  show ?case
  proof (cases "ties_modifier sql i")
    case None
    with "1.prems" "1.IH" show ?thesis unfolding scan_modifiers.simps [of sql i t] by simp
  next
    case (Some e)
    have "same_layout sql (blank_token (i, e) t)"
      using ties_modifier_end [OF Some] "1.prems" by (intro blank_token_layout) auto
    with Some "1.prems" "1.IH" show ?thesis unfolding scan_modifiers.simps [of sql i t] by simp
  qed
qed

lemma stripLimitWithTiesModifiers_layout: "same_layout sql (stripLimitWithTiesModifiers sql)"
  unfolding stripLimitWithTiesModifiers_def by (rule scan_modifiers_layout) simp

section \<open>The adapters\<close>

text \<open>A copy without its trailing SETTINGS clause.\<close>

definition cut_copy :: "string \<Rightarrow> string \<Rightarrow> bool" where
  "cut_copy whole copy \<longleftrightarrow> (\<exists>n < length whole. copy = trim_space (take n whole))"

lemma last_settings_bound: "last_settings sql i found = Some k \<Longrightarrow> found = None \<or> the found < length sql \<Longrightarrow> k < length sql"
proof (induction sql i found rule: last_settings.induct)
  case (1 sql i found)
  show ?case using "1.prems" "1.IH" unfolding last_settings.simps [of sql i found]
    by (simp split: if_splits)
qed

lemma stripTrailingSettingsClause_cut: "stripTrailingSettingsClause sql = sql \<or> cut_copy sql (stripTrailingSettingsClause sql)"
  using last_settings_bound [of sql 0 None]
  by (auto simp: stripTrailingSettingsClause_def cut_copy_def split: option.splits)

lemma settings_adapter_copy:
  "settings_adapter parse is_exec sql err = Inr st \<Longrightarrow> is_exec \<and> (\<exists>copy. parse copy = Inr st \<and> cut_copy sql copy)"
  using stripTrailingSettingsClause_cut [of sql]
  by (auto simp: settings_adapter_def Let_def split: if_splits sum.splits)

lemma ties_adapter_copy:
  assumes "ties_adapter parse is_exec sql err = Inr st"
  shows "\<exists>copy whole. parse copy = Inr st \<and> same_layout sql whole \<and> (copy = whole \<or> is_exec \<and> cut_copy whole copy)"
proof (cases "stripLimitWithTiesModifiers sql = sql")
  case True
  with assms have "settings_adapter parse is_exec sql err = Inr st" by (simp add: ties_adapter_def Let_def)
  from settings_adapter_copy [OF this] show ?thesis using same_layout_refl by blast
next
  case False
  show ?thesis
  proof (cases "parse (stripLimitWithTiesModifiers sql)")
    case (Inl e)
    with assms False have "settings_adapter parse is_exec (stripLimitWithTiesModifiers sql)
        (Wrapf ''original: %w; without unsupported LIMIT modifier: %v'' [] err) = Inr st"
      by (simp add: ties_adapter_def Let_def)
    from settings_adapter_copy [OF this] show ?thesis using stripLimitWithTiesModifiers_layout by blast
  next
    case (Inr x)
    with assms False have "parse (stripLimitWithTiesModifiers sql) = Inr st" by (simp add: ties_adapter_def Let_def)
    then show ?thesis using stripLimitWithTiesModifiers_layout by blast
  qed
qed

text \<open>
  C39. Whatever statements the parser adapters answer, they were parsed from a text with the length and the
  line breaks of the query, so that a position in them is a position of the query; only an :exec statement
  may be cut before a trailing SETTINGS clause of such a text.
\<close>
theorem parser_sees_the_layout_of_the_query:
  assumes "parseChgenStatementsWithAdapters parse sql is_exec = Inr statements"
  shows "\<exists>copy whole. parse copy = Inr statements \<and> same_layout sql whole
    \<and> (copy = whole \<or> is_exec \<and> cut_copy whole copy)"
proof (cases "parse sql")
  case (Inr x)
  with assms have "parse sql = Inr statements" by (simp add: parseChgenStatementsWithAdapters_def)
  then show ?thesis using same_layout_refl by blast
next
  case (Inl err)
  obtain t u v where n: "normalizeCasePrefixOperands sql = (t, u, v)" by (cases "normalizeCasePrefixOperands sql")
  have layout: "same_layout sql t" using normalizeCasePrefixOperands_layout [of sql] n by simp
  show ?thesis
  proof (cases "parse t = Inr statements")
    case True
    with layout show ?thesis by blast
  next
    case False
    with assms Inl n have "ties_adapter parse is_exec t err = Inr statements"
      by (auto simp: parseChgenStatementsWithAdapters_def split: if_splits sum.splits)
    from ties_adapter_copy [OF this] layout show ?thesis using same_layout_trans by blast
  qed
qed

definition sample_parse :: "string \<Rightarrow> nat result" where
  "sample_parse sql = (if sql = ''CASE(-a)WHEN 1'' then Inr 7 else Inl (Errorf sql []))"

theorem parser_sees_the_layout_of_the_query_witness:
  "\<exists>copy whole. sample_parse copy = Inr 7 \<and> same_layout ''CASE -a WHEN 1'' whole
    \<and> (copy = whole \<or> False \<and> cut_copy whole copy)"
proof (rule parser_sees_the_layout_of_the_query)
  show "parseChgenStatementsWithAdapters sample_parse ''CASE -a WHEN 1'' False = Inr 7" by code_simp
qed

end
