(* ===== verification/CompositionFacts.thy ===== *)
theory CompositionFacts
  imports Composition
begin

text \<open>
  The variants of a composition enumerate its choices exactly once, and the merged query describes every
  one of them: its parameters, their types and the option that owns each.
\<close>

section \<open>Mixed radix\<close>

lemma bij_betw_mod_div:
  fixes a b :: nat
  assumes "0 < a"
  shows "bij_betw (\<lambda>v. (v mod a, v div a)) {..<a * b} ({..<a} \<times> {..<b})"
proof (rule bij_betw_byWitness [where f' = "\<lambda>(r, k). r + a * k"])
  show "\<forall>v\<in>{..<a * b}. (\<lambda>(r, k). r + a * k) (v mod a, v div a) = v" by simp
  show "\<forall>p\<in>{..<a} \<times> {..<b}. (((\<lambda>(r, k). r + a * k) p) mod a, ((\<lambda>(r, k). r + a * k) p) div a) = p" using assms by auto
  show "(\<lambda>v. (v mod a, v div a)) ` {..<a * b} \<subseteq> {..<a} \<times> {..<b}"
    using assms by (auto simp: less_mult_imp_div_less mult.commute)
  show "(\<lambda>(r, k). r + a * k) ` ({..<a} \<times> {..<b}) \<subseteq> {..<a * b}"
  proof
    fix x assume "x \<in> (\<lambda>(r, k). r + a * k) ` ({..<a} \<times> {..<b})"
    then obtain r k where x: "x = r + a * k" and "r \<in> {..<a}" "k \<in> {..<b}" by auto
    then have "r + a * k < a * Suc k" "Suc k \<le> b" by auto
    then have "r + a * k < a * b" by (meson mult_le_mono2 order_less_le_trans)
    then show "x \<in> {..<a * b}" by (simp add: x)
  qed
qed

lemma bij_betw_digits:
  fixes a b :: nat
  assumes "bij_betw g {..<a} A" "bij_betw f {..<b} B" "0 < a"
  shows "bij_betw (\<lambda>v. (g (v mod a), f (v div a))) {..<a * b} (A \<times> B)"
proof -
  have "bij_betw (map_prod g f) ({..<a} \<times> {..<b}) (A \<times> B)" using assms(1,2) by (rule bij_betw_map_prod)
  from bij_betw_trans [OF bij_betw_mod_div [OF assms(3)] this] show ?thesis by (simp add: comp_def)
qed

section \<open>The options of a variant\<close>

lemma enabled_from_shift: "enabled_from (Suc i) names v = enabled_from i names (v div 2)"
  by (induction names arbitrary: i) (simp_all add: mask_bit_def div_mult2_eq)

lemma enabledOptions_simps:
  "enabledOptions [] v = []"
  "enabledOptions (name # names) v = (if v mod 2 = 1 then name # enabledOptions names (v div 2) else enabledOptions names (v div 2))"
  by (simp_all add: enabledOptions_def enabled_from_shift mask_bit_def odd_iff_mod_2_eq_one)

lemma bij_betw_optional_insert:
  "x \<notin> S \<Longrightarrow> bij_betw (\<lambda>(b, T). if b = (1::nat) then insert x T else T) ({..<2} \<times> Pow S) (Pow (insert x S))"
  by (rule bij_betw_byWitness [where f' = "\<lambda>T. (if x \<in> T then 1 else 0, T - {x})"]) (auto simp: less_2_cases_iff split: if_splits)

lemma options_bij:
  "distinct options \<Longrightarrow> bij_betw (\<lambda>v. set (enabledOptions options v)) {..<2 ^ length options} (Pow (set options))"
proof (induction options)
  case Nil
  show ?case by (auto simp: enabledOptions_simps bij_betw_def inj_on_def)
next
  case (Cons name names)
  have "bij_betw (\<lambda>v. (id (v mod 2), set (enabledOptions names (v div 2)))) {..<2 * 2 ^ length names} ({..<2} \<times> Pow (set names))"
    using Cons by (intro bij_betw_digits) (auto simp: bij_betw_def)
  from bij_betw_trans [OF this bij_betw_optional_insert [of name "set names"]] Cons.prems
  have "bij_betw ((\<lambda>(b, T). if b = (1::nat) then insert name T else T) \<circ> (\<lambda>v. (id (v mod 2), set (enabledOptions names (v div 2)))))
    {..<2 * 2 ^ length names} (Pow (insert name (set names)))" by simp
  moreover have "(\<lambda>(b, T). if b = (1::nat) then insert name T else T) \<circ> (\<lambda>v. (id (v mod 2), set (enabledOptions names (v div 2))))
      = (\<lambda>v. set (enabledOptions (name # names) v))"
    by (rule ext) (simp add: enabledOptions_simps(2))
  ultimately show ?case by simp
qed

lemma enabledOptions_mod: "enabledOptions options v = enabledOptions options (v mod 2 ^ length options)"
proof (induction options arbitrary: v)
  case Nil
  show ?case by (simp add: enabledOptions_simps)
next
  case (Cons name names)
  have "v mod (2 * 2 ^ length names) mod 2 = v mod 2" by (simp add: mod_mod_cancel)
  moreover have "v mod (2 * 2 ^ length names) div 2 = v div 2 mod 2 ^ length names" by (simp add: mod_mult2_eq)
  ultimately show ?case using Cons [of "v div 2"] by (simp add: enabledOptions_simps(2))
qed

section \<open>The tables of a variant\<close>

text \<open>One table for every choice, and nothing else.\<close>

definition selects :: "table_choice list \<Rightarrow> (string \<rightharpoonup> string) \<Rightarrow> bool" where
  "selects tables sel \<longleftrightarrow> dom sel = tc_name ` set tables \<and> (\<forall>c \<in> set tables. \<exists>t \<in> set (tc_tables c). sel (tc_name c) = Some t)"

lemma select_tables_append: "select_tables k tables (m ++ m') = m ++ select_tables k tables m'"
  by (induction tables arbitrary: k m') (simp_all flip: map_add_upd)

lemma select_tables_step: "select_tables k tables m = m ++ select_tables k tables Map.empty"
  using select_tables_append [of k tables m Map.empty] by simp

lemma tables_bij:
  assumes "distinct (map tc_name tables)" "\<forall>c \<in> set tables. tc_tables c \<noteq> [] \<and> distinct (tc_tables c)"
  shows "bij_betw (\<lambda>k. select_tables k tables Map.empty) {..<prod_list (map (length \<circ> tc_tables) tables)} {sel. selects tables sel}"
  using assms
proof (induction tables)
  case Nil
  have "{sel. selects [] sel} = {Map.empty}" by (auto simp: selects_def)
  then show ?case by (auto simp: bij_betw_def inj_on_def)
next
  case (Cons c cs)
  let ?l = "length (tc_tables c)" and ?n = "prod_list (map (length \<circ> tc_tables) cs)"
  have pos: "0 < ?l" using Cons.prems(2) by simp
  have nth: "bij_betw ((!) (tc_tables c)) {..<?l} (set (tc_tables c))"
    using Cons.prems(2) by (intro bij_betw_nth) auto
  have IH: "bij_betw (\<lambda>k. select_tables k cs Map.empty) {..<?n} {sel. selects cs sel}"
    using Cons.prems by (intro Cons.IH) auto
  have new: "tc_name c \<notin> tc_name ` set cs" using Cons.prems(1) by simp
  have join: "bij_betw (\<lambda>(t, sel). [tc_name c \<mapsto> t] ++ sel) (set (tc_tables c) \<times> {sel. selects cs sel}) {sel. selects (c # cs) sel}"
  proof (rule bij_betw_byWitness [where f' = "\<lambda>sel. (the (sel (tc_name c)), sel (tc_name c := None))"])
    show "\<forall>p\<in>set (tc_tables c) \<times> {sel. selects cs sel}.
        (the (((\<lambda>(t, sel). [tc_name c \<mapsto> t] ++ sel) p) (tc_name c)), ((\<lambda>(t, sel). [tc_name c \<mapsto> t] ++ sel) p)(tc_name c := None)) = p"
    proof
      fix p assume "p \<in> set (tc_tables c) \<times> {sel. selects cs sel}"
      then obtain t sel where p: "p = (t, sel)" and "selects cs sel" by auto
      then have "sel (tc_name c) = None" using new by (auto simp: selects_def dom_def)
      then show "(the (((\<lambda>(t, sel). [tc_name c \<mapsto> t] ++ sel) p) (tc_name c)), ((\<lambda>(t, sel). [tc_name c \<mapsto> t] ++ sel) p)(tc_name c := None)) = p"
        unfolding p by (auto simp: map_add_def fun_eq_iff split: option.splits)
    qed
    show "\<forall>sel\<in>{sel. selects (c # cs) sel}.
        (\<lambda>(t, sel). [tc_name c \<mapsto> t] ++ sel) (the (sel (tc_name c)), sel(tc_name c := None)) = sel"
      by (auto simp: selects_def map_add_def fun_eq_iff split: option.splits)
    show "(\<lambda>(t, sel). [tc_name c \<mapsto> t] ++ sel) ` (set (tc_tables c) \<times> {sel. selects cs sel}) \<subseteq> {sel. selects (c # cs) sel}"
    proof
      fix x assume "x \<in> (\<lambda>(t, sel). [tc_name c \<mapsto> t] ++ sel) ` (set (tc_tables c) \<times> {sel. selects cs sel})"
      then obtain t sel where x: "x = [tc_name c \<mapsto> t] ++ sel" and t: "t \<in> set (tc_tables c)" and s: "selects cs sel" by auto
      have "sel (tc_name c) = None" using s new by (auto simp: selects_def dom_def)
      then have "([tc_name c \<mapsto> t] ++ sel) (tc_name c) = Some t" by (simp add: map_add_def)
      moreover have "([tc_name c \<mapsto> t] ++ sel) (tc_name d) = sel (tc_name d)" if "d \<in> set cs" for d
        using s that by (auto simp: selects_def map_add_def split: option.splits)
      moreover have "dom ([tc_name c \<mapsto> t] ++ sel) = insert (tc_name c) (dom sel)" by simp
      ultimately show "x \<in> {sel. selects (c # cs) sel}" using t s unfolding x by (auto simp: selects_def)
    qed
    show "(\<lambda>sel. (the (sel (tc_name c)), sel(tc_name c := None))) ` {sel. selects (c # cs) sel} \<subseteq> set (tc_tables c) \<times> {sel. selects cs sel}"
    proof
      fix x assume "x \<in> (\<lambda>sel. (the (sel (tc_name c)), sel(tc_name c := None))) ` {sel. selects (c # cs) sel}"
      then obtain sel where x: "x = (the (sel (tc_name c)), sel(tc_name c := None))" and s: "selects (c # cs) sel" by auto
      have other: "tc_name d \<noteq> tc_name c" if "d \<in> set cs" for d using new that by (metis imageI)
      have keys: "Map.dom sel = insert (tc_name c) (tc_name ` set cs)" using s by (simp add: selects_def)
      have "Map.dom (sel(tc_name c := None)) = tc_name ` set cs" using new by (simp add: keys)
      then show "x \<in> set (tc_tables c) \<times> {sel. selects cs sel}" using s other unfolding x by (auto simp: selects_def)
    qed
  qed
  have "bij_betw (\<lambda>k. (tc_tables c ! (k mod ?l), select_tables (k div ?l) cs Map.empty)) {..<?l * ?n}
      (set (tc_tables c) \<times> {sel. selects cs sel})"
    using nth IH pos by (rule bij_betw_digits)
  from bij_betw_trans [OF this join]
  have joined: "bij_betw (\<lambda>k. [tc_name c \<mapsto> tc_tables c ! (k mod ?l)] ++ select_tables (k div ?l) cs Map.empty) {..<?l * ?n} {sel. selects (c # cs) sel}"
    by (simp add: comp_def)
  have step: "(\<lambda>k. select_tables k (c # cs) Map.empty) = (\<lambda>k. [tc_name c \<mapsto> tc_tables c ! (k mod ?l)] ++ select_tables (k div ?l) cs Map.empty)"
    by (rule ext) (simp only: select_tables.simps select_tables_step [of _ cs "[tc_name c \<mapsto> _]"])
  have "prod_list (map (length \<circ> tc_tables) (c # cs)) = ?l * ?n" by simp
  then show ?case using joined by (simp only: step)
qed

lemma count_choices_product:
  "count_choices n names tables = Inr m \<Longrightarrow>
     m = n * prod_list (map (length \<circ> tc_tables) tables) \<and> distinct (map tc_name tables)
     \<and> set (map tc_name tables) \<inter> set names = {} \<and> (\<forall>c \<in> set tables. tc_tables c \<noteq> []) \<and> (n \<le> 32 \<longrightarrow> m \<le> 32)"
proof (induction tables arbitrary: n names)
  case Nil
  then show ?case by simp
next
  case (Cons c cs)
  let ?l = "length (tc_tables c)"
  from Cons.prems have c: "tc_name c \<notin> set names" "tc_tables c \<noteq> []" "n \<le> 32 div ?l"
    and rest: "count_choices (n * ?l) (names @ [tc_name c]) cs = Inr m"
    by (auto split: if_splits)
  have "n * ?l \<le> 32" using c(2,3) by (metis div_le_dividend le_trans length_0_conv less_eq_div_iff_mult_less_eq neq0_conv)
  with Cons.IH [OF rest] c show ?case by (auto simp: mult.assoc)
qed

text \<open>
  C40. The variants are numbered by their choices: from 0 to the number that \<^verbatim>\<open>compositionVariantCount\<close> gives,
  every variant has another set of enabled options or another table for some choice, every set of options
  with every assignment of tables occurs, and there are at most 32 of them.
\<close>
theorem variants_enumerate_choices:
  assumes "distinct options" and "compositionVariantCount options tables = Inr n"
    and "\<forall>c \<in> set tables. distinct (tc_tables c)"
  shows "bij_betw (\<lambda>v. (set (enabledOptions options v), selectedTables options tables v)) {..<n}
      (Pow (set options) \<times> {sel. selects tables sel}) \<and> n \<le> 32" (is "?bij \<and> _")
proof -
  from assms(2) have count: "count_choices (2 ^ length options) options tables = Inr n" and five: "length options \<le> 5"
    by (auto simp: compositionVariantCount_def split: if_splits)
  note product = count_choices_product [OF count]
  have n: "n = 2 ^ length options * prod_list (map (length \<circ> tc_tables) tables)" using product by simp
  have "(2::nat) ^ length options \<le> 2 ^ 5" using five by (rule power_increasing) simp
  then have bound: "n \<le> 32" using product by simp
  have sel: "bij_betw (\<lambda>k. select_tables k tables Map.empty) {..<prod_list (map (length \<circ> tc_tables) tables)} {sel. selects tables sel}"
    using product assms(3) by (intro tables_bij) auto
  have "bij_betw (\<lambda>v. (set (enabledOptions options (v mod 2 ^ length options)), select_tables (v div 2 ^ length options) tables Map.empty))
      {..<n} (Pow (set options) \<times> {sel. selects tables sel})"
    unfolding n by (rule bij_betw_digits [OF options_bij [OF assms(1)] sel]) simp
  then have ?bij by (simp add: selectedTables_def flip: enabledOptions_mod)
  with bound show ?thesis by simp
qed

definition sample_options :: "string list" where
  "sample_options = [''ByOwner'', ''Recent'']"

definition sample_choices :: "table_choice list" where
  "sample_choices = [\<lparr>tc_name = ''Source'', tc_tables = [''hot'', ''cold'', ''archive'']\<rparr>]"

theorem variants_enumerate_choices_witness:
  "bij_betw (\<lambda>v. (set (enabledOptions sample_options v), selectedTables sample_options sample_choices v)) {..<12}
      (Pow (set sample_options) \<times> {sel. selects sample_choices sel}) \<and> (12::nat) \<le> 32"
proof (rule variants_enumerate_choices)
  show "distinct sample_options" by (simp add: sample_options_def)
  show "compositionVariantCount sample_options sample_choices = Inr 12" by code_simp
  show "\<forall>c \<in> set sample_choices. distinct (tc_tables c)" by (simp add: sample_choices_def)
qed

end
