(* ===== verification/SelectClauses.thy ===== *)
theory SelectClauses
  imports SelectTree
begin

text \<open>
  The checks on the clauses of a SELECT that only read its scope (\<^verbatim>\<open>resolver.go\<close>): where aggregates and window
  functions may stand, what GROUP BY covers, the keys of USING and ASOF joins, the measured SETTINGS, and the
  aliases of the projection. The walks over a syntax tree are those of the SQL parser: which nodes it visits
  beneath a node is a parameter, and only nodes that are smaller than the tree count.
\<close>

section \<open>What the resolver is given\<close>

text \<open>
  \<open>re_type\<close> is \<^verbatim>\<open>inferExprType\<close>; \<open>re_children\<close> and \<open>re_over\<close> are the nodes that \<^verbatim>\<open>Walk\<close> visits beneath an expression
  and beneath a window; \<open>re_qualified\<close> is the parser's view of a qualified name; \<open>re_inside\<close> and
  \<open>re_joins_in\<close> list the expressions and the joins that it visits inside a nested SELECT; \<open>re_system\<close> holds the columns of the pinned system tables.
\<close>

record resolve_env =
  re_infer :: infer_env
  re_type :: "queryScope \<Rightarrow> expr \<Rightarrow> chtype result"
  re_children :: "expr \<Rightarrow> expr list"
  re_over :: "window_over \<Rightarrow> expr list"
  re_qualified :: "expr \<Rightarrow> (string \<times> string \<times> bool) option"
  re_inside :: "nat \<Rightarrow> expr list"
  re_joins_in :: "nat \<Rightarrow> join_constraint list"
  re_select :: "nat \<Rightarrow> select_query option"
  re_tables :: "string \<rightharpoonup> table"
  re_table_names :: "string list"
  re_system :: "(string \<rightharpoonup> (string \<times> string) list) result"

definition re_format :: "resolve_env \<Rightarrow> expr \<Rightarrow> string" where
  "re_format env = env_format (re_infer env)"

lemma check_each_cong [fundef_cong]:
  "xs = ys \<Longrightarrow> (\<And>x. x \<in> set ys \<Longrightarrow> f x = g x) \<Longrightarrow> check_all f xs = check_all g ys"
  by (induction ys arbitrary: xs) (auto intro!: bind_res_cong)

definition smaller :: "expr \<Rightarrow> expr list \<Rightarrow> expr list" where
  "smaller e es = filter (\<lambda>c. size c < size e) es"

definition children :: "resolve_env \<Rightarrow> expr \<Rightarrow> expr list" where
  "children env e = smaller e (re_children env e)"

definition over_children :: "resolve_env \<Rightarrow> expr \<Rightarrow> window_over \<Rightarrow> expr list" where
  "over_children env e over = smaller e (re_over env over)"

lemma size_smaller: "c \<in> set (smaller e es) \<Longrightarrow> size c < size e"
  by (simp add: smaller_def)

lemma size_children: "c \<in> set (children env e) \<Longrightarrow> size c < size e"
  unfolding children_def by (rule size_smaller)

lemma size_over_children: "c \<in> set (over_children env e over) \<Longrightarrow> size c < size e"
  unfolding over_children_def by (rule size_smaller)

text \<open>All nodes of an expression in the order of the walk.\<close>

function walked :: "resolve_env \<Rightarrow> expr \<Rightarrow> expr list" where
  "walked env e = e # (case e of ESubQuery select \<Rightarrow> re_inside env select | _ \<Rightarrow> [])
     @ concat (map (walked env) (children env e))"
  by pat_completeness auto
termination
  by (relation "measure (\<lambda>(_, e). size e)") (auto dest: size_children)

declare walked.simps [simp del]

definition containsPlaceholder :: "resolve_env \<Rightarrow> expr \<Rightarrow> bool" where
  "containsPlaceholder env e \<longleftrightarrow> list_ex (\<lambda>node. node = EPlaceholder) (walked env e)"

definition aggregate_name :: "resolve_env \<Rightarrow> string \<Rightarrow> bool" where
  "aggregate_name env name = isAggregateCallName (env_registry (re_infer env)) (to_lower name)"

section \<open>Aggregates\<close>

text \<open>The nodes that the walk visits beneath a node: none in a subquery, only the window of a window function.\<close>

definition aggregate_parts :: "resolve_env \<Rightarrow> expr \<Rightarrow> expr list" where
  "aggregate_parts env e = (case e of
       ESubQuery _ \<Rightarrow> []
     | EWindow _ _ _ over \<Rightarrow> over_children env e over
     | _ \<Rightarrow> children env e)"

definition is_aggregate_node :: "resolve_env \<Rightarrow> expr \<Rightarrow> bool" where
  "is_aggregate_node env e = (case e of EFunction name _ _ \<Rightarrow> aggregate_name env name | _ \<Rightarrow> False)"

lemma size_aggregate_parts: "c \<in> set (aggregate_parts env e) \<Longrightarrow> size c < size e"
  using size_children [of c env e] size_over_children [of c env e]
  by (cases e) (auto simp: aggregate_parts_def)

function containsAggregateCall :: "resolve_env \<Rightarrow> expr \<Rightarrow> bool" where
  "containsAggregateCall env e \<longleftrightarrow>
     is_aggregate_node env e \<or> (\<exists>c \<in> set (aggregate_parts env e). containsAggregateCall env c)"
  by pat_completeness auto
termination
  by (relation "measure (\<lambda>(_, e). size e)") (auto dest: size_aggregate_parts)

declare containsAggregateCall.simps [simp del]

definition order_exprs :: "select_body \<Rightarrow> expr list" where
  "order_exprs body = (case sb_order_by body of None \<Rightarrow> [] | Some items \<Rightarrow>
     List.map_filter (\<lambda>item. case item of OrderItem key _ \<Rightarrow> key | OrderOther _ \<Rightarrow> None) items)"

definition limit_by_exprs :: "select_body \<Rightarrow> expr list" where
  "limit_by_exprs body = (case sb_limit_by body of None \<Rightarrow> [] | Some clause \<Rightarrow>
     (case limit_by_keys clause of None \<Rightarrow> [] | Some keys \<Rightarrow> keys))"

definition window_specs :: "select_body \<Rightarrow> window_spec list" where
  "window_specs body = (case sb_windows body of None \<Rightarrow> [] | Some defs \<Rightarrow> map snd (List.map_filter id defs))"

definition selectQueryHasAggregate :: "resolve_env \<Rightarrow> select_body \<Rightarrow> bool" where
  "selectQueryHasAggregate env body \<longleftrightarrow>
     list_ex (\<lambda>item. containsAggregateCall env (si_expr item)) (sb_items body)
     \<or> (case sb_having body of Some e \<Rightarrow> containsAggregateCall env e | None \<Rightarrow> False)
     \<or> list_ex (containsAggregateCall env) (order_exprs body)
     \<or> list_ex (containsAggregateCall env) (limit_by_exprs body)
     \<or> list_ex (\<lambda>spec. list_ex (containsAggregateCall env) (re_over env (OverWindow spec))) (window_specs body)"

text \<open>
  Where aggregates and windows may stand; an alias of the projection is followed unless it is being
  followed already.
\<close>

definition unfollowed :: "(string \<times> expr) list \<Rightarrow> string list \<Rightarrow> nat" where
  "unfollowed aliases active = length (filter (\<lambda>(name, _). name \<notin> set active) aliases)"

lemma unfollowed_less:
  assumes "map_of aliases name = Some e" "name \<notin> set active"
  shows "unfollowed aliases (name # active) < unfollowed aliases active"
proof -
  have "(name, e) \<in> set aliases" using assms(1) by (rule map_of_SomeD)
  then have "(name, e) \<in> set (filter (\<lambda>(n, _). n \<notin> set active) aliases)" using assms(2) by simp
  moreover have "filter (\<lambda>(n, _). n \<notin> set (name # active)) aliases
      = filter (\<lambda>(n, _). n \<noteq> name) (filter (\<lambda>(n, _). n \<notin> set active) aliases)"
    unfolding filter_filter by (rule filter_cong) auto
  ultimately show ?thesis
    using length_filter_less [of "(name, e)" "filter (\<lambda>(n, _). n \<notin> set active) aliases" "\<lambda>(n, _). n \<noteq> name"]
    by (simp add: unfollowed_def)
qed

definition followed :: "(string \<times> expr) list \<Rightarrow> string list \<Rightarrow> expr \<Rightarrow> (string \<times> expr) option" where
  "followed aliases active e = (case e of
       EIdent name _ \<Rightarrow> if name \<in> set active then None else map_option (Pair name) (map_of aliases name)
     | _ \<Rightarrow> None)"

lemma followed_less:
  "followed aliases active e = Some (name, expansion) \<Longrightarrow> unfollowed aliases (name # active) < unfollowed aliases active"
  by (cases e) (auto simp: followed_def split: if_splits intro: unfollowed_less)

definition misplaced :: "resolve_env \<Rightarrow> string \<Rightarrow> bool \<Rightarrow> expr \<Rightarrow> unit result" where
  "misplaced env clause allowAggregate e = (case e of
       EWindow _ _ _ _ \<Rightarrow> Inl (Errorf ''%s cannot contain a window function'' [clause])
     | EFunction name _ _ \<Rightarrow>
         if aggregate_name env name \<and> \<not> allowAggregate then Inl (Errorf ''%s cannot contain an aggregate function'' [clause])
         else Inr ()
     | _ \<Rightarrow> Inr ())"

definition outer_children :: "resolve_env \<Rightarrow> expr \<Rightarrow> expr list" where
  "outer_children env e = (case e of ESubQuery _ \<Rightarrow> [] | _ \<Rightarrow> children env e)"

lemma size_outer_children: "c \<in> set (outer_children env e) \<Longrightarrow> size c < size e"
  using size_children [of c env e] by (cases e) (auto simp: outer_children_def)

function clause_placement ::
    "resolve_env \<Rightarrow> string \<Rightarrow> bool \<Rightarrow> (string \<times> expr) list \<Rightarrow> string list \<Rightarrow> expr \<Rightarrow> unit result" where
  "clause_placement env clause allowAggregate aliases active e =
     bind_res (misplaced env clause allowAggregate e) (\<lambda>_.
       case followed aliases active e of
         Some (name, expansion) \<Rightarrow> clause_placement env clause allowAggregate aliases (name # active) expansion
       | None \<Rightarrow> check_all (clause_placement env clause allowAggregate aliases active) (outer_children env e))"
  by pat_completeness auto
termination
  by (relation "measures [\<lambda>(_, _, _, aliases, active, _). unfollowed aliases active, \<lambda>(_, _, _, _, _, e). size e]")
     (auto dest: size_outer_children followed_less)

declare clause_placement.simps [simp del]

definition validateClauseFunctionPlacement ::
    "resolve_env \<Rightarrow> string \<Rightarrow> expr \<Rightarrow> bool \<Rightarrow> queryScope \<Rightarrow> unit result" where
  "validateClauseFunctionPlacement env clause e allowAggregate scope =
     clause_placement env clause allowAggregate (projectionExprs (top_level scope)) [] e"

text \<open>An output of ARRAY JOIN in an expression, through the aliases of the projection.\<close>

definition array_path :: "scope_level \<Rightarrow> string list \<Rightarrow> bool" where
  "array_path level path \<longleftrightarrow> length path \<ge> 2
     \<and> (let qualifier = path ! (length path - 2); name = last path in
        map_of (arrayJoinQualified level) (qualifier @ ''.'' @ name) \<noteq> None \<or> map_of (arrayJoinTypes level) qualifier \<noteq> None)"

definition is_array_output :: "scope_level \<Rightarrow> expr \<Rightarrow> bool" where
  "is_array_output level e = (case e of
       EIdent name _ \<Rightarrow> local_scalar level name = None \<and> map_of (arrayJoinTypes level) name \<noteq> None
     | EPath path \<Rightarrow> array_path level path
     | _ \<Rightarrow> False)"

function array_output :: "resolve_env \<Rightarrow> scope_level \<Rightarrow> string list \<Rightarrow> expr \<Rightarrow> bool" where
  "array_output env level active e \<longleftrightarrow>
     (case followed (projectionExprs level) active e of
        Some (name, expansion) \<Rightarrow> array_output env level (name # active) expansion
      | None \<Rightarrow> is_array_output level e \<or> (\<exists>c \<in> set (outer_children env e). array_output env level active c))"
  by pat_completeness auto
termination
  by (relation "measures [\<lambda>(_, level, active, _). unfollowed (projectionExprs level) active, \<lambda>(_, _, _, e). size e]")
     (auto dest: size_outer_children followed_less)

declare array_output.simps [simp del]

definition expressionUsesArrayJoinOutput :: "resolve_env \<Rightarrow> expr \<Rightarrow> queryScope \<Rightarrow> bool" where
  "expressionUsesArrayJoinOutput env e scope = array_output env (top_level scope) [] e"

section \<open>What GROUP BY covers\<close>

definition scope_column :: "resolve_env \<Rightarrow> queryScope \<Rightarrow> string \<Rightarrow> string \<Rightarrow> bool" where
  "scope_column env scope qualifier name = is_ok (env_lookupColumn (re_infer env) scope qualifier name)"

definition uncovered :: "string \<Rightarrow> error" where
  "uncovered name = Errorf ''GROUP BY does not cover selected column %s'' [name]"

text \<open>\<open>keys\<close> are the texts of the group keys. The walk does not enter aggregates, subqueries and paths; of a window function it visits the arguments and the window.\<close>

definition grouped_parts :: "resolve_env \<Rightarrow> expr \<Rightarrow> expr list" where
  "grouped_parts env e = (case e of
       ESubQuery _ \<Rightarrow> []
     | EPath _ \<Rightarrow> []
     | EWindow _ items _ over \<Rightarrow> smaller e (case items of None \<Rightarrow> [] | Some es \<Rightarrow> es) @ over_children env e over
     | EFunction name _ _ \<Rightarrow> if aggregate_name env name then [] else children env e
     | _ \<Rightarrow> children env e)"

lemma size_grouped_parts: "c \<in> set (grouped_parts env e) \<Longrightarrow> size c < size e"
  using size_children [of c env e] size_over_children [of c env e] size_smaller [of c e]
  by (cases e) (auto simp: grouped_parts_def split: if_splits)

text \<open>A column that stands for itself is refused.\<close>

definition column_check :: "resolve_env \<Rightarrow> queryScope \<Rightarrow> expr \<Rightarrow> unit result" where
  "column_check env scope e = (case e of
       EIdent name _ \<Rightarrow> if scope_column env scope [] name then Inl (uncovered name) else Inr ()
     | EPath path \<Rightarrow>
         if length path \<ge> 2 \<and> scope_column env scope (path ! (length path - 2)) (last path)
         then Inl (uncovered (re_format env e)) else Inr ()
     | _ \<Rightarrow> Inr ())"

definition projection_alias :: "queryScope \<Rightarrow> expr \<Rightarrow> bool" where
  "projection_alias scope e = (case e of EIdent name _ \<Rightarrow> map_of (projectionAliases (top_level scope)) name \<noteq> None | _ \<Rightarrow> False)"

function validateGroupedExpression :: "resolve_env \<Rightarrow> string list \<Rightarrow> queryScope \<Rightarrow> expr \<Rightarrow> unit result" where
  "validateGroupedExpression env keys scope e =
     (if re_format env e \<in> set keys \<or> projection_alias scope e then Inr ()
      else bind_res (column_check env scope e) (\<lambda>_. check_all (validateGroupedExpression env keys scope) (grouped_parts env e)))"
  by pat_completeness auto
termination
  by (relation "measure (\<lambda>(_, _, _, e). size e)") (auto dest: size_grouped_parts)

declare validateGroupedExpression.simps [simp del]

definition validateAggregateClauseCoverage :: "resolve_env \<Rightarrow> select_body \<Rightarrow> queryScope \<Rightarrow> unit result" where
  "validateAggregateClauseCoverage env body scope =
     (let keys = (case sb_group_by body of
            Some clause \<Rightarrow> (case group_keys clause of Some es \<Rightarrow> map (re_format env) es | None \<Rightarrow> []) | None \<Rightarrow> []);
          covered = (\<lambda>(clause, es). check_all (\<lambda>e. wrap_error ''%s aggregate coverage: %w'' [clause] (validateGroupedExpression env keys scope e)) es) in
      check_all covered
        [(''HAVING'', case sb_having body of Some e \<Rightarrow> [e] | None \<Rightarrow> []), (''ORDER BY'', order_exprs body),
         (''LIMIT BY'', limit_by_exprs body), (''WINDOW'', concat (map (\<lambda>spec. re_over env (OverWindow spec)) (window_specs body)))])"

section \<open>DISTINCT ON\<close>

definition distinct_key :: "resolve_env \<Rightarrow> queryScope \<Rightarrow> (string \<times> string option) option \<Rightarrow> unit result" where
  "distinct_key env scope key = (case key of
       None \<Rightarrow> Inl (Errorf ''DISTINCT ON has an empty identifier'' [])
     | Some (name, dot) \<Rightarrow>
         (let column = (\<lambda>qualifier field. bind_res (wrap_error ''DISTINCT ON identifier: %w'' []
                          (env_lookupColumn (re_infer env) scope qualifier field)) (\<lambda>_. Inr ())) in
          case dot of
            Some field \<Rightarrow> column name field
          | None \<Rightarrow>
              if map_of (projectionExprs (top_level scope)) name \<noteq> None
              then bind_res (wrap_error ''DISTINCT ON alias: %w'' [] (re_type env scope (EIdent name True))) (\<lambda>_. Inr ())
              else column [] name))"

definition validateDistinctOn :: "resolve_env \<Rightarrow> (string \<times> string option) option list \<Rightarrow> queryScope \<Rightarrow> unit result" where
  "validateDistinctOn env keys scope =
     (if keys = [] then Inl (Errorf ''DISTINCT ON has no identifier'' []) else check_all (distinct_key env scope) keys)"

end
