(* ===== verification/SelectRules.thy ===== *)
theory SelectRules
  imports SelectClauses
begin

text \<open>
  The rules of a SELECT that need no nested query: the measured SETTINGS (\<^verbatim>\<open>resolver.go\<close>, \<^verbatim>\<open>settings_policy.go\<close>), the
  stack of scopes with its relations (\<^verbatim>\<open>supertype.go\<close>), wildcards (\<^verbatim>\<open>wildcard.go\<close>), series and system tables
  (\<^verbatim>\<open>table_function.go\<close>, \<^verbatim>\<open>system_catalog.go\<close>), the keys of joins, and LIMIT with a placeholder.
\<close>

section \<open>SETTINGS\<close>

datatype selectSettingValueKind = selectSettingUnsignedLiteral | selectSettingStringLiteral | selectSettingBooleanLiteral

record selectSettingRule =
  setting_kind :: selectSettingValueKind
  setting_nonZero :: bool
  setting_max :: "int option"

definition maxExecutionTimeWholeSeconds :: int where "maxExecutionTimeWholeSeconds = 9223372036854"

definition setting_rule :: "selectSettingValueKind \<Rightarrow> selectSettingRule" where
  "setting_rule k = \<lparr>setting_kind = k, setting_nonZero = False, setting_max = None\<rparr>"

definition selectSettingRoster :: "(string \<times> selectSettingRule) list" where
  "selectSettingRoster =
     [(''asterisk_include_alias_columns'', setting_rule selectSettingBooleanLiteral),
      (''asterisk_include_materialized_columns'', setting_rule selectSettingBooleanLiteral),
      (''do_not_merge_across_partitions_select_final'', setting_rule selectSettingBooleanLiteral),
      (''log_comment'', setting_rule selectSettingStringLiteral),
      (''max_block_size'', (setting_rule selectSettingUnsignedLiteral)\<lparr>setting_nonZero := True\<rparr>),
      (''max_bytes_before_external_group_by'', setting_rule selectSettingUnsignedLiteral),
      (''max_bytes_before_external_sort'', setting_rule selectSettingUnsignedLiteral),
      (''max_execution_time'', (setting_rule selectSettingUnsignedLiteral)\<lparr>setting_max := Some maxExecutionTimeWholeSeconds\<rparr>),
      (''max_memory_usage'', setting_rule selectSettingUnsignedLiteral),
      (''max_threads'', setting_rule selectSettingUnsignedLiteral),
      (''memory_overcommit_ratio_denominator'', setting_rule selectSettingUnsignedLiteral),
      (''memory_overcommit_ratio_denominator_for_user'', setting_rule selectSettingUnsignedLiteral),
      (''optimize_read_in_order'', setting_rule selectSettingBooleanLiteral),
      (''preferred_block_size_bytes'', setting_rule selectSettingUnsignedLiteral),
      (''use_uncompressed_cache'', setting_rule selectSettingBooleanLiteral)]"

definition unsigned_setting :: "string \<Rightarrow> selectSettingRule \<Rightarrow> expr \<Rightarrow> unit result" where
  "unsigned_setting name rule e =
     (let refusal = Inl (Errorf (if setting_nonZero rule then ''SETTINGS %s must be a positive unsigned integer literal''
                                 else ''SETTINGS %s must be an unsigned integer literal'') [name]) in
      case e of
        ENumber literal \<Rightarrow> (case parse_uint64 (trim_space literal) of
            None \<Rightarrow> refusal
          | Some n \<Rightarrow>
              if setting_nonZero rule \<and> n = 0 then refusal
              else case setting_max rule of
                  Some m \<Rightarrow> if n > m then Inl (Errorf ''SETTINGS %s must be at most %d'' [name, itoa m]) else Inr ()
                | None \<Rightarrow> Inr ())
      | _ \<Rightarrow> refusal)"

definition setting_value :: "string \<Rightarrow> selectSettingRule \<Rightarrow> expr \<Rightarrow> unit result" where
  "setting_value name rule e = (case setting_kind rule of
       selectSettingUnsignedLiteral \<Rightarrow> unsigned_setting name rule e
     | selectSettingStringLiteral \<Rightarrow>
         (case e of EString _ \<Rightarrow> Inr () | _ \<Rightarrow> Inl (Errorf ''SETTINGS %s must be a string literal'' [name]))
     | selectSettingBooleanLiteral \<Rightarrow>
         (case e of
            EBool _ \<Rightarrow> Inr ()
          | ENumber literal \<Rightarrow>
              if literal \<noteq> ''0'' \<and> literal \<noteq> ''1'' then Inl (Errorf ''SETTINGS %s must be 0, 1, true, or false'' [name]) else Inr ()
          | _ \<Rightarrow> Inl (Errorf ''SETTINGS %s must be 0, 1, true, or false'' [name])))"

definition setting_item :: "(string \<times> selectSettingRule) list \<Rightarrow> string option \<times> expr option \<Rightarrow> unit result" where
  "setting_item roster item = (case item of
       (Some name, Some e) \<Rightarrow> (case map_of roster name of
           None \<Rightarrow> Inl (Errorf ''SETTINGS name %q is not in the measured resolver roster; after verifying its effect on result types, opt in with %s %s in the query header''
                     [name, ''-- chgen:unchecked-setting'', name])
         | Some rule \<Rightarrow> setting_value name rule e)
     | _ \<Rightarrow> Inl (Errorf ''SETTINGS item is empty'' []))"

definition validateSettingsClauseWithRoster ::
    "(string \<times> selectSettingRule) list \<Rightarrow> (string option \<times> expr option) list \<Rightarrow> unit result" where
  "validateSettingsClauseWithRoster roster items = check_all (setting_item roster) items"

definition validateSettingsClause :: "(string option \<times> expr option) list \<Rightarrow> unit result" where
  "validateSettingsClause items = validateSettingsClauseWithRoster selectSettingRoster items"

text \<open>
  The settings that a query accepts unchecked: the clauses without them, unless the roster knows the name,
  and the names that matched.
\<close>

definition validateUncheckedSettingLiteral :: "string \<Rightarrow> expr option \<Rightarrow> unit result" where
  "validateUncheckedSettingLiteral name e =
     (if (case e of Some (EBool _) \<Rightarrow> True | Some (EString _) \<Rightarrow> True | Some (ENumber literal) \<Rightarrow> parse_uint64 literal \<noteq> None | _ \<Rightarrow> False)
      then Inr ()
      else Inl (Errorf ''unchecked SETTINGS %s must be an unsigned integer, Boolean, or string literal'' [name]))"

definition omit_setting :: "string list \<Rightarrow> string option \<times> expr option \<Rightarrow> (bool \<times> string list) result" where
  "omit_setting names item = (case fst item of
       None \<Rightarrow> Inr (False, [])
     | Some name \<Rightarrow>
         if name \<notin> set names then Inr (False, [])
         else if map_of selectSettingRoster name \<noteq> None then Inr (False, [name])
         else bind_res (validateUncheckedSettingLiteral name (snd item)) (\<lambda>_. Inr (True, [name])))"

fun omit_settings :: "string list \<Rightarrow> (string option \<times> expr option) list \<Rightarrow> ((string option \<times> expr option) list \<times> string list) result" where
  "omit_settings names [] = Inr ([], [])"
| "omit_settings names (item # items) = bind_res (omit_setting names item) (\<lambda>(dropped, used).
     bind_res (omit_settings names items) (\<lambda>(kept, more_used).
       Inr (if dropped then kept else item # kept, used @ more_used)))"

definition omitUncheckedSettingsForResolution ::
    "string list \<Rightarrow> (string option \<times> expr option) list list \<Rightarrow> (string option \<times> expr option) list list result" where
  "omitUncheckedSettingsForResolution names clauses =
     (if names = [] then Inr clauses
      else bind_res (map_res (omit_settings names) clauses) (\<lambda>omitted.
        case List.find (\<lambda>name. name \<notin> set (concat (map snd omitted))) names of
          Some name \<Rightarrow> Inl (Errorf ''%s %s does not match a SETTINGS item in this query'' [''-- chgen:unchecked-setting'', name])
        | None \<Rightarrow> Inr (map fst omitted)))"

section \<open>Scopes with relations\<close>

text \<open>
  \<^verbatim>\<open>queryScope\<close>: a level of names with the relations of WITH. \<open>sc_scalar_map\<close> is the map of scalar subquery types
  that the scope refers to: the code shares the map between scopes, so the model keeps the maps in a store
  and a scope holds the number of its map.
\<close>

record select_scope =
  sc_level :: scope_level
  sc_relations :: "(string \<times> table) list"
  sc_reserved :: "string list"
  sc_wildcard_alias :: bool
  sc_wildcard_materialized :: bool
  sc_scalar_map :: nat

type_synonym scalar_maps = "(nat \<times> chtype) list list"

definition scalar_map :: "scalar_maps \<Rightarrow> nat \<Rightarrow> (nat \<times> chtype) list" where
  "scalar_map maps k = (if k < length maps then maps ! k else [])"

text \<open>The scope that the inference reads.\<close>

definition read_scope :: "scalar_maps \<Rightarrow> select_scope list \<Rightarrow> queryScope" where
  "read_scope maps scopes = map (\<lambda>sc. (sc_level sc)\<lparr>scalarSubqueries := scalar_map maps (sc_scalar_map sc)\<rparr>) scopes"

definition empty_scope :: select_scope where
  "empty_scope = \<lparr>sc_level = empty_level, sc_relations = [], sc_reserved = [], sc_wildcard_alias = False,
     sc_wildcard_materialized = False, sc_scalar_map = 0\<rparr>"

definition top_scope :: "select_scope list \<Rightarrow> select_scope" where
  "top_scope scopes = (case scopes of [] \<Rightarrow> empty_scope | sc # _ \<Rightarrow> sc)"

definition on_level :: "(scope_level \<Rightarrow> scope_level) \<Rightarrow> select_scope list \<Rightarrow> select_scope list" where
  "on_level f scopes = (top_scope scopes)\<lparr>sc_level := f (sc_level (top_scope scopes))\<rparr> # tl scopes"

definition top_tables :: "select_scope list \<Rightarrow> scopedTable list" where
  "top_tables scopes = scope_tables (sc_level (top_scope scopes))"

definition local_table :: "scopedTable list \<Rightarrow> string \<Rightarrow> table option" where
  "local_table tables name = map_option scoped_table (List.find (qualifier_matches name) (rev tables))"

fun lookupTable :: "select_scope list \<Rightarrow> string \<Rightarrow> table option" where
  "lookupTable [] name = None"
| "lookupTable (sc # parent) name = (case local_table (scope_tables (sc_level sc)) name of
       Some t \<Rightarrow> Some t
     | None \<Rightarrow> (case map_of (sc_relations sc) name of
         Some t \<Rightarrow> Some t
       | None \<Rightarrow> if name \<in> set (sc_reserved sc) then None else lookupTable parent name))"

definition hasReservedRelation :: "select_scope list \<Rightarrow> string \<Rightarrow> bool" where
  "hasReservedRelation scopes name \<longleftrightarrow> list_ex (\<lambda>sc. name \<in> set (sc_reserved sc)) scopes"

definition hasFromAlias :: "select_scope list \<Rightarrow> string \<Rightarrow> bool" where
  "hasFromAlias scopes name \<longleftrightarrow>
     list_ex (\<lambda>scoped. scoped_alias scoped = name) (drop (fromBindingStart (sc_level (top_scope scopes))) (top_tables scopes))"

definition tableCandidates :: "resolve_env \<Rightarrow> select_scope list \<Rightarrow> string list" where
  "tableCandidates env scopes = re_table_names env
     @ concat (map (\<lambda>scoped. filter (\<lambda>name. name \<noteq> []) [scoped_alias scoped, table_name (scoped_table scoped)])
         (concat (map (\<lambda>sc. scope_tables (sc_level sc)) scopes)))"

definition scopeWithoutRowBindings :: "select_scope list \<Rightarrow> select_scope list" where
  "scopeWithoutRowBindings scopes = map (\<lambda>sc. sc\<lparr>sc_level := (sc_level sc)\<lparr>ir_lookup := None, scope_tables := [],
     usingTypes := [], usingQualified := []\<rparr>\<rparr>) scopes"

text \<open>The scope that the later branches of a set operation share.\<close>

definition cteOnlyScope :: "select_scope \<Rightarrow> select_scope list \<Rightarrow> select_scope list" where
  "cteOnlyScope sc parent = sc\<lparr>sc_level := empty_level\<lparr>scalars := scalars (sc_level sc),
     exactScalarNames := True, reservedScalars := reservedScalars (sc_level sc)\<rparr>\<rparr> # parent"

section \<open>Wildcards\<close>

definition wildcard_setting :: "resolve_env \<Rightarrow> string option \<times> expr option \<Rightarrow> select_scope \<Rightarrow> select_scope result" where
  "wildcard_setting env item sc = (case fst item of
       None \<Rightarrow> Inr sc
     | Some name \<Rightarrow>
         if name \<noteq> ''asterisk_include_alias_columns'' \<and> name \<noteq> ''asterisk_include_materialized_columns'' then Inr sc
         else bind_res (validateSettingsClause [item]) (\<lambda>_.
           let spelled = (case snd item of Some e \<Rightarrow> re_format env e | None \<Rightarrow> []);
               enabled = (spelled = ''1'' \<or> equal_fold spelled ''true'') in
           Inr (if name = ''asterisk_include_alias_columns'' then sc\<lparr>sc_wildcard_alias := enabled\<rparr>
                else sc\<lparr>sc_wildcard_materialized := enabled\<rparr>)))"

definition configureWildcardSettings :: "resolve_env \<Rightarrow> select_body \<Rightarrow> select_scope list \<Rightarrow> select_scope \<Rightarrow> select_scope result" where
  "configureWildcardSettings env body parent sc =
     (let inherited = (case parent of [] \<Rightarrow> sc
        | outer # _ \<Rightarrow> sc\<lparr>sc_wildcard_alias := sc_wildcard_alias outer, sc_wildcard_materialized := sc_wildcard_materialized outer\<rparr>) in
      case sb_settings body of None \<Rightarrow> Inr inherited | Some items \<Rightarrow> fold_res (wildcard_setting env) items inherited)"

definition wildcard_columns :: "select_scope \<Rightarrow> table \<Rightarrow> select_item list" where
  "wildcard_columns sc t = map (\<lambda>name. \<lparr>si_expr = EIdent name False, si_alias = None, si_modified = False\<rparr>)
     (filter (\<lambda>name. case columns t name of
          Some c \<Rightarrow> \<not> (materialized_expr c \<noteq> [] \<and> \<not> sc_wildcard_materialized sc \<or> alias_expr c \<noteq> [] \<and> \<not> sc_wildcard_alias sc)
        | None \<Rightarrow> True) (column_order t))"

definition expand_item :: "resolve_env \<Rightarrow> select_scope \<Rightarrow> select_item \<Rightarrow> select_item list result" where
  "expand_item env sc item =
     (case selectWildcardQualifier (re_qualified env) (si_expr item) of (qualifier, wild) \<Rightarrow>
        let level = sc_level sc in
        if \<not> wild then Inr [item]
        else if si_alias item \<noteq> None \<or> si_modified item then Inl (Errorf ''wildcard aliases and modifiers are not supported'' [])
        else (case scope_tables level of
            [scoped] \<Rightarrow>
              if usingTypes level \<noteq> [] \<or> arrayJoinTypes level \<noteq> []
              then Inl (Errorf ''wildcard expansion requires exactly one FROM source without JOIN or ARRAY JOIN'' [])
              else if qualifier \<noteq> [] \<and> qualifier \<noteq> scoped_alias scoped
              then Inl (Errorf ''wildcard qualifier %q is not a FROM source'' [qualifier])
              else Inr (wildcard_columns sc (scoped_table scoped))
          | _ \<Rightarrow> Inl (Errorf ''wildcard expansion requires exactly one FROM source without JOIN or ARRAY JOIN'' [])))"

definition expandSelectWildcards :: "resolve_env \<Rightarrow> select_item list \<Rightarrow> select_scope \<Rightarrow> select_item list result" where
  "expandSelectWildcards env items sc = bind_res (map_res (expand_item env sc) items) (\<lambda>expanded. Inr (concat expanded))"

end
