(* ===== verification/SelectJoins.thy ===== *)
theory SelectJoins
  imports SelectRules
begin

text \<open>
  Joins, sources and results of a SELECT (\<^verbatim>\<open>resolver.go\<close>), as far as they need no nested query: the keys of USING,
  the boundary of a join condition, ASOF, the element and the names of an ARRAY JOIN, FINAL, series and system
  tables, LIMIT with a placeholder, the aliases of the projection and the contracts of results
  (\<^verbatim>\<open>result_contract.go\<close>).
\<close>

section \<open>USING\<close>

definition put :: "'k \<Rightarrow> 'v \<Rightarrow> ('k \<times> 'v) list \<Rightarrow> ('k \<times> 'v) list" where
  "put k v m = (k, v) # filter (\<lambda>(x, _). x \<noteq> k) m"

lemma map_of_put: "map_of (put k v m) = (map_of m)(k \<mapsto> v)"
proof
  fix x
  have "map_of (filter (\<lambda>(y, _). y \<noteq> k) m) x = map_of m x" if "x \<noteq> k"
    using that by (induction m) auto
  then show "map_of (put k v m) x = ((map_of m)(k \<mapsto> v)) x" by (simp add: put_def)
qed

definition column_uses :: "scopedTable list \<Rightarrow> string \<Rightarrow> (string \<times> chtype) list" where
  "column_uses tables name = List.map_filter (\<lambda>scoped.
     map_option (\<lambda>c. (scoped_alias scoped, column_type c)) (columns (scoped_table scoped) name)) tables"

definition bare_key :: "resolve_env \<Rightarrow> expr \<Rightarrow> string result" where
  "bare_key env e = (case e of
       EColumn (EIdent name _) \<Rightarrow> Inr name
     | EColumn _ \<Rightarrow> Inl (Errorf ''JOIN USING key %s is not a bare column name'' [re_format env e])
     | _ \<Rightarrow> Inl (Errorf ''JOIN USING key %T is not a bare column name'' [node_kind e]))"

definition using_key :: "resolve_env \<Rightarrow> scopedTable list \<Rightarrow> expr \<Rightarrow> unit result" where
  "using_key env tables e = bind_res (bare_key env e) (\<lambda>name.
     let types = map snd (column_uses tables name) in
     if length types < 2 then Inl (Errorf ''JOIN USING key %q is not present on two input tables'' [name])
     else bind_res (wrap_error ''JOIN USING key %q has no common type: %w'' [name] (commonCHTypes types)) (\<lambda>_. Inr ()))"

definition validateJoinUsing :: "resolve_env \<Rightarrow> expr list option \<Rightarrow> scopedTable list \<Rightarrow> unit result" where
  "validateJoinUsing env keys tables = (case keys of
       None \<Rightarrow> Inl (Errorf ''JOIN USING has no key'' [])
     | Some es \<Rightarrow>
         if es = [] then Inl (Errorf ''JOIN USING has no key'' [])
         else if length tables > 2 then Inl (Errorf ''multi-input JOIN USING name resolution is not supported'' [])
         else check_all (using_key env tables) es)"

text \<open>
  The common types of the keys: for the bare name, and for the name of each of the two tables. The walk over
  FROM meets the joins of its subqueries too.
\<close>

fun using_lists :: "resolve_env \<Rightarrow> from_expr \<Rightarrow> join_constraint list" where
  "using_lists env (FromTable source _ _) = (case source of SourceSelect select \<Rightarrow> re_joins_in env select | _ \<Rightarrow> [])"
| "using_lists env (FromJoinTable inner _ _) = using_lists env inner"
| "using_lists env (FromJoin left right _ constraint) =
     (case constraint of Some c \<Rightarrow> [c] | None \<Rightarrow> []) @ using_lists env left
     @ (case right of Some r \<Rightarrow> using_lists env r | None \<Rightarrow> [])"
| "using_lists env _ = []"

definition using_of :: "join_constraint \<Rightarrow> expr list" where
  "using_of constraint = (case constraint of
       UsingConstraint (Some keys) \<Rightarrow> keys | EitherConstraint (Some keys) _ \<Rightarrow> keys | _ \<Rightarrow> [])"

definition record_using :: "resolve_env \<Rightarrow> expr \<Rightarrow> scope_level \<Rightarrow> scope_level result" where
  "record_using env e level = (case unwrapColumnExpression e of
       EIdent name _ \<Rightarrow>
         (let uses = column_uses (scope_tables level) name in
          if length uses < 2 then Inr level
          else bind_res (wrap_error ''JOIN USING key %q has no common type: %w'' [name] (commonCHTypes (map snd uses))) (\<lambda>common.
            Inr (level\<lparr>usingTypes := put name common (usingTypes level),
                       usingQualified := fold (\<lambda>alias. put (alias @ ''.'' @ name) common) (map fst uses) (usingQualified level)\<rparr>)))
     | _ \<Rightarrow> Inl (Errorf ''JOIN USING key %s is not a bare column name'' [re_format env e]))"

definition recordJoinUsingTypes :: "resolve_env \<Rightarrow> from_expr \<Rightarrow> scope_level \<Rightarrow> scope_level result" where
  "recordJoinUsingTypes env from level =
     (if length (scope_tables level) \<noteq> 2 then Inr level
      else fold_res (record_using env) (concat (map using_of (using_lists env from))) level)"

section \<open>Join conditions\<close>

definition tableSource :: "table_source \<Rightarrow> table_alias \<Rightarrow> (table_source \<times> string) result" where
  "tableSource source alias = (case alias of
       NoAlias \<Rightarrow> Inr (source, [])
     | Alias name \<Rightarrow> Inr (source, name)
     | AliasOther k \<Rightarrow> Inl (Errorf ''unsupported table alias %T'' [k]))"

definition relationName :: "relation_expr \<Rightarrow> string result" where
  "relationName r = (case r of
       RelationIdent name \<Rightarrow> Inr name
     | RelationTable (Some name) \<Rightarrow> Inr name
     | RelationTable None \<Rightarrow> Inl (Errorf ''table identifier has no table name'' [])
     | RelationOther k \<Rightarrow> Inl (Errorf ''unsupported relation name expression %T'' [k]))"

definition source_name :: "table_source \<Rightarrow> string" where
  "source_name source = (case source of SourceTable _ (Some name) \<Rightarrow> name | _ \<Rightarrow> [])"

fun collectJoinBoundaryAliases :: "from_expr \<Rightarrow> string list" where
  "collectJoinBoundaryAliases (FromJoin left right _ _) = collectJoinBoundaryAliases left
     @ (case right of Some r \<Rightarrow> collectJoinBoundaryAliases r | None \<Rightarrow> [])"
| "collectJoinBoundaryAliases (FromJoinTable inner _ _) = collectJoinBoundaryAliases inner"
| "collectJoinBoundaryAliases (FromTable source alias _) = (case tableSource source alias of
       Inl _ \<Rightarrow> []
     | Inr (s, name) \<Rightarrow> filter (\<lambda>a. a \<noteq> []) [if name = [] then source_name s else name])"
| "collectJoinBoundaryAliases _ = []"

definition add_boundary :: "string list \<Rightarrow> scopedTable \<Rightarrow> scopedTable list \<Rightarrow> scopedTable list" where
  "add_boundary aliases scoped tables =
     (if scoped_alias scoped \<in> set aliases \<and> scoped_alias scoped \<notin> set (map scoped_alias tables)
      then tables @ [scoped] else tables)"

definition appendJoinBoundary :: "scopedTable list \<Rightarrow> from_expr \<Rightarrow> scopedTable list \<Rightarrow> scopedTable list" where
  "appendJoinBoundary tables from full = fold (add_boundary (collectJoinBoundaryAliases from)) full tables"

definition joinHasModifier :: "string list \<Rightarrow> string \<Rightarrow> bool" where
  "joinHasModifier modifiers want \<longleftrightarrow> list_ex (equal_fold want) modifiers"

definition isArrayJoin :: "string list \<Rightarrow> bool" where
  "isArrayJoin modifiers \<longleftrightarrow> joinHasModifier modifiers ''ARRAY'' \<and> joinHasModifier modifiers ''JOIN''"

definition directQualifiedColumn :: "expr \<Rightarrow> string option" where
  "directQualifiedColumn e = (case unwrapColumnExpression e of
       EPath [qualifier, _] \<Rightarrow> Some qualifier | _ \<Rightarrow> None)"

definition crosses :: "string list \<Rightarrow> string list \<Rightarrow> expr \<Rightarrow> bool" where
  "crosses leftAliases rightAliases e = (case e of
       EBinary l operation r \<Rightarrow> operation \<in> {''<'', ''<='', ''>'', ''>=''}
         \<and> (case (directQualifiedColumn l, directQualifiedColumn r) of
              (Some p, Some q) \<Rightarrow> p \<in> set leftAliases \<and> q \<in> set rightAliases \<or> p \<in> set rightAliases \<and> q \<in> set leftAliases
            | _ \<Rightarrow> False)
     | _ \<Rightarrow> False)"

definition validateASOFJoinConditions ::
    "resolve_env \<Rightarrow> expr list \<Rightarrow> scopedTable list \<Rightarrow> scopedTable list \<Rightarrow> unit result" where
  "validateASOFJoinConditions env conditions left boundary =
     (let leftAliases = map scoped_alias left;
          rightAliases = filter (\<lambda>a. a \<notin> set leftAliases) (map scoped_alias boundary) in
      if length (filter (crosses leftAliases rightAliases) (concat (map (walked env) conditions))) \<noteq> 1
      then Inl (Errorf ''ASOF JOIN ON requires exactly one cross-input inequality condition'' []) else Inr ())"

section \<open>Sources\<close>

definition final_engines :: "string list" where
  "final_engines = [''replacingmergetree'', ''summingmergetree'', ''aggregatingmergetree'', ''collapsingmergetree'', ''versionedcollapsingmergetree'']"

definition validateFinalEngine :: "table \<Rightarrow> unit result" where
  "validateFinalEngine t = (case table_engine t of
       None \<Rightarrow> Inl (Errorf ''FINAL requires a measured collapsing MergeTree-family engine; table %s has no engine'' [table_name t])
     | Some e \<Rightarrow> if to_lower (engine_name e) \<in> set final_engines then Inr ()
         else Inl (Errorf ''FINAL is not supported for table %s with engine %s'' [table_name t, engine_name e]))"

definition typed_column :: "string \<Rightarrow> chtype \<Rightarrow> bool \<Rightarrow> column" where
  "typed_column name t ins = \<lparr>column_name = name, column_type = t, insertable = ins, default_expr = [], materialized_expr = [],
     alias_expr = [], codec_text = [], comment_text = [], ttl_text = []\<rparr>"

definition typed_table :: "string \<Rightarrow> bool \<Rightarrow> (string \<times> chtype) list \<Rightarrow> table" where
  "typed_table name ins cols = \<lparr>table_name = name, table_file = [], table_line = 0,
     columns = (\<lambda>c. map_option (\<lambda>t. typed_column c t ins) (map_of (rev cols) c)),
     column_order = map fst cols, table_engine = None\<rparr>"

record seriesTableRule =
  series_column :: string
  series_type :: string
  series_min :: nat
  series_max :: nat
  series_roles :: "string list"

definition series_rule :: "string \<Rightarrow> string \<Rightarrow> nat \<Rightarrow> nat \<Rightarrow> string list \<Rightarrow> seriesTableRule" where
  "series_rule col t lo hi roles = \<lparr>series_column = col, series_type = t, series_min = lo, series_max = hi, series_roles = roles\<rparr>"

definition seriesTableRules :: "(string \<times> seriesTableRule) list" where
  "seriesTableRules =
     [(''numbers'', series_rule ''number'' ''UInt64'' 0 3 [''Start'', ''Length'', ''Step'']),
      (''numbers_mt'', series_rule ''number'' ''UInt64'' 0 3 [''Start'', ''Length'', ''Step'']),
      (''zeros'', series_rule ''zero'' ''UInt8'' 0 1 [''Length'', [], []]),
      (''zeros_mt'', series_rule ''zero'' ''UInt8'' 0 1 [''Length'', [], []]),
      (''generate_series'', series_rule ''generate_series'' ''UInt64'' 2 3 [''Start'', ''Stop'', ''Step'']),
      (''generateSeries'', series_rule ''generate_series'' ''UInt64'' 2 3 [''Start'', ''Stop'', ''Step''])]"

definition series_argument :: "string \<Rightarrow> nat \<times> expr \<Rightarrow> unit result" where
  "series_argument name numbered = (case unwrapColumnExpression (snd numbered) of
       EPlaceholder \<Rightarrow> Inr ()
     | ENumber literal \<Rightarrow> (case parse_uint64 literal of
           None \<Rightarrow> Inl (Errorf ''table function %s argument %d must be an unsigned integer literal'' [name, itoa (int (fst numbered) + 1)])
         | Some n \<Rightarrow> if fst numbered = 2 \<and> n = 0 then Inl (Errorf ''table function %s step must be positive'' [name]) else Inr ())
     | _ \<Rightarrow> Inl (Errorf ''table function %s argument %d requires a measured unsigned integer literal'' [name, itoa (int (fst numbered) + 1)]))"

definition resolveSeriesTable :: "string \<Rightarrow> expr list \<Rightarrow> string \<Rightarrow> table result" where
  "resolveSeriesTable name args alias = (case map_of seriesTableRules name of
       None \<Rightarrow> Inl (Errorf ''table function %s has no measured relation rule'' [name])
     | Some rule \<Rightarrow>
         if length args < series_min rule \<or> length args > series_max rule
         then Inl (Errorf ''table function %s accepts %d through %d arguments''
                [name, itoa (int (series_min rule)), itoa (int (series_max rule))])
         else bind_res (check_all (series_argument name) (zip [0..<length args] args)) (\<lambda>_.
           Inr (typed_table alias False [(series_column rule, ty0 (series_type rule))])))"

text \<open>The placeholders of a series function by argument, each of type UInt64, with the name of its role.\<close>

definition inferSeriesParams :: "string \<Rightarrow> expr list \<Rightarrow> (nat \<times> string) list" where
  "inferSeriesParams name args = (case map_of seriesTableRules name of
       None \<Rightarrow> []
     | Some rule \<Rightarrow> map (\<lambda>(i, _). (i, if length args = 1 then ''Length'' else series_roles rule ! i))
         (filter (\<lambda>(_, arg). unwrapColumnExpression arg = EPlaceholder) (zip [0..<length args] args)))"

text \<open>A table of the pinned system catalog.\<close>

definition system_column :: "resolve_env \<Rightarrow> string \<Rightarrow> string \<times> string \<Rightarrow> (string \<times> chtype) result" where
  "system_column env name c = bind_res (wrap_error ''system.%s.%s: %w'' [name, fst c] (env_parseTypeName (re_infer env) (snd c)))
     (\<lambda>t. Inr (fst c, t))"

definition systemTable :: "resolve_env \<Rightarrow> string \<Rightarrow> table option result" where
  "systemTable env name = bind_res (re_system env) (\<lambda>tables. case tables name of
       None \<Rightarrow> Inr None
     | Some cols \<Rightarrow> bind_res (map_res (system_column env name) cols) (\<lambda>typed.
         Inr (Some (typed_table (''system.'' @ name) False typed))))"

section \<open>ARRAY JOIN\<close>

definition isEmptyArrayJoinLiteral :: "expr \<Rightarrow> bool" where
  "isEmptyArrayJoinLiteral e = (case unwrapColumnExpression e of
       EArray None \<Rightarrow> True | EArray (Some items) \<Rightarrow> items = [] | _ \<Rightarrow> False)"

definition arrayJoinElementType :: "chtype \<Rightarrow> chtype result" where
  "arrayJoinElementType container =
     (if named container ''array'' \<and> length (Params container) = 1 then Inr (hd (Params container))
      else if named container ''map'' \<and> length (Params container) = 2
      then Inr (CHType ''Tuple'' (Params container) [] [''keys'', ''values''])
      else Inl (Errorf ''ARRAY JOIN requires an Array or Map expression, got %s'' [to_string container]))"

text \<open>The name of an item (empty: none) and the qualified names that mean it.\<close>

definition arrayJoinBinding :: "resolve_env \<Rightarrow> expr \<Rightarrow> string option \<Rightarrow> scopedTable list \<Rightarrow> (string \<times> string list) result" where
  "arrayJoinBinding env e alias tables = (case alias of
       Some name \<Rightarrow> if name = [] then Inl (Errorf ''ARRAY JOIN alias is empty'' []) else Inr (name, [])
     | None \<Rightarrow> (case unwrapColumnExpression e of
           EIdent name _ \<Rightarrow> Inr (name, concat (map (\<lambda>scoped.
             if columns (scoped_table scoped) name = None then []
             else (scoped_alias scoped @ ''.'' @ name)
               # (if table_name (scoped_table scoped) \<noteq> scoped_alias scoped
                  then [table_name (scoped_table scoped) @ ''.'' @ name] else [])) tables))
         | EPath path \<Rightarrow>
             if length path < 2 then Inl (Errorf ''ARRAY JOIN expression %s requires an alias'' [re_format env e])
             else Inr (last path, [path ! (length path - 2) @ ''.'' @ last path])
         | _ \<Rightarrow> Inr ([], [])))"

section \<open>LIMIT with a placeholder\<close>

definition unsigned_type :: "chtype \<Rightarrow> bool" where
  "unsigned_type t \<longleftrightarrow> (let base = domainBaseType t in Params base = [] \<and> has_prefix (normalizedName base) ''uint'')"

definition validateMeasuredLimitPlaceholder :: "resolve_env \<Rightarrow> queryScope \<Rightarrow> expr \<Rightarrow> unit result" where
  "validateMeasuredLimitPlaceholder env scope e =
     (let shape = Inl (Errorf ''composite placeholder shape is not in the measured LIMIT roster'' []) in
      case unwrapColumnExpression e of
        EFunction name (Some [first, second]) _ \<Rightarrow>
          if \<not> equal_fold name ''ifNull'' then shape
          else if unwrapColumnExpression first \<noteq> EPlaceholder then Inl (Errorf ''ifNull first argument is not a direct placeholder'' [])
          else let fallback = unwrapColumnExpression second in
            if containsPlaceholder env fallback then Inl (Errorf ''ifNull fallback contains a placeholder'' [])
            else bind_res (wrap_error ''ifNull fallback: %w'' [] (re_type env scope fallback)) (\<lambda>t.
              if \<not> unsigned_type t then Inl (Errorf ''ifNull fallback has type %s, want an unsigned integer'' [to_string t]) else Inr ())
      | _ \<Rightarrow> shape)"

section \<open>Aliases and contracts of the projection\<close>

definition select_item_type :: "resolve_env \<Rightarrow> queryScope \<Rightarrow> select_item \<Rightarrow> chtype result" where
  "select_item_type env scope item =
     re_type env (case si_alias item of Some name \<Rightarrow> expanding scope name | None \<Rightarrow> scope) (si_expr item)"

definition add_alias_expression :: "resolve_env \<Rightarrow> select_item \<Rightarrow> (string \<times> expr) list \<Rightarrow> (string \<times> expr) list result" where
  "add_alias_expression env item exprs = (case si_alias item of
       None \<Rightarrow> Inr exprs
     | Some name \<Rightarrow> (case map_of exprs name of
           Some previous \<Rightarrow> if re_format env previous \<noteq> re_format env (si_expr item)
             then Inl (Errorf ''projection alias %q has different expressions'' [name]) else Inr exprs
         | None \<Rightarrow> Inr (exprs @ [(name, si_expr item)])))"

definition addProjectionAliasExpressions :: "resolve_env \<Rightarrow> select_item list \<Rightarrow> scope_level \<Rightarrow> scope_level result" where
  "addProjectionAliasExpressions env items level =
     bind_res (fold_res (add_alias_expression env) items (projectionExprs level)) (\<lambda>exprs. Inr (level\<lparr>projectionExprs := exprs\<rparr>))"

text \<open>
  A result contract can only stand for an unknown function: its arguments have types, or are placeholders, or
  unknown functions again.
\<close>

function validateAssertedFunction :: "resolve_env \<Rightarrow> queryScope \<Rightarrow> expr \<Rightarrow> unit result" where
  "validateAssertedFunction env scope e = (case e of
       EFunction name items cols \<Rightarrow>
         if env_registry (re_infer env) (to_lower name) \<noteq> None
         then Inl (Errorf ''a result contract cannot bypass argument checks for known function %s'' [name])
         else if items = None \<or> cols \<noteq> None
         then Inl (Errorf ''result-chtype does not support unregistered parametric function calls'' [])
         else check_all (\<lambda>arg. case re_type env scope arg of
             Inr _ \<Rightarrow> Inr ()
           | Inl err \<Rightarrow>
               if unwrapColumnExpression arg = EPlaceholder \<and> is_placeholder_error err then Inr ()
               else if missing_function err = None \<and> \<not> is_placeholder_error err then Inl err
               else validateAssertedFunction env scope arg) (functionArgs items cols)
     | _ \<Rightarrow> Inl (Errorf ''a result contract cannot validate this expression's unknown operand types; assert a direct unregistered function call'' []))"
  by pat_completeness auto
termination
  by (relation "measure (\<lambda>(_, _, e). size e)") (auto dest: size_functionArgs(1))

declare validateAssertedFunction.simps [simp del]

text \<open>The types of the named results, for the clauses that see them; an unknown function stays an expression.\<close>

definition add_alias_type :: "resolve_env \<Rightarrow> (scope_level \<Rightarrow> queryScope) \<Rightarrow> select_item \<Rightarrow> scope_level \<Rightarrow> scope_level result" where
  "add_alias_type env scope_of item level = (case selectItemSQLName (re_format env) item of
       Inl _ \<Rightarrow> Inr level
     | Inr name \<Rightarrow> (case select_item_type env (scope_of level) item of
           Inr t \<Rightarrow> Inr (level\<lparr>projectionAliases := put name t (projectionAliases level)\<rparr>)
         | Inl err \<Rightarrow>
             if missing_function err \<noteq> None \<and> is_ok (validateAssertedFunction env (scope_of level) (si_expr item)) then Inr level
             else Inl (Wrapf ''selected expression %s: %w'' [name] err)))"

end
