(* ===== verification/ResolveRun.thy ===== *)
theory ResolveRun
  imports SelectJoins
begin

text \<open>
  The state of a resolution and the computations over it, and the places of an expression where nested queries
  are resolved. A computation answers a value or an error, and the state it leaves in either case: the source
  changes its maps in place, also on the way to an error.
\<close>

section \<open>The state\<close>

text \<open>
  A copy of \<^verbatim>\<open>scopeIndex\<close> has a map of scalar subquery types (scopes refer to it) and a set of the scalar subqueries that are
  being resolved; \<open>rs_current\<close> is the number of the copy in use.
\<close>

record resolve_state =
  rs_maps :: scalar_maps
  rs_marks :: "nat list list"
  rs_current :: nat

type_synonym 'a run = "resolve_state \<Rightarrow> 'a result \<times> resolve_state"

definition run_return :: "'a \<Rightarrow> 'a run" where
  "run_return x st = (Inr x, st)"

definition run_fail :: "error \<Rightarrow> 'a run" where
  "run_fail err st = (Inl err, st)"

definition run_lift :: "'a result \<Rightarrow> 'a run" where
  "run_lift r st = (r, st)"

definition run_bind :: "'a run \<Rightarrow> ('a \<Rightarrow> 'b run) \<Rightarrow> 'b run" where
  "run_bind m f st = (case m st of (Inl err, st') \<Rightarrow> (Inl err, st') | (Inr x, st') \<Rightarrow> f x st')"

definition run_wrap :: "string \<Rightarrow> string list \<Rightarrow> 'a run \<Rightarrow> 'a run" where
  "run_wrap format args m st = (case m st of (Inl err, st') \<Rightarrow> (Inl (Wrapf format args err), st') | (Inr x, st') \<Rightarrow> (Inr x, st'))"

text \<open>A computation that reads the maps.\<close>

definition run_maps :: "(scalar_maps \<Rightarrow> 'a result) \<Rightarrow> 'a run" where
  "run_maps f st = (f (rs_maps st), st)"

fun run_each :: "('a \<Rightarrow> unit run) \<Rightarrow> 'a list \<Rightarrow> unit run" where
  "run_each f [] = run_return ()"
| "run_each f (x # xs) = run_bind (f x) (\<lambda>_. run_each f xs)"

fun run_map :: "('a \<Rightarrow> 'b run) \<Rightarrow> 'a list \<Rightarrow> 'b list run" where
  "run_map f [] = run_return []"
| "run_map f (x # xs) = run_bind (f x) (\<lambda>y. run_bind (run_map f xs) (\<lambda>ys. run_return (y # ys)))"

fun run_fold :: "('a \<Rightarrow> 's \<Rightarrow> 's run) \<Rightarrow> 'a list \<Rightarrow> 's \<Rightarrow> 's run" where
  "run_fold f [] s = run_return s"
| "run_fold f (x # xs) s = run_bind (f x s) (run_fold f xs)"

definition run_when :: "bool \<Rightarrow> unit run \<Rightarrow> unit run" where
  "run_when b m = (if b then m else run_return ())"

definition run_option :: "('a \<Rightarrow> unit run) \<Rightarrow> 'a option \<Rightarrow> unit run" where
  "run_option f x = (case x of None \<Rightarrow> run_return () | Some y \<Rightarrow> f y)"

lemma run_bind_cong [fundef_cong]:
  "m st = m' st \<Longrightarrow> (\<And>x st'. m' st = (Inr x, st') \<Longrightarrow> f x st' = f' x st') \<Longrightarrow> run_bind m f st = run_bind m' f' st"
  by (auto simp: run_bind_def split: prod.splits sum.splits)

lemma run_wrap_cong [fundef_cong]: "m st = m' st \<Longrightarrow> run_wrap format args m st = run_wrap format args m' st"
  by (simp add: run_wrap_def)

section \<open>Where nested queries stand\<close>

text \<open>
  EXISTS with the query it holds (\<open>None\<close>: no query) and the kind of its argument; the right side of IN with the left; a scalar
  subquery.
\<close>

datatype subquery_use = UseExists "nat option" string | UseBadExists | UseIn expr nat | UseScalar nat

definition is_subquery_node :: "expr \<Rightarrow> bool" where
  "is_subquery_node e = (case e of ESubQuery _ \<Rightarrow> True | _ \<Rightarrow> False)"

definition exists_use :: "resolve_env \<Rightarrow> expr list option \<Rightarrow> subquery_use" where
  "exists_use env items = (case items of
       Some [arg] \<Rightarrow> (case List.find is_subquery_node (walked env arg) of
           Some (ESubQuery select) \<Rightarrow> UseExists (if re_select env select = None then None else Some select) (node_kind arg)
         | _ \<Rightarrow> UseExists None (node_kind arg))
     | _ \<Rightarrow> UseBadExists)"

text \<open>What a node asks for; and the nodes beneath it, with the right side of an IN that is resolved with it.\<close>

definition use_of :: "resolve_env \<Rightarrow> nat list \<Rightarrow> expr \<Rightarrow> subquery_use list" where
  "use_of env resolved e = (case e of
       EFunction name items _ \<Rightarrow> if equal_fold name ''exists'' then [exists_use env items] else []
     | EBinary l operation r \<Rightarrow>
         if isInOperation operation then (case unwrapColumnExpression r of ESubQuery select \<Rightarrow> [UseIn l select] | _ \<Rightarrow> []) else []
     | ESubQuery select \<Rightarrow> if select \<in> set resolved then [] else [UseScalar select]
     | _ \<Rightarrow> [])"

definition beneath_use :: "resolve_env \<Rightarrow> expr \<Rightarrow> expr list" where
  "beneath_use env e = (case e of
       EFunction name _ _ \<Rightarrow> if equal_fold name ''exists'' then [] else children env e
     | ESubQuery _ \<Rightarrow> []
     | _ \<Rightarrow> children env e)"

definition resolved_beneath :: "nat list \<Rightarrow> expr \<Rightarrow> nat list" where
  "resolved_beneath resolved e = (case e of
       EBinary _ operation r \<Rightarrow>
         if isInOperation operation then (case unwrapColumnExpression r of ESubQuery select \<Rightarrow> select # resolved | _ \<Rightarrow> resolved)
         else resolved
     | _ \<Rightarrow> resolved)"

lemma size_beneath_use: "c \<in> set (beneath_use env e) \<Longrightarrow> size c < size e"
  using size_children [of c env e] by (cases e) (auto simp: beneath_use_def split: if_splits)

function subquery_uses :: "resolve_env \<Rightarrow> nat list \<Rightarrow> expr \<Rightarrow> subquery_use list" where
  "subquery_uses env resolved e = use_of env resolved e
     @ concat (map (subquery_uses env (resolved_beneath resolved e)) (beneath_use env e))"
  by pat_completeness auto
termination
  by (relation "measure (\<lambda>(_, _, e). size e)") (auto dest: size_beneath_use)

declare subquery_uses.simps [simp del]

section \<open>Cardinality of a scalar subquery\<close>

text \<open>\<open>items\<close> are the results of the query after the expansion of wildcards.\<close>

definition scalarSubqueryHasGuaranteedRow :: "resolve_env \<Rightarrow> select_body \<Rightarrow> select_item list \<Rightarrow> bool" where
  "scalarSubqueryHasGuaranteedRow env body items \<longleftrightarrow>
     length items = 1
     \<and> \<not> (sb_where body \<noteq> None \<or> sb_prewhere body \<noteq> None \<or> sb_having body \<noteq> None \<or> sb_limit body \<noteq> None
          \<or> sb_limit_by body \<noteq> None \<or> sb_group_by body \<noteq> None \<or> sb_top body \<noteq> None)
     \<and> (sb_from body = None \<or> containsAggregateCall env (si_expr (hd items)))"

definition one_row_limit :: "limit_clause \<Rightarrow> bool" where
  "one_row_limit clause \<longleftrightarrow> (case map_option unwrapColumnExpression (limit_rows clause) of
       Some (ENumber literal) \<Rightarrow> trim_space literal = ''0'' \<or> trim_space literal = ''1'' | _ \<Rightarrow> False)"

definition scalarSubqueryHasAtMostOneRow :: "resolve_env \<Rightarrow> select_query \<Rightarrow> select_item list \<Rightarrow> bool" where
  "scalarSubqueryHasAtMostOneRow env q items \<longleftrightarrow>
     \<not> selectQueryHasSetOperation q
     \<and> (sb_from (sq_body q) = None
        \<or> sb_group_by (sq_body q) = None \<and> length items = 1 \<and> containsAggregateCall env (si_expr (hd items))
        \<or> (case sb_limit (sq_body q) of Some clause \<Rightarrow> one_row_limit clause | None \<Rightarrow> False))"

definition scalarSubqueryTypeCanBeNullable :: "chtype \<Rightarrow> bool" where
  "scalarSubqueryTypeCanBeNullable t \<longleftrightarrow> normalizedName t \<noteq> ''lowcardinality'' \<and> canBeInsideNullable t"

definition scalar_result_type :: "resolve_env \<Rightarrow> select_query \<Rightarrow> select_item list \<Rightarrow> (string \<times> chtype) list \<Rightarrow> chtype result" where
  "scalar_result_type env q items results = (case results of
       [(_, t)] \<Rightarrow>
         if \<not> scalarSubqueryHasAtMostOneRow env q items
         then Inl (Errorf ''scalar subquery row cardinality is not statically bounded'' [])
         else if normalizedName t = ''nullable'' then Inr t
         else if scalarSubqueryTypeCanBeNullable t then Inr (wrapNullable t)
         else if scalarSubqueryHasGuaranteedRow env (sq_body q) items then Inr t
         else Inl (Errorf ''scalar subquery can be empty and cannot put %s inside Nullable'' [to_string t])
     | _ \<Rightarrow> Inl (Errorf ''scalar subquery must select exactly one expression'' []))"

end
