(* ===== verification/ResolveNested.thy ===== *)
theory ResolveNested
  imports ResolveRun Suggest
begin

text \<open>
  The nested queries of a SELECT (\<^verbatim>\<open>resolver.go\<close>): EXISTS, IN, scalar subqueries, derived tables, the relations and the
  scalars of WITH, and the sources of FROM. The resolution of a query is a parameter here, the recursion is closed in the
  theory \<open>Resolve\<close>. The expansion of a wildcard stays in the tree in the source; the model expands it in each resolution.
\<close>

record resolved =
  rv_scope :: "select_scope list"
  rv_results :: "(string \<times> chtype) list"
  rv_items :: "select_item list"

type_synonym resolver = "select_query \<Rightarrow> select_scope list \<Rightarrow> bool \<Rightarrow> resolved run"

definition run_type :: "resolve_env \<Rightarrow> select_scope list \<Rightarrow> expr \<Rightarrow> chtype run" where
  "run_type env scopes e = run_maps (\<lambda>maps. re_type env (read_scope maps scopes) e)"

definition set_query :: "resolve_env \<Rightarrow> resolver \<Rightarrow> nat \<Rightarrow> bool \<Rightarrow> select_scope list \<Rightarrow> resolved run" where
  "set_query env rec select names scopes = (case re_select env select of
       None \<Rightarrow> run_fail (Errorf ''SELECT query is empty'' [])
     | Some q \<Rightarrow> rec q scopes names)"

text \<open>
  A query that may not use the rows of the scope is resolved without them; when that fails and the scope would make it a
  query, it is correlated.
\<close>

definition detached ::
    "(select_scope list \<Rightarrow> resolved run) \<Rightarrow> select_scope list \<Rightarrow> error \<Rightarrow> (error \<Rightarrow> error) \<Rightarrow> resolved run" where
  "detached attempt scopes correlated refusal st = (case attempt (scopeWithoutRowBindings scopes) st of
       (Inr r, st1) \<Rightarrow> (Inr r, st1)
     | (Inl err, st1) \<Rightarrow> (case scopes of
           [] \<Rightarrow> (Inl (refusal err), st1)
         | _ \<Rightarrow> (case attempt scopes st1 of
               (Inr _, st2) \<Rightarrow> (Inl correlated, st2)
             | (Inl _, st2) \<Rightarrow> (Inl (refusal err), st2))))"

section \<open>IN\<close>

definition in_arity :: "chtype \<Rightarrow> (string \<times> chtype) list \<Rightarrow> unit result" where
  "in_arity left_type results =
     (let want = (if normalizedName left_type = ''tuple'' then length (Params left_type) else 1);
          projection = (if length results \<noteq> want
            then Inl (Errorf ''IN set projection has %d expressions, want %d'' [itoa (int (length results)), itoa (int want)])
            else Inr ()) in
      case results of
        [(_, t)] \<Rightarrow>
          if normalizedName t = ''tuple'' then
            (if length (Params t) \<noteq> want
             then Inl (Errorf ''IN set tuple has %d components, want %d'' [itoa (int (length (Params t))), itoa (int want)])
             else Inr ())
          else projection
      | _ \<Rightarrow> projection)"

definition resolveSetSubquery ::
    "resolve_env \<Rightarrow> resolver \<Rightarrow> select_scope list \<Rightarrow> expr \<Rightarrow> nat \<Rightarrow> unit run" where
  "resolveSetSubquery env rec scopes left_expr select = (case re_select env select of
       None \<Rightarrow> run_fail (Errorf ''IN set subquery has no SELECT'' [])
     | Some q \<Rightarrow>
         run_bind (detached (\<lambda>parent. rec q parent False) scopes
                     (Errorf ''correlated IN subquery is not supported'' []) (Wrapf ''IN set subquery: %w'' [])) (\<lambda>r.
           if rv_results r = [] then run_fail (Errorf ''IN set subquery must select at least one expression'' [])
           else run_bind (run_wrap ''IN left expression: %w'' [] (run_type env scopes left_expr)) (\<lambda>t.
             run_lift (in_arity t (rv_results r)))))"

section \<open>Scalar subqueries\<close>

definition scalar_attempt :: "resolver \<Rightarrow> select_scope list \<Rightarrow> select_query \<Rightarrow> resolved run" where
  "scalar_attempt rec scopes q =
     (if sb_limit (sq_body q) \<noteq> None \<and> \<not> List.null scopes
      then detached (\<lambda>parent. rec q parent False) scopes
             (Errorf ''correlated scalar subquery with LIMIT is not supported'' []) (\<lambda>err. err)
      else rec q scopes False)"

definition marked :: "resolve_state \<Rightarrow> nat list" where
  "marked st = (if rs_current st < length (rs_marks st) then rs_marks st ! rs_current st else [])"

definition mark :: "nat \<Rightarrow> resolve_state \<Rightarrow> resolve_state" where
  "mark select st = st\<lparr>rs_marks := (rs_marks st)[rs_current st := select # marked st]\<rparr>"

text \<open>The mark is taken from the set it was put in, which a copy of the index may have replaced.\<close>

definition unmark :: "nat \<Rightarrow> nat \<Rightarrow> resolve_state \<Rightarrow> resolve_state" where
  "unmark k select st = st\<lparr>rs_marks := (rs_marks st)[k := filter (\<lambda>s. s \<noteq> select) (rs_marks st ! k)]\<rparr>"

definition known_scalar :: "resolve_state \<Rightarrow> nat \<Rightarrow> chtype option" where
  "known_scalar st select = map_of (scalar_map (rs_maps st) (rs_current st)) select"

definition store_scalar :: "nat \<Rightarrow> chtype \<Rightarrow> resolve_state \<Rightarrow> resolve_state" where
  "store_scalar select t st =
     st\<lparr>rs_maps := (rs_maps st)[rs_current st := put select t (scalar_map (rs_maps st) (rs_current st))]\<rparr>"

definition scalar_answer :: "resolve_env \<Rightarrow> select_query \<Rightarrow> nat \<Rightarrow> resolved \<Rightarrow> chtype run" where
  "scalar_answer env q select r st = (case scalar_result_type env q (rv_items r) (rv_results r) of
       Inl err \<Rightarrow> (Inl err, st) | Inr t \<Rightarrow> (Inr t, store_scalar select t st))"

definition resolveScalarSubqueryType :: "resolve_env \<Rightarrow> resolver \<Rightarrow> select_scope list \<Rightarrow> nat \<Rightarrow> chtype run" where
  "resolveScalarSubqueryType env rec scopes select st = (case re_select env select of
       None \<Rightarrow> (Inl (Errorf ''scalar subquery has no SELECT'' []), st)
     | Some q \<Rightarrow> (case known_scalar st select of
           Some t \<Rightarrow> (Inr t, st)
         | None \<Rightarrow>
             if select \<in> set (marked st) then (Inl (Errorf ''recursive scalar subquery is not supported'' []), st)
             else (case run_bind (scalar_attempt rec scopes q) (scalar_answer env q select) (mark select st) of
                 (answer, st1) \<Rightarrow> (answer, unmark (rs_current st) select st1))))"

definition resolve_use :: "resolve_env \<Rightarrow> resolver \<Rightarrow> select_scope list \<Rightarrow> subquery_use \<Rightarrow> unit run" where
  "resolve_use env rec scopes use = (case use of
       UseBadExists \<Rightarrow> run_fail (Errorf ''EXISTS must contain exactly one subquery'' [])
     | UseExists None k \<Rightarrow> run_fail (Errorf ''EXISTS argument must be a subquery, got %T'' [k])
     | UseExists (Some select) _ \<Rightarrow>
         run_bind (run_wrap ''EXISTS subquery: %w'' [] (set_query env rec select False scopes)) (\<lambda>_. run_return ())
     | UseIn left_expr select \<Rightarrow> resolveSetSubquery env rec scopes left_expr select
     | UseScalar select \<Rightarrow> run_bind (resolveScalarSubqueryType env rec scopes select) (\<lambda>_. run_return ()))"

definition resolveScalarSubqueriesInExpr :: "resolve_env \<Rightarrow> resolver \<Rightarrow> select_scope list \<Rightarrow> expr \<Rightarrow> unit run" where
  "resolveScalarSubqueriesInExpr env rec scopes e = run_each (resolve_use env rec scopes) (subquery_uses env [] e)"

section \<open>Derived tables and WITH\<close>

definition resolveDerivedTable ::
    "resolve_env \<Rightarrow> resolver \<Rightarrow> select_scope list \<Rightarrow> nat \<Rightarrow> string \<Rightarrow> bool \<Rightarrow> table run" where
  "resolveDerivedTable env rec scopes select name allowRelationParent =
     run_bind (if allowRelationParent then set_query env rec select True (scopeWithoutRowBindings scopes)
               else detached (set_query env rec select True) scopes
                      (Errorf ''correlated derived table is not supported'' []) (\<lambda>err. err)) (\<lambda>r.
       run_return (typed_table name True (rv_results r)))"

datatype pendingCTE = PendingRelation string nat | PendingScalar string "expr option"

fun cte_entries :: "string list \<Rightarrow> string list \<Rightarrow> with_item list \<Rightarrow> pendingCTE list result" where
  "cte_entries rels scalar_names [] = Inr []"
| "cte_entries rels scalar_names (WithEmpty # items) = Inl (Errorf ''WITH clause has an empty CTE'' [])"
| "cte_entries rels scalar_names (WithRelation r select # items) =
     bind_res (wrap_error ''CTE name: %w'' [] (relationName r)) (\<lambda>name.
       if name \<in> set rels then Inl (Errorf ''relation CTE %q is defined more than once'' [name])
       else bind_res (cte_entries (name # rels) scalar_names items) (\<lambda>rest. Inr (PendingRelation name select # rest)))"
| "cte_entries rels scalar_names (WithScalar r e # items) =
     bind_res (wrap_error ''scalar CTE name: %w'' [] (relationName r)) (\<lambda>name.
       if name \<in> set scalar_names then Inl (Errorf ''scalar CTE %q is defined more than once'' [name])
       else bind_res (cte_entries rels (name # scalar_names) items) (\<lambda>rest. Inr (PendingScalar name e # rest)))"

definition relation_names :: "pendingCTE list \<Rightarrow> string list" where
  "relation_names entries = List.map_filter (\<lambda>entry. case entry of PendingRelation name _ \<Rightarrow> Some name | _ \<Rightarrow> None) entries"

definition scalar_cte_names :: "pendingCTE list \<Rightarrow> string list" where
  "scalar_cte_names entries = List.map_filter (\<lambda>entry. case entry of PendingScalar name _ \<Rightarrow> Some name | _ \<Rightarrow> None) entries"

definition on_top :: "(select_scope \<Rightarrow> select_scope) \<Rightarrow> select_scope list \<Rightarrow> select_scope list" where
  "on_top f scopes = f (top_scope scopes) # tl scopes"

definition scalar_cte_type :: "resolve_env \<Rightarrow> resolver \<Rightarrow> select_scope list \<Rightarrow> expr \<Rightarrow> chtype run" where
  "scalar_cte_type env rec scopes e = (case e of
       ESubQuery select \<Rightarrow> resolveScalarSubqueryType env rec scopes select
     | _ \<Rightarrow> run_bind (resolveScalarSubqueriesInExpr env rec scopes e) (\<lambda>_. run_type env scopes e))"

definition empty_scalar_cte :: "resolve_env \<Rightarrow> expr \<Rightarrow> bool" where
  "empty_scalar_cte env e \<longleftrightarrow> (case e of ESubQuery select \<Rightarrow> re_select env select = None | _ \<Rightarrow> False)"

definition resolveOneCTE ::
    "resolve_env \<Rightarrow> resolver \<Rightarrow> pendingCTE \<Rightarrow> select_scope list \<Rightarrow> select_scope list run" where
  "resolveOneCTE env rec pending scopes = (case pending of
       PendingRelation name select \<Rightarrow>
         run_bind (run_wrap ''CTE %s: %w'' [name] (resolveDerivedTable env rec scopes select name True)) (\<lambda>t.
           run_return (on_top (\<lambda>sc. sc\<lparr>sc_relations := put name t (sc_relations sc)\<rparr>) scopes))
     | PendingScalar name None \<Rightarrow> run_fail (Errorf ''scalar CTE %s has no expression'' [name])
     | PendingScalar name (Some e) \<Rightarrow>
         if empty_scalar_cte env e then run_fail (Errorf ''scalar CTE %s has no SELECT'' [name])
         else run_bind (run_wrap ''scalar CTE %s: %w'' [name] (scalar_cte_type env rec scopes e)) (\<lambda>t.
           run_return (on_level (\<lambda>level. level\<lparr>scalars := put name t (scalars level)\<rparr>) scopes)))"

text \<open>
  An entry is tried on a copy of the scope and of the index (\<open>cloneScopeIndex\<close>). The copies take the place of the originals
  when it succeeds.
\<close>

definition cloneScopeIndex :: "resolve_state \<Rightarrow> resolve_state" where
  "cloneScopeIndex st = st\<lparr>rs_maps := rs_maps st @ [scalar_map (rs_maps st) (rs_current st)],
     rs_marks := rs_marks st @ [marked st], rs_current := length (rs_maps st)\<rparr>"

definition cte_trial ::
    "resolve_env \<Rightarrow> resolver \<Rightarrow> pendingCTE \<Rightarrow> select_scope list \<Rightarrow> select_scope list run" where
  "cte_trial env rec pending scopes st = (case resolveOneCTE env rec pending scopes (cloneScopeIndex st) of
       (Inl err, _) \<Rightarrow> (Inl err, st)
     | (Inr scopes', st') \<Rightarrow> (Inr (on_top (\<lambda>sc. sc\<lparr>sc_scalar_map := rs_current st'\<rparr>) scopes'), st'))"

text \<open>One pass over the pending entries: those that failed, the first failure, and the scope with the others.\<close>

fun cte_pass ::
    "resolve_env \<Rightarrow> resolver \<Rightarrow> pendingCTE list \<Rightarrow> select_scope list \<Rightarrow> resolve_state
     \<Rightarrow> (pendingCTE list \<times> error option \<times> select_scope list) \<times> resolve_state" where
  "cte_pass env rec [] scopes st = (([], None, scopes), st)"
| "cte_pass env rec (pending # rest) scopes st = (case cte_trial env rec pending scopes st of
       (Inr scopes', st') \<Rightarrow> cte_pass env rec rest scopes' st'
     | (Inl err, st') \<Rightarrow> (case cte_pass env rec rest scopes st' of
           ((remaining, _, scopes'), st'') \<Rightarrow> ((pending # remaining, Some err, scopes'), st'')))"

function cte_loop ::
    "resolve_env \<Rightarrow> resolver \<Rightarrow> pendingCTE list \<Rightarrow> select_scope list \<Rightarrow> select_scope list run" where
  "cte_loop env rec entries scopes st = (case cte_pass env rec entries scopes st of
       ((remaining, failure, scopes'), st') \<Rightarrow> (case failure of
           None \<Rightarrow> (Inr scopes', st')
         | Some err \<Rightarrow>
             if length remaining < length entries then cte_loop env rec remaining scopes' st' else (Inl err, st')))"
  by pat_completeness auto
termination
  by (relation "measure (\<lambda>(_, _, entries, _, _). length entries)") auto

declare cte_loop.simps [simp del]

definition resolveWithClause ::
    "resolve_env \<Rightarrow> resolver \<Rightarrow> with_item list \<Rightarrow> select_scope list \<Rightarrow> select_scope list run" where
  "resolveWithClause env rec items scopes = run_bind (run_lift (cte_entries [] [] items)) (\<lambda>entries.
     let rels = relation_names entries; scalar_names = scalar_cte_names entries in
     cte_loop env rec entries (on_top (\<lambda>sc. sc
       \<lparr>sc_relations := filter (\<lambda>(name, _). name \<notin> set rels) (sc_relations sc), sc_reserved := rels,
        sc_level := (sc_level sc)\<lparr>scalars := filter (\<lambda>(name, _). name \<notin> set scalar_names) (scalars (sc_level sc)),
          reservedScalars := scalar_names\<rparr>\<rparr>) scopes))"

section \<open>FROM\<close>

definition add_table :: "table \<Rightarrow> string \<Rightarrow> select_scope list \<Rightarrow> select_scope list" where
  "add_table t alias scopes = on_level (\<lambda>level. level
     \<lparr>scope_tables := scope_tables level @ [\<lparr>scoped_table = t, scoped_alias = alias\<rparr>]\<rparr>) scopes"

definition alias_twice :: "string \<Rightarrow> error" where
  "alias_twice alias = Errorf ''table alias %q is defined more than once'' [alias]"

definition source_table :: "resolve_env \<Rightarrow> select_scope list \<Rightarrow> string option \<Rightarrow> string \<Rightarrow> table option result" where
  "source_table env scopes database name =
     (if database = Some ''system'' then systemTable env name
      else Inr (case (if database = None then lookupTable scopes name else None) of
          Some t \<Rightarrow> Some t
        | None \<Rightarrow> if hasReservedRelation scopes name then None else re_tables env name))"

definition missing_table :: "resolve_env \<Rightarrow> select_scope list \<Rightarrow> string option \<Rightarrow> string \<Rightarrow> error" where
  "missing_table env scopes database name =
     (if database = Some ''system''
      then Errorf ''table %q is not present in the pinned system catalog'' [''system.'' @ name]
      else let suggestion = suggestName name (tableCandidates env scopes) in
        if suggestion \<noteq> []
        then Errorf ''table %q is not present in the schema or the query scope; did you mean %q?'' [name, suggestion]
        else Errorf ''table %q is not present in the schema or the query scope'' [name])"

definition collect_identifier ::
    "resolve_env \<Rightarrow> string option \<Rightarrow> string option \<Rightarrow> string \<Rightarrow> bool \<Rightarrow> select_scope list \<Rightarrow> select_scope list result" where
  "collect_identifier env database identifier alias final scopes = (case identifier of
       None \<Rightarrow> Inl (Errorf ''FROM table has no table name'' [])
     | Some name \<Rightarrow> bind_res (source_table env scopes database name) (\<lambda>found. case found of
           None \<Rightarrow> Inl (missing_table env scopes database name)
         | Some t \<Rightarrow> bind_res (if final then validateFinalEngine t else Inr ()) (\<lambda>_.
             let alias' = (if alias = [] then name else alias) in
             if hasFromAlias scopes alias' then Inl (alias_twice alias') else Inr (add_table t alias' scopes))))"

definition collect_series :: "string \<Rightarrow> expr list \<Rightarrow> string \<Rightarrow> bool \<Rightarrow> select_scope list \<Rightarrow> select_scope list result" where
  "collect_series name args alias final scopes =
     (let alias' = (if alias = [] then name else alias) in
      if final then Inl (Errorf ''FINAL is not supported for series table functions'' [])
      else if hasFromAlias scopes alias' then Inl (alias_twice alias')
      else bind_res (resolveSeriesTable name args alias') (\<lambda>t. Inr (add_table t alias' scopes)))"

definition collect_derived ::
    "resolve_env \<Rightarrow> resolver \<Rightarrow> nat \<Rightarrow> string \<Rightarrow> bool \<Rightarrow> select_scope list \<Rightarrow> select_scope list run" where
  "collect_derived env rec select alias final scopes =
     (let alias' = (if alias = [] then ''_chgen_derived_'' @ itoa (int (length (top_tables scopes))) else alias) in
      if final then run_fail (Errorf ''FINAL is not supported for a derived table'' [])
      else if hasFromAlias scopes alias' then run_fail (alias_twice alias')
      else run_bind (run_wrap ''derived table %s: %w'' [alias'] (resolveDerivedTable env rec scopes select alias' False)) (\<lambda>t.
        run_return (add_table t alias' scopes)))"

definition collect_table ::
    "resolve_env \<Rightarrow> resolver \<Rightarrow> table_source \<Rightarrow> table_alias \<Rightarrow> bool \<Rightarrow> select_scope list \<Rightarrow> select_scope list run" where
  "collect_table env rec source alias final scopes =
     run_bind (run_lift (tableSource source alias)) (\<lambda>(src, name). case src of
         SourceFunction f args \<Rightarrow> run_lift (collect_series f args name final scopes)
       | SourceTable database identifier \<Rightarrow> run_lift (collect_identifier env database identifier name final scopes)
       | SourceSelect select \<Rightarrow> collect_derived env rec select name final scopes
       | SourceOther k \<Rightarrow> run_fail (Errorf ''unsupported FROM expression %T'' [k]))"

text \<open>ARRAY JOIN: every item is typed in the scope before it, and the names are bound after the last item.\<close>

type_synonym array_binding = "string \<times> string list \<times> chtype"

definition add_binding ::
    "resolve_env \<Rightarrow> select_scope list \<Rightarrow> expr \<Rightarrow> string option \<Rightarrow> chtype \<Rightarrow> array_binding list \<Rightarrow> array_binding list result" where
  "add_binding env scopes e alias container bindings =
     bind_res (arrayJoinElementType container) (\<lambda>element.
     bind_res (arrayJoinBinding env e alias (top_tables scopes)) (\<lambda>(name, qualified).
       if name = [] then Inr bindings
       else if map_of (arrayJoinTypes (sc_level (top_scope scopes))) name \<noteq> None \<or> name \<in> set (map fst bindings)
       then Inl (Errorf ''ARRAY JOIN alias %q is defined more than once'' [name])
       else Inr (bindings @ [(name, qualified, element)])))"

definition array_join_type ::
    "resolve_env \<Rightarrow> select_scope list \<Rightarrow> expr \<Rightarrow> string option \<Rightarrow> array_binding list \<Rightarrow> array_binding list run" where
  "array_join_type env scopes e alias bindings = run_maps (\<lambda>maps. case re_type env (read_scope maps scopes) e of
       Inr container \<Rightarrow> add_binding env scopes e alias container bindings
     | Inl err \<Rightarrow>
         if alias = None \<and> isEmptyArrayJoinLiteral e then Inr bindings
         else Inl (Wrapf ''ARRAY JOIN expression: %w'' [] err))"

definition array_join_item ::
    "resolve_env \<Rightarrow> resolver \<Rightarrow> select_scope list \<Rightarrow> array_item \<Rightarrow> array_binding list \<Rightarrow> array_binding list run" where
  "array_join_item env rec scopes item bindings = (case item of
       ArrayItemOther k \<Rightarrow> run_fail (Errorf ''ARRAY JOIN item %T is not an expression'' [k])
     | ArrayItem e alias \<Rightarrow>
         run_bind (run_wrap ''ARRAY JOIN expression: %w'' [] (resolveScalarSubqueriesInExpr env rec scopes e)) (\<lambda>_.
           array_join_type env scopes e alias bindings))"

definition bind_array :: "array_binding \<Rightarrow> scope_level \<Rightarrow> scope_level" where
  "bind_array binding level = (case binding of (name, qualified, element) \<Rightarrow>
     level\<lparr>arrayJoinTypes := put name element (arrayJoinTypes level),
           arrayJoinQualified := fold (\<lambda>key. put key element) qualified (arrayJoinQualified level)\<rparr>)"

definition collectArrayJoin ::
    "resolve_env \<Rightarrow> resolver \<Rightarrow> from_expr \<Rightarrow> select_scope list \<Rightarrow> select_scope list run" where
  "collectArrayJoin env rec from scopes =
     (let items = (case from of FromColumns items \<Rightarrow> items | _ \<Rightarrow> []) in
      if items = [] then run_fail (Errorf ''ARRAY JOIN requires an expression list'' [])
      else run_bind (run_fold (array_join_item env rec scopes) items []) (\<lambda>bindings.
        run_return (on_level (fold bind_array bindings) scopes)))"

fun collectTables ::
    "resolve_env \<Rightarrow> resolver \<Rightarrow> from_expr \<Rightarrow> bool \<Rightarrow> select_scope list \<Rightarrow> select_scope list run" where
  "collectTables env rec (FromTable source alias hasFinal) final scopes =
     collect_table env rec source alias (final \<or> hasFinal) scopes"
| "collectTables env rec (FromJoinTable inner sample hasFinal) final scopes =
     (if sample then run_fail (Errorf ''FROM SAMPLE capability validation is not supported'' [])
      else collectTables env rec inner (final \<or> hasFinal) scopes)"
| "collectTables env rec (FromJoin left_expr right_expr modifiers _) final scopes =
     run_bind (if isArrayJoin modifiers then collectArrayJoin env rec left_expr scopes
               else collectTables env rec left_expr False scopes) (\<lambda>scopes'. case right_expr of
         None \<Rightarrow> run_return scopes'
       | Some r \<Rightarrow> collectTables env rec r False scopes')"
| "collectTables env rec (FromColumns _) final scopes =
     run_fail (Errorf ''unsupported FROM expression %T'' [''*parser.ColumnExprList''])"
| "collectTables env rec (FromOther k) final scopes = run_fail (Errorf ''unsupported FROM expression %T'' [k])"

end
