(* ===== verification/ResolveClauses.thy ===== *)
theory ResolveClauses
  imports ResolveNested
begin

text \<open>
  The clauses of a SELECT in its scope (\<^verbatim>\<open>validateExecutableSelectClauses\<close> of \<^verbatim>\<open>resolver.go\<close>): each resolves the nested queries of its
  expressions and infers their types. A computation here leaves the scope as it is, except for the aliases of the
  projection.
\<close>

section \<open>Expressions and conditions\<close>

definition with_scope :: "select_scope list \<Rightarrow> (queryScope \<Rightarrow> 'a result) \<Rightarrow> 'a run" where
  "with_scope scopes f = run_maps (\<lambda>maps. f (read_scope maps scopes))"

definition validateClauseExpression ::
    "resolve_env \<Rightarrow> resolver \<Rightarrow> select_scope list \<Rightarrow> string \<Rightarrow> expr \<Rightarrow> chtype run" where
  "validateClauseExpression env rec scopes clause e = run_wrap ''%s expression: %w'' [clause]
     (run_bind (resolveScalarSubqueriesInExpr env rec scopes e) (\<lambda>_. run_type env scopes e))"

definition condition_type :: "string \<Rightarrow> chtype \<Rightarrow> unit result" where
  "condition_type clause t =
     (let base = domainBaseType t in
      if Params base \<noteq> [] \<or> normalizedName base \<notin> {''uint8'', ''bool'', ''boolean''}
      then Inl (Errorf ''%s condition has type %s, want UInt8 or Bool'' [clause, to_string t]) else Inr ())"

definition validateClauseCondition ::
    "resolve_env \<Rightarrow> resolver \<Rightarrow> select_scope list \<Rightarrow> string \<Rightarrow> expr \<Rightarrow> unit run" where
  "validateClauseCondition env rec scopes clause e =
     run_bind (run_wrap ''%s condition: %w'' [clause]
       (run_bind (resolveScalarSubqueriesInExpr env rec scopes e) (\<lambda>_. run_type env scopes e))) (\<lambda>t.
       run_lift (condition_type clause t))"

definition placed_condition ::
    "resolve_env \<Rightarrow> resolver \<Rightarrow> select_scope list \<Rightarrow> string \<Rightarrow> bool \<Rightarrow> expr \<Rightarrow> unit run" where
  "placed_condition env rec scopes clause allowAggregate e =
     run_bind (with_scope scopes (validateClauseFunctionPlacement env clause e allowAggregate)) (\<lambda>_.
       validateClauseCondition env rec scopes clause e)"

section \<open>Joins\<close>

definition with_tables :: "scopedTable list \<Rightarrow> select_scope list \<Rightarrow> select_scope list" where
  "with_tables tables scopes = on_level (\<lambda>level. level\<lparr>scope_tables := tables\<rparr>) scopes"

definition join_conditions ::
    "resolve_env \<Rightarrow> resolver \<Rightarrow> select_scope list \<Rightarrow> string list \<Rightarrow> scopedTable list \<Rightarrow> scopedTable list \<Rightarrow> expr list option
     \<Rightarrow> unit run" where
  "join_conditions env rec scopes modifiers before boundary conditions = (case conditions of
       None \<Rightarrow> run_return ()
     | Some es \<Rightarrow>
         if es = [] then run_fail (Errorf ''JOIN ON has no condition'' [])
         else run_bind (run_each (placed_condition env rec (with_tables boundary scopes) ''JOIN ON'' False) es) (\<lambda>_.
           if joinHasModifier modifiers ''ASOF'' then run_lift (validateASOFJoinConditions env es before boundary)
           else run_return ()))"

definition join_constraint_check ::
    "resolve_env \<Rightarrow> resolver \<Rightarrow> select_scope list \<Rightarrow> string list \<Rightarrow> scopedTable list \<Rightarrow> scopedTable list \<Rightarrow> join_constraint
     \<Rightarrow> unit run" where
  "join_constraint_check env rec scopes modifiers before boundary constraint =
     (let using = (\<lambda>keys. run_lift (validateJoinUsing env keys boundary));
          on = join_conditions env rec scopes modifiers before boundary in
      case constraint of
        OnConstraint conditions \<Rightarrow> on conditions
      | UsingConstraint keys \<Rightarrow> using keys
      | EitherConstraint (Some keys) _ \<Rightarrow> using (Some keys)
      | EitherConstraint None conditions \<Rightarrow> on conditions
      | ConstraintOther k \<Rightarrow> run_fail (Errorf ''JOIN constraint %T is not supported'' [k]))"

text \<open>From left to right: a condition sees the tables up to the left side of its node.\<close>

fun validateJoinConditionsFromLeft ::
    "resolve_env \<Rightarrow> resolver \<Rightarrow> select_scope list \<Rightarrow> from_expr \<Rightarrow> scopedTable list \<Rightarrow> scopedTable list run" where
  "validateJoinConditionsFromLeft env rec scopes (FromJoin left_expr right_expr modifiers constraint) tables =
     run_bind (validateJoinConditionsFromLeft env rec scopes left_expr tables) (\<lambda>boundary.
     run_bind (run_option (join_constraint_check env rec scopes modifiers tables boundary) constraint) (\<lambda>_.
       case right_expr of
         None \<Rightarrow> run_return boundary
       | Some r \<Rightarrow> validateJoinConditionsFromLeft env rec scopes r boundary))"
| "validateJoinConditionsFromLeft env rec scopes from tables =
     run_return (appendJoinBoundary tables from (top_tables scopes))"

definition validateJoinConditions :: "resolve_env \<Rightarrow> resolver \<Rightarrow> select_scope list \<Rightarrow> from_expr \<Rightarrow> unit run" where
  "validateJoinConditions env rec scopes from =
     run_bind (validateJoinConditionsFromLeft env rec scopes from []) (\<lambda>_. run_return ())"

section \<open>LIMIT, ORDER BY and GROUP BY\<close>

definition limit_type :: "string \<Rightarrow> expr \<Rightarrow> chtype \<Rightarrow> unit result" where
  "limit_type clause e t =
     (if \<not> unsigned_type t then Inl (Errorf ''%s expression has type %s, want an unsigned integer'' [clause, to_string t])
      else case e of
          ENumber _ \<Rightarrow> Inr ()
        | _ \<Rightarrow> Inl (Errorf ''%s expression must be a measured numeric literal'' [clause]))"

definition validateLimitExpression ::
    "resolve_env \<Rightarrow> resolver \<Rightarrow> select_scope list \<Rightarrow> string \<Rightarrow> expr \<Rightarrow> unit run" where
  "validateLimitExpression env rec scopes clause e =
     (if e = EPlaceholder then run_return ()
      else if containsPlaceholder env e
      then run_wrap ''%s expression: %w'' [clause] (with_scope scopes (\<lambda>scope. validateMeasuredLimitPlaceholder env scope e))
      else run_bind (validateClauseExpression env rec scopes clause e) (\<lambda>t. run_lift (limit_type clause e t)))"

definition validateLimitClause ::
    "resolve_env \<Rightarrow> resolver \<Rightarrow> select_scope list \<Rightarrow> string \<Rightarrow> limit_clause option \<Rightarrow> unit run" where
  "validateLimitClause env rec scopes clause limit = (case limit of
       Some l \<Rightarrow> (case limit_rows l of
           Some rows \<Rightarrow> run_bind (validateLimitExpression env rec scopes clause rows) (\<lambda>_.
             run_option (validateLimitExpression env rec scopes (clause @ '' OFFSET'')) (limit_offset l))
         | None \<Rightarrow> run_fail (Errorf ''%s has no limit expression'' [clause]))
     | None \<Rightarrow> run_fail (Errorf ''%s has no limit expression'' [clause]))"

text \<open>The bounds of WITH FILL fit the key and are constants; its steps are positive numbers.\<close>

definition fill_bound :: "string \<Rightarrow> expr \<Rightarrow> chtype \<Rightarrow> chtype \<Rightarrow> unit result" where
  "fill_bound clause e order_type t =
     bind_res (wrap_error ''%s expression has type %s incompatible with order key %s: %w''
         [clause, to_string t, to_string order_type] (commonCHTypes [order_type, t])) (\<lambda>_.
       case unwrapColumnExpression e of
         ENumber _ \<Rightarrow> Inr () | _ \<Rightarrow> Inl (Errorf ''%s must be a measured constant literal'' [clause]))"

definition fill_step_check :: "resolve_env \<Rightarrow> string \<Rightarrow> expr \<Rightarrow> unit result" where
  "fill_step_check env clause e =
     (let refusal = Inl (Errorf ''%s must be a positive numeric literal'' [clause]) in
      case unwrapColumnExpression e of
        ENumber literal \<Rightarrow> (case env_parseFloat (re_infer env) (trim_space literal) of
            Some x \<Rightarrow> if x \<le> 0 then refusal else Inr () | None \<Rightarrow> refusal)
      | _ \<Rightarrow> refusal)"

definition validateOrderFillExpression ::
    "resolve_env \<Rightarrow> resolver \<Rightarrow> select_scope list \<Rightarrow> string \<times> expr option \<Rightarrow> chtype \<Rightarrow> unit run" where
  "validateOrderFillExpression env rec scopes fill order_type = (case fill of (clause, part) \<Rightarrow>
     run_option (\<lambda>e. run_bind (validateClauseExpression env rec scopes clause e) (\<lambda>t. run_lift
       (if has_suffix clause ''FROM'' \<or> has_suffix clause ''TO'' then fill_bound clause e order_type t
        else fill_step_check env clause e))) part)"

definition fill_parts :: "order_fill \<Rightarrow> (string \<times> expr option) list" where
  "fill_parts fill =
     [(''ORDER BY WITH FILL FROM'', fill_from fill), (''ORDER BY WITH FILL TO'', fill_to fill),
      (''ORDER BY WITH FILL STEP'', fill_step fill), (''ORDER BY WITH FILL STALENESS'', fill_staleness fill)]"

definition order_item_check :: "resolve_env \<Rightarrow> resolver \<Rightarrow> select_scope list \<Rightarrow> order_item \<Rightarrow> unit run" where
  "order_item_check env rec scopes item = (case item of
       OrderOther k \<Rightarrow> run_fail (Errorf ''ORDER BY item %T is not supported'' [k])
     | OrderItem None _ \<Rightarrow> run_fail (Errorf ''ORDER BY item %T is not supported'' [''*parser.OrderExpr''])
     | OrderItem (Some e) fill \<Rightarrow>
         run_bind (validateClauseExpression env rec scopes ''ORDER BY'' e) (\<lambda>t.
           run_option (\<lambda>f. run_each (\<lambda>part. validateOrderFillExpression env rec scopes part t) (fill_parts f)) fill))"

definition group_texts :: "resolve_env \<Rightarrow> (string \<times> expr) list \<Rightarrow> expr list \<Rightarrow> string list" where
  "group_texts env aliases keys = concat (map (\<lambda>e. re_format env e # (case unwrapColumnExpression e of
       EIdent name _ \<Rightarrow> (case map_of aliases name of Some expansion \<Rightarrow> [re_format env expansion] | None \<Rightarrow> [])
     | _ \<Rightarrow> [])) keys)"

definition group_key :: "resolve_env \<Rightarrow> resolver \<Rightarrow> select_scope list \<Rightarrow> expr \<Rightarrow> unit run" where
  "group_key env rec scopes e =
     run_bind (with_scope scopes (validateClauseFunctionPlacement env ''GROUP BY'' e False)) (\<lambda>_.
     run_bind (validateClauseExpression env rec scopes ''GROUP BY'' e) (\<lambda>_. run_return ()))"

definition validateGroupByClause ::
    "resolve_env \<Rightarrow> resolver \<Rightarrow> select_scope list \<Rightarrow> select_item list \<Rightarrow> group_clause \<Rightarrow> unit run" where
  "validateGroupByClause env rec scopes items clause = (case group_keys clause of
       None \<Rightarrow> run_fail (Errorf ''GROUP BY shape is not supported'' [])
     | Some keys \<Rightarrow>
         if \<not> group_plain clause then run_fail (Errorf ''GROUP BY shape is not supported'' [])
         else run_bind (run_each (group_key env rec scopes) keys) (\<lambda>_.
           with_scope scopes (\<lambda>scope. check_all (\<lambda>item. validateGroupedExpression env
             (group_texts env (projectionExprs (top_level scope)) keys) scope (si_expr item)) items)))"

section \<open>The clauses in their order\<close>

definition resolve_items :: "resolve_env \<Rightarrow> resolver \<Rightarrow> select_scope list \<Rightarrow> select_item list \<Rightarrow> unit run" where
  "resolve_items env rec scopes items = run_each (\<lambda>item. resolveScalarSubqueriesInExpr env rec scopes (si_expr item)) items"

definition prewhere_check :: "resolve_env \<Rightarrow> resolver \<Rightarrow> select_scope list \<Rightarrow> expr \<Rightarrow> unit run" where
  "prewhere_check env rec scopes e =
     run_bind (with_scope scopes (\<lambda>scope. if expressionUsesArrayJoinOutput env e scope
         then Inl (Errorf ''PREWHERE cannot use an ARRAY JOIN output'' []) else Inr ())) (\<lambda>_.
       placed_condition env rec scopes ''PREWHERE'' False e)"

definition top_check :: "resolve_env \<Rightarrow> resolver \<Rightarrow> select_scope list \<Rightarrow> bool \<Rightarrow> expr \<times> bool \<Rightarrow> unit run" where
  "top_check env rec scopes ordered top_clause =
     run_bind (validateLimitExpression env rec scopes ''TOP'' (fst top_clause)) (\<lambda>_.
       if snd top_clause \<and> \<not> ordered then run_fail (Errorf ''TOP WITH TIES requires ORDER BY'' []) else run_return ())"

definition plain_aggregates :: "resolve_env \<Rightarrow> select_body \<Rightarrow> queryScope \<Rightarrow> unit result" where
  "plain_aggregates env body scope =
     (if sb_group_by body = None \<and> selectQueryHasAggregate env body
      then check_all (\<lambda>item. wrap_error ''aggregate projection: %w'' []
             (validateGroupedExpression env [] scope (si_expr item))) (sb_items body)
      else Inr ())"

text \<open>The clauses that do not see the types of the projection, in the order of the checks.\<close>

definition row_clauses :: "resolve_env \<Rightarrow> resolver \<Rightarrow> select_body \<Rightarrow> select_scope list \<Rightarrow> unit run list" where
  "row_clauses env rec body scopes =
     [run_option (prewhere_check env rec scopes) (sb_prewhere body),
      run_option (placed_condition env rec scopes ''WHERE'' False) (sb_where body),
      run_option (validateJoinConditions env rec scopes) (sb_from body),
      run_option (\<lambda>keys. with_scope scopes (validateDistinctOn env keys)) (sb_distinct_on body),
      run_option (top_check env rec scopes (sb_order_by body \<noteq> None)) (sb_top body),
      run_option (validateGroupByClause env rec scopes (sb_items body)) (sb_group_by body),
      with_scope scopes (plain_aggregates env body),
      resolve_items env rec scopes (sb_items body)]"

definition sees_aliases :: "select_body \<Rightarrow> bool" where
  "sees_aliases body \<longleftrightarrow> sb_having body \<noteq> None \<or> sb_order_by body \<noteq> None \<or> sb_limit_by body \<noteq> None"

text \<open>The types that were added before a failure stay in the scope.\<close>

fun addProjectionAliases ::
    "resolve_env \<Rightarrow> scalar_maps \<Rightarrow> select_item list \<Rightarrow> select_scope list \<Rightarrow> select_scope list \<times> error option" where
  "addProjectionAliases env maps [] scopes = (scopes, None)"
| "addProjectionAliases env maps (item # items) scopes =
     (case add_alias_type env (\<lambda>level. read_scope maps (on_level (\<lambda>_. level) scopes)) item (sc_level (top_scope scopes)) of
        Inl err \<Rightarrow> (scopes, Some err)
      | Inr level \<Rightarrow> addProjectionAliases env maps items (on_level (\<lambda>_. level) scopes))"

definition order_check :: "resolve_env \<Rightarrow> resolver \<Rightarrow> select_body \<Rightarrow> select_scope list \<Rightarrow> order_item list \<Rightarrow> unit run" where
  "order_check env rec body scopes items = run_bind (run_each (order_item_check env rec scopes) items) (\<lambda>_.
     if sb_interpolate body then run_fail (Errorf ''ORDER BY INTERPOLATE semantic validation is not supported'' [])
     else run_return ())"

definition limit_by_check :: "resolve_env \<Rightarrow> resolver \<Rightarrow> select_scope list \<Rightarrow> limit_by_clause \<Rightarrow> unit run" where
  "limit_by_check env rec scopes clause =
     run_bind (validateLimitClause env rec scopes ''LIMIT BY'' (limit_by_limit clause)) (\<lambda>_.
       case limit_by_keys clause of
         Some (key # keys) \<Rightarrow> run_each (\<lambda>e. run_bind (validateClauseExpression env rec scopes ''LIMIT BY key'' e)
             (\<lambda>_. run_return ())) (key # keys)
       | _ \<Rightarrow> run_fail (Errorf ''LIMIT BY has no key expression'' []))"

definition result_clauses :: "resolve_env \<Rightarrow> resolver \<Rightarrow> select_body \<Rightarrow> select_scope list \<Rightarrow> unit run list" where
  "result_clauses env rec body scopes =
     [with_scope scopes (\<lambda>scope. if selectQueryHasAggregate env body then validateAggregateClauseCoverage env body scope else Inr ()),
      run_option (placed_condition env rec scopes ''HAVING'' True) (sb_having body),
      run_option (\<lambda>items. run_lift (validateSettingsClause items)) (sb_settings body),
      run_option (order_check env rec body scopes) (sb_order_by body),
      run_option (limit_by_check env rec scopes) (sb_limit_by body),
      run_option (\<lambda>limit. validateLimitClause env rec scopes ''LIMIT'' (Some limit)) (sb_limit body)]"

definition in_sequence :: "unit run list \<Rightarrow> unit run" where
  "in_sequence checks = run_each (\<lambda>m. m) checks"

text \<open>The scope after the checks, and the first failure.\<close>

definition validateExecutableSelectClauses ::
    "resolve_env \<Rightarrow> resolver \<Rightarrow> select_body \<Rightarrow> select_scope list \<Rightarrow> resolve_state
     \<Rightarrow> (select_scope list \<times> error option) \<times> resolve_state" where
  "validateExecutableSelectClauses env rec body scopes st =
     (case in_sequence (row_clauses env rec body scopes) st of
        (Inl err, st1) \<Rightarrow> ((scopes, Some err), st1)
      | (Inr _, st1) \<Rightarrow>
          (case (if sees_aliases body then addProjectionAliases env (rs_maps st1) (sb_items body) scopes else (scopes, None)) of
             (scopes', Some err) \<Rightarrow> ((scopes', Some err), st1)
           | (scopes', None) \<Rightarrow> (case in_sequence (result_clauses env rec body scopes') st1 of
                 (Inl err, st2) \<Rightarrow> ((scopes', Some err), st2)
               | (Inr _, st2) \<Rightarrow> ((scopes', None), st2))))"

end
