(* ===== verification/Resolve.thy ===== *)
theory Resolve
  imports ResolveClauses
begin

text \<open>
  One SELECT in its scope, a query with its set operations, and the resolution of a whole query (\<^verbatim>\<open>resolver.go\<close>):
  \<^verbatim>\<open>resolveSelectScope\<close>, \<^verbatim>\<open>resolveSetQuery\<close> and \<^verbatim>\<open>resolveScope\<close>. The recursion into nested queries is bounded by a depth, as
  the inference of expressions is. The scope has no binding of \<^verbatim>\<open>sqlir\<close>.
\<close>

section \<open>One SELECT\<close>

definition new_scope :: "nat \<Rightarrow> select_scope list \<Rightarrow> select_scope" where
  "new_scope k parent = empty_scope\<lparr>sc_level := empty_level\<lparr>exactScalarNames := True\<rparr>,
     sc_relations := (case parent of [] \<Rightarrow> [] | outer # _ \<Rightarrow> sc_relations outer), sc_scalar_map := k\<rparr>"

definition opened_scope :: "resolve_env \<Rightarrow> select_body \<Rightarrow> select_scope list \<Rightarrow> nat \<Rightarrow> select_scope list result" where
  "opened_scope env body parent k =
     bind_res (configureWildcardSettings env body parent (new_scope k parent)) (\<lambda>sc.
     bind_res (addProjectionAliasExpressions env (sb_items body) (sc_level sc)) (\<lambda>level.
       Inr (sc\<lparr>sc_level := level\<rparr> # parent)))"

definition from_part :: "resolve_env \<Rightarrow> resolver \<Rightarrow> from_expr \<Rightarrow> select_scope list \<Rightarrow> select_scope list run" where
  "from_part env rec from scopes =
     run_bind (collectTables env rec from False
       (on_level (\<lambda>level. level\<lparr>fromBindingStart := length (scope_tables level)\<rparr>) scopes)) (\<lambda>scopes'.
       if top_tables scopes' = [] then run_fail (Errorf ''FROM clause contains no catalog table'' [])
       else run_bind (run_lift (recordJoinUsingTypes env from (sc_level (top_scope scopes')))) (\<lambda>level.
         run_return (on_level (\<lambda>_. level) scopes')))"

definition add_window :: "(string \<times> window_spec) option \<Rightarrow> window_table \<Rightarrow> window_table result" where
  "add_window w table = (case w of
       None \<Rightarrow> Inl (Errorf ''WINDOW clause has an empty definition'' [])
     | Some (name, spec) \<Rightarrow>
         if map_of table name \<noteq> None then Inl (Errorf ''WINDOW clause defines %s more than once'' [name])
         else Inr (table @ [(name, spec)]))"

definition window_part ::
    "resolve_env \<Rightarrow> (string \<times> window_spec) option list \<Rightarrow> select_scope list \<Rightarrow> select_scope list run" where
  "window_part env defs scopes = run_maps (\<lambda>maps.
     bind_res (fold_res add_window defs (windows (sc_level (top_scope scopes)))) (\<lambda>table.
       let scopes' = on_level (\<lambda>level. level\<lparr>windows := table\<rparr>) scopes in
       bind_res (validateNamedWindowDefinitions (re_type env (read_scope maps scopes')) table) (\<lambda>_. Inr scopes')))"

definition alias_part :: "resolve_env \<Rightarrow> resolver \<Rightarrow> select_scope list \<Rightarrow> unit run" where
  "alias_part env rec scopes = run_each (\<lambda>(name, e). run_wrap ''projection alias %s: %w'' [name]
     (resolveScalarSubqueriesInExpr env rec scopes e)) (projectionExprs (sc_level (top_scope scopes)))"

text \<open>A failure of the clauses is told after the nested queries of the results are resolved.\<close>

definition clause_part ::
    "resolve_env \<Rightarrow> resolver \<Rightarrow> select_body \<Rightarrow> select_scope list \<Rightarrow> (select_scope list \<times> select_item list) run" where
  "clause_part env rec body scopes st = (case validateExecutableSelectClauses env rec body scopes st of
       ((scopes', failure), st1) \<Rightarrow>
         run_bind (resolve_items env rec scopes' (sb_items body)) (\<lambda>_. case failure of
             Some err \<Rightarrow> run_fail err | None \<Rightarrow> run_return (scopes', sb_items body)) st1)"

definition run_some :: "('a \<Rightarrow> 's \<Rightarrow> 's run) \<Rightarrow> 'a option \<Rightarrow> 's \<Rightarrow> 's run" where
  "run_some f x s = (case x of None \<Rightarrow> run_return s | Some y \<Rightarrow> f y s)"

definition resolveSelectScope ::
    "resolve_env \<Rightarrow> resolver \<Rightarrow> select_body \<Rightarrow> select_scope list \<Rightarrow> (select_scope list \<times> select_item list) run" where
  "resolveSelectScope env rec body parent st =
     run_bind (run_lift (opened_scope env body parent (rs_current st))) (\<lambda>scopes.
     run_bind (run_some (resolveWithClause env rec) (sb_with body) scopes) (\<lambda>scopes.
     run_bind (run_some (from_part env rec) (sb_from body) scopes) (\<lambda>scopes.
     run_bind (run_lift (expandSelectWildcards env (sb_items body) (top_scope scopes))) (\<lambda>items.
     run_bind (alias_part env rec scopes) (\<lambda>_.
     run_bind (run_some (window_part env) (sb_windows body) scopes) (\<lambda>scopes.
       clause_part env rec (body\<lparr>sb_items := items\<rparr>) scopes)))))) st"

section \<open>Set operations\<close>

type_synonym branch = "select_scope list \<times> select_item list"

definition in_branch :: "nat \<Rightarrow> nat \<Rightarrow> 'a run \<Rightarrow> 'a run" where
  "in_branch n k m = (if n = 1 then m else run_wrap ''set branch %d: %w'' [itoa (int k)] m)"

definition check_widths :: "branch list \<Rightarrow> nat \<Rightarrow> unit result" where
  "check_widths branches width =
     (if width = 0 then Inl (Errorf ''set branch 1 has no result expressions'' [])
      else case List.find (\<lambda>(k, _, items). length items \<noteq> width) (zip [1..<length branches + 1] branches) of
          Some (k, _, items) \<Rightarrow> Inl (Errorf ''set branch %d has %d result columns, want column count %d''
              [itoa (int k), itoa (int (length items)), itoa (int width)])
        | None \<Rightarrow> Inr ())"

definition column_name_of :: "resolve_env \<Rightarrow> bool \<Rightarrow> select_item \<Rightarrow> nat \<Rightarrow> string result" where
  "column_name_of env requireNames item i = (case selectItemSQLName (re_format env) item of
       Inr name \<Rightarrow> Inr name
     | Inl err \<Rightarrow>
         if requireNames then Inl (Wrapf ''set result column %d name: %w'' [itoa (int i + 1)] err)
         else Inr (''_chgen_set_column_'' @ itoa (int i + 1)))"

definition branch_type :: "resolve_env \<Rightarrow> scalar_maps \<Rightarrow> nat \<Rightarrow> nat \<Rightarrow> nat \<times> branch \<Rightarrow> chtype result" where
  "branch_type env maps n i numbered = (case numbered of (k, scopes, items) \<Rightarrow>
     (case select_item_type env (read_scope maps scopes) (items ! i) of
        Inr t \<Rightarrow> Inr t
      | Inl err \<Rightarrow>
          if n = 1 then Inl err
          else Inl (Wrapf ''set branch %d result column %d: %w'' [itoa (int k), itoa (int i + 1)] err)))"

definition joined_type :: "chtype list \<Rightarrow> nat \<Rightarrow> chtype result" where
  "joined_type types i = (case types of
       [t] \<Rightarrow> Inr t
     | _ \<Rightarrow> wrap_error ''set result column %d has no common type: %w'' [itoa (int i + 1)] (commonSetOperationTypes types))"

definition set_column :: "resolve_env \<Rightarrow> scalar_maps \<Rightarrow> bool \<Rightarrow> branch list \<Rightarrow> nat \<Rightarrow> (string \<times> chtype) result" where
  "set_column env maps requireNames branches i =
     bind_res (column_name_of env requireNames (snd (hd branches) ! i) i) (\<lambda>name.
     bind_res (map_res (branch_type env maps (length branches) i) (zip [1..<length branches + 1] branches)) (\<lambda>types.
     bind_res (joined_type types i) (\<lambda>t. Inr (name, t))))"

definition set_results :: "resolve_env \<Rightarrow> bool \<Rightarrow> branch list \<Rightarrow> scalar_maps \<Rightarrow> (string \<times> chtype) list result" where
  "set_results env requireNames branches maps =
     (let width = length (snd (hd branches)) in
      bind_res (check_widths branches width) (\<lambda>_. map_res (set_column env maps requireNames branches) [0..<width]))"

text \<open>The scope of the branches after the first; a query in parentheses keeps its WITH to itself.\<close>

definition shared_scope :: "select_query \<Rightarrow> select_scope list \<Rightarrow> select_scope list \<Rightarrow> nat \<Rightarrow> select_scope list" where
  "shared_scope q scopes parent k =
     (if sq_inner q \<noteq> None then cteOnlyScope (empty_scope\<lparr>sc_scalar_map := k\<rparr>) parent
      else cteOnlyScope (top_scope scopes) parent)"

definition later_branches ::
    "resolve_env \<Rightarrow> resolver \<Rightarrow> select_query \<Rightarrow> select_query list \<Rightarrow> branch \<Rightarrow> select_scope list \<Rightarrow> branch list run" where
  "later_branches env rec q rest branch parent st =
     run_map (\<lambda>(k, leaf). run_wrap ''set branch %d: %w'' [itoa (int k)]
         (resolveSelectScope env rec (sq_body leaf) (shared_scope q (fst branch) parent (rs_current st))))
       (zip [2..<length rest + 2] rest) st"

definition resolveSetQuery :: "resolve_env \<Rightarrow> resolver \<Rightarrow> resolver" where
  "resolveSetQuery env rec q parent requireNames = run_bind (run_lift (setQueryLeaves q)) (\<lambda>leaves. case leaves of
       [] \<Rightarrow> run_fail (Errorf ''set query has no SELECT branch'' [])
     | leaf # rest \<Rightarrow>
         run_bind (in_branch (length leaves) 1 (resolveSelectScope env rec (sq_body leaf) parent)) (\<lambda>branch.
         run_bind (later_branches env rec q rest branch parent) (\<lambda>branches.
         run_bind (run_maps (set_results env requireNames (branch # branches))) (\<lambda>results.
           run_return \<lparr>rv_scope = fst branch, rv_results = results, rv_items = snd branch\<rparr>))))"

section \<open>Closing the recursion\<close>

text \<open>Queries nest at most \<open>n\<close> deep; \<open>call_depth_exceeded\<close> stands for a stack that is too deep.\<close>

fun resolve_at :: "resolve_env \<Rightarrow> nat \<Rightarrow> resolver" where
  "resolve_at env 0 q parent requireNames = run_fail call_depth_exceeded"
| "resolve_at env (Suc n) q parent requireNames = resolveSetQuery env (resolve_at env n) q parent requireNames"

definition first_state :: resolve_state where
  "first_state = \<lparr>rs_maps = [[]], rs_marks = [[]], rs_current = 0\<rparr>"

text \<open>A query without set operations has no results yet: they are typed after the parameters.\<close>

definition resolveScope :: "resolve_env \<Rightarrow> nat \<Rightarrow> select_query \<Rightarrow> resolved run" where
  "resolveScope env n q =
     (if selectQueryHasSetOperation q then resolveSetQuery env (resolve_at env n) q [] False
      else run_bind (resolveSelectScope env (resolve_at env n) (sq_body q) []) (\<lambda>(scopes, items).
        run_return \<lparr>rv_scope = scopes, rv_results = [], rv_items = items\<rparr>))"

end
