(* ===== verification/ResolveQuery.thy ===== *)
theory ResolveQuery
  imports Resolve QueryChecks
begin

text \<open>
  The resolution of an annotated query (\<^verbatim>\<open>resolveQueryWithUncheckedSettings\<close> of \<^verbatim>\<open>resolver.go\<close>): its settings, the contracts of
  its results (\<^verbatim>\<open>result_contract.go\<close>), its parameters and the typed result columns. The SQL parser and the walk that
  types the placeholders are parameters.
\<close>

text \<open>
  A statement of the parser: its SETTINGS clauses, and what it is when they are replaced. \<open>rw_params\<close> is \<^verbatim>\<open>resolveParams\<close>,
  \<open>rw_exec\<close> \<^verbatim>\<open>resolveExecParams\<close> and \<open>rw_contracts\<close> \<^verbatim>\<open>collectExpressionContracts\<close>.
\<close>

type_synonym settings_clauses = "(string option \<times> expr option) list list"

record statement_tree =
  st_settings :: settings_clauses
  st_select :: "settings_clauses \<Rightarrow> (resolve_env \<times> select_query) option"
  st_kind :: string

record resolve_walks =
  rw_parse :: "string \<Rightarrow> command \<Rightarrow> statement_tree list result"
  rw_params :: "query \<Rightarrow> resolve_env \<Rightarrow> select_query \<Rightarrow> resolved \<Rightarrow> resolve_state \<Rightarrow> query result"
  rw_exec :: "query \<Rightarrow> statement_tree \<Rightarrow> query result"
  rw_contracts :: "query \<Rightarrow> resolve_env \<Rightarrow> select_query \<Rightarrow> resolved \<Rightarrow> resolve_state \<Rightarrow> query result"
  rw_depth :: nat

section \<open>Contracts of results\<close>

definition contract_aliases :: "query \<Rightarrow> string list" where
  "contract_aliases q = sorted_list_of_set (dom (q_contracts q))"

declare contract_aliases_def [code del]

definition star_item :: "expr \<Rightarrow> bool" where
  "star_item e \<longleftrightarrow> (case unwrapColumnExpression e of EIdent name _ \<Rightarrow> name = ''*'' | _ \<Rightarrow> False)"

definition contract_line_of :: "query \<Rightarrow> string \<Rightarrow> string" where
  "contract_line_of q alias = (case q_contracts q alias of Some (_, n) \<Rightarrow> itoa (int n) | None \<Rightarrow> ''0'')"

definition validateResultContractTargets :: "query \<Rightarrow> select_query \<Rightarrow> unit result" where
  "validateResultContractTargets q select =
     (if contract_aliases q = [] then Inr ()
      else if selectQueryHasSetOperation select
      then Inl (Errorf ''result-chtype supports ordinary outer SELECT outputs, not set operations'' [])
      else if list_ex (\<lambda>item. star_item (si_expr item)) (sq_items select)
      then Inl (Errorf ''result-chtype does not support star expansion'' [])
      else check_all (\<lambda>alias.
        if count_list (List.map_filter si_alias (sq_items select)) alias \<noteq> 1
        then Inl (Errorf ''%s:%d: result-chtype %q requires one unique explicit output alias'' [q_file q, contract_line_of q alias, alias])
        else Inr ()) (contract_aliases q))"

text \<open>A contract stands for a type that the inference does not know, and never overrides one that it knows.\<close>

definition contracted_type ::
    "resolve_env \<Rightarrow> query \<Rightarrow> queryScope \<Rightarrow> select_item \<Rightarrow> string \<Rightarrow> chtype \<Rightarrow> (chtype \<times> string list) result" where
  "contracted_type env q scope item name asserted = (case select_item_type env scope item of
       Inr inferred \<Rightarrow>
         if to_string inferred \<noteq> to_string asserted
         then Inl (Errorf ''%s:%d: result-chtype %s asserts %s, inferred %s''
                [q_file q, contract_line_of q name, name, to_string asserted, to_string inferred])
         else Inr (asserted, [])
     | Inl err \<Rightarrow>
         if missing_function err = None \<and> \<not> is_placeholder_error err then Inl (Wrapf ''result %s: %w'' [name] err)
         else bind_res (wrap_error ''%s:%d: result-chtype %s: %w'' [q_file q, contract_line_of q name, name]
                (validateAssertedFunction env scope (si_expr item))) (\<lambda>_. Inr (asserted, [name])))"

definition contract_result ::
    "resolve_env \<Rightarrow> query \<Rightarrow> queryScope \<Rightarrow> select_item \<Rightarrow> ((string \<times> chtype) \<times> string list) result" where
  "contract_result env q scope item = bind_res (selectItemSQLName (re_format env) item) (\<lambda>name.
     case q_contracts q name of
       None \<Rightarrow> bind_res (wrap_error ''result %s: %w'' [name] (select_item_type env scope item)) (\<lambda>t. Inr ((name, t), []))
     | Some (asserted, _) \<Rightarrow> bind_res (contracted_type env q scope item name asserted) (\<lambda>(t, unverified).
         Inr ((name, t), unverified)))"

text \<open>The results and the names that no inference has checked; no contract: no results.\<close>

definition resolveResultContracts ::
    "resolve_env \<Rightarrow> query \<Rightarrow> queryScope \<Rightarrow> select_item list \<Rightarrow> ((string \<times> chtype) list \<times> string list) result" where
  "resolveResultContracts env q scope items =
     (if contract_aliases q = [] then Inr ([], [])
      else bind_res (map_res (contract_result env q scope) items) (\<lambda>rs. Inr (map fst rs, concat (map snd rs))))"

section \<open>Results\<close>

definition named_result :: "result_column list \<Rightarrow> string \<Rightarrow> result_column" where
  "named_result overrides name = (case List.find (\<lambda>r. r_sql_name r = name) overrides of
       Some r \<Rightarrow> r
     | None \<Rightarrow> \<lparr>r_name = exportedIdentifier name, r_sql_name = name, r_go_type = [], r_type = zero_type, r_asserted = False\<rparr>)"

definition contract_hint :: "resolve_env \<Rightarrow> queryScope \<Rightarrow> select_item \<Rightarrow> error \<Rightarrow> error" where
  "contract_hint env scope item err = (case si_alias item of
       Some alias \<Rightarrow>
         if missing_function err \<noteq> None \<and> is_ok (validateAssertedFunction env scope (si_expr item))
         then Wrapf ''%w; this output can declare a runtime-checked -- result-chtype: %s ClickHouseType contract'' [alias] err
         else err
     | None \<Rightarrow> err)"

definition item_result ::
    "resolve_env \<Rightarrow> queryScope \<Rightarrow> result_column list \<Rightarrow> bool \<Rightarrow> nat \<times> select_item \<Rightarrow> (string \<times> chtype) result" where
  "item_result env scope overrides requireNames numbered =
     (case selectItemSQLName (re_format env) (snd numbered) of
        Inl err \<Rightarrow>
          if requireNames then Inl err
          else (let name = ''_chgen_insert_column_'' @ itoa (int (fst numbered) + 1); r = named_result overrides name in
            bind_res (wrap_error ''result %s (%s): %w'' [r_name r, r_sql_name r] (select_item_type env scope (snd numbered)))
              (\<lambda>t. Inr (name, t)))
      | Inr name \<Rightarrow>
          (let r = named_result overrides name in
           case select_item_type env scope (snd numbered) of
             Inr t \<Rightarrow> Inr (name, t)
           | Inl err \<Rightarrow> Inl (Wrapf ''result %s (%s): %w'' [r_name r, r_sql_name r] (contract_hint env scope (snd numbered) err))))"

definition nameTopLevelSetResults ::
    "resolve_env \<Rightarrow> select_item list \<Rightarrow> (string \<times> chtype) list \<Rightarrow> (string \<times> chtype) list result" where
  "nameTopLevelSetResults env items results =
     (if length items \<noteq> length results then Inl (Errorf ''set result name vector does not match the first branch'' [])
      else bind_res (map_res (selectItemSQLName (re_format env)) items) (\<lambda>names. Inr (zip names (map snd results))))"

definition ensureTopLevelQueryResults ::
    "resolve_env \<Rightarrow> queryScope \<Rightarrow> select_item list \<Rightarrow> (string \<times> chtype) list \<Rightarrow> result_column list \<Rightarrow> bool
     \<Rightarrow> (string \<times> chtype) list result" where
  "ensureTopLevelQueryResults env scope items results overrides requireNames =
     (if results = [] then map_res (item_result env scope overrides requireNames) (zip [0..<length items] items)
      else if requireNames then nameTopLevelSetResults env items results else Inr results)"

fun repeated_annotation :: "string list \<Rightarrow> string list \<Rightarrow> string option" where
  "repeated_annotation seen [] = None"
| "repeated_annotation seen (x # xs) = (if x \<in> set seen then Some x else repeated_annotation (x # seen) xs)"

definition typed_result :: "query \<Rightarrow> string \<times> chtype \<Rightarrow> result_column result" where
  "typed_result q result = (case result of (name, t) \<Rightarrow>
     let r = named_result (q_results q) name in
     bind_res (wrap_error ''result %s (%s): %w'' [r_name r, r_sql_name r] (goType t)) (\<lambda>g.
       let typed = r\<lparr>r_go_type := if r_go_type r = [] then g else r_go_type r, r_type := t,
             r_asserted := q_contracts q name \<noteq> None \<or> q_unverified_expressions q \<noteq> [],
             r_name := if r_name r = [] then exportedIdentifier (r_sql_name r) else r_name r\<rparr> in
       if r_go_type typed = [] then Inr typed
       else bind_res (wrap_error ''result %s: %w'' [r_name typed] (validateGoType (r_go_type typed))) (\<lambda>_. Inr typed)))"

definition finish_results :: "query \<Rightarrow> (string \<times> chtype) list \<Rightarrow> query result" where
  "finish_results q results =
     bind_res (map_res (typed_result q) results) (\<lambda>typed.
     bind_res (validateResultGoNames typed) (\<lambda>_.
       case (if q_wildcard_sql q = [] then None
             else List.find (\<lambda>name. name \<notin> set (map r_sql_name typed)) (map r_sql_name (q_results q))) of
         Some name \<Rightarrow> Inl (Errorf ''result annotation references missing SELECT column %q'' [name])
       | None \<Rightarrow> Inr (q\<lparr>q_results := typed\<rparr>)))"

section \<open>A whole query\<close>

definition query_scope_error :: "query \<Rightarrow> error \<Rightarrow> error" where
  "query_scope_error q err =
     (if contract_aliases q \<noteq> [] \<and> missing_function err \<noteq> None
      then Wrapf ''%w; result-chtype does not supply types to unresolved nested scopes or aliases used in other clauses'' [] err
      else err)"

definition resolve_results ::
    "resolve_walks \<Rightarrow> resolve_env \<Rightarrow> query \<Rightarrow> select_query \<Rightarrow> resolved \<Rightarrow> resolve_state \<Rightarrow> query result" where
  "resolve_results walks env q select r st =
     (let scope = read_scope (rs_maps st) (rv_scope r) in
      bind_res (rw_params walks q env select r st) (\<lambda>q1.
      case repeated_annotation [] (map r_sql_name (q_results q1)) of
        Some name \<Rightarrow> Inl (Errorf ''duplicate result annotation for %q'' [name])
      | None \<Rightarrow>
          bind_res (resolveResultContracts env q1 scope (rv_items r)) (\<lambda>(contracted, unverified).
          bind_res (ensureTopLevelQueryResults env scope (rv_items r)
             (if contracted = [] then rv_results r else contracted) (q_results q1) True) (\<lambda>results.
          bind_res (rw_contracts walks (q1\<lparr>q_unverified_results := q_unverified_results q1 @ unverified\<rparr>) env select r st)
            (\<lambda>q2. finish_results q2 results)))))"

definition resolve_select :: "resolve_walks \<Rightarrow> resolve_env \<Rightarrow> query \<Rightarrow> select_query \<Rightarrow> query result" where
  "resolve_select walks env q select =
     (let wild = list_ex (\<lambda>item. snd (selectWildcardQualifier (re_qualified env) (si_expr item))) (sq_items select);
          q1 = (if wild then q\<lparr>q_wildcard_sql := q_sql q\<rparr> else q) in
      bind_res (validateResultContractTargets q1 select) (\<lambda>_.
        case resolveScope env (rw_depth walks) select first_state of
          (Inl err, _) \<Rightarrow> Inl (query_scope_error q1 err)
        | (Inr r, st) \<Rightarrow> resolve_results walks env q1 select r st))"

definition resolveQueryWithUncheckedSettings :: "resolve_walks \<Rightarrow> query \<Rightarrow> string list \<Rightarrow> query result" where
  "resolveQueryWithUncheckedSettings walks q unchecked =
     bind_res (wrap_error ''parse SQL for type resolution: %w'' [] (rw_parse walks (q_sql q) (q_command q))) (\<lambda>statements.
       case statements of
         [statement] \<Rightarrow>
           bind_res (omitUncheckedSettingsForResolution unchecked (st_settings statement)) (\<lambda>clauses.
           let q1 = q\<lparr>q_unchecked_settings := q_unchecked_settings q
                       @ filter (\<lambda>name. map_of selectSettingRoster name = None) unchecked\<rparr> in
           if q_command q1 = CommandExec then rw_exec walks q1 statement
           else (case st_select statement clauses of
               None \<Rightarrow> Inl (Errorf ''%s query must be a SELECT, got %T'' [command_text (q_command q1), st_kind statement])
             | Some (env, select) \<Rightarrow> resolve_select walks env q1 select))
       | _ \<Rightarrow> Inl (Errorf ''expected exactly one SQL statement, got %d'' [itoa (int (length statements))]))"

text \<open>A query for the generator has no wildcard, unless the catalog has resolved it; \<open>server\<close>: a server has.\<close>

definition validateWildcardResolution :: "check_env \<Rightarrow> bool \<Rightarrow> query \<Rightarrow> unit result" where
  "validateWildcardResolution env server q =
     (if q_command q = CommandExec \<or> server then Inr ()
      else bind_res (ce_parse env (q_sql q) False) (\<lambda>statements. case statements of
          [view] \<Rightarrow> (case sv_select view of
              Some select \<Rightarrow>
                if list_ex (\<lambda>item. snd (selectWildcardQualifier (ce_qualified env) (si_expr item))) (sq_items select)
                   \<and> q_wildcard_sql q = []
                then Inl (Errorf ''wildcard results require catalog resolution; parse the query before generation'' [])
                else Inr ()
            | None \<Rightarrow> Inr ())
        | _ \<Rightarrow> Inr ()))"

text \<open>The queries of a file without compositions, resolved by the model of the resolver.\<close>

definition resolved_file ::
    "contract_parser \<Rightarrow> check_env \<Rightarrow> ((string \<rightharpoonup> table) \<Rightarrow> resolve_walks) \<Rightarrow> (string \<rightharpoonup> table) \<Rightarrow> (string \<rightharpoonup> table)
     \<Rightarrow> string \<Rightarrow> string \<Rightarrow> query list result" where
  "resolved_file parser env walks externals physicals path input =
     parseQueriesInFile parser (resolveBuiltQuery env
       (\<lambda>q tables settings. resolveQueryWithUncheckedSettings (walks tables) q settings) externals physicals) path input"

end
