(* ===== verification/Spec2Isabelle.thy ===== *)
theory Spec2Isabelle
  imports Values ArithmeticFacts TransportFacts TemporalFacts ContainerFacts VerdictFacts TypeRoundTrip
    CatalogFacts SqlScanFacts DomainFacts SignatureFacts CombinatorFacts Suggest Termination
    QueryTextFacts ParserTextFacts CompositionFacts ResolveQuery
begin

text \<open>
  chgen reads ClickHouse DDL and annotated queries and writes type-safe Go code. Its engine
  (\<^verbatim>\<open>src/internal/engine\<close>) has no server beside it: the schema is replayed from the DDL files, every
  result type is inferred from measured rules, and the generated code checks the values that the Go
  types are too wide for. This development models the rules of that inference, the schema catalog and
  the generators of the checks, and proves what they promise.

  \<^bold>\<open>How the parts interact.\<close> The schema loader scans a DDL file, hands it to the third-party SQL
  parser and applies the statements to the catalog; the type parser turns the syntax of a column type
  into a \<open>chtype\<close>. The expression walk (\<open>infer_step\<close>) looks names up in a stack of scopes, expands
  projection aliases, and sends every node to its rule: an operator, a CASE, a window, or a call. For a
  call it asks the function registry for a signature, an argument domain, a type rule, a wrapper class
  and a parameter policy: the call is checked against the signature, the arguments against the domain,
  their wrappers are taken off, the rule gives a type through the supertype lattice or a container
  constructor, the verdict gate decides what happens to its parameters, and the wrapper transport puts
  wrappers back. Aggregate combinators do all of this for a composed name; conditions that fold to a
  constant spare a call its dead branch. From the result type follow the Go type, the range guards and
  the scan checks.

  \<^bold>\<open>The theories and what they model.\<close>
  Shared: \<^verbatim>\<open>Prelude\<close> (Go strings as byte lists, the \<^verbatim>\<open>strings\<close> and \<^verbatim>\<open>strconv\<close> routines the engine uses,
  Go errors as values of a sum), \<^verbatim>\<open>Interfaces\<close> (locales: a join of types that keeps values, a least
  join, a codec, a transition system with an invariant and its simulation by an abstract one; each is
  interpreted on definitions of the model in the theory that provides them).
  Types: \<^verbatim>\<open>CHTypes\<close> (\<^verbatim>\<open>CHType\<close> and its text, \<^verbatim>\<open>schema.go\<close>), \<^verbatim>\<open>TypeText\<close> (the text is injective),
  \<^verbatim>\<open>Wrappers\<close> (Nullable, LowCardinality, SimpleAggregateFunction), \<^verbatim>\<open>TypeParser\<close>, \<^verbatim>\<open>TypeParserFacts\<close>,
  \<^verbatim>\<open>TypeRoundTrip\<close> (the declared type of a column: \<^verbatim>\<open>parseCHType\<close>, its ranges, and that its text declares
  it again).
  Lattices: \<^verbatim>\<open>Numeric\<close>, \<^verbatim>\<open>Supertype\<close>, \<^verbatim>\<open>SupertypeFacts\<close>, \<^verbatim>\<open>Values\<close> (\<^verbatim>\<open>supertype.go\<close>: the common type of the
  branches of CASE, if, multiIf, array; symmetry, identity laws, least upper bounds, and that every value
  of every branch is a value of the result), \<^verbatim>\<open>Containers\<close>, \<^verbatim>\<open>ContainerFacts\<close> (array, map, tuple and their
  readers).
  Operators: \<^verbatim>\<open>Arithmetic\<close>, \<^verbatim>\<open>ArithmeticFacts\<close> (\<^verbatim>\<open>arithmetic.go\<close>: the result types of + - * / % and INTERVAL;
  exact results fit).
  Calls: \<^verbatim>\<open>Transport\<close>, \<^verbatim>\<open>TransportFacts\<close> (\<^verbatim>\<open>wrapper_transport.go\<close>), \<^verbatim>\<open>Verdicts\<close>, \<^verbatim>\<open>VerdictFacts\<close>
  (\<^verbatim>\<open>parameter_verdict.go\<close>), \<^verbatim>\<open>Domains\<close>, \<^verbatim>\<open>DomainFacts\<close> (\<^verbatim>\<open>argument_domain.go\<close>, \<^verbatim>\<open>geometry_alias.go\<close>: accept-sets
  and comparability), \<^verbatim>\<open>Signatures\<close>, \<^verbatim>\<open>SignatureFacts\<close> (\<^verbatim>\<open>gen_spec.go\<close>, \<^verbatim>\<open>function_signature.go\<close>),
  \<^verbatim>\<open>Combinators\<close>, \<^verbatim>\<open>CombinatorFacts\<close> (\<^verbatim>\<open>aggregate_combinator.go\<close>), \<^verbatim>\<open>Rules\<close> (the type rules that the registry
  rows name), \<^verbatim>\<open>Calls\<close> (\<^verbatim>\<open>function_evaluator.go\<close>, the conditional and logic families), \<^verbatim>\<open>Special\<close> (the
  calls of \<^verbatim>\<open>function_routes.go\<close> and date arithmetic), \<^verbatim>\<open>Lambdas\<close> (\<^verbatim>\<open>sized_constructor.go\<close>, the higher-order
  array functions).
  Expressions: \<^verbatim>\<open>Suggest\<close> (the suggestion of a misspelt name), \<^verbatim>\<open>Expr\<close> (the syntax tree the engine reads,
  scopes and column lookup), \<^verbatim>\<open>Constants\<close>, \<^verbatim>\<open>ConstantFacts\<close> (\<^verbatim>\<open>constant_condition.go\<close>: a folded condition has
  its truth in every row), \<^verbatim>\<open>Windows\<close> (\<^verbatim>\<open>window_validation.go\<close>), \<^verbatim>\<open>Operators\<close> (\<^verbatim>\<open>infer_operators.go\<close>, the
  binary operators of \<^verbatim>\<open>infer_expr.go\<close>), \<^verbatim>\<open>Infer\<close> (\<^verbatim>\<open>inferExprType\<close> and the dispatch of a call), \<^verbatim>\<open>Reach\<close>,
  \<^verbatim>\<open>StepCalls\<close>, \<^verbatim>\<open>Termination\<close> (which calls the inference makes, that it ends on acyclic definitions, and two
  circles that the source does not guard).
  Schema: \<^verbatim>\<open>Catalog\<close>, \<^verbatim>\<open>SqlScan\<close>, \<^verbatim>\<open>CatalogLoad\<close>, \<^verbatim>\<open>CatalogFacts\<close>, \<^verbatim>\<open>SqlScanFacts\<close> (\<^verbatim>\<open>catalog.go\<close>,
  \<^verbatim>\<open>catalog_exchange.go\<close>, \<^verbatim>\<open>catalog_wait_view.go\<close>, \<^verbatim>\<open>schema.go\<close>, \<^verbatim>\<open>annotations.go\<close>).
  Output: \<^verbatim>\<open>GoTypes\<close> (\<^verbatim>\<open>gotype.go\<close>), \<^verbatim>\<open>Temporal\<close>, \<^verbatim>\<open>TemporalFacts\<close> (\<^verbatim>\<open>temporal.go\<close>: walk plans and the
  generators of guards and scan checks, proved to visit every time of a value).

  \<^bold>\<open>Conventions.\<close> A definition has the name of its Go function; a switch or a loop body that is its own
  definition has a name in lower case and underscores. A Go error is \<open>Errorf format args\<close> or \<open>Wrapf\<close> with
  the wrapped error, and a function that returns one is of type \<open>'a result\<close> (\<open>Inl\<close> the error); a nil
  pointer, a missing map entry and a panic are \<open>None\<close>. Letter case is ASCII. Integers are unbounded
  where no value of the program can leave its width, and words where it can (comparison classes are
  16-bit sets, Resample bounds are 64-bit). The finite floats of folded constants are rationals. All
  recursion is structural or has a termination proof, except the walk over expressions: it follows
  aliases and windows, which the source does not bound, so \<open>inferExprType\<close> takes the depth of its calls
  as an argument and answers \<open>call_depth_exceeded\<close> beneath it; \<open>inference_terminates\<close> says when some depth
  is enough.

  \<^bold>\<open>Parameters.\<close> The SQL parser and its formatter, the file system, the function registry (a map from
  names to the specification the lookups read) and \<^verbatim>\<open>strconv.ParseFloat\<close> are arguments of the definitions
  that use them. What the model reads of a syntax tree is a datatype with the forms the code
  distinguishes. A call infers its arguments when it is entered; the source infers each when it is first
  asked for and keeps the answer, which reads the same types. A map that is only iterated for a lookup
  up to letter case is read in the order of its association list.

  \<^bold>\<open>Not modelled.\<close> The resolution of a whole query (most of \<^verbatim>\<open>resolver.go\<close>: FROM, JOIN, CTEs, unions), its
  parameters and the emission of Go text, the generated registry rows, the command line, and the tools
  that talk to a server and compare reports; the emitted text of the fixed guard functions; the detail
  record of a diagnostic.
\<close>

end
